(* ===== verification/Prelude.thy ===== *)
theory Prelude
  imports
    Complex_Main
    "HOL-Library.AList"
    "HOL-Library.Char_ord"
    "HOL-Library.List_Lexorder"
    "HOL-Library.Product_Lexorder"
begin

text \<open>
  Shared vocabulary of the development: the Python values the sources compute with, the
  string methods they call, dictionaries that keep insertion order, and SQL tables as lists
  of rows in rowid order.

  Conventions.
  \<^item> A Python \<open>str\<close> is a \<^typ>\<open>string\<close> over ASCII; \<open>lower\<close> and \<open>casefold\<close> agree there.
  \<^item> A Python \<open>int\<close> is an \<^typ>\<open>int\<close>; a Python \<open>float\<close> is an exact rational: rounding, NaN
    and infinities of IEEE arithmetic are not modelled.
  \<^item> A raised exception is the left summand of a result.
  \<^item> \<open>time.time()\<close> is an argument \<open>now\<close> of the operation that reads the clock.
\<close>

type_synonym pyfloat = rat

named_theorems table_simps \<open>lookup, upsert, update and delete on tables\<close>
named_theorems pystr_simps \<open>string methods\<close>
named_theorems invs \<open>operations that preserve an invariant\<close>

text \<open>The exception classes that the database, service and worker layers raise.\<close>

datatype exn =
    ValueError string
  | RuntimeError string
  | IntegrityError
  | OperationCancelledError

section \<open>Numbers\<close>

text \<open>\<open>int(x)\<close> on a float truncates towards zero.\<close>

definition py_int :: "pyfloat \<Rightarrow> int" where
  "py_int x = (if 0 \<le> x then \<lfloor>x\<rfloor> else \<lceil>x\<rceil>)"

text \<open>Python's \<open>round\<close> on a float rounds halves to the even neighbour.\<close>

definition py_round :: "pyfloat \<Rightarrow> int" where
  "py_round x =
     (let f = \<lfloor>x\<rfloor>; d = x - of_int f in
      if d < 1 / 2 then f else if 1 / 2 < d then f + 1 else if even f then f else f + 1)"

lemma py_round_near: "\<bar>of_int (py_round x) - x\<bar> \<le> 1 / 2"
proof -
  have "of_int \<lfloor>x\<rfloor> \<le> x" "x < of_int \<lfloor>x\<rfloor> + 1" by linarith+
  then show ?thesis by (auto simp: py_round_def Let_def abs_le_iff)
qed

definition py_clamp :: "'a::linorder \<Rightarrow> 'a \<Rightarrow> 'a \<Rightarrow> 'a" where
  "py_clamp lo hi x = min hi (max lo x)"

text \<open>\<open>max(xs, default=d)\<close> and \<open>min(xs, default=d)\<close>.\<close>

fun py_max :: "'a::linorder \<Rightarrow> 'a list \<Rightarrow> 'a" where
  "py_max d [] = d"
| "py_max d (x # xs) = fold max xs x"

fun py_min :: "'a::linorder \<Rightarrow> 'a list \<Rightarrow> 'a" where
  "py_min d [] = d"
| "py_min d (x # xs) = fold min xs x"

lemma py_int_of_int [simp]: "py_int (of_int n) = n"
  by (simp add: py_int_def)

lemma py_clamp_bounds: "lo \<le> hi \<Longrightarrow> lo \<le> py_clamp lo hi x \<and> py_clamp lo hi x \<le> hi"
  by (simp add: py_clamp_def)

lemma py_clamp_id: "lo \<le> x \<Longrightarrow> x \<le> hi \<Longrightarrow> py_clamp lo hi x = x"
  by (simp add: py_clamp_def)

lemma fold_max_Max: "fold max xs x = Max (insert x (set xs))"
  by (metis Max.set_eq_fold list.simps(15))

lemma fold_min_Min: "fold min xs x = Min (insert x (set xs))"
  by (metis Min.set_eq_fold list.simps(15))

lemma py_max_eq: "xs \<noteq> [] \<Longrightarrow> py_max d xs = Max (set xs)"
  by (cases xs) (simp_all add: fold_max_Max)

lemma py_min_eq: "xs \<noteq> [] \<Longrightarrow> py_min d xs = Min (set xs)"
  by (cases xs) (simp_all add: fold_min_Min)

lemma py_max_ge: "x \<in> set xs \<Longrightarrow> x \<le> py_max d xs"
  by (cases "xs = []") (simp_all add: py_max_eq)

lemma py_min_le: "x \<in> set xs \<Longrightarrow> py_min d xs \<le> x"
  by (cases "xs = []") (simp_all add: py_min_eq)

lemma py_max_in: "xs \<noteq> [] \<Longrightarrow> py_max d xs \<in> set xs"
  by (simp add: py_max_eq)

lemma py_min_in: "xs \<noteq> [] \<Longrightarrow> py_min d xs \<in> set xs"
  by (simp add: py_min_eq)

section \<open>Strings\<close>

text \<open>\<open>str.isspace\<close> on one ASCII character: tab to carriage return, the four separators and
  the blank.\<close>

definition py_isspace :: "char \<Rightarrow> bool" where
  "py_isspace c = (let n = (of_char c :: nat) in (9 \<le> n \<and> n \<le> 13) \<or> (28 \<le> n \<and> n \<le> 32))"

definition py_isdigit :: "char \<Rightarrow> bool" where
  "py_isdigit c = (let n = (of_char c :: nat) in 48 \<le> n \<and> n \<le> 57)"

definition py_lower_char :: "char \<Rightarrow> char" where
  "py_lower_char c = (let n = (of_char c :: nat) in if 65 \<le> n \<and> n \<le> 90 then char_of (n + 32) else c)"

definition py_lower :: "string \<Rightarrow> string" where
  "py_lower s = map py_lower_char s"

definition lstrip_by :: "('a \<Rightarrow> bool) \<Rightarrow> 'a list \<Rightarrow> 'a list" where
  "lstrip_by p s = dropWhile p s"

definition rstrip_by :: "('a \<Rightarrow> bool) \<Rightarrow> 'a list \<Rightarrow> 'a list" where
  "rstrip_by p s = rev (dropWhile p (rev s))"

definition py_strip :: "string \<Rightarrow> string" where
  "py_strip s = rstrip_by py_isspace (lstrip_by py_isspace s)"

definition py_rstrip_char :: "char \<Rightarrow> string \<Rightarrow> string" where
  "py_rstrip_char c s = rstrip_by (\<lambda>x. x = c) s"

definition py_lstrip_char :: "char \<Rightarrow> string \<Rightarrow> string" where
  "py_lstrip_char c s = lstrip_by (\<lambda>x. x = c) s"

definition py_startswith :: "string \<Rightarrow> string \<Rightarrow> bool" where
  "py_startswith p s \<longleftrightarrow> take (length p) s = p"

definition py_endswith :: "string \<Rightarrow> string \<Rightarrow> bool" where
  "py_endswith p s \<longleftrightarrow> length p \<le> length s \<and> drop (length s - length p) s = p"

text \<open>\<open>s.replace(a, b)\<close> for one-character arguments.\<close>

definition py_replace :: "char \<Rightarrow> char \<Rightarrow> string \<Rightarrow> string" where
  "py_replace a b s = map (\<lambda>c. if c = a then b else c) s"

fun py_split :: "char \<Rightarrow> string \<Rightarrow> string list" where
  "py_split c [] = [[]]"
| "py_split c (x # xs) =
     (if x = c then [] # py_split c xs
      else (case py_split c xs of [] \<Rightarrow> [[x]] | y # ys \<Rightarrow> (x # y) # ys))"

text \<open>\<open>s.split()\<close>: maximal runs of non-space characters.\<close>

fun py_words_acc :: "string \<Rightarrow> string \<Rightarrow> string list" where
  "py_words_acc w [] = (if w = [] then [] else [rev w])"
| "py_words_acc w (x # xs) =
     (if py_isspace x then (if w = [] then py_words_acc [] xs else rev w # py_words_acc [] xs)
      else py_words_acc (x # w) xs)"

definition py_words :: "string \<Rightarrow> string list" where
  "py_words s = py_words_acc [] s"

fun py_join :: "string \<Rightarrow> string list \<Rightarrow> string" where
  "py_join sep [] = []"
| "py_join sep [x] = x"
| "py_join sep (x # y # ys) = x @ sep @ py_join sep (y # ys)"

text \<open>\<open>sub in s\<close>.\<close>

fun py_contains :: "string \<Rightarrow> string \<Rightarrow> bool" where
  "py_contains sub [] \<longleftrightarrow> sub = []"
| "py_contains sub (x # xs) \<longleftrightarrow> py_startswith sub (x # xs) \<or> py_contains sub xs"

text \<open>\<open>str(n)\<close> for an integer.\<close>

definition digit_char :: "nat \<Rightarrow> char" where
  "digit_char n = char_of (n + 48)"

fun show_nat :: "nat \<Rightarrow> string" where
  "show_nat n = (if n < 10 then [digit_char n] else show_nat (n div 10) @ [digit_char (n mod 10)])"

declare show_nat.simps [simp del]

definition show_int :: "int \<Rightarrow> string" where
  "show_int i = (if i < 0 then ''-'' @ show_nat (nat (- i)) else show_nat (nat i))"

text \<open>\<open>a or b\<close> for strings.\<close>

definition str_or :: "string \<Rightarrow> string \<Rightarrow> string" where
  "str_or a b = (if a = [] then b else a)"

section \<open>Dictionaries and order-preserving de-duplication\<close>

text \<open>A Python \<open>dict\<close> keeps insertion order: it is an association list with distinct keys,
  written with \<^const>\<open>AList.update\<close>, read with \<^const>\<open>map_of\<close>. \<open>list(dict.fromkeys(xs))\<close>
  keeps the first occurrence of every element.\<close>

type_synonym ('k, 'v) dict = "('k \<times> 'v) list"

fun fromkeys_acc :: "'a list \<Rightarrow> 'a list \<Rightarrow> 'a list" where
  "fromkeys_acc seen [] = []"
| "fromkeys_acc seen (x # xs) =
     (if x \<in> set seen then fromkeys_acc seen xs else x # fromkeys_acc (x # seen) xs)"

definition fromkeys :: "'a list \<Rightarrow> 'a list" where
  "fromkeys xs = fromkeys_acc [] xs"

definition dict_of :: "('k \<times> 'v) list \<Rightarrow> ('k, 'v) dict" where
  "dict_of kvs = fold (\<lambda>(k, v) d. AList.update k v d) kvs []"

section \<open>Loops that may raise\<close>

text \<open>A \<open>for\<close> loop whose body may raise: the first exception ends the loop.\<close>

fun fold_res :: "('a \<Rightarrow> 's \<Rightarrow> 'e + 's) \<Rightarrow> 'a list \<Rightarrow> 's \<Rightarrow> 'e + 's" where
  "fold_res f [] s = Inr s"
| "fold_res f (x # xs) s = (case f x s of Inl e \<Rightarrow> Inl e | Inr s' \<Rightarrow> fold_res f xs s')"

lemma fold_res_invariant:
  assumes "\<And>x s s'. x \<in> set xs \<Longrightarrow> P s \<Longrightarrow> f x s = Inr s' \<Longrightarrow> P s'"
    and "P s" and "fold_res f xs s = Inr s'"
  shows "P s'"
  using assms
proof (induction xs arbitrary: s)
  case Nil
  then show ?case by simp
next
  case (Cons x xs)
  from Cons.prems(3) obtain t where t: "f x s = Inr t" "fold_res f xs t = Inr s'"
    by (auto split: sum.splits)
  have "P t" by (rule Cons.prems(1) [OF _ Cons.prems(2) t(1)]) simp
  moreover have "P b" if "y \<in> set xs" "P a" "f y a = Inr b" for y a b
    using that by (intro Cons.prems(1) [of y a b]) simp_all
  ultimately show ?case using Cons.IH t(2) by blast
qed

lemma fold_res_append:
  "fold_res f (xs @ ys) s = (case fold_res f xs s of Inl e \<Rightarrow> Inl e | Inr s' \<Rightarrow> fold_res f ys s')"
  by (induction xs arbitrary: s) (auto split: sum.splits)

section \<open>SQL tables\<close>

text \<open>A table is the list of its rows in rowid order. \<open>tbl_get\<close> is a \<open>SELECT\<close> by primary key,
  \<open>tbl_upsert\<close> an \<open>INSERT ... ON CONFLICT(key) DO UPDATE\<close>, \<open>tbl_update\<close> an \<open>UPDATE ... WHERE\<close>
  and \<open>tbl_delete\<close> a \<open>DELETE ... WHERE\<close>.\<close>

definition tbl_get :: "('r \<Rightarrow> 'k) \<Rightarrow> 'k \<Rightarrow> 'r list \<Rightarrow> 'r option" where
  "tbl_get key k rows = List.find (\<lambda>r. key r = k) rows"

definition tbl_update :: "('r \<Rightarrow> bool) \<Rightarrow> ('r \<Rightarrow> 'r) \<Rightarrow> 'r list \<Rightarrow> 'r list" where
  "tbl_update p f rows = map (\<lambda>r. if p r then f r else r) rows"

definition tbl_upsert :: "('r \<Rightarrow> 'k) \<Rightarrow> 'r \<Rightarrow> ('r \<Rightarrow> 'r) \<Rightarrow> 'r list \<Rightarrow> 'r list" where
  "tbl_upsert key new upd rows =
     (if key new \<in> set (map key rows) then tbl_update (\<lambda>r. key r = key new) upd rows
      else rows @ [new])"

definition tbl_delete :: "('r \<Rightarrow> bool) \<Rightarrow> 'r list \<Rightarrow> 'r list" where
  "tbl_delete p rows = filter (\<lambda>r. \<not> p r) rows"

text \<open>The primary-key constraint.\<close>

definition tbl_keys_ok :: "('r \<Rightarrow> 'k) \<Rightarrow> 'r list \<Rightarrow> bool" where
  "tbl_keys_ok key rows \<longleftrightarrow> distinct (map key rows)"

section \<open>Lemmas on strings\<close>

lemma length_py_lower [simp]: "length (py_lower s) = length s"
  by (simp add: py_lower_def)

lemma py_lower_Nil [simp]: "py_lower [] = []"
  by (simp add: py_lower_def)

lemma py_lower_eq_Nil [simp]: "py_lower s = [] \<longleftrightarrow> s = []"
  by (simp add: py_lower_def)

lemma of_char_char_of_small: "n < 256 \<Longrightarrow> (of_char (char_of n :: char) :: nat) = n"
  by (simp add: of_char_of)

lemma py_lower_char_idem [simp]: "py_lower_char (py_lower_char c) = py_lower_char c"
  by (auto simp: py_lower_char_def Let_def of_char_char_of_small)

lemma py_lower_idem [simp]: "py_lower (py_lower s) = py_lower s"
  by (simp add: py_lower_def comp_def)

lemma py_isspace_lower [simp]: "py_isspace (py_lower_char c) \<longleftrightarrow> py_isspace c"
  by (auto simp: py_lower_char_def py_isspace_def Let_def of_char_char_of_small)

lemma lstrip_by_Nil [simp]: "lstrip_by p [] = []"
  by (simp add: lstrip_by_def)

lemma rstrip_by_Nil [simp]: "rstrip_by p [] = []"
  by (simp add: rstrip_by_def)

lemma set_lstrip_by: "set (lstrip_by p s) \<subseteq> set s"
  unfolding lstrip_by_def by (rule set_dropWhileD [THEN subsetI])

lemma set_rstrip_by: "set (rstrip_by p s) \<subseteq> set s"
  unfolding rstrip_by_def using set_dropWhileD [of _ p "rev s"] by auto

lemma rstrip_by_last: "rstrip_by p s \<noteq> [] \<Longrightarrow> \<not> p (last (rstrip_by p s))"
  unfolding rstrip_by_def using hd_dropWhile [of p "rev s"] by (simp add: last_rev)

lemma lstrip_by_hd: "lstrip_by p s \<noteq> [] \<Longrightarrow> \<not> p (hd (lstrip_by p s))"
  unfolding lstrip_by_def by (rule hd_dropWhile)

lemma rstrip_by_id: "s = [] \<or> \<not> p (last s) \<Longrightarrow> rstrip_by p s = s"
  unfolding rstrip_by_def by (cases s rule: rev_cases) auto

lemma lstrip_by_id: "s = [] \<or> \<not> p (hd s) \<Longrightarrow> lstrip_by p s = s"
  unfolding lstrip_by_def by (cases s) auto

lemma rstrip_by_prefix: "\<exists>t. s = rstrip_by p s @ t \<and> (\<forall>x\<in>set t. p x)"
proof -
  have "rev s = takeWhile p (rev s) @ dropWhile p (rev s)" by simp
  then have "s = rstrip_by p s @ rev (takeWhile p (rev s))"
    unfolding rstrip_by_def by (metis rev_append rev_rev_ident)
  moreover have "\<forall>x\<in>set (rev (takeWhile p (rev s))). p x"
    using set_takeWhileD [of _ p "rev s"] by auto
  ultimately show ?thesis by blast
qed

lemma rstrip_by_hd: "rstrip_by p s \<noteq> [] \<Longrightarrow> hd (rstrip_by p s) = hd s"
  using rstrip_by_prefix [of s p] by (metis hd_append2)

lemma rstrip_by_idem [simp]: "rstrip_by p (rstrip_by p s) = rstrip_by p s"
  using rstrip_by_last [of p s] by (blast intro: rstrip_by_id)

lemma set_py_strip: "set (py_strip s) \<subseteq> set s"
  unfolding py_strip_def using set_lstrip_by set_rstrip_by by (metis subset_trans)

lemma py_strip_hd: "py_strip s \<noteq> [] \<Longrightarrow> \<not> py_isspace (hd (py_strip s))"
  unfolding py_strip_def using rstrip_by_hd lstrip_by_hd
  by (metis rstrip_by_Nil)

lemma py_strip_last: "py_strip s \<noteq> [] \<Longrightarrow> \<not> py_isspace (last (py_strip s))"
  unfolding py_strip_def by (rule rstrip_by_last)

lemma py_strip_id: "s = [] \<or> (\<not> py_isspace (hd s) \<and> \<not> py_isspace (last s)) \<Longrightarrow> py_strip s = s"
  unfolding py_strip_def by (auto simp: lstrip_by_id rstrip_by_id)

lemma py_strip_Nil [simp]: "py_strip [] = []"
  by (simp add: py_strip_def)

lemma py_strip_idem [simp]: "py_strip (py_strip s) = py_strip s"
  using py_strip_hd [of s] py_strip_last [of s] by (blast intro: py_strip_id)

lemma py_strip_no_space: "\<forall>c\<in>set s. \<not> py_isspace c \<Longrightarrow> py_strip s = s"
  by (rule py_strip_id) (cases "s = []", auto)

lemma dropWhile_map_same:
  "(\<And>x. p (f x) = p x) \<Longrightarrow> dropWhile p (map f s) = map f (dropWhile p s)"
  by (induction s) auto

lemma rstrip_by_map_same: "(\<And>x. p (f x) = p x) \<Longrightarrow> rstrip_by p (map f s) = map f (rstrip_by p s)"
  unfolding rstrip_by_def by (simp add: rev_map dropWhile_map_same)

lemma py_strip_lower: "py_strip (py_lower s) = py_lower (py_strip s)"
  by (simp add: py_strip_def py_lower_def lstrip_by_def rstrip_by_map_same dropWhile_map_same)

lemma py_startswith_append [simp]: "py_startswith p (p @ s)"
  by (simp add: py_startswith_def)

lemma py_startswith_iff: "py_startswith p s \<longleftrightarrow> (\<exists>t. s = p @ t)"
  unfolding py_startswith_def by (metis append_eq_conv_conj append_take_drop_id)

lemma py_endswith_iff: "py_endswith p s \<longleftrightarrow> (\<exists>t. s = t @ p)"
proof
  assume "py_endswith p s"
  then show "\<exists>t. s = t @ p"
    unfolding py_endswith_def by (metis append_take_drop_id)
next
  assume "\<exists>t. s = t @ p"
  then show "py_endswith p s" by (auto simp: py_endswith_def)
qed

lemma py_contains_iff: "py_contains sub s \<longleftrightarrow> (\<exists>a b. s = a @ sub @ b)"
proof (induction s)
  case Nil
  then show ?case by simp
next
  case (Cons x xs)
  have "(\<exists>a b. x # xs = a @ sub @ b)
    \<longleftrightarrow> (\<exists>b. x # xs = sub @ b) \<or> (\<exists>a b. xs = a @ sub @ b)"
    by (metis append_Cons append_Nil list.exhaust list.inject)
  with Cons show ?case by (simp add: py_startswith_iff)
qed

section \<open>Lemmas on dictionaries and de-duplication\<close>

lemma set_fromkeys_acc: "set (fromkeys_acc seen xs) = set xs - set seen"
  by (induction seen xs rule: fromkeys_acc.induct) auto

lemma set_fromkeys [simp]: "set (fromkeys xs) = set xs"
  by (simp add: fromkeys_def set_fromkeys_acc)

lemma distinct_fromkeys_acc: "distinct (fromkeys_acc seen xs)"
  by (induction seen xs rule: fromkeys_acc.induct) (auto simp: set_fromkeys_acc)

lemma distinct_fromkeys [simp]: "distinct (fromkeys xs)"
  by (simp add: fromkeys_def distinct_fromkeys_acc)

lemma fromkeys_acc_id: "distinct xs \<Longrightarrow> set xs \<inter> set seen = {} \<Longrightarrow> fromkeys_acc seen xs = xs"
  by (induction seen xs rule: fromkeys_acc.induct) auto

lemma fromkeys_id: "distinct xs \<Longrightarrow> fromkeys xs = xs"
  by (simp add: fromkeys_def fromkeys_acc_id)

lemma fromkeys_idem [simp]: "fromkeys (fromkeys xs) = fromkeys xs"
  by (simp add: fromkeys_id)

lemma fromkeys_eq_Nil [simp]: "fromkeys xs = [] \<longleftrightarrow> xs = []"
  by (metis set_empty set_fromkeys)

lemma length_fromkeys: "length (fromkeys xs) = card (set xs)"
  by (metis distinct_card distinct_fromkeys set_fromkeys)

lemma fold_update_keys:
  "distinct (map fst d) \<Longrightarrow> distinct (map fst (fold (\<lambda>(k, v) d. AList.update k v d) kvs d))"
  by (induction kvs arbitrary: d) (auto simp: distinct_update split_def)

lemma distinct_dict_of: "distinct (map fst (dict_of kvs))"
  by (simp add: dict_of_def fold_update_keys)

lemma map_of_fold_update:
  "map_of (fold (\<lambda>(k, v) d. AList.update k v d) kvs d) = map_of d ++ map_of (rev kvs)"
proof (induction kvs arbitrary: d)
  case Nil
  then show ?case by simp
next
  case (Cons p kvs)
  then show ?case by (cases p) (auto simp: update_conv' map_add_def fun_eq_iff split: option.split)
qed

lemma map_of_dict_of: "map_of (dict_of kvs) = map_of (rev kvs)"
  by (simp add: dict_of_def map_of_fold_update)

section \<open>Taking the first rows of an ordered selection\<close>

lemma distinct_map_sort_key: "distinct (map f (sort_key g xs)) = distinct (map f xs)"
  by (simp add: distinct_map)

lemma take_sort_key_le:
  assumes "x \<in> set (take n (sort_key f xs))" and "y \<in> set xs" and "y \<notin> set (take n (sort_key f xs))"
  shows "f x \<le> f y"
proof -
  let ?s = "sort_key f xs"
  have "y \<in> set (take n ?s) \<union> set (drop n ?s)"
    using assms(2) by (metis append_take_drop_id set_append set_sort)
  with assms(3) have "y \<in> set (drop n ?s)" by blast
  moreover have "sorted (map f (take n ?s @ drop n ?s))" by simp
  ultimately show ?thesis
    using assms(1) by (simp add: sorted_append del: append_take_drop_id)
qed

lemma set_take_sort_key: "set (take n (sort_key f xs)) \<subseteq> set xs"
  by (metis set_sort set_take_subset)

lemma sorted_take_sort_key: "sorted (map f (take n (sort_key f xs)))"
  by (metis sorted_sort_key sorted_wrt_take take_map)

section \<open>Lemmas on tables\<close>

lemma tbl_get_Some: "tbl_get key k rows = Some r \<Longrightarrow> r \<in> set rows \<and> key r = k"
  unfolding tbl_get_def by (auto simp: find_Some_iff)

lemma tbl_get_None: "tbl_get key k rows = None \<longleftrightarrow> k \<notin> set (map key rows)"
  unfolding tbl_get_def by (auto simp: find_None_iff)

lemma tbl_get_append:
  "tbl_get key k (xs @ ys) = (case tbl_get key k xs of Some r \<Rightarrow> Some r | None \<Rightarrow> tbl_get key k ys)"
  unfolding tbl_get_def by (induction xs) auto

lemma tbl_get_in: "tbl_keys_ok key rows \<Longrightarrow> r \<in> set rows \<Longrightarrow> tbl_get key (key r) rows = Some r"
  unfolding tbl_get_def tbl_keys_ok_def
  by (induction rows) auto

lemma map_key_tbl_update: "(\<And>r. key (f r) = key r) \<Longrightarrow> map key (tbl_update p f rows) = map key rows"
  by (simp add: tbl_update_def comp_def if_distrib cong: if_cong)

lemma keys_tbl_update:
  "(\<And>r. key (f r) = key r) \<Longrightarrow> key ` set (tbl_update p f rows) = key ` set rows"
  by (metis list.set_map map_key_tbl_update)

lemma keys_tbl_upsert:
  "(\<And>r. key (upd r) = key r) \<Longrightarrow> key ` set (tbl_upsert key new upd rows) = insert (key new) (key ` set rows)"
  by (auto simp: tbl_upsert_def keys_tbl_update)

lemma keys_tbl_delete: "key ` set (tbl_delete p rows) \<subseteq> key ` set rows"
  by (auto simp: tbl_delete_def)

lemma tbl_update_keys_ok [invs]:
  "(\<And>r. key (f r) = key r) \<Longrightarrow> tbl_keys_ok key (tbl_update p f rows) = tbl_keys_ok key rows"
  by (simp add: tbl_keys_ok_def map_key_tbl_update)

lemma tbl_upsert_keys_ok [invs]:
  "(\<And>r. key (upd r) = key r) \<Longrightarrow> tbl_keys_ok key rows \<Longrightarrow> tbl_keys_ok key (tbl_upsert key new upd rows)"
  by (auto simp: tbl_upsert_def tbl_update_keys_ok) (auto simp: tbl_keys_ok_def)

lemma tbl_delete_keys_ok [invs]: "tbl_keys_ok key rows \<Longrightarrow> tbl_keys_ok key (tbl_delete p rows)"
  by (auto simp: tbl_keys_ok_def tbl_delete_def distinct_map_filter)

lemma set_tbl_delete [table_simps]: "set (tbl_delete p rows) = {r \<in> set rows. \<not> p r}"
  by (auto simp: tbl_delete_def)

lemma set_tbl_update [table_simps]:
  "set (tbl_update p f rows) = {r \<in> set rows. \<not> p r} \<union> f ` {r \<in> set rows. p r}"
  by (auto simp: tbl_update_def)

lemma tbl_get_update [table_simps]:
  assumes "\<And>r. key (f r) = key r"
  shows "tbl_get key k (tbl_update p f rows) =
    map_option (\<lambda>r. if p r then f r else r) (tbl_get key k rows)"
  unfolding tbl_get_def tbl_update_def using assms by (induction rows) auto

lemma tbl_get_delete_key [table_simps]:
  "tbl_get key k (tbl_delete (\<lambda>r. key r = k') rows) = (if k = k' then None else tbl_get key k rows)"
  unfolding tbl_get_def tbl_delete_def by (induction rows) auto

lemma tbl_get_Nil [simp]: "tbl_get key k [] = None"
  by (simp add: tbl_get_def)

lemma tbl_get_Cons: "tbl_get key k (r # rows) = (if key r = k then Some r else tbl_get key k rows)"
  by (simp add: tbl_get_def)

lemma tbl_get_delete:
  assumes "tbl_keys_ok key rows"
  shows "tbl_get key k (tbl_delete p rows) =
    (case tbl_get key k rows of None \<Rightarrow> None | Some r \<Rightarrow> if p r then None else Some r)"
  using assms
proof (induction rows)
  case Nil
  then show ?case by (simp add: tbl_delete_def)
next
  case (Cons r rows)
  then have IH: "tbl_get key k (tbl_delete p rows) =
      (case tbl_get key k rows of None \<Rightarrow> None | Some r \<Rightarrow> if p r then None else Some r)"
    and new: "tbl_get key (key r) rows = None"
    by (simp_all add: tbl_keys_ok_def tbl_get_None)
  have "tbl_delete p (r # rows) = (if p r then [] else [r]) @ tbl_delete p rows"
    by (simp add: tbl_delete_def)
  with IH new show ?case by (auto simp: tbl_get_Cons)
qed

lemma tbl_get_upsert [table_simps]:
  assumes upd: "\<And>r. key (upd r) = key r"
  shows "tbl_get key k (tbl_upsert key new upd rows) =
    (if k = key new then Some (case tbl_get key k rows of None \<Rightarrow> new | Some r \<Rightarrow> upd r)
     else tbl_get key k rows)"
proof (cases "tbl_get key (key new) rows")
  case None
  then have "tbl_upsert key new upd rows = rows @ [new]"
    by (simp add: tbl_upsert_def tbl_get_None)
  with None show ?thesis
    by (auto simp: tbl_get_append tbl_get_Cons split: option.split)
next
  case (Some r)
  then have "key new \<in> set (map key rows)"
    by (metis option.distinct(1) tbl_get_None)
  then have eq: "tbl_upsert key new upd rows = tbl_update (\<lambda>r. key r = key new) upd rows"
    by (simp add: tbl_upsert_def)
  show ?thesis
  proof (cases "k = key new")
    case True
    with Some upd tbl_get_Some [OF Some] show ?thesis by (simp add: eq tbl_get_update)
  next
    case False
    have "map_option (\<lambda>r. if key r = key new then upd r else r) (tbl_get key k rows) = tbl_get key k rows"
      using False by (cases "tbl_get key k rows") (auto dest: tbl_get_Some)
    with False upd show ?thesis by (simp add: eq tbl_get_update)
  qed
qed

section \<open>The contract of a primary-key table\<close>

text \<open>What the operations on one table promise their callers: a well-formed table is a map from
  keys to rows, a write is seen by the next read of its key and by no other read, and every write
  keeps the table well-formed. The database components interpret this interface at their own
  row type.\<close>

locale keyed_table =
  fixes key :: "'r \<Rightarrow> 'k"
    and ok :: "'r list \<Rightarrow> bool"
    and get :: "'k \<Rightarrow> 'r list \<Rightarrow> 'r option"
    and put :: "'r \<Rightarrow> ('r \<Rightarrow> 'r) \<Rightarrow> 'r list \<Rightarrow> 'r list"
    and del :: "'k \<Rightarrow> 'r list \<Rightarrow> 'r list"
  assumes ok_empty: "ok []"
    and ok_put: "(\<And>r. key (upd r) = key r) \<Longrightarrow> ok rows \<Longrightarrow> ok (put new upd rows)"
    and ok_del: "ok rows \<Longrightarrow> ok (del k rows)"
    and get_empty: "get k [] = None"
    and get_put: "(\<And>r. key (upd r) = key r) \<Longrightarrow> ok rows \<Longrightarrow>
      get k (put new upd rows) =
        (if k = key new then Some (case get k rows of None \<Rightarrow> new | Some r \<Rightarrow> upd r) else get k rows)"
    and get_del: "ok rows \<Longrightarrow> get k (del k' rows) = (if k = k' then None else get k rows)"
begin

lemma get_put_same_key:
  "(\<And>r. key (upd r) = key r) \<Longrightarrow> ok rows \<Longrightarrow> get (key new) (put new upd rows) \<noteq> None"
  by (simp add: get_put)

lemma get_put_del:
  "(\<And>r. key (upd r) = key r) \<Longrightarrow> ok rows \<Longrightarrow> get (key new) (put new upd (del (key new) rows)) = Some new"
  by (simp add: get_put get_del ok_del)

lemma get_put_idem:
  assumes "\<And>r. key (upd r) = key r" and "ok rows" and "\<And>r. upd (upd r) = upd r" and "upd new = new"
  shows "get k (put new upd (put new upd rows)) = get k (put new upd rows)"
  using assms by (auto simp: get_put ok_put split: option.splits)

lemma dom_put:
  "(\<And>r. key (upd r) = key r) \<Longrightarrow> ok rows \<Longrightarrow>
    dom (\<lambda>k. get k (put new upd rows)) = insert (key new) (dom (\<lambda>k. get k rows))"
  by (auto simp: get_put split: if_splits)

end

lemma keyed_table_list:
  "keyed_table key (tbl_keys_ok key) (tbl_get key) (tbl_upsert key) (\<lambda>k. tbl_delete (\<lambda>r. key r = k))"
  by unfold_locales
    (auto simp: tbl_get_upsert tbl_get_delete_key tbl_upsert_keys_ok tbl_delete_keys_ok,
     auto simp: tbl_keys_ok_def tbl_get_def)

end
