(* ===== verification/Models.thy ===== *)
theory Models
  imports Prelude
begin

text \<open>
  The shared data model, \<open>pihole_manager/models.py\<close>: the string enumerations as datatypes with
  their \<open>value\<close> strings and the \<open>Enum(value)\<close> constructor calls (which raise \<open>ValueError\<close> on an
  unknown string, here \<^const>\<open>None\<close>), and the frozen dataclasses as records.
  The locale \<open>str_enum\<close> is the contract of a Python \<open>StrEnum\<close>; it is interpreted on every
  enumeration of the module.
\<close>

section \<open>JSON values\<close>

datatype json =
    JNull
  | JBool bool
  | JInt int
  | JFloat pyfloat
  | JStr string
  | JList "json list"
  | JObj "(string \<times> json) list"

type_synonym jobj = "(string \<times> json) list"

section \<open>Enumerations\<close>

datatype policy = Policy_ALLOW | Policy_DENY | Policy_MANUAL_REVIEW | Policy_UNKNOWN

fun policy_value :: "policy \<Rightarrow> string" where
  "policy_value Policy_ALLOW = ''allow''"
| "policy_value Policy_DENY = ''deny''"
| "policy_value Policy_MANUAL_REVIEW = ''manual_review''"
| "policy_value Policy_UNKNOWN = ''unknown''"

datatype automation_mode = Mode_MANUAL | Mode_HYBRID | Mode_AUTO

fun automation_mode_value :: "automation_mode \<Rightarrow> string" where
  "automation_mode_value Mode_MANUAL = ''manual''"
| "automation_mode_value Mode_HYBRID = ''hybrid''"
| "automation_mode_value Mode_AUTO = ''auto''"

datatype pool_mode = Pool_DISTRIBUTE | Pool_FALLBACK | Pool_COMPARE | Pool_VERIFY

fun pool_mode_value :: "pool_mode \<Rightarrow> string" where
  "pool_mode_value Pool_DISTRIBUTE = ''distribute''"
| "pool_mode_value Pool_FALLBACK = ''fallback''"
| "pool_mode_value Pool_COMPARE = ''compare''"
| "pool_mode_value Pool_VERIFY = ''verify''"

datatype limit_mode = Limit_AUTO | Limit_AUTO_CAP | Limit_MANUAL

fun limit_mode_value :: "limit_mode \<Rightarrow> string" where
  "limit_mode_value Limit_AUTO = ''auto''"
| "limit_mode_value Limit_AUTO_CAP = ''auto_cap''"
| "limit_mode_value Limit_MANUAL = ''manual''"

datatype service_role = Role_CORE | Role_OPTIONAL | Role_SHARED | Role_UNKNOWN

fun service_role_value :: "service_role \<Rightarrow> string" where
  "service_role_value Role_CORE = ''core''"
| "service_role_value Role_OPTIONAL = ''optional''"
| "service_role_value Role_SHARED = ''shared''"
| "service_role_value Role_UNKNOWN = ''unknown''"

datatype review_priority = Prio_LOW | Prio_NORMAL | Prio_HIGH | Prio_CRITICAL

fun review_priority_value :: "review_priority \<Rightarrow> string" where
  "review_priority_value Prio_LOW = ''low''"
| "review_priority_value Prio_NORMAL = ''normal''"
| "review_priority_value Prio_HIGH = ''high''"
| "review_priority_value Prio_CRITICAL = ''critical''"

text \<open>\<open>Enum(value)\<close>.\<close>

definition policy_of :: "string \<Rightarrow> policy option" where
  "policy_of s = List.find (\<lambda>p. policy_value p = s)
     [Policy_ALLOW, Policy_DENY, Policy_MANUAL_REVIEW, Policy_UNKNOWN]"

definition automation_mode_of :: "string \<Rightarrow> automation_mode option" where
  "automation_mode_of s = List.find (\<lambda>p. automation_mode_value p = s)
     [Mode_MANUAL, Mode_HYBRID, Mode_AUTO]"

definition pool_mode_of :: "string \<Rightarrow> pool_mode option" where
  "pool_mode_of s = List.find (\<lambda>p. pool_mode_value p = s)
     [Pool_DISTRIBUTE, Pool_FALLBACK, Pool_COMPARE, Pool_VERIFY]"

definition limit_mode_of :: "string \<Rightarrow> limit_mode option" where
  "limit_mode_of s = List.find (\<lambda>p. limit_mode_value p = s)
     [Limit_AUTO, Limit_AUTO_CAP, Limit_MANUAL]"

definition service_role_of :: "string \<Rightarrow> service_role option" where
  "service_role_of s = List.find (\<lambda>p. service_role_value p = s)
     [Role_CORE, Role_OPTIONAL, Role_SHARED, Role_UNKNOWN]"

definition review_priority_of :: "string \<Rightarrow> review_priority option" where
  "review_priority_of s = List.find (\<lambda>p. review_priority_value p = s)
     [Prio_LOW, Prio_NORMAL, Prio_HIGH, Prio_CRITICAL]"

section \<open>Dataclasses\<close>

record research_finding =
  rf_domain :: string
  rf_provider :: string
  rf_kind :: string
  rf_title :: string
  rf_summary :: string
  rf_source_url :: string
  rf_confidence :: pyfloat
  rf_signal_type :: string
  rf_verdict :: string
  rf_decision_relevant :: bool
  rf_retrieved_at :: int
  rf_expires_at :: int
  rf_raw_data :: jobj

record classification =
  c_domain :: string
  c_policy :: policy
  c_category :: string
  c_short :: string
  c_details :: string
  c_provider :: string
  c_tags :: "string list"
  c_service :: string
  c_service_role :: service_role
  c_privacy_risk :: int
  c_security_risk :: int
  c_breakage_risk :: int
  c_confidence :: pyfloat
  c_needs_review :: bool
  c_review_reason :: string
  c_recheck_after_days :: int
  c_raw_text :: string

record provider_usage =
  pu_input_tokens :: int
  pu_output_tokens :: int
  pu_total_tokens :: int
  pu_units :: pyfloat

definition no_usage :: provider_usage where
  "no_usage = \<lparr>pu_input_tokens = 0, pu_output_tokens = 0, pu_total_tokens = 0, pu_units = 0\<rparr>"

record provider_health_state =
  ph_provider_id :: string
  ph_state :: string
  ph_cooldown_until :: pyfloat
  ph_consecutive_failures :: int
  ph_last_error :: string
  ph_last_success_at :: pyfloat
  ph_last_failure_at :: pyfloat
  ph_latency_ewma_ms :: pyfloat

definition unknown_health :: "string \<Rightarrow> provider_health_state" where
  "unknown_health pid = \<lparr>ph_provider_id = pid, ph_state = ''unknown'', ph_cooldown_until = 0,
     ph_consecutive_failures = 0, ph_last_error = [], ph_last_success_at = 0,
     ph_last_failure_at = 0, ph_latency_ewma_ms = 0\<rparr>"

record run_context =
  rc_analysis_run_id :: string
  rc_pool_id :: string
  rc_pool_mode :: string
  rc_provider_id :: string
  rc_model :: string
  rc_profile :: string
  rc_prompt_hash :: string
  rc_is_primary :: bool
  rc_latency_ms :: int
  rc_usage :: provider_usage

section \<open>The contract of a string enumeration\<close>

locale str_enum =
  fixes val :: "'e \<Rightarrow> string"
    and of_val :: "string \<Rightarrow> 'e option"
  assumes of_val_val: "of_val (val e) = Some e"
    and of_val_Some: "of_val s = Some e \<Longrightarrow> val e = s"
begin

lemma val_inj: "val a = val b \<longleftrightarrow> a = b"
  by (metis of_val_val option.inject)

lemma of_val_iff: "of_val s = Some e \<longleftrightarrow> val e = s"
  using of_val_val of_val_Some by blast

lemma of_val_None: "of_val s = None \<longleftrightarrow> s \<notin> range val"
  using of_val_iff by (metis not_None_eq rangeE rangeI)

end

text \<open>A search through the whole enumeration implements the contract, when the value strings
  differ.\<close>

lemma str_enum_find:
  assumes "distinct (map val xs)" and "\<And>e. e \<in> set xs"
  shows "str_enum val (\<lambda>s. List.find (\<lambda>p. val p = s) xs)"
proof
  show "List.find (\<lambda>p. val p = val e) xs = Some e" for e
    using tbl_get_in [of val xs e] assms by (simp add: tbl_get_def tbl_keys_ok_def)
  show "val e = s" if "List.find (\<lambda>p. val p = s) xs = Some e" for s e
    using that by (auto simp: find_Some_iff)
qed

interpretation policy_enum: str_enum policy_value policy_of
  unfolding policy_of_def [abs_def] by (rule str_enum_find) (simp, case_tac e, simp_all)

interpretation automation_mode_enum: str_enum automation_mode_value automation_mode_of
  unfolding automation_mode_of_def [abs_def] by (rule str_enum_find) (simp, case_tac e, simp_all)

interpretation pool_mode_enum: str_enum pool_mode_value pool_mode_of
  unfolding pool_mode_of_def [abs_def] by (rule str_enum_find) (simp, case_tac e, simp_all)

interpretation limit_mode_enum: str_enum limit_mode_value limit_mode_of
  unfolding limit_mode_of_def [abs_def] by (rule str_enum_find) (simp, case_tac e, simp_all)

interpretation service_role_enum: str_enum service_role_value service_role_of
  unfolding service_role_of_def [abs_def] by (rule str_enum_find) (simp, case_tac e, simp_all)

interpretation review_priority_enum: str_enum review_priority_value review_priority_of
  unfolding review_priority_of_def [abs_def] by (rule str_enum_find) (simp, case_tac e, simp_all)

lemmas enum_inj [simp] =
  policy_enum.val_inj automation_mode_enum.val_inj pool_mode_enum.val_inj
  limit_mode_enum.val_inj service_role_enum.val_inj review_priority_enum.val_inj

end
