(* ===== verification/Database.thy ===== *)
theory Database
  imports Models
begin

text \<open>
  The SQLite store of \<open>pihole_manager/database_core.py\<close>: one record per table of the schema in
  \<open>init_db\<close>, the record \<open>db\<close> of all tables, domain and tag normalisation, and \<open>_ensure_domain\<close>.
  Tables are lists of rows in rowid order; \<open>AUTOINCREMENT\<close> counters are fields of their own.
  \<open>db_ok\<close> collects the primary-key and foreign-key constraints that SQLite enforces.
\<close>

section \<open>Schema\<close>

record staging_row =
  sd_domain :: string
  sd_state :: string
  sd_attempts :: int
  sd_created_at :: int
  sd_updated_at :: int
  sd_last_error :: string
  sd_priority :: int
  sd_source :: string
  sd_pool_id :: string
  sd_available_at :: int

record domain_row =
  d_domain :: string
  d_first_seen :: int
  d_last_seen :: int
  d_query_count :: int
  d_last_classified_at :: "int option"
  d_next_recheck_at :: "int option"
  d_last_researched_at :: "int option"
  d_current_policy :: string
  d_current_service :: string
  d_current_service_role :: string

type_synonym obs_key = "string \<times> string \<times> string \<times> string \<times> int"

record observation_row =
  qo_key :: obs_key
  qo_query_count :: int
  qo_first_seen :: int
  qo_last_seen :: int

record tag_row =
  dt_domain :: string
  dt_tag :: string
  dt_source :: string
  dt_confidence :: pyfloat
  dt_created_at :: int
  dt_updated_at :: int

definition dt_key :: "tag_row \<Rightarrow> string \<times> string \<times> string" where
  "dt_key r = (dt_domain r, dt_tag r, dt_source r)"

record review_row =
  r_domain :: string
  r_categories :: string
  r_policy :: string
  r_short :: string
  r_details :: string
  r_provider :: string
  r_status :: string
  r_service :: string
  r_service_role :: string
  r_privacy_risk :: int
  r_security_risk :: int
  r_breakage_risk :: int
  r_confidence :: pyfloat
  r_needs_review :: bool
  r_review_reason :: string
  r_next_recheck_at :: "int option"
  r_planned_action :: string
  r_action_status :: string
  r_created_at :: int
  r_updated_at :: int

record run_row =
  cr_id :: int
  cr_domain :: string
  cr_provider :: string
  cr_provider_id :: string
  cr_model :: string
  cr_profile :: string
  cr_prompt_hash :: string
  cr_policy :: string
  cr_primary_tag :: string
  cr_tags :: "string list"
  cr_service :: string
  cr_service_role :: string
  cr_privacy_risk :: int
  cr_security_risk :: int
  cr_breakage_risk :: int
  cr_confidence :: pyfloat
  cr_needs_review :: bool
  cr_review_reason :: string
  cr_short :: string
  cr_details :: string
  cr_raw_text :: string
  cr_planned_action :: string
  cr_action_status :: string
  cr_analysis_run_id :: string
  cr_pool_id :: string
  cr_pool_mode :: string
  cr_is_primary :: bool
  cr_latency_ms :: int
  cr_input_tokens :: int
  cr_output_tokens :: int
  cr_created_at :: int
  cr_expires_at :: int

record finding_row =
  fr_id :: int
  fr_domain :: string
  fr_provider :: string
  fr_kind :: string
  fr_title :: string
  fr_summary :: string
  fr_source_url :: string
  fr_confidence :: pyfloat
  fr_signal_type :: string
  fr_verdict :: string
  fr_decision_relevant :: bool
  fr_raw_data :: jobj
  fr_retrieved_at :: int
  fr_expires_at :: int

record lock_row =
  l_domain :: string
  l_list_type :: string
  l_reason :: string
  l_created_at :: int
  l_updated_at :: int

record task_row =
  rt_id :: int
  rt_domain :: string
  rt_reason :: string
  rt_priority :: string
  rt_status :: string
  rt_source :: string
  rt_decision :: string
  rt_created_at :: int
  rt_updated_at :: int

record state_row =
  as_key :: string
  as_value :: string
  as_updated_at :: int

record db =
  t_staging :: "staging_row list"
  t_domains :: "domain_row list"
  t_observations :: "observation_row list"
  t_tags :: "tag_row list"
  t_review :: "review_row list"
  t_runs :: "run_row list"
  t_findings :: "finding_row list"
  t_locks :: "lock_row list"
  t_tasks :: "task_row list"
  t_state :: "state_row list"
  seq_runs :: int
  seq_findings :: int
  seq_tasks :: int

definition empty_db :: db where
  "empty_db = \<lparr>t_staging = [], t_domains = [], t_observations = [], t_tags = [], t_review = [],
     t_runs = [], t_findings = [], t_locks = [], t_tasks = [], t_state = [],
     seq_runs = 0, seq_findings = 0, seq_tasks = 0\<rparr>"

section \<open>Normalisation\<close>

definition normalize_domain :: "string \<Rightarrow> string" where
  "normalize_domain domain = py_rstrip_char (CHR ''.'') (py_lower (py_strip domain))"

definition normalize_tag_text :: "string \<Rightarrow> string" where
  "normalize_tag_text value = py_replace (CHR '' '') (CHR ''_'') (py_lower (py_strip value))"

text \<open>The argument of \<open>_normalize_tags\<close> is a string, an iterable of strings or something else.\<close>

datatype tags_arg = Tags_str string | Tags_list "string list" | Tags_other

definition tag_values :: "tags_arg \<Rightarrow> string list" where
  "tag_values tags = (case tags of
      Tags_str s \<Rightarrow> py_split (CHR '','') (py_replace (CHR '';'') (CHR '','') s)
    | Tags_list xs \<Rightarrow> xs
    | Tags_other \<Rightarrow> [])"

definition normalize_tags :: "tags_arg \<Rightarrow> string list" where
  "normalize_tags tags =
     fromkeys (map normalize_tag_text (filter (\<lambda>v. py_strip v \<noteq> []) (tag_values tags)))"

definition risk_value :: "int \<Rightarrow> int" where
  "risk_value v = min 100 (max 0 v)"

definition confidence_value :: "pyfloat \<Rightarrow> pyfloat" where
  "confidence_value v = min 1 (max 0 v)"

section \<open>The domains table\<close>

definition new_domain_row :: "string \<Rightarrow> int \<Rightarrow> int \<Rightarrow> domain_row" where
  "new_domain_row d now n = \<lparr>d_domain = d, d_first_seen = now, d_last_seen = now,
     d_query_count = n, d_last_classified_at = None, d_next_recheck_at = None,
     d_last_researched_at = None, d_current_policy = ''unknown'', d_current_service = [],
     d_current_service_role = ''unknown''\<rparr>"

text \<open>\<open>_ensure_domain\<close>: the caller's \<open>seen_at\<close>, or the clock when it is 0 or missing.\<close>

definition ensure_domain ::
  "string \<Rightarrow> int option \<Rightarrow> int \<Rightarrow> int \<Rightarrow> db \<Rightarrow> exn + string \<times> db" where
  "ensure_domain domain seen_at query_increment clock s =
     (let normalized = normalize_domain domain in
      if normalized = [] then Inl (ValueError ''domain must not be empty'')
      else
        let now = (case seen_at of Some t \<Rightarrow> if t = 0 then clock else t | None \<Rightarrow> clock);
            n = max 0 query_increment
        in Inr (normalized,
             s\<lparr>t_domains := tbl_upsert d_domain (new_domain_row normalized now n)
                  (\<lambda>r. r\<lparr>d_first_seen := min (d_first_seen r) now,
                         d_last_seen := max (d_last_seen r) now,
                         d_query_count := d_query_count r + n\<rparr>)
                  (t_domains s)\<rparr>))"

section \<open>Integrity of the store\<close>

definition known_domains :: "db \<Rightarrow> string set" where
  "known_domains s = d_domain ` set (t_domains s)"

definition valid_queue_states :: "string set" where
  "valid_queue_states = {''queued'', ''processing'', ''failed''}"

text \<open>Primary keys and the \<open>CHECK\<close> on \<open>domain_locks\<close>.\<close>

definition db_keys_ok :: "db \<Rightarrow> bool" where
  "db_keys_ok s \<longleftrightarrow>
     tbl_keys_ok sd_domain (t_staging s) \<and> tbl_keys_ok d_domain (t_domains s) \<and>
     tbl_keys_ok qo_key (t_observations s) \<and> tbl_keys_ok dt_key (t_tags s) \<and>
     tbl_keys_ok r_domain (t_review s) \<and> tbl_keys_ok cr_id (t_runs s) \<and>
     tbl_keys_ok fr_id (t_findings s) \<and> tbl_keys_ok l_domain (t_locks s) \<and>
     tbl_keys_ok rt_id (t_tasks s) \<and> tbl_keys_ok as_key (t_state s)"

text \<open>Foreign keys into \<open>domains\<close>.\<close>

definition db_refs_ok :: "db \<Rightarrow> bool" where
  "db_refs_ok s \<longleftrightarrow>
     (\<forall>r\<in>set (t_tags s). dt_domain r \<in> known_domains s) \<and>
     (\<forall>r\<in>set (t_runs s). cr_domain r \<in> known_domains s) \<and>
     (\<forall>r\<in>set (t_findings s). fr_domain r \<in> known_domains s) \<and>
     (\<forall>r\<in>set (t_locks s). l_domain r \<in> known_domains s) \<and>
     (\<forall>r\<in>set (t_tasks s). rt_domain r \<in> known_domains s) \<and>
     (\<forall>r\<in>set (t_observations s). fst (qo_key r) \<in> known_domains s)"

text \<open>Identifiers handed out so far stay below the \<open>AUTOINCREMENT\<close> counters.\<close>

definition db_seq_ok :: "db \<Rightarrow> bool" where
  "db_seq_ok s \<longleftrightarrow>
     (\<forall>r\<in>set (t_runs s). cr_id r \<le> seq_runs s) \<and>
     (\<forall>r\<in>set (t_findings s). fr_id r \<le> seq_findings s) \<and>
     (\<forall>r\<in>set (t_tasks s). rt_id r \<le> seq_tasks s)"

definition staging_row_ok :: "staging_row \<Rightarrow> bool" where
  "staging_row_ok r \<longleftrightarrow>
     sd_state r \<in> valid_queue_states \<and> sd_pool_id r \<in> {''realtime'', ''background''} \<and>
     0 \<le> sd_attempts r \<and> 0 \<le> sd_priority r"

text \<open>A protected domain is never queued.\<close>

definition queue_ok :: "db \<Rightarrow> bool" where
  "queue_ok s \<longleftrightarrow>
     (\<forall>r\<in>set (t_staging s). staging_row_ok r) \<and>
     (\<forall>r\<in>set (t_locks s). l_list_type r \<in> {''allow'', ''deny''}) \<and>
     sd_domain ` set (t_staging s) \<inter> l_domain ` set (t_locks s) = {}"

definition db_ok :: "db \<Rightarrow> bool" where
  "db_ok s \<longleftrightarrow> db_keys_ok s \<and> db_refs_ok s \<and> db_seq_ok s \<and> queue_ok s"

lemmas db_ok_defs = db_ok_def db_keys_ok_def db_refs_ok_def db_seq_ok_def queue_ok_def

section \<open>The tables meet the table contract\<close>

interpretation staging_table: keyed_table sd_domain "tbl_keys_ok sd_domain" "tbl_get sd_domain"
  "tbl_upsert sd_domain" "\<lambda>k. tbl_delete (\<lambda>r. sd_domain r = k)"
  by (rule keyed_table_list)

interpretation domains_table: keyed_table d_domain "tbl_keys_ok d_domain" "tbl_get d_domain"
  "tbl_upsert d_domain" "\<lambda>k. tbl_delete (\<lambda>r. d_domain r = k)"
  by (rule keyed_table_list)

interpretation review_table: keyed_table r_domain "tbl_keys_ok r_domain" "tbl_get r_domain"
  "tbl_upsert r_domain" "\<lambda>k. tbl_delete (\<lambda>r. r_domain r = k)"
  by (rule keyed_table_list)

interpretation locks_table: keyed_table l_domain "tbl_keys_ok l_domain" "tbl_get l_domain"
  "tbl_upsert l_domain" "\<lambda>k. tbl_delete (\<lambda>r. l_domain r = k)"
  by (rule keyed_table_list)

interpretation state_table: keyed_table as_key "tbl_keys_ok as_key" "tbl_get as_key"
  "tbl_upsert as_key" "\<lambda>k. tbl_delete (\<lambda>r. as_key r = k)"
  by (rule keyed_table_list)

section \<open>The contract of a normaliser\<close>

text \<open>A normaliser maps well-behaved text to a canonical form: normalising twice is normalising
  once. De-duplicated lists of canonical forms are then stable under being normalised again,
  which is what lets one layer hand its tags or domains to the next.\<close>

locale normalizer =
  fixes norm :: "string \<Rightarrow> string"
    and ok :: "string \<Rightarrow> bool"
  assumes norm_idem: "ok s \<Longrightarrow> norm (norm s) = norm s"
    and norm_ok: "ok s \<Longrightarrow> ok (norm s)"
begin

lemma norm_list_idem:
  "\<forall>s\<in>set xs. ok s \<Longrightarrow> fromkeys (map norm (fromkeys (map norm xs))) = fromkeys (map norm xs)"
proof -
  assume ok: "\<forall>s\<in>set xs. ok s"
  have "map norm ys = ys" if "set ys \<subseteq> norm ` set xs" for ys
    using that ok by (induction ys) (auto simp: norm_idem)
  then have "map norm (fromkeys (map norm xs)) = fromkeys (map norm xs)"
    by (metis list.set_map set_fromkeys subset_refl)
  then show ?thesis by simp
qed

lemma norm_fixed: "ok s \<Longrightarrow> t = norm s \<Longrightarrow> norm t = t"
  by (simp add: norm_idem)

end

text \<open>Domain normalisation is only idempotent when no blank hides behind a trailing dot:
  \<open>"a. ."\<close> becomes \<open>"a. "\<close> and then \<open>"a"\<close>. \<open>clean_domain\<close> is the text that domain names have.\<close>

definition clean_domain :: "string \<Rightarrow> bool" where
  "clean_domain s \<longleftrightarrow> (\<forall>c\<in>set (py_strip s). \<not> py_isspace c)"

lemma set_py_lower_space: "(\<forall>c\<in>set (py_lower s). \<not> py_isspace c) \<longleftrightarrow> (\<forall>c\<in>set s. \<not> py_isspace c)"
  by (simp add: py_lower_def)

lemma normalize_domain_no_space:
  "clean_domain s \<Longrightarrow> \<forall>c\<in>set (normalize_domain s). \<not> py_isspace c"
  using set_rstrip_by [of "\<lambda>x. x = CHR ''.''" "py_lower (py_strip s)"]
    set_py_lower_space [of "py_strip s"]
  by (auto simp: clean_domain_def normalize_domain_def py_rstrip_char_def)

lemma py_lower_rstrip_lower:
  "py_lower (rstrip_by p (py_lower s)) = rstrip_by p (py_lower s)"
proof -
  have "map py_lower_char t = t" if "set t \<subseteq> set (py_lower s)" for t
    using that by (induction t) (auto simp: py_lower_def)
  from this [OF set_rstrip_by] show ?thesis by (simp add: py_lower_def)
qed

lemma normalize_domain_idem: "clean_domain s \<Longrightarrow> normalize_domain (normalize_domain s) = normalize_domain s"
proof -
  assume "clean_domain s"
  then have "py_strip (normalize_domain s) = normalize_domain s"
    by (intro py_strip_no_space normalize_domain_no_space)
  then show ?thesis
    by (simp add: normalize_domain_def py_rstrip_char_def py_lower_rstrip_lower)
qed

lemma clean_domain_normalize: "clean_domain s \<Longrightarrow> clean_domain (normalize_domain s)"
  using normalize_domain_no_space set_py_strip unfolding clean_domain_def by blast

interpretation domain_norm: normalizer normalize_domain clean_domain
  by unfold_locales (simp_all add: normalize_domain_idem clean_domain_normalize)

lemma normalize_tag_text_idem: "normalize_tag_text (normalize_tag_text s) = normalize_tag_text s"
proof -
  define f where "f c = (if py_lower_char c = CHR '' '' then CHR ''_'' else py_lower_char c)" for c
  have nt: "normalize_tag_text x = map f (py_strip x)" for x
    by (simp add: normalize_tag_text_def py_replace_def py_lower_def f_def comp_def)
  have sp: "\<not> py_isspace c \<Longrightarrow> \<not> py_isspace (f c)" for c
    by (auto simp: f_def) (simp add: py_isspace_def)
  have ff: "f (f c) = f c" for c
    by (auto simp: f_def) (simp_all add: py_lower_char_def)
  have "py_strip (map f (py_strip s)) = map f (py_strip s)"
    by (cases "py_strip s = []") (auto intro!: py_strip_id simp: hd_map last_map sp py_strip_hd py_strip_last)
  then show ?thesis by (simp add: nt ff comp_def)
qed

interpretation tag_norm: normalizer normalize_tag_text "\<lambda>_. True"
  by unfold_locales (simp_all add: normalize_tag_text_idem)

lemma normalize_tag_text_eq_Nil: "normalize_tag_text v = [] \<longleftrightarrow> py_strip v = []"
  by (simp add: normalize_tag_text_def py_replace_def)

lemma distinct_normalize_tags [simp]: "distinct (normalize_tags t)"
  by (simp add: normalize_tags_def)

lemma normalize_tags_nonempty: "t \<in> set (normalize_tags a) \<Longrightarrow> t \<noteq> []"
  by (auto simp: normalize_tags_def normalize_tag_text_eq_Nil)

lemma py_strip_normalize_tag: "py_strip (normalize_tag_text v) = normalize_tag_text v"
proof -
  define u where "u = normalize_tag_text v"
  have "map py_lower_char (py_strip u) = py_lower (py_strip u)" by (simp add: py_lower_def)
  have "py_strip u = u"
  proof (cases "py_strip v = []")
    case True
    then show ?thesis by (simp add: u_def normalize_tag_text_def py_replace_def)
  next
    case False
    have sp: "\<not> py_isspace c \<Longrightarrow> \<not> py_isspace (if py_lower_char c = CHR '' '' then CHR ''_'' else py_lower_char c)" for c
      by auto (simp add: py_isspace_def)
    from False show ?thesis
      unfolding u_def normalize_tag_text_def py_replace_def py_lower_def
      using sp [of "hd (py_strip v)"] sp [of "last (py_strip v)"]
      by (intro py_strip_id) (simp add: hd_map last_map py_strip_hd py_strip_last)
  qed
  then show ?thesis by (simp add: u_def)
qed

text \<open>Normalised tags are a fixed point: normalising them again changes nothing.\<close>

lemma normalize_tags_idem: "normalize_tags (Tags_list (normalize_tags a)) = normalize_tags a"
proof -
  let ?xs = "filter (\<lambda>v. py_strip v \<noteq> []) (tag_values a)"
  have "filter (\<lambda>v. py_strip v \<noteq> []) (normalize_tags a) = normalize_tags a"
    by (intro filter_True)
      (auto simp: normalize_tags_def py_strip_normalize_tag normalize_tag_text_eq_Nil)
  moreover have "fromkeys (map normalize_tag_text (fromkeys (map normalize_tag_text ?xs)))
      = fromkeys (map normalize_tag_text ?xs)"
    by (rule tag_norm.norm_list_idem) simp
  ultimately show ?thesis
    by (simp add: normalize_tags_def tag_values_def)
qed

lemma risk_value_bounds: "0 \<le> risk_value v \<and> risk_value v \<le> 100"
  by (simp add: risk_value_def)

lemma confidence_value_bounds: "0 \<le> confidence_value v \<and> confidence_value v \<le> 1"
  by (simp add: confidence_value_def)

section \<open>Behaviour of \<open>_ensure_domain\<close>\<close>

lemma ensure_domain_Inl:
  "ensure_domain d seen q clock s = Inl e \<longleftrightarrow>
     normalize_domain d = [] \<and> e = ValueError ''domain must not be empty''"
  by (auto simp: ensure_domain_def Let_def)

lemma ensure_domain_form:
  assumes "ensure_domain d seen q clock s = Inr (n, s')"
  obtains new upd where "n = normalize_domain d" "n \<noteq> []" "d_domain new = n"
    "\<And>r. d_domain (upd r) = d_domain r"
    "s' = s\<lparr>t_domains := tbl_upsert d_domain new upd (t_domains s)\<rparr>"
proof -
  define t where "t = (case seen of Some t \<Rightarrow> if t = 0 then clock else t | None \<Rightarrow> clock)"
  from assms show ?thesis
    by (intro that [where new = "new_domain_row n t (max 0 q)"
          and upd = "\<lambda>r. r\<lparr>d_first_seen := min (d_first_seen r) t,
            d_last_seen := max (d_last_seen r) t, d_query_count := d_query_count r + max 0 q\<rparr>"])
      (auto simp: ensure_domain_def Let_def t_def new_domain_row_def split: if_splits)
qed

lemma ensure_domain_Inr:
  assumes "ensure_domain d seen q clock s = Inr (n, s')"
  shows "n = normalize_domain d" and "n \<noteq> []"
    and "known_domains s' = insert n (known_domains s)"
    and "tbl_keys_ok d_domain (t_domains s) \<Longrightarrow> tbl_keys_ok d_domain (t_domains s')"
  by (rule ensure_domain_form [OF assms],
      simp add: known_domains_def keys_tbl_upsert tbl_upsert_keys_ok)+

text \<open>Fields other than the domains table are untouched, so every constraint survives.\<close>

lemma ensure_domain_frame:
  assumes "ensure_domain d seen q clock s = Inr (n, s')"
  shows "t_staging s' = t_staging s" "t_observations s' = t_observations s" "t_tags s' = t_tags s"
    "t_review s' = t_review s" "t_runs s' = t_runs s" "t_findings s' = t_findings s"
    "t_locks s' = t_locks s" "t_tasks s' = t_tasks s" "t_state s' = t_state s"
    "seq_runs s' = seq_runs s" "seq_findings s' = seq_findings s" "seq_tasks s' = seq_tasks s"
  by (rule ensure_domain_form [OF assms], simp)+

lemma ensure_domain_ok [invs]:
  assumes "ensure_domain d seen q clock s = Inr (n, s')" and "db_ok s"
  shows "db_ok s'"
  using assms(2) ensure_domain_frame [OF assms(1)] ensure_domain_Inr [OF assms(1)]
  by (auto simp: db_ok_defs)

text \<open>Changes of the queue alone only have to keep the queue's own constraints.\<close>

lemma db_ok_set_staging [invs]:
  assumes "db_ok s" and "tbl_keys_ok sd_domain rows" and "\<forall>r\<in>set rows. staging_row_ok r"
    and "sd_domain ` set rows \<inter> l_domain ` set (t_locks s) = {}"
  shows "db_ok (s\<lparr>t_staging := rows\<rparr>)"
  using assms by (simp add: db_ok_defs known_domains_def)

lemma db_ok_update_staging [invs]:
  assumes "db_ok s" and "\<And>r. sd_domain (f r) = sd_domain r"
    and "\<And>r. staging_row_ok r \<Longrightarrow> staging_row_ok (f r)"
  shows "db_ok (s\<lparr>t_staging := tbl_update p f (t_staging s)\<rparr>)"
proof (rule db_ok_set_staging [OF assms(1)])
  show "tbl_keys_ok sd_domain (tbl_update p f (t_staging s))"
    using assms by (simp add: tbl_update_keys_ok db_ok_def db_keys_ok_def)
  show "\<forall>r\<in>set (tbl_update p f (t_staging s)). staging_row_ok r"
    using assms by (auto simp: set_tbl_update db_ok_def queue_ok_def)
  show "sd_domain ` set (tbl_update p f (t_staging s)) \<inter> l_domain ` set (t_locks s) = {}"
    using assms by (simp add: keys_tbl_update db_ok_def queue_ok_def)
qed

lemma db_ok_delete_staging [invs]:
  assumes "db_ok s"
  shows "db_ok (s\<lparr>t_staging := tbl_delete p (t_staging s)\<rparr>)"
  using assms
  by (intro db_ok_set_staging)
    (auto simp: tbl_delete_keys_ok set_tbl_delete db_ok_def db_keys_ok_def queue_ok_def)

lemma empty_db_ok: "db_ok empty_db"
  by (simp add: db_ok_defs empty_db_def tbl_keys_ok_def)

end
