(* ===== verification/Staging.thy ===== *)
theory Staging
  imports Database
begin

text \<open>
  The durable analysis queue of \<open>database_core.py\<close>: enqueueing with priorities, pools, suffix
  filters and protected domains, the readiness test, atomic claims, acknowledgement, failure,
  deferral and recovery of interrupted work; and the query observations that feed it.
  \<open>now\<close> is \<open>int(time.time())\<close>; the suffix list is \<open>options.scans.excluded_domain_suffixes\<close>.
\<close>

section \<open>Enqueueing\<close>

record enqueue_result =
  qe_requested :: int
  qe_queued :: int
  qe_requeued :: int
  qe_already_pending :: int
  qe_skipped_locked :: int
  qe_skipped_filtered :: int

definition enqueue_accepted :: "enqueue_result \<Rightarrow> int" where
  "enqueue_accepted r = qe_queued r + qe_requeued r + qe_already_pending r"

definition queue_pool_id :: "string \<Rightarrow> int \<Rightarrow> string \<Rightarrow> string" where
  "queue_pool_id pool_id priority source =
     (let normalized = py_lower (py_strip pool_id) in
      if normalized \<in> {''realtime'', ''background''} then normalized
      else if 100 \<le> priority \<or> py_startswith ''manual_'' (py_lower (py_strip source)) then ''realtime''
      else ''background'')"

definition suffix_matches :: "string \<Rightarrow> string \<Rightarrow> bool" where
  "suffix_matches normalized suffix =
     (let s0 = py_rstrip_char (CHR ''.'') (py_lower (py_strip suffix));
          s1 = (if py_startswith ''*'' s0 then tl s0 else s0)
      in if s1 = [] then False
         else let s2 = (if py_startswith ''.'' s1 then s1 else ''.'' @ s1)
              in normalized = py_lstrip_char (CHR ''.'') s2 \<or> py_endswith s2 normalized)"

definition domain_matches_suffix :: "string \<Rightarrow> string list \<Rightarrow> bool" where
  "domain_matches_suffix domain suffixes =
     list_ex (suffix_matches (normalize_domain domain)) suffixes"

text \<open>The first loop of the enqueue: normalised, non-empty, in order, without repetitions.\<close>

definition unique_normalized :: "string list \<Rightarrow> string list" where
  "unique_normalized domains = fromkeys (filter (\<lambda>d. d \<noteq> []) (map normalize_domain domains))"

definition new_staging_row :: "string \<Rightarrow> int \<Rightarrow> int \<Rightarrow> string \<Rightarrow> string \<Rightarrow> staging_row" where
  "new_staging_row domain now priority source pool =
     \<lparr>sd_domain = domain, sd_state = ''queued'', sd_attempts = 0, sd_created_at = now,
      sd_updated_at = now, sd_last_error = [], sd_priority = priority, sd_source = source,
      sd_pool_id = pool, sd_available_at = 0\<rparr>"

text \<open>The \<open>UPDATE\<close> of a row that is still queued: the right-hand sides read the old priority.\<close>

definition bump_queued :: "int \<Rightarrow> string \<Rightarrow> string \<Rightarrow> staging_row \<Rightarrow> staging_row" where
  "bump_queued priority source pool r =
     r\<lparr>sd_priority := max (sd_priority r) priority,
       sd_source := (if sd_priority r \<le> priority \<and> source \<noteq> [] then source else sd_source r),
       sd_pool_id := (if sd_priority r \<le> priority then pool else sd_pool_id r),
       sd_available_at := 0\<rparr>"

definition requeue_row :: "int \<Rightarrow> int \<Rightarrow> string \<Rightarrow> string \<Rightarrow> staging_row \<Rightarrow> staging_row" where
  "requeue_row now priority source pool r =
     r\<lparr>sd_state := ''queued'', sd_attempts := 0, sd_updated_at := now, sd_last_error := [],
       sd_priority := max (sd_priority r) priority,
       sd_source := (if source \<noteq> [] then source else sd_source r),
       sd_pool_id := pool, sd_available_at := 0\<rparr>"

text \<open>The counters \<open>queued\<close>, \<open>requeued\<close>, \<open>already_pending\<close>, \<open>skipped_locked\<close> of the loop.\<close>

type_synonym enqueue_counts = "int \<times> int \<times> int \<times> int"

definition enqueue_one ::
  "int \<Rightarrow> int \<Rightarrow> string \<Rightarrow> string \<Rightarrow> bool \<Rightarrow> string \<Rightarrow> db \<times> enqueue_counts \<Rightarrow> exn + db \<times> enqueue_counts" where
  "enqueue_one now priority source pool requeue_existing value st =
     (case st of (s, (queued, requeued, pending, locked)) \<Rightarrow>
      (case ensure_domain value (Some now) 0 now s of
        Inl e \<Rightarrow> Inl e
      | Inr (domain, s) \<Rightarrow>
          if tbl_get l_domain domain (t_locks s) \<noteq> None then Inr (s, (queued, requeued, pending, locked + 1))
          else (case tbl_get sd_domain domain (t_staging s) of
            None \<Rightarrow>
              Inr (s\<lparr>t_staging := t_staging s @ [new_staging_row domain now priority source pool]\<rparr>,
                   (queued + 1, requeued, pending, locked))
          | Some existing \<Rightarrow>
              let state = str_or (sd_state existing) ''queued'' in
              if state = ''processing'' then Inr (s, (queued, requeued, pending + 1, locked))
              else if state = ''queued'' then
                Inr (s\<lparr>t_staging := tbl_update (\<lambda>r. sd_domain r = domain)
                          (bump_queued priority source pool) (t_staging s)\<rparr>,
                     (queued, requeued, pending + 1, locked))
              else if state = ''failed'' \<or> requeue_existing then
                Inr (s\<lparr>t_staging := tbl_update (\<lambda>r. sd_domain r = domain)
                          (requeue_row now priority source pool) (t_staging s)\<rparr>,
                     (queued, requeued + 1, pending, locked))
              else Inr (s, (queued, requeued, pending + 1, locked)))))"

definition staging_enqueue_detailed ::
  "string list \<Rightarrow> int \<Rightarrow> string \<Rightarrow> string \<Rightarrow> bool \<Rightarrow> string list \<Rightarrow> int \<Rightarrow> db \<Rightarrow> exn + db \<times> enqueue_result" where
  "staging_enqueue_detailed domains priority source pool_id requeue_existing excluded now s =
     (let normalized_priority = max 0 priority;
          normalized_source = py_strip source;
          pool = queue_pool_id pool_id normalized_priority normalized_source;
          unique = unique_normalized domains;
          filtered = filter (\<lambda>d. domain_matches_suffix d excluded) unique;
          kept = filter (\<lambda>d. \<not> domain_matches_suffix d excluded) unique
      in case fold_res (enqueue_one now normalized_priority normalized_source pool requeue_existing)
                kept (s, (0, 0, 0, 0)) of
           Inl e \<Rightarrow> Inl e
         | Inr (s', (queued, requeued, pending, locked)) \<Rightarrow>
             Inr (s', \<lparr>qe_requested = int (length unique), qe_queued = queued, qe_requeued = requeued,
                       qe_already_pending = pending, qe_skipped_locked = locked,
                       qe_skipped_filtered = int (length filtered)\<rparr>))"

definition staging_enqueue ::
  "string list \<Rightarrow> int \<Rightarrow> string \<Rightarrow> string \<Rightarrow> string list \<Rightarrow> int \<Rightarrow> db \<Rightarrow> exn + db \<times> int" where
  "staging_enqueue domains priority source pool_id excluded now s =
     (case staging_enqueue_detailed domains priority source pool_id False excluded now s of
        Inl e \<Rightarrow> Inl e
      | Inr (s', r) \<Rightarrow> Inr (s', qe_queued r + qe_requeued r))"

definition queue_domains_for_review ::
  "string list \<Rightarrow> string \<Rightarrow> string list \<Rightarrow> int \<Rightarrow> db \<Rightarrow> exn + db \<times> enqueue_result" where
  "queue_domains_for_review domains source excluded now s =
     staging_enqueue_detailed domains 100 source ''realtime'' True excluded now s"

text \<open>\<open>filter_unclassified_domains\<close>: the join of \<open>domains\<close> with \<open>review\<close>. The chunks of 500 only
  bound the size of one statement.\<close>

definition review_counts_as_classified :: "review_row \<Rightarrow> bool" where
  "review_counts_as_classified r \<longleftrightarrow>
     r_status r \<notin> {''queued'', ''processing'', ''failed''} \<and>
     (r_policy r \<noteq> ''unknown'' \<or> r_short r \<noteq> [] \<or> r_details r \<noteq> [] \<or> r_categories r \<noteq> [])"

definition is_classified :: "db \<Rightarrow> string \<Rightarrow> bool" where
  "is_classified s domain =
     (case tbl_get d_domain domain (t_domains s) of
        None \<Rightarrow> False
      | Some d \<Rightarrow> d_last_classified_at d \<noteq> None \<or>
          (case tbl_get r_domain domain (t_review s) of
             None \<Rightarrow> False | Some r \<Rightarrow> review_counts_as_classified r))"

definition filter_unclassified_domains :: "string list \<Rightarrow> db \<Rightarrow> string list" where
  "filter_unclassified_domains domains s =
     filter (\<lambda>d. \<not> is_classified s d) (unique_normalized domains)"

text \<open>\<open>queue_domains_needing_analysis\<close> runs two transactions: the first selects candidates and
  records every domain as seen, the second enqueues.\<close>

definition has_recent_comparison :: "int \<Rightarrow> db \<Rightarrow> string \<Rightarrow> bool" where
  "has_recent_comparison now s domain =
     list_ex (\<lambda>c. cr_domain c = domain \<and> \<not> cr_is_primary c \<and> now < cr_expires_at c) (t_runs s)"

definition needs_analysis :: "int \<Rightarrow> db \<Rightarrow> string \<Rightarrow> bool" where
  "needs_analysis now s domain =
     (if tbl_get l_domain domain (t_locks s) \<noteq> None then False
      else case tbl_get d_domain domain (t_domains s) of
        None \<Rightarrow> True
      | Some d \<Rightarrow>
          if has_recent_comparison now s domain then False
          else d_last_classified_at d = None \<or>
            (case d_next_recheck_at d of None \<Rightarrow> False | Some t \<Rightarrow> t \<le> now))"

definition select_candidate ::
  "int \<Rightarrow> bool \<Rightarrow> string \<Rightarrow> db \<times> string list \<Rightarrow> exn + db \<times> string list" where
  "select_candidate now force value st =
     (case st of (s, candidates) \<Rightarrow>
      (case ensure_domain value (Some now) 0 now s of
         Inl e \<Rightarrow> Inl e
       | Inr (domain, s') \<Rightarrow>
           Inr (s', if force \<or> needs_analysis now s' domain then candidates @ [domain] else candidates)))"

definition queue_domains_needing_analysis ::
  "string list \<Rightarrow> bool \<Rightarrow> string list \<Rightarrow> int \<Rightarrow> db \<Rightarrow> db \<times> (exn + int)" where
  "queue_domains_needing_analysis domains force excluded now s =
     (case fold_res (select_candidate now force) domains (s, []) of
        Inl e \<Rightarrow> (s, Inl e)
      | Inr (s1, candidates) \<Rightarrow>
          (case staging_enqueue candidates (if force then 100 else 0)
                  (if force then ''manual'' else ''live_query'')
                  (if force then ''realtime'' else ''background'') excluded now s1 of
             Inl e \<Rightarrow> (s1, Inl e)
           | Inr (s2, n) \<Rightarrow> (s2, Inr n)))"

text \<open>Rows with equal keys come in rowid order here; SQL leaves their order open.\<close>

definition due_rechecks :: "int \<Rightarrow> int \<Rightarrow> db \<Rightarrow> string list" where
  "due_rechecks limit now s =
     map d_domain
      (take (nat (max 1 limit))
        (sort_key (\<lambda>d. (the (d_next_recheck_at d), - d_last_seen d))
          (filter (\<lambda>d. (case d_next_recheck_at d of None \<Rightarrow> False | Some t \<Rightarrow> t \<le> now) \<and>
              tbl_get l_domain (d_domain d) (t_locks s) = None) (t_domains s))))"

definition queue_due_rechecks :: "int \<Rightarrow> string list \<Rightarrow> int \<Rightarrow> db \<Rightarrow> exn + db \<times> int" where
  "queue_due_rechecks limit excluded now s =
     staging_enqueue (due_rechecks limit now s) 10 ''scheduled_recheck'' ''background'' excluded now s"

section \<open>Readiness and claims\<close>

text \<open>The optional \<open>AND pool_id = ?\<close> clause.\<close>

definition pool_clause :: "string \<Rightarrow> staging_row \<Rightarrow> bool" where
  "pool_clause pool_id r =
     (let normalized = py_lower (py_strip pool_id) in
      normalized \<in> {''realtime'', ''background''} \<longrightarrow> sd_pool_id r = normalized)"

definition claimable :: "int \<Rightarrow> string \<Rightarrow> staging_row \<Rightarrow> bool" where
  "claimable now pool_id r \<longleftrightarrow>
     sd_state r = ''queued'' \<and> sd_available_at r \<le> now \<and> pool_clause pool_id r"

definition staging_ready :: "int \<Rightarrow> int \<Rightarrow> string \<Rightarrow> int \<Rightarrow> db \<Rightarrow> bool" where
  "staging_ready trigger_size max_wait_sec pool_id now s =
     (let rows = filter (claimable now pool_id) (t_staging s);
          queued_count = int (length rows)
      in if queued_count = 0 then False
         else if 100 \<le> py_max 0 (map sd_priority rows) then True
         else if max 1 trigger_size \<le> queued_count then True
         else let m = py_min 0 (map sd_created_at rows);
                  oldest = (if m = 0 then now else m)
              in max 1 max_wait_sec \<le> now - oldest)"

record claim_item =
  ci_domain :: string
  ci_source :: string
  ci_priority :: int
  ci_attempts :: int
  ci_created_at :: int
  ci_pool_id :: string

definition claim_item_of :: "staging_row \<Rightarrow> claim_item" where
  "claim_item_of r = \<lparr>ci_domain = sd_domain r, ci_source = sd_source r, ci_priority = sd_priority r,
     ci_attempts = sd_attempts r, ci_created_at = sd_created_at r, ci_pool_id = sd_pool_id r\<rparr>"

definition claim_order :: "staging_row \<Rightarrow> int \<times> int \<times> string" where
  "claim_order r = (- sd_priority r, sd_created_at r, sd_domain r)"

definition claim_rows :: "int \<Rightarrow> string \<Rightarrow> int \<Rightarrow> db \<Rightarrow> staging_row list" where
  "claim_rows limit pool_id now s =
     take (nat (max 1 limit)) (sort_key claim_order (filter (claimable now pool_id) (t_staging s)))"

definition staging_claim_items :: "int \<Rightarrow> string \<Rightarrow> int \<Rightarrow> db \<Rightarrow> db \<times> claim_item list" where
  "staging_claim_items limit pool_id now s =
     (let rows = claim_rows limit pool_id now s;
          domains = map sd_domain rows
      in (s\<lparr>t_staging := tbl_update (\<lambda>r. sd_domain r \<in> set domains)
               (\<lambda>r. r\<lparr>sd_state := ''processing'', sd_attempts := sd_attempts r + 1, sd_updated_at := now\<rparr>)
               (t_staging s)\<rparr>,
          map claim_item_of rows))"

definition staging_claim :: "int \<Rightarrow> string \<Rightarrow> int \<Rightarrow> db \<Rightarrow> db \<times> string list" where
  "staging_claim limit pool_id now s =
     (case staging_claim_items limit pool_id now s of (s', items) \<Rightarrow> (s', map ci_domain items))"

section \<open>Leaving the queue, failing, deferring, recovering\<close>

definition staging_ack :: "string \<Rightarrow> db \<Rightarrow> db" where
  "staging_ack domain s =
     s\<lparr>t_staging := tbl_delete (\<lambda>r. sd_domain r = normalize_domain domain) (t_staging s)\<rparr>"

definition staging_remove :: "string list \<Rightarrow> db \<Rightarrow> db \<times> int" where
  "staging_remove domains s =
     (let normalized = filter (\<lambda>d. d \<noteq> []) (map normalize_domain domains) in
      if normalized = [] then (s, 0)
      else let rows = tbl_delete (\<lambda>r. sd_domain r \<in> set normalized) (t_staging s)
           in (s\<lparr>t_staging := rows\<rparr>, int (length (t_staging s)) - int (length rows)))"

definition staging_fail :: "string \<Rightarrow> string \<Rightarrow> int \<Rightarrow> int \<Rightarrow> db \<Rightarrow> db" where
  "staging_fail domain error max_attempts now s =
     (let normalized = normalize_domain domain;
          attempts = (case tbl_get sd_domain normalized (t_staging s) of
                        None \<Rightarrow> max_attempts | Some r \<Rightarrow> sd_attempts r);
          state = (if max_attempts \<le> attempts then ''failed'' else ''queued'')
      in s\<lparr>t_staging := tbl_update (\<lambda>r. sd_domain r = normalized)
             (\<lambda>r. r\<lparr>sd_state := state, sd_updated_at := now, sd_last_error := take 1000 error,
                    sd_available_at := 0\<rparr>) (t_staging s)\<rparr>)"

definition staging_defer :: "string \<Rightarrow> string \<Rightarrow> pyfloat \<Rightarrow> int \<Rightarrow> db \<Rightarrow> db" where
  "staging_defer domain error retry_at now s =
     (let normalized = normalize_domain domain;
          available_at = max (now + 1) (py_int retry_at)
      in s\<lparr>t_staging := tbl_update (\<lambda>r. sd_domain r = normalized)
             (\<lambda>r. r\<lparr>sd_state := ''queued'', sd_attempts := max 0 (sd_attempts r - 1),
                    sd_updated_at := now, sd_last_error := take 1000 error,
                    sd_available_at := available_at\<rparr>) (t_staging s)\<rparr>)"

definition staging_requeue_processing :: "string \<Rightarrow> int \<Rightarrow> db \<Rightarrow> db \<times> int" where
  "staging_requeue_processing pool_id now s =
     (let p = (\<lambda>r. sd_state r = ''processing'' \<and> pool_clause pool_id r)
      in (s\<lparr>t_staging := tbl_update p
             (\<lambda>r. r\<lparr>sd_state := ''queued'', sd_updated_at := now, sd_available_at := 0\<rparr>) (t_staging s)\<rparr>,
          int (length (filter p (t_staging s)))))"

definition staging_list :: "int \<Rightarrow> db \<Rightarrow> staging_row list" where
  "staging_list limit s = take (nat (max 1 limit)) (sort_key claim_order (t_staging s))"

text \<open>\<open>GROUP BY state\<close> over the default counters.\<close>

definition staging_summary :: "db \<Rightarrow> (string, int) dict" where
  "staging_summary s =
     fold (\<lambda>st d. AList.update st (int (length (filter (\<lambda>r. sd_state r = st) (t_staging s)))) d)
       (fromkeys (map sd_state (t_staging s)))
       [(''queued'', 0), (''processing'', 0), (''failed'', 0)]"

definition domains_without_classification :: "string list \<Rightarrow> db \<Rightarrow> string set" where
  "domains_without_classification domains s =
     set (filter (\<lambda>d. d \<noteq> []) (map normalize_domain domains)) -
     cr_domain ` set (filter cr_is_primary (t_runs s))"

section \<open>Query observations\<close>

record query_row =
  q_time :: pyfloat
  q_client :: string
  q_domain :: string
  q_type :: string
  q_status :: string

text \<open>\<open>int(row.get("time") or time.time())\<close>.\<close>

definition query_timestamp :: "int \<Rightarrow> query_row \<Rightarrow> int" where
  "query_timestamp now q = (if q_time q = 0 then now else py_int (q_time q))"

definition discovered_step :: "int \<Rightarrow> query_row \<Rightarrow> (string, int) dict \<Rightarrow> (string, int) dict" where
  "discovered_step now q d =
     (let domain = normalize_domain (q_domain q) in
      if domain = [] then d
      else AList.update domain
        (max (case map_of d domain of None \<Rightarrow> 0 | Some t \<Rightarrow> t) (query_timestamp now q)) d)"

definition record_discovered_domains :: "query_row list \<Rightarrow> int \<Rightarrow> db \<Rightarrow> exn + db \<times> int" where
  "record_discovered_domains rows now s =
     (let discovered = fold (discovered_step now) rows [] in
      case fold_res (\<lambda>(domain, t) s. map_sum id snd (ensure_domain domain (Some t) 0 now s)) discovered s of
        Inl e \<Rightarrow> Inl e
      | Inr s' \<Rightarrow> Inr (s', int (length discovered)))"

definition observation_key :: "int \<Rightarrow> query_row \<Rightarrow> obs_key" where
  "observation_key now q =
     (let t = query_timestamp now q in
      (normalize_domain (q_domain q), q_client q, q_type q, q_status q, t - t mod 3600))"

definition group_step ::
  "int \<Rightarrow> query_row \<Rightarrow> (obs_key, int \<times> int \<times> int) dict \<Rightarrow> (obs_key, int \<times> int \<times> int) dict" where
  "group_step now q d =
     (if normalize_domain (q_domain q) = [] then d
      else let t = query_timestamp now q; k = observation_key now q in
        AList.update k (case map_of d k of
            None \<Rightarrow> (1, t, t) | Some (n, lo, hi) \<Rightarrow> (n + 1, min lo t, max hi t)) d)"

definition save_group :: "int \<Rightarrow> obs_key \<times> int \<times> int \<times> int \<Rightarrow> db \<Rightarrow> exn + db" where
  "save_group now g s =
     (case g of (k, (n, lo, hi)) \<Rightarrow>
      (case ensure_domain (fst k) (Some hi) n now s of
         Inl e \<Rightarrow> Inl e
       | Inr (d, s') \<Rightarrow>
           if fst k \<notin> known_domains s' then Inl IntegrityError
           else
           Inr (s'\<lparr>t_observations := tbl_upsert qo_key
             \<lparr>qo_key = k, qo_query_count = n, qo_first_seen = lo, qo_last_seen = hi\<rparr>
             (\<lambda>r. r\<lparr>qo_query_count := qo_query_count r + n, qo_first_seen := min (qo_first_seen r) lo,
                    qo_last_seen := max (qo_last_seen r) hi\<rparr>) (t_observations s')\<rparr>)))"

definition record_query_observations :: "query_row list \<Rightarrow> int \<Rightarrow> db \<Rightarrow> exn + db \<times> int" where
  "record_query_observations rows now s =
     (let grouped = fold (group_step now) rows [] in
      case fold_res (save_group now) grouped s of
        Inl e \<Rightarrow> Inl e
      | Inr s' \<Rightarrow> Inr (s', sum_list (map (\<lambda>(k, (n, lo, hi)). n) grouped)))"

section \<open>Every queue operation keeps the store well-formed\<close>

lemma queue_pool_id_valid: "queue_pool_id p n s \<in> {''realtime'', ''background''}"
  by (auto simp: queue_pool_id_def Let_def)

lemma new_staging_row_ok:
  "0 \<le> priority \<Longrightarrow> pool \<in> {''realtime'', ''background''} \<Longrightarrow>
    staging_row_ok (new_staging_row d now priority source pool)"
  by (auto simp: staging_row_ok_def new_staging_row_def valid_queue_states_def)

lemma bump_queued_ok:
  "staging_row_ok r \<Longrightarrow> pool \<in> {''realtime'', ''background''} \<Longrightarrow>
    staging_row_ok (bump_queued priority source pool r)"
  by (auto simp: staging_row_ok_def bump_queued_def)

lemma requeue_row_ok:
  "staging_row_ok r \<Longrightarrow> pool \<in> {''realtime'', ''background''} \<Longrightarrow>
    staging_row_ok (requeue_row now priority source pool r)"
  by (auto simp: staging_row_ok_def requeue_row_def valid_queue_states_def)

lemma sd_domain_bump [simp]: "sd_domain (bump_queued p src pool r) = sd_domain r"
  by (simp add: bump_queued_def)

lemma sd_domain_requeue [simp]: "sd_domain (requeue_row now p src pool r) = sd_domain r"
  by (simp add: requeue_row_def)

lemma sd_domain_new [simp]: "sd_domain (new_staging_row d now p src pool) = d"
  by (simp add: new_staging_row_def)

lemma enqueue_one_ok [invs]:
  assumes step: "enqueue_one now priority source pool rq v (s, cs) = Inr (s', cs')"
    and ok: "db_ok s" and pool: "pool \<in> {''realtime'', ''background''}" and prio: "0 \<le> priority"
  shows "db_ok s'"
proof -
  from step obtain d s1 where e: "ensure_domain v (Some now) 0 now s = Inr (d, s1)"
    by (auto simp: enqueue_one_def split: sum.splits prod.splits)
  from ensure_domain_ok [OF e ok] have ok1: "db_ok s1" .
  have new: "db_ok (s1\<lparr>t_staging := t_staging s1 @ [new_staging_row d now priority source pool]\<rparr>)"
    if "tbl_get l_domain d (t_locks s1) = None" "tbl_get sd_domain d (t_staging s1) = None"
    using that ok1 new_staging_row_ok [OF prio pool]
    by (intro db_ok_set_staging) (auto simp: tbl_get_None tbl_keys_ok_def db_ok_defs)
  have upd: "db_ok (s1\<lparr>t_staging := tbl_update p f (t_staging s1)\<rparr>)"
    if "f = bump_queued priority source pool \<or> f = requeue_row now priority source pool" for p f
    using that ok1 pool by (intro db_ok_update_staging) (auto intro: bump_queued_ok requeue_row_ok)
  from step ok1 show ?thesis
    by (auto simp: enqueue_one_def e Let_def intro: new upd
        split: prod.splits option.splits if_splits)
qed

lemma staging_enqueue_detailed_ok [invs]:
  assumes "staging_enqueue_detailed ds p src pool rq excl now s = Inr (s', r)" and "db_ok s"
  shows "db_ok s'"
proof -
  let ?f = "enqueue_one now (max 0 p) (py_strip src) (queue_pool_id pool (max 0 p) (py_strip src)) rq"
  from assms(1) obtain cs xs where "fold_res ?f xs (s, (0, 0, 0, 0)) = Inr (s', cs)"
    by (auto simp: staging_enqueue_detailed_def Let_def split: sum.splits prod.splits)
  then have "(\<lambda>(t, c). db_ok t) (s', cs)"
    by (rule fold_res_invariant [rotated 2])
      (use assms(2) in \<open>auto intro: enqueue_one_ok [OF _ _ queue_pool_id_valid] split: prod.splits\<close>)
  then show ?thesis by simp
qed

lemma staging_enqueue_ok [invs]:
  "staging_enqueue ds p src pool excl now s = Inr (s', n) \<Longrightarrow> db_ok s \<Longrightarrow> db_ok s'"
  by (auto simp: staging_enqueue_def intro: staging_enqueue_detailed_ok split: sum.splits prod.splits)

lemma select_candidate_ok [invs]:
  "select_candidate now force v (s, c) = Inr (s', c') \<Longrightarrow> db_ok s \<Longrightarrow> db_ok s'"
  by (auto simp: select_candidate_def intro: ensure_domain_ok split: sum.splits prod.splits)

lemma queue_domains_needing_analysis_ok [invs]:
  assumes "queue_domains_needing_analysis ds force excl now s = (s', res)" and "db_ok s"
  shows "db_ok s'"
proof -
  have fold_ok: "db_ok s1" if "fold_res (select_candidate now force) ds (s, []) = Inr (s1, c)" for s1 c
  proof -
    from that have "(\<lambda>(t, c). db_ok t) (s1, c)"
      by (rule fold_res_invariant [rotated 2])
        (use assms(2) in \<open>auto intro: select_candidate_ok split: prod.splits\<close>)
    then show ?thesis by simp
  qed
  with assms show ?thesis
    by (auto simp: queue_domains_needing_analysis_def intro: staging_enqueue_ok
        split: sum.splits prod.splits)
qed

lemma queue_due_rechecks_ok [invs]:
  "queue_due_rechecks limit excl now s = Inr (s', n) \<Longrightarrow> db_ok s \<Longrightarrow> db_ok s'"
  unfolding queue_due_rechecks_def by (rule staging_enqueue_ok)

lemma staging_claim_items_ok [invs]: "db_ok s \<Longrightarrow> db_ok (fst (staging_claim_items limit pool now s))"
  unfolding staging_claim_items_def Let_def fst_conv
  by (rule db_ok_update_staging) (auto simp: staging_row_ok_def valid_queue_states_def)

lemma staging_ack_ok [invs]: "db_ok s \<Longrightarrow> db_ok (staging_ack d s)"
  unfolding staging_ack_def by (rule db_ok_delete_staging)

lemma staging_remove_ok [invs]: "db_ok s \<Longrightarrow> db_ok (fst (staging_remove ds s))"
  unfolding staging_remove_def Let_def by (auto intro: db_ok_delete_staging)

lemma staging_fail_ok [invs]: "db_ok s \<Longrightarrow> db_ok (staging_fail d e m now s)"
  unfolding staging_fail_def Let_def
  by (rule db_ok_update_staging) (auto simp: staging_row_ok_def valid_queue_states_def)

lemma staging_defer_ok [invs]: "db_ok s \<Longrightarrow> db_ok (staging_defer d e t now s)"
  unfolding staging_defer_def Let_def
  by (rule db_ok_update_staging) (auto simp: staging_row_ok_def valid_queue_states_def)

lemma staging_requeue_processing_ok [invs]: "db_ok s \<Longrightarrow> db_ok (fst (staging_requeue_processing p now s))"
  unfolding staging_requeue_processing_def Let_def fst_conv
  by (rule db_ok_update_staging) (auto simp: staging_row_ok_def valid_queue_states_def)

section \<open>What the enqueue counters mean\<close>

lemma enqueue_one_counts:
  assumes "enqueue_one now p src pool rq v (s, (q, r, a, l)) = Inr (s', (q', r', a', l'))"
  shows "q' + r' + a' + l' = q + r + a + l + 1"
  using assms
  by (auto simp: enqueue_one_def Let_def split: sum.splits prod.splits option.splits if_splits)

lemma fold_enqueue_counts:
  "fold_res (enqueue_one now p src pool rq) ds (s, (q, r, a, l)) = Inr (s', (q', r', a', l')) \<Longrightarrow>
    q' + r' + a' + l' = q + r + a + l + int (length ds)"
proof (induction ds arbitrary: s q r a l)
  case Nil
  then show ?case by simp
next
  case (Cons d ds)
  from Cons.prems obtain t q1 r1 a1 l1
    where 1: "enqueue_one now p src pool rq d (s, (q, r, a, l)) = Inr (t, (q1, r1, a1, l1))"
      and 2: "fold_res (enqueue_one now p src pool rq) ds (t, (q1, r1, a1, l1)) = Inr (s', (q', r', a', l'))"
    by (auto split: sum.splits prod.splits)
  from enqueue_one_counts [OF 1] Cons.IH [OF 2] show ?case by simp
qed

section \<open>Claims\<close>

lemma claim_rows_claimable:
  "r \<in> set (claim_rows limit pool now s) \<Longrightarrow> r \<in> set (t_staging s) \<and> claimable now pool r"
  unfolding claim_rows_def using set_take_sort_key by fastforce

lemma length_claim_rows: "length (claim_rows limit pool now s) \<le> nat (max 1 limit)"
  by (simp add: claim_rows_def)

text \<open>After a claim the claimed rows, and only they, have moved to \<open>processing\<close>.\<close>

lemma staging_after_claim:
  assumes "tbl_keys_ok sd_domain (t_staging s)" and "staging_claim_items limit pool now s = (s', items)"
  shows "tbl_get sd_domain d (t_staging s') =
    map_option (\<lambda>r. if d \<in> ci_domain ` set items
       then r\<lparr>sd_state := ''processing'', sd_attempts := sd_attempts r + 1, sd_updated_at := now\<rparr> else r)
     (tbl_get sd_domain d (t_staging s))"
proof -
  have doms: "ci_domain ` set items = set (map sd_domain (claim_rows limit pool now s))"
    using assms(2) by (auto simp: staging_claim_items_def Let_def claim_item_of_def image_image)
  have s': "t_staging s' = tbl_update (\<lambda>r. sd_domain r \<in> ci_domain ` set items)
     (\<lambda>r. r\<lparr>sd_state := ''processing'', sd_attempts := sd_attempts r + 1, sd_updated_at := now\<rparr>) (t_staging s)"
    using assms(2) unfolding doms by (auto simp: staging_claim_items_def Let_def)
  show ?thesis
    unfolding s' by (cases "tbl_get sd_domain d (t_staging s)") (auto simp: tbl_get_update dest: tbl_get_Some)
qed

lemma claim_items_rows:
  assumes "staging_claim_items limit pool now s = (s', items)" and "d \<in> ci_domain ` set items"
    and "tbl_keys_ok sd_domain (t_staging s)"
  obtains r where "tbl_get sd_domain d (t_staging s) = Some r" "claimable now pool r"
proof -
  from assms(1,2) obtain r where "r \<in> set (claim_rows limit pool now s)" "sd_domain r = d"
    by (auto simp: staging_claim_items_def Let_def claim_item_of_def)
  then show ?thesis
    using that claim_rows_claimable tbl_get_in [OF assms(3)] by metis
qed

lemma claim_processing:
  assumes "tbl_keys_ok sd_domain (t_staging s)" and "staging_claim_items limit pool now s = (s', items)"
    and "d \<in> ci_domain ` set items"
  shows "\<exists>r. tbl_get sd_domain d (t_staging s') = Some r \<and> sd_state r = ''processing''"
proof -
  obtain r where "tbl_get sd_domain d (t_staging s) = Some r"
    by (rule claim_items_rows [OF assms(2,3,1)])
  with staging_after_claim [OF assms(1,2), of d] assms(3) show ?thesis by simp
qed

lemma claim_items_keys_ok:
  "tbl_keys_ok sd_domain (t_staging s) \<Longrightarrow> staging_claim_items limit pool now s = (s', items) \<Longrightarrow>
    tbl_keys_ok sd_domain (t_staging s')"
  by (auto simp: staging_claim_items_def Let_def tbl_update_keys_ok)

lemma claim_not_processing:
  assumes "tbl_keys_ok sd_domain (t_staging s)" and "staging_claim_items limit pool now s = (s', items)"
    and "tbl_get sd_domain d (t_staging s) = Some r" and "sd_state r \<noteq> ''queued''"
  shows "d \<notin> ci_domain ` set items"
  using claim_items_rows [OF assms(2) _ assms(1)] assms(3,4)
  by (metis claimable_def option.inject)

section \<open>Deferral and failure\<close>

lemma tbl_get_staging_defer:
  "tbl_get sd_domain d (t_staging (staging_defer dm e t now s)) =
     map_option (\<lambda>r. if sd_domain r = normalize_domain dm
       then r\<lparr>sd_state := ''queued'', sd_attempts := max 0 (sd_attempts r - 1), sd_updated_at := now,
              sd_last_error := take 1000 e, sd_available_at := max (now + 1) (py_int t)\<rparr> else r)
      (tbl_get sd_domain d (t_staging s))"
  by (simp add: staging_defer_def Let_def tbl_get_update)

lemma tbl_get_staging_fail:
  "tbl_get sd_domain d (t_staging (staging_fail dm e m now s)) =
     map_option (\<lambda>r. if sd_domain r = normalize_domain dm
       then r\<lparr>sd_state := (if m \<le> (case tbl_get sd_domain (normalize_domain dm) (t_staging s) of
                None \<Rightarrow> m | Some r \<Rightarrow> sd_attempts r) then ''failed'' else ''queued''),
              sd_updated_at := now, sd_last_error := take 1000 e, sd_available_at := 0\<rparr> else r)
      (tbl_get sd_domain d (t_staging s))"
  by (simp add: staging_fail_def Let_def tbl_get_update)

end
