(* ===== verification/Features.thy ===== *)
theory Features
  imports Staging
begin

text \<open>
  The feature tables of \<open>database_features.py\<close>: cached research findings, protected domains
  (locks), review tasks and the key/value application state. The queue machine at the end closes
  the queue operations of \<open>Staging\<close> and the lock operations under arbitrary interleavings.
\<close>

section \<open>Research findings\<close>

definition save_finding_row :: "int \<Rightarrow> int \<Rightarrow> string \<times> research_finding \<Rightarrow> db \<Rightarrow> db" where
  "save_finding_row days now item s =
     (case item of (domain, f) \<Rightarrow>
      let retrieved_at = (if rf_retrieved_at f = 0 then now else rf_retrieved_at f);
          expires_at = (if rf_expires_at f = 0 then retrieved_at + max 1 days * 86400 else rf_expires_at f)
      in s\<lparr>t_findings := t_findings s @
             [\<lparr>fr_id = seq_findings s + 1, fr_domain = domain, fr_provider = rf_provider f,
               fr_kind = rf_kind f, fr_title = rf_title f, fr_summary = rf_summary f,
               fr_source_url = rf_source_url f, fr_confidence = confidence_value (rf_confidence f),
               fr_signal_type = str_or (py_strip (rf_signal_type f)) ''context'',
               fr_verdict = str_or (py_strip (rf_verdict f)) ''unknown'',
               fr_decision_relevant = rf_decision_relevant f, fr_raw_data = rf_raw_data f,
               fr_retrieved_at = retrieved_at, fr_expires_at = expires_at\<rparr>],
           seq_findings := seq_findings s + 1,
           t_domains := tbl_update (\<lambda>r. d_domain r = domain)
             (\<lambda>r. r\<lparr>d_last_researched_at := Some retrieved_at\<rparr>) (t_domains s)\<rparr>)"

definition ensure_finding ::
  "int \<Rightarrow> research_finding \<Rightarrow> db \<times> (string \<times> research_finding) list \<Rightarrow>
    exn + db \<times> (string \<times> research_finding) list" where
  "ensure_finding now f st =
     (case st of (s, items) \<Rightarrow>
      (case ensure_domain (rf_domain f)
          (Some (if rf_retrieved_at f = 0 then now else rf_retrieved_at f)) 0 now s of
         Inl e \<Rightarrow> Inl e
       | Inr (domain, s') \<Rightarrow> Inr (s', items @ [(domain, f)])))"

definition save_research_findings :: "research_finding list \<Rightarrow> int \<Rightarrow> int \<Rightarrow> db \<Rightarrow> exn + db \<times> int" where
  "save_research_findings findings days now s =
     (if findings = [] then Inr (s, 0)
      else case fold_res (ensure_finding now) findings (s, []) of
        Inl e \<Rightarrow> Inl e
      | Inr (s1, items) \<Rightarrow>
          let keys = set (map (\<lambda>(d, f). (d, rf_provider f)) items);
              s2 = s1\<lparr>t_findings := tbl_delete (\<lambda>r. (fr_domain r, fr_provider r) \<in> keys) (t_findings s1)\<rparr>
          in Inr (fold (save_finding_row days now) items s2, int (length items)))"

definition research_findings_get :: "string \<Rightarrow> bool \<Rightarrow> int \<Rightarrow> int \<Rightarrow> db \<Rightarrow> finding_row list" where
  "research_findings_get domain fresh_only limit now s =
     take (nat (max 1 limit))
      (sort_key (\<lambda>r. (- fr_retrieved_at r, - fr_id r))
        (filter (\<lambda>r. fr_domain r = normalize_domain domain \<and> (fresh_only \<longrightarrow> now < fr_expires_at r))
          (t_findings s)))"

definition clear_research_findings :: "string \<Rightarrow> db \<Rightarrow> db \<times> int" where
  "clear_research_findings domain s =
     (let rows = tbl_delete (\<lambda>r. fr_domain r = normalize_domain domain) (t_findings s)
      in (s\<lparr>t_findings := rows\<rparr>, int (length (t_findings s)) - int (length rows)))"

section \<open>Protected domains\<close>

definition set_domain_lock :: "string \<Rightarrow> string \<Rightarrow> string \<Rightarrow> int \<Rightarrow> db \<Rightarrow> exn + db" where
  "set_domain_lock domain list_type reason now s =
     (if list_type \<notin> {''allow'', ''deny''} then Inl (ValueError ''list_type must be allow or deny'')
      else case ensure_domain domain (Some now) 0 now s of
        Inl e \<Rightarrow> Inl e
      | Inr (normalized, s1) \<Rightarrow>
          Inr (s1\<lparr>t_locks := tbl_upsert l_domain
                    \<lparr>l_domain = normalized, l_list_type = list_type, l_reason = py_strip reason,
                     l_created_at = now, l_updated_at = now\<rparr>
                    (\<lambda>r. r\<lparr>l_list_type := list_type, l_reason := py_strip reason, l_updated_at := now\<rparr>)
                    (t_locks s1),
                  t_staging := tbl_delete (\<lambda>r. sd_domain r = normalized) (t_staging s1)\<rparr>))"

definition remove_domain_lock :: "string \<Rightarrow> db \<Rightarrow> db \<times> int" where
  "remove_domain_lock domain s =
     (let rows = tbl_delete (\<lambda>r. l_domain r = normalize_domain domain) (t_locks s)
      in (s\<lparr>t_locks := rows\<rparr>, int (length (t_locks s)) - int (length rows)))"

definition get_domain_lock :: "string \<Rightarrow> db \<Rightarrow> lock_row option" where
  "get_domain_lock domain s = tbl_get l_domain (normalize_domain domain) (t_locks s)"

definition list_domain_locks :: "string option \<Rightarrow> db \<Rightarrow> lock_row list" where
  "list_domain_locks list_type s =
     (case list_type of
        Some t \<Rightarrow> if t = [] then sort_key (\<lambda>r. (l_list_type r, l_domain r)) (t_locks s)
          else sort_key l_domain (filter (\<lambda>r. l_list_type r = t) (t_locks s))
      | None \<Rightarrow> sort_key (\<lambda>r. (l_list_type r, l_domain r)) (t_locks s))"

definition is_domain_locked :: "string \<Rightarrow> string option \<Rightarrow> db \<Rightarrow> bool" where
  "is_domain_locked domain list_type s =
     (case get_domain_lock domain s of
        None \<Rightarrow> False
      | Some l \<Rightarrow> (case list_type of None \<Rightarrow> True | Some t \<Rightarrow> l_list_type l = t))"

section \<open>Review tasks\<close>

definition create_review_task ::
  "string \<Rightarrow> string \<Rightarrow> string \<Rightarrow> string \<Rightarrow> int \<Rightarrow> db \<Rightarrow> exn + db \<times> int" where
  "create_review_task domain reason priority source now s =
     (let priority_value = (if review_priority_of priority = None then ''normal'' else priority) in
      case ensure_domain domain (Some now) 0 now s of
        Inl e \<Rightarrow> Inl e
      | Inr (normalized, s1) \<Rightarrow>
          (case List.find (\<lambda>r. rt_domain r = normalized \<and> rt_reason r = py_strip reason \<and>
                  rt_status r = ''open'') (t_tasks s1) of
             Some r \<Rightarrow> Inr (s1, rt_id r)
           | None \<Rightarrow>
               let i = seq_tasks s1 + 1 in
               Inr (s1\<lparr>t_tasks := t_tasks s1 @
                      [\<lparr>rt_id = i, rt_domain = normalized, rt_reason = py_strip reason,
                        rt_priority = priority_value, rt_status = ''open'', rt_source = py_strip source,
                        rt_decision = [], rt_created_at = now, rt_updated_at = now\<rparr>],
                    seq_tasks := i\<rparr>, i)))"

definition task_rank :: "task_row \<Rightarrow> int" where
  "task_rank r = (if rt_priority r = ''critical'' then 0 else if rt_priority r = ''high'' then 1
     else if rt_priority r = ''normal'' then 2 else 3)"

definition review_tasks_get :: "string \<Rightarrow> int \<Rightarrow> db \<Rightarrow> task_row list" where
  "review_tasks_get status limit s =
     take (nat (max 1 limit))
      (sort_key (\<lambda>r. (task_rank r, rt_created_at r)) (filter (\<lambda>r. rt_status r = status) (t_tasks s)))"

definition resolve_review_task :: "int \<Rightarrow> string \<Rightarrow> int \<Rightarrow> db \<Rightarrow> db" where
  "resolve_review_task task_id decision now s =
     s\<lparr>t_tasks := tbl_update (\<lambda>r. rt_id r = task_id)
         (\<lambda>r. r\<lparr>rt_status := ''resolved'', rt_decision := py_strip decision, rt_updated_at := now\<rparr>) (t_tasks s)\<rparr>"

section \<open>Application state\<close>

definition get_state :: "string \<Rightarrow> string \<Rightarrow> db \<Rightarrow> string" where
  "get_state k dflt s = (case tbl_get as_key k (t_state s) of None \<Rightarrow> dflt | Some r \<Rightarrow> as_value r)"

definition set_state :: "string \<Rightarrow> string \<Rightarrow> int \<Rightarrow> db \<Rightarrow> db" where
  "set_state k v now s =
     s\<lparr>t_state := tbl_upsert as_key \<lparr>as_key = k, as_value = v, as_updated_at = now\<rparr>
         (\<lambda>r. r\<lparr>as_value := v, as_updated_at := now\<rparr>) (t_state s)\<rparr>"

section \<open>The feature operations keep the store well-formed\<close>

lemma db_ok_set_tasks:
  assumes "db_ok s" and "tbl_keys_ok rt_id rows" and "\<forall>r\<in>set rows. rt_domain r \<in> known_domains s"
    and "\<forall>r\<in>set rows. rt_id r \<le> n"
  shows "db_ok (s\<lparr>t_tasks := rows, seq_tasks := n\<rparr>)"
  using assms by (simp add: db_ok_defs known_domains_def)

lemma db_ok_update_tasks [invs]:
  assumes "db_ok s" and "\<And>r. rt_id (f r) = rt_id r" and "\<And>r. rt_domain (f r) = rt_domain r"
  shows "db_ok (s\<lparr>t_tasks := tbl_update p f (t_tasks s)\<rparr>)"
proof -
  have "db_ok (s\<lparr>t_tasks := tbl_update p f (t_tasks s), seq_tasks := seq_tasks s\<rparr>)"
    using assms
    by (intro db_ok_set_tasks) (auto simp: tbl_update_keys_ok set_tbl_update db_ok_def db_keys_ok_def
        db_refs_ok_def db_seq_ok_def)
  then show ?thesis by simp
qed

lemma create_review_task_ok [invs]:
  assumes "create_review_task d reason p src now s = Inr (s', i)" and "db_ok s"
  shows "db_ok s'"
proof -
  from assms(1) obtain n s1 where e: "ensure_domain d (Some now) 0 now s = Inr (n, s1)"
    by (auto simp: create_review_task_def Let_def split: sum.splits prod.splits)
  have ok: "db_ok s1" by (rule ensure_domain_ok [OF e assms(2)])
  have n: "n \<in> known_domains s1" using ensure_domain_Inr [OF e] by simp
  have le: "\<forall>q\<in>set (t_tasks s1). rt_id q \<le> seq_tasks s1"
    and keys: "tbl_keys_ok rt_id (t_tasks s1)"
    and refs: "\<forall>q\<in>set (t_tasks s1). rt_domain q \<in> known_domains s1"
    using ok by (simp_all add: db_ok_def db_keys_ok_def db_refs_ok_def db_seq_ok_def)
  have "db_ok (s1\<lparr>t_tasks := t_tasks s1 @ [r], seq_tasks := seq_tasks s1 + 1\<rparr>)"
    if "rt_id r = seq_tasks s1 + 1" "rt_domain r = n" for r
  proof (rule db_ok_set_tasks [OF ok])
    from le that(1) have "rt_id r \<notin> rt_id ` set (t_tasks s1)" by force
    with keys show "tbl_keys_ok rt_id (t_tasks s1 @ [r])" by (simp add: tbl_keys_ok_def)
    show "\<forall>q\<in>set (t_tasks s1 @ [r]). rt_domain q \<in> known_domains s1"
      using refs that(2) n by simp
    show "\<forall>q\<in>set (t_tasks s1 @ [r]). rt_id q \<le> seq_tasks s1 + 1"
      using le that(1) by force
  qed
  with ok assms(1) show ?thesis
    by (auto simp: create_review_task_def Let_def e split: option.splits)
qed

lemma resolve_review_task_ok [invs]: "db_ok s \<Longrightarrow> db_ok (resolve_review_task i d now s)"
  unfolding resolve_review_task_def by (rule db_ok_update_tasks) auto

lemma set_domain_lock_ok [invs]:
  assumes "set_domain_lock d t reason now s = Inr s'" and "db_ok s"
  shows "db_ok s'"
proof -
  from assms(1) obtain n s1 where t: "t \<in> {''allow'', ''deny''}"
      and e: "ensure_domain d (Some now) 0 now s = Inr (n, s1)"
    by (auto simp: set_domain_lock_def split: sum.splits prod.splits if_splits)
  let ?new = "\<lparr>l_domain = n, l_list_type = t, l_reason = py_strip reason, l_created_at = now, l_updated_at = now\<rparr>"
  let ?upd = "\<lambda>r :: lock_row. r\<lparr>l_list_type := t, l_reason := py_strip reason, l_updated_at := now\<rparr>"
  let ?locks = "tbl_upsert l_domain ?new ?upd (t_locks s1)"
  from assms(1) t have s': "s' = s1\<lparr>t_locks := ?locks,
      t_staging := tbl_delete (\<lambda>r. sd_domain r = n) (t_staging s1)\<rparr>"
    by (auto simp: set_domain_lock_def e)
  have ok: "db_ok s1" by (rule ensure_domain_ok [OF e assms(2)])
  have dom: "l_domain ` set ?locks = insert n (l_domain ` set (t_locks s1))"
    by (simp add: keys_tbl_upsert)
  have ty: "\<forall>r\<in>set ?locks. l_list_type r \<in> {''allow'', ''deny''}"
    using ok t by (auto simp: tbl_upsert_def set_tbl_update db_ok_def queue_ok_def)
  have "n \<in> known_domains s1" using ensure_domain_Inr(3) [OF e] by simp
  moreover have "l_domain ` set (t_locks s1) \<subseteq> known_domains s1"
    using ok by (auto simp: db_ok_def db_refs_ok_def)
  ultimately have "l_domain ` set ?locks \<subseteq> known_domains s1" by (simp only: dom insert_subset simp_thms)
  then have refs: "\<forall>r\<in>set ?locks. l_domain r \<in> known_domains s1" by blast
  have keys: "tbl_keys_ok l_domain ?locks"
    using ok by (intro tbl_upsert_keys_ok) (auto simp: db_ok_def db_keys_ok_def)
  have disj: "sd_domain ` set (tbl_delete (\<lambda>r. sd_domain r = n) (t_staging s1)) \<inter> l_domain ` set ?locks = {}"
    unfolding dom using ok by (auto simp: set_tbl_delete db_ok_def queue_ok_def)
  have "db_ok (s1\<lparr>t_staging := tbl_delete (\<lambda>r. sd_domain r = n) (t_staging s1)\<rparr>)"
    by (rule db_ok_delete_staging [OF ok])
  with keys ty refs disj show ?thesis
    unfolding s' by (simp add: db_ok_defs known_domains_def)
qed

lemma remove_domain_lock_ok [invs]: "db_ok s \<Longrightarrow> db_ok (fst (remove_domain_lock d s))"
  by (auto simp: remove_domain_lock_def Let_def db_ok_defs known_domains_def set_tbl_delete tbl_delete_keys_ok)

lemma set_state_ok [invs]: "db_ok s \<Longrightarrow> db_ok (set_state k v now s)"
  by (simp add: set_state_def db_ok_defs known_domains_def tbl_upsert_keys_ok)

text \<open>The key/value contract of the application state, from the table contract.\<close>

lemma get_set_state:
  assumes "db_ok s"
  shows "get_state k dflt (set_state k' v now s) = (if k = k' then v else get_state k dflt s)"
proof -
  from assms have ok: "tbl_keys_ok as_key (t_state s)" by (simp add: db_ok_def db_keys_ok_def)
  have "tbl_get as_key k (t_state (set_state k' v now s)) =
      (if k = k' then Some (case tbl_get as_key k (t_state s) of
           None \<Rightarrow> \<lparr>as_key = k', as_value = v, as_updated_at = now\<rparr>
         | Some r \<Rightarrow> r\<lparr>as_value := v, as_updated_at := now\<rparr>)
       else tbl_get as_key k (t_state s))"
    using state_table.get_put [OF _ ok, of "\<lambda>r. r\<lparr>as_value := v, as_updated_at := now\<rparr>" k
        "\<lparr>as_key = k', as_value = v, as_updated_at = now\<rparr>"]
    by (simp add: set_state_def)
  then show ?thesis by (simp add: get_state_def split: option.split)
qed

end
