(* ===== verification/Queue_Machine.thy ===== *)
theory Queue_Machine
  imports Features
begin

text \<open>
  The queue as a state machine: every write of the collector, the two classifier workers, the
  review clients and the lock editor is one labelled step, in any order. Reachable stores are
  well-formed, protected domains never reach the queue, and a claimed domain is not handed out a
  second time until its worker gives it back.
\<close>

section \<open>Steps\<close>

datatype queue_op =
    Op_enqueue "string list" int string string bool
  | Op_needing "string list" bool
  | Op_rechecks int
  | Op_claim int string
  | Op_ack string
  | Op_remove "string list"
  | Op_fail string string int
  | Op_defer string string pyfloat
  | Op_requeue string
  | Op_lock string string string
  | Op_unlock string

text \<open>\<open>excluded\<close> is the configured suffix list, \<open>now\<close> the clock of the step. A step whose operation
  raises leaves the store as the rolled-back transaction does, so it is no step.\<close>

inductive queue_step :: "string list \<Rightarrow> int \<Rightarrow> queue_op \<Rightarrow> db \<Rightarrow> db \<Rightarrow> bool" for excluded now where
  enqueue: "staging_enqueue_detailed ds p src pool rq excluded now s = Inr (s', r) \<Longrightarrow>
    queue_step excluded now (Op_enqueue ds p src pool rq) s s'"
| needing: "queue_domains_needing_analysis ds force excluded now s = (s', res) \<Longrightarrow>
    queue_step excluded now (Op_needing ds force) s s'"
| rechecks: "queue_due_rechecks limit excluded now s = Inr (s', n) \<Longrightarrow>
    queue_step excluded now (Op_rechecks limit) s s'"
| claim: "staging_claim_items limit pool now s = (s', items) \<Longrightarrow>
    queue_step excluded now (Op_claim limit pool) s s'"
| ack: "queue_step excluded now (Op_ack d) s (staging_ack d s)"
| remove: "staging_remove ds s = (s', n) \<Longrightarrow> queue_step excluded now (Op_remove ds) s s'"
| fail: "queue_step excluded now (Op_fail d e m) s (staging_fail d e m now s)"
| defer_item: "queue_step excluded now (Op_defer d e t) s (staging_defer d e t now s)"
| requeue: "staging_requeue_processing pool now s = (s', n) \<Longrightarrow>
    queue_step excluded now (Op_requeue pool) s s'"
| lock: "set_domain_lock d t reason now s = Inr s' \<Longrightarrow> queue_step excluded now (Op_lock d t reason) s s'"
| unlock: "remove_domain_lock d s = (s', n) \<Longrightarrow> queue_step excluded now (Op_unlock d) s s'"

inductive queue_reachable :: "string list \<Rightarrow> db \<Rightarrow> bool" for excluded where
  start: "queue_reachable excluded empty_db"
| step: "queue_reachable excluded s \<Longrightarrow> queue_step excluded now op s s' \<Longrightarrow> queue_reachable excluded s'"

text \<open>Steps that only add work or take work.\<close>

fun quiet_op :: "queue_op \<Rightarrow> bool" where
  "quiet_op (Op_enqueue _ _ _ _ _) = True"
| "quiet_op (Op_needing _ _) = True"
| "quiet_op (Op_rechecks _) = True"
| "quiet_op (Op_claim _ _) = True"
| "quiet_op _ = False"

inductive quiet_run :: "string list \<Rightarrow> db \<Rightarrow> db \<Rightarrow> bool" for excluded where
  stop: "quiet_run excluded s s"
| more: "queue_step excluded now op s t \<Longrightarrow> quiet_op op \<Longrightarrow> quiet_run excluded t u \<Longrightarrow> quiet_run excluded s u"

inductive_cases claim_stepE: "queue_step excluded now (Op_claim limit pool) s s'"

section \<open>Every step keeps the store well-formed\<close>

lemma queue_step_ok:
  assumes "queue_step excluded now op s s'" and "db_ok s"
  shows "db_ok s'"
  using assms
proof (cases rule: queue_step.cases)
  case (enqueue ds p src pool rq r)
  with assms show ?thesis by (blast intro: staging_enqueue_detailed_ok)
next
  case (needing ds force res)
  with assms show ?thesis by (blast intro: queue_domains_needing_analysis_ok)
next
  case (rechecks limit n)
  with assms show ?thesis by (blast intro: queue_due_rechecks_ok)
next
  case (claim limit pool items)
  with assms staging_claim_items_ok [of s limit pool now] show ?thesis by simp
next
  case (remove ds n)
  with assms staging_remove_ok [of s ds] show ?thesis by simp
next
  case (requeue pool n)
  with assms staging_requeue_processing_ok [of s pool now] show ?thesis by simp
next
  case (lock d t reason)
  with assms show ?thesis by (blast intro: set_domain_lock_ok)
next
  case (unlock d n)
  with assms remove_domain_lock_ok [of s d] show ?thesis by simp
qed (use assms in \<open>simp_all add: staging_ack_ok staging_fail_ok staging_defer_ok\<close>)

lemma queue_reachable_ok: "queue_reachable excluded s \<Longrightarrow> db_ok s"
  by (induction rule: queue_reachable.induct) (auto intro: empty_db_ok queue_step_ok)

section \<open>Work in progress stays with its worker\<close>

definition in_progress :: "string \<Rightarrow> db \<Rightarrow> bool" where
  "in_progress d s \<longleftrightarrow> (\<exists>r. tbl_get sd_domain d (t_staging s) = Some r \<and> sd_state r = ''processing'')"

lemma in_progress_ensure:
  "ensure_domain v seen q now s = Inr (n, s') \<Longrightarrow> in_progress d s \<Longrightarrow> in_progress d s'"
  by (simp add: in_progress_def ensure_domain_frame)

lemma in_progress_enqueue_one:
  assumes "enqueue_one now p src pool rq v (s, cs) = Inr (s', cs')" and "in_progress d s"
  shows "in_progress d s'"
proof -
  from assms(1) obtain n s1 where e: "ensure_domain v (Some now) 0 now s = Inr (n, s1)"
    by (auto simp: enqueue_one_def split: sum.splits prod.splits)
  from in_progress_ensure [OF e assms(2)] obtain r
    where r: "tbl_get sd_domain d (t_staging s1) = Some r" "sd_state r = ''processing''"
    by (auto simp: in_progress_def)
  from tbl_get_Some [OF r(1)] have d: "d = sd_domain r" by simp
  with r have "tbl_get sd_domain (sd_domain r) (t_staging s1) = Some r" by simp
  with assms(1) r show ?thesis
    unfolding d
    by (auto simp: enqueue_one_def e Let_def in_progress_def tbl_get_append tbl_get_update str_or_def
        split: prod.splits option.splits if_splits)
qed

lemma in_progress_enqueue:
  assumes "staging_enqueue_detailed ds p src pool rq excl now s = Inr (s', r)" and "in_progress d s"
  shows "in_progress d s'"
proof -
  let ?f = "enqueue_one now (max 0 p) (py_strip src) (queue_pool_id pool (max 0 p) (py_strip src)) rq"
  from assms(1) obtain cs xs where "fold_res ?f xs (s, (0, 0, 0, 0)) = Inr (s', cs)"
    by (auto simp: staging_enqueue_detailed_def Let_def split: sum.splits prod.splits)
  then have "(\<lambda>(t, c). in_progress d t) (s', cs)"
    by (rule fold_res_invariant [rotated 2])
      (use assms(2) in \<open>auto intro: in_progress_enqueue_one split: prod.splits\<close>)
  then show ?thesis by simp
qed

lemma in_progress_staging_enqueue:
  "staging_enqueue ds p src pool excl now s = Inr (s', n) \<Longrightarrow> in_progress d s \<Longrightarrow> in_progress d s'"
  by (auto simp: staging_enqueue_def intro: in_progress_enqueue split: sum.splits prod.splits)

lemma in_progress_needing:
  assumes "queue_domains_needing_analysis ds force excl now s = (s', res)" and "in_progress d s"
  shows "in_progress d s'"
proof -
  have "in_progress d s1" if "fold_res (select_candidate now force) ds (s, []) = Inr (s1, c)" for s1 c
  proof -
    from that have "(\<lambda>(t, c). in_progress d t) (s1, c)"
      by (rule fold_res_invariant [rotated 2])
        (use assms(2) in \<open>auto simp: select_candidate_def intro: in_progress_ensure
          split: prod.splits sum.splits\<close>)
    then show ?thesis by simp
  qed
  with assms show ?thesis
    by (auto simp: queue_domains_needing_analysis_def intro: in_progress_staging_enqueue
        split: sum.splits prod.splits)
qed

lemma in_progress_claim:
  assumes "tbl_keys_ok sd_domain (t_staging s)" and "staging_claim_items limit pool now s = (s', items)"
    and "in_progress d s"
  shows "in_progress d s'"
  using staging_after_claim [OF assms(1,2), of d] assms(3)
  by (cases "d \<in> ci_domain ` set items") (auto simp: in_progress_def)

lemma in_progress_quiet_step:
  assumes "queue_step excluded now op s s'" and "quiet_op op" and "db_ok s" and "in_progress d s"
  shows "in_progress d s'"
  using assms(1)
proof (cases rule: queue_step.cases)
  case (claim limit pool items)
  then show ?thesis
    using assms(3,4) in_progress_claim by (auto simp: db_ok_def db_keys_ok_def)
next
  case (rechecks limit n)
  with assms(4) show ?thesis
    unfolding queue_due_rechecks_def by (blast intro: in_progress_staging_enqueue)
qed (use assms(2,4) in \<open>auto intro: in_progress_enqueue in_progress_needing\<close>)

lemma in_progress_quiet_run:
  "quiet_run excluded s t \<Longrightarrow> db_ok s \<Longrightarrow> in_progress d s \<Longrightarrow> in_progress d t \<and> db_ok t"
  by (induction rule: quiet_run.induct) (auto dest: in_progress_quiet_step queue_step_ok)

section \<open>Enqueueing clean domain names\<close>

lemma enqueue_one_total:
  assumes "clean_domain v" and "normalize_domain v = v" and "v \<noteq> []"
  shows "\<exists>st'. enqueue_one now p src pool rq v st = Inr st'"
proof -
  obtain s q r a l where "st = (s, q, r, a, l)" by (cases st rule: prod_cases5)
  with assms show ?thesis by (simp add: enqueue_one_def ensure_domain_def Let_def split: option.split)
qed

lemma fold_enqueue_total:
  assumes "\<And>v. v \<in> set ds \<Longrightarrow> clean_domain v \<and> normalize_domain v = v \<and> v \<noteq> []"
  shows "\<exists>st'. fold_res (enqueue_one now p src pool rq) ds st = Inr st'"
  using assms
proof (induction ds arbitrary: st)
  case Nil
  then show ?case by (simp del: split_paired_Ex)
next
  case (Cons d ds)
  then obtain st1 where "enqueue_one now p src pool rq d st = Inr st1"
    using enqueue_one_total [of d] by (metis list.set_intros(1))
  with Cons show ?case by simp
qed

text \<open>The keys of the queue after an enqueue: those before it and the new ones that are not locked.\<close>

lemma enqueue_one_keys:
  assumes "enqueue_one now p src pool rq v (s, cs) = Inr (s', cs')"
  shows "t_locks s' = t_locks s"
    and "sd_domain ` set (t_staging s') = sd_domain ` set (t_staging s) \<union>
      (if normalize_domain v \<in> l_domain ` set (t_locks s) then {} else {normalize_domain v})"
proof -
  from assms obtain n s1 where e: "ensure_domain v (Some now) 0 now s = Inr (n, s1)"
    by (auto simp: enqueue_one_def split: sum.splits prod.splits)
  note fr = ensure_domain_frame [OF e]
  have n: "n = normalize_domain v" by (rule ensure_domain_Inr(1) [OF e])
  obtain q r a l where cs: "cs = (q, r, a, l)" by (cases cs rule: prod_cases4)
  have "t_locks s' = t_locks s1 \<and> sd_domain ` set (t_staging s') = sd_domain ` set (t_staging s1) \<union>
      (if n \<in> l_domain ` set (t_locks s1) then {} else {n})"
  proof (cases "n \<in> l_domain ` set (t_locks s1)")
    case True
    then have "tbl_get l_domain n (t_locks s1) \<noteq> None" by (simp add: tbl_get_None)
    with True assms show ?thesis by (auto simp: enqueue_one_def e cs)
  next
    case False
    then have lk: "tbl_get l_domain n (t_locks s1) = None" by (simp add: tbl_get_None)
    show ?thesis
    proof (cases "tbl_get sd_domain n (t_staging s1)")
      case None
      with False lk assms show ?thesis by (auto simp: enqueue_one_def e cs)
    next
      case (Some x)
      then have "insert n (sd_domain ` set (t_staging s1)) = sd_domain ` set (t_staging s1)"
        using tbl_get_Some by fastforce
      with Some False lk assms show ?thesis
        by (simp add: enqueue_one_def e cs Let_def split: if_splits; elim conjE disjE; (hypsubst)?; simp add: keys_tbl_update)
    qed
  qed
  then show "t_locks s' = t_locks s"
    and "sd_domain ` set (t_staging s') = sd_domain ` set (t_staging s) \<union>
      (if normalize_domain v \<in> l_domain ` set (t_locks s) then {} else {normalize_domain v})"
    unfolding fr n by auto
qed

lemma fold_enqueue_keys:
  "fold_res (enqueue_one now p src pool rq) ds (s, cs) = Inr (s', cs') \<Longrightarrow>
    t_locks s' = t_locks s \<and>
    sd_domain ` set (t_staging s') =
      sd_domain ` set (t_staging s) \<union> (normalize_domain ` set ds - l_domain ` set (t_locks s))"
proof (induction ds arbitrary: s cs)
  case Nil
  then show ?case by simp
next
  case (Cons v ds)
  from Cons.prems obtain t ct where 1: "enqueue_one now p src pool rq v (s, cs) = Inr (t, ct)"
      and 2: "fold_res (enqueue_one now p src pool rq) ds (t, ct) = Inr (s', cs')"
    by (auto split: sum.splits)
  from Cons.IH [OF 2] enqueue_one_keys [OF 1] show ?case by auto
qed

section \<open>Properties of the queue\<close>


definition ex_locked :: db where
  "ex_locked = (case set_domain_lock ''bank.example'' ''allow'' ''critical'' 5 empty_db of
     Inr s \<Rightarrow> s | Inl _ \<Rightarrow> empty_db)"

definition ex_filled :: "db \<times> enqueue_result" where
  "ex_filled = (case staging_enqueue_detailed [''B.example'', ''a.example.'', ''a.example'', ''bank.example'']
      20 ''live'' '''' False [''.lan''] 7 ex_locked of
     Inr p \<Rightarrow> p | Inl _ \<Rightarrow> (empty_db, \<lparr>qe_requested = 0, qe_queued = 0, qe_requeued = 0,
       qe_already_pending = 0, qe_skipped_locked = 0, qe_skipped_filtered = 0\<rparr>))"

lemma ex_filled_step:
  "staging_enqueue_detailed [''B.example'', ''a.example.'', ''a.example'', ''bank.example'']
     20 ''live'' '''' False [''.lan''] 7 ex_locked = Inr (fst ex_filled, snd ex_filled)"
  by code_simp

lemma ex_filled_reachable: "queue_reachable [''.lan''] (fst ex_filled)"
proof -
  have "set_domain_lock ''bank.example'' ''allow'' ''critical'' 5 empty_db = Inr ex_locked" by code_simp
  then have "queue_reachable [''.lan''] ex_locked"
    by (blast intro: queue_reachable.intros queue_step.lock)
  with ex_filled_step show ?thesis by (blast intro: queue_reachable.intros queue_step.enqueue)
qed


text \<open>C2. Work is handed out once: after a worker has claimed items, no later claim, by the same
  or the other worker, for any pool, returns one of their domains again, however many enqueues,
  recheck sweeps and claims happen in between; a domain only comes back after it was
  acknowledged, failed, deferred, removed or recovered.\<close>

theorem claims_disjoint:
  assumes "queue_reachable excluded s"
    and "staging_claim_items limit pool now s = (s1, items)"
    and "quiet_run excluded s1 s2"
    and "staging_claim_items limit' pool' now' s2 = (s3, items')"
  shows "ci_domain ` set items \<inter> ci_domain ` set items' = {}"
proof -
  have ok: "db_ok s" by (rule queue_reachable_ok [OF assms(1)])
  then have keys: "tbl_keys_ok sd_domain (t_staging s)" by (simp add: db_ok_def db_keys_ok_def)
  have ok1: "db_ok s1" using staging_claim_items_ok [OF ok, of limit pool now] assms(2) by simp
  have "d \<notin> ci_domain ` set items'" if d: "d \<in> ci_domain ` set items" for d
  proof -
    have "in_progress d s1"
      unfolding in_progress_def by (rule claim_processing [OF keys assms(2) d])
    with in_progress_quiet_run [OF assms(3) ok1] have ok2: "db_ok s2" and "in_progress d s2" by simp_all
    then obtain r where r: "tbl_get sd_domain d (t_staging s2) = Some r" "sd_state r = ''processing''"
      by (auto simp: in_progress_def)
    from ok2 have "tbl_keys_ok sd_domain (t_staging s2)" by (simp add: db_ok_def db_keys_ok_def)
    from claim_not_processing [OF this assms(4) r(1)] r(2) show ?thesis by simp
  qed
  then show ?thesis by blast
qed

theorem claims_disjoint_witness:
  "let (s1, items) = staging_claim_items 1 '''' 8 (fst ex_filled);
       (s3, items') = staging_claim_items 5 ''background'' 9 s1
   in map ci_domain items = [''a.example''] \<and> map ci_domain items' = [''b.example''] \<and>
      ci_domain ` set items \<inter> ci_domain ` set items' = {}"
proof -
  obtain s1 items where 1: "staging_claim_items 1 '''' 8 (fst ex_filled) = (s1, items)" by fastforce
  obtain s3 items' where 2: "staging_claim_items 5 ''background'' 9 s1 = (s3, items')" by fastforce
  have "map ci_domain (snd (staging_claim_items 1 '''' 8 (fst ex_filled))) = [''a.example'']"
    and "map ci_domain (snd (staging_claim_items 5 ''background'' 9
      (fst (staging_claim_items 1 '''' 8 (fst ex_filled))))) = [''b.example'']"
    by code_simp+
  with claims_disjoint [OF ex_filled_reachable 1 quiet_run.stop 2] 1 2 show ?thesis by simp
qed

lemma claim_order_le:
  "claim_order r \<le> claim_order q \<longleftrightarrow> sd_priority q < sd_priority r \<or> sd_priority q = sd_priority r \<and>
     (sd_created_at r < sd_created_at q \<or> sd_created_at r = sd_created_at q \<and> sd_domain r \<le> sd_domain q)"
  by (auto simp: claim_order_def less_eq_prod_def)

text \<open>C3. A claim takes the right work: at most \<open>max(1, limit)\<close> items, each a row that was queued, due
  and of the requested pool, in the order priority (highest first), age, name; every such row
  left behind ranks no higher than the rows taken, and rows are only left behind when the limit is
  reached. Exactly the claimed rows move to \<open>processing\<close>, each with one more attempt.\<close>

theorem claim_takes_best:
  assumes "tbl_keys_ok sd_domain (t_staging s)"
    and "staging_claim_items limit pool now s = (s', items)"
  shows "length items \<le> nat (max 1 limit)
    \<and> (\<exists>rows. items = map claim_item_of rows \<and> sorted (map claim_order rows) \<and>
        set rows \<subseteq> {r \<in> set (t_staging s). claimable now pool r} \<and>
        (\<forall>r\<in>set rows. \<forall>q\<in>set (t_staging s). claimable now pool q \<and> q \<notin> set rows \<longrightarrow>
          sd_priority q < sd_priority r \<or> sd_priority q = sd_priority r \<and>
            (sd_created_at r < sd_created_at q \<or> sd_created_at r = sd_created_at q \<and> sd_domain r \<le> sd_domain q)) \<and>
        (length rows < nat (max 1 limit) \<longrightarrow> set rows = {r \<in> set (t_staging s). claimable now pool r}))
    \<and> (\<forall>d. tbl_get sd_domain d (t_staging s') = map_option (\<lambda>r. if d \<in> ci_domain ` set items
         then r\<lparr>sd_state := ''processing'', sd_attempts := sd_attempts r + 1, sd_updated_at := now\<rparr> else r)
       (tbl_get sd_domain d (t_staging s)))"
proof -
  let ?rows = "claim_rows limit pool now s"
  have items: "items = map claim_item_of ?rows"
    using assms(2) by (auto simp: staging_claim_items_def Let_def)
  have all: "set ?rows = {r \<in> set (t_staging s). claimable now pool r}"
    if "length ?rows < nat (max 1 limit)"
    using that by (auto simp: claim_rows_def min_def split: if_splits)
  have sorted: "sorted (map claim_order ?rows)"
    unfolding claim_rows_def by (rule sorted_take_sort_key)
  have best: "sd_priority q < sd_priority r \<or> sd_priority q = sd_priority r \<and>
            (sd_created_at r < sd_created_at q \<or> sd_created_at r = sd_created_at q \<and> sd_domain r \<le> sd_domain q)"
    if "r \<in> set ?rows" "q \<in> set (t_staging s)" "claimable now pool q" "q \<notin> set ?rows" for r q
    using that unfolding claim_order_le [symmetric] claim_rows_def by (intro take_sort_key_le) auto
  have sub: "set ?rows \<subseteq> {r \<in> set (t_staging s). claimable now pool r}"
    using claim_rows_claimable by blast
  have "\<exists>rows. items = map claim_item_of rows \<and> sorted (map claim_order rows) \<and>
        set rows \<subseteq> {r \<in> set (t_staging s). claimable now pool r} \<and>
        (\<forall>r\<in>set rows. \<forall>q\<in>set (t_staging s). claimable now pool q \<and> q \<notin> set rows \<longrightarrow>
          sd_priority q < sd_priority r \<or> sd_priority q = sd_priority r \<and>
            (sd_created_at r < sd_created_at q \<or> sd_created_at r = sd_created_at q \<and> sd_domain r \<le> sd_domain q)) \<and>
        (length rows < nat (max 1 limit) \<longrightarrow> set rows = {r \<in> set (t_staging s). claimable now pool r})"
    by (intro exI [of _ ?rows] conjI items sorted sub) (use best all in blast)+
  moreover have "length items \<le> nat (max 1 limit)" by (simp add: items length_claim_rows)
  ultimately show ?thesis using staging_after_claim [OF assms] by blast
qed

theorem claim_takes_best_witness:
  "map ci_domain (snd (staging_claim_items 1 ''background'' 8 (fst ex_filled))) = [''a.example''] \<and>
   length (snd (staging_claim_items 1 ''background'' 8 (fst ex_filled))) \<le> nat (max 1 1)"
proof -
  have "tbl_keys_ok sd_domain (t_staging (fst ex_filled))" by code_simp
  from claim_takes_best [OF this prod.collapse [symmetric], of 1 "''background''" 8]
  have "length (snd (staging_claim_items 1 ''background'' 8 (fst ex_filled))) \<le> nat (max 1 1)" by blast
  moreover have "map ci_domain (snd (staging_claim_items 1 ''background'' 8 (fst ex_filled))) = [''a.example'']"
    by code_simp
  ultimately show ?thesis by blast
qed

text \<open>What enqueueing clean names does: the final state of the loop over the names that no suffix excludes.\<close>

lemma enqueue_clean:
  assumes "\<forall>d\<in>set ds. clean_domain d"
  obtains s' q r a l where
    "staging_enqueue_detailed ds p src pool rq excl now s = Inr (s',
      \<lparr>qe_requested = int (length (unique_normalized ds)), qe_queued = q, qe_requeued = r, qe_already_pending = a,
       qe_skipped_locked = l, qe_skipped_filtered = int (length (filter (\<lambda>d. domain_matches_suffix d excl) (unique_normalized ds)))\<rparr>)"
    and "q + r + a + l = int (length (filter (\<lambda>d. \<not> domain_matches_suffix d excl) (unique_normalized ds)))"
    and "t_locks s' = t_locks s"
    and "sd_domain ` set (t_staging s') = sd_domain ` set (t_staging s) \<union>
      {d \<in> normalize_domain ` set ds. d \<noteq> [] \<and> \<not> domain_matches_suffix d excl \<and> d \<notin> l_domain ` set (t_locks s)}"
proof -
  let ?u = "unique_normalized ds" and ?p = "\<lambda>d. domain_matches_suffix d excl"
  let ?f = "enqueue_one now (max 0 p) (py_strip src) (queue_pool_id pool (max 0 p) (py_strip src)) rq"
  have u: "set ?u = normalize_domain ` set ds - {[]}"
    by (auto simp: unique_normalized_def)
  have clean: "clean_domain v \<and> normalize_domain v = v \<and> v \<noteq> []" if "v \<in> set (filter (\<lambda>d. \<not> ?p d) ?u)" for v
    using that assms by (auto simp: u clean_domain_normalize normalize_domain_idem)
  from fold_enqueue_total [OF clean, where st = "(s, (0, 0, 0, 0))"]
  obtain s' q r a l where f: "fold_res ?f (filter (\<lambda>d. \<not> ?p d) ?u) (s, (0, 0, 0, 0)) = Inr (s', (q, r, a, l))"
    by (metis prod_cases5)
  have "normalize_domain ` set (filter (\<lambda>d. \<not> ?p d) ?u) = set (filter (\<lambda>d. \<not> ?p d) ?u)"
    using clean by force
  also have "\<dots> = {d \<in> normalize_domain ` set ds. d \<noteq> [] \<and> \<not> ?p d}" by (simp only: set_filter u) blast
  finally have img: "normalize_domain ` set (filter (\<lambda>d. \<not> ?p d) ?u) = \<dots>" .
  show thesis
  proof (rule that [of s' q r a l])
    show "t_locks s' = t_locks s"
      "sd_domain ` set (t_staging s') = sd_domain ` set (t_staging s) \<union>
        {d \<in> normalize_domain ` set ds. d \<noteq> [] \<and> \<not> ?p d \<and> d \<notin> l_domain ` set (t_locks s)}"
      using fold_enqueue_keys [OF f] unfolding img by blast+
  qed (use f fold_enqueue_counts [OF f] in \<open>simp_all add: staging_enqueue_detailed_def Let_def\<close>)
qed

text \<open>C4. Enqueueing accounts for every domain: on clean names it never raises, the counters add up
  to the number of distinct requested names, and afterwards the queue holds exactly what it held
  before and the requested names that are neither locked nor excluded by a suffix; locks are untouched.\<close>

theorem enqueue_complete:
  assumes "\<forall>d\<in>set ds. clean_domain d"
  shows "\<exists>s' r. staging_enqueue_detailed ds p src pool rq excl now s = Inr (s', r) \<and>
    qe_requested r = int (card (normalize_domain ` set ds - {[]})) \<and>
    qe_requested r = qe_queued r + qe_requeued r + qe_already_pending r + qe_skipped_locked r + qe_skipped_filtered r \<and>
    t_locks s' = t_locks s \<and>
    sd_domain ` set (t_staging s') = sd_domain ` set (t_staging s) \<union>
      {d \<in> normalize_domain ` set ds. d \<noteq> [] \<and> \<not> domain_matches_suffix d excl \<and>
         d \<notin> l_domain ` set (t_locks s)}"
proof -
  obtain s' q r a l where e: "staging_enqueue_detailed ds p src pool rq excl now s = Inr (s',
      \<lparr>qe_requested = int (length (unique_normalized ds)), qe_queued = q, qe_requeued = r, qe_already_pending = a,
       qe_skipped_locked = l, qe_skipped_filtered = int (length (filter (\<lambda>d. domain_matches_suffix d excl) (unique_normalized ds)))\<rparr>)"
    and n: "q + r + a + l = int (length (filter (\<lambda>d. \<not> domain_matches_suffix d excl) (unique_normalized ds)))"
    and k: "t_locks s' = t_locks s"
      "sd_domain ` set (t_staging s') = sd_domain ` set (t_staging s) \<union>
        {d \<in> normalize_domain ` set ds. d \<noteq> [] \<and> \<not> domain_matches_suffix d excl \<and> d \<notin> l_domain ` set (t_locks s)}"
    by (rule enqueue_clean [OF assms])
  have "set (unique_normalized ds) = normalize_domain ` set ds - {[]}" by (auto simp: unique_normalized_def)
  then have req: "int (length (unique_normalized ds)) = int (card (normalize_domain ` set ds - {[]}))"
    by (metis distinct_card distinct_fromkeys unique_normalized_def)
  have "length (unique_normalized ds) = length (filter (\<lambda>d. \<not> domain_matches_suffix d excl) (unique_normalized ds)) +
      length (filter (\<lambda>d. domain_matches_suffix d excl) (unique_normalized ds))"
    using sum_length_filter_compl [of "\<lambda>d. domain_matches_suffix d excl" "unique_normalized ds"] by simp
  then show ?thesis using e n k req by (intro exI conjI) (assumption, simp_all)
qed

theorem enqueue_complete_witness:
  "snd ex_filled = \<lparr>qe_requested = 3, qe_queued = 2, qe_requeued = 0, qe_already_pending = 0,
     qe_skipped_locked = 1, qe_skipped_filtered = 0\<rparr> \<and>
   qe_requested (snd ex_filled) = qe_queued (snd ex_filled) + qe_requeued (snd ex_filled) +
     qe_already_pending (snd ex_filled) + qe_skipped_locked (snd ex_filled) + qe_skipped_filtered (snd ex_filled)"
proof -
  have "\<forall>d\<in>set [''B.example'', ''a.example.'', ''a.example'', ''bank.example'']. clean_domain d"
    by code_simp
  from enqueue_complete [OF this, of 20 "''live''" "''''" False "[''.lan'']" 7 ex_locked]
  have "qe_requested (snd ex_filled) = qe_queued (snd ex_filled) + qe_requeued (snd ex_filled) +
     qe_already_pending (snd ex_filled) + qe_skipped_locked (snd ex_filled) + qe_skipped_filtered (snd ex_filled)"
    unfolding ex_filled_step by (metis Inr_inject Pair_inject)
  moreover have "snd ex_filled = \<lparr>qe_requested = 3, qe_queued = 2, qe_requeued = 0, qe_already_pending = 0,
     qe_skipped_locked = 1, qe_skipped_filtered = 0\<rparr>"
    by code_simp
  ultimately show ?thesis by blast
qed

text \<open>Deferring claimed work for a quota costs nothing: the row returns to the queue with the
  attempt count it had before the claim, no claim of any pool sees it before the retry time (and
  never in the same second), and from that time on it is claimable for its own pool.\<close>

theorem defer_restores_attempt:
  assumes "db_ok s" and "staging_claim_items limit pool now s = (s1, items)"
    and "d \<in> ci_domain ` set items" and "normalize_domain d = d"
  shows "\<exists>r r'. tbl_get sd_domain d (t_staging s) = Some r \<and>
     tbl_get sd_domain d (t_staging (staging_defer d err retry_at now' s1)) = Some r' \<and>
     sd_attempts r' = sd_attempts r \<and> sd_priority r' = sd_priority r \<and> sd_pool_id r' = sd_pool_id r \<and>
     (\<forall>t pool'. t < max (now' + 1) (py_int retry_at) \<longrightarrow> \<not> claimable t pool' r') \<and>
     (\<forall>t\<ge>max (now' + 1) (py_int retry_at). claimable t (sd_pool_id r) r')"
proof -
  from assms(1) have keys: "tbl_keys_ok sd_domain (t_staging s)" by (simp add: db_ok_def db_keys_ok_def)
  obtain r where r: "tbl_get sd_domain d (t_staging s) = Some r" "claimable now pool r"
    by (rule claim_items_rows [OF assms(2,3) keys])
  from tbl_get_Some [OF r(1)] assms(1) have "staging_row_ok r" and d: "sd_domain r = d"
    by (auto simp: db_ok_def queue_ok_def)
  then have att: "0 \<le> sd_attempts r" and pool: "sd_pool_id r = ''realtime'' \<or> sd_pool_id r = ''background''"
    by (auto simp: staging_row_ok_def)
  have low: "py_lower (py_strip p) = p" if "p = ''realtime'' \<or> p = ''background''" for p
    using that by (elim disjE; hypsubst) code_simp+
  from staging_after_claim [OF keys assms(2), of d] r(1) assms(3)
  have "tbl_get sd_domain d (t_staging s1) =
      Some (r\<lparr>sd_state := ''processing'', sd_attempts := sd_attempts r + 1, sd_updated_at := now\<rparr>)"
    by simp
  then show ?thesis
    using r(1) att d assms(4) low [OF pool]
    by (auto simp: tbl_get_staging_defer claimable_def pool_clause_def Let_def)
qed

theorem defer_restores_attempt_witness:
  "\<exists>r r'. tbl_get sd_domain ''a.example'' (t_staging (fst ex_filled)) = Some r \<and>
     tbl_get sd_domain ''a.example'' (t_staging (staging_defer ''a.example'' ''quota'' 60 8
       (fst (staging_claim_items 1 '''' 8 (fst ex_filled))))) = Some r' \<and>
     sd_attempts r' = sd_attempts r \<and> \<not> claimable 59 '''' r' \<and> claimable 60 (sd_pool_id r) r'"
proof -
  have in_items: "''a.example'' \<in> ci_domain ` set (snd (staging_claim_items 1 '''' 8 (fst ex_filled)))"
    and norm: "normalize_domain ''a.example'' = ''a.example''" and t: "max (8 + 1) (py_int 60) = 60"
    by code_simp+
  from defer_restores_attempt [OF queue_reachable_ok [OF ex_filled_reachable] prod.collapse [symmetric]
      in_items norm, of "''quota''" 60 8]
  show ?thesis unfolding t by fastforce
qed

end
