(* ===== verification/Queue_Refinement.thy ===== *)
theory Queue_Refinement
  imports Queue_Machine
begin

text \<open>
  The queue against its specification. The specification knows no rows, priorities, pools, attempts or
  clocks: a job board maps a domain to waiting, working or failed, and a set of domains is protected.
  \<open>board_of\<close> reads a board off the two tables, and every step of the store is one event of the board
  (simulation), so what holds of all reachable boards holds of the store.
\<close>

section \<open>The specification\<close>

datatype job_state = Waiting | Working | Failed

record board =
  jobs :: "string \<rightharpoonup> job_state"
  guarded :: "string set"

datatype board_event =
    Submit "string set"
  | Take "string set"
  | Finish "string set"
  | Fail string bool
  | Give_back string
  | Recover "string set"
  | Guard string
  | Unguard string

definition set_jobs :: "string set \<Rightarrow> job_state option \<Rightarrow> board \<Rightarrow> board" where
  "set_jobs D x b = b\<lparr>jobs := \<lambda>d. if d \<in> D then x else jobs b d\<rparr>"

definition submittable :: "board \<Rightarrow> string set" where
  "submittable b = {d. d \<notin> guarded b \<and> jobs b d \<in> {None, Some Failed}}"

definition in_state :: "job_state \<Rightarrow> board \<Rightarrow> string set" where
  "in_state x b = {d. jobs b d = Some x}"

inductive board_step :: "board_event \<Rightarrow> board \<Rightarrow> board \<Rightarrow> bool" where
  submit: "board_step (Submit D) b (set_jobs (D \<inter> submittable b) (Some Waiting) b)"
| take_jobs: "D \<subseteq> in_state Waiting b \<Longrightarrow> board_step (Take D) b (set_jobs D (Some Working) b)"
| finish: "board_step (Finish D) b (set_jobs D None b)"
| fail: "board_step (Fail d final) b
    (set_jobs ({d} \<inter> dom (jobs b)) (Some (if final then Failed else Waiting)) b)"
| give_back: "board_step (Give_back d) b (set_jobs ({d} \<inter> dom (jobs b)) (Some Waiting) b)"
| recover: "D \<subseteq> in_state Working b \<Longrightarrow> board_step (Recover D) b (set_jobs D (Some Waiting) b)"
| guard: "board_step (Guard d) b ((set_jobs {d} None b)\<lparr>guarded := insert d (guarded b)\<rparr>)"
| unguard: "board_step (Unguard d) b (b\<lparr>guarded := guarded b - {d}\<rparr>)"

definition empty_board :: board where
  "empty_board = \<lparr>jobs = Map.empty, guarded = {}\<rparr>"

inductive board_reachable :: "board \<Rightarrow> bool" where
  init: "board_reachable empty_board"
| step: "board_reachable b \<Longrightarrow> board_step e b b' \<Longrightarrow> board_reachable b'"

lemma board_step_guarded:
  assumes "board_step e b b'" and "\<And>d. d \<in> guarded b \<Longrightarrow> jobs b d = None" and "d \<in> guarded b'"
  shows "jobs b' d = None"
  using assms by cases (auto simp: set_jobs_def submittable_def in_state_def dom_def)

lemma board_guarded: "board_reachable b \<Longrightarrow> d \<in> guarded b \<Longrightarrow> jobs b d = None"
  by (induction arbitrary: d rule: board_reachable.induct) (auto simp: empty_board_def intro: board_step_guarded)

section \<open>Simulation\<close>

text \<open>A step system simulated by another, through an abstraction of its good states.\<close>

locale simulation =
  fixes init :: 's and step :: "'l \<Rightarrow> 's \<Rightarrow> 's \<Rightarrow> bool" and good :: "'s \<Rightarrow> bool"
    and a_init :: 'a and a_step :: "'e \<Rightarrow> 'a \<Rightarrow> 'a \<Rightarrow> bool" and event_of :: "'l \<Rightarrow> 'e \<Rightarrow> bool" and abs :: "'s \<Rightarrow> 'a"
  assumes good_init: "good init"
    and good_step: "good s \<Longrightarrow> step l s s' \<Longrightarrow> good s'"
    and abs_init: "abs init = a_init"
    and abs_step: "good s \<Longrightarrow> step l s s' \<Longrightarrow> \<exists>e. event_of l e \<and> a_step e (abs s) (abs s')"
begin

inductive run :: "'l list \<Rightarrow> 's \<Rightarrow> bool" where
  none: "run [] init"
| one_more: "run ls s \<Longrightarrow> step l s s' \<Longrightarrow> run (ls @ [l]) s'"

inductive a_run :: "'e list \<Rightarrow> 'a \<Rightarrow> bool" where
  a_none: "a_run [] a_init"
| a_one_more: "a_run es b \<Longrightarrow> a_step e b b' \<Longrightarrow> a_run (es @ [e]) b'"

lemma run_good: "run ls s \<Longrightarrow> good s"
  by (induction rule: run.induct) (auto intro: good_init good_step)

lemma run_simulated: "run ls s \<Longrightarrow> \<exists>es. a_run es (abs s) \<and> list_all2 event_of ls es"
proof (induction rule: run.induct)
  case none
  then show ?case using abs_init a_run.a_none by auto
next
  case (one_more ls s l s')
  then obtain es e where "a_run es (abs s)" "list_all2 event_of ls es" "event_of l e" "a_step e (abs s) (abs s')"
    using abs_step run_good by blast
  then show ?case by (auto intro: a_run.a_one_more list_all2_appendI)
qed

end

section \<open>Reading a board off the store\<close>

definition job_state_of :: "string \<Rightarrow> job_state" where
  "job_state_of st = (if st = ''processing'' then Working else if st = ''failed'' then Failed else Waiting)"

lemma job_state_of_simps [simp]:
  "job_state_of ''queued'' = Waiting" "job_state_of ''processing'' = Working" "job_state_of ''failed'' = Failed"
  "job_state_of st = Working \<longleftrightarrow> st = ''processing''" "job_state_of st = Failed \<longleftrightarrow> st = ''failed''"
  by (simp_all add: job_state_of_def)

definition board_of :: "db \<Rightarrow> board" where
  "board_of s = \<lparr>jobs = (\<lambda>d. map_option (\<lambda>r. job_state_of (sd_state r)) (tbl_get sd_domain d (t_staging s))),
     guarded = l_domain ` set (t_locks s)\<rparr>"

text \<open>Which events a labelled step of the store may be.\<close>

fun event_of :: "string list \<Rightarrow> queue_op \<Rightarrow> board_event \<Rightarrow> bool" where
  "event_of ex (Op_enqueue ds p src pool rq) e =
     (e = Submit (normalize_domain ` {d \<in> set (unique_normalized ds). \<not> domain_matches_suffix d ex}))"
| "event_of ex (Op_needing ds force) e = (\<exists>D. e = Submit D \<and> D \<subseteq> range normalize_domain)"
| "event_of ex (Op_rechecks n) e = (\<exists>D. e = Submit D \<and> D \<subseteq> range normalize_domain)"
| "event_of ex (Op_claim n pool) e = (\<exists>D. e = Take D \<and> int (card D) \<le> max 1 n)"
| "event_of ex (Op_ack d) e = (e = Finish {normalize_domain d})"
| "event_of ex (Op_remove ds) e = (e = Finish (normalize_domain ` set ds - {[]}))"
| "event_of ex (Op_fail d err m) e = (\<exists>final. e = Fail (normalize_domain d) final)"
| "event_of ex (Op_defer d err t) e = (e = Give_back (normalize_domain d))"
| "event_of ex (Op_requeue pool) e = (\<exists>D. e = Recover D)"
| "event_of ex (Op_lock d t reason) e = (e = Guard (normalize_domain d))"
| "event_of ex (Op_unlock d) e = (e = Unguard (normalize_domain d))"

section \<open>Each operation is its event\<close>

lemma board_eqI: "jobs b = jobs b' \<Longrightarrow> guarded b = guarded b' \<Longrightarrow> b = (b'::board)"
  by simp

lemma board_frame: "t_staging s' = t_staging s \<Longrightarrow> t_locks s' = t_locks s \<Longrightarrow> board_of s' = board_of s"
  by (simp add: board_of_def)

lemma row_states:
  assumes "db_ok s" and "tbl_get sd_domain d (t_staging s) = Some r"
  shows "sd_state r \<in> {''queued'', ''processing'', ''failed''}"
  using assms tbl_get_Some [OF assms(2)] by (auto simp: db_ok_def queue_ok_def staging_row_ok_def valid_queue_states_def)

text \<open>An update of rows that sets their state, and one that keeps it.\<close>

lemma board_update:
  assumes "\<And>r. sd_domain (f r) = sd_domain r" and "\<And>r. sd_state (f r) = st"
  shows "board_of (s\<lparr>t_staging := tbl_update p f (t_staging s)\<rparr>) =
    set_jobs {d. \<exists>r. tbl_get sd_domain d (t_staging s) = Some r \<and> p r} (Some (job_state_of st)) (board_of s)"
  using assms by (auto simp: board_of_def set_jobs_def tbl_get_update fun_eq_iff option.map_comp comp_def intro!: map_option_cong)

lemma board_update_key:
  assumes "\<And>r. sd_domain (f r) = sd_domain r" and "\<And>r. sd_state (f r) = st"
  shows "board_of (s\<lparr>t_staging := tbl_update (\<lambda>r. sd_domain r = n) f (t_staging s)\<rparr>) =
    set_jobs ({n} \<inter> dom (jobs (board_of s))) (Some (job_state_of st)) (board_of s)"
proof -
  have "{d. \<exists>r. tbl_get sd_domain d (t_staging s) = Some r \<and> sd_domain r = n} = {n} \<inter> dom (jobs (board_of s))"
    by (auto simp: board_of_def dom_def dest: tbl_get_Some)
  then show ?thesis by (simp add: board_update [OF assms])
qed

lemma board_update_same:
  assumes "\<And>r. sd_domain (f r) = sd_domain r" and "\<And>r. sd_state (f r) = sd_state r"
  shows "board_of (s\<lparr>t_staging := tbl_update p f (t_staging s)\<rparr>) = board_of s"
  using assms by (auto simp: board_of_def tbl_get_update fun_eq_iff option.map_comp comp_def intro!: map_option_cong)

lemma board_enqueue_one:
  assumes step: "enqueue_one now p src pool rq v (s, cs) = Inr (s', cs')" and ok: "db_ok s"
  shows "board_of s' = set_jobs ({normalize_domain v} \<inter> submittable (board_of s)) (Some Waiting) (board_of s)"
proof -
  from step obtain n s1 where e: "ensure_domain v (Some now) 0 now s = Inr (n, s1)"
    by (auto simp: enqueue_one_def split: sum.splits prod.splits)
  have n: "normalize_domain v = n" using ensure_domain_Inr(1) [OF e] by simp
  have b: "board_of s1 = board_of s" by (rule board_frame) (simp_all add: ensure_domain_frame [OF e])
  have st: "tbl_get sd_domain n (t_staging s1) = Some r \<Longrightarrow> sd_state r \<in> {''queued'', ''processing'', ''failed''}" for r
    using row_states [OF ok] ensure_domain_frame(1) [OF e] by simp
  obtain q r a l where cs: "cs = (q, r, a, l)" by (cases cs rule: prod_cases4)
  let ?b = "board_of s1"
  show ?thesis unfolding b [symmetric] n
  proof (cases "tbl_get l_domain n (t_locks s1)")
    case (Some x)
    then have "n \<notin> submittable ?b" using tbl_get_Some [OF Some] by (auto simp: submittable_def board_of_def)
    then show "board_of s' = set_jobs ({n} \<inter> submittable ?b) (Some Waiting) ?b"
      using step Some by (auto simp: enqueue_one_def e cs set_jobs_def)
  next
    case None
    then have free: "n \<notin> guarded ?b" by (auto simp: board_of_def tbl_get_None)
    show "board_of s' = set_jobs ({n} \<inter> submittable ?b) (Some Waiting) ?b"
    proof (cases "tbl_get sd_domain n (t_staging s1)")
      case absent: None
      then have "n \<in> submittable ?b" using free by (simp add: submittable_def board_of_def)
      then show ?thesis using step None absent
        by (auto simp: enqueue_one_def e cs set_jobs_def board_of_def tbl_get_append tbl_get_Cons new_staging_row_def
            fun_eq_iff split: option.split)
    next
      case present: (Some x)
      have sub: "n \<in> submittable ?b \<longleftrightarrow> sd_state x = ''failed''"
        using free present st [OF present] by (auto simp: submittable_def board_of_def)
      show ?thesis
      proof (cases "sd_state x = ''failed''")
        case True
        then have "s' = s1\<lparr>t_staging := tbl_update (\<lambda>r. sd_domain r = n) (requeue_row now p src pool) (t_staging s1)\<rparr>"
          using step None present by (simp add: enqueue_one_def e cs str_or_def)
        moreover have "{n} \<inter> dom (jobs ?b) = {n} \<inter> submittable ?b" using sub True present by (auto simp: board_of_def)
        ultimately show ?thesis using board_update_key [of "requeue_row now p src pool" "''queued''" n s1]
          by (simp add: requeue_row_def)
      next
        case False
        then have "set_jobs ({n} \<inter> submittable ?b) (Some Waiting) ?b = ?b" using sub by (simp add: set_jobs_def)
        moreover have "board_of s' = ?b" using step None present False st [OF present]
          by (auto simp: enqueue_one_def e cs str_or_def bump_queued_def board_update_same)
        ultimately show ?thesis by simp
      qed
    qed
  qed
qed

lemma submit_twice:
  "set_jobs (E \<inter> submittable (set_jobs (D \<inter> submittable b) (Some Waiting) b)) (Some Waiting) (set_jobs (D \<inter> submittable b) (Some Waiting) b)
     = set_jobs ((D \<union> E) \<inter> submittable b) (Some Waiting) b"
  by (rule board_eqI) (auto simp: set_jobs_def submittable_def fun_eq_iff)

lemma board_fold_enqueue:
  assumes "fold_res (enqueue_one now p src pool rq) ds (s, cs) = Inr (s', cs')" and "db_ok s"
    and "pool \<in> {''realtime'', ''background''}" and "0 \<le> p"
  shows "board_of s' = set_jobs (normalize_domain ` set ds \<inter> submittable (board_of s)) (Some Waiting) (board_of s)"
  using assms
proof (induction ds arbitrary: s cs)
  case Nil
  then show ?case by (simp add: set_jobs_def)
next
  case (Cons v ds)
  from Cons.prems(1) obtain t ct where 1: "enqueue_one now p src pool rq v (s, cs) = Inr (t, ct)"
      and 2: "fold_res (enqueue_one now p src pool rq) ds (t, ct) = Inr (s', cs')"
    by (auto split: sum.splits)
  from Cons.IH [OF 2 enqueue_one_ok [OF 1]] Cons.prems(2-4) board_enqueue_one [OF 1] submit_twice [of "normalize_domain ` set ds" "{normalize_domain v}"]
  show ?case by simp
qed

lemma board_enqueue:
  assumes "staging_enqueue_detailed ds p src pool rq ex now s = Inr (s', r)" and "db_ok s"
  shows "board_of s' = set_jobs (normalize_domain ` {d \<in> set (unique_normalized ds). \<not> domain_matches_suffix d ex} \<inter> submittable (board_of s))
    (Some Waiting) (board_of s)"
proof -
  let ?kept = "filter (\<lambda>d. \<not> domain_matches_suffix d ex) (unique_normalized ds)"
  from assms(1) obtain cs where
    "fold_res (enqueue_one now (max 0 p) (py_strip src) (queue_pool_id pool (max 0 p) (py_strip src)) rq) ?kept (s, (0, 0, 0, 0)) = Inr (s', cs)"
    by (auto simp: staging_enqueue_detailed_def Let_def split: sum.splits prod.splits)
  from board_fold_enqueue [OF this assms(2) queue_pool_id_valid] show ?thesis by simp
qed

lemma board_staging_enqueue:
  assumes "staging_enqueue ds p src pool ex now s = Inr (s', n)" and "db_ok s"
  obtains D where "D \<subseteq> range normalize_domain" "board_step (Submit D) (board_of s) (board_of s')"
proof -
  from assms(1) obtain r where "staging_enqueue_detailed ds p src pool False ex now s = Inr (s', r)"
    by (auto simp: staging_enqueue_def split: sum.splits prod.splits)
  from board_enqueue [OF this assms(2)] show ?thesis
    by (intro that [of "normalize_domain ` {d \<in> set (unique_normalized ds). \<not> domain_matches_suffix d ex}"])
      (auto intro: board_step.submit)
qed

lemma board_ensure: "ensure_domain v seen q now s = Inr (n, s') \<Longrightarrow> board_of s' = board_of s"
  by (rule board_frame) (simp_all add: ensure_domain_frame)

lemma board_select:
  assumes "fold_res (select_candidate now force) ds (s, []) = Inr (s1, c)"
  shows "board_of s1 = board_of s"
proof -
  from assms have "(\<lambda>(t, c). board_of t = board_of s) (s1, c)"
    by (rule fold_res_invariant [rotated 2])
      (auto simp: select_candidate_def board_ensure split: prod.splits sum.splits)
  then show ?thesis by simp
qed

lemma board_needing:
  assumes "queue_domains_needing_analysis ds force ex now s = (s', res)" and "db_ok s"
  obtains D where "D \<subseteq> range normalize_domain" "board_step (Submit D) (board_of s) (board_of s')"
proof (cases "fold_res (select_candidate now force) ds (s, [])")
  case (Inl e)
  then have "s' = s" using assms(1) by (simp add: queue_domains_needing_analysis_def)
  then show ?thesis using that [of "{}"] board_step.submit [of "{}" "board_of s"] by (simp add: set_jobs_def)
next
  case (Inr p)
  then obtain s1 c where f: "fold_res (select_candidate now force) ds (s, []) = Inr (s1, c)" by (cases p) auto
  have ok: "db_ok s1"
    using fold_res_invariant [of ds "\<lambda>(t, c). db_ok t" "select_candidate now force", OF _ _ f] assms(2) select_candidate_ok by fastforce
  show ?thesis
  proof (cases "staging_enqueue c (if force then 100 else 0) (if force then ''manual'' else ''live_query'')
                  (if force then ''realtime'' else ''background'') ex now s1")
    case (Inl e)
    then have "s' = s1" using assms(1) f by (simp add: queue_domains_needing_analysis_def)
    then show ?thesis using that [of "{}"] board_step.submit [of "{}" "board_of s"] board_select [OF f] by (simp add: set_jobs_def)
  next
    case (Inr q)
    then obtain n where "staging_enqueue c (if force then 100 else 0) (if force then ''manual'' else ''live_query'')
                  (if force then ''realtime'' else ''background'') ex now s1 = Inr (s', n)"
      using assms(1) f by (cases q) (simp add: queue_domains_needing_analysis_def)
    from board_staging_enqueue [OF this ok] that show ?thesis unfolding board_select [OF f] .
  qed
qed

lemma board_claim:
  assumes "staging_claim_items limit pool now s = (s', items)" and "db_ok s"
  obtains D where "int (card D) \<le> max 1 limit" "board_step (Take D) (board_of s) (board_of s')"
proof -
  let ?rows = "claim_rows limit pool now s"
  let ?D = "set (map sd_domain ?rows)"
  have keys: "tbl_keys_ok sd_domain (t_staging s)" using assms(2) by (simp add: db_ok_def db_keys_ok_def)
  have s': "s' = s\<lparr>t_staging := tbl_update (\<lambda>r. sd_domain r \<in> ?D)
      (\<lambda>r. r\<lparr>sd_state := ''processing'', sd_attempts := sd_attempts r + 1, sd_updated_at := now\<rparr>) (t_staging s)\<rparr>"
    using assms(1) by (auto simp: staging_claim_items_def Let_def)
  have row: "\<exists>r. tbl_get sd_domain d (t_staging s) = Some r \<and> claimable now pool r" if "d \<in> ?D" for d
    using that claim_rows_claimable tbl_get_in [OF keys] by fastforce
  have "{d. \<exists>r. tbl_get sd_domain d (t_staging s) = Some r \<and> sd_domain r \<in> ?D} = ?D"
    using row tbl_get_Some by fastforce
  then have "board_of s' = set_jobs ?D (Some Working) (board_of s)" unfolding s' by (simp add: board_update [where st = "''processing''"])
  moreover have "?D \<subseteq> in_state Waiting (board_of s)"
    using row by (fastforce simp: in_state_def board_of_def claimable_def)
  moreover have "int (card ?D) \<le> max 1 limit"
    using card_length [of "map sd_domain ?rows"] length_claim_rows [of limit pool now s] by simp
  ultimately show ?thesis using that board_step.take_jobs by metis
qed

lemma board_delete:
  assumes "tbl_keys_ok sd_domain (t_staging s)"
  shows "board_of (s\<lparr>t_staging := tbl_delete (\<lambda>r. sd_domain r \<in> D) (t_staging s)\<rparr>) = set_jobs D None (board_of s)"
proof -
  have "(case tbl_get sd_domain d (t_staging s) of None \<Rightarrow> None | Some r \<Rightarrow> if sd_domain r \<in> D then None else Some r) =
      (if d \<in> D then None else tbl_get sd_domain d (t_staging s))" for d
    by (auto dest: tbl_get_Some split: option.split)
  then show ?thesis by (auto simp: board_of_def set_jobs_def tbl_get_delete [OF assms] fun_eq_iff)
qed

lemma board_ack:
  assumes "tbl_keys_ok sd_domain (t_staging s)"
  shows "board_of (staging_ack d s) = set_jobs {normalize_domain d} None (board_of s)"
  using board_delete [OF assms, of "{normalize_domain d}"] by (simp add: staging_ack_def)

lemma board_remove:
  assumes "staging_remove ds s = (s', n)" and "tbl_keys_ok sd_domain (t_staging s)"
  shows "board_of s' = set_jobs (normalize_domain ` set ds - {[]}) None (board_of s)"
proof -
  have D: "set (filter (\<lambda>d. d \<noteq> []) (map normalize_domain ds)) = normalize_domain ` set ds - {[]}" by auto
  show ?thesis
  proof (cases "filter (\<lambda>d. d \<noteq> []) (map normalize_domain ds) = []")
    case True
    then have "s' = s" and none: "normalize_domain ` set ds - {[]} = {}" using assms(1) D by (auto simp: staging_remove_def)
    then show ?thesis unfolding none by (simp add: set_jobs_def)
  next
    case False
    then show ?thesis using assms(1) board_delete [OF assms(2), of "normalize_domain ` set ds - {[]}"] D
      by (auto simp: staging_remove_def Let_def)
  qed
qed

lemma board_requeue:
  assumes "staging_requeue_processing pool now s = (s', n)"
  obtains D where "board_step (Recover D) (board_of s) (board_of s')"
proof -
  let ?p = "\<lambda>r. sd_state r = ''processing'' \<and> pool_clause pool r"
  let ?D = "{d. \<exists>r. tbl_get sd_domain d (t_staging s) = Some r \<and> ?p r}"
  have s': "s' = s\<lparr>t_staging := tbl_update ?p (\<lambda>r. r\<lparr>sd_state := ''queued'', sd_updated_at := now, sd_available_at := 0\<rparr>) (t_staging s)\<rparr>"
    using assms by (simp add: staging_requeue_processing_def Let_def)
  have "board_of s' = set_jobs ?D (Some Waiting) (board_of s)" unfolding s' by (subst board_update [where st = "''queued''"]) simp_all
  moreover have "?D \<subseteq> in_state Working (board_of s)" by (auto simp: in_state_def board_of_def)
  ultimately have "board_step (Recover ?D) (board_of s) (board_of s')" using board_step.recover [of ?D "board_of s"] by simp
  then show ?thesis by (rule that)
qed

lemma board_lock:
  assumes "set_domain_lock d t reason now s = Inr s'"
  shows "board_step (Guard (normalize_domain d)) (board_of s) (board_of s')"
proof -
  from assms obtain n s1 where e: "ensure_domain d (Some now) 0 now s = Inr (n, s1)"
    by (auto simp: set_domain_lock_def split: if_splits sum.splits)
  have n: "n = normalize_domain d" by (rule ensure_domain_Inr(1) [OF e])
  from assms obtain new upd where s': "s' = s1\<lparr>t_locks := tbl_upsert l_domain new upd (t_locks s1),
      t_staging := tbl_delete (\<lambda>r. sd_domain r = n) (t_staging s1)\<rparr>" and "l_domain new = n" "\<And>r. l_domain (upd r) = l_domain r"
    by (auto simp: set_domain_lock_def e split: if_splits)
  then have "l_domain ` set (t_locks s') = insert n (l_domain ` set (t_locks s1))" by (simp add: keys_tbl_upsert)
  then have "board_of s' = (set_jobs {n} None (board_of s))\<lparr>guarded := insert n (guarded (board_of s))\<rparr>"
    unfolding board_ensure [OF e, symmetric] by (auto simp: s' board_of_def set_jobs_def tbl_get_delete_key fun_eq_iff)
  then show ?thesis unfolding n by (simp add: board_step.guard)
qed

lemma board_unlock:
  assumes "remove_domain_lock d s = (s', n)"
  shows "board_step (Unguard (normalize_domain d)) (board_of s) (board_of s')"
proof -
  have "board_of s' = (board_of s)\<lparr>guarded := guarded (board_of s) - {normalize_domain d}\<rparr>"
    using assms by (auto simp: remove_domain_lock_def Let_def board_of_def tbl_delete_def)
  then show ?thesis by (simp add: board_step.unguard)
qed

lemma board_fail: "\<exists>final. board_step (Fail (normalize_domain d) final) (board_of s) (board_of (staging_fail d e m now s))"
proof -
  obtain st f where f: "staging_fail d e m now s = s\<lparr>t_staging := tbl_update (\<lambda>r. sd_domain r = normalize_domain d) f (t_staging s)\<rparr>"
    and keep: "\<And>r. sd_domain (f r) = sd_domain r" "\<And>r. sd_state (f r) = st" and st: "st = ''failed'' \<or> st = ''queued''"
    by (simp add: staging_fail_def Let_def)
  from st show ?thesis unfolding f board_update_key [OF keep]
    using board_step.fail [of "normalize_domain d" True "board_of s"] board_step.fail [of "normalize_domain d" False "board_of s"]
    by (elim disjE) (auto simp del: job_state_of_simps(4,5))
qed

lemma queue_step_simulated:
  assumes ok: "db_ok s" and step: "queue_step excluded now op s s'"
  shows "\<exists>e. event_of excluded op e \<and> board_step e (board_of s) (board_of s')"
proof -
  have keys: "tbl_keys_ok sd_domain (t_staging s)" using ok by (simp add: db_ok_def db_keys_ok_def)
  from step show ?thesis
  proof (cases rule: queue_step.cases)
    case (enqueue ds p src pool rq r)
    then show ?thesis using board_enqueue [OF enqueue(2) ok] by (auto intro: board_step.submit)
  next
    case (needing ds force res)
    from board_needing [OF needing(2) ok] obtain D where "D \<subseteq> range normalize_domain" "board_step (Submit D) (board_of s) (board_of s')" .
    then show ?thesis using needing(1) by auto
  next
    case (rechecks limit n)
    from board_staging_enqueue [OF rechecks(2) [unfolded queue_due_rechecks_def] ok] obtain D
      where "D \<subseteq> range normalize_domain" "board_step (Submit D) (board_of s) (board_of s')" .
    then show ?thesis using rechecks(1) by auto
  next
    case (claim limit pool items)
    from board_claim [OF claim(2) ok] obtain D
      where "int (card D) \<le> max 1 limit" "board_step (Take D) (board_of s) (board_of s')" .
    then show ?thesis using claim(1) by auto
  next
    case (ack d)
    then show ?thesis using board_ack [OF keys] by (auto intro: board_step.finish)
  next
    case (remove ds n)
    then show ?thesis using board_remove [OF remove(2) keys] by (auto intro: board_step.finish)
  next
    case (fail d e m)
    then show ?thesis using board_fail by fastforce
  next
    case (defer_item d e t)
    then show ?thesis using board_step.give_back [of "normalize_domain d" "board_of s"]
      by (simp add: staging_defer_def Let_def board_update_key [where st = "''queued''"])
  next
    case (requeue pool n)
    from board_requeue [OF requeue(2)] obtain D where "board_step (Recover D) (board_of s) (board_of s')" .
    then show ?thesis using requeue(1) by auto
  qed (auto intro: board_lock board_unlock)
qed

section \<open>The refinement\<close>

interpretation queue_sim: simulation empty_db "\<lambda>(now, op) s s'. queue_step excluded now op s s'" db_ok
  empty_board board_step "\<lambda>(now, op) e. event_of excluded op e" board_of for excluded
proof unfold_locales
  show "db_ok empty_db" by (rule empty_db_ok)
  show "board_of empty_db = empty_board" by (simp add: board_of_def empty_board_def empty_db_def fun_eq_iff)
qed (auto intro: queue_step_ok queue_step_simulated)

lemma reachable_run: "queue_reachable excluded s \<Longrightarrow> \<exists>ls. queue_sim.run excluded ls s"
proof (induction rule: queue_reachable.induct)
  case start
  then show ?case by (blast intro: queue_sim.run.none)
next
  case (step s now op s')
  then obtain ls where "queue_sim.run excluded ls s" by blast
  from queue_sim.run.one_more [OF this, of "(now, op)"] step(2) show ?case by auto
qed

lemma a_run_reachable: "queue_sim.a_run es b \<Longrightarrow> board_reachable b"
  by (induction rule: queue_sim.a_run.induct) (auto intro: board_reachable.intros)



end
