(* ===== verification/Review_Store.thy ===== *)
theory Review_Store
  imports Features
begin

text \<open>
  The review table and the classification history of \<open>database_review.py\<close>: saving a review entry,
  saving a classification run (with its effects on \<open>domains\<close>, \<open>domain_tags\<close> and \<open>review\<close>), the review
  list and the combined review queue, resolving and applying reviews, and tags by source.
  Keyword arguments of the two save operations are records.
\<close>

section \<open>Tags by source\<close>

text \<open>One row of the \<open>executemany\<close> in \<open>_replace_source_tags\<close>, with the constraints it meets.\<close>

definition insert_tag :: "tag_row \<Rightarrow> db \<Rightarrow> exn + db" where
  "insert_tag r s =
     (if dt_key r \<in> set (map dt_key (t_tags s)) \<or> dt_domain r \<notin> known_domains s then Inl IntegrityError
      else Inr (s\<lparr>t_tags := t_tags s @ [r]\<rparr>))"

definition source_tag_row :: "string \<Rightarrow> string \<Rightarrow> pyfloat \<Rightarrow> int \<Rightarrow> string \<Rightarrow> tag_row" where
  "source_tag_row domain source confidence now tag =
     \<lparr>dt_domain = domain, dt_tag = tag, dt_source = source, dt_confidence = confidence_value confidence,
      dt_created_at = now, dt_updated_at = now\<rparr>"

definition replace_source_tags ::
  "string \<Rightarrow> tags_arg \<Rightarrow> string \<Rightarrow> pyfloat \<Rightarrow> int \<Rightarrow> db \<Rightarrow> exn + db" where
  "replace_source_tags domain tags source confidence now s =
     fold_res insert_tag (map (source_tag_row domain source confidence now) (normalize_tags tags))
       (s\<lparr>t_tags := tbl_delete (\<lambda>r. dt_domain r = domain \<and> dt_source r = source) (t_tags s)\<rparr>)"

definition set_manual_tags :: "string \<Rightarrow> tags_arg \<Rightarrow> int \<Rightarrow> db \<Rightarrow> exn + db" where
  "set_manual_tags domain tags now s =
     (case ensure_domain domain (Some now) 0 now s of
        Inl e \<Rightarrow> Inl e
      | Inr (normalized, s1) \<Rightarrow> replace_source_tags normalized tags ''manual'' 1 now s1)"

definition tag_source_rank :: "tag_row \<Rightarrow> int" where
  "tag_source_rank r = (if dt_source r = ''manual'' then 0 else if dt_source r = ''llm'' then 1 else 2)"

definition domain_tags :: "string \<Rightarrow> db \<Rightarrow> tag_row list" where
  "domain_tags domain s =
     sort_key (\<lambda>r. (tag_source_rank r, dt_tag r))
       (filter (\<lambda>r. dt_domain r = normalize_domain domain) (t_tags s))"

text \<open>Manual tags override the model's, \<open>manual_tag_overrides.py\<close>.\<close>

definition manual_tags :: "string \<Rightarrow> db \<Rightarrow> string list" where
  "manual_tags domain s =
     sort (map dt_tag (filter (\<lambda>r. dt_domain r = normalize_domain domain \<and> dt_source r = ''manual'') (t_tags s)))"

definition effective_tags :: "string \<Rightarrow> tags_arg \<Rightarrow> db \<Rightarrow> string list" where
  "effective_tags domain fallback s =
     (let override = manual_tags domain s in if override \<noteq> [] then override else normalize_tags fallback)"

section \<open>Saving a review entry\<close>

definition normalize_planned_action :: "string \<Rightarrow> string" where
  "normalize_planned_action value =
     (let n = py_lower (py_strip value) in if n \<in> {''allow'', ''deny''} then n else [])"

definition normalize_action_status :: "string \<Rightarrow> string" where
  "normalize_action_status value =
     (let n = py_lower (py_strip value)
      in if n \<in> {''none'', ''simulated'', ''applied'', ''dismissed''} then n else ''none'')"

record review_input =
  ri_domain :: string
  ri_categories :: tags_arg
  ri_details :: string
  ri_status :: string
  ri_policy :: string
  ri_short :: string
  ri_provider :: string
  ri_service :: string
  ri_service_role :: string
  ri_privacy_risk :: int
  ri_security_risk :: int
  ri_breakage_risk :: int
  ri_confidence :: pyfloat
  ri_needs_review :: bool
  ri_review_reason :: string
  ri_next_recheck_at :: "int option"
  ri_planned_action :: string
  ri_action_status :: string

definition review_row_of :: "string \<Rightarrow> review_input \<Rightarrow> int \<Rightarrow> review_row" where
  "review_row_of normalized i now =
     \<lparr>r_domain = normalized, r_categories = py_join '','' (normalize_tags (ri_categories i)),
      r_policy = str_or (py_lower (py_strip (ri_policy i))) ''unknown'',
      r_short = py_strip (ri_short i), r_details = py_strip (ri_details i),
      r_provider = py_strip (ri_provider i), r_status = str_or (py_strip (ri_status i)) ''edited'',
      r_service = py_strip (ri_service i),
      r_service_role = str_or (py_lower (py_strip (ri_service_role i))) ''unknown'',
      r_privacy_risk = risk_value (ri_privacy_risk i), r_security_risk = risk_value (ri_security_risk i),
      r_breakage_risk = risk_value (ri_breakage_risk i),
      r_confidence = confidence_value (ri_confidence i), r_needs_review = ri_needs_review i,
      r_review_reason = py_strip (ri_review_reason i), r_next_recheck_at = ri_next_recheck_at i,
      r_planned_action = normalize_planned_action (ri_planned_action i),
      r_action_status = normalize_action_status (ri_action_status i),
      r_created_at = now, r_updated_at = now\<rparr>"

text \<open>\<open>_review_save\<close>: the upsert keeps \<open>created_at\<close> of an existing row.\<close>

definition review_save_in :: "review_input \<Rightarrow> int \<Rightarrow> db \<Rightarrow> exn + db" where
  "review_save_in i now s =
     (case ensure_domain (ri_domain i) (Some now) 0 now s of
        Inl e \<Rightarrow> Inl e
      | Inr (normalized, s1) \<Rightarrow>
          let new = review_row_of normalized i now;
              s2 = s1\<lparr>t_review := tbl_upsert r_domain new
                        (\<lambda>r. new\<lparr>r_domain := r_domain r, r_created_at := r_created_at r\<rparr>) (t_review s1),
                      t_domains := tbl_update (\<lambda>d. d_domain d = normalized)
                        (\<lambda>d. d\<lparr>d_current_policy := r_policy new, d_current_service := r_service new,
                               d_current_service_role := r_service_role new,
                               d_next_recheck_at := (case ri_next_recheck_at i of
                                  None \<Rightarrow> d_next_recheck_at d | Some t \<Rightarrow> Some t)\<rparr>)
                        (t_domains s1)\<rparr>
          in replace_source_tags normalized (Tags_list (normalize_tags (ri_categories i))) ''current''
               (ri_confidence i) now s2)"

definition review_save :: "review_input \<Rightarrow> int \<Rightarrow> db \<Rightarrow> exn + db" where
  "review_save i now s = review_save_in i now s"

section \<open>Saving a classification run\<close>

record run_options =
  ro_provider_id :: string
  ro_model :: string
  ro_profile :: string
  ro_prompt_hash :: string
  ro_status :: string
  ro_planned_action :: string
  ro_action_status :: string
  ro_analysis_run_id :: string
  ro_pool_id :: string
  ro_pool_mode :: string
  ro_is_primary :: bool
  ro_latency_ms :: int
  ro_input_tokens :: int
  ro_output_tokens :: int
  ro_update_current :: bool

text \<open>\<open>classification.tags or (classification.category,)\<close>.\<close>

definition tags_or_category :: "classification \<Rightarrow> string list" where
  "tags_or_category c = (if c_tags c = [] then [c_category c] else c_tags c)"

definition run_tags :: "classification \<Rightarrow> string list" where
  "run_tags c =
     (let tags = normalize_tags (Tags_list (tags_or_category c))
      in if c_category c \<noteq> [] \<and> c_category c \<notin> set tags then c_category c # tags else tags)"

definition run_expires_at :: "classification \<Rightarrow> int \<Rightarrow> int" where
  "run_expires_at c now = now + max 1 (c_recheck_after_days c) * 86400"

definition run_row_of :: "int \<Rightarrow> string \<Rightarrow> classification \<Rightarrow> run_options \<Rightarrow> int \<Rightarrow> run_row" where
  "run_row_of i domain c opts now =
     \<lparr>cr_id = i, cr_domain = domain, cr_provider = c_provider c,
      cr_provider_id = py_strip (ro_provider_id opts), cr_model = ro_model opts,
      cr_profile = ro_profile opts, cr_prompt_hash = ro_prompt_hash opts,
      cr_policy = policy_value (c_policy c), cr_primary_tag = c_category c, cr_tags = run_tags c,
      cr_service = c_service c, cr_service_role = service_role_value (c_service_role c),
      cr_privacy_risk = risk_value (c_privacy_risk c), cr_security_risk = risk_value (c_security_risk c),
      cr_breakage_risk = risk_value (c_breakage_risk c), cr_confidence = confidence_value (c_confidence c),
      cr_needs_review = c_needs_review c, cr_review_reason = c_review_reason c, cr_short = c_short c,
      cr_details = c_details c, cr_raw_text = c_raw_text c,
      cr_planned_action = normalize_planned_action (ro_planned_action opts),
      cr_action_status = normalize_action_status (ro_action_status opts),
      cr_analysis_run_id = py_strip (ro_analysis_run_id opts),
      cr_pool_id = py_lower (py_strip (ro_pool_id opts)),
      cr_pool_mode = py_lower (py_strip (ro_pool_mode opts)), cr_is_primary = ro_is_primary opts,
      cr_latency_ms = max 0 (ro_latency_ms opts), cr_input_tokens = max 0 (ro_input_tokens opts),
      cr_output_tokens = max 0 (ro_output_tokens opts), cr_created_at = now,
      cr_expires_at = run_expires_at c now\<rparr>"

definition run_review_input :: "classification \<Rightarrow> run_options \<Rightarrow> int \<Rightarrow> review_input" where
  "run_review_input c opts now =
     (let simulated = (normalize_action_status (ro_action_status opts) = ''simulated'') in
      \<lparr>ri_domain = c_domain c, ri_categories = Tags_list (run_tags c), ri_details = c_details c,
       ri_status = ro_status opts, ri_policy = policy_value (c_policy c), ri_short = c_short c,
       ri_provider = c_provider c, ri_service = c_service c,
       ri_service_role = service_role_value (c_service_role c), ri_privacy_risk = c_privacy_risk c,
       ri_security_risk = c_security_risk c, ri_breakage_risk = c_breakage_risk c,
       ri_confidence = c_confidence c, ri_needs_review = (c_needs_review c \<or> simulated),
       ri_review_reason = (if simulated
          then ''Simulation mode prevented automatic '' @ ro_planned_action opts @ ''.''
          else c_review_reason c),
       ri_next_recheck_at = Some (run_expires_at c now), ri_planned_action = ro_planned_action opts,
       ri_action_status = ro_action_status opts\<rparr>)"

text \<open>\<open>lastrowid\<close> of a successful insert is never missing, so the last \<open>raise\<close> of the source is dead.\<close>

definition save_classification_run ::
  "classification \<Rightarrow> run_options \<Rightarrow> int \<Rightarrow> db \<Rightarrow> exn + db \<times> int" where
  "save_classification_run c opts now s =
     (case ensure_domain (c_domain c) (Some now) 0 now s of
        Inl e \<Rightarrow> Inl e
      | Inr (domain, s1) \<Rightarrow>
          let i = seq_runs s1 + 1;
              s2 = s1\<lparr>t_runs := t_runs s1 @ [run_row_of i domain c opts now], seq_runs := i\<rparr>
          in if \<not> ro_update_current opts then Inr (s2, i)
             else
               let s3 = s2\<lparr>t_domains := tbl_update (\<lambda>d. d_domain d = domain)
                      (\<lambda>d. d\<lparr>d_last_classified_at := Some now,
                             d_next_recheck_at := Some (run_expires_at c now),
                             d_current_policy := policy_value (c_policy c),
                             d_current_service := c_service c,
                             d_current_service_role := service_role_value (c_service_role c)\<rparr>)
                      (t_domains s2)\<rparr>
               in (case replace_source_tags domain (Tags_list (run_tags c)) ''llm'' (c_confidence c) now s3 of
                     Inl e \<Rightarrow> Inl e
                   | Inr s4 \<Rightarrow>
                       (case review_save_in (run_review_input c opts now) now s4 of
                          Inl e \<Rightarrow> Inl e
                        | Inr s5 \<Rightarrow> Inr (s5, i))))"

definition review_save_classification :: "classification \<Rightarrow> run_options \<Rightarrow> int \<Rightarrow> db \<Rightarrow> exn + db" where
  "review_save_classification c opts now s = map_sum id fst (save_classification_run c opts now s)"

definition classification_history :: "string \<Rightarrow> int \<Rightarrow> db \<Rightarrow> run_row list" where
  "classification_history domain limit s =
     take (nat (max 1 limit))
       (sort_key (\<lambda>r. - cr_created_at r) (filter (\<lambda>r. cr_domain r = normalize_domain domain) (t_runs s)))"

section \<open>Reading reviews\<close>

record review_view =
  rv_row :: review_row
  rv_tags :: "string list"
  rv_lock_type :: "string option"
  rv_lock_reason :: "string option"
  rv_locked :: bool

definition review_view_of :: "db \<Rightarrow> review_row \<Rightarrow> review_view" where
  "review_view_of s r =
     (let l = tbl_get l_domain (r_domain r) (t_locks s) in
      \<lparr>rv_row = r, rv_tags = normalize_tags (Tags_str (r_categories r)),
       rv_lock_type = map_option l_list_type l, rv_lock_reason = map_option l_reason l,
       rv_locked = (case l of None \<Rightarrow> False | Some l \<Rightarrow> l_list_type l \<noteq> [])\<rparr>)"

definition review_get :: "int \<Rightarrow> string option \<Rightarrow> bool option \<Rightarrow> db \<Rightarrow> review_view list" where
  "review_get limit status needs_review s =
     map (review_view_of s)
      (take (nat (max 1 limit))
        (sort_key (\<lambda>r. - r_updated_at r)
          (filter (\<lambda>r. (case status of None \<Rightarrow> True | Some t \<Rightarrow> t = [] \<or> r_status r = t) \<and>
                       (case needs_review of None \<Rightarrow> True | Some b \<Rightarrow> r_needs_review r = b))
            (t_review s))))"

definition queue_summary :: "string \<Rightarrow> string" where
  "queue_summary state =
     (if state = ''processing'' then ''Analysis in progress.''
      else if state = ''failed'' then ''Analysis failed. Queue the domain again after correcting the error.''
      else ''Not analyzed.'')"

record queue_part =
  qp_source :: string
  qp_state :: string
  qp_error :: string
  qp_priority :: int
  qp_created_at :: int

text \<open>The columns of a queue entry that the merge and the order read or write; the other columns of the
  review row pass through unchanged.\<close>

record queue_view =
  qv_domain :: string
  qv_tags :: "string list"
  qv_policy :: string
  qv_short :: string
  qv_details :: string
  qv_status :: string
  qv_breakage_risk :: "int option"
  qv_needs_review :: bool
  qv_locked :: bool
  qv_updated_at :: int
  qv_queue :: "queue_part option"

definition queue_view_of_review :: "review_view \<Rightarrow> queue_view" where
  "queue_view_of_review v =
     \<lparr>qv_domain = r_domain (rv_row v), qv_tags = rv_tags v, qv_policy = r_policy (rv_row v),
      qv_short = r_short (rv_row v), qv_details = r_details (rv_row v), qv_status = r_status (rv_row v),
      qv_breakage_risk = Some (r_breakage_risk (rv_row v)), qv_needs_review = r_needs_review (rv_row v),
      qv_locked = rv_locked v, qv_updated_at = r_updated_at (rv_row v), qv_queue = None\<rparr>"

definition queue_part_of :: "staging_row \<Rightarrow> queue_part" where
  "queue_part_of r = \<lparr>qp_source = sd_source r, qp_state = str_or (sd_state r) ''queued'',
     qp_error = sd_last_error r, qp_priority = sd_priority r, qp_created_at = sd_created_at r\<rparr>"

definition queue_view_of_staging :: "staging_row \<Rightarrow> queue_view" where
  "queue_view_of_staging r =
     \<lparr>qv_domain = sd_domain r, qv_tags = [], qv_policy = ''unknown'',
      qv_short = str_or (sd_last_error r) (queue_summary (str_or (sd_state r) ''queued'')),
      qv_details = sd_last_error r, qv_status = str_or (sd_state r) ''queued'', qv_breakage_risk = None,
      qv_needs_review = True, qv_locked = False, qv_updated_at = 0,
      qv_queue = Some (queue_part_of r)\<rparr>"

definition merge_queue_row :: "staging_row \<Rightarrow> (string, queue_view) dict \<Rightarrow> (string, queue_view) dict" where
  "merge_queue_row r d =
     AList.update (sd_domain r)
       (case map_of d (sd_domain r) of
          None \<Rightarrow> queue_view_of_staging r
        | Some v \<Rightarrow> v\<lparr>qv_status := str_or (sd_state r) ''queued'',
              qv_short := (if sd_last_error r = [] then qv_short v else sd_last_error r),
              qv_details := (if sd_last_error r = [] then qv_details v else sd_last_error r),
              qv_queue := Some (queue_part_of r)\<rparr>) d"

definition queue_view_key :: "queue_view \<Rightarrow> int \<times> int \<times> int \<times> string" where
  "queue_view_key v =
     (let state = (case qv_queue v of None \<Rightarrow> [] | Some q \<Rightarrow> qp_state q);
          rank = (if state = ''failed'' then 0 else if state = ''processing'' then 1
                  else if state = ''queued'' then 2 else 3);
          created = (case qv_queue v of None \<Rightarrow> 0 | Some q \<Rightarrow> qp_created_at q)
      in (rank, (case qv_queue v of None \<Rightarrow> 0 | Some q \<Rightarrow> - qp_priority q),
          (if created = 0 then qv_updated_at v else created), qv_domain v))"

definition review_queue_get :: "int \<Rightarrow> db \<Rightarrow> queue_view list" where
  "review_queue_get limit s =
     (let reviews = dict_of (map (\<lambda>v. (r_domain (rv_row v), queue_view_of_review v))
             (review_get limit None (Some True) s));
          combined = fold merge_queue_row (staging_list limit s) reviews
      in take (nat (max 1 limit)) (sort_key queue_view_key (map snd combined)))"

section \<open>Resolving reviews\<close>

definition mark_action_applied :: "string \<Rightarrow> string \<Rightarrow> int \<Rightarrow> db \<Rightarrow> exn + db" where
  "mark_action_applied domain action now s =
     (let normalized = normalize_domain domain; normalized_action = normalize_planned_action action in
      if normalized = [] \<or> normalized_action = [] then Inl (ValueError ''domain and action must be valid'')
      else Inr (s\<lparr>t_review := tbl_update (\<lambda>r. r_domain r = normalized)
                    (\<lambda>r. r\<lparr>r_planned_action := normalized_action, r_action_status := ''applied'',
                           r_needs_review := False, r_review_reason := [],
                           r_status := ''manually_applied'', r_updated_at := now\<rparr>) (t_review s),
                  t_tasks := tbl_update (\<lambda>t. rt_status t = ''open'' \<and> rt_domain t = normalized)
                    (\<lambda>t. t\<lparr>rt_status := ''resolved'', rt_decision := ''applied_'' @ normalized_action,
                           rt_updated_at := now\<rparr>) (t_tasks s)\<rparr>))"

definition review_resolve :: "string list \<Rightarrow> string \<Rightarrow> int \<Rightarrow> db \<Rightarrow> db \<times> int" where
  "review_resolve domains decision now s =
     (let normalized = filter (\<lambda>d. d \<noteq> []) (map normalize_domain domains) in
      if normalized = [] then (s, 0)
      else (s\<lparr>t_review := tbl_update (\<lambda>r. r_domain r \<in> set normalized)
                (\<lambda>r. r\<lparr>r_needs_review := False, r_review_reason := [], r_status := ''reviewed'',
                       r_action_status := (if r_action_status r = ''simulated'' then ''dismissed''
                          else r_action_status r), r_updated_at := now\<rparr>) (t_review s),
              t_tasks := tbl_update (\<lambda>t. rt_status t = ''open'' \<and> rt_domain t \<in> set normalized)
                (\<lambda>t. t\<lparr>rt_status := ''resolved'', rt_decision := str_or (py_strip decision) ''dismissed'',
                       rt_updated_at := now\<rparr>) (t_tasks s)\<rparr>,
            int (length (filter (\<lambda>r. r_domain r \<in> set normalized) (t_review s)))))"

definition review_delete :: "string list \<Rightarrow> db \<Rightarrow> db \<times> int" where
  "review_delete domains s =
     (let normalized = filter (\<lambda>d. d \<noteq> []) (map normalize_domain domains) in
      if normalized = [] then (s, 0)
      else let rows = tbl_delete (\<lambda>r. r_domain r \<in> set normalized) (t_review s)
           in (s\<lparr>t_review := rows\<rparr>, int (length (t_review s)) - int (length rows)))"

section \<open>Replacing tags never breaks a constraint\<close>

lemma fold_insert_tag:
  assumes "distinct (map dt_key rows)" and "set (map dt_key rows) \<inter> set (map dt_key (t_tags s)) = {}"
    and "\<And>r. r \<in> set rows \<Longrightarrow> dt_domain r \<in> known_domains s"
  shows "fold_res insert_tag rows s = Inr (s\<lparr>t_tags := t_tags s @ rows\<rparr>)"
  using assms
proof (induction rows arbitrary: s)
  case Nil
  then show ?case by simp
next
  case (Cons r rows)
  let ?s = "s\<lparr>t_tags := t_tags s @ [r]\<rparr>"
  have "insert_tag r s = Inr ?s" using Cons.prems by (auto simp: insert_tag_def)
  moreover have "fold_res insert_tag rows ?s = Inr (?s\<lparr>t_tags := t_tags ?s @ rows\<rparr>)"
    using Cons.prems by (intro Cons.IH) (auto simp: known_domains_def)
  ultimately show ?case by simp
qed

lemma replace_source_tags_eq:
  assumes "d \<in> known_domains s"
  shows "replace_source_tags d tags src conf now s =
    Inr (s\<lparr>t_tags := tbl_delete (\<lambda>r. dt_domain r = d \<and> dt_source r = src) (t_tags s) @
      map (source_tag_row d src conf now) (normalize_tags tags)\<rparr>)"
proof -
  let ?rows = "map (source_tag_row d src conf now) (normalize_tags tags)"
  have "map dt_key ?rows = map (\<lambda>t. (d, t, src)) (normalize_tags tags)"
    by (simp add: dt_key_def source_tag_row_def)
  then have "distinct (map dt_key ?rows)" by (simp add: distinct_map inj_on_def)
  then show ?thesis
    unfolding replace_source_tags_def
    using assms
    by (subst fold_insert_tag) (auto simp: set_tbl_delete dt_key_def source_tag_row_def known_domains_def)
qed

lemma replace_source_tags_ok [invs]:
  assumes "replace_source_tags d tags src conf now s = Inr s'" and "d \<in> known_domains s" and "db_ok s"
  shows "db_ok s'"
proof -
  let ?old = "tbl_delete (\<lambda>r. dt_domain r = d \<and> dt_source r = src) (t_tags s)"
  let ?new = "map (source_tag_row d src conf now) (normalize_tags tags)"
  have s': "s' = s\<lparr>t_tags := ?old @ ?new\<rparr>"
    using assms(1) replace_source_tags_eq [OF assms(2), of tags src conf now] by simp
  have "distinct (map dt_key ?new)"
    by (simp add: dt_key_def source_tag_row_def comp_def distinct_map inj_on_def)
  moreover have "tbl_keys_ok dt_key ?old"
    using assms(3) by (intro tbl_delete_keys_ok) (simp add: db_ok_defs)
  moreover have "dt_key ` set ?old \<inter> dt_key ` set ?new = {}"
    by (auto simp: set_tbl_delete dt_key_def source_tag_row_def)
  ultimately have keys: "tbl_keys_ok dt_key (?old @ ?new)"
    by (simp add: tbl_keys_ok_def image_image)
  have "\<forall>r\<in>set (?old @ ?new). dt_domain r \<in> known_domains s"
    using assms(2,3) by (auto simp: set_tbl_delete source_tag_row_def db_ok_def db_refs_ok_def)
  with keys assms(3) show ?thesis
    unfolding s' by (simp add: db_ok_defs known_domains_def)
qed

lemma db_ok_update_domains [invs]:
  assumes "db_ok s" and "\<And>r. d_domain (f r) = d_domain r"
  shows "db_ok (s\<lparr>t_domains := tbl_update p f (t_domains s)\<rparr>)"
  using assms by (simp add: db_ok_defs known_domains_def keys_tbl_update tbl_update_keys_ok)

lemma known_domains_update_domains [simp]:
  "(\<And>r. d_domain (f r) = d_domain r) \<Longrightarrow>
    known_domains (s\<lparr>t_domains := tbl_update p f rows\<rparr>) = d_domain ` set rows"
  by (simp add: known_domains_def keys_tbl_update)

lemma db_ok_set_review [invs]: "db_ok s \<Longrightarrow> tbl_keys_ok r_domain rows \<Longrightarrow> db_ok (s\<lparr>t_review := rows\<rparr>)"
  by (simp add: db_ok_defs known_domains_def)

section \<open>What saving a review does\<close>

text \<open>The store after \<open>_review_save\<close>, on its only non-raising path.\<close>

definition after_review_save :: "review_input \<Rightarrow> int \<Rightarrow> string \<Rightarrow> db \<Rightarrow> db" where
  "after_review_save i now n s1 =
     (let new = review_row_of n i now in
      s1\<lparr>t_review := tbl_upsert r_domain new
           (\<lambda>r. new\<lparr>r_domain := r_domain r, r_created_at := r_created_at r\<rparr>) (t_review s1),
         t_domains := tbl_update (\<lambda>d. d_domain d = n)
           (\<lambda>d. d\<lparr>d_current_policy := r_policy new, d_current_service := r_service new,
                  d_current_service_role := r_service_role new,
                  d_next_recheck_at := (case ri_next_recheck_at i of
                     None \<Rightarrow> d_next_recheck_at d | Some t \<Rightarrow> Some t)\<rparr>) (t_domains s1),
         t_tags := tbl_delete (\<lambda>r. dt_domain r = n \<and> dt_source r = ''current'') (t_tags s1) @
           map (source_tag_row n ''current'' (ri_confidence i) now) (normalize_tags (ri_categories i))\<rparr>)"

lemma review_save_in_eq:
  assumes "ensure_domain (ri_domain i) (Some now) 0 now s = Inr (n, s1)"
  shows "review_save_in i now s = Inr (after_review_save i now n s1)"
proof -
  have "n \<in> known_domains s1" using ensure_domain_Inr(3) [OF assms] by simp
  then show ?thesis
    unfolding review_save_in_def after_review_save_def assms Let_def
    by (simp add: assms normalize_tags_idem, subst replace_source_tags_eq)
      (simp_all add: known_domains_def keys_tbl_update normalize_tags_idem)
qed

lemma review_save_in_Inl: "review_save_in i now s = Inl e \<longleftrightarrow>
    normalize_domain (ri_domain i) = [] \<and> e = ValueError ''domain must not be empty''"
proof (cases "ensure_domain (ri_domain i) (Some now) 0 now s")
  case (Inl e')
  then show ?thesis by (auto simp: review_save_in_def dest: ensure_domain_Inl [THEN iffD1])
next
  case (Inr p)
  then obtain n s1 where e: "ensure_domain (ri_domain i) (Some now) 0 now s = Inr (n, s1)"
    by (cases p) auto
  from review_save_in_eq [OF e] ensure_domain_Inr(1,2) [OF e] show ?thesis by simp
qed

lemma review_save_in_ok [invs]:
  assumes "review_save_in i now s = Inr s'" and "db_ok s"
  shows "db_ok s'"
proof -
  from assms(1) obtain n s1 where e: "ensure_domain (ri_domain i) (Some now) 0 now s = Inr (n, s1)"
    by (auto simp: review_save_in_def split: sum.splits)
  have ok: "db_ok s1" by (rule ensure_domain_ok [OF e assms(2)])
  have n: "n \<in> known_domains s1" using ensure_domain_Inr(3) [OF e] by simp
  define s2 where "s2 = s1\<lparr>t_review := tbl_upsert r_domain (review_row_of n i now)
      (\<lambda>r. (review_row_of n i now)\<lparr>r_domain := r_domain r, r_created_at := r_created_at r\<rparr>) (t_review s1)\<rparr>"
  define s3 where "s3 = s2\<lparr>t_domains := tbl_update (\<lambda>d. d_domain d = n)
      (\<lambda>d. d\<lparr>d_current_policy := r_policy (review_row_of n i now),
             d_current_service := r_service (review_row_of n i now),
             d_current_service_role := r_service_role (review_row_of n i now),
             d_next_recheck_at := (case ri_next_recheck_at i of
                None \<Rightarrow> d_next_recheck_at d | Some t \<Rightarrow> Some t)\<rparr>) (t_domains s2)\<rparr>"
  have "db_ok s2" unfolding s2_def
    using ok by (intro db_ok_set_review tbl_upsert_keys_ok) (simp_all add: db_ok_defs)
  then have ok3: "db_ok s3" unfolding s3_def by (intro db_ok_update_domains) simp_all
  have n3: "n \<in> known_domains s3"
    using n by (simp add: s3_def s2_def known_domains_def keys_tbl_update)
  have "replace_source_tags n (Tags_list (normalize_tags (ri_categories i))) ''current'' (ri_confidence i) now s3
      = Inr s'"
    using assms(1) by (simp add: review_save_in_def e Let_def s3_def s2_def)
  then show ?thesis by (rule replace_source_tags_ok [OF _ n3 ok3])
qed

section \<open>What saving a classification run does\<close>

lemma db_ok_append_run:
  assumes "db_ok s" and "cr_id r = seq_runs s + 1" and "cr_domain r \<in> known_domains s"
  shows "db_ok (s\<lparr>t_runs := t_runs s @ [r], seq_runs := seq_runs s + 1\<rparr>)"
proof -
  have le: "\<forall>q\<in>set (t_runs s). cr_id q \<le> seq_runs s" using assms(1) by (simp add: db_ok_def db_seq_ok_def)
  with assms(2) have "cr_id r \<notin> cr_id ` set (t_runs s)" by force
  with assms le show ?thesis
    by (auto simp: db_ok_defs known_domains_def tbl_keys_ok_def)
qed

lemma save_classification_run_cases:
  assumes "save_classification_run c opts now s = Inr (s', i)"
  obtains n s1 where "ensure_domain (c_domain c) (Some now) 0 now s = Inr (n, s1)" "i = seq_runs s1 + 1"
    "\<not> ro_update_current opts"
    "s' = s1\<lparr>t_runs := t_runs s1 @ [run_row_of i n c opts now], seq_runs := i\<rparr>"
  | n s1 s3 s4 where "ensure_domain (c_domain c) (Some now) 0 now s = Inr (n, s1)" "i = seq_runs s1 + 1"
    "ro_update_current opts"
    "s3 = s1\<lparr>t_runs := t_runs s1 @ [run_row_of i n c opts now], seq_runs := i,
       t_domains := tbl_update (\<lambda>d. d_domain d = n)
         (\<lambda>d. d\<lparr>d_last_classified_at := Some now, d_next_recheck_at := Some (run_expires_at c now),
                d_current_policy := policy_value (c_policy c), d_current_service := c_service c,
                d_current_service_role := service_role_value (c_service_role c)\<rparr>) (t_domains s1)\<rparr>"
    "replace_source_tags n (Tags_list (run_tags c)) ''llm'' (c_confidence c) now s3 = Inr s4"
    "review_save_in (run_review_input c opts now) now s4 = Inr s'"
  using assms
  by (fastforce simp: save_classification_run_def Let_def split: sum.splits prod.splits if_splits)

lemma save_classification_run_ok [invs]:
  assumes "save_classification_run c opts now s = Inr (s', i)" and "db_ok s"
  shows "db_ok s'"
  using assms(1)
proof (cases rule: save_classification_run_cases)
  case (1 n s1)
  from ensure_domain_Inr(3) [OF 1(1)] have "n \<in> known_domains s1" by simp
  then show ?thesis
    unfolding 1(2,4) by (intro db_ok_append_run ensure_domain_ok [OF 1(1) assms(2)]) (simp_all add: run_row_of_def)
next
  case (2 n s1 s3 s4)
  have n: "n \<in> known_domains s1" using ensure_domain_Inr(3) [OF 2(1)] by simp
  let ?s2 = "s1\<lparr>t_runs := t_runs s1 @ [run_row_of i n c opts now], seq_runs := i\<rparr>"
  have "db_ok ?s2"
    unfolding 2(2) using n by (intro db_ok_append_run ensure_domain_ok [OF 2(1) assms(2)]) (simp_all add: run_row_of_def)
  from db_ok_update_domains [OF this, of "\<lambda>d. d\<lparr>d_last_classified_at := Some now,
      d_next_recheck_at := Some (run_expires_at c now), d_current_policy := policy_value (c_policy c),
      d_current_service := c_service c, d_current_service_role := service_role_value (c_service_role c)\<rparr>"
      "\<lambda>d. d_domain d = n"]
  have "db_ok s3" unfolding 2(4) by simp
  moreover have "n \<in> known_domains s3"
    unfolding 2(4) using n by (simp add: known_domains_def keys_tbl_update)
  ultimately have "db_ok s4" by (intro replace_source_tags_ok [OF 2(5)])
  then show ?thesis by (rule review_save_in_ok [OF 2(6)])
qed

lemma save_classification_run_total:
  assumes "normalize_domain (c_domain c) \<noteq> []"
  shows "\<exists>s' i. save_classification_run c opts now s = Inr (s', i)"
proof -
  obtain n s1 where e: "ensure_domain (c_domain c) (Some now) 0 now s = Inr (n, s1)"
    using assms by (auto simp: ensure_domain_def Let_def)
  then have n: "n \<in> known_domains s1" using ensure_domain_Inr(3) by blast
  show ?thesis
  proof (cases "ro_update_current opts")
    case False
    then show ?thesis by (simp add: save_classification_run_def e Let_def)
  next
    case True
    define s3 where "s3 = s1\<lparr>t_runs := t_runs s1 @ [run_row_of (seq_runs s1 + 1) n c opts now],
       seq_runs := seq_runs s1 + 1, t_domains := tbl_update (\<lambda>d. d_domain d = n)
         (\<lambda>d. d\<lparr>d_last_classified_at := Some now, d_next_recheck_at := Some (run_expires_at c now),
                d_current_policy := policy_value (c_policy c), d_current_service := c_service c,
                d_current_service_role := service_role_value (c_service_role c)\<rparr>) (t_domains s1)\<rparr>"
    have "n \<in> known_domains s3"
      unfolding s3_def using n by (simp add: known_domains_def keys_tbl_update)
    then obtain s4 where 4: "replace_source_tags n (Tags_list (run_tags c)) ''llm'' (c_confidence c) now s3 = Inr s4"
      using replace_source_tags_eq by blast
    obtain s5 where 5: "review_save_in (run_review_input c opts now) now s4 = Inr s5"
      using review_save_in_Inl [of "run_review_input c opts now" now s4] assms
      by (cases "review_save_in (run_review_input c opts now) now s4")
        (auto simp: run_review_input_def Let_def)
    from True 4 5 show ?thesis by (simp add: save_classification_run_def e Let_def s3_def)
  qed
qed

lemma ensure_domain_keeps:
  assumes "ensure_domain v seen q clock s = Inr (n, s')" and "tbl_get d_domain k (t_domains s) = Some d"
  shows "\<exists>d'. tbl_get d_domain k (t_domains s') = Some d' \<and>
    d_last_classified_at d' = d_last_classified_at d \<and> d_next_recheck_at d' = d_next_recheck_at d"
proof -
  have "d_domain (new_domain_row n a b) = n" for n a b by (simp add: new_domain_row_def)
  with assms show ?thesis
    by (cases "k = n") (auto simp: ensure_domain_def Let_def tbl_get_upsert split: if_splits)
qed

text \<open>The effects of a primary result, beyond the history row.\<close>

lemma save_run_current:
  assumes ens: "ensure_domain (c_domain c) (Some now) 0 now s = Inr (n, s1)"
    and s3: "s3 = s1\<lparr>t_runs := runs, seq_runs := i, t_domains := tbl_update (\<lambda>d. d_domain d = n)
         (\<lambda>d. d\<lparr>d_last_classified_at := Some now, d_next_recheck_at := Some (run_expires_at c now),
                d_current_policy := policy_value (c_policy c), d_current_service := c_service c,
                d_current_service_role := service_role_value (c_service_role c)\<rparr>) (t_domains s1)\<rparr>"
    and tags: "replace_source_tags n (Tags_list (run_tags c)) ''llm'' (c_confidence c) now s3 = Inr s4"
    and rev: "review_save_in (run_review_input c opts now) now s4 = Inr s'"
  shows "t_runs s' = runs"
    and "\<exists>d. tbl_get d_domain n (t_domains s') = Some d \<and> d_last_classified_at d = Some now \<and>
      d_next_recheck_at d = Some (run_expires_at c now)"
    and "\<exists>r. tbl_get r_domain n (t_review s') = Some r \<and> (r_action_status r = ''simulated'' \<longrightarrow> r_needs_review r)"
proof -
  let ?i = "run_review_input c opts now"
  have "n \<in> known_domains s1" using ensure_domain_Inr(3) [OF ens] by simp
  then have known: "n \<in> known_domains s3" by (simp add: s3 known_domains_def keys_tbl_update)
  have s4: "t_domains s4 = t_domains s3" "t_runs s4 = runs"
    using tags replace_source_tags_eq [OF known, of "Tags_list (run_tags c)" "''llm''" "c_confidence c" now]
    by (auto simp: s3)
  from rev obtain m t where e: "ensure_domain (ri_domain ?i) (Some now) 0 now s4 = Inr (m, t)"
    by (auto simp: review_save_in_def split: sum.splits)
  have m: "m = n"
    using ensure_domain_Inr(1) [OF e] ensure_domain_Inr(1) [OF ens] by (simp add: run_review_input_def Let_def)
  have s': "s' = after_review_save ?i now n t" using review_save_in_eq [OF e] rev m by simp
  show "t_runs s' = runs" by (simp add: s' after_review_save_def Let_def ensure_domain_frame [OF e] s4)
  from known obtain d where d: "tbl_get d_domain n (t_domains s4) = Some d"
    by (cases "tbl_get d_domain n (t_domains s4)") (auto simp: tbl_get_None known_domains_def s4)
  then have "d_last_classified_at d = Some now"
    using tbl_get_Some [of d_domain n "t_domains s1"] by (auto simp: s4 s3 tbl_get_update)
  with ensure_domain_keeps [OF e d] obtain d'
    where d': "tbl_get d_domain n (t_domains t) = Some d'" "d_last_classified_at d' = Some now" by auto
  then show "\<exists>d. tbl_get d_domain n (t_domains s') = Some d \<and> d_last_classified_at d = Some now \<and>
      d_next_recheck_at d = Some (run_expires_at c now)"
    using tbl_get_Some [OF d'(1)]
    by (simp add: s' after_review_save_def Let_def tbl_get_update run_review_input_def)
  show "\<exists>r. tbl_get r_domain n (t_review s') = Some r \<and> (r_action_status r = ''simulated'' \<longrightarrow> r_needs_review r)"
    by (auto simp: s' after_review_save_def Let_def tbl_get_upsert review_row_of_def run_review_input_def
        split: option.splits)
qed

section \<open>Properties of the review store\<close>

text \<open>Saving a review entry only fails on an empty domain name, never on a constraint. It replaces
  exactly the review row of that domain (keeping the creation time of an existing row, bounding risks
  to 0..100 and the confidence to 0..1, and defaulting blank policy and role to \<open>unknown\<close>), makes the
  domain's \<open>current\<close> tags exactly the normalised tag list without duplicates, and leaves other
  domains' reviews and every tag of another source alone.\<close>

theorem review_save_effect:
  assumes "normalize_domain (ri_domain i) \<noteq> []" and "db_ok s"
  shows "\<exists>s'. review_save i now s = Inr s' \<and> db_ok s' \<and>
    (let n = normalize_domain (ri_domain i) in
     tbl_get r_domain n (t_review s') = Some ((review_row_of n i now)\<lparr>r_created_at :=
        (case tbl_get r_domain n (t_review s) of None \<Rightarrow> now | Some r \<Rightarrow> r_created_at r)\<rparr>) \<and>
     (\<forall>d. d \<noteq> n \<longrightarrow> tbl_get r_domain d (t_review s') = tbl_get r_domain d (t_review s)) \<and>
     map dt_tag (filter (\<lambda>t. dt_domain t = n \<and> dt_source t = ''current'') (t_tags s')) =
       normalize_tags (ri_categories i) \<and>
     filter (\<lambda>t. \<not> (dt_domain t = n \<and> dt_source t = ''current'')) (t_tags s') =
       filter (\<lambda>t. \<not> (dt_domain t = n \<and> dt_source t = ''current'')) (t_tags s))"
proof -
  obtain n s1 where e: "ensure_domain (ri_domain i) (Some now) 0 now s = Inr (n, s1)"
    using assms(1) by (auto simp: ensure_domain_def Let_def)
  let ?s' = "after_review_save i now n s1"
  have n: "n = normalize_domain (ri_domain i)" by (rule ensure_domain_Inr(1) [OF e])
  have saved: "review_save i now s = Inr ?s'"
    unfolding review_save_def by (rule review_save_in_eq [OF e])
  then have ok: "db_ok ?s'" using assms(2) review_save_in_ok by (auto simp: review_save_def)
  note fr = ensure_domain_frame [OF e]
  have row: "tbl_get r_domain d (t_review ?s') =
      (if d = n then Some ((review_row_of n i now)\<lparr>r_created_at :=
        (case tbl_get r_domain n (t_review s) of None \<Rightarrow> now | Some r \<Rightarrow> r_created_at r)\<rparr>)
       else tbl_get r_domain d (t_review s))" for d
  proof -
    have "r_domain (review_row_of n i now) = n" "r_created_at (review_row_of n i now) = now"
      by (simp_all add: review_row_of_def)
    then show ?thesis
      unfolding after_review_save_def Let_def
      by (auto simp: tbl_get_upsert fr split: option.split dest: tbl_get_Some)
  qed
  have new: "filter (\<lambda>t. dt_domain t = n \<and> dt_source t = ''current'') (t_tags ?s') =
      map (source_tag_row n ''current'' (ri_confidence i) now) (normalize_tags (ri_categories i))"
    by (simp add: after_review_save_def Let_def tbl_delete_def filter_map comp_def source_tag_row_def)
  have tags: "map dt_tag (filter (\<lambda>t. dt_domain t = n \<and> dt_source t = ''current'') (t_tags ?s')) =
      normalize_tags (ri_categories i)"
    unfolding new by (simp add: comp_def source_tag_row_def)
  have other: "filter (\<lambda>t. \<not> (dt_domain t = n \<and> dt_source t = ''current'')) (t_tags ?s') =
      filter (\<lambda>t. \<not> (dt_domain t = n \<and> dt_source t = ''current'')) (t_tags s)"
    by (simp add: after_review_save_def Let_def tbl_delete_def filter_map comp_def source_tag_row_def fr)
  show ?thesis
    using saved ok row tags other by (auto simp: n Let_def)
qed

definition ex_review :: review_input where
  "ex_review = \<lparr>ri_domain = ''Ads.Example.'', ri_categories = Tags_str ''Ads; tracking,ads'', ri_details = ''x'',
     ri_status = '''', ri_policy = '' Deny'', ri_short = ''s'', ri_provider = ''p'', ri_service = '''',
     ri_service_role = '''', ri_privacy_risk = 130, ri_security_risk = 0, ri_breakage_risk = 10,
     ri_confidence = 3 / 2, ri_needs_review = True, ri_review_reason = '''', ri_next_recheck_at = None,
     ri_planned_action = ''deny'', ri_action_status = ''simulated''\<rparr>"

theorem review_save_effect_witness:
  "\<exists>s'. review_save ex_review 9 empty_db = Inr s' \<and> db_ok s' \<and>
     map_option (\<lambda>r. (r_policy r, r_service_role r, r_privacy_risk r)) (tbl_get r_domain ''ads.example'' (t_review s'))
       = Some (''deny'', ''unknown'', 100) \<and>
     map dt_tag (filter (\<lambda>t. dt_domain t = ''ads.example'' \<and> dt_source t = ''current'') (t_tags s'))
       = [''ads'', ''tracking'']"
proof -
  have n: "normalize_domain (ri_domain ex_review) = ''ads.example''"
    and g: "tbl_get r_domain ''ads.example'' (t_review empty_db) = None"
    and t: "normalize_tags (ri_categories ex_review) = [''ads'', ''tracking'']"
    and r: "r_policy (review_row_of ''ads.example'' ex_review 9) = ''deny''"
      "r_service_role (review_row_of ''ads.example'' ex_review 9) = ''unknown''"
      "r_privacy_risk (review_row_of ''ads.example'' ex_review 9) = 100"
    by code_simp+
  have "normalize_domain (ri_domain ex_review) \<noteq> []" by (simp add: n)
  from review_save_effect [OF this empty_db_ok, of 9] show ?thesis
    unfolding n g t Let_def using r by fastforce
qed

text \<open>C14. Saving a classification run only fails on an empty domain name. It appends exactly one history row
  under a fresh identifier; a primary result also stamps the domain as classified now, with the next
  recheck at least a day ahead, and a simulated action leaves the review open. A comparison result
  (\<open>update_current\<close> false) changes neither reviews nor tags nor any classification stamp.\<close>

theorem save_run_effect:
  assumes "normalize_domain (c_domain c) \<noteq> []" and "db_ok s"
  shows "\<exists>s' i. save_classification_run c opts now s = Inr (s', i) \<and> db_ok s' \<and>
    i \<notin> cr_id ` set (t_runs s) \<and>
    t_runs s' = t_runs s @ [run_row_of i (normalize_domain (c_domain c)) c opts now] \<and>
    (if ro_update_current opts then
       (\<exists>d r. tbl_get d_domain (normalize_domain (c_domain c)) (t_domains s') = Some d \<and>
          d_last_classified_at d = Some now \<and> d_next_recheck_at d = Some (run_expires_at c now) \<and>
          now + 86400 \<le> run_expires_at c now \<and>
          tbl_get r_domain (normalize_domain (c_domain c)) (t_review s') = Some r \<and>
          (r_action_status r = ''simulated'' \<longrightarrow> r_needs_review r))
     else t_review s' = t_review s \<and> t_tags s' = t_tags s \<and>
       (\<forall>d. map_option d_last_classified_at (tbl_get d_domain d (t_domains s)) \<in>
          {None, map_option d_last_classified_at (tbl_get d_domain d (t_domains s'))}))"
proof -
  obtain s' i where run: "save_classification_run c opts now s = Inr (s', i)"
    using save_classification_run_total [OF assms(1)] by blast
  have ok: "db_ok s'" by (rule save_classification_run_ok [OF run assms(2)])
  have le: "\<forall>q\<in>set (t_runs s). cr_id q \<le> seq_runs s" using assms(2) by (simp add: db_ok_def db_seq_ok_def)
  from run show ?thesis
  proof (cases rule: save_classification_run_cases)
    case (1 n s1)
    note fr = ensure_domain_frame [OF 1(1)] and n = ensure_domain_Inr(1) [OF 1(1)]
    have stamp: "map_option d_last_classified_at (tbl_get d_domain d (t_domains s)) \<in>
        {None, map_option d_last_classified_at (tbl_get d_domain d (t_domains s'))}" for d
      using ensure_domain_keeps [OF 1(1), of d] by (cases "tbl_get d_domain d (t_domains s)") (auto simp: 1(4))
    have fresh: "i \<notin> cr_id ` set (t_runs s)" using le 1(2) fr by force
    show ?thesis
      using run ok fresh stamp 1(3) fr by (intro exI [of _ s'] exI [of _ i]) (simp add: 1(4) n)
  next
    case (2 n s1 s3 s4)
    note cur = save_run_current [OF 2(1,4,5,6)]
    have fresh: "i \<notin> cr_id ` set (t_runs s)" using le 2(2) ensure_domain_frame [OF 2(1)] by force
    have runs: "t_runs s' = t_runs s @ [run_row_of i n c opts now]"
      using cur(1) ensure_domain_frame [OF 2(1)] by simp
    have "now + 86400 \<le> run_expires_at c now" by (simp add: run_expires_at_def)
    with run ok fresh runs cur(2,3) 2(3) show ?thesis
      unfolding ensure_domain_Inr(1) [OF 2(1)] by (intro exI [of _ s'] exI [of _ i]) auto
  qed
qed

definition ex_classification :: classification where
  "ex_classification = \<lparr>c_domain = ''ads.example'', c_policy = Policy_DENY, c_category = ''ads'',
     c_short = ''ad server'', c_details = '''', c_provider = ''p'', c_tags = [''ads''], c_service = '''',
     c_service_role = Role_OPTIONAL, c_privacy_risk = 60, c_security_risk = 10, c_breakage_risk = 5,
     c_confidence = 9 / 10, c_needs_review = False, c_review_reason = '''', c_recheck_after_days = 30,
     c_raw_text = ''''\<rparr>"

definition ex_run_options :: run_options where
  "ex_run_options = \<lparr>ro_provider_id = ''p1'', ro_model = ''m'', ro_profile = ''f'', ro_prompt_hash = '''',
     ro_status = ''simulation_deny'', ro_planned_action = ''deny'', ro_action_status = ''simulated'',
     ro_analysis_run_id = '''', ro_pool_id = '''', ro_pool_mode = '''', ro_is_primary = True,
     ro_latency_ms = 0, ro_input_tokens = 0, ro_output_tokens = 0, ro_update_current = True\<rparr>"

theorem save_run_effect_witness:
  "\<exists>s' i. save_classification_run ex_classification ex_run_options 9 empty_db = Inr (s', i) \<and>
     t_runs s' = [run_row_of i ''ads.example'' ex_classification ex_run_options 9] \<and>
     map_option r_needs_review (tbl_get r_domain ''ads.example'' (t_review s')) = Some True"
proof -
  have n: "normalize_domain (c_domain ex_classification) = ''ads.example''"
    and u: "ro_update_current ex_run_options"
    and v: "map_sum id (\<lambda>(s', i). map_option (\<lambda>r. (r_action_status r, r_needs_review r))
        (tbl_get r_domain ''ads.example'' (t_review s')))
      (save_classification_run ex_classification ex_run_options 9 empty_db) = Inr (Some (''simulated'', True))"
    by code_simp+
  have "normalize_domain (c_domain ex_classification) \<noteq> []" by (simp add: n)
  from save_run_effect [OF this empty_db_ok, of ex_run_options 9] obtain s' i
    where "save_classification_run ex_classification ex_run_options 9 empty_db = Inr (s', i)"
      and "t_runs s' = [run_row_of i ''ads.example'' ex_classification ex_run_options 9]"
    by (auto simp: n u empty_db_def)
  with v show ?thesis by auto
qed

text \<open>Resolving reviews closes them completely: afterwards no review of the named domains is open or
  still counts as simulated, and none of their tasks is open; actions that were applied stay applied;
  the reviews and tasks of all other domains are untouched.\<close>

theorem review_resolve_closes:
  assumes "review_resolve ds decision now s = (s', n)" and "d \<in> normalize_domain ` set ds" and "d \<noteq> []"
  shows "(\<forall>r\<in>set (t_review s'). r_domain r = d \<longrightarrow>
      \<not> r_needs_review r \<and> r_status r = ''reviewed'' \<and> r_action_status r \<noteq> ''simulated'')
    \<and> (\<forall>t\<in>set (t_tasks s'). rt_domain t = d \<longrightarrow> rt_status t \<noteq> ''open'')
    \<and> (\<forall>r\<in>set (t_review s). r_domain r = d \<and> r_action_status r = ''applied'' \<longrightarrow>
        (\<exists>r'\<in>set (t_review s'). r_domain r' = d \<and> r_action_status r' = ''applied''))
    \<and> (\<forall>e. e \<notin> normalize_domain ` set ds \<longrightarrow>
        filter (\<lambda>r. r_domain r = e) (t_review s') = filter (\<lambda>r. r_domain r = e) (t_review s) \<and>
        filter (\<lambda>t. rt_domain t = e) (t_tasks s') = filter (\<lambda>t. rt_domain t = e) (t_tasks s))"
proof -
  let ?ns = "filter (\<lambda>d. d \<noteq> []) (map normalize_domain ds)"
  from assms(2,3) have "d \<in> set ?ns" by auto
  then have ne: "?ns \<noteq> []" by (metis empty_iff empty_set)
  have frame: "filter q (tbl_update p f rows) = filter q rows"
    if "\<And>r. p r \<Longrightarrow> \<not> q r" "\<And>r. p r \<Longrightarrow> \<not> q (f r)" for p q :: "'a \<Rightarrow> bool" and f rows
    using that by (induction rows) (auto simp: tbl_update_def)
  have rev: "t_review s' = tbl_update (\<lambda>r. r_domain r \<in> set ?ns)
      (\<lambda>r. r\<lparr>r_needs_review := False, r_review_reason := [], r_status := ''reviewed'',
         r_action_status := (if r_action_status r = ''simulated'' then ''dismissed'' else r_action_status r),
         r_updated_at := now\<rparr>) (t_review s)"
    and tasks: "t_tasks s' = tbl_update (\<lambda>t. rt_status t = ''open'' \<and> rt_domain t \<in> set ?ns)
      (\<lambda>t. t\<lparr>rt_status := ''resolved'', rt_decision := str_or (py_strip decision) ''dismissed'',
         rt_updated_at := now\<rparr>) (t_tasks s)"
    using assms(1) ne by (auto simp: review_resolve_def Let_def)
  show ?thesis
  proof (intro conjI)
    show "\<forall>r\<in>set (t_review s'). r_domain r = d \<longrightarrow>
        \<not> r_needs_review r \<and> r_status r = ''reviewed'' \<and> r_action_status r \<noteq> ''simulated''"
      using \<open>d \<in> set ?ns\<close> unfolding rev by (auto simp: set_tbl_update split: if_splits)
    show "\<forall>t\<in>set (t_tasks s'). rt_domain t = d \<longrightarrow> rt_status t \<noteq> ''open''"
      using \<open>d \<in> set ?ns\<close> unfolding tasks by (auto simp: set_tbl_update)
    show "\<forall>r\<in>set (t_review s). r_domain r = d \<and> r_action_status r = ''applied'' \<longrightarrow>
        (\<exists>r'\<in>set (t_review s'). r_domain r' = d \<and> r_action_status r' = ''applied'')"
    proof (intro ballI impI)
      fix r
      assume r: "r \<in> set (t_review s)" "r_domain r = d \<and> r_action_status r = ''applied''"
      let ?r = "r\<lparr>r_needs_review := False, r_review_reason := [], r_status := ''reviewed'', r_updated_at := now\<rparr>"
      have "?r \<in> set (t_review s')"
        unfolding rev tbl_update_def using r \<open>d \<in> set ?ns\<close> by (auto intro!: image_eqI [of _ _ r])
      with r(2) show "\<exists>r'\<in>set (t_review s'). r_domain r' = d \<and> r_action_status r' = ''applied''"
        by (intro bexI [of _ ?r]) simp_all
    qed
    show "\<forall>e. e \<notin> normalize_domain ` set ds \<longrightarrow>
        filter (\<lambda>r. r_domain r = e) (t_review s') = filter (\<lambda>r. r_domain r = e) (t_review s) \<and>
        filter (\<lambda>t. rt_domain t = e) (t_tasks s') = filter (\<lambda>t. rt_domain t = e) (t_tasks s)"
      unfolding rev tasks by (intro allI impI conjI frame) auto
  qed
qed

theorem review_resolve_closes_witness:
  "let s = (case review_save ex_review 9 empty_db of Inr s \<Rightarrow> s | Inl _ \<Rightarrow> empty_db);
       s' = fst (review_resolve [''ADS.example''] '''' 10 s)
   in map r_needs_review (t_review s) = [True] \<and>
      list_all (\<lambda>r. \<not> r_needs_review r \<and> r_action_status r \<noteq> ''simulated'') (t_review s') \<and>
      map r_action_status (t_review s') = [''dismissed'']"
proof -
  define s where "s = (case review_save ex_review 9 empty_db of Inr s \<Rightarrow> s | Inl _ \<Rightarrow> empty_db)"
  define s' where "s' = fst (review_resolve [''ADS.example''] '''' 10 s)"
  have d: "''ads.example'' \<in> normalize_domain ` set [''ADS.example'']" and ne: "''ads.example'' \<noteq> []"
    and 1: "map r_needs_review (t_review s) = [True]"
    and 2: "map r_domain (t_review s') = [''ads.example'']"
    and 3: "map r_action_status (t_review s') = [''dismissed'']"
    unfolding s'_def s_def by code_simp+
  have "review_resolve [''ADS.example''] '''' 10 s = (s', snd (review_resolve [''ADS.example''] '''' 10 s))"
    by (simp add: s'_def)
  from review_resolve_closes [OF this d ne] 2
  have "list_all (\<lambda>r. \<not> r_needs_review r \<and> r_action_status r \<noteq> ''simulated'') (t_review s')"
    by (auto simp: list_all_iff)
  with 1 3 show ?thesis by (simp add: Let_def s_def s'_def)
qed

end
