(* ===== verification/Behavior_Change.thy ===== *)
theory Behavior_Change
  imports Review_Store
begin

text \<open>
  Historical behaviour-change detection, \<open>behavior_change.py\<close>: the latest primary classification of
  a domain is compared with a new one, field by field; the differences become scored signals, and
  a report above the threshold forces manual review.
\<close>

section \<open>Signals and reports\<close>

datatype sigval = SV_str string | SV_int int | SV_list "string list"

record change_signal =
  sg_field :: string
  sg_previous :: sigval
  sg_current :: sigval
  sg_score :: int
  sg_severity :: string
  sg_summary :: string

record change_report =
  bc_domain :: string
  bc_has_history :: bool
  bc_score :: int
  bc_severity :: string
  bc_requires_review :: bool
  bc_previous_run_id :: int
  bc_previous_created_at :: int
  bc_previous_provider :: string
  bc_previous_model :: string
  bc_previous_profile :: string
  bc_baseline_consistency :: pyfloat
  bc_signals :: "change_signal list"

definition blank_report :: "string \<Rightarrow> bool \<Rightarrow> change_report" where
  "blank_report domain has_history = \<lparr>bc_domain = domain, bc_has_history = has_history, bc_score = 0,
     bc_severity = ''none'', bc_requires_review = False, bc_previous_run_id = 0,
     bc_previous_created_at = 0, bc_previous_provider = [], bc_previous_model = [],
     bc_previous_profile = [], bc_baseline_consistency = 0, bc_signals = []\<rparr>"

text \<open>The mapping that both a history row and a fresh classification are turned into; a missing key is
  empty or 0.\<close>

record snapshot =
  sn_policy :: string
  sn_service :: string
  sn_service_role :: string
  sn_privacy_risk :: int
  sn_security_risk :: int
  sn_breakage_risk :: int
  sn_primary_tag :: string
  sn_tags :: "string list"
  sn_id :: int
  sn_created_at :: int
  sn_provider :: string
  sn_model :: string
  sn_profile :: string

definition snapshot_of_run :: "run_row \<Rightarrow> snapshot" where
  "snapshot_of_run r = \<lparr>sn_policy = cr_policy r, sn_service = cr_service r,
     sn_service_role = cr_service_role r, sn_privacy_risk = cr_privacy_risk r,
     sn_security_risk = cr_security_risk r, sn_breakage_risk = cr_breakage_risk r,
     sn_primary_tag = cr_primary_tag r, sn_tags = cr_tags r, sn_id = cr_id r,
     sn_created_at = cr_created_at r, sn_provider = cr_provider r, sn_model = cr_model r,
     sn_profile = cr_profile r\<rparr>"

definition classification_snapshot :: "classification \<Rightarrow> snapshot" where
  "classification_snapshot c = \<lparr>sn_policy = policy_value (c_policy c), sn_service = c_service c,
     sn_service_role = service_role_value (c_service_role c), sn_privacy_risk = c_privacy_risk c,
     sn_security_risk = c_security_risk c, sn_breakage_risk = c_breakage_risk c,
     sn_primary_tag = c_category c, sn_tags = fromkeys (tags_or_category c), sn_id = 0,
     sn_created_at = 0, sn_provider = [], sn_model = [], sn_profile = []\<rparr>"

section \<open>Comparing two snapshots\<close>

definition role_class :: "string \<Rightarrow> string" where
  "role_class role = (if role \<in> {''core'', ''shared''} then ''protected'' else ''non_protected'')"

definition service_name :: "string \<Rightarrow> string" where
  "service_name value = py_join '' '' (py_words (py_lower (py_strip value)))"

definition snapshot_tags :: "snapshot \<Rightarrow> string list" where
  "snapshot_tags sn = fromkeys (map normalize_tag_text (filter (\<lambda>t. py_strip t \<noteq> []) (sn_tags sn)))"

definition change_severity :: "int \<Rightarrow> string" where
  "change_severity score = (if 75 \<le> score then ''critical'' else if 50 \<le> score then ''high''
     else if 35 \<le> score then ''medium'' else if 0 < score then ''low'' else ''none'')"

text \<open>\<open>str(item.get(key) or "unknown").lower()\<close>.\<close>

definition lower_or_unknown :: "string \<Rightarrow> string" where
  "lower_or_unknown v = py_lower (str_or v ''unknown'')"

definition policy_signal :: "snapshot \<Rightarrow> snapshot \<Rightarrow> change_signal list" where
  "policy_signal prev cur =
     (let p = lower_or_unknown (sn_policy prev); c = lower_or_unknown (sn_policy cur);
          decisive = (p \<in> {''allow'', ''deny''} \<and> c \<in> {''allow'', ''deny''})
      in if p = c then []
         else [\<lparr>sg_field = ''policy'', sg_previous = SV_str p, sg_current = SV_str c,
                sg_score = (if decisive then 45 else 22),
                sg_severity = (if decisive then ''high'' else ''medium''),
                sg_summary = ''policy changed from '' @ p @ '' to '' @ c\<rparr>])"

definition service_signal :: "snapshot \<Rightarrow> snapshot \<Rightarrow> change_signal list" where
  "service_signal prev cur =
     (let p = service_name (sn_service prev); c = service_name (sn_service cur)
      in if p \<noteq> [] \<and> c \<noteq> [] \<and> p \<noteq> c
         then [\<lparr>sg_field = ''service'', sg_previous = SV_str (sn_service prev),
                sg_current = SV_str (sn_service cur), sg_score = 25, sg_severity = ''high'',
                sg_summary = ''classified service identity changed''\<rparr>]
         else [])"

definition role_signal :: "snapshot \<Rightarrow> snapshot \<Rightarrow> change_signal list" where
  "role_signal prev cur =
     (let p = lower_or_unknown (sn_service_role prev); c = lower_or_unknown (sn_service_role cur);
          boundary = (role_class p \<noteq> role_class c)
      in if p = c then []
         else [\<lparr>sg_field = ''service_role'', sg_previous = SV_str p, sg_current = SV_str c,
                sg_score = (if boundary then 30 else 12),
                sg_severity = (if boundary then ''high'' else ''medium''),
                sg_summary = ''service role changed from '' @ p @ '' to '' @ c\<rparr>])"

definition risk_signal :: "string \<Rightarrow> int \<Rightarrow> int \<Rightarrow> int \<Rightarrow> int \<Rightarrow> change_signal list" where
  "risk_signal fieldname before after high_delta medium_delta =
     (let delta = \<bar>after - before\<bar>; high = high_delta \<le> delta
      in if delta < medium_delta then []
         else [\<lparr>sg_field = fieldname, sg_previous = SV_int before, sg_current = SV_int after,
                sg_score = (if high then 22 else 10),
                sg_severity = (if high then ''high'' else ''medium''),
                sg_summary = py_replace (CHR ''_'') (CHR '' '') fieldname @
                  (if before < after then '' increased'' else '' decreased'') @ '' from '' @
                  show_int before @ '' to '' @ show_int after\<rparr>])"

definition primary_tag_signal :: "snapshot \<Rightarrow> snapshot \<Rightarrow> change_signal list" where
  "primary_tag_signal prev cur =
     (let p = str_or (sn_primary_tag prev) ''unknown''; c = str_or (sn_primary_tag cur) ''unknown''
      in if p = c then []
         else [\<lparr>sg_field = ''primary_tag'', sg_previous = SV_str p, sg_current = SV_str c,
                sg_score = 10, sg_severity = ''medium'',
                sg_summary = ''primary tag changed from '' @ p @ '' to '' @ c\<rparr>])"

text \<open>The share of common tags; the lists hold no duplicates.\<close>

definition tag_overlap :: "string list \<Rightarrow> string list \<Rightarrow> pyfloat" where
  "tag_overlap p c =
     of_nat (length (filter (\<lambda>t. t \<in> set c) p)) / of_nat (length (p @ filter (\<lambda>t. t \<notin> set p) c))"

definition tags_signal :: "snapshot \<Rightarrow> snapshot \<Rightarrow> change_signal list" where
  "tags_signal prev cur =
     (let p = snapshot_tags prev; c = snapshot_tags cur; overlap = tag_overlap p c
      in if p \<noteq> [] \<and> c \<noteq> [] \<and> set p \<noteq> set c
         then if overlap < 1 / 4
              then [\<lparr>sg_field = ''tags'', sg_previous = SV_list (sort p), sg_current = SV_list (sort c),
                     sg_score = 18, sg_severity = ''high'', sg_summary = ''tag set changed substantially''\<rparr>]
              else if overlap < 3 / 5
              then [\<lparr>sg_field = ''tags'', sg_previous = SV_list (sort p), sg_current = SV_list (sort c),
                     sg_score = 8, sg_severity = ''medium'', sg_summary = ''tag set changed materially''\<rparr>]
              else []
         else [])"

definition change_signals :: "snapshot \<Rightarrow> snapshot \<Rightarrow> change_signal list" where
  "change_signals prev cur =
     policy_signal prev cur @ service_signal prev cur @ role_signal prev cur @
     risk_signal ''security_risk'' (sn_security_risk prev) (sn_security_risk cur) 25 12 @
     risk_signal ''privacy_risk'' (sn_privacy_risk prev) (sn_privacy_risk cur) 30 15 @
     risk_signal ''breakage_risk'' (sn_breakage_risk prev) (sn_breakage_risk cur) 30 15 @
     primary_tag_signal prev cur @ tags_signal prev cur"

definition stable_signature :: "snapshot \<Rightarrow> string \<times> string \<times> string \<times> string list" where
  "stable_signature sn = (lower_or_unknown (sn_policy sn), service_name (sn_service sn),
     lower_or_unknown (sn_service_role sn), sort (snapshot_tags sn))"

definition baseline_consistency :: "snapshot \<Rightarrow> snapshot list \<Rightarrow> pyfloat" where
  "baseline_consistency baseline history =
     (let selected = take 5 history in
      if selected = [] then 0
      else of_nat (length (filter (\<lambda>i. stable_signature i = stable_signature baseline) selected))
        / of_nat (length selected))"

text \<open>The three reasons for a review that do not depend on the score.\<close>

definition hard_signal :: "change_signal \<Rightarrow> bool" where
  "hard_signal g \<longleftrightarrow>
     (sg_field g = ''policy'' \<and> sg_severity g = ''high'') \<or>
     (sg_field g = ''service_role'' \<and> sg_severity g = ''high'') \<or>
     (sg_field g = ''security_risk'' \<and>
       (case (sg_current g, sg_previous g) of (SV_int c, SV_int p) \<Rightarrow> 25 \<le> c - p | _ \<Rightarrow> False))"

definition compare_snapshots :: "string \<Rightarrow> snapshot \<Rightarrow> snapshot \<Rightarrow> snapshot list \<Rightarrow> change_report" where
  "compare_snapshots domain prev cur history =
     (let signals = change_signals prev cur;
          score = min 100 (sum_list (map sg_score signals))
      in \<lparr>bc_domain = domain, bc_has_history = True, bc_score = score,
          bc_severity = change_severity score,
          bc_requires_review = (list_ex hard_signal signals \<or> 35 \<le> score),
          bc_previous_run_id = sn_id prev, bc_previous_created_at = sn_created_at prev,
          bc_previous_provider = sn_provider prev, bc_previous_model = sn_model prev,
          bc_previous_profile = sn_profile prev,
          bc_baseline_consistency = baseline_consistency prev history,
          bc_signals = sort_key (\<lambda>g. (- sg_score g, sg_field g)) signals\<rparr>)"

definition primary_history :: "string \<Rightarrow> int \<Rightarrow> db \<Rightarrow> snapshot list" where
  "primary_history domain limit s =
     (if domain = [] then []
      else map snapshot_of_run (take (nat (max 1 limit))
        (sort_key (\<lambda>r. (- cr_created_at r, - cr_id r))
          (filter (\<lambda>r. cr_domain r = domain \<and> cr_is_primary r) (t_runs s)))))"

definition behavior_change_for_classification :: "classification \<Rightarrow> db \<Rightarrow> change_report" where
  "behavior_change_for_classification c s =
     (let domain = normalize_domain (c_domain c) in
      case primary_history domain 6 s of
        [] \<Rightarrow> blank_report domain False
      | prev # rest \<Rightarrow> compare_snapshots domain prev (classification_snapshot c) (prev # rest))"

definition historical_behavior_change :: "string \<Rightarrow> db \<Rightarrow> change_report" where
  "historical_behavior_change domain s =
     (let normalized = normalize_domain domain in
      case primary_history normalized 7 s of
        [] \<Rightarrow> blank_report normalized False
      | [r] \<Rightarrow> (blank_report normalized True)\<lparr>bc_previous_run_id := sn_id r,
                 bc_previous_created_at := sn_created_at r\<rparr>
      | cur # prev # rest \<Rightarrow> compare_snapshots normalized prev cur (prev # rest))"

section \<open>The guard\<close>

definition report_review_reason :: "change_report \<Rightarrow> string" where
  "report_review_reason rep =
     (if \<not> bc_requires_review rep then []
      else
        let summaries = py_join ''; '' (map sg_summary (take 3 (bc_signals rep)));
            suffix = (if summaries = [] then [] else '' Key changes: '' @ summaries @ ''.'')
        in ''Historical behavior-change signal ('' @ bc_severity rep @ '', score '' @
           show_int (bc_score rep) @ ''/100).'' @ suffix @
           '' Review before applying an automatic Pi-hole change.'')"

definition apply_guard_report :: "change_report \<Rightarrow> classification \<Rightarrow> classification" where
  "apply_guard_report rep c =
     (if \<not> bc_requires_review rep then c
      else
        let reason = report_review_reason rep;
            combined = (if c_review_reason c \<noteq> []
               then if py_contains reason (c_review_reason c) then c_review_reason c
                    else c_review_reason c @ '' '' @ reason
               else reason)
        in c\<lparr>c_needs_review := True, c_review_reason := combined\<rparr>)"

definition apply_behavior_change_guard :: "classification \<Rightarrow> db \<Rightarrow> classification" where
  "apply_behavior_change_guard c s = apply_guard_report (behavior_change_for_classification c s) c"

section \<open>Lemmas on signals\<close>

lemma change_signals_same [simp]: "change_signals sn sn = []"
  by (simp add: change_signals_def policy_signal_def service_signal_def role_signal_def risk_signal_def
      primary_tag_signal_def tags_signal_def Let_def)

definition score_ok :: "change_signal \<Rightarrow> bool" where
  "score_ok g \<longleftrightarrow> 8 \<le> sg_score g \<and> sg_score g \<le> 45"

lemma part_scores:
  "list_all score_ok (policy_signal p c)" "list_all score_ok (service_signal p c)"
  "list_all score_ok (role_signal p c)" "list_all score_ok (risk_signal f x y h m)"
  "list_all score_ok (primary_tag_signal p c)" "list_all score_ok (tags_signal p c)"
  by (simp_all add: policy_signal_def service_signal_def role_signal_def risk_signal_def
      primary_tag_signal_def tags_signal_def Let_def score_ok_def)

lemma change_signals_scores: "list_all score_ok (change_signals prev cur)"
  by (simp add: change_signals_def part_scores)

lemma sum_scores_nonneg: "list_all score_ok gs \<Longrightarrow> 0 \<le> sum_list (map sg_score gs)"
  by (induction gs) (auto simp: score_ok_def)

lemma sum_scores_pos: "list_all score_ok gs \<Longrightarrow> gs \<noteq> [] \<Longrightarrow> 8 \<le> sum_list (map sg_score gs)"
  using sum_scores_nonneg [of "tl gs"] by (cases gs) (auto simp: score_ok_def)

lemma policy_flip_signal:
  assumes "{sn_policy prev, sn_policy cur} = {''allow'', ''deny''}"
  shows "\<exists>g\<in>set (change_signals prev cur). hard_signal g"
proof -
  have low: "lower_or_unknown ''allow'' = ''allow''" "lower_or_unknown ''deny'' = ''deny''" by code_simp+
  from assms have "(sn_policy prev = ''allow'' \<and> sn_policy cur = ''deny'') \<or>
      (sn_policy prev = ''deny'' \<and> sn_policy cur = ''allow'')"
    by (auto simp: doubleton_eq_iff)
  then show ?thesis
    by (elim disjE) (simp_all add: change_signals_def policy_signal_def Let_def low hard_signal_def)
qed

section \<open>Idempotence of the guard\<close>

text \<open>The report does not read the fields the guard writes.\<close>

lemma report_ignores_guard:
  "behavior_change_for_classification (c\<lparr>c_needs_review := b, c_review_reason := t\<rparr>) s =
    behavior_change_for_classification c s"
  by (simp add: behavior_change_for_classification_def classification_snapshot_def tags_or_category_def
      Let_def split: list.split)

lemma py_contains_refl [simp]: "py_contains x x"
  unfolding py_contains_iff by (metis append_Nil append_Nil2)

lemma py_contains_suffix [simp]: "py_contains x (y @ x)"
  unfolding py_contains_iff by (metis append_Nil2)

lemma report_review_reason_nonempty: "bc_requires_review rep \<Longrightarrow> report_review_reason rep \<noteq> []"
  by (simp add: report_review_reason_def Let_def)

lemma apply_guard_report_idem: "apply_guard_report rep (apply_guard_report rep c) = apply_guard_report rep c"
proof (cases "bc_requires_review rep")
  case True
  note ne = report_review_reason_nonempty [OF this]
  have "py_contains (report_review_reason rep) (c_review_reason c @ CHR '' '' # report_review_reason rep)"
    using py_contains_suffix [of "report_review_reason rep" "c_review_reason c @ '' ''"] by simp
  with True ne show ?thesis by (simp add: apply_guard_report_def Let_def)
qed (simp add: apply_guard_report_def)

lemma apply_guard_report_fields:
  "c_domain (apply_guard_report rep c) = c_domain c" "c_policy (apply_guard_report rep c) = c_policy c"
  "c_tags (apply_guard_report rep c) = c_tags c" "c_category (apply_guard_report rep c) = c_category c"
  "c_service_role (apply_guard_report rep c) = c_service_role c"
  "c_breakage_risk (apply_guard_report rep c) = c_breakage_risk c"
  "c_confidence (apply_guard_report rep c) = c_confidence c"
  "c_security_risk (apply_guard_report rep c) = c_security_risk c"
  "c_needs_review (apply_guard_report rep c) = (c_needs_review c \<or> bc_requires_review rep)"
  by (auto simp: apply_guard_report_def Let_def)

lemma behavior_guard_idem:
  "apply_behavior_change_guard (apply_behavior_change_guard c s) s = apply_behavior_change_guard c s"
proof -
  let ?rep = "behavior_change_for_classification c s"
  have "behavior_change_for_classification (apply_guard_report ?rep c) s = ?rep"
    by (simp add: apply_guard_report_def Let_def report_ignores_guard)
  then show ?thesis by (simp add: apply_behavior_change_guard_def apply_guard_report_idem)
qed

section \<open>Properties\<close>

text \<open>The behaviour-change score is sound: it lies in 0..100, an unchanged classification scores 0 and
  needs no review, any detected change scores at least 8, severity and the review threshold follow
  the score, and a flip between allow and deny always forces a review, whatever the score. The signals are
  reported strongest first and none is dropped.\<close>

theorem behavior_report_sound:
  "let rep = compare_snapshots domain prev cur history in
    0 \<le> bc_score rep \<and> bc_score rep \<le> 100
    \<and> (prev = cur \<longrightarrow> bc_score rep = 0 \<and> \<not> bc_requires_review rep \<and> bc_severity rep = ''none'')
    \<and> (bc_signals rep \<noteq> [] \<longrightarrow> 8 \<le> bc_score rep)
    \<and> (35 \<le> bc_score rep \<longrightarrow> bc_requires_review rep)
    \<and> (bc_severity rep = ''critical'' \<longleftrightarrow> 75 \<le> bc_score rep)
    \<and> ({sn_policy prev, sn_policy cur} = {''allow'', ''deny''} \<longrightarrow> bc_requires_review rep)
    \<and> set (bc_signals rep) = set (change_signals prev cur)
    \<and> sorted (map (\<lambda>g. - sg_score g) (bc_signals rep))"
proof -
  let ?g = "change_signals prev cur" and ?key = "\<lambda>g. (- sg_score g, sg_field g)"
  have nonneg: "0 \<le> sum_list (map sg_score ?g)" by (rule sum_scores_nonneg [OF change_signals_scores])
  have pos: "8 \<le> sum_list (map sg_score ?g)" if "sort_key ?key ?g \<noteq> []"
  proof -
    from that have "?g \<noteq> []" by (metis set_empty set_sort)
    then show ?thesis by (rule sum_scores_pos [OF change_signals_scores])
  qed
  have flip: "list_ex hard_signal ?g" if "{sn_policy prev, sn_policy cur} = {''allow'', ''deny''}"
    using policy_flip_signal [OF that] by (auto simp: list_ex_iff)
  have sorted: "sorted (map (\<lambda>g. - sg_score g) (sort_key ?key ?g))"
    using sorted_sort_key [of ?key ?g]
    by (simp add: sorted_map) (erule sorted_wrt_mono_rel [rotated], auto simp: less_eq_prod_def)
  show ?thesis
    unfolding compare_snapshots_def Let_def
    using nonneg pos flip sorted by (auto simp: change_severity_def)
qed

definition ex_prev :: snapshot where
  "ex_prev = \<lparr>sn_policy = ''deny'', sn_service = '''', sn_service_role = ''optional'', sn_privacy_risk = 60,
     sn_security_risk = 10, sn_breakage_risk = 5, sn_primary_tag = ''ads'', sn_tags = [''ads''], sn_id = 1,
     sn_created_at = 9, sn_provider = ''p'', sn_model = ''m'', sn_profile = ''f''\<rparr>"

theorem behavior_report_sound_witness:
  "bc_score (compare_snapshots ''ads.example'' ex_prev (ex_prev\<lparr>sn_policy := ''allow''\<rparr>) [ex_prev]) = 45 \<and>
   bc_requires_review (compare_snapshots ''ads.example'' ex_prev (ex_prev\<lparr>sn_policy := ''allow''\<rparr>) [ex_prev])"
proof -
  have "{sn_policy ex_prev, sn_policy (ex_prev\<lparr>sn_policy := ''allow''\<rparr>)} = {''allow'', ''deny''}"
    by (auto simp: ex_prev_def)
  with behavior_report_sound [of "''ads.example''" ex_prev "ex_prev\<lparr>sn_policy := ''allow''\<rparr>" "[ex_prev]"]
  have "bc_requires_review (compare_snapshots ''ads.example'' ex_prev (ex_prev\<lparr>sn_policy := ''allow''\<rparr>) [ex_prev])"
    unfolding Let_def by blast
  moreover have "bc_score (compare_snapshots ''ads.example'' ex_prev (ex_prev\<lparr>sn_policy := ''allow''\<rparr>) [ex_prev]) = 45"
    by code_simp
  ultimately show ?thesis by blast
qed

end
