(* ===== verification/Compatibility.thy ===== *)
theory Compatibility
  imports Behavior_Change
begin

text \<open>
  Service-protection profiles, \<open>compatibility_profiles.py\<close>: matching a domain against the profiles,
  the order of the matches, the enrichment of a classification (role and breakage risk are never
  lowered, a deny recommendation needs a review) followed by the behaviour-change guard, and the
  finding that documents a match. The parsed profiles are an argument; \<open>profile_ok\<close> is what
  \<open>_parse_profile\<close> checks of each.
\<close>

record compatibility_profile =
  cp_profile_id :: string
  cp_name :: string
  cp_description :: string
  cp_service_role :: service_role
  cp_min_breakage_risk :: int
  cp_protection :: string
  cp_exact_domains :: "string list"
  cp_suffix_domains :: "string list"
  cp_reason :: string
  cp_source_url :: string

record compatibility_match =
  cm_profile :: compatibility_profile
  cm_matched_pattern :: string
  cm_match_type :: string

definition profile_ok :: "compatibility_profile \<Rightarrow> bool" where
  "profile_ok p \<longleftrightarrow>
     cp_profile_id p \<noteq> [] \<and> cp_name p \<noteq> [] \<and> cp_reason p \<noteq> [] \<and>
     cp_protection p = ''deny_requires_review'' \<and>
     cp_service_role p \<in> {Role_CORE, Role_SHARED, Role_OPTIONAL} \<and>
     0 \<le> cp_min_breakage_risk p \<and> cp_min_breakage_risk p \<le> 100 \<and>
     (cp_exact_domains p \<noteq> [] \<or> cp_suffix_domains p \<noteq> [])"

definition profile_matches :: "string \<Rightarrow> compatibility_profile \<Rightarrow> compatibility_match list" where
  "profile_matches normalized p =
     map (\<lambda>e. \<lparr>cm_profile = p, cm_matched_pattern = e, cm_match_type = ''exact''\<rparr>)
       (filter (\<lambda>e. normalized = e) (cp_exact_domains p)) @
     map (\<lambda>sfx. \<lparr>cm_profile = p, cm_matched_pattern = sfx, cm_match_type = ''suffix''\<rparr>)
       (filter (\<lambda>sfx. normalized = sfx \<or> py_endswith (''.'' @ sfx) normalized) (cp_suffix_domains p))"

definition role_order :: "service_role \<Rightarrow> int" where
  "role_order r = (case r of Role_CORE \<Rightarrow> 0 | Role_SHARED \<Rightarrow> 1 | Role_OPTIONAL \<Rightarrow> 2 | Role_UNKNOWN \<Rightarrow> 3)"

definition match_key :: "compatibility_match \<Rightarrow> int \<times> int \<times> int \<times> int \<times> string" where
  "match_key m = ((if cm_match_type m = ''exact'' then 0 else 1),
     role_order (cp_service_role (cm_profile m)), - cp_min_breakage_risk (cm_profile m),
     - int (length (cm_matched_pattern m)), py_lower (cp_profile_id (cm_profile m)))"

definition compatibility_matches :: "string \<Rightarrow> compatibility_profile list \<Rightarrow> compatibility_match list" where
  "compatibility_matches domain profiles =
     (let normalized = normalize_domain domain in
      if normalized = [] then []
      else sort_key match_key (concat (map (profile_matches normalized) profiles)))"

definition compatibility_match_for_domain ::
  "string \<Rightarrow> compatibility_profile list \<Rightarrow> compatibility_match option" where
  "compatibility_match_for_domain domain profiles =
     (case compatibility_matches domain profiles of [] \<Rightarrow> None | m # _ \<Rightarrow> Some m)"

definition role_strength :: "service_role \<Rightarrow> int" where
  "role_strength r = (case r of Role_CORE \<Rightarrow> 3 | Role_SHARED \<Rightarrow> 2 | Role_OPTIONAL \<Rightarrow> 1 | Role_UNKNOWN \<Rightarrow> 0)"

definition stronger_service_role :: "service_role \<Rightarrow> service_role \<Rightarrow> service_role" where
  "stronger_service_role current profile =
     (if role_strength current < role_strength profile then profile else current)"

definition compatibility_reason :: "compatibility_match \<Rightarrow> string" where
  "compatibility_reason m =
     ''Protected compatibility profile '' @ [CHR 0x27] @ cp_name (cm_profile m) @ [CHR 0x27] @ '' matched '' @
     cm_matched_pattern m @ ''. '' @ cp_reason (cm_profile m)"

definition enrich_with_profile :: "compatibility_match \<Rightarrow> classification \<Rightarrow> classification" where
  "enrich_with_profile m c =
     (let profile = cm_profile m; reason = compatibility_reason m;
          guarded = (cp_protection profile = ''deny_requires_review'' \<and> c_policy c = Policy_DENY);
          review_reason =
            (if guarded
             then if c_review_reason c \<noteq> []
                  then if py_contains reason (c_review_reason c) then c_review_reason c
                       else c_review_reason c @ '' '' @ reason
                  else reason
             else c_review_reason c)
      in c\<lparr>c_service := str_or (c_service c) (cp_name profile),
           c_service_role := stronger_service_role (c_service_role c) (cp_service_role profile),
           c_breakage_risk := max (c_breakage_risk c) (cp_min_breakage_risk profile),
           c_needs_review := (c_needs_review c \<or> guarded),
           c_review_reason := review_reason\<rparr>)"

definition apply_compatibility_profile ::
  "classification \<Rightarrow> compatibility_profile list \<Rightarrow> db \<Rightarrow> classification" where
  "apply_compatibility_profile c profiles s =
     (case compatibility_match_for_domain (c_domain c) profiles of
        None \<Rightarrow> apply_behavior_change_guard c s
      | Some m \<Rightarrow> apply_behavior_change_guard (enrich_with_profile m c) s)"

definition compatibility_finding ::
  "string \<Rightarrow> compatibility_profile list \<Rightarrow> int \<Rightarrow> research_finding option" where
  "compatibility_finding domain profiles now =
     (let normalized = normalize_domain domain in
      case compatibility_match_for_domain normalized profiles of
        None \<Rightarrow> None
      | Some m \<Rightarrow> let p = cm_profile m in
          Some \<lparr>rf_domain = normalized, rf_provider = ''Wormhole compatibility profiles'',
            rf_kind = ''compatibility_profile'', rf_title = ''Protected service: '' @ cp_name p,
            rf_summary = cp_reason p, rf_source_url = cp_source_url p, rf_confidence = 1,
            rf_signal_type = ''function'',
            rf_verdict = ''protected_'' @ service_role_value (cp_service_role p) @ ''_service'',
            rf_decision_relevant = True, rf_retrieved_at = now, rf_expires_at = now + 365 * 86400,
            rf_raw_data = [(''wormhole_source_kind'', JStr ''compatibility_profile''),
              (''profile_id'', JStr (cp_profile_id p)),
              (''service_role'', JStr (service_role_value (cp_service_role p))),
              (''min_breakage_risk'', JInt (cp_min_breakage_risk p)),
              (''protection'', JStr (cp_protection p)),
              (''matched_pattern'', JStr (cm_matched_pattern m)),
              (''match_type'', JStr (cm_match_type m))]\<rparr>)"

section \<open>Matching\<close>

lemma set_compatibility_matches:
  "set (compatibility_matches d ps) =
    (if normalize_domain d = [] then {} else (\<Union>p\<in>set ps. set (profile_matches (normalize_domain d) p)))"
  by (simp add: compatibility_matches_def Let_def)

lemma match_for_domain_Some:
  assumes "compatibility_match_for_domain d ps = Some m"
  shows "m \<in> set (compatibility_matches d ps)" and "m' \<in> set (compatibility_matches d ps) \<Longrightarrow> match_key m \<le> match_key m'"
proof -
  from assms obtain ms where ms: "compatibility_matches d ps = m # ms"
    by (auto simp: compatibility_match_for_domain_def split: list.splits)
  then show "m \<in> set (compatibility_matches d ps)" by simp
  have "sorted (map match_key (compatibility_matches d ps))"
    by (simp add: compatibility_matches_def Let_def)
  with ms show "m' \<in> set (compatibility_matches d ps) \<Longrightarrow> match_key m \<le> match_key m'" by auto
qed

lemma match_profile_ok:
  assumes "compatibility_match_for_domain d ps = Some m" and "\<forall>p\<in>set ps. profile_ok p"
  shows "profile_ok (cm_profile m)" and "cm_profile m \<in> set ps"
  using match_for_domain_Some(1) [OF assms(1)] assms(2)
  by (auto simp: set_compatibility_matches profile_matches_def split: if_splits)

section \<open>What a profile guarantees\<close>

lemma role_strength_stronger: "role_strength (stronger_service_role a b) = max (role_strength a) (role_strength b)"
  by (auto simp: stronger_service_role_def)

lemma enrich_fields:
  "c_domain (enrich_with_profile m c) = c_domain c" "c_policy (enrich_with_profile m c) = c_policy c"
  "c_tags (enrich_with_profile m c) = c_tags c" "c_category (enrich_with_profile m c) = c_category c"
  "c_confidence (enrich_with_profile m c) = c_confidence c"
  "c_security_risk (enrich_with_profile m c) = c_security_risk c"
  "c_service_role (enrich_with_profile m c) =
     stronger_service_role (c_service_role c) (cp_service_role (cm_profile m))"
  "c_breakage_risk (enrich_with_profile m c) = max (c_breakage_risk c) (cp_min_breakage_risk (cm_profile m))"
  "c_needs_review (enrich_with_profile m c) = (c_needs_review c \<or>
     cp_protection (cm_profile m) = ''deny_requires_review'' \<and> c_policy c = Policy_DENY)"
  by (simp_all add: enrich_with_profile_def Let_def)

lemma apply_profile_fields:
  "c_domain (apply_compatibility_profile c ps s) = c_domain c"
  "c_policy (apply_compatibility_profile c ps s) = c_policy c"
  "c_tags (apply_compatibility_profile c ps s) = c_tags c"
  "c_category (apply_compatibility_profile c ps s) = c_category c"
  "c_confidence (apply_compatibility_profile c ps s) = c_confidence c"
  by (simp_all add: apply_compatibility_profile_def apply_behavior_change_guard_def
      apply_guard_report_fields enrich_fields split: option.split)

section \<open>Properties\<close>

text \<open>C15. Protection is monotone: applying the compatibility profiles and the behaviour-change guard to
  a classification never changes its domain, policy, tags or confidence, never lowers its service role
  or breakage risk and never withdraws a review request; when a profile matches, the result has
  at least the role and breakage risk of the profile, and a deny recommendation needs a review.\<close>

theorem compatibility_protects:
  assumes "\<forall>p\<in>set ps. profile_ok p"
  shows "let c' = apply_compatibility_profile c ps s in
    c_domain c' = c_domain c \<and> c_policy c' = c_policy c \<and> c_tags c' = c_tags c \<and> c_confidence c' = c_confidence c \<and>
    role_strength (c_service_role c) \<le> role_strength (c_service_role c') \<and>
    c_breakage_risk c \<le> c_breakage_risk c' \<and> (c_needs_review c \<longrightarrow> c_needs_review c') \<and>
    (\<forall>m. compatibility_match_for_domain (c_domain c) ps = Some m \<longrightarrow>
      role_strength (cp_service_role (cm_profile m)) \<le> role_strength (c_service_role c') \<and>
      cp_min_breakage_risk (cm_profile m) \<le> c_breakage_risk c' \<and>
      (c_policy c = Policy_DENY \<longrightarrow> c_needs_review c'))"
proof (cases "compatibility_match_for_domain (c_domain c) ps")
  case None
  then show ?thesis
    by (simp add: Let_def apply_compatibility_profile_def apply_behavior_change_guard_def apply_guard_report_fields)
next
  case (Some m)
  have "cp_protection (cm_profile m) = ''deny_requires_review''"
    using match_profile_ok(1) [OF Some assms] by (simp add: profile_ok_def)
  with Some show ?thesis
    by (simp add: Let_def apply_compatibility_profile_def apply_behavior_change_guard_def
        apply_guard_report_fields enrich_fields role_strength_stronger)
qed

definition ex_profile :: compatibility_profile where
  "ex_profile = \<lparr>cp_profile_id = ''os'', cp_name = ''OS updates'', cp_description = '''',
     cp_service_role = Role_CORE, cp_min_breakage_risk = 90, cp_protection = ''deny_requires_review'',
     cp_exact_domains = [''update.example''], cp_suffix_domains = [''os.example''],
     cp_reason = ''Updates stop.'', cp_source_url = ''''\<rparr>"

theorem compatibility_protects_witness:
  "let c = ex_classification\<lparr>c_domain := ''cdn.os.example''\<rparr>;
       c' = apply_compatibility_profile c [ex_profile] empty_db
   in \<not> c_needs_review c \<and> c_needs_review c' \<and> c_service_role c' = Role_CORE \<and> c_breakage_risk c \<le> c_breakage_risk c'"
proof -
  let ?c = "ex_classification\<lparr>c_domain := ''cdn.os.example''\<rparr>"
  have ok: "\<forall>p\<in>set [ex_profile]. profile_ok p" by code_simp
  have m: "compatibility_match_for_domain (c_domain ?c) [ex_profile] =
      Some \<lparr>cm_profile = ex_profile, cm_matched_pattern = ''os.example'', cm_match_type = ''suffix''\<rparr>"
    and p: "c_policy ?c = Policy_DENY" and n: "\<not> c_needs_review ?c"
    and r: "c_service_role (apply_compatibility_profile ?c [ex_profile] empty_db) = Role_CORE"
    by code_simp+
  from compatibility_protects [OF ok, of ?c empty_db] m p
  have "c_needs_review (apply_compatibility_profile ?c [ex_profile] empty_db)"
    and "c_breakage_risk ?c \<le> c_breakage_risk (apply_compatibility_profile ?c [ex_profile] empty_db)"
    unfolding Let_def by blast+
  with n r show ?thesis unfolding Let_def by blast
qed

text \<open>The reported match is the strongest one: no other match of the domain is exact while it is only
  a suffix, and among matches of its kind none has a more critical role, and among those none a
  higher breakage floor.\<close>

theorem best_match_is_strongest:
  assumes "compatibility_match_for_domain d ps = Some m" and "p \<in> set ps"
    and "m' \<in> set (profile_matches (normalize_domain d) p)"
  shows "(cm_match_type m' = ''exact'' \<longrightarrow> cm_match_type m = ''exact'')
    \<and> (cm_match_type m' = cm_match_type m \<longrightarrow>
        role_order (cp_service_role (cm_profile m)) \<le> role_order (cp_service_role p))
    \<and> (cm_match_type m' = cm_match_type m \<and> cp_service_role p = cp_service_role (cm_profile m) \<longrightarrow>
        cp_min_breakage_risk p \<le> cp_min_breakage_risk (cm_profile m))"
proof -
  have "normalize_domain d \<noteq> []"
    using assms(1) by (auto simp: compatibility_match_for_domain_def compatibility_matches_def Let_def split: if_splits)
  then have "m' \<in> set (compatibility_matches d ps)"
    using assms(2,3) by (auto simp: set_compatibility_matches)
  from match_for_domain_Some(2) [OF assms(1) this] have le: "match_key m \<le> match_key m'" .
  have "cm_profile m' = p" using assms(3) by (auto simp: profile_matches_def)
  with le show ?thesis by (auto simp: match_key_def less_eq_prod_def split: if_splits)
qed

theorem best_match_is_strongest_witness:
  "\<exists>m. compatibility_match_for_domain ''update.example'' [ex_profile\<lparr>cp_suffix_domains := [''example'']\<rparr>] = Some m \<and>
     cm_match_type m = ''exact''"
proof -
  let ?p = "ex_profile\<lparr>cp_suffix_domains := [''example'']\<rparr>"
  obtain m where m: "compatibility_match_for_domain ''update.example'' [?p] = Some m"
    and i: "\<lparr>cm_profile = ?p, cm_matched_pattern = ''update.example'', cm_match_type = ''exact''\<rparr>
        \<in> set (profile_matches (normalize_domain ''update.example'') ?p)"
  proof (rule that)
    show "compatibility_match_for_domain ''update.example'' [?p] =
        Some \<lparr>cm_profile = ?p, cm_matched_pattern = ''update.example'', cm_match_type = ''exact''\<rparr>"
      and "\<lparr>cm_profile = ?p, cm_matched_pattern = ''update.example'', cm_match_type = ''exact''\<rparr>
        \<in> set (profile_matches (normalize_domain ''update.example'') ?p)"
      by code_simp+
  qed
  from best_match_is_strongest [OF m _ i] m show ?thesis by simp
qed
end
