(* ===== verification/Pihole.thy ===== *)
theory Pihole
  imports Compatibility
begin

text \<open>
  Writing to Pi-hole: the guarded operations of \<open>pihole_service.py\<close> and \<open>pihole_rules.py\<close> and the
  audit log with rollback of \<open>pihole_audit.py\<close>.
  The Pi-hole server is not part of the repository: it is the argument \<open>srv\<close>, a record of its REST
  operations over an abstract server state \<open>'p\<close>. \<open>server_laws\<close> states what its API documents: what was
  written is listed afterwards, and other entries are untouched. A request that raises is
  taken to have had no effect. \<open>inst\<close> is \<open>_instance_context()\<close>: id, name and URL of the active instance.
\<close>

section \<open>The server\<close>

text \<open>A row of a listing; a missing field is \<^const>\<open>None\<close>.\<close>

record api_row =
  ar_key :: string
  ar_type :: "string option"
  ar_comment :: "string option"
  ar_enabled :: "bool option"
  ar_groups :: "int list option"

text \<open>The body of an add or update request.\<close>

record api_body =
  ab_comment :: "string option"
  ab_groups :: "int list"
  ab_enabled :: bool

text \<open>The endpoint is \<open>exact\<close>, \<open>regex\<close> or \<open>list\<close>; the type \<open>allow\<close>, \<open>deny\<close> or \<open>block\<close>.\<close>

record 'p pihole_server =
  srv_get :: "string \<Rightarrow> string \<Rightarrow> 'p \<Rightarrow> exn + api_row list"
  srv_add :: "string \<Rightarrow> string \<Rightarrow> string \<Rightarrow> api_body \<Rightarrow> 'p \<Rightarrow> exn + 'p"
  srv_update :: "string \<Rightarrow> string \<Rightarrow> string \<Rightarrow> api_body \<Rightarrow> 'p \<Rightarrow> exn + 'p"
  srv_delete :: "string \<Rightarrow> string \<Rightarrow> string \<Rightarrow> 'p \<Rightarrow> exn + 'p"

definition client_add ::
  "'p pihole_server \<Rightarrow> string \<Rightarrow> string \<Rightarrow> string \<Rightarrow> string option \<Rightarrow> int list option \<Rightarrow> bool \<Rightarrow> 'p \<Rightarrow> exn + 'p" where
  "client_add srv endpoint type key comment groups enabled p =
     srv_add srv endpoint type key
       \<lparr>ab_comment = comment, ab_groups = (case groups of None \<Rightarrow> [] | Some g \<Rightarrow> g), ab_enabled = enabled\<rparr> p"

definition client_update ::
  "'p pihole_server \<Rightarrow> string \<Rightarrow> string \<Rightarrow> string \<Rightarrow> string option \<Rightarrow> int list option \<Rightarrow> bool \<Rightarrow> 'p \<Rightarrow> exn + 'p" where
  "client_update srv endpoint type key comment groups enabled p =
     srv_update srv endpoint type key
       \<lparr>ab_comment = comment, ab_groups = (case groups of None \<Rightarrow> [] | Some g \<Rightarrow> g), ab_enabled = enabled\<rparr> p"

section \<open>Snapshots\<close>

record pihole_snapshot =
  sp_key :: string
  sp_type :: string
  sp_comment :: string
  sp_enabled :: bool
  sp_groups :: "int list option"

definition normalize_groups :: "int list \<Rightarrow> int list" where
  "normalize_groups groups = sort (fromkeys groups)"

text \<open>The dictionaries that the fetch functions return, before normalisation.\<close>

definition opt_or :: "'a \<Rightarrow> 'a option \<Rightarrow> 'a" where
  "opt_or d x = (case x of None \<Rightarrow> d | Some v \<Rightarrow> v)"

definition fetched_row :: "string \<Rightarrow> string \<Rightarrow> api_row \<Rightarrow> pihole_snapshot" where
  "fetched_row kind type r =
     \<lparr>sp_key = ar_key r,
      sp_type = (if kind = ''exact_domain'' then []
                 else if kind = ''regex_domain'' then type
                 else str_or (opt_or [] (ar_type r)) type),
      sp_comment = opt_or [] (ar_comment r), sp_enabled = opt_or True (ar_enabled r),
      sp_groups = Some (if kind = ''exact_domain'' then opt_or [] (ar_groups r)
                        else normalize_groups (opt_or [] (ar_groups r)))\<rparr>"

definition endpoint_of :: "string \<Rightarrow> string" where
  "endpoint_of kind = (if kind = ''exact_domain'' then ''exact''
     else if kind = ''regex_domain'' then ''regex'' else ''list'')"

definition fetch_rows :: "'p pihole_server \<Rightarrow> string \<Rightarrow> string \<Rightarrow> 'p \<Rightarrow> exn + pihole_snapshot list" where
  "fetch_rows srv kind type p =
     (if kind = ''subscribed_list'' \<and> type \<notin> {''allow'', ''block''} \<or>
         kind \<noteq> ''subscribed_list'' \<and> type \<notin> {''allow'', ''deny''}
      then Inl (ValueError ''invalid type'')
      else case srv_get srv (endpoint_of kind) type p of
        Inl e \<Rightarrow> Inl e
      | Inr rows \<Rightarrow> Inr (map (fetched_row kind type) (filter (\<lambda>r. ar_key r \<noteq> []) rows)))"

definition normalize_snapshot :: "string \<Rightarrow> string \<Rightarrow> pihole_snapshot \<Rightarrow> pihole_snapshot" where
  "normalize_snapshot type key sp =
     \<lparr>sp_key = str_or (sp_key sp) key, sp_type = str_or (sp_type sp) type, sp_comment = sp_comment sp,
      sp_enabled = sp_enabled sp, sp_groups = map_option normalize_groups (sp_groups sp)\<rparr>"

definition supported_kinds :: "string set" where
  "supported_kinds = {''exact_domain'', ''regex_domain'', ''subscribed_list''}"

definition capture_pihole_snapshot ::
  "'p pihole_server \<Rightarrow> string \<Rightarrow> string \<Rightarrow> string \<Rightarrow> 'p \<Rightarrow> pihole_snapshot option" where
  "capture_pihole_snapshot srv kind type key p =
     (if kind \<notin> supported_kinds then None
      else case fetch_rows srv kind type p of
        Inl e \<Rightarrow> None
      | Inr rows \<Rightarrow> map_option (normalize_snapshot type key) (List.find (\<lambda>r. sp_key r = key) rows))"

section \<open>The audit log\<close>

record audit_entry =
  ae_id :: int
  ae_instance_id :: string
  ae_instance_name :: string
  ae_instance_url :: string
  ae_operation :: string
  ae_resource_kind :: string
  ae_resource_type :: string
  ae_resource_key :: string
  ae_before :: "pihole_snapshot option"
  ae_after :: "pihole_snapshot option"
  ae_reversible :: bool
  ae_related_entry_id :: "int option"
  ae_rolled_back_at :: "int option"
  ae_rollback_error :: string
  ae_created_at :: int

text \<open>\<open>w_audit_ok\<close> tells whether the audit file can be written; \<open>record_pihole_change\<close> swallows a failure.\<close>

record 'p world =
  w_db :: db
  w_pihole :: 'p
  w_audit :: "audit_entry list"
  w_audit_seq :: int
  w_audit_ok :: bool

type_synonym instance_ctx = "string \<times> string \<times> string"

definition append_audit :: "audit_entry \<Rightarrow> 'p world \<Rightarrow> 'p world \<times> int" where
  "append_audit e w =
     (let i = w_audit_seq w + 1 in (w\<lparr>w_audit := w_audit w @ [e\<lparr>ae_id := i\<rparr>], w_audit_seq := i\<rparr>, i))"

definition record_pihole_change ::
  "instance_ctx \<Rightarrow> int \<Rightarrow> string \<Rightarrow> string \<Rightarrow> string \<Rightarrow> string \<Rightarrow> pihole_snapshot option \<Rightarrow>
    pihole_snapshot option \<Rightarrow> bool option \<Rightarrow> int option \<Rightarrow> 'p world \<Rightarrow> 'p world \<times> int option" where
  "record_pihole_change inst now operation kind type key before after reversible related w =
     (if kind \<notin> supported_kinds then (w, None)
      else
        let b = map_option (normalize_snapshot type key) before;
            a = map_option (normalize_snapshot type key) after;
            rev = (case reversible of Some r \<Rightarrow> r
                   | None \<Rightarrow> operation = ''add'' \<or> (operation \<in> {''update'', ''delete''} \<and> b \<noteq> None));
            (iid, iname, iurl) = inst
        in if \<not> w_audit_ok w then (w, None)
           else let (w', i) = append_audit
                  \<lparr>ae_id = 0, ae_instance_id = iid, ae_instance_name = iname, ae_instance_url = iurl,
                   ae_operation = operation, ae_resource_kind = kind, ae_resource_type = type,
                   ae_resource_key = key, ae_before = b, ae_after = a, ae_reversible = rev,
                   ae_related_entry_id = related, ae_rolled_back_at = None, ae_rollback_error = [],
                   ae_created_at = now\<rparr> w
                in (w', Some i))"

definition list_pihole_audit :: "int \<Rightarrow> 'p world \<Rightarrow> audit_entry list" where
  "list_pihole_audit limit w =
     take (nat (max 1 (min 5000 limit))) (sort_key (\<lambda>e. (- ae_created_at e, - ae_id e)) (w_audit w))"

definition get_pihole_audit_entry :: "int \<Rightarrow> 'p world \<Rightarrow> audit_entry option" where
  "get_pihole_audit_entry i w = tbl_get ae_id i (w_audit w)"

definition snapshot_matches :: "pihole_snapshot option \<Rightarrow> pihole_snapshot option \<Rightarrow> bool" where
  "snapshot_matches current expected =
     (case (current, expected) of
        (None, None) \<Rightarrow> True
      | (Some c, Some e) \<Rightarrow> sp_key c = sp_key e \<and> sp_type c = sp_type e \<and> sp_comment c = sp_comment e \<and>
          sp_enabled c = sp_enabled e \<and> (sp_groups e = None \<or> sp_groups c = sp_groups e)
      | _ \<Rightarrow> False)"

definition apply_rollback :: "'p pihole_server \<Rightarrow> audit_entry \<Rightarrow> 'p \<Rightarrow> exn + 'p" where
  "apply_rollback srv e p =
     (let endpoint = endpoint_of (ae_resource_kind e); type = ae_resource_type e; key = ae_resource_key e
      in if ae_operation e = ''add'' then srv_delete srv endpoint type key p
         else case ae_before e of
           None \<Rightarrow> Inl (RuntimeError ''The audit entry has no previous state to restore.'')
         | Some b \<Rightarrow>
             let comment = (if sp_comment b = [] then None else Some (sp_comment b));
                 groups = (case sp_groups b of None \<Rightarrow> [] | Some g \<Rightarrow> normalize_groups g)
             in if ae_operation e = ''delete''
                then client_add srv endpoint type key comment (Some groups) (sp_enabled b) p
                else client_update srv endpoint type key comment (Some groups) (sp_enabled b) p)"

definition exn_text :: "exn \<Rightarrow> string" where
  "exn_text e = (case e of ValueError m \<Rightarrow> m | RuntimeError m \<Rightarrow> m
     | IntegrityError \<Rightarrow> ''FOREIGN KEY constraint failed'' | OperationCancelledError \<Rightarrow> ''Operation cancelled'')"

definition mark_rollback_error :: "int \<Rightarrow> string \<Rightarrow> 'p world \<Rightarrow> 'p world" where
  "mark_rollback_error i err w =
     w\<lparr>w_audit := tbl_update (\<lambda>e. ae_id e = i) (\<lambda>e. e\<lparr>ae_rollback_error := take 2000 err\<rparr>) (w_audit w)\<rparr>"

definition wrong_instance :: "audit_entry \<Rightarrow> exn" where
  "wrong_instance e = RuntimeError (''Switch to Pi-hole instance '' @ [CHR 0x27] @ ae_instance_name e @
     [CHR 0x27] @ '' before rolling this change back.'')"

definition rollback_pihole_audit ::
  "'p pihole_server \<Rightarrow> instance_ctx \<Rightarrow> int \<Rightarrow> int \<Rightarrow> 'p world \<Rightarrow> 'p world \<times> (exn + int)" where
  "rollback_pihole_audit srv inst now i w =
     (case get_pihole_audit_entry i w of
        None \<Rightarrow> (w, Inl (ValueError ''Audit entry was not found.''))
      | Some e \<Rightarrow>
          let (cid, cname, curl) = inst;
              current = capture_pihole_snapshot srv (ae_resource_kind e) (ae_resource_type e)
                          (ae_resource_key e) (w_pihole w);
              expected = (if ae_operation e = ''delete'' then None else ae_after e)
          in if \<not> ae_reversible e \<or> ae_operation e \<notin> {''add'', ''update'', ''delete''}
             then (w, Inl (RuntimeError ''This audit entry cannot be rolled back.''))
             else if ae_rolled_back_at e \<noteq> None
             then (w, Inl (RuntimeError ''This change has already been rolled back.''))
             else if ae_instance_id e \<noteq> [] \<and> cid \<noteq> [] \<and> ae_instance_id e \<noteq> cid
             then (w, Inl (wrong_instance e))
             else if py_rstrip_char (CHR ''/'') (ae_instance_url e) \<noteq> py_rstrip_char (CHR ''/'') curl
             then (w, Inl (wrong_instance e))
             else if \<not> snapshot_matches current expected
             then (w, Inl (RuntimeError ''The Pi-hole resource changed after this audit entry.''))
             else case apply_rollback srv e (w_pihole w) of
               Inl x \<Rightarrow> (mark_rollback_error (ae_id e) (exn_text x) w, Inl x)
             | Inr p' \<Rightarrow>
                 let w1 = w\<lparr>w_pihole := p', w_audit := tbl_update (\<lambda>a. ae_id a = ae_id e)
                        (\<lambda>a. a\<lparr>ae_rolled_back_at := Some now, ae_rollback_error := []\<rparr>) (w_audit w)\<rparr>;
                     (w2, j) = append_audit
                       \<lparr>ae_id = 0, ae_instance_id = ae_instance_id e, ae_instance_name = ae_instance_name e,
                        ae_instance_url = ae_instance_url e, ae_operation = ''rollback'',
                        ae_resource_kind = ae_resource_kind e, ae_resource_type = ae_resource_type e,
                        ae_resource_key = ae_resource_key e, ae_before = ae_after e, ae_after = ae_before e,
                        ae_reversible = False, ae_related_entry_id = Some (ae_id e),
                        ae_rolled_back_at = None, ae_rollback_error = [], ae_created_at = now\<rparr> w1
                 in (w2, Inr j))"

section \<open>Guarded writes\<close>

definition lock_refusal :: "string \<Rightarrow> string \<Rightarrow> exn" where
  "lock_refusal list_type policy =
     RuntimeError (''Domain is protected in the '' @ list_type @ '' list and cannot be added to '' @ policy @ ''.'')"

definition compatibility_refusal :: "compatibility_match \<Rightarrow> exn" where
  "compatibility_refusal m =
     RuntimeError (''Domain matches protected compatibility profile '' @ [CHR 0x27] @ cp_name (cm_profile m) @
       [CHR 0x27] @ '' ('' @ cm_matched_pattern m @
       ''). Blocking requires an explicit compatibility override. '' @ cp_reason (cm_profile m))"

definition add_exact_domain ::
  "'p pihole_server \<Rightarrow> instance_ctx \<Rightarrow> compatibility_profile list \<Rightarrow> int \<Rightarrow> string \<Rightarrow> string \<Rightarrow> string \<Rightarrow> bool \<Rightarrow>
    'p world \<Rightarrow> exn + 'p world" where
  "add_exact_domain srv inst profiles now domain policy comment override w =
     (if policy \<notin> {''allow'', ''deny''} then Inl (ValueError ''policy must be allow or deny'')
      else
        let lock = get_domain_lock domain (w_db w);
            compatibility = compatibility_match_for_domain domain profiles
        in case (case lock of None \<Rightarrow> None
                 | Some l \<Rightarrow> if l_list_type l \<noteq> policy then Some (lock_refusal (l_list_type l) policy) else None) of
             Some e \<Rightarrow> Inl e
           | None \<Rightarrow>
               (case (if policy = ''deny'' \<and> \<not> override then compatibility else None) of
                  Some m \<Rightarrow> Inl (compatibility_refusal m)
                | None \<Rightarrow>
                    (case client_add srv ''exact'' policy domain (if comment = [] then None else Some comment)
                            None True (w_pihole w) of
                       Inl e \<Rightarrow> Inl e
                     | Inr p' \<Rightarrow>
                         Inr (fst (record_pihole_change inst now ''add'' ''exact_domain'' policy domain None
                           (Some \<lparr>sp_key = domain, sp_type = policy, sp_comment = comment,
                                  sp_enabled = True, sp_groups = None\<rparr>) None None (w\<lparr>w_pihole := p'\<rparr>))))))"

definition delete_exact_domain ::
  "'p pihole_server \<Rightarrow> instance_ctx \<Rightarrow> int \<Rightarrow> string \<Rightarrow> string \<Rightarrow> 'p world \<Rightarrow> exn + 'p world" where
  "delete_exact_domain srv inst now domain domain_type w =
     (if domain_type \<notin> {''allow'', ''deny''} then Inl (ValueError ''domain_type must be allow or deny'')
      else if (case get_domain_lock domain (w_db w) of None \<Rightarrow> False | Some l \<Rightarrow> l_list_type l = domain_type)
      then Inl (RuntimeError ''Domain is protected and cannot be removed until it is unlocked.'')
      else
        let before = capture_pihole_snapshot srv ''exact_domain'' domain_type domain (w_pihole w)
        in case srv_delete srv ''exact'' domain_type domain (w_pihole w) of
             Inl e \<Rightarrow> Inl e
           | Inr p' \<Rightarrow> Inr (fst (record_pihole_change inst now ''delete'' ''exact_domain'' domain_type domain
                before None None None (w\<lparr>w_pihole := p'\<rparr>))))"

text \<open>The update of groups, comment and state, for exact domains, regular expressions and lists; the
  regex and list versions differ from it only in the resource kind.\<close>

definition update_pihole_resource ::
  "'p pihole_server \<Rightarrow> instance_ctx \<Rightarrow> int \<Rightarrow> string \<Rightarrow> string \<Rightarrow> string \<Rightarrow> int list \<Rightarrow> string \<Rightarrow> bool \<Rightarrow>
    'p world \<Rightarrow> exn + 'p world" where
  "update_pihole_resource srv inst now kind type key groups comment enabled w =
     (let g = normalize_groups groups;
          before = capture_pihole_snapshot srv kind type key (w_pihole w)
      in case client_update srv (endpoint_of kind) type key (if comment = [] then None else Some comment)
              (Some g) enabled (w_pihole w) of
           Inl e \<Rightarrow> Inl e
         | Inr p' \<Rightarrow> Inr (fst (record_pihole_change inst now ''update'' kind type key before
              (Some \<lparr>sp_key = key, sp_type = type, sp_comment = comment, sp_enabled = enabled,
                     sp_groups = Some g\<rparr>) None None (w\<lparr>w_pihole := p'\<rparr>))))"

definition update_exact_domain_groups ::
  "'p pihole_server \<Rightarrow> instance_ctx \<Rightarrow> int \<Rightarrow> string \<Rightarrow> string \<Rightarrow> int list \<Rightarrow> string \<Rightarrow> bool \<Rightarrow> 'p world \<Rightarrow> exn + 'p world" where
  "update_exact_domain_groups srv inst now domain domain_type groups comment enabled w =
     (if domain_type \<notin> {''allow'', ''deny''} then Inl (ValueError ''domain_type must be allow or deny'')
      else update_pihole_resource srv inst now ''exact_domain'' domain_type domain groups comment enabled w)"

definition update_subscribed_list_groups ::
  "'p pihole_server \<Rightarrow> instance_ctx \<Rightarrow> int \<Rightarrow> string \<Rightarrow> string \<Rightarrow> int list \<Rightarrow> string \<Rightarrow> bool \<Rightarrow> 'p world \<Rightarrow> exn + 'p world" where
  "update_subscribed_list_groups srv inst now address list_type groups comment enabled w =
     (if list_type \<notin> {''allow'', ''block''} then Inl (ValueError ''list_type must be allow or block'')
      else update_pihole_resource srv inst now ''subscribed_list'' list_type address groups comment enabled w)"

text \<open>Regular expressions and subscribed lists of \<open>pihole_rules.py\<close>.\<close>

definition add_managed_resource ::
  "'p pihole_server \<Rightarrow> instance_ctx \<Rightarrow> int \<Rightarrow> string \<Rightarrow> string \<Rightarrow> string \<Rightarrow> int list \<Rightarrow> string \<Rightarrow> bool \<Rightarrow>
    'p world \<Rightarrow> exn + 'p world" where
  "add_managed_resource srv inst now kind type key groups comment enabled w =
     (let v = py_strip key; g = normalize_groups groups
      in case client_add srv (endpoint_of kind) type v (if comment = [] then None else Some comment)
              (Some g) enabled (w_pihole w) of
           Inl e \<Rightarrow> Inl e
         | Inr p' \<Rightarrow> Inr (fst (record_pihole_change inst now ''add'' kind type v None
              (Some \<lparr>sp_key = v, sp_type = type, sp_comment = comment, sp_enabled = enabled,
                     sp_groups = Some g\<rparr>) None None (w\<lparr>w_pihole := p'\<rparr>))))"

definition delete_managed_resource ::
  "'p pihole_server \<Rightarrow> instance_ctx \<Rightarrow> int \<Rightarrow> string \<Rightarrow> string \<Rightarrow> string \<Rightarrow> 'p world \<Rightarrow> exn + 'p world" where
  "delete_managed_resource srv inst now kind type key w =
     (let before = capture_pihole_snapshot srv kind type key (w_pihole w)
      in case srv_delete srv (endpoint_of kind) type key (w_pihole w) of
           Inl e \<Rightarrow> Inl e
         | Inr p' \<Rightarrow> Inr (fst (record_pihole_change inst now ''delete'' kind type key before None
              None None (w\<lparr>w_pihole := p'\<rparr>))))"

section \<open>What the server documents\<close>

definition server_entry :: "'p pihole_server \<Rightarrow> string \<Rightarrow> string \<Rightarrow> string \<Rightarrow> 'p \<Rightarrow> api_row option" where
  "server_entry srv endpoint type key p =
     (case srv_get srv endpoint type p of Inl _ \<Rightarrow> None | Inr rows \<Rightarrow> tbl_get ar_key key rows)"

text \<open>A listed row shows a request body. An empty group list lets the server choose its default group.\<close>

definition row_shows :: "string \<Rightarrow> api_body \<Rightarrow> api_row \<Rightarrow> bool" where
  "row_shows type body r \<longleftrightarrow>
     opt_or [] (ar_type r) \<in> {[], type} \<and> opt_or [] (ar_comment r) = opt_or [] (ab_comment body) \<and>
     opt_or True (ar_enabled r) = ab_enabled body \<and>
     (ab_groups body \<noteq> [] \<longrightarrow> normalize_groups (opt_or [] (ar_groups r)) = normalize_groups (ab_groups body))"

definition server_laws :: "'p pihole_server \<Rightarrow> bool" where
  "server_laws srv \<longleftrightarrow>
     (\<forall>ep t k body p p'. (srv_add srv ep t k body p = Inr p' \<or> srv_update srv ep t k body p = Inr p') \<longrightarrow>
        (\<exists>r. server_entry srv ep t k p' = Some r \<and> row_shows t body r) \<and>
        (\<forall>ep' t' k'. (ep', t', k') \<noteq> (ep, t, k) \<longrightarrow> server_entry srv ep' t' k' p' = server_entry srv ep' t' k' p)) \<and>
     (\<forall>ep t k p p'. srv_delete srv ep t k p = Inr p' \<longrightarrow>
        server_entry srv ep t k p' = None \<and>
        (\<forall>ep' t' k'. (ep', t', k') \<noteq> (ep, t, k) \<longrightarrow> server_entry srv ep' t' k' p' = server_entry srv ep' t' k' p))"

definition resource_ok :: "string \<Rightarrow> string \<Rightarrow> string \<Rightarrow> bool" where
  "resource_ok kind type key \<longleftrightarrow> key \<noteq> [] \<and>
     (kind = ''subscribed_list'' \<and> type \<in> {''allow'', ''block''} \<or>
      kind \<in> {''exact_domain'', ''regex_domain''} \<and> type \<in> {''allow'', ''deny''})"

definition audit_wf :: "'p world \<Rightarrow> bool" where
  "audit_wf w \<longleftrightarrow> w_audit_ok w \<and> (\<forall>e\<in>set (w_audit w). ae_id e \<le> w_audit_seq w)"

section \<open>Snapshots of the server\<close>

lemma capture_entry:
  assumes "resource_ok kind type key"
  shows "capture_pihole_snapshot srv kind type key p =
    map_option (\<lambda>r. normalize_snapshot type key (fetched_row kind type r))
      (server_entry srv (endpoint_of kind) type key p)"
proof -
  have find: "List.find (\<lambda>r. sp_key r = key) (map (fetched_row kind type) (filter (\<lambda>r. ar_key r \<noteq> []) rows)) =
      map_option (fetched_row kind type) (tbl_get ar_key key rows)" for rows
    using assms by (induction rows) (auto simp: tbl_get_Cons resource_ok_def fetched_row_def)
  from assms have "kind \<in> supported_kinds"
    and "\<not> (kind = ''subscribed_list'' \<and> type \<notin> {''allow'', ''block''} \<or>
      kind \<noteq> ''subscribed_list'' \<and> type \<notin> {''allow'', ''deny''})"
    by (auto simp: resource_ok_def supported_kinds_def)
  then show ?thesis
    by (auto simp: capture_pihole_snapshot_def fetch_rows_def server_entry_def find option.map_comp comp_def
        split: sum.split)
qed

lemma normalize_groups_idem [simp]: "normalize_groups (normalize_groups g) = normalize_groups g"
  by (simp add: normalize_groups_def fromkeys_id sorted_sort_id)

lemma normalize_groups_Nil [simp]: "normalize_groups g = [] \<longleftrightarrow> g = []"
  by (metis fromkeys_eq_Nil normalize_groups_def set_empty set_sort)

lemma captured_form:
  assumes "resource_ok kind type key" and "server_entry srv ep type key p = Some r" and "opt_or [] (ar_type r) \<in> {[], type}"
  shows "normalize_snapshot type key (fetched_row kind type r) =
    \<lparr>sp_key = key, sp_type = type, sp_comment = opt_or [] (ar_comment r), sp_enabled = opt_or True (ar_enabled r),
     sp_groups = Some (normalize_groups (opt_or [] (ar_groups r)))\<rparr>"
proof -
  from assms(2) have "ar_key r = key"
    by (auto simp: server_entry_def split: sum.splits dest: tbl_get_Some)
  with assms(1,3) show ?thesis
    by (auto simp: normalize_snapshot_def fetched_row_def str_or_def resource_ok_def)
qed

lemma server_laws_write:
  assumes "server_laws srv" and "srv_add srv ep t k body p = Inr p' \<or> srv_update srv ep t k body p = Inr p'"
  shows "\<exists>r. server_entry srv ep t k p' = Some r \<and> row_shows t body r"
    and "(ep', t', k') \<noteq> (ep, t, k) \<Longrightarrow> server_entry srv ep' t' k' p' = server_entry srv ep' t' k' p"
  using conjunct1 [OF assms(1) [unfolded server_laws_def], rule_format, OF assms(2)] by simp_all

lemma server_laws_delete:
  assumes "server_laws srv" and "srv_delete srv ep t k p = Inr p'"
  shows "server_entry srv ep t k p' = None"
    and "(ep', t', k') \<noteq> (ep, t, k) \<Longrightarrow> server_entry srv ep' t' k' p' = server_entry srv ep' t' k' p"
  using conjunct2 [OF assms(1) [unfolded server_laws_def], rule_format, OF assms(2)] by simp_all

text \<open>After a write the snapshot shows what was written.\<close>

lemma capture_after_write:
  assumes laws: "server_laws srv" and res: "resource_ok kind type key"
    and w: "srv_add srv (endpoint_of kind) type key body p = Inr p' \<or>
      srv_update srv (endpoint_of kind) type key body p = Inr p'"
    and g: "ab_groups body \<noteq> []"
  shows "capture_pihole_snapshot srv kind type key p' =
    Some \<lparr>sp_key = key, sp_type = type, sp_comment = opt_or [] (ab_comment body), sp_enabled = ab_enabled body,
          sp_groups = Some (normalize_groups (ab_groups body))\<rparr>"
proof -
  from server_laws_write(1) [OF laws w]
  obtain r where r: "server_entry srv (endpoint_of kind) type key p' = Some r" "row_shows type body r" by blast
  from r(2) have "opt_or [] (ar_type r) \<in> {[], type}" by (simp add: row_shows_def)
  from captured_form [OF res r(1) this] r g show ?thesis
    by (simp add: capture_entry [OF res] row_shows_def)
qed

lemma capture_after_delete:
  assumes "server_laws srv" and "resource_ok kind type key" and "srv_delete srv (endpoint_of kind) type key p = Inr p'"
  shows "capture_pihole_snapshot srv kind type key p' = None"
  using assms by (simp add: capture_entry server_laws_delete)

lemma capture_is_normal:
  assumes "resource_ok kind type key" and "capture_pihole_snapshot srv kind type key p = Some b"
    and "sp_type b = type"
  shows "normalize_snapshot type key b = b" and "sp_key b = key"
proof -
  from assms(1,2) obtain r where r: "server_entry srv (endpoint_of kind) type key p = Some r"
      "b = normalize_snapshot type key (fetched_row kind type r)"
    by (auto simp: capture_entry)
  then have "ar_key r = key" by (auto simp: server_entry_def split: sum.splits dest: tbl_get_Some)
  with r(2) show "sp_key b = key" by (simp add: normalize_snapshot_def fetched_row_def str_or_def)
  then show "normalize_snapshot type key b = b"
    using assms(3) r(2) by (auto simp: normalize_snapshot_def str_or_def fetched_row_def)
qed

section \<open>Recorded entries can be found again\<close>

lemma get_appended:
  assumes "audit_wf w" and "append_audit e w = (w', i)"
  shows "get_pihole_audit_entry i w' = Some (e\<lparr>ae_id := i\<rparr>)" and "audit_wf w'" and "w_pihole w' = w_pihole w"
    and "i = w_audit_seq w'"
proof -
  from assms(2) have w': "w' = w\<lparr>w_audit := w_audit w @ [e\<lparr>ae_id := i\<rparr>], w_audit_seq := i\<rparr>"
    and i: "i = w_audit_seq w + 1"
    by (auto simp: append_audit_def Let_def)
  from assms(1) have "\<forall>a\<in>set (w_audit w). ae_id a \<noteq> i" by (force simp: audit_wf_def i)
  then have "tbl_get ae_id i (w_audit w) = None" by (auto simp: tbl_get_None)
  then show "get_pihole_audit_entry i w' = Some (e\<lparr>ae_id := i\<rparr>)"
    by (simp add: w' get_pihole_audit_entry_def tbl_get_append tbl_get_Cons)
  show "audit_wf w'" "w_pihole w' = w_pihole w" "i = w_audit_seq w'"
    using assms(1) by (auto simp: w' audit_wf_def i)
qed

lemma record_change_entry:
  assumes "audit_wf w" and "kind \<in> supported_kinds"
    and "record_pihole_change inst now op kind type key before after None None w = (w', x)"
  shows "audit_wf w' \<and> w_pihole w' = w_pihole w \<and> x = Some (w_audit_seq w') \<and>
    (\<exists>e. get_pihole_audit_entry (w_audit_seq w') w' = Some e \<and> ae_operation e = op \<and>
       ae_resource_kind e = kind \<and> ae_resource_type e = type \<and> ae_resource_key e = key \<and>
       ae_before e = map_option (normalize_snapshot type key) before \<and>
       ae_after e = map_option (normalize_snapshot type key) after \<and>
       ae_rolled_back_at e = None \<and> ae_instance_id e = fst inst \<and> ae_instance_url e = snd (snd inst) \<and>
       ae_reversible e = (op = ''add'' \<or> op \<in> {''update'', ''delete''} \<and> before \<noteq> None))"
proof -
  obtain iid iname iurl where inst: "inst = (iid, iname, iurl)" by (cases inst rule: prod_cases3)
  let ?e = "\<lparr>ae_id = 0, ae_instance_id = iid, ae_instance_name = iname, ae_instance_url = iurl,
    ae_operation = op, ae_resource_kind = kind, ae_resource_type = type, ae_resource_key = key,
    ae_before = map_option (normalize_snapshot type key) before,
    ae_after = map_option (normalize_snapshot type key) after,
    ae_reversible = (op = ''add'' \<or> op \<in> {''update'', ''delete''} \<and>
       map_option (normalize_snapshot type key) before \<noteq> None),
    ae_related_entry_id = None, ae_rolled_back_at = None, ae_rollback_error = [], ae_created_at = now\<rparr>"
  obtain v i where a: "append_audit ?e w = (v, i)" by fastforce
  with assms have w': "w' = v" "x = Some i"
    by (auto simp: record_pihole_change_def Let_def inst audit_wf_def)
  note g = get_appended [OF assms(1) a]
  from g(1) g(4) have "get_pihole_audit_entry (w_audit_seq v) v = Some (?e\<lparr>ae_id := i\<rparr>)" by simp
  with g show ?thesis by (simp add: w' inst)
qed

section \<open>Rollback of one entry\<close>

definition rollback_allowed :: "'p pihole_server \<Rightarrow> instance_ctx \<Rightarrow> audit_entry \<Rightarrow> 'p \<Rightarrow> bool" where
  "rollback_allowed srv inst e p \<longleftrightarrow>
     ae_reversible e \<and> ae_operation e \<in> {''add'', ''update'', ''delete''} \<and> ae_rolled_back_at e = None \<and>
     (ae_instance_id e = [] \<or> fst inst = [] \<or> ae_instance_id e = fst inst) \<and>
     py_rstrip_char (CHR ''/'') (ae_instance_url e) = py_rstrip_char (CHR ''/'') (snd (snd inst)) \<and>
     snapshot_matches (capture_pihole_snapshot srv (ae_resource_kind e) (ae_resource_type e) (ae_resource_key e) p)
       (if ae_operation e = ''delete'' then None else ae_after e)"

lemma rollback_refused:
  assumes "get_pihole_audit_entry i w = Some e" and "\<not> rollback_allowed srv inst e (w_pihole w)"
  shows "\<exists>m. rollback_pihole_audit srv inst now i w = (w, Inl (RuntimeError m))"
  using assms
  by (cases inst rule: prod_cases3)
    (auto simp: rollback_pihole_audit_def rollback_allowed_def wrong_instance_def Let_def)

lemma rollback_failed:
  assumes "get_pihole_audit_entry i w = Some e" and "rollback_allowed srv inst e (w_pihole w)"
    and "apply_rollback srv e (w_pihole w) = Inl x"
  shows "rollback_pihole_audit srv inst now i w = (mark_rollback_error i (exn_text x) w, Inl x)"
proof -
  have "ae_id e = i" using tbl_get_Some [of ae_id i "w_audit w" e] assms(1) by (simp add: get_pihole_audit_entry_def)
  with assms show ?thesis
    by (cases inst rule: prod_cases3)
      (auto simp: rollback_pihole_audit_def rollback_allowed_def Let_def)
qed

lemma rollback_done:
  assumes "get_pihole_audit_entry i w = Some e" and "rollback_allowed srv inst e (w_pihole w)"
    and "apply_rollback srv e (w_pihole w) = Inr p'" and "audit_wf w"
  shows "\<exists>w' j. rollback_pihole_audit srv inst now i w = (w', Inr j) \<and> w_pihole w' = p' \<and> w_db w' = w_db w \<and>
    get_pihole_audit_entry i w' = Some (e\<lparr>ae_rolled_back_at := Some now, ae_rollback_error := []\<rparr>)"
proof -
  have i: "ae_id e = i" and mem: "e \<in> set (w_audit w)"
    using tbl_get_Some [of ae_id i "w_audit w" e] assms(1) by (simp_all add: get_pihole_audit_entry_def)
  define w1 where "w1 = w\<lparr>w_pihole := p', w_audit := tbl_update (\<lambda>a. ae_id a = i)
      (\<lambda>a. a\<lparr>ae_rolled_back_at := Some now, ae_rollback_error := []\<rparr>) (w_audit w)\<rparr>"
  let ?r = "\<lparr>ae_id = 0, ae_instance_id = ae_instance_id e, ae_instance_name = ae_instance_name e,
      ae_instance_url = ae_instance_url e, ae_operation = ''rollback'', ae_resource_kind = ae_resource_kind e,
      ae_resource_type = ae_resource_type e, ae_resource_key = ae_resource_key e, ae_before = ae_after e,
      ae_after = ae_before e, ae_reversible = False, ae_related_entry_id = Some i,
      ae_rolled_back_at = None, ae_rollback_error = [], ae_created_at = now\<rparr>"
  have "get_pihole_audit_entry i w1 = Some (e\<lparr>ae_rolled_back_at := Some now, ae_rollback_error := []\<rparr>)"
    using assms(1) i by (simp add: w1_def get_pihole_audit_entry_def tbl_get_update)
  then have got: "get_pihole_audit_entry i (fst (append_audit ?r w1)) =
      Some (e\<lparr>ae_rolled_back_at := Some now, ae_rollback_error := []\<rparr>)"
    by (simp add: append_audit_def Let_def get_pihole_audit_entry_def tbl_get_append)
  have "rollback_pihole_audit srv inst now i w =
      (fst (append_audit ?r w1), Inr (snd (append_audit ?r w1)))"
    using assms(1-3) i
    by (cases inst rule: prod_cases3)
      (auto simp: rollback_pihole_audit_def rollback_allowed_def Let_def w1_def split: prod.split)
  moreover have "w_pihole (fst (append_audit ?r w1)) = p'" "w_db (fst (append_audit ?r w1)) = w_db w"
    by (simp_all add: append_audit_def Let_def w1_def)
  ultimately show ?thesis using got by blast
qed

text \<open>What a logged update or delete leaves behind: the entry is found again and its rollback is allowed.\<close>

lemma update_logged:
  assumes laws: "server_laws srv" and res: "resource_ok kind type key" and wf: "audit_wf w"
    and before: "capture_pihole_snapshot srv kind type key (w_pihole w) = Some b"
    and upd: "update_pihole_resource srv inst now kind type key groups comment enabled w = Inr w1" "groups \<noteq> []"
  obtains e body where "audit_wf w1" "get_pihole_audit_entry (w_audit_seq w1) w1 = Some e"
    "srv_update srv (endpoint_of kind) type key body (w_pihole w) = Inr (w_pihole w1)"
    "ae_operation e = ''update''" "ae_resource_kind e = kind" "ae_resource_type e = type" "ae_resource_key e = key"
    "ae_before e = Some (normalize_snapshot type key b)" "rollback_allowed srv inst e (w_pihole w1)"
proof -
  have kind: "kind \<in> supported_kinds" and key: "key \<noteq> []" "type \<noteq> []"
    using res by (auto simp: resource_ok_def supported_kinds_def)
  let ?body = "\<lparr>ab_comment = (if comment = [] then None else Some comment),
    ab_groups = normalize_groups groups, ab_enabled = enabled\<rparr>"
  let ?after = "\<lparr>sp_key = key, sp_type = type, sp_comment = comment, sp_enabled = enabled,
    sp_groups = Some (normalize_groups groups)\<rparr>"
  from upd(1) before(1) obtain p1 x where p1: "srv_update srv (endpoint_of kind) type key ?body (w_pihole w) = Inr p1"
      and r: "record_pihole_change inst now ''update'' kind type key (Some b) (Some ?after) None None
        (w\<lparr>w_pihole := p1\<rparr>) = (w1, x)"
    by (auto simp: update_pihole_resource_def client_update_def Let_def split: sum.splits)
      (metis prod.collapse)
  have "audit_wf (w\<lparr>w_pihole := p1\<rparr>)" using wf by (simp add: audit_wf_def)
  note rec = record_change_entry [OF this kind r]
  then have wp: "w_pihole w1 = p1" by simp
  have "capture_pihole_snapshot srv kind type key p1 = Some ?after"
    using capture_after_write [OF laws res disjI2, OF p1] upd(2) by (simp add: opt_or_def)
  moreover have "normalize_snapshot type key ?after = ?after"
    using key by (simp add: normalize_snapshot_def str_or_def)
  ultimately show ?thesis
    using rec p1 by (auto intro!: that simp: rollback_allowed_def wp snapshot_matches_def)
qed

lemma delete_logged:
  assumes laws: "server_laws srv" and res: "resource_ok kind type key" and wf: "audit_wf w"
    and before: "capture_pihole_snapshot srv kind type key (w_pihole w) = Some b"
    and del: "delete_managed_resource srv inst now kind type key w = Inr w1"
  obtains e where "audit_wf w1" "get_pihole_audit_entry (w_audit_seq w1) w1 = Some e"
    "srv_delete srv (endpoint_of kind) type key (w_pihole w) = Inr (w_pihole w1)"
    "ae_operation e = ''delete''" "ae_resource_kind e = kind" "ae_resource_type e = type" "ae_resource_key e = key"
    "ae_before e = Some (normalize_snapshot type key b)" "rollback_allowed srv inst e (w_pihole w1)"
proof -
  have kind: "kind \<in> supported_kinds" using res by (auto simp: resource_ok_def supported_kinds_def)
  from del before obtain p1 x where p1: "srv_delete srv (endpoint_of kind) type key (w_pihole w) = Inr p1"
      and r: "record_pihole_change inst now ''delete'' kind type key (Some b) None None None
        (w\<lparr>w_pihole := p1\<rparr>) = (w1, x)"
    by (auto simp: delete_managed_resource_def Let_def split: sum.splits) (metis prod.collapse)
  have "audit_wf (w\<lparr>w_pihole := p1\<rparr>)" using wf by (simp add: audit_wf_def)
  note rec = record_change_entry [OF this kind r]
  then have wp: "w_pihole w1 = p1" by simp
  show ?thesis
    using rec p1 capture_after_delete [OF laws res p1]
    by (auto intro!: that simp: rollback_allowed_def wp snapshot_matches_def)
qed

text \<open>Writing a captured snapshot back restores it.\<close>

lemma rewrite_snapshot:
  assumes laws: "server_laws srv" and res: "resource_ok kind type key"
    and b: "capture_pihole_snapshot srv kind type key p = Some b" "sp_type b = type" "sp_groups b = Some g" "g \<noteq> []"
    and bk: "body = \<lparr>ab_comment = (if sp_comment b = [] then None else Some (sp_comment b)),
      ab_groups = normalize_groups g, ab_enabled = sp_enabled b\<rparr>"
    and w: "srv_add srv (endpoint_of kind) type key body p1 = Inr p2 \<or>
      srv_update srv (endpoint_of kind) type key body p1 = Inr p2"
  shows "capture_pihole_snapshot srv kind type key p2 = Some b"
proof -
  have key: "key \<noteq> []" "type \<noteq> []" using res by (auto simp: resource_ok_def)
  have "normalize_snapshot type key b = b" "sp_key b = key" using capture_is_normal [OF res b(1,2)] by auto
  then have "b = \<lparr>sp_key = key, sp_type = type, sp_comment = sp_comment b, sp_enabled = sp_enabled b,
      sp_groups = Some (normalize_groups g)\<rparr>"
    using b(2,3) key by (metis (no_types, lifting) normalize_snapshot_def option.simps(9) str_or_def)
  moreover have "capture_pihole_snapshot srv kind type key p2 =
      Some \<lparr>sp_key = key, sp_type = type, sp_comment = sp_comment b, sp_enabled = sp_enabled b,
        sp_groups = Some (normalize_groups g)\<rparr>"
    using capture_after_write [OF laws res w] b(4) by (simp add: bk opt_or_def)
  ultimately show ?thesis by simp
qed

section \<open>The guarded add\<close>

lemma add_exact_domain_Inr:
  assumes "add_exact_domain srv inst profiles now d policy comment override w = Inr w'"
  shows "policy \<in> {''allow'', ''deny''}
    \<and> (\<forall>l. get_domain_lock d (w_db w) = Some l \<longrightarrow> l_list_type l = policy)
    \<and> (policy = ''deny'' \<and> \<not> override \<longrightarrow> compatibility_match_for_domain d profiles = None)
    \<and> w_db w' = w_db w
    \<and> client_add srv ''exact'' policy d (if comment = [] then None else Some comment) None True (w_pihole w)
        = Inr (w_pihole w')
    \<and> (audit_wf w \<longrightarrow> (\<exists>e. get_pihole_audit_entry (w_audit_seq w') w' = Some e \<and> ae_operation e = ''add'' \<and>
        ae_resource_key e = d \<and> ae_resource_type e = policy \<and> ae_reversible e \<and> ae_rolled_back_at e = None))"
proof -
  let ?after = "Some \<lparr>sp_key = d, sp_type = policy, sp_comment = comment, sp_enabled = True, sp_groups = None\<rparr>"
  from assms have pol: "policy \<in> {''allow'', ''deny''}"
    by (auto simp: add_exact_domain_def split: if_splits)
  with assms have lock: "\<forall>l. get_domain_lock d (w_db w) = Some l \<longrightarrow> l_list_type l = policy"
    by (auto simp: add_exact_domain_def Let_def split: option.splits if_splits)
  with assms pol have comp: "policy = ''deny'' \<and> \<not> override \<longrightarrow> compatibility_match_for_domain d profiles = None"
    by (auto simp: add_exact_domain_def Let_def split: option.splits if_splits)
  from assms pol lock comp obtain p' where p': "client_add srv ''exact'' policy d
        (if comment = [] then None else Some comment) None True (w_pihole w) = Inr p'"
      and w': "w' = fst (record_pihole_change inst now ''add'' ''exact_domain'' policy d None ?after None None
        (w\<lparr>w_pihole := p'\<rparr>))"
    by (auto simp: add_exact_domain_def Let_def split: option.splits if_splits sum.splits)
  have frame: "w_db w' = w_db w" "w_pihole w' = p'"
    by (auto simp: w' record_pihole_change_def append_audit_def Let_def split: prod.split)
  have "\<exists>e. get_pihole_audit_entry (w_audit_seq w') w' = Some e \<and> ae_operation e = ''add'' \<and>
        ae_resource_key e = d \<and> ae_resource_type e = policy \<and> ae_reversible e \<and> ae_rolled_back_at e = None"
    if "audit_wf w"
  proof -
    obtain x where r: "record_pihole_change inst now ''add'' ''exact_domain'' policy d None ?after None None
        (w\<lparr>w_pihole := p'\<rparr>) = (w', x)" by (metis prod.collapse w')
    have "audit_wf (w\<lparr>w_pihole := p'\<rparr>)" using that by (simp add: audit_wf_def)
    from record_change_entry [OF this _ r] show ?thesis by (auto simp: supported_kinds_def)
  qed
  with pol lock comp frame p' show ?thesis by blast
qed

section \<open>A reference server\<close>

text \<open>A server that keeps its entries in a list, to show that the laws can hold.\<close>

type_synonym ref_state = "((string \<times> string \<times> string) \<times> api_body) list"

definition ref_row :: "string \<Rightarrow> string \<Rightarrow> api_body \<Rightarrow> api_row" where
  "ref_row t k body = \<lparr>ar_key = k, ar_type = Some t, ar_comment = ab_comment body,
     ar_enabled = Some (ab_enabled body), ar_groups = Some (ab_groups body)\<rparr>"

definition ref_rows :: "string \<Rightarrow> string \<Rightarrow> ref_state \<Rightarrow> api_row list" where
  "ref_rows ep t p = map (\<lambda>((e, u, k), body). ref_row u k body) (filter (\<lambda>((e, u, k), body). e = ep \<and> u = t) p)"

definition ref_server :: "ref_state pihole_server" where
  "ref_server = \<lparr>srv_get = (\<lambda>ep t p. Inr (ref_rows ep t p)),
     srv_add = (\<lambda>ep t k body p. Inr (((ep, t, k), body) # AList.delete (ep, t, k) p)),
     srv_update = (\<lambda>ep t k body p. Inr (((ep, t, k), body) # AList.delete (ep, t, k) p)),
     srv_delete = (\<lambda>ep t k p. Inr (AList.delete (ep, t, k) p))\<rparr>"

lemma ref_entry: "server_entry ref_server ep t k p = map_option (ref_row t k) (map_of p (ep, t, k))"
proof -
  have "tbl_get ar_key k (ref_rows ep t p) = map_option (ref_row t k) (map_of p (ep, t, k))"
    by (induction p) (auto simp: ref_rows_def tbl_get_Cons ref_row_def)
  then show ?thesis by (simp add: server_entry_def ref_server_def)
qed

lemma ref_server_laws: "server_laws ref_server"
  unfolding server_laws_def ref_entry
  by (auto simp: ref_server_def delete_conv' row_shows_def ref_row_def opt_or_def)

definition ex_world :: "ref_state world" where
  "ex_world = \<lparr>w_db = empty_db,
     w_pihole = [((''exact'', ''deny'', ''ads.example''),
       \<lparr>ab_comment = Some ''old'', ab_groups = [2, 0], ab_enabled = True\<rparr>)],
     w_audit = [], w_audit_seq = 0, w_audit_ok = True\<rparr>"

definition ex_inst :: instance_ctx where
  "ex_inst = (''i1'', ''home'', ''http://pi.hole'')"

definition ex_updated :: "ref_state world" where
  "ex_updated = (case update_pihole_resource ref_server ex_inst 5 ''exact_domain'' ''deny'' ''ads.example''
     [1] '''' False ex_world of Inr w \<Rightarrow> w | Inl _ \<Rightarrow> ex_world)"

lemma ex_capture: "capture_pihole_snapshot ref_server ''exact_domain'' ''deny'' ''ads.example'' (w_pihole ex_world) =
    Some \<lparr>sp_key = ''ads.example'', sp_type = ''deny'', sp_comment = ''old'', sp_enabled = True, sp_groups = Some [0, 2]\<rparr>"
  and ex_resource: "resource_ok ''exact_domain'' ''deny'' ''ads.example''"
  and ex_wf: "audit_wf ex_world"
  by code_simp+

section \<open>Properties of guarded writes and rollback\<close>

text \<open>C7. A domain is only ever written to a Pi-hole list when that is allowed: a successful add
  means the policy is allow or deny, no lock protects the domain in the other list, and a
  deny does not hit a compatibility profile unless explicitly overridden. The write goes to the exact
  list of that policy, leaves the local store alone and is logged as a reversible audit entry.\<close>

theorem add_exact_domain_guarded:
  assumes "add_exact_domain srv inst profiles now d policy comment override w = Inr w'"
  shows "policy \<in> {''allow'', ''deny''}
    \<and> (\<forall>l. get_domain_lock d (w_db w) = Some l \<longrightarrow> l_list_type l = policy)
    \<and> (policy = ''deny'' \<and> \<not> override \<longrightarrow> compatibility_match_for_domain d profiles = None)
    \<and> w_db w' = w_db w
    \<and> client_add srv ''exact'' policy d (if comment = [] then None else Some comment) None True (w_pihole w)
        = Inr (w_pihole w')
    \<and> (audit_wf w \<longrightarrow> (\<exists>e. get_pihole_audit_entry (w_audit_seq w') w' = Some e \<and> ae_operation e = ''add'' \<and>
        ae_resource_key e = d \<and> ae_resource_type e = policy \<and> ae_reversible e \<and> ae_rolled_back_at e = None))"
  using assms by (rule add_exact_domain_Inr)

theorem add_exact_domain_guarded_witness:
  "\<exists>w'. add_exact_domain ref_server ex_inst [ex_profile] 5 ''new.example'' ''deny'' ''c'' False ex_world = Inr w' \<and>
     w_db w' = w_db ex_world \<and> compatibility_match_for_domain ''new.example'' [ex_profile] = None"
proof -
  have "\<not> isl (add_exact_domain ref_server ex_inst [ex_profile] 5 ''new.example'' ''deny'' ''c'' False ex_world)"
    by code_simp
  then obtain w' where w: "add_exact_domain ref_server ex_inst [ex_profile] 5 ''new.example'' ''deny'' ''c'' False
      ex_world = Inr w'"
    by (auto simp: isl_def split: sum.splits) (metis sum.exhaust)
  from add_exact_domain_guarded [OF w] w show ?thesis by blast
qed



text \<open>Rollback undoes a deletion: a deleted entry comes back with its previous comment, groups and
  state, unless the server rejects the request.\<close>

theorem delete_rollback_restores:
  assumes laws: "server_laws srv" and res: "resource_ok kind type key" and wf: "audit_wf w"
    and before: "capture_pihole_snapshot srv kind type key (w_pihole w) = Some b" "sp_type b = type"
      "sp_groups b = Some g" "g \<noteq> []"
    and del: "delete_managed_resource srv inst now kind type key w = Inr w1"
  shows "capture_pihole_snapshot srv kind type key (w_pihole w1) = None
    \<and> ((\<exists>w2 j. rollback_pihole_audit srv inst now' (w_audit_seq w1) w1 = (w2, Inr j) \<and>
          capture_pihole_snapshot srv kind type key (w_pihole w2) = Some b)
       \<or> (\<exists>x body. srv_add srv (endpoint_of kind) type key body (w_pihole w1) = Inl x \<and>
          snd (rollback_pihole_audit srv inst now' (w_audit_seq w1) w1) = Inl x))"
proof -
  obtain e where wf1: "audit_wf w1" and e: "get_pihole_audit_entry (w_audit_seq w1) w1 = Some e"
    and p1: "srv_delete srv (endpoint_of kind) type key (w_pihole w) = Inr (w_pihole w1)"
    and f: "ae_operation e = ''delete''" "ae_resource_kind e = kind" "ae_resource_type e = type"
      "ae_resource_key e = key" "ae_before e = Some (normalize_snapshot type key b)"
    and allowed: "rollback_allowed srv inst e (w_pihole w1)"
    by (rule delete_logged [OF laws res wf before(1) del])
  have norm_b: "normalize_snapshot type key b = b" by (rule capture_is_normal(1) [OF res before(1,2)])
  define bk where "bk = \<lparr>ab_comment = (if sp_comment b = [] then None else Some (sp_comment b)),
    ab_groups = normalize_groups g, ab_enabled = sp_enabled b\<rparr>"
  have app: "apply_rollback srv e (w_pihole w1) = srv_add srv (endpoint_of kind) type key bk (w_pihole w1)"
    by (simp add: apply_rollback_def client_add_def Let_def f norm_b before(3) bk_def)
  have gone: "capture_pihole_snapshot srv kind type key (w_pihole w1) = None"
    by (rule capture_after_delete [OF laws res p1])
  show ?thesis
  proof (cases "srv_add srv (endpoint_of kind) type key bk (w_pihole w1)")
    case (Inl y)
    with rollback_failed [OF e allowed] app gone show ?thesis by auto
  next
    case (Inr p2)
    from rollback_done [OF e allowed _ wf1] app Inr obtain w2 j
      where "rollback_pihole_audit srv inst now' (w_audit_seq w1) w1 = (w2, Inr j)" "w_pihole w2 = p2"
      by metis
    moreover have "capture_pihole_snapshot srv kind type key p2 = Some b"
      by (rule rewrite_snapshot [OF laws res before bk_def disjI1, OF Inr])
    ultimately show ?thesis using gone by blast
  qed
qed

theorem delete_rollback_restores_witness:
  "\<exists>w1. delete_managed_resource ref_server ex_inst 5 ''exact_domain'' ''deny'' ''ads.example'' ex_world = Inr w1 \<and>
     capture_pihole_snapshot ref_server ''exact_domain'' ''deny'' ''ads.example'' (w_pihole w1) = None"
proof -
  obtain w1 where d: "delete_managed_resource ref_server ex_inst 5 ''exact_domain'' ''deny'' ''ads.example'' ex_world = Inr w1"
    by (simp add: delete_managed_resource_def ref_server_def Let_def)
  from delete_rollback_restores [OF ref_server_laws ex_resource ex_wf ex_capture _ _ _ d] d show ?thesis by auto
qed

text \<open>C9. A refused rollback changes nothing, neither on the server nor in the log; entries that were
  rolled back, are not reversible, belong to another instance or whose resource has changed since
  are refused. In particular a successful rollback cannot be repeated.\<close>

theorem rollback_refusals:
  assumes "get_pihole_audit_entry i w = Some e" and "audit_wf w"
  shows "(\<not> rollback_allowed srv inst e (w_pihole w) \<longrightarrow>
      (\<exists>m. rollback_pihole_audit srv inst now i w = (w, Inl (RuntimeError m))))
    \<and> (\<forall>w' j. rollback_pihole_audit srv inst now i w = (w', Inr j) \<longrightarrow>
      (\<forall>inst' now'. \<exists>m. rollback_pihole_audit srv inst' now' i w' = (w', Inl (RuntimeError m))))"
proof (intro conjI impI allI)
  assume "\<not> rollback_allowed srv inst e (w_pihole w)"
  then show "\<exists>m. rollback_pihole_audit srv inst now i w = (w, Inl (RuntimeError m))"
    by (rule rollback_refused [OF assms(1)])
next
  fix w' j inst' now'
  assume fin: "rollback_pihole_audit srv inst now i w = (w', Inr j)"
  then have allowed: "rollback_allowed srv inst e (w_pihole w)"
    using rollback_refused [OF assms(1)] by (metis Inl_Inr_False Pair_inject)
  obtain p' where "apply_rollback srv e (w_pihole w) = Inr p'"
    using rollback_failed [OF assms(1) allowed] fin
    by (cases "apply_rollback srv e (w_pihole w)") auto
  from rollback_done [OF assms(1) allowed this assms(2), of now] fin
  have "get_pihole_audit_entry i w' = Some (e\<lparr>ae_rolled_back_at := Some now, ae_rollback_error := []\<rparr>)" by auto
  then show "\<exists>m. rollback_pihole_audit srv inst' now' i w' = (w', Inl (RuntimeError m))"
    by (rule rollback_refused) (simp add: rollback_allowed_def)
qed

theorem rollback_refusals_witness:
  "\<exists>m. rollback_pihole_audit ref_server (''i2'', ''cabin'', ''http://cabin'') 6 1 ex_updated =
     (ex_updated, Inl (RuntimeError m))"
proof -
  have "\<exists>e. get_pihole_audit_entry 1 ex_updated = Some e \<and> ae_instance_id e = ''i1''"
  proof -
    have "map_option ae_instance_id (get_pihole_audit_entry 1 ex_updated) = Some ''i1''" by code_simp
    then show ?thesis by auto
  qed
  then obtain e where e: "get_pihole_audit_entry 1 ex_updated = Some e" "ae_instance_id e = ''i1''" by blast
  have wf: "audit_wf ex_updated" by code_simp
  have "\<not> rollback_allowed ref_server (''i2'', ''cabin'', ''http://cabin'') e (w_pihole ex_updated)"
    using e(2) by (simp add: rollback_allowed_def)
  with rollback_refusals [OF e(1) wf] show ?thesis by blast
qed

end
