(* ===== verification/Policy_Engine.thy ===== *)
theory Policy_Engine
  imports Pihole
begin

text \<open>
  The automatic decision and its execution, \<open>workers.py\<close>: \<open>resolve_automatic_decision\<close>, the recheck
  interval, the review priority and \<open>Classifier._handle_classification\<close>.
  The handler runs several transactions and may raise between them, so it returns the world it leaves
  behind together with its result. Desktop and push notifications are not modelled.
\<close>

section \<open>The decision\<close>

record llm_options =
  lo_enabled :: bool
  lo_automation_mode :: string
  lo_simulation_mode :: bool
  lo_auto_action_min_confidence :: pyfloat
  lo_require_research_for_auto_action :: bool
  lo_tag_policies :: "(string, string) dict"
  lo_tag_recheck_days :: "(string, int) dict"
  lo_default_recheck_days :: int
  lo_worker_batch_size :: int

record automatic_decision =
  ad_action :: "policy option"
  ad_review_reason :: string

definition automation_mode_or_hybrid :: "string \<Rightarrow> automation_mode" where
  "automation_mode_or_hybrid v = (case automation_mode_of v of Some m \<Rightarrow> m | None \<Rightarrow> Mode_HYBRID)"

definition no_action :: "string \<Rightarrow> automatic_decision" where
  "no_action reason = \<lparr>ad_action = None, ad_review_reason = reason\<rparr>"

definition take_action :: "policy \<Rightarrow> automatic_decision" where
  "take_action p = \<lparr>ad_action = Some p, ad_review_reason = []\<rparr>"

definition tag_policy :: "llm_options \<Rightarrow> string \<Rightarrow> string" where
  "tag_policy opts tag = (case map_of (lo_tag_policies opts) tag of Some p \<Rightarrow> p | None \<Rightarrow> ''manual_review'')"

text \<open>The last part of the function: the tags' policies decide.\<close>

definition decide_by_tags :: "llm_options \<Rightarrow> automation_mode \<Rightarrow> int \<Rightarrow> classification \<Rightarrow> automatic_decision" where
  "decide_by_tags opts mode evidence_count c =
     (let by_tag = map (\<lambda>t. (t, tag_policy opts t)) (fromkeys (tags_or_category c));
          invalid = map fst (filter (\<lambda>(t, p). p \<notin> {''allow'', ''deny'', ''manual_review''}) by_tag);
          manual = map fst (filter (\<lambda>(t, p). p = ''manual_review'') by_tag);
          actionable = fromkeys (map snd by_tag)
      in if invalid \<noteq> []
         then no_action (''Invalid default policy for tag(s): '' @ py_join '', '' (sort invalid))
         else if manual \<noteq> []
         then no_action (''Manual review is required by tag policy: '' @ py_join '', '' (sort manual))
         else case actionable of
           [p] \<Rightarrow>
             (case policy_of p of
                None \<Rightarrow> no_action []
              | Some tp \<Rightarrow>
                  if lo_require_research_for_auto_action opts \<and> evidence_count \<le> 0
                  then no_action ''No decision-relevant structured evidence is available for an automatic Pi-hole change.''
                  else if mode = Mode_AUTO then take_action tp
                  else if c_policy c = tp then take_action tp
                  else no_action ''The model recommendation does not match the configured tag policy.'')
         | _ \<Rightarrow> no_action (''Tag policies conflict and no automatic action is safe: '' @
             py_join '', '' (map (\<lambda>(t, p). t @ ''='' @ p) (sort by_tag))))"

definition resolve_automatic_decision :: "llm_options \<Rightarrow> int \<Rightarrow> classification \<Rightarrow> automatic_decision" where
  "resolve_automatic_decision opts evidence_count c =
     (let mode = automation_mode_or_hybrid (lo_automation_mode opts) in
      if mode = Mode_MANUAL then no_action []
      else if c_needs_review c
      then no_action (str_or (c_review_reason c) ''The model marked the result for manual review.'')
      else if c_confidence c < lo_auto_action_min_confidence opts then no_action []
      else if c_service_role c \<in> {Role_CORE, Role_SHARED}
      then no_action ''Core or shared service infrastructure must be reviewed manually.''
      else if 50 \<le> c_breakage_risk c
      then no_action ''Breakage risk is too high for an automatic Pi-hole change.''
      else decide_by_tags opts mode evidence_count c)"

definition apply_manual_tag_override :: "classification \<Rightarrow> db \<Rightarrow> classification" where
  "apply_manual_tag_override c s =
     (let override_tags = manual_tags (c_domain c) s
      in if override_tags = [] then c else c\<lparr>c_tags := override_tags\<rparr>)"

definition configured_recheck_days :: "llm_options \<Rightarrow> classification \<Rightarrow> int" where
  "configured_recheck_days opts c =
     (let suggested = max 1 (if c_recheck_after_days c = 0 then lo_default_recheck_days opts else c_recheck_after_days c);
          configured = List.map_filter (map_of (lo_tag_recheck_days opts)) (fromkeys (tags_or_category c))
      in if configured \<noteq> [] then min suggested (max 1 (py_min 0 configured)) else suggested)"

definition review_priority_for :: "classification \<Rightarrow> review_priority" where
  "review_priority_for c =
     (if 80 \<le> c_security_risk c then Prio_CRITICAL
      else if 70 \<le> c_breakage_risk c \<or> c_service_role c = Role_CORE then Prio_HIGH
      else if c_confidence c < 1 / 2 then Prio_HIGH
      else Prio_NORMAL)"

section \<open>Handling one classification\<close>

record 'p handler_env =
  he_srv :: "'p pihole_server"
  he_inst :: instance_ctx
  he_profiles :: "compatibility_profile list"
  he_llm :: llm_options
  he_now :: int

record provider_ref =
  pv_provider_id :: string
  pv_model :: string

text \<open>A step that may raise after it changed the world, and running one transaction of the store.\<close>

type_synonym ('p, 'a) step = "'p world \<Rightarrow> 'p world \<times> (exn + 'a)"

definition then_do :: "('p, 'a) step \<Rightarrow> ('a \<Rightarrow> ('p, 'b) step) \<Rightarrow> ('p, 'b) step" where
  "then_do f g w = (case f w of (w1, Inl e) \<Rightarrow> (w1, Inl e) | (w1, Inr x) \<Rightarrow> g x w1)"

definition on_db :: "(db \<Rightarrow> exn + db) \<Rightarrow> ('p, unit) step" where
  "on_db f w = (case f (w_db w) of Inl e \<Rightarrow> (w, Inl e) | Inr s \<Rightarrow> (w\<lparr>w_db := s\<rparr>, Inr ()))"

definition skip :: "('p, unit) step" where
  "skip w = (w, Inr ())"

definition new_task :: "'p handler_env \<Rightarrow> string \<Rightarrow> string \<Rightarrow> review_priority \<Rightarrow> string \<Rightarrow> ('p, unit) step" where
  "new_task env domain reason priority source =
     on_db (\<lambda>s. map_sum id fst (create_review_task domain reason (review_priority_value priority) source (he_now env) s))"

definition prepare_classification ::
  "'p handler_env \<Rightarrow> string \<Rightarrow> classification \<Rightarrow> db \<Rightarrow> classification" where
  "prepare_classification env queue_source c s =
     (let manual = py_startswith ''manual_'' queue_source in
      apply_compatibility_profile
        (c\<lparr>c_recheck_after_days := configured_recheck_days (he_llm env) c,
           c_needs_review := (c_needs_review c \<or> manual),
           c_review_reason := str_or (c_review_reason c) (if manual then ''Manually queued for review.'' else [])\<rparr>)
        (he_profiles env) s)"

definition action_name :: "policy \<Rightarrow> string" where
  "action_name p = (if p = Policy_ALLOW then ''whitelist'' else ''blacklist'')"

text \<open>Executing the action: simulated, or written to Pi-hole. The result is \<open>status\<close>,
  \<open>planned_action\<close> and \<open>action_status\<close>.\<close>

definition execute_action ::
  "'p handler_env \<Rightarrow> classification \<Rightarrow> string \<Rightarrow> policy option \<Rightarrow> ('p, string \<times> string \<times> string) step" where
  "execute_action env c status action w =
     (case action of
        None \<Rightarrow> (w, Inr (status, [], ''none''))
      | Some p \<Rightarrow>
          if lo_simulation_mode (he_llm env)
          then then_do (new_task env (c_domain c)
                  (''Simulation mode: automatic '' @ action_name p @ '' would have been applied.'')
                  Prio_NORMAL ''simulation'')
                (\<lambda>_ w. (w, Inr (''simulation_'' @ policy_value p, policy_value p, ''simulated''))) w
          else (case add_exact_domain (he_srv env) (he_inst env) (he_profiles env) (he_now env)
                       (c_domain c) (policy_value p) (c_short c) False w of
                  Inl e \<Rightarrow> (w, Inl e)
                | Inr w' \<Rightarrow> (w', Inr (''auto_'' @ policy_value p, policy_value p, ''applied''))))"

definition handler_run_options ::
  "provider_ref \<Rightarrow> string \<Rightarrow> run_context \<Rightarrow> string \<Rightarrow> string \<Rightarrow> string \<Rightarrow> run_options" where
  "handler_run_options provider profile_name ctx status planned action_status =
     \<lparr>ro_provider_id = pv_provider_id provider, ro_model = str_or (rc_model ctx) (pv_model provider),
      ro_profile = str_or (rc_profile ctx) profile_name, ro_prompt_hash = rc_prompt_hash ctx,
      ro_status = status, ro_planned_action = planned, ro_action_status = action_status,
      ro_analysis_run_id = rc_analysis_run_id ctx, ro_pool_id = rc_pool_id ctx,
      ro_pool_mode = rc_pool_mode ctx, ro_is_primary = rc_is_primary ctx, ro_latency_ms = rc_latency_ms ctx,
      ro_input_tokens = pu_input_tokens (rc_usage ctx), ro_output_tokens = pu_output_tokens (rc_usage ctx),
      ro_update_current = True\<rparr>"

definition lock_conflicts :: "lock_row option \<Rightarrow> policy option \<Rightarrow> bool" where
  "lock_conflicts lock action =
     (case (lock, action) of (Some l, Some p) \<Rightarrow> l_list_type l \<noteq> policy_value p | _ \<Rightarrow> False)"

definition task_if ::
  "bool \<Rightarrow> 'p handler_env \<Rightarrow> string \<Rightarrow> string \<Rightarrow> review_priority \<Rightarrow> string \<Rightarrow> ('p, unit) step" where
  "task_if b env domain reason priority source = (if b then new_task env domain reason priority source else skip)"

text \<open>The part after the action: the review task of the model and the saved result.\<close>

definition finish_classification ::
  "'p handler_env \<Rightarrow> provider_ref \<Rightarrow> string \<Rightarrow> run_context \<Rightarrow> classification \<Rightarrow>
    string \<times> string \<times> string \<Rightarrow> ('p, unit) step" where
  "finish_classification env provider profile_name ctx c outcome =
     (case outcome of (status, planned, action_status) \<Rightarrow>
      then_do (task_if (c_needs_review c \<or> c_policy c \<in> {Policy_MANUAL_REVIEW, Policy_UNKNOWN}) env (c_domain c)
          (str_or (c_review_reason c) ''The classification requires manual review.'') (review_priority_for c) ''llm'')
      (\<lambda>_. on_db (review_save_classification c
         (handler_run_options provider profile_name ctx status planned action_status) (he_now env))))"

definition handle_classification ::
  "'p handler_env \<Rightarrow> provider_ref \<Rightarrow> string \<Rightarrow> run_context \<Rightarrow> string \<Rightarrow> int \<Rightarrow> classification \<Rightarrow> ('p, unit) step" where
  "handle_classification env provider profile_name ctx queue_source evidence_count c0 w0 =
     (let c = prepare_classification env queue_source c0 (w_db w0);
          decision = resolve_automatic_decision (he_llm env) evidence_count (apply_manual_tag_override c (w_db w0));
          lock = get_domain_lock (c_domain c) (w_db w0);
          conflict = lock_conflicts lock (ad_action decision);
          action = (if conflict then None else ad_action decision);
          status0 = (if conflict then ''locked_conflict'' else ''classified'')
      in then_do (task_if (ad_review_reason decision \<noteq> []) env (c_domain c) (ad_review_reason decision)
                    (review_priority_for c) ''policy'')
         (\<lambda>_. then_do (task_if conflict env (c_domain c)
                    ''Automatic recommendation conflicts with a protected list entry.'' Prio_CRITICAL ''lock_conflict'')
         (\<lambda>_. then_do (execute_action env c status0 action)
         (finish_classification env provider profile_name ctx c))) w0)"

section \<open>When an action is automatic\<close>

lemma tags_or_category_nonempty: "fromkeys (tags_or_category c) \<noteq> []"
  by (simp add: tags_or_category_def)

lemma fromkeys_const: "xs \<noteq> [] \<Longrightarrow> \<forall>x\<in>set xs. x = a \<Longrightarrow> fromkeys xs = [a]"
proof -
  assume "xs \<noteq> []" "\<forall>x\<in>set xs. x = a"
  then have "set (fromkeys xs) = {a}" by (cases xs) auto
  then show ?thesis by (metis distinct_fromkeys distinct_length_2_or_more list.exhaust list.set_intros insertI1
        set_ConsD empty_iff insert_iff list.set(1) singletonD)
qed

lemma policy_of_values [simp]: "policy_of ''allow'' = Some Policy_ALLOW" "policy_of ''deny'' = Some Policy_DENY"
  by code_simp+

text \<open>The tag stage acts exactly when all tags are configured with the same policy allow or deny.\<close>

lemma decide_by_tags_action:
  "ad_action (decide_by_tags opts mode n c) = Some p \<longleftrightarrow>
     p \<in> {Policy_ALLOW, Policy_DENY} \<and> (\<forall>t\<in>set (tags_or_category c). tag_policy opts t = policy_value p) \<and>
     (lo_require_research_for_auto_action opts \<longrightarrow> 0 < n) \<and> (mode = Mode_AUTO \<or> c_policy c = p)"
  (is "?lhs \<longleftrightarrow> ?rhs")
proof -
  let ?tags = "fromkeys (tags_or_category c)"
  let ?by = "map (\<lambda>t. (t, tag_policy opts t)) ?tags"
  let ?inv = "filter (\<lambda>(t, p). p \<notin> {''allow'', ''deny'', ''manual_review''}) ?by"
  let ?man = "filter (\<lambda>(t, p). p = ''manual_review'') ?by"
  have ne: "map (tag_policy opts) ?tags \<noteq> []" using tags_or_category_nonempty by simp
  show ?thesis
  proof
    assume ?lhs
    then have inv: "?inv = []" and man: "?man = []"
      by (auto simp: decide_by_tags_def Let_def no_action_def split: if_splits)
    from \<open>?lhs\<close> obtain q where q: "fromkeys (map (tag_policy opts) ?tags) = [q]"
      by (auto simp: decide_by_tags_def Let_def no_action_def comp_def split: if_splits list.splits)
    then have all: "\<forall>t\<in>set (tags_or_category c). tag_policy opts t = q"
      by (metis image_eqI list.set_map list.set(1,2) set_fromkeys singletonD)
    obtain t where t: "t \<in> set (tags_or_category c)" using tags_or_category_nonempty [of c] by (metis fromkeys_eq_Nil last_in_set)
    with inv man all have "q = ''allow'' \<or> q = ''deny''" by (fastforce simp: filter_empty_conv)
    with \<open>?lhs\<close> inv man q all show ?rhs
      by (auto simp: decide_by_tags_def Let_def no_action_def take_action_def comp_def split: if_splits)
  next
    assume r: ?rhs
    then have pv: "policy_value p = ''allow'' \<or> policy_value p = ''deny''" by auto
    have "fromkeys (map (tag_policy opts) ?tags) = [policy_value p]"
      using r ne by (intro fromkeys_const) auto
    moreover have "?inv = []" "?man = []" using r pv by (auto simp: filter_empty_conv)
    ultimately show ?lhs
      using r by (auto simp: decide_by_tags_def Let_def take_action_def no_action_def comp_def)
  qed
qed

section \<open>The handler touches Pi-hole only through the guarded add\<close>

lemma new_task_frame: "w_pihole (fst (new_task env d r p src w)) = w_pihole w"
  by (simp add: new_task_def on_db_def split: sum.split)

lemma skip_frame: "w_pihole (fst (skip w)) = w_pihole w"
  by (simp add: skip_def)

lemma on_db_frame: "w_pihole (fst (on_db f w)) = w_pihole w"
  by (simp add: on_db_def split: sum.split)

lemma then_do_pihole:
  assumes "w_pihole (fst (f w)) = w_pihole w" and "\<And>x w1. w_pihole w1 = w_pihole w \<Longrightarrow> w_pihole (fst (g x w1)) = w_pihole w"
  shows "w_pihole (fst (then_do f g w)) = w_pihole w"
  using assms by (auto simp: then_do_def split: prod.splits sum.splits)

lemma execute_action_pihole:
  assumes "action = None \<or> lo_simulation_mode (he_llm env)"
  shows "w_pihole (fst (execute_action env c st action w)) = w_pihole w"
  using assms by (auto simp: execute_action_def intro!: then_do_pihole new_task_frame split: option.split)

text \<open>The only way to a changed Pi-hole is a successful guarded add of a decided action.\<close>

lemma execute_action_changes:
  assumes "w_pihole (fst (execute_action env c st action w)) \<noteq> w_pihole w"
  obtains p w' where "action = Some p" "\<not> lo_simulation_mode (he_llm env)"
    "add_exact_domain (he_srv env) (he_inst env) (he_profiles env) (he_now env)
       (c_domain c) (policy_value p) (c_short c) False w = Inr w'"
    "fst (execute_action env c st action w) = w'"
proof -
  from assms have "\<not> (action = None \<or> lo_simulation_mode (he_llm env))"
    using execute_action_pihole [of action env c st w] by argo
  then have sim: "\<not> lo_simulation_mode (he_llm env)" and "action \<noteq> None" by simp_all
  then obtain p where p: "action = Some p" by blast
  show ?thesis
  proof (cases "add_exact_domain (he_srv env) (he_inst env) (he_profiles env) (he_now env)
       (c_domain c) (policy_value p) (c_short c) False w")
    case (Inl e)
    with assms sim p show ?thesis by (simp add: execute_action_def)
  next
    case (Inr w')
    with sim p show ?thesis by (intro that) (simp_all add: execute_action_def)
  qed
qed

lemma then_do_changes:
  assumes "w_pihole (fst (then_do f g w)) \<noteq> w_pihole w" and "w_pihole (fst (f w)) = w_pihole w"
  obtains x w1 where "f w = (w1, Inr x)" "w_pihole w1 = w_pihole w" "w_pihole (fst (g x w1)) \<noteq> w_pihole w1"
    "then_do f g w = g x w1"
  using assms by (auto simp: then_do_def split: prod.splits sum.splits)

lemma task_if_frame:
  "w_pihole (fst (task_if b env d r p src w)) = w_pihole w"
  "t_locks (w_db (fst (task_if b env d r p src w))) = t_locks (w_db w)"
  by (auto simp: task_if_def new_task_def skip_def on_db_def create_review_task_def Let_def
      dest!: ensure_domain_frame(7) split: sum.splits option.splits)

lemma finish_frame: "w_pihole (fst (finish_classification env pv pn ctx c x w)) = w_pihole w"
  by (cases x rule: prod_cases3)
    (auto simp: finish_classification_def on_db_frame task_if_frame intro!: then_do_pihole)

lemma handle_classification_changes:
  assumes "w_pihole (fst (handle_classification env pv pn ctx src n c0 w0)) \<noteq> w_pihole w0"
    and c: "c = prepare_classification env src c0 (w_db w0)"
    and dec: "decision = resolve_automatic_decision (he_llm env) n (apply_manual_tag_override c (w_db w0))"
  obtains p w w' where "ad_action decision = Some p" "\<not> lo_simulation_mode (he_llm env)"
    "\<not> lock_conflicts (get_domain_lock (c_domain c) (w_db w0)) (Some p)"
    "w_pihole w = w_pihole w0" "t_locks (w_db w) = t_locks (w_db w0)"
    "add_exact_domain (he_srv env) (he_inst env) (he_profiles env) (he_now env)
       (c_domain c) (policy_value p) (c_short c) False w = Inr w'"
proof -
  let ?conf = "lock_conflicts (get_domain_lock (c_domain c) (w_db w0)) (ad_action decision)"
  let ?act = "if ?conf then None else ad_action decision"
  let ?st = "if ?conf then ''locked_conflict'' else ''classified''"
  let ?f1 = "task_if (ad_review_reason decision \<noteq> []) env (c_domain c) (ad_review_reason decision)
    (review_priority_for c) ''policy''"
  let ?f2 = "task_if ?conf env (c_domain c) ''Automatic recommendation conflicts with a protected list entry.''
    Prio_CRITICAL ''lock_conflict''"
  let ?g = "finish_classification env pv pn ctx c"
  have h: "handle_classification env pv pn ctx src n c0 w0 =
      then_do ?f1 (\<lambda>_. then_do ?f2 (\<lambda>_. then_do (execute_action env c ?st ?act) ?g)) w0"
    by (simp add: handle_classification_def c dec Let_def)
  obtain x1 w1 where 1: "?f1 w0 = (w1, Inr x1)" "w_pihole w1 = w_pihole w0"
      "w_pihole (fst (then_do ?f2 (\<lambda>_. then_do (execute_action env c ?st ?act) ?g) w1)) \<noteq> w_pihole w1"
    using assms(1) unfolding h by (rule then_do_changes) (rule task_if_frame, blast)
  obtain x2 w2 where 2: "?f2 w1 = (w2, Inr x2)" "w_pihole w2 = w_pihole w1"
      "w_pihole (fst (then_do (execute_action env c ?st ?act) ?g w2)) \<noteq> w_pihole w2"
    using 1(3) by (rule then_do_changes) (rule task_if_frame, blast)
  have "t_locks (w_db w2) = t_locks (w_db w0)" by (metis 1(1) 2(1) fst_conv task_if_frame(2))
  moreover have "w_pihole (fst (execute_action env c ?st ?act w2)) \<noteq> w_pihole w2"
    using 2(3) then_do_pihole [of "execute_action env c ?st ?act" w2 ?g] by (auto simp: finish_frame)
  then obtain p w' where p: "?act = Some p" "\<not> lo_simulation_mode (he_llm env)"
      "add_exact_domain (he_srv env) (he_inst env) (he_profiles env) (he_now env)
         (c_domain c) (policy_value p) (c_short c) False w2 = Inr w'"
    by (rule execute_action_changes)
  then have "\<not> ?conf" "ad_action decision = Some p" by (auto split: if_splits)
  ultimately show ?thesis using p 1(2) 2(2) by (intro that) simp_all
qed

section \<open>The handler keeps the store well-formed\<close>

lemma then_do_db:
  assumes "P (w_db w)" and "\<And>w. P (w_db w) \<Longrightarrow> P (w_db (fst (f w)))"
    and "\<And>x w. P (w_db w) \<Longrightarrow> P (w_db (fst (g x w)))"
  shows "P (w_db (fst (then_do f g w)))"
proof -
  obtain w1 r where f: "f w = (w1, r)" by fastforce
  with assms(1,2) have "P (w_db w1)" by (metis fst_conv)
  with f assms(3) show ?thesis by (simp add: then_do_def split: sum.split)
qed

lemma on_db_ok:
  "db_ok (w_db w) \<Longrightarrow> (\<And>s s'. db_ok s \<Longrightarrow> f s = Inr s' \<Longrightarrow> db_ok s') \<Longrightarrow> db_ok (w_db (fst (on_db f w)))"
  by (auto simp: on_db_def split: sum.split)

lemma task_if_ok: "db_ok (w_db w) \<Longrightarrow> db_ok (w_db (fst (task_if b env d r p src w)))"
  by (auto simp: task_if_def skip_def new_task_def intro!: on_db_ok)
    (auto simp: map_sum_def id_def split: sum.splits dest: create_review_task_ok)

lemma execute_action_ok:
  assumes "db_ok (w_db w)"
  shows "db_ok (w_db (fst (execute_action env c st action w)))"
proof (cases action)
  case None
  with assms show ?thesis by (simp add: execute_action_def)
next
  case (Some p)
  have "db_ok (w_db (fst (new_task env d r pr src w)))" for d r pr src
    using task_if_ok [OF assms, of True env d r pr src] by (simp add: task_if_def)
  then have "db_ok (w_db (fst (then_do (new_task env d r pr src) (\<lambda>_ w. (w, Inr y)) w)))" for d r pr src and y :: "string \<times> string \<times> string"
    by (simp add: then_do_def split: prod.split sum.split) (metis fst_conv)
  with assms Some show ?thesis
    by (auto simp: execute_action_def dest: add_exact_domain_Inr split: sum.split)
qed

lemma review_save_classification_ok:
  "db_ok s \<Longrightarrow> review_save_classification c opts now s = Inr s' \<Longrightarrow> db_ok s'"
  by (auto simp: review_save_classification_def map_sum_def split: sum.splits dest: save_classification_run_ok)

lemma finish_ok: "db_ok (w_db w) \<Longrightarrow> db_ok (w_db (fst (finish_classification env pv pn ctx c x w)))"
  unfolding finish_classification_def
  by (cases x rule: prod_cases3, simp only: prod.case)
    (rule then_do_db, assumption, erule task_if_ok, erule on_db_ok, erule review_save_classification_ok)

lemma handle_classification_ok:
  assumes "db_ok (w_db w)"
  shows "db_ok (w_db (fst (handle_classification env pv pn ctx src n c w)))"
  unfolding handle_classification_def Let_def
  using assms by (intro then_do_db [where P = db_ok] task_if_ok execute_action_ok finish_ok)

section \<open>The history grows by the handled result only\<close>

lemma then_do_cases:
  assumes "then_do f g w = (w', r)"
  obtains e where "f w = (w', Inl e)" "r = Inl e" | x w1 where "f w = (w1, Inr x)" "g x w1 = (w', r)"
  using assms by (auto simp: then_do_def split: prod.splits sum.splits)

lemma runs_task_if: "t_runs (w_db (fst (task_if b env d r p src w))) = t_runs (w_db w)"
  by (auto simp: task_if_def new_task_def skip_def on_db_def create_review_task_def Let_def
      dest!: ensure_domain_frame(5) split: sum.splits option.splits)

lemma runs_execute: "t_runs (w_db (fst (execute_action env c st action w))) = t_runs (w_db w)"
proof (cases action)
  case None
  then show ?thesis by (simp add: execute_action_def)
next
  case (Some p)
  have "t_runs (w_db (fst (new_task env d r pr src w))) = t_runs (w_db w)" for d r pr src
    using runs_task_if [of True env d r pr src w] by (simp add: task_if_def)
  then have "t_runs (w_db (fst (then_do (new_task env d r pr src) (\<lambda>_ w. (w, Inr y)) w))) = t_runs (w_db w)"
    for d r pr src and y :: "string \<times> string \<times> string"
    by (simp add: then_do_def split: prod.split sum.split) (metis fst_conv)
  with Some show ?thesis
    by (auto simp: execute_action_def dest: add_exact_domain_Inr split: sum.split)
qed

lemma runs_save:
  assumes "review_save_classification c opts now s = Inr s'"
  shows "\<exists>i. t_runs s' = t_runs s @ [run_row_of i (normalize_domain (c_domain c)) c opts now]"
proof -
  from assms obtain i where run: "save_classification_run c opts now s = Inr (s', i)"
    by (auto simp: review_save_classification_def map_sum_def split: sum.splits)
  then show ?thesis
  proof (cases rule: save_classification_run_cases)
    case (1 n s1)
    then show ?thesis using ensure_domain_frame(5) [OF 1(1)] ensure_domain_Inr(1) [OF 1(1)] by auto
  next
    case (2 n s1 s3 s4)
    from save_run_current(1) [OF 2(1,4,5,6)] ensure_domain_frame(5) [OF 2(1)] ensure_domain_Inr(1) [OF 2(1)]
    show ?thesis by auto
  qed
qed

lemma runs_finish:
  assumes "finish_classification env pv pn ctx c x w = (w', r)"
  shows "(r = Inr () \<longrightarrow> (\<exists>i opts. t_runs (w_db w') = t_runs (w_db w) @
         [run_row_of i (normalize_domain (c_domain c)) c opts (he_now env)])) \<and>
    (\<forall>e. r = Inl e \<longrightarrow> t_runs (w_db w') = t_runs (w_db w))"
proof -
  obtain a b d where x: "x = (a, b, d)" by (cases x rule: prod_cases3)
  from assms show ?thesis
    unfolding finish_classification_def x prod.case
  proof (cases rule: then_do_cases)
    case (1 e)
    then show ?thesis by (metis Inl_Inr_False fst_conv runs_task_if)
  next
    case (2 y w1)
    have "t_runs (w_db w1) = t_runs (w_db w)" by (metis 2(1) fst_conv runs_task_if)
    with 2(2) show ?thesis
      by (auto simp: on_db_def split: sum.splits dest!: runs_save) blast
  qed
qed

lemma handle_classification_runs:
  assumes "handle_classification env pv pn ctx src n c0 w = (w', r)"
  shows "(r = Inr () \<longrightarrow> (\<exists>i opts. t_runs (w_db w') = t_runs (w_db w) @
         [run_row_of i (normalize_domain (c_domain c0)) (prepare_classification env src c0 (w_db w)) opts (he_now env)]))
    \<and> (\<forall>e. r = Inl e \<longrightarrow> t_runs (w_db w') = t_runs (w_db w))"
proof -
  let ?c = "prepare_classification env src c0 (w_db w)"
  have dom: "c_domain ?c = c_domain c0"
    by (simp add: prepare_classification_def Let_def apply_profile_fields)
  from assms show ?thesis unfolding handle_classification_def Let_def
  proof (cases rule: then_do_cases)
    case (1 e)
    then show ?thesis by (metis Inl_Inr_False fst_conv runs_task_if)
  next
    case 2: (2 x w1)
    have r1: "t_runs (w_db w1) = t_runs (w_db w)" by (metis 2(1) fst_conv runs_task_if)
    from 2(2) show ?thesis
    proof (cases rule: then_do_cases)
      case (1 e)
      then show ?thesis by (metis Inl_Inr_False fst_conv runs_task_if r1)
    next
      case 3: (2 y w2)
      have r2: "t_runs (w_db w2) = t_runs (w_db w)" by (metis 3(1) fst_conv runs_task_if r1)
      from 3(2) show ?thesis
      proof (cases rule: then_do_cases)
        case (1 e)
        then show ?thesis by (metis Inl_Inr_False fst_conv runs_execute r2)
      next
        case 4: (2 z w3)
        have "t_runs (w_db w3) = t_runs (w_db w)" by (metis 4(1) fst_conv runs_execute r2)
        with runs_finish [OF 4(2)] dom show ?thesis by simp
      qed
    qed
  qed
qed

section \<open>Properties of the policy engine\<close>

text \<open>C6. The exact condition for an automatic change: the mode is not manual, the result needs no review, its
  confidence reaches the configured minimum, the service is neither core nor shared, the breakage
  risk is below 50, every effective tag is configured with one and the same policy allow or deny,
  evidence is present when it is required, and outside fully automatic mode the model recommends that policy.\<close>

theorem automatic_action_iff:
  "ad_action (resolve_automatic_decision opts n c) = Some p \<longleftrightarrow>
     automation_mode_or_hybrid (lo_automation_mode opts) \<noteq> Mode_MANUAL \<and> \<not> c_needs_review c \<and>
     lo_auto_action_min_confidence opts \<le> c_confidence c \<and> c_service_role c \<notin> {Role_CORE, Role_SHARED} \<and>
     c_breakage_risk c < 50 \<and> p \<in> {Policy_ALLOW, Policy_DENY} \<and>
     (\<forall>t\<in>set (tags_or_category c). tag_policy opts t = policy_value p) \<and>
     (lo_require_research_for_auto_action opts \<longrightarrow> 0 < n) \<and>
     (automation_mode_or_hybrid (lo_automation_mode opts) = Mode_AUTO \<or> c_policy c = p)"
  unfolding resolve_automatic_decision_def Let_def
  using decide_by_tags_action [of opts "automation_mode_or_hybrid (lo_automation_mode opts)" n c p]
  by (simp add: no_action_def)

definition ex_llm :: llm_options where
  "ex_llm = \<lparr>lo_enabled = True, lo_automation_mode = ''hybrid'', lo_simulation_mode = False,
     lo_auto_action_min_confidence = 4 / 5, lo_require_research_for_auto_action = True,
     lo_tag_policies = [(''ads'', ''deny''), (''cdn'', ''allow'')], lo_tag_recheck_days = [(''ads'', 7)],
     lo_default_recheck_days = 30, lo_worker_batch_size = 25\<rparr>"

theorem automatic_action_iff_witness:
  "ad_action (resolve_automatic_decision ex_llm 1 ex_classification) = Some Policy_DENY \<and>
   c_breakage_risk ex_classification < 50"
proof -
  have "ad_action (resolve_automatic_decision ex_llm 1 ex_classification) = Some Policy_DENY" by code_simp
  with automatic_action_iff [of ex_llm 1 ex_classification Policy_DENY] show ?thesis by blast
qed

text \<open>C5. Pi-hole is only changed when everything allows it. If handling a classification changes Pi-hole
  at all, then simulation mode is off, the domain was not queued manually for review, the prepared
  result needs no review, its service is neither core nor shared and its breakage risk is below 50, a
  decided policy allow or deny is what the effective tags are configured with, no lock protects
  the domain in the other list, and a deny hits no compatibility profile.\<close>

theorem handler_changes_pihole_only_if_safe:
  assumes "w_pihole (fst (handle_classification env pv pn ctx src n c0 w)) \<noteq> w_pihole w"
  shows "\<not> lo_simulation_mode (he_llm env) \<and> \<not> py_startswith ''manual_'' src \<and> \<not> c_needs_review c0 \<and>
    (\<exists>p\<in>{Policy_ALLOW, Policy_DENY}.
      let c = prepare_classification env src c0 (w_db w);
          e = apply_manual_tag_override c (w_db w) in
      \<not> c_needs_review c \<and> c_service_role c \<notin> {Role_CORE, Role_SHARED} \<and> c_breakage_risk c < 50 \<and>
      lo_auto_action_min_confidence (he_llm env) \<le> c_confidence c0 \<and>
      (\<forall>t\<in>set (tags_or_category e). tag_policy (he_llm env) t = policy_value p) \<and>
      (\<forall>l. get_domain_lock (c_domain c0) (w_db w) = Some l \<longrightarrow> l_list_type l = policy_value p) \<and>
      (p = Policy_DENY \<longrightarrow> compatibility_match_for_domain (c_domain c0) (he_profiles env) = None))"
proof -
  define c where "c = prepare_classification env src c0 (w_db w)"
  define e where "e = apply_manual_tag_override c (w_db w)"
  define dec where "dec = resolve_automatic_decision (he_llm env) n e"
  obtain p v v' where p: "ad_action dec = Some p" and sim: "\<not> lo_simulation_mode (he_llm env)"
    and lock: "\<not> lock_conflicts (get_domain_lock (c_domain c) (w_db w)) (Some p)"
    and add: "add_exact_domain (he_srv env) (he_inst env) (he_profiles env) (he_now env)
       (c_domain c) (policy_value p) (c_short c) False v = Inr v'"
    by (rule handle_classification_changes [OF assms c_def dec_def [unfolded e_def]])
  have dom: "c_domain c = c_domain c0" "c_confidence c = c_confidence c0"
    by (simp_all add: c_def prepare_classification_def Let_def apply_profile_fields)
  have e: "c_needs_review e = c_needs_review c" "c_service_role e = c_service_role c"
      "c_breakage_risk e = c_breakage_risk c" "c_confidence e = c_confidence c"
    by (simp_all add: e_def apply_manual_tag_override_def Let_def)
  have "c_needs_review c0 \<or> py_startswith ''manual_'' src \<Longrightarrow> c_needs_review c"
    by (auto simp: c_def prepare_classification_def Let_def apply_compatibility_profile_def
        apply_behavior_change_guard_def apply_guard_report_fields enrich_fields split: option.split)
  moreover have acts: "\<not> c_needs_review e" "lo_auto_action_min_confidence (he_llm env) \<le> c_confidence e"
      "c_service_role e \<notin> {Role_CORE, Role_SHARED}" "c_breakage_risk e < 50"
      "ad_action (decide_by_tags (he_llm env) (automation_mode_or_hybrid (lo_automation_mode (he_llm env))) n e) = Some p"
    using p by (auto simp: dec_def resolve_automatic_decision_def Let_def no_action_def split: if_splits)
  moreover note decide_by_tags_action [THEN iffD1, OF acts(5)]
  moreover have "p = Policy_DENY \<longrightarrow> compatibility_match_for_domain (c_domain c) (he_profiles env) = None"
    using add_exact_domain_Inr [OF add] by auto
  ultimately show ?thesis
    using sim lock unfolding Let_def c_def [symmetric] e_def [symmetric] e dom lock_conflicts_def
    by (intro conjI bexI [of _ p]) (auto split: option.splits)
qed

definition ex_env :: "ref_state handler_env" where
  "ex_env = \<lparr>he_srv = ref_server, he_inst = ex_inst, he_profiles = [ex_profile], he_llm = ex_llm, he_now = 9\<rparr>"

definition ex_provider :: provider_ref where
  "ex_provider = \<lparr>pv_provider_id = ''p1'', pv_model = ''m''\<rparr>"

definition ex_context :: run_context where
  "ex_context = \<lparr>rc_analysis_run_id = ''r'', rc_pool_id = ''background'', rc_pool_mode = ''fallback'',
     rc_provider_id = ''p1'', rc_model = ''m'', rc_profile = ''f'', rc_prompt_hash = '''', rc_is_primary = True,
     rc_latency_ms = 5, rc_usage = no_usage\<rparr>"

theorem handler_changes_pihole_only_if_safe_witness:
  "w_pihole (fst (handle_classification ex_env ex_provider ''f'' ex_context ''live'' 1 ex_classification ex_world))
     \<noteq> w_pihole ex_world \<and> \<not> lo_simulation_mode (he_llm ex_env) \<and> \<not> py_startswith ''manual_'' ''live''"
proof -
  have "w_pihole (fst (handle_classification ex_env ex_provider ''f'' ex_context ''live'' 1 ex_classification ex_world))
     \<noteq> w_pihole ex_world"
    by code_simp
  with handler_changes_pihole_only_if_safe [OF this] show ?thesis by blast
qed

text \<open>Handling a classification keeps the store well-formed on every path, also when a step
  raises half-way; when it succeeds, exactly one history row is added and it carries the prepared
  classification; when it raises, no history row is added.\<close>

theorem handler_saves_once:
  assumes "db_ok (w_db w)" and "handle_classification env pv pn ctx src n c0 w = (w', r)"
  shows "db_ok (w_db w')
    \<and> (r = Inr () \<longrightarrow> (\<exists>i opts. t_runs (w_db w') = t_runs (w_db w) @
         [run_row_of i (normalize_domain (c_domain c0)) (prepare_classification env src c0 (w_db w)) opts (he_now env)]))
    \<and> (\<forall>e. r = Inl e \<longrightarrow> t_runs (w_db w') = t_runs (w_db w))"
  using handle_classification_runs [OF assms(2)] handle_classification_ok [OF assms(1), of env pv pn ctx src n c0] assms(2)
  by simp

theorem handler_saves_once_witness:
  "\<exists>w'. handle_classification ex_env ex_provider ''f'' ex_context ''live'' 1 ex_classification ex_world = (w', Inr ()) \<and>
     db_ok (w_db w') \<and> length (t_runs (w_db w')) = 1"
proof -
  obtain w' r where h: "handle_classification ex_env ex_provider ''f'' ex_context ''live'' 1 ex_classification ex_world = (w', r)"
    by fastforce
  have "snd (handle_classification ex_env ex_provider ''f'' ex_context ''live'' 1 ex_classification ex_world) = Inr ()"
    and n: "t_runs (w_db ex_world) = []"
    by code_simp+
  with h have r: "r = Inr ()" by simp
  have ok: "db_ok (w_db ex_world)" by (simp add: ex_world_def empty_db_ok)
  from handler_saves_once [OF ok h] r n h show ?thesis by auto
qed

text \<open>The recheck interval is bounded: at least one day, never longer than the interval the model
  suggests (or the configured default when it suggests none), and never longer than the
  interval configured for any of its tags, rounded up to a day.\<close>

theorem recheck_days_bounded:
  "1 \<le> configured_recheck_days opts c
    \<and> configured_recheck_days opts c \<le>
        max 1 (if c_recheck_after_days c = 0 then lo_default_recheck_days opts else c_recheck_after_days c)
    \<and> (\<forall>t\<in>set (tags_or_category c). \<forall>d. map_of (lo_tag_recheck_days opts) t = Some d \<longrightarrow>
        configured_recheck_days opts c \<le> max 1 d)"
proof -
  let ?f = "map_of (lo_tag_recheck_days opts)" and ?ts = "fromkeys (tags_or_category c)"
  have mem: "d \<in> set (List.map_filter ?f ?ts)" if "t \<in> set (tags_or_category c)" "?f t = Some d" for t d
    using that by (force simp: List.map_filter_def)
  have "configured_recheck_days opts c \<le> max 1 d" if "t \<in> set (tags_or_category c)" "?f t = Some d" for t d
  proof -
    note m = mem [OF that]
    then have "List.map_filter ?f ?ts \<noteq> []" by auto
    moreover from m have "py_min 0 (List.map_filter ?f ?ts) \<le> d" by (rule py_min_le)
    ultimately show ?thesis by (simp add: configured_recheck_days_def Let_def)
  qed
  then show ?thesis by (auto simp: configured_recheck_days_def Let_def)
qed

theorem recheck_days_bounded_witness:
  "configured_recheck_days ex_llm ex_classification = 7 \<and> configured_recheck_days ex_llm ex_classification \<le> max 1 7"
proof -
  have "''ads'' \<in> set (tags_or_category ex_classification)"
    and "map_of (lo_tag_recheck_days ex_llm) ''ads'' = Some 7"
    and "configured_recheck_days ex_llm ex_classification = 7"
    by code_simp+
  with recheck_days_bounded [of ex_llm ex_classification] show ?thesis by blast
qed

end
