(* ===== verification/Provider_Limits.thy ===== *)
theory Provider_Limits
  imports Prelude
begin

text \<open>
  Provider limits, \<open>provider_registry.py\<close> and the limit options of \<open>config.py\<close>: capabilities, limits and
  limit profiles, how a profile is chosen from the signed registry, from the user's manual settings
  or from the registry capped by the user. The host of a URL (\<open>urlparse\<close>) and shell pattern matching
  (\<open>fnmatch\<close>) are arguments.
\<close>

section \<open>Data\<close>

record provider_capability =
  pc_context_tokens :: int
  pc_max_output_tokens :: int
  pc_structured_output :: string
  pc_native_browsing :: bool
  pc_local :: bool
  pc_deprecated :: bool

record provider_limit =
  pl_metric :: string
  pl_amount :: pyfloat
  pl_window_seconds :: int
  pl_scope :: string
  pl_source :: string
  pl_user_cap :: pyfloat
  pl_reset_policy :: string

record limit_profile =
  lp_entry_id :: string
  lp_source :: string
  lp_free_tier :: string
  lp_free_tier_note :: string
  lp_source_url :: string
  lp_capability :: provider_capability
  lp_limits :: "provider_limit list"
  lp_input_units_per_million_tokens :: pyfloat
  lp_output_units_per_million_tokens :: pyfloat
  lp_max_domains_per_request :: int
  lp_safety_margin_percent :: pyfloat
  lp_quota_group :: string

record limit_options =
  lim_mode :: string
  lim_quota_group :: string
  lim_requests_per_minute :: int
  lim_requests_per_hour :: int
  lim_requests_per_day :: int
  lim_input_tokens_per_minute :: int
  lim_output_tokens_per_minute :: int
  lim_tokens_per_minute :: int
  lim_tokens_per_hour :: int
  lim_tokens_per_day :: int
  lim_units_per_day :: pyfloat
  lim_context_tokens :: int
  lim_max_domains_per_request :: int
  lim_safety_margin_percent :: pyfloat

record llm_provider =
  lpv_provider_id :: string
  lpv_name :: string
  lpv_preset_id :: string
  lpv_api_style :: string
  lpv_base_url :: string
  lpv_api_key :: string
  lpv_model :: string
  lpv_temperature :: pyfloat
  lpv_timeout_sec :: pyfloat
  lpv_max_output_tokens :: int
  lpv_max_tokens_parameter :: string
  lpv_send_temperature :: bool
  lpv_structured_output :: string
  lpv_limits :: limit_options

record registry_entry =
  re_entry_id :: string
  re_preset_ids :: "string list"
  re_base_url_hosts :: "string list"
  re_models :: "string list"
  re_capability :: provider_capability
  re_limits :: "provider_limit list"
  re_input_tokens_per_million :: pyfloat
  re_output_tokens_per_million :: pyfloat
  re_free_tier :: string
  re_free_tier_note :: string
  re_source_url :: string
  re_quota_group :: string

section \<open>Resolving the profile of a provider\<close>

definition is_local_provider :: "(string \<Rightarrow> string option) \<Rightarrow> llm_provider \<Rightarrow> bool" where
  "is_local_provider hostname p =
     (py_lower (case hostname (lpv_base_url p) of None \<Rightarrow> [] | Some h \<Rightarrow> h) \<in> {''localhost'', ''127.0.0.1'', ''::1''})"

definition configured_limits :: "limit_options \<Rightarrow> string \<Rightarrow> provider_limit list" where
  "configured_limits c source =
     map (\<lambda>(metric, amount, window). \<lparr>pl_metric = metric, pl_amount = amount, pl_window_seconds = window,
            pl_scope = ''configured'', pl_source = source, pl_user_cap = 0, pl_reset_policy = ''rolling''\<rparr>)
      (filter (\<lambda>(metric, amount, window). 0 < amount)
        [(''requests'', of_int (lim_requests_per_minute c), 60),
         (''requests'', of_int (lim_requests_per_hour c), 3600),
         (''requests'', of_int (lim_requests_per_day c), 86400),
         (''input_tokens'', of_int (lim_input_tokens_per_minute c), 60),
         (''output_tokens'', of_int (lim_output_tokens_per_minute c), 60),
         (''total_tokens'', of_int (lim_tokens_per_minute c), 60),
         (''total_tokens'', of_int (lim_tokens_per_hour c), 3600),
         (''total_tokens'', of_int (lim_tokens_per_day c), 86400),
         (''units'', lim_units_per_day c, 86400)])"

definition manual_profile :: "(string \<Rightarrow> string option) \<Rightarrow> llm_provider \<Rightarrow> string \<Rightarrow> limit_profile" where
  "manual_profile hostname p source =
     (let c = lpv_limits p in
      \<lparr>lp_entry_id = [], lp_source = source, lp_free_tier = ''unknown'', lp_free_tier_note = [],
       lp_source_url = [],
       lp_capability = \<lparr>pc_context_tokens = max 0 (lim_context_tokens c),
         pc_max_output_tokens = max 1 (lpv_max_output_tokens p),
         pc_structured_output = lpv_structured_output p, pc_native_browsing = False,
         pc_local = is_local_provider hostname p, pc_deprecated = False\<rparr>,
       lp_limits = configured_limits c source, lp_input_units_per_million_tokens = 0,
       lp_output_units_per_million_tokens = 0,
       lp_max_domains_per_request = max 0 (lim_max_domains_per_request c),
       lp_safety_margin_percent = lim_safety_margin_percent c, lp_quota_group = lim_quota_group c\<rparr>)"

definition minimum_positive :: "int \<Rightarrow> int \<Rightarrow> int" where
  "minimum_positive a b = py_min 0 (filter (\<lambda>v. 0 < v) [a, b])"

definition limit_key :: "provider_limit \<Rightarrow> string \<times> int" where
  "limit_key l = (pl_metric l, pl_window_seconds l)"

definition cap_step ::
  "provider_limit \<Rightarrow> (string \<times> int, provider_limit) dict \<Rightarrow> (string \<times> int, provider_limit) dict" where
  "cap_step l d =
     AList.update (limit_key l)
       (case map_of d (limit_key l) of
          None \<Rightarrow> l\<lparr>pl_source := ''user_cap'', pl_user_cap := pl_amount l\<rparr>
        | Some existing \<Rightarrow> existing\<lparr>pl_amount := min (pl_amount existing) (pl_amount l), pl_user_cap := pl_amount l\<rparr>) d"

definition apply_user_caps :: "(string \<Rightarrow> string option) \<Rightarrow> limit_profile \<Rightarrow> llm_provider \<Rightarrow> limit_profile" where
  "apply_user_caps hostname base p =
     (let manual = manual_profile hostname p ''user'';
          combined = fold cap_step (lp_limits manual) (dict_of (map (\<lambda>l. (limit_key l, l)) (lp_limits base)));
          context_tokens = minimum_positive (pc_context_tokens (lp_capability base)) (lim_context_tokens (lpv_limits p));
          max_domains = minimum_positive (lp_max_domains_per_request base) (lim_max_domains_per_request (lpv_limits p))
      in base\<lparr>lp_source := ''user_cap+'' @ lp_source base,
              lp_capability := (lp_capability base)\<lparr>pc_context_tokens := context_tokens\<rparr>,
              lp_limits := sort_key limit_key (map snd combined),
              lp_max_domains_per_request := max_domains,
              lp_safety_margin_percent := lim_safety_margin_percent (lpv_limits p),
              lp_quota_group := str_or (lim_quota_group (lpv_limits p)) (lp_quota_group base)\<rparr>)"

definition entry_match_score ::
  "(string \<Rightarrow> string option) \<Rightarrow> (string \<Rightarrow> string \<Rightarrow> bool) \<Rightarrow> registry_entry \<Rightarrow> llm_provider \<Rightarrow> int" where
  "entry_match_score hostname fnmatchcase e p =
     (let presets = map (py_lower \<circ> py_strip) (re_preset_ids e);
          hosts = map (py_lower \<circ> py_strip) (re_base_url_hosts e);
          host = py_lower (case hostname (lpv_base_url p) of None \<Rightarrow> [] | Some h \<Rightarrow> h);
          identity = (if py_lower (py_strip (lpv_preset_id p)) \<in> set presets then 4
                      else if host \<noteq> [] \<and> host \<in> set hosts then 2 else 0);
          model = py_lower (py_strip (lpv_model p));
          model_score = fold (\<lambda>v acc. let pat = py_lower (py_strip v) in
              if pat = [] then acc
              else if pat = model then max acc 4
              else if model \<noteq> [] \<and> fnmatchcase model pat then max acc 1 else acc) (re_models e) 0
      in if identity = 0 then 0 else if model_score \<noteq> 0 then identity + model_score else 0)"

text \<open>\<open>max(matches, key=...)\<close> takes the first of the best.\<close>

fun best_match :: "(int \<times> 'a) list \<Rightarrow> (int \<times> 'a) option" where
  "best_match [] = None"
| "best_match ((n, e) # xs) = (case best_match xs of None \<Rightarrow> Some (n, e)
     | Some (m, f) \<Rightarrow> if n < m then Some (m, f) else Some (n, e))"

definition blank_capability :: "llm_provider \<Rightarrow> bool \<Rightarrow> provider_capability" where
  "blank_capability p local = \<lparr>pc_context_tokens = max 0 (lim_context_tokens (lpv_limits p)),
     pc_max_output_tokens = max 1 (lpv_max_output_tokens p), pc_structured_output = lpv_structured_output p,
     pc_native_browsing = False, pc_local = local, pc_deprecated = False\<rparr>"

definition profile_from_registry ::
  "(string \<Rightarrow> string option) \<Rightarrow> (string \<Rightarrow> string \<Rightarrow> bool) \<Rightarrow> string \<Rightarrow> registry_entry list \<Rightarrow> llm_provider \<Rightarrow> limit_profile" where
  "profile_from_registry hostname fnmatchcase registry_source entries p =
     (let c = lpv_limits p;
          blank = (\<lambda>source local.
            \<lparr>lp_entry_id = [], lp_source = source, lp_free_tier = ''unknown'', lp_free_tier_note = [],
             lp_source_url = [], lp_capability = blank_capability p local, lp_limits = [],
             lp_input_units_per_million_tokens = 0, lp_output_units_per_million_tokens = 0,
             lp_max_domains_per_request = max 0 (lim_max_domains_per_request c),
             lp_safety_margin_percent = lim_safety_margin_percent c, lp_quota_group = lim_quota_group c\<rparr>)
      in if is_local_provider hostname p then blank ''local'' True
         else case best_match (filter (\<lambda>(n, e). 0 < n)
                (map (\<lambda>e. (entry_match_score hostname fnmatchcase e p, e)) entries)) of
           None \<Rightarrow> blank ''unknown'' False
         | Some (n, e) \<Rightarrow>
             \<lparr>lp_entry_id = re_entry_id e, lp_source = registry_source, lp_free_tier = re_free_tier e,
              lp_free_tier_note = re_free_tier_note e, lp_source_url = re_source_url e,
              lp_capability = (re_capability e)\<lparr>pc_context_tokens := max 0 (pc_context_tokens (re_capability e)),
                 pc_max_output_tokens := max 0 (pc_max_output_tokens (re_capability e))\<rparr>,
              lp_limits = map (\<lambda>l. l\<lparr>pl_source := registry_source, pl_user_cap := 0\<rparr>) (re_limits e),
              lp_input_units_per_million_tokens = max 0 (re_input_tokens_per_million e),
              lp_output_units_per_million_tokens = max 0 (re_output_tokens_per_million e),
              lp_max_domains_per_request = max 0 (lim_max_domains_per_request c),
              lp_safety_margin_percent = lim_safety_margin_percent c,
              lp_quota_group = str_or (lim_quota_group c) (py_strip (re_quota_group e))\<rparr>)"

definition resolve_provider_limit_profile ::
  "(string \<Rightarrow> string option) \<Rightarrow> (string \<Rightarrow> string \<Rightarrow> bool) \<Rightarrow> string \<Rightarrow> registry_entry list \<Rightarrow> llm_provider \<Rightarrow> limit_profile" where
  "resolve_provider_limit_profile hostname fnmatchcase registry_source entries p =
     (let registry_profile = profile_from_registry hostname fnmatchcase registry_source entries p;
          limits = lpv_limits p
      in if lim_mode limits = ''manual'' then manual_profile hostname p ''user''
         else if lim_mode limits = ''auto_cap'' then apply_user_caps hostname registry_profile p
         else registry_profile\<lparr>lp_safety_margin_percent := lim_safety_margin_percent limits,
                lp_quota_group := str_or (lim_quota_group limits) (lp_quota_group registry_profile)\<rparr>)"

section \<open>The cap dictionary\<close>

lemma cap_step_lookup:
  "map_of (cap_step l d) k =
    (if k = limit_key l
     then Some (case map_of d k of None \<Rightarrow> l\<lparr>pl_source := ''user_cap'', pl_user_cap := pl_amount l\<rparr>
       | Some e \<Rightarrow> e\<lparr>pl_amount := min (pl_amount e) (pl_amount l), pl_user_cap := pl_amount l\<rparr>)
     else map_of d k)"
  by (simp add: cap_step_def update_conv')

lemma cap_fold_keys: "distinct (map fst d) \<Longrightarrow> distinct (map fst (fold cap_step ls d))"
  by (induction ls arbitrary: d) (simp_all add: cap_step_def distinct_update)

text \<open>Capping never raises an amount and never drops a limit.\<close>

lemma cap_fold_le:
  "map_of d k = Some e \<Longrightarrow> \<exists>e'. map_of (fold cap_step ls d) k = Some e' \<and> pl_amount e' \<le> pl_amount e"
proof (induction ls arbitrary: d e)
  case Nil
  then show ?case by simp
next
  case (Cons l ls)
  from Cons.prems obtain e1 where 1: "map_of (cap_step l d) k = Some e1" "pl_amount e1 \<le> pl_amount e"
    by (cases "k = limit_key l") (auto simp: cap_step_lookup)
  from Cons.IH [OF 1(1)] obtain e' where "map_of (fold cap_step ls (cap_step l d)) k = Some e'" "pl_amount e' \<le> pl_amount e1"
    by blast
  with 1(2) show ?case by auto
qed

lemma cap_fold_cap:
  "l \<in> set ls \<Longrightarrow> \<exists>e'. map_of (fold cap_step ls d) (limit_key l) = Some e' \<and> pl_amount e' \<le> pl_amount l"
proof (induction ls arbitrary: d)
  case Nil
  then show ?case by simp
next
  case (Cons m ls)
  show ?case
  proof (cases "l = m")
    case True
    obtain e1 where 1: "map_of (cap_step l d) (limit_key l) = Some e1" "pl_amount e1 \<le> pl_amount l"
      by (cases "map_of d (limit_key l)") (auto simp: cap_step_lookup)
    from cap_fold_le [OF 1(1), of ls] 1(2) True show ?thesis by auto
  next
    case False
    with Cons show ?thesis by simp
  qed
qed

lemma limit_key_fold:
  "\<forall>(k, l)\<in>set d. limit_key l = k \<Longrightarrow> distinct (map fst d) \<Longrightarrow> \<forall>(k, l)\<in>set (fold cap_step ls d). limit_key l = k"
proof (induction ls arbitrary: d)
  case Nil
  then show ?case by simp
next
  case (Cons m ls)
  have "\<forall>(k, l)\<in>set (cap_step m d). limit_key l = k"
  proof clarify
    fix k l
    assume "(k, l) \<in> set (cap_step m d)"
    moreover have "distinct (map fst (cap_step m d))" using Cons.prems(2) by (simp add: cap_step_def distinct_update)
    ultimately have "map_of (cap_step m d) k = Some l" by simp
    with Cons.prems(1) show "limit_key l = k"
      by (auto simp: cap_step_lookup limit_key_def split: if_splits option.splits dest!: map_of_SomeD)
  qed
  moreover have "distinct (map fst (cap_step m d))" using Cons.prems(2) by (simp add: cap_step_def distinct_update)
  ultimately show ?case using Cons.IH by simp
qed

section \<open>Property\<close>

text \<open>User caps only tighten a registry profile: every registry limit (one per metric and window) is
  still there with an amount no larger than before, every positive amount the user configured is
  respected by a limit for that metric and window, no metric and window is listed twice,
  and a known context size or batch size is never enlarged.\<close>

theorem user_caps_only_tighten:
  assumes "distinct (map limit_key (lp_limits base))"
  shows "let r = apply_user_caps hostname base p in
    (\<forall>l\<in>set (lp_limits base). \<exists>l'\<in>set (lp_limits r). limit_key l' = limit_key l \<and> pl_amount l' \<le> pl_amount l) \<and>
    (\<forall>l\<in>set (configured_limits (lpv_limits p) ''user'').
       \<exists>l'\<in>set (lp_limits r). limit_key l' = limit_key l \<and> pl_amount l' \<le> pl_amount l) \<and>
    distinct (map limit_key (lp_limits r)) \<and>
    (0 < pc_context_tokens (lp_capability base) \<longrightarrow>
       pc_context_tokens (lp_capability r) \<le> pc_context_tokens (lp_capability base)) \<and>
    (0 < lp_max_domains_per_request base \<longrightarrow> lp_max_domains_per_request r \<le> lp_max_domains_per_request base)"
proof -
  let ?ls = "configured_limits (lpv_limits p) ''user''"
  let ?d = "dict_of (map (\<lambda>l. (limit_key l, l)) (lp_limits base))"
  let ?c = "fold cap_step ?ls ?d"
  have dk: "distinct (map fst ?d)" by (rule distinct_dict_of)
  have d: "map_of ?d (limit_key l) = Some l" if "l \<in> set (lp_limits base)" for l
  proof -
    have "distinct (map fst (rev (map (\<lambda>l. (limit_key l, l)) (lp_limits base))))"
      using assms by (simp add: rev_map [symmetric] comp_def)
    moreover have "(limit_key l, l) \<in> set (rev (map (\<lambda>l. (limit_key l, l)) (lp_limits base)))" using that by auto
    ultimately show ?thesis by (simp add: map_of_dict_of)
  qed
  have keyed: "\<forall>(k, l)\<in>set ?d. limit_key l = k"
  proof clarify
    fix k l assume "(k, l) \<in> set ?d"
    with dk have "map_of ?d k = Some l" by simp
    then show "limit_key l = k" by (auto simp: map_of_dict_of dest!: map_of_SomeD)
  qed
  note ck = limit_key_fold [OF keyed dk, of ?ls]
  have lim: "lp_limits (apply_user_caps hostname base p) = sort_key limit_key (map snd ?c)"
    by (simp add: apply_user_caps_def manual_profile_def Let_def)
  have found: "\<exists>l'\<in>set (lp_limits (apply_user_caps hostname base p)). limit_key l' = k \<and> pl_amount l' \<le> a"
    if "map_of ?c k = Some e" "pl_amount e \<le> a" for k e a
  proof -
    from that(1) have "(k, e) \<in> set ?c" by (rule map_of_SomeD)
    with ck that(2) show ?thesis unfolding lim by force
  qed
  have "map limit_key (map snd ?c) = map fst ?c" using ck by (auto simp: split_def)
  then have dist: "distinct (map limit_key (lp_limits (apply_user_caps hostname base p)))"
    unfolding lim distinct_map_sort_key using cap_fold_keys [OF dk, of ?ls] by (simp only:)
  have reg: "\<exists>l'\<in>set (lp_limits (apply_user_caps hostname base p)). limit_key l' = limit_key l \<and> pl_amount l' \<le> pl_amount l"
    if "l \<in> set (lp_limits base)" for l
    using cap_fold_le [OF d [OF that], of ?ls] found by blast
  have usr: "\<exists>l'\<in>set (lp_limits (apply_user_caps hostname base p)). limit_key l' = limit_key l \<and> pl_amount l' \<le> pl_amount l"
    if "l \<in> set ?ls" for l
    using cap_fold_cap [OF that, of ?d] found by blast
  have "0 < pc_context_tokens (lp_capability base) \<longrightarrow>
       pc_context_tokens (lp_capability (apply_user_caps hostname base p)) \<le> pc_context_tokens (lp_capability base)"
    "0 < lp_max_domains_per_request base \<longrightarrow>
       lp_max_domains_per_request (apply_user_caps hostname base p) \<le> lp_max_domains_per_request base"
    by (simp_all add: apply_user_caps_def Let_def minimum_positive_def)
  with reg usr dist show ?thesis unfolding Let_def by blast
qed

definition ex_limit :: "string \<Rightarrow> pyfloat \<Rightarrow> int \<Rightarrow> provider_limit" where
  "ex_limit metric amount window = \<lparr>pl_metric = metric, pl_amount = amount, pl_window_seconds = window,
     pl_scope = ''provider_model'', pl_source = ''bundled_registry'', pl_user_cap = 0, pl_reset_policy = ''rolling''\<rparr>"

definition ex_limit_profile :: limit_profile where
  "ex_limit_profile = \<lparr>lp_entry_id = ''e'', lp_source = ''bundled_registry'', lp_free_tier = ''yes'',
     lp_free_tier_note = '''', lp_source_url = '''',
     lp_capability = \<lparr>pc_context_tokens = 8000, pc_max_output_tokens = 1000, pc_structured_output = ''auto'',
       pc_native_browsing = False, pc_local = False, pc_deprecated = False\<rparr>,
     lp_limits = [ex_limit ''requests'' 10 60, ex_limit ''total_tokens'' 5000 60],
     lp_input_units_per_million_tokens = 0, lp_output_units_per_million_tokens = 0,
     lp_max_domains_per_request = 0, lp_safety_margin_percent = 0, lp_quota_group = ''g''\<rparr>"

definition ex_llm_provider :: llm_provider where
  "ex_llm_provider = \<lparr>lpv_provider_id = ''p1'', lpv_name = ''n'', lpv_preset_id = ''x'',
     lpv_api_style = ''openai_compatible'', lpv_base_url = ''u'', lpv_api_key = ''k'', lpv_model = ''m'',
     lpv_temperature = 0, lpv_timeout_sec = 30, lpv_max_output_tokens = 1000,
     lpv_max_tokens_parameter = ''max_tokens'', lpv_send_temperature = True, lpv_structured_output = ''auto'',
     lpv_limits = \<lparr>lim_mode = ''auto_cap'', lim_quota_group = '''', lim_requests_per_minute = 4,
       lim_requests_per_hour = 0, lim_requests_per_day = 100, lim_input_tokens_per_minute = 0,
       lim_output_tokens_per_minute = 0, lim_tokens_per_minute = 9000, lim_tokens_per_hour = 0,
       lim_tokens_per_day = 0, lim_units_per_day = 0, lim_context_tokens = 9000,
       lim_max_domains_per_request = 3, lim_safety_margin_percent = 10\<rparr>\<rparr>"

theorem user_caps_only_tighten_witness:
  "map (\<lambda>l. (pl_metric l, pl_amount l, pl_window_seconds l))
      (lp_limits (apply_user_caps (\<lambda>_. None) ex_limit_profile ex_llm_provider)) =
     [(''requests'', 4, 60), (''requests'', 100, 86400), (''total_tokens'', 5000, 60)] \<and>
   pc_context_tokens (lp_capability (apply_user_caps (\<lambda>_. None) ex_limit_profile ex_llm_provider)) \<le>
     pc_context_tokens (lp_capability ex_limit_profile)"
proof -
  have d: "distinct (map limit_key (lp_limits ex_limit_profile))"
    and p: "0 < pc_context_tokens (lp_capability ex_limit_profile)"
    and m: "map (\<lambda>l. (pl_metric l, pl_amount l, pl_window_seconds l))
      (lp_limits (apply_user_caps (\<lambda>_. None) ex_limit_profile ex_llm_provider)) =
     [(''requests'', 4, 60), (''requests'', 100, 86400), (''total_tokens'', 5000, 60)]"
    by code_simp+
  from user_caps_only_tighten [OF d, of "\<lambda>_. None" ex_llm_provider] p m show ?thesis
    unfolding Let_def by blast
qed

end
