(* ===== verification/Quota.thy ===== *)
theory Quota
  imports Provider_Limits Models "HOL-Library.Multiset"
begin

text \<open>
  The provider quota, \<open>quota.py\<close>: reservations in the tables \<open>quota_reservations\<close> and
  \<open>runtime_quota_state\<close>, token estimates, the admission test over rolling windows, UTC days, live
  header states, the reserve for the realtime pool and the safety margin, and completion and
  cancellation of reservations. Times are exact rationals. \<open>uuid4().hex\<close>, the HMAC fingerprint of the
  account and the host of a URL are arguments. Each operation is one transaction: when it
  raises, the store is unchanged.
\<close>

section \<open>State\<close>

record quota_row =
  qr_id :: string
  qr_scope_key :: string
  qr_provider_id :: string
  qr_pool_id :: string
  qr_state :: string
  qr_domain_count :: int
  qr_request_count :: int
  qr_input_tokens :: int
  qr_output_tokens :: int
  qr_units :: pyfloat
  qr_created_at :: pyfloat
  qr_expires_at :: pyfloat
  qr_completed_at :: "pyfloat option"

record runtime_state =
  rs_scope_key :: string
  rs_metric :: string
  rs_window_seconds :: int
  rs_limit_amount :: pyfloat
  rs_remaining_amount :: pyfloat
  rs_reset_at :: pyfloat
  rs_observed_at :: pyfloat
  rs_source :: string

definition rs_key :: "runtime_state \<Rightarrow> string \<times> string \<times> int" where
  "rs_key r = (rs_scope_key r, rs_metric r, rs_window_seconds r)"

record quota_db =
  q_rows :: "quota_row list"
  q_runtime :: "runtime_state list"

record quota_estimate =
  es_domain_count :: int
  es_request_count :: int
  es_input_tokens :: int
  es_output_tokens :: int
  es_units :: pyfloat

record quota_reservation =
  qx_reservation_id :: string
  qx_scope_key :: string
  qx_provider_id :: string
  qx_pool_id :: string
  qx_estimate :: quota_estimate
  qx_created_at :: pyfloat
  qx_expires_at :: pyfloat

datatype quota_error = QuotaUnavailableError pyfloat | QuotaIntegrityError

text \<open>The fields of \<open>LLMOptions\<close> that the quota reads.\<close>

record quota_settings =
  qs_domains_per_request :: int
  qs_realtime_quota_reserve_percent :: pyfloat
  qs_unknown_remote_requests_per_minute :: int
  qs_unknown_remote_max_domains_per_request :: int

section \<open>Estimates\<close>

definition es_total_tokens :: "quota_estimate \<Rightarrow> int" where
  "es_total_tokens e = es_input_tokens e + es_output_tokens e"

text \<open>The argument is the length of the serialised messages.\<close>

definition estimate_message_tokens :: "nat \<Rightarrow> int" where
  "estimate_message_tokens len = max 1 \<lceil>(of_nat len :: rat) / (7 / 2)\<rceil>"

definition units_for_usage :: "int \<Rightarrow> int \<Rightarrow> limit_profile \<Rightarrow> pyfloat" where
  "units_for_usage input output profile =
     (of_int (max 0 input) * lp_input_units_per_million_tokens profile +
      of_int (max 0 output) * lp_output_units_per_million_tokens profile) / 1000000"

definition rat_sum :: "pyfloat list \<Rightarrow> pyfloat" where
  "rat_sum xs = sum_list xs"

definition calibrated_output_tokens_per_domain :: "string \<Rightarrow> quota_db \<Rightarrow> pyfloat" where
  "calibrated_output_tokens_per_domain provider_id q =
     (let rows = take 50 (sort_key (\<lambda>r. - (case qr_completed_at r of None \<Rightarrow> 0 | Some t \<Rightarrow> t))
            (filter (\<lambda>r. qr_provider_id r = provider_id \<and> qr_state r = ''completed'' \<and> 0 < qr_output_tokens r) (q_rows q)));
          ratios = map (\<lambda>r. of_int (qr_output_tokens r) / of_int (max (qr_domain_count r) 1)) rows;
          average = (if rows = [] then 0 else rat_sum ratios / of_nat (length rows))
      in min 4096 (max 128 (if average = 0 then 600 else average)))"

definition estimate_provider_usage ::
  "nat \<Rightarrow> llm_provider \<Rightarrow> limit_profile \<Rightarrow> int \<Rightarrow> quota_db \<Rightarrow> quota_estimate" where
  "estimate_provider_usage message_len provider profile domain_count q =
     (let n = max 1 domain_count;
          input_tokens = estimate_message_tokens message_len;
          per_domain = calibrated_output_tokens_per_domain (lpv_provider_id provider) q;
          out0 = \<lceil>per_domain * of_int n * (6 / 5)\<rceil>;
          output_tokens = max 256 (min (max 1 (lpv_max_output_tokens provider)) out0)
      in \<lparr>es_domain_count = n, es_request_count = 1, es_input_tokens = input_tokens,
          es_output_tokens = output_tokens, es_units = units_for_usage input_tokens output_tokens profile\<rparr>)"

definition batch_fits_context :: "quota_estimate \<Rightarrow> llm_provider \<Rightarrow> limit_profile \<Rightarrow> bool" where
  "batch_fits_context e provider profile =
     (let context_tokens = (if 0 < lim_context_tokens (lpv_limits provider)
            then lim_context_tokens (lpv_limits provider) else pc_context_tokens (lp_capability profile));
          margin = min 50 (max 0 (lp_safety_margin_percent profile))
      in if context_tokens \<le> 0 then True
         else es_total_tokens e \<le> \<lfloor>of_int context_tokens * (1 - margin / 100)\<rfloor>)"

definition maximum_provider_batch_size :: "limit_profile \<Rightarrow> quota_settings \<Rightarrow> int" where
  "maximum_provider_batch_size profile settings =
     (let configured = max 1 (qs_domains_per_request settings);
          c1 = (if 0 < lp_max_domains_per_request profile
                then min configured (lp_max_domains_per_request profile) else configured)
      in if lp_source profile = ''unknown'' \<and> \<not> pc_local (lp_capability profile)
         then min c1 (max 1 (qs_unknown_remote_max_domains_per_request settings)) else c1)"

section \<open>Metrics and limits\<close>

definition metric_value :: "quota_estimate \<Rightarrow> string \<Rightarrow> pyfloat" where
  "metric_value e metric =
     (if metric = ''requests'' then of_int (es_request_count e)
      else if metric = ''input_tokens'' then of_int (es_input_tokens e)
      else if metric = ''output_tokens'' then of_int (es_output_tokens e)
      else if metric = ''total_tokens'' then of_int (es_total_tokens e)
      else if metric = ''units'' then es_units e else 0)"

definition row_metric_value :: "quota_row \<Rightarrow> string \<Rightarrow> pyfloat" where
  "row_metric_value r metric =
     (if metric = ''total_tokens'' then of_int (qr_input_tokens r) + of_int (qr_output_tokens r)
      else if metric = ''requests'' then of_int (qr_request_count r)
      else if metric = ''input_tokens'' then of_int (qr_input_tokens r)
      else if metric = ''output_tokens'' then of_int (qr_output_tokens r)
      else if metric = ''units'' then qr_units r else 0)"

definition effective_limits :: "limit_profile \<Rightarrow> quota_settings \<Rightarrow> provider_limit list" where
  "effective_limits profile settings =
     (if lp_limits profile \<noteq> [] \<or> pc_local (lp_capability profile) \<or> lp_source profile = ''user''
      then lp_limits profile
      else [\<lparr>pl_metric = ''requests'', pl_amount = of_int (max 1 (qs_unknown_remote_requests_per_minute settings)),
             pl_window_seconds = 60, pl_scope = ''provider_model'', pl_source = ''conservative_unknown'',
             pl_user_cap = 0, pl_reset_policy = ''rolling''\<rparr>])"

definition quota_scope_key ::
  "(string \<Rightarrow> string option) \<Rightarrow> (string \<Rightarrow> string) \<Rightarrow> llm_provider \<Rightarrow> limit_profile \<Rightarrow> provider_limit list \<Rightarrow> string" where
  "quota_scope_key hostname fingerprint provider profile limits =
     (let scopes = map (py_lower \<circ> py_strip \<circ> pl_scope) limits;
          group0 = py_lower (py_strip (lp_quota_group profile));
          host = py_lower (case hostname (lpv_base_url provider) of
                    None \<Rightarrow> lpv_preset_id provider | Some h \<Rightarrow> str_or h (lpv_preset_id provider));
          group = (if group0 = [] then str_or host (lpv_provider_id provider) else group0);
          account = fingerprint (str_or (lpv_api_key provider) (lpv_provider_id provider));
          include_model = (\<forall>s\<in>set scopes. s \<notin> {''account'', ''organization'', ''project''});
          model = str_or (py_lower (py_strip (lpv_model provider))) (lpv_provider_id provider)
      in py_join '':'' ([group, account] @ (if include_model then [model] else [])))"

definition live_states :: "string \<Rightarrow> pyfloat \<Rightarrow> quota_db \<Rightarrow> runtime_state list" where
  "live_states scope_key now q = filter (\<lambda>r. rs_scope_key r = scope_key \<and> now < rs_reset_at r) (q_runtime q)"

definition live_step ::
  "runtime_state \<Rightarrow> (string \<times> int, provider_limit) dict \<Rightarrow> (string \<times> int, provider_limit) dict" where
  "live_step st d =
     (let key = (rs_metric st, rs_window_seconds st);
          existing = map_of d key;
          amount = (case existing of None \<Rightarrow> rs_limit_amount st
             | Some e \<Rightarrow> if 0 < pl_user_cap e then min (rs_limit_amount st) (pl_user_cap e) else rs_limit_amount st)
      in AList.update key \<lparr>pl_metric = fst key, pl_amount = amount, pl_window_seconds = snd key,
           pl_scope = (case existing of None \<Rightarrow> ''live'' | Some e \<Rightarrow> pl_scope e), pl_source = ''live_header'',
           pl_user_cap = (case existing of None \<Rightarrow> 0 | Some e \<Rightarrow> pl_user_cap e),
           pl_reset_policy = (case existing of None \<Rightarrow> ''rolling'' | Some e \<Rightarrow> pl_reset_policy e)\<rparr> d)"

definition limits_with_live_state ::
  "string \<Rightarrow> provider_limit list \<Rightarrow> limit_profile \<Rightarrow> pyfloat \<Rightarrow> quota_db \<Rightarrow> provider_limit list" where
  "limits_with_live_state scope_key limits profile now q =
     (if lp_source profile = ''user'' then limits
      else sort_key limit_key (map snd (fold live_step (live_states scope_key now q)
             (dict_of (map (\<lambda>l. (limit_key l, l)) limits)))))"

section \<open>The admission test\<close>

text \<open>The cap that applies to a limit: the safety margin, and for the background pool the realtime reserve.\<close>

definition limit_cap :: "string \<Rightarrow> pyfloat \<Rightarrow> pyfloat \<Rightarrow> provider_limit \<Rightarrow> pyfloat" where
  "limit_cap pool_id reserve_percent margin_percent l =
     (let cap = pl_amount l * (1 - min 50 (max 0 margin_percent) / 100)
      in if pool_id = ''background'' then cap * (1 - min 90 (max 0 reserve_percent) / 100) else cap)"

text \<open>The rows that count against a limit at a time.\<close>

definition day_start :: "pyfloat \<Rightarrow> pyfloat" where
  "day_start now = of_int (\<lfloor>now / 86400\<rfloor> * 86400)"

definition in_window :: "provider_limit \<Rightarrow> pyfloat \<Rightarrow> quota_row \<Rightarrow> bool" where
  "in_window l now r =
     (if pl_reset_policy l = ''utc_day'' then day_start now \<le> qr_created_at r
      else now - of_int (pl_window_seconds l) < qr_created_at r)"

definition window_usage :: "quota_row list \<Rightarrow> provider_limit \<Rightarrow> pyfloat \<Rightarrow> pyfloat" where
  "window_usage rows l now = rat_sum (map (\<lambda>r. row_metric_value r (pl_metric l)) (filter (in_window l now) rows))"

text \<open>The loop of \<open>_retry_at_for_limit\<close>: drop the oldest rows until the candidate fits.\<close>

fun drop_until_fits :: "string \<Rightarrow> pyfloat \<Rightarrow> pyfloat \<Rightarrow> int \<Rightarrow> pyfloat \<Rightarrow> pyfloat \<Rightarrow> quota_row list \<Rightarrow> pyfloat" where
  "drop_until_fits metric candidate cap window reduced retry_at [] = retry_at"
| "drop_until_fits metric candidate cap window reduced retry_at (r # rows) =
     (let reduced' = reduced - row_metric_value r metric;
          retry' = qr_created_at r + of_int window
      in if reduced' + candidate \<le> cap then retry'
         else drop_until_fits metric candidate cap window reduced' retry' rows)"

definition retry_at_for_limit :: "quota_row list \<Rightarrow> string \<Rightarrow> pyfloat \<Rightarrow> pyfloat \<Rightarrow> int \<Rightarrow> pyfloat \<Rightarrow> pyfloat" where
  "retry_at_for_limit rows metric candidate cap window now =
     (let current = rat_sum (map (\<lambda>r. row_metric_value r metric) rows) in
      if cap < candidate then now + of_int (max 1 window)
      else if current + candidate \<le> cap then 0
      else max now (drop_until_fits metric candidate cap window current (now + of_int (max 1 window)) rows))"

definition one_limit_retry_at ::
  "quota_row list \<Rightarrow> quota_estimate \<Rightarrow> string \<Rightarrow> pyfloat \<Rightarrow> pyfloat \<Rightarrow> pyfloat \<Rightarrow> provider_limit \<Rightarrow> pyfloat" where
  "one_limit_retry_at rows e pool_id reserve margin now l =
     (let candidate = metric_value e (pl_metric l); cap = limit_cap pool_id reserve margin l in
      if candidate \<le> 0 then 0
      else if pl_reset_policy l = ''utc_day''
      then (if cap < window_usage rows l now + candidate then day_start now + 86400 else 0)
      else retry_at_for_limit (filter (in_window l now) rows) (pl_metric l) candidate cap (pl_window_seconds l) now)"

definition limit_retry_at ::
  "quota_row list \<Rightarrow> provider_limit list \<Rightarrow> quota_estimate \<Rightarrow> string \<Rightarrow> pyfloat \<Rightarrow> pyfloat \<Rightarrow> pyfloat \<Rightarrow> pyfloat" where
  "limit_retry_at rows limits e pool_id reserve margin now =
     fold (\<lambda>l acc. max acc (one_limit_retry_at rows e pool_id reserve margin now l)) limits 0"

definition used_since :: "quota_row list \<Rightarrow> runtime_state \<Rightarrow> pyfloat" where
  "used_since rows st =
     rat_sum (map (\<lambda>r. row_metric_value r (rs_metric st)) (filter (\<lambda>r. rs_observed_at st < qr_created_at r) rows))"

definition live_limit_retry_at :: "quota_row list \<Rightarrow> string \<Rightarrow> quota_estimate \<Rightarrow> pyfloat \<Rightarrow> quota_db \<Rightarrow> pyfloat" where
  "live_limit_retry_at rows scope_key e now q =
     fold (\<lambda>st acc. if rs_remaining_amount st < metric_value e (rs_metric st) + used_since rows st
                    then max acc (rs_reset_at st) else acc) (live_states scope_key now q) 0"

section \<open>Operations\<close>

definition expire_reservations :: "pyfloat \<Rightarrow> quota_db \<Rightarrow> quota_db" where
  "expire_reservations now q =
     q\<lparr>q_rows := tbl_update (\<lambda>r. qr_state r = ''reserved'' \<and> qr_expires_at r \<le> now)
         (\<lambda>r. r\<lparr>qr_state := ''cancelled'', qr_completed_at := Some now\<rparr>) (q_rows q)\<rparr>"

definition scope_rows :: "string \<Rightarrow> quota_db \<Rightarrow> quota_row list" where
  "scope_rows scope_key q =
     sort_key (\<lambda>r. (qr_created_at r, qr_id r))
       (filter (\<lambda>r. qr_scope_key r = scope_key \<and> qr_state r \<in> {''reserved'', ''completed''}) (q_rows q))"

definition reservation_row :: "string \<Rightarrow> string \<Rightarrow> string \<Rightarrow> string \<Rightarrow> quota_estimate \<Rightarrow> pyfloat \<Rightarrow> pyfloat \<Rightarrow> quota_row" where
  "reservation_row rid scope_key provider_id pool e now expires_at =
     \<lparr>qr_id = rid, qr_scope_key = scope_key, qr_provider_id = provider_id, qr_pool_id = pool,
      qr_state = ''reserved'', qr_domain_count = max 1 (es_domain_count e),
      qr_request_count = max 0 (es_request_count e), qr_input_tokens = max 0 (es_input_tokens e),
      qr_output_tokens = max 0 (es_output_tokens e), qr_units = max 0 (es_units e),
      qr_created_at = now, qr_expires_at = expires_at, qr_completed_at = None\<rparr>"

definition reserve_quota ::
  "(string \<Rightarrow> string option) \<Rightarrow> (string \<Rightarrow> string) \<Rightarrow> llm_provider \<Rightarrow> limit_profile \<Rightarrow> quota_estimate \<Rightarrow> string \<Rightarrow>
    quota_settings \<Rightarrow> pyfloat \<Rightarrow> string \<Rightarrow> quota_db \<Rightarrow> quota_error + quota_db \<times> quota_reservation" where
  "reserve_quota hostname fingerprint provider profile e pool_id settings now rid q0 =
     (let pool = str_or (py_lower (py_strip pool_id)) ''background'';
          limits = effective_limits profile settings;
          scope_key = quota_scope_key hostname fingerprint provider profile limits;
          expires_at = now + of_int (max 300 (py_max 300 (map pl_window_seconds limits)));
          q = expire_reservations now q0;
          rows = scope_rows scope_key q;
          active = limits_with_live_state scope_key limits profile now q;
          retry_at = max (limit_retry_at rows active e pool (qs_realtime_quota_reserve_percent settings)
                            (lp_safety_margin_percent profile) now)
                         (live_limit_retry_at rows scope_key e now q)
      in if now < retry_at then Inl (QuotaUnavailableError (max 0 retry_at))
         else if rid \<in> set (map qr_id (q_rows q)) then Inl QuotaIntegrityError
         else Inr (q\<lparr>q_rows := q_rows q @
                 [reservation_row rid scope_key (lpv_provider_id provider) pool e now expires_at]\<rparr>,
               \<lparr>qx_reservation_id = rid, qx_scope_key = scope_key, qx_provider_id = lpv_provider_id provider,
                qx_pool_id = pool, qx_estimate = e, qx_created_at = now, qx_expires_at = expires_at\<rparr>))"

definition normalized_usage ::
  "provider_usage option \<Rightarrow> quota_estimate \<Rightarrow> limit_profile option \<Rightarrow> provider_usage" where
  "normalized_usage usage e profile =
     (case usage of
        None \<Rightarrow> \<lparr>pu_input_tokens = es_input_tokens e, pu_output_tokens = es_output_tokens e,
                 pu_total_tokens = es_total_tokens e, pu_units = es_units e\<rparr>
      | Some u \<Rightarrow>
          let i0 = max 0 (pu_input_tokens u); o0 = max 0 (pu_output_tokens u);
              missing = (i0 = 0 \<and> o0 = 0);
              i = (if missing then es_input_tokens e else i0);
              ot = (if missing then es_output_tokens e else o0);
              u0 = max 0 (pu_units u);
              units = (case profile of None \<Rightarrow> u0 | Some p \<Rightarrow> if u0 = 0 then units_for_usage i ot p else u0)
          in \<lparr>pu_input_tokens = i, pu_output_tokens = ot, pu_total_tokens = max (pu_total_tokens u) (i + ot),
              pu_units = units\<rparr>)"

definition save_runtime_state :: "runtime_state \<Rightarrow> quota_db \<Rightarrow> quota_db" where
  "save_runtime_state st q =
     q\<lparr>q_runtime := tbl_upsert rs_key st
         (\<lambda>r. r\<lparr>rs_limit_amount := rs_limit_amount st, rs_remaining_amount := rs_remaining_amount st,
                rs_reset_at := rs_reset_at st, rs_observed_at := rs_observed_at st, rs_source := rs_source st\<rparr>)
         (q_runtime q)\<rparr>"

text \<open>\<open>states\<close> are the header states that \<open>runtime_quota_states_from_headers\<close> reads off the response.\<close>

definition complete_quota ::
  "quota_reservation \<Rightarrow> provider_usage option \<Rightarrow> limit_profile option \<Rightarrow> runtime_state list \<Rightarrow> pyfloat \<Rightarrow> quota_db \<Rightarrow> quota_db" where
  "complete_quota reservation usage profile states now q =
     (let sel = normalized_usage usage (qx_estimate reservation) profile;
          q1 = q\<lparr>q_rows := tbl_update (\<lambda>r. qr_id r = qx_reservation_id reservation \<and> qr_state r = ''reserved'')
                 (\<lambda>r. r\<lparr>qr_state := ''completed'', qr_input_tokens := pu_input_tokens sel,
                        qr_output_tokens := pu_output_tokens sel, qr_units := pu_units sel,
                        qr_completed_at := Some now\<rparr>) (q_rows q)\<rparr>
      in if profile \<noteq> None then fold save_runtime_state states q1 else q1)"

definition cancel_quota :: "quota_reservation \<Rightarrow> pyfloat \<Rightarrow> quota_db \<Rightarrow> quota_db" where
  "cancel_quota reservation now q =
     q\<lparr>q_rows := tbl_update (\<lambda>r. qr_id r = qx_reservation_id reservation \<and> qr_state r = ''reserved'')
         (\<lambda>r. r\<lparr>qr_state := ''cancelled'', qr_completed_at := Some now\<rparr>) (q_rows q)\<rparr>"

text \<open>One entry of \<open>runtime_quota_states_from_headers\<close>, after the header texts are parsed.\<close>

definition abs_diff :: "pyfloat \<Rightarrow> pyfloat \<Rightarrow> pyfloat" where
  "abs_diff a b = \<bar>a - b\<bar>"

definition is_close :: "pyfloat \<Rightarrow> pyfloat \<Rightarrow> bool" where
  "is_close a b \<longleftrightarrow> abs_diff a b \<le> (1 / 1000) * max \<bar>a\<bar> \<bar>b\<bar>"

definition matching_window :: "limit_profile \<Rightarrow> string \<Rightarrow> pyfloat \<Rightarrow> int" where
  "matching_window profile metric amount =
     (let candidates = filter (\<lambda>l. pl_metric l = metric) (lp_limits profile);
          exact = filter (\<lambda>l. is_close (pl_amount l) amount) candidates;
          selected = (if exact \<noteq> [] then exact else candidates)
      in case sort_key (\<lambda>l. abs_diff (pl_amount l) amount) selected of [] \<Rightarrow> 60 | l # _ \<Rightarrow> pl_window_seconds l)"

definition header_state ::
  "string \<Rightarrow> limit_profile \<Rightarrow> string \<Rightarrow> pyfloat option \<Rightarrow> pyfloat option \<Rightarrow> pyfloat option \<Rightarrow> pyfloat \<Rightarrow> runtime_state option" where
  "header_state scope_key profile metric limit_amount remaining_amount reset_delay now =
     (case (limit_amount, remaining_amount) of
        (Some amt, Some left) \<Rightarrow>
          let window = matching_window profile metric amt in
          Some \<lparr>rs_scope_key = scope_key, rs_metric = metric, rs_window_seconds = max 1 window,
                rs_limit_amount = amt, rs_remaining_amount = min amt left,
                rs_reset_at = now + (case reset_delay of Some d \<Rightarrow> d | None \<Rightarrow> of_int (max 1 window)),
                rs_observed_at = now, rs_source = ''live_header''\<rparr>
      | _ \<Rightarrow> None)"

definition quota_runtime_states :: "string \<Rightarrow> pyfloat \<Rightarrow> quota_db \<Rightarrow> runtime_state list" where
  "quota_runtime_states scope_key now q =
     sort_key (\<lambda>r. (rs_metric r, rs_window_seconds r)) (live_states scope_key now q)"

section \<open>Well-formed quota stores\<close>

definition row_nonneg :: "quota_row \<Rightarrow> bool" where
  "row_nonneg r \<longleftrightarrow> 0 \<le> qr_request_count r \<and> 0 \<le> qr_input_tokens r \<and> 0 \<le> qr_output_tokens r \<and> 0 \<le> qr_units r"

definition quota_wf :: "quota_db \<Rightarrow> bool" where
  "quota_wf q \<longleftrightarrow> tbl_keys_ok qr_id (q_rows q) \<and> (\<forall>r\<in>set (q_rows q). row_nonneg r)"

definition estimate_nonneg :: "quota_estimate \<Rightarrow> bool" where
  "estimate_nonneg e \<longleftrightarrow> 0 \<le> es_request_count e \<and> 0 \<le> es_input_tokens e \<and> 0 \<le> es_output_tokens e \<and> 0 \<le> es_units e"

lemma row_metric_nonneg: "row_nonneg r \<Longrightarrow> 0 \<le> row_metric_value r m"
  by (simp add: row_nonneg_def row_metric_value_def)

lemma reservation_metric:
  "estimate_nonneg e \<Longrightarrow> row_metric_value (reservation_row rid sk pid pool e now ex) m = metric_value e m"
  by (simp add: row_metric_value_def metric_value_def reservation_row_def estimate_nonneg_def es_total_tokens_def)

lemma reservation_nonneg: "row_nonneg (reservation_row rid sk pid pool e now ex)"
  by (simp add: row_nonneg_def reservation_row_def)

lemma expire_wf: "quota_wf q \<Longrightarrow> quota_wf (expire_reservations now q)"
  by (auto simp: quota_wf_def expire_reservations_def tbl_update_keys_ok set_tbl_update row_nonneg_def)

lemma set_scope_rows: "set (scope_rows sk q) \<subseteq> set (q_rows q)"
  by (auto simp: scope_rows_def)

lemma scope_rows_nonneg: "quota_wf q \<Longrightarrow> r \<in> set (scope_rows sk q) \<Longrightarrow> row_nonneg r"
  using set_scope_rows by (auto simp: quota_wf_def)

lemma scope_rows_sorted: "sorted (map qr_created_at (scope_rows sk q))"
proof -
  have "sorted (map (\<lambda>r. (qr_created_at r, qr_id r)) (scope_rows sk q))" by (simp add: scope_rows_def)
  then show ?thesis
    by (simp add: sorted_map) (erule sorted_wrt_mono_rel [rotated], auto simp: less_eq_prod_def)
qed

section \<open>Sums over windows\<close>

lemma rat_sum_nonneg: "\<forall>x\<in>set xs. 0 \<le> x \<Longrightarrow> 0 \<le> rat_sum xs"
  unfolding rat_sum_def by (rule sum_list_nonneg) simp

lemma rat_sum_mset: "mset xs = mset ys \<Longrightarrow> rat_sum xs = rat_sum ys"
  unfolding rat_sum_def by (metis sum_mset_sum_list)

lemma usage_filter_mono:
  assumes "\<forall>r\<in>set rows. row_nonneg r" and "\<And>r. r \<in> set rows \<Longrightarrow> P r \<Longrightarrow> Q r"
  shows "rat_sum (map (\<lambda>r. row_metric_value r m) (filter P rows)) \<le> rat_sum (map (\<lambda>r. row_metric_value r m) (filter Q rows))"
  using assms
proof (induction rows)
  case Nil
  then show ?case by (simp add: rat_sum_def)
next
  case (Cons r rows)
  then have IH: "rat_sum (map (\<lambda>r. row_metric_value r m) (filter P rows))
      \<le> rat_sum (map (\<lambda>r. row_metric_value r m) (filter Q rows))"
    and "0 \<le> row_metric_value r m" by (auto intro: row_metric_nonneg)
  with Cons.prems(2) [of r] show ?case by (auto simp: rat_sum_def)
qed

lemma day_start_le: "day_start t \<le> t"
  unfolding day_start_def using of_int_floor_le [of "t / 86400"] by (simp add: field_simps)

lemma day_start_next: "t < day_start t + 86400"
proof -
  have "t / 86400 < of_int \<lfloor>t / 86400\<rfloor> + 1" by linarith
  then have "t < (of_int \<lfloor>t / 86400\<rfloor> + 1) * 86400" by (simp add: field_simps)
  also have "\<dots> = day_start t + 86400" by (simp add: day_start_def algebra_simps)
  finally show ?thesis .
qed

lemma day_start_mono: "s \<le> t \<Longrightarrow> day_start s \<le> day_start t"
  unfolding day_start_def by (simp add: floor_mono divide_right_mono)

lemma in_window_later: "now \<le> t \<Longrightarrow> in_window l t r \<Longrightarrow> in_window l now r"
  using day_start_mono [of now t] by (auto simp: in_window_def split: if_splits)

lemma window_usage_later:
  "\<forall>r\<in>set rows. row_nonneg r \<Longrightarrow> now \<le> t \<Longrightarrow> window_usage rows l t \<le> window_usage rows l now"
  unfolding window_usage_def by (rule usage_filter_mono) (auto intro: in_window_later)

section \<open>Refusal means that a limit is exceeded\<close>

lemma fold_max_le:
  "fold (\<lambda>l acc. max acc (f l)) ls a \<le> x \<longleftrightarrow> a \<le> x \<and> (\<forall>l\<in>set ls. f l \<le> (x :: pyfloat))"
  by (induction ls arbitrary: a) auto

lemma fold_cond_max_le:
  "fold (\<lambda>l acc. if P l then max acc (f l) else acc) ls a \<le> x \<longleftrightarrow>
    a \<le> x \<and> (\<forall>l\<in>set ls. P l \<longrightarrow> f l \<le> (x :: pyfloat))"
  by (induction ls arbitrary: a) auto

lemma drop_until_fits_gt:
  assumes "\<forall>r\<in>set rows. now - of_int w < qr_created_at r" and "rows \<noteq> [] \<or> now < ra"
  shows "now < drop_until_fits m c cap w red ra rows"
  using assms
proof (induction rows arbitrary: red ra)
  case Nil
  then show ?case by simp
next
  case (Cons r rows)
  then have "now < qr_created_at r + of_int w" by (auto simp: algebra_simps)
  with Cons show ?case by (simp add: Let_def)
qed

lemma one_limit_fits:
  assumes "0 \<le> now" and "\<forall>r\<in>set rows. row_nonneg r"
  shows "one_limit_retry_at rows e pool res mar now l \<le> now \<longleftrightarrow>
    metric_value e (pl_metric l) \<le> 0 \<or> window_usage rows l now + metric_value e (pl_metric l) \<le> limit_cap pool res mar l"
proof -
  let ?c = "metric_value e (pl_metric l)" and ?cap = "limit_cap pool res mar l"
  let ?w = "filter (in_window l now) rows"
  let ?u = "rat_sum (map (\<lambda>r. row_metric_value r (pl_metric l)) ?w)"
  have u: "window_usage rows l now = ?u" by (simp add: window_usage_def)
  have nonneg: "0 \<le> ?u" using assms(2) by (intro rat_sum_nonneg) (auto intro: row_metric_nonneg)
  show ?thesis
  proof (cases "?c \<le> 0 \<or> pl_reset_policy l = ''utc_day''")
    case True
    with assms(1) day_start_next [of now] show ?thesis
      by (auto simp: one_limit_retry_at_def Let_def)
  next
    case False
    have win: "\<forall>r\<in>set ?w. now - of_int (pl_window_seconds l) < qr_created_at r"
      using False by (auto simp: in_window_def)
    have "?w \<noteq> []" if "?c \<le> ?cap" "?cap < ?u + ?c"
      using that by (auto simp: rat_sum_def)
    then have late: "now < drop_until_fits (pl_metric l) ?c ?cap (pl_window_seconds l) ?u ra ?w"
      if "?c \<le> ?cap" "?cap < ?u + ?c" for ra
      using that win by (intro drop_until_fits_gt) auto
    show ?thesis
      using False assms(1) nonneg late
      by (auto simp: one_limit_retry_at_def retry_at_for_limit_def Let_def u not_le)
  qed
qed

lemma live_limit_fits:
  assumes "0 \<le> now"
  shows "live_limit_retry_at rows sk e now q \<le> now \<longleftrightarrow>
    (\<forall>st\<in>set (live_states sk now q). metric_value e (rs_metric st) + used_since rows st \<le> rs_remaining_amount st)"
  unfolding live_limit_retry_at_def fold_cond_max_le
  using assms by (auto simp: live_states_def not_less)

section \<open>What a successful reservation means\<close>

text \<open>The names of \<open>reserve_quota\<close>'s local variables, for the statements.\<close>

definition quota_pool :: "string \<Rightarrow> string" where
  "quota_pool pool_id = str_or (py_lower (py_strip pool_id)) ''background''"

definition quota_scope ::
  "(string \<Rightarrow> string option) \<Rightarrow> (string \<Rightarrow> string) \<Rightarrow> llm_provider \<Rightarrow> limit_profile \<Rightarrow> quota_settings \<Rightarrow> string" where
  "quota_scope hostname fingerprint provider profile settings =
     quota_scope_key hostname fingerprint provider profile (effective_limits profile settings)"

definition active_limits ::
  "(string \<Rightarrow> string option) \<Rightarrow> (string \<Rightarrow> string) \<Rightarrow> llm_provider \<Rightarrow> limit_profile \<Rightarrow> quota_settings \<Rightarrow> pyfloat \<Rightarrow>
    quota_db \<Rightarrow> provider_limit list" where
  "active_limits hostname fingerprint provider profile settings now q =
     limits_with_live_state (quota_scope hostname fingerprint provider profile settings)
       (effective_limits profile settings) profile now (expire_reservations now q)"

definition cap_of :: "string \<Rightarrow> quota_settings \<Rightarrow> limit_profile \<Rightarrow> provider_limit \<Rightarrow> pyfloat" where
  "cap_of pool_id settings profile l =
     limit_cap (quota_pool pool_id) (qs_realtime_quota_reserve_percent settings) (lp_safety_margin_percent profile) l"

definition counted_rows ::
  "(string \<Rightarrow> string option) \<Rightarrow> (string \<Rightarrow> string) \<Rightarrow> llm_provider \<Rightarrow> limit_profile \<Rightarrow> quota_settings \<Rightarrow> pyfloat \<Rightarrow>
    quota_db \<Rightarrow> quota_row list" where
  "counted_rows hostname fingerprint provider profile settings now q =
     scope_rows (quota_scope hostname fingerprint provider profile settings) (expire_reservations now q)"

lemmas quota_locals = quota_pool_def quota_scope_def active_limits_def cap_of_def counted_rows_def

definition admissible ::
  "(string \<Rightarrow> string option) \<Rightarrow> (string \<Rightarrow> string) \<Rightarrow> llm_provider \<Rightarrow> limit_profile \<Rightarrow> quota_estimate \<Rightarrow> string \<Rightarrow>
    quota_settings \<Rightarrow> pyfloat \<Rightarrow> quota_db \<Rightarrow> bool" where
  "admissible hostname fingerprint provider profile e pool_id settings now q \<longleftrightarrow>
     (\<forall>l\<in>set (active_limits hostname fingerprint provider profile settings now q).
        metric_value e (pl_metric l) \<le> 0 \<or>
        window_usage (counted_rows hostname fingerprint provider profile settings now q) l now
          + metric_value e (pl_metric l) \<le> cap_of pool_id settings profile l) \<and>
     (\<forall>st\<in>set (live_states (quota_scope hostname fingerprint provider profile settings) now q).
        metric_value e (rs_metric st) + used_since (counted_rows hostname fingerprint provider profile settings now q) st
          \<le> rs_remaining_amount st)"

lemma live_states_expire [simp]: "live_states sk now (expire_reservations t q) = live_states sk now q"
  by (simp add: live_states_def expire_reservations_def)

lemma reserve_quota_admissible:
  assumes "0 \<le> now" and "quota_wf q"
  shows "(\<exists>r. reserve_quota hostname fp pv prof e pool st now rid q = Inl (QuotaUnavailableError r)) \<longleftrightarrow>
    \<not> admissible hostname fp pv prof e pool st now q"
proof -
  let ?sk = "quota_scope hostname fp pv prof st"
  let ?q = "expire_reservations now q" and ?rows = "counted_rows hostname fp pv prof st now q"
  let ?act = "active_limits hostname fp pv prof st now q"
  let ?r1 = "limit_retry_at ?rows ?act e (quota_pool pool) (qs_realtime_quota_reserve_percent st)
      (lp_safety_margin_percent prof) now"
  have nn: "\<forall>r\<in>set ?rows. row_nonneg r"
    using scope_rows_nonneg [OF expire_wf [OF assms(2)]] by (simp add: counted_rows_def)
  have "?r1 \<le> now \<longleftrightarrow> (\<forall>l\<in>set ?act. metric_value e (pl_metric l) \<le> 0 \<or>
      window_usage ?rows l now + metric_value e (pl_metric l) \<le> cap_of pool st prof l)"
    unfolding limit_retry_at_def fold_max_le cap_of_def
    using one_limit_fits [OF assms(1) nn] assms(1) by auto
  moreover have "live_limit_retry_at ?rows ?sk e now ?q \<le> now \<longleftrightarrow> (\<forall>s\<in>set (live_states ?sk now q).
      metric_value e (rs_metric s) + used_since ?rows s \<le> rs_remaining_amount s)"
    using live_limit_fits [OF assms(1)] by simp
  ultimately have "now < max ?r1 (live_limit_retry_at ?rows ?sk e now ?q) \<longleftrightarrow>
      \<not> admissible hostname fp pv prof e pool st now q"
    by (auto simp: admissible_def not_le less_max_iff_disj)
  then show ?thesis
    by (auto simp: reserve_quota_def Let_def quota_locals)
qed

section \<open>After a reservation\<close>

lemma reserve_quota_Inr:
  assumes "reserve_quota hostname fp pv prof e pool st now rid q = Inr (q', res)"
  obtains ex where "q' = (expire_reservations now q)\<lparr>q_rows := q_rows (expire_reservations now q) @
      [reservation_row rid (quota_scope hostname fp pv prof st) (lpv_provider_id pv) (quota_pool pool) e now ex]\<rparr>"
    "rid \<notin> qr_id ` set (q_rows (expire_reservations now q))"
    "qx_reservation_id res = rid" "qx_scope_key res = quota_scope hostname fp pv prof st"
    "qx_estimate res = e"
  using assms by (auto simp: reserve_quota_def Let_def quota_locals split: if_splits)

lemma scope_rows_append:
  assumes "qr_scope_key r = sk" and "qr_state r = ''reserved''"
  shows "mset (scope_rows sk (q\<lparr>q_rows := q_rows q @ [r]\<rparr>)) = mset (scope_rows sk q) + {#r#}"
  using assms by (simp add: scope_rows_def)

lemma window_usage_mset:
  "mset xs = mset ys \<Longrightarrow> window_usage xs l t = window_usage ys l t"
  unfolding window_usage_def by (rule rat_sum_mset) (simp add: mset_filter)

lemma window_usage_append:
  "window_usage (xs @ [r]) l t = window_usage xs l t + (if in_window l t r then row_metric_value r (pl_metric l) else 0)"
  by (simp add: window_usage_def rat_sum_def)

text \<open>Usage of the scope once the new row is counted.\<close>

lemma usage_after_reserve:
  assumes "reserve_quota hostname fp pv prof e pool st now rid q = Inr (q', res)"
    and "quota_wf q" and "estimate_nonneg e" and "now \<le> t"
  shows "window_usage (scope_rows (quota_scope hostname fp pv prof st) q') l t \<le>
    window_usage (counted_rows hostname fp pv prof st now q) l now + metric_value e (pl_metric l)"
proof -
  let ?sk = "quota_scope hostname fp pv prof st" and ?rows = "counted_rows hostname fp pv prof st now q"
  obtain ex where q': "q' = (expire_reservations now q)\<lparr>q_rows := q_rows (expire_reservations now q) @
      [reservation_row rid ?sk (lpv_provider_id pv) (quota_pool pool) e now ex]\<rparr>"
    using assms(1) by (rule reserve_quota_Inr)
  define r where "r = reservation_row rid ?sk (lpv_provider_id pv) (quota_pool pool) e now ex"
  have "mset (scope_rows ?sk q') = mset (?rows @ [r])"
    unfolding q' r_def counted_rows_def
    by (subst scope_rows_append) (simp_all add: reservation_row_def)
  then have "window_usage (scope_rows ?sk q') l t = window_usage (?rows @ [r]) l t" by (rule window_usage_mset)
  also have "\<dots> \<le> window_usage ?rows l t + metric_value e (pl_metric l)"
    using row_metric_nonneg [OF reservation_nonneg] assms(3)
    by (simp add: window_usage_append r_def reservation_metric) (metis reservation_metric assms(3))
  also have "window_usage ?rows l t \<le> window_usage ?rows l now"
    using scope_rows_nonneg [OF expire_wf [OF assms(2)]] assms(4)
    by (intro window_usage_later) (auto simp: counted_rows_def)
  finally show ?thesis by simp
qed

section \<open>Waiting until the advertised time is enough\<close>

lemma drop_until_fits_enough:
  assumes "sorted (map qr_created_at rows)" and "\<forall>r\<in>set rows. row_nonneg r" and "c \<le> cap"
    and "red = rat_sum (map (\<lambda>r. row_metric_value r m) rows)" and "rows \<noteq> []"
    and "drop_until_fits m c cap w red ra rows \<le> t"
  shows "rat_sum (map (\<lambda>r. row_metric_value r m) (filter (\<lambda>r. t - of_int w < qr_created_at r) rows)) + c \<le> cap"
  using assms
proof (induction rows arbitrary: red ra)
  case Nil
  then show ?case by simp
next
  case (Cons r rows)
  let ?v = "\<lambda>rows. rat_sum (map (\<lambda>r. row_metric_value r m) rows)"
  let ?P = "\<lambda>r. t - of_int w < qr_created_at r"
  have red: "red - row_metric_value r m = ?v rows" using Cons.prems(4) by (simp add: rat_sum_def)
  have later: "qr_created_at r \<le> qr_created_at x" if "x \<in> set rows" for x using Cons.prems(1) that by auto
  have le: "?v (filter ?P rows) \<le> ?v rows"
    using usage_filter_mono [of rows ?P "\<lambda>_. True" m] Cons.prems(2) by simp
  show ?case
  proof (cases "?v rows + c \<le> cap")
    case True
    then have "qr_created_at r + of_int w \<le> t"
      using Cons.prems(6) red by (simp add: Let_def)
    then have "\<not> ?P r" by simp
    with le True show ?thesis by simp
  next
    case False
    then have ne: "rows \<noteq> []" using Cons.prems(3) by (auto simp: rat_sum_def)
    from False Cons.prems(6) red
    have step: "drop_until_fits m c cap w (?v rows) (qr_created_at r + of_int w) rows \<le> t" by (simp add: Let_def)
    have IH: "?v (filter ?P rows) + c \<le> cap"
      using Cons.IH [OF _ _ Cons.prems(3) refl ne step] Cons.prems(1,2) by simp
    have "\<exists>x\<in>set rows. \<not> ?P x"
    proof (rule ccontr)
      assume "\<not> (\<exists>x\<in>set rows. \<not> ?P x)"
      then have "filter ?P rows = rows" by (simp add: filter_id_conv)
      with IH False show False by simp
    qed
    then have "\<not> ?P r" using later by (metis dual_order.trans not_le)
    with IH show ?thesis by simp
  qed
qed

lemma one_limit_retry_enough:
  assumes "sorted (map qr_created_at rows)" and "\<forall>r\<in>set rows. row_nonneg r \<and> qr_created_at r \<le> now"
    and "0 \<le> now" and "metric_value e (pl_metric l) \<le> limit_cap pool res mar l"
    and "now \<le> t" and "one_limit_retry_at rows e pool res mar now l \<le> t"
  shows "metric_value e (pl_metric l) \<le> 0 \<or>
    window_usage rows l t + metric_value e (pl_metric l) \<le> limit_cap pool res mar l"
proof (cases "one_limit_retry_at rows e pool res mar now l \<le> now")
  case True
  have "\<forall>r\<in>set rows. row_nonneg r" using assms(2) by blast
  with True one_limit_fits [OF assms(3) this] window_usage_later [OF this assms(5), of l] show ?thesis by fastforce
next
  case False
  let ?c = "metric_value e (pl_metric l)" and ?cap = "limit_cap pool res mar l"
  let ?w = "filter (in_window l now) rows"
  have pos: "\<not> ?c \<le> 0" using False assms(3) by (auto simp: one_limit_retry_at_def Let_def)
  show ?thesis
  proof (cases "pl_reset_policy l = ''utc_day''")
    case True
    with False pos assms(3,6) have "day_start now + 86400 \<le> t"
      by (auto simp: one_limit_retry_at_def Let_def split: if_splits)
    then have "day_start (day_start now + 86400) \<le> day_start t" by (rule day_start_mono)
    moreover have "day_start (day_start now + 86400) = day_start now + 86400"
      by (simp add: day_start_def add_divide_distrib)
    ultimately have "now < day_start t" using day_start_next [of now] by simp
    then have "filter (in_window l t) rows = []"
      using assms(2) True by (auto simp: in_window_def filter_empty_conv)
    with assms(4) show ?thesis by (simp add: window_usage_def rat_sum_def)
  next
    case rolling: False
    let ?u = "rat_sum (map (\<lambda>r. row_metric_value r (pl_metric l)) ?w)"
    have over: "?cap < ?u + ?c" and d: "drop_until_fits (pl_metric l) ?c ?cap (pl_window_seconds l) ?u
        (now + of_int (max 1 (pl_window_seconds l))) ?w \<le> t"
      using False pos assms(3,4,6) rolling
      by (auto simp: one_limit_retry_at_def retry_at_for_limit_def Let_def split: if_splits)
    have ne: "?w \<noteq> []" using over assms(4) by (auto simp: rat_sum_def)
    have "sorted (map qr_created_at ?w)" using assms(1) by (rule sorted_filter)
    moreover have "\<forall>r\<in>set ?w. row_nonneg r" using assms(2) by simp
    ultimately have "rat_sum (map (\<lambda>r. row_metric_value r (pl_metric l))
        (filter (\<lambda>r. t - of_int (pl_window_seconds l) < qr_created_at r) ?w)) + ?c \<le> ?cap"
      using drop_until_fits_enough [OF _ _ assms(4) refl ne d] by blast
    moreover have "filter (\<lambda>r. t - of_int (pl_window_seconds l) < qr_created_at r) ?w = filter (in_window l t) rows"
      using rolling assms(5) by (auto simp: filter_filter in_window_def intro!: filter_cong)
    ultimately show ?thesis by (simp add: window_usage_def)
  qed
qed

section \<open>Properties\<close>

lemma expire_ids [simp]: "map qr_id (q_rows (expire_reservations now q)) = map qr_id (q_rows q)"
  by (simp add: expire_reservations_def tbl_update_def)

lemma reserve_quota_cases:
  assumes "rid \<notin> set (map qr_id (q_rows q))"
  shows "(\<exists>q' res. reserve_quota hostname fp pv prof e pool st now rid q = Inr (q', res)) \<or>
    (\<exists>r>now. reserve_quota hostname fp pv prof e pool st now rid q = Inl (QuotaUnavailableError r))"
  using assms expire_ids [of now q] unfolding reserve_quota_def Let_def
  by (auto simp del: set_map expire_ids simp: less_max_iff_disj)

definition ex_settings :: quota_settings where
  "ex_settings = \<lparr>qs_domains_per_request = 10, qs_realtime_quota_reserve_percent = 50,
     qs_unknown_remote_requests_per_minute = 5, qs_unknown_remote_max_domains_per_request = 4\<rparr>"

definition ex_estimate :: quota_estimate where
  "ex_estimate = \<lparr>es_domain_count = 1, es_request_count = 1, es_input_tokens = 100, es_output_tokens = 50, es_units = 0\<rparr>"

text \<open>
  C10. A reservation with an unused id is granted exactly when it is admissible: every active limit on
  which the estimate draws has room for it in its current window (after the safety margin and, for
  the background pool, the realtime reserve), and every live header state has enough left. A refusal
  always names a retry time in the future.
\<close>

theorem reserve_quota_iff_admissible:
  assumes "0 \<le> now" and "quota_wf q" and "rid \<notin> set (map qr_id (q_rows q))"
  shows "(\<exists>q' res. reserve_quota hostname fp pv prof e pool st now rid q = Inr (q', res)) =
      admissible hostname fp pv prof e pool st now q \<and>
    (\<forall>er. reserve_quota hostname fp pv prof e pool st now rid q = Inl er \<longrightarrow> (\<exists>r>now. er = QuotaUnavailableError r))"
  using reserve_quota_cases [OF assms(3), of hostname fp pv prof e pool st now]
    reserve_quota_admissible [OF assms(1,2), of hostname fp pv prof e pool st rid] by auto

definition ex_row :: "string \<Rightarrow> pyfloat \<Rightarrow> quota_row" where
  "ex_row rid t = reservation_row rid (quota_scope (\<lambda>_. None) (\<lambda>_. ''f'') ex_llm_provider ex_limit_profile ex_settings)
     ''p1'' ''background'' ex_estimate t (t + 300)"

definition ex_quota :: quota_db where
  "ex_quota = \<lparr>q_rows = [ex_row ''a'' 1000, ex_row ''b'' 1001, ex_row ''c'' 1002, ex_row ''d'' 1003, ex_row ''e'' 1004],
     q_runtime = []\<rparr>"

lemma ex_quota_ok: "quota_wf ex_quota" "''z'' \<notin> set (map qr_id (q_rows ex_quota))" "estimate_nonneg ex_estimate"
  by code_simp+

abbreviation ex_reserve :: "string \<Rightarrow> pyfloat \<Rightarrow> quota_error + quota_db \<times> quota_reservation" where
  "ex_reserve pool now \<equiv> reserve_quota (\<lambda>_. None) (\<lambda>_. ''f'') ex_llm_provider ex_limit_profile ex_estimate pool
     ex_settings now ''z'' ex_quota"

abbreviation ex_admissible :: "string \<Rightarrow> pyfloat \<Rightarrow> bool" where
  "ex_admissible pool now \<equiv> admissible (\<lambda>_. None) (\<lambda>_. ''f'') ex_llm_provider ex_limit_profile ex_estimate pool
     ex_settings now ex_quota"

lemma ex_reserve_background: "ex_reserve ''background'' 1010 = Inl (QuotaUnavailableError 1060)" by code_simp

lemma ex_reserve_realtime: "\<not> isl (ex_reserve ''realtime'' 1010)" by code_simp

theorem reserve_quota_iff_admissible_witness:
  "ex_admissible ''realtime'' 1010 \<and> \<not> ex_admissible ''background'' 1010 \<and> (\<exists>r>1010. ex_reserve ''background'' 1010 = Inl (QuotaUnavailableError r))"
proof -
  note w = reserve_quota_iff_admissible [OF _ ex_quota_ok(1,2), of 1010 "\<lambda>_. None" "\<lambda>_. ''f''" ex_llm_provider
      ex_limit_profile ex_estimate _ ex_settings, simplified]
  obtain x where "ex_reserve ''realtime'' 1010 = Inr x" using ex_reserve_realtime by (cases "ex_reserve ''realtime'' 1010") auto
  then obtain q' res where "ex_reserve ''realtime'' 1010 = Inr (q', res)" by (cases x) auto
  with w [of "''realtime''"] w [of "''background''"] ex_reserve_background show ?thesis by auto
qed

text \<open>
  C11. No overrun: after a granted reservation, and at every later time until the store changes, the
  usage recorded for the scope in the window of each active limit on which the estimate draws stays
  within the configured amount less the safety margin (at most half of it) and, for the background
  pool, less the share reserved for realtime requests (at most nine tenths).
\<close>

theorem granted_usage_within_caps:
  assumes "reserve_quota hostname fp pv prof e pool st now rid q = Inr (q', res)"
    and "0 \<le> now" and "quota_wf q" and "estimate_nonneg e" and "now \<le> t"
    and "l \<in> set (active_limits hostname fp pv prof st now q)" and "0 < metric_value e (pl_metric l)"
  shows "window_usage (scope_rows (qx_scope_key res) q') l t \<le>
    pl_amount l * (1 - min 50 (max 0 (lp_safety_margin_percent prof)) / 100) *
      (if quota_pool pool = ''background'' then 1 - min 90 (max 0 (qs_realtime_quota_reserve_percent st)) / 100 else 1)"
proof -
  have "\<nexists>r. reserve_quota hostname fp pv prof e pool st now rid q = Inl (QuotaUnavailableError r)"
    using assms(1) by simp
  then have "admissible hostname fp pv prof e pool st now q"
    using reserve_quota_admissible [OF assms(2,3)] by blast
  then have "window_usage (counted_rows hostname fp pv prof st now q) l now + metric_value e (pl_metric l)
      \<le> cap_of pool st prof l"
    using assms(6,7) by (auto simp: admissible_def)
  moreover have "qx_scope_key res = quota_scope hostname fp pv prof st"
    using assms(1) by (rule reserve_quota_Inr)
  ultimately have "window_usage (scope_rows (qx_scope_key res) q') l t \<le> cap_of pool st prof l"
    using usage_after_reserve [OF assms(1,3,4,5), of l] by simp
  then show ?thesis by (simp add: cap_of_def limit_cap_def Let_def split: if_splits)
qed

theorem granted_usage_within_caps_witness:
  "\<exists>q' res. ex_reserve ''realtime'' 1010 = Inr (q', res) \<and>
     window_usage (scope_rows (qx_scope_key res) q') (ex_limit ''requests'' 10 60) 1020
       \<le> 10 * (1 - min 50 (max 0 (lp_safety_margin_percent ex_limit_profile)) / 100)"
proof -
  obtain x where "ex_reserve ''realtime'' 1010 = Inr x" using ex_reserve_realtime by (cases "ex_reserve ''realtime'' 1010") auto
  then obtain q' res where r: "ex_reserve ''realtime'' 1010 = Inr (q', res)" by (cases x) auto
  have l: "ex_limit ''requests'' 10 60 \<in> set (active_limits (\<lambda>_. None) (\<lambda>_. ''f'') ex_llm_provider ex_limit_profile
      ex_settings 1010 ex_quota)" and m: "0 < metric_value ex_estimate (pl_metric (ex_limit ''requests'' 10 60))"
    by code_simp+
  have "quota_pool ''realtime'' \<noteq> ''background''" "pl_amount (ex_limit ''requests'' 10 60) = 10" by code_simp+
  then show ?thesis using granted_usage_within_caps [OF r _ ex_quota_ok(1,3) _ l m, of 1020] r by auto
qed

section \<open>Retrying\<close>

lemma filter_tbl_update:
  "(\<And>r. p r \<Longrightarrow> \<not> P (f r)) \<Longrightarrow> filter P (tbl_update p f rows) = filter (\<lambda>r. P r \<and> \<not> p r) rows"
  by (induction rows) (auto simp: tbl_update_def)

definition counts :: "string \<Rightarrow> pyfloat \<Rightarrow> quota_row \<Rightarrow> bool" where
  "counts sk now r \<longleftrightarrow> (qr_scope_key r = sk \<and> qr_state r \<in> {''reserved'', ''completed''}) \<and>
     \<not> (qr_state r = ''reserved'' \<and> qr_expires_at r \<le> now)"

lemma mset_counted_rows:
  "mset (counted_rows h fp pv prof st now q) = mset (filter (counts (quota_scope h fp pv prof st) now) (q_rows q))"
  unfolding counted_rows_def scope_rows_def expire_reservations_def counts_def
  by (simp add: filter_tbl_update)

lemma window_usage_counted:
  "window_usage (counted_rows h fp pv prof st now q) l t =
    rat_sum (map (\<lambda>r. row_metric_value r (pl_metric l))
      (filter (\<lambda>r. counts (quota_scope h fp pv prof st) now r \<and> in_window l t r) (q_rows q)))"
  using window_usage_mset [OF mset_counted_rows, of h fp pv prof st now q l t]
  by (simp add: window_usage_def conj_commute)

lemma window_usage_counted_later:
  assumes "quota_wf q" and "now \<le> now'"
  shows "window_usage (counted_rows h fp pv prof st now' q) l t \<le> window_usage (counted_rows h fp pv prof st now q) l t"
  unfolding window_usage_counted using assms
  by (intro usage_filter_mono) (auto simp: counts_def quota_wf_def)

lemma active_limits_no_live:
  assumes "live_states (quota_scope h fp pv prof st) now q = []" and "live_states (quota_scope h fp pv prof st) t q = []"
  shows "active_limits h fp pv prof st t q = active_limits h fp pv prof st now q"
  using assms by (simp add: active_limits_def limits_with_live_state_def)

lemma live_states_later: "now \<le> t \<Longrightarrow> live_states sk now q = [] \<Longrightarrow> live_states sk t q = []"
  by (auto simp: live_states_def filter_empty_conv)

lemma reserve_refused_limits:
  assumes "reserve_quota h fp pv prof e pool st now rid q = Inl (QuotaUnavailableError r)"
    and "l \<in> set (active_limits h fp pv prof st now q)"
  shows "one_limit_retry_at (counted_rows h fp pv prof st now q) e (quota_pool pool)
    (qs_realtime_quota_reserve_percent st) (lp_safety_margin_percent prof) now l \<le> r"
proof -
  let ?lr = "limit_retry_at (counted_rows h fp pv prof st now q) (active_limits h fp pv prof st now q) e (quota_pool pool)
    (qs_realtime_quota_reserve_percent st) (lp_safety_margin_percent prof) now"
  have "?lr \<le> r"
    using assms(1) by (auto simp: reserve_quota_def Let_def quota_locals split: if_splits)
  then show ?thesis using assms(2) unfolding limit_retry_at_def fold_max_le by blast
qed

text \<open>
  C12. The retry time is sufficient: when a reservation is refused with retry time \<open>r\<close>, no live header
  state is in force, the clock has not run backwards and no single cap is below the estimate itself,
  the same reservation at any time from \<open>r\<close> on, with the store unchanged, is granted.
\<close>

theorem retry_time_is_sufficient:
  assumes "reserve_quota h fp pv prof e pool st now rid q = Inl (QuotaUnavailableError r)"
    and "0 \<le> now" and "quota_wf q" and "rid \<notin> set (map qr_id (q_rows q))" and "now \<le> t" and "r \<le> t"
    and "live_states (quota_scope h fp pv prof st) now q = []"
    and "\<forall>x\<in>set (q_rows q). qr_created_at x \<le> now"
    and "\<forall>l\<in>set (active_limits h fp pv prof st now q). metric_value e (pl_metric l) \<le> cap_of pool st prof l"
  shows "\<exists>q' res. reserve_quota h fp pv prof e pool st t rid q = Inr (q', res)"
proof -
  have nl: "live_states (quota_scope h fp pv prof st) t q = []" using live_states_later assms(5,7) by blast
  let ?rows = "counted_rows h fp pv prof st now q"
  have rows: "\<forall>x\<in>set ?rows. row_nonneg x \<and> qr_created_at x \<le> now"
    using assms(3,8) mset_eq_setD [OF mset_counted_rows [of h fp pv prof st now q]] by (auto simp: quota_wf_def)
  have sorted: "sorted (map qr_created_at ?rows)" by (simp add: counted_rows_def scope_rows_sorted)
  have "metric_value e (pl_metric l) \<le> 0 \<or>
      window_usage (counted_rows h fp pv prof st t q) l t + metric_value e (pl_metric l) \<le> cap_of pool st prof l"
    if l: "l \<in> set (active_limits h fp pv prof st now q)" for l
  proof -
    have cap: "metric_value e (pl_metric l) \<le> limit_cap (quota_pool pool) (qs_realtime_quota_reserve_percent st)
        (lp_safety_margin_percent prof) l" using assms(9) l by (simp add: cap_of_def)
    have "one_limit_retry_at ?rows e (quota_pool pool) (qs_realtime_quota_reserve_percent st)
        (lp_safety_margin_percent prof) now l \<le> t"
      using reserve_refused_limits [OF assms(1) l] assms(6) by simp
    then have "metric_value e (pl_metric l) \<le> 0 \<or> window_usage ?rows l t + metric_value e (pl_metric l) \<le> cap_of pool st prof l"
      using one_limit_retry_enough [OF sorted rows assms(2) cap assms(5)] by (simp add: cap_of_def)
    then show ?thesis using window_usage_counted_later [OF assms(3,5), of h fp pv prof st l t] by linarith
  qed
  then have "admissible h fp pv prof e pool st t q"
    using nl by (simp add: admissible_def active_limits_no_live [OF assms(7) nl])
  then have "\<nexists>r. reserve_quota h fp pv prof e pool st t rid q = Inl (QuotaUnavailableError r)"
    using reserve_quota_admissible [of t q] assms(2,3,5) by auto
  then show ?thesis using reserve_quota_cases [OF assms(4), of h fp pv prof e pool st t] by blast
qed

theorem retry_time_is_sufficient_witness:
  "ex_reserve ''background'' 1010 = Inl (QuotaUnavailableError 1060) \<and> (\<exists>q' res. ex_reserve ''background'' 1060 = Inr (q', res))"
proof -
  have live: "live_states (quota_scope (\<lambda>_. None) (\<lambda>_. ''f'') ex_llm_provider ex_limit_profile ex_settings) 1010 ex_quota = []"
    and old: "\<forall>x\<in>set (q_rows ex_quota). qr_created_at x \<le> 1010"
    and caps: "\<forall>l\<in>set (active_limits (\<lambda>_. None) (\<lambda>_. ''f'') ex_llm_provider ex_limit_profile ex_settings 1010 ex_quota).
      metric_value ex_estimate (pl_metric l) \<le> cap_of ''background'' ex_settings ex_limit_profile l"
    by code_simp+
  show ?thesis
    using retry_time_is_sufficient [OF ex_reserve_background _ ex_quota_ok(1,2) _ _ live old caps, of 1060]
      ex_reserve_background by simp
qed

section \<open>Settling a reservation\<close>

lemma scope_rows_cancel_new:
  assumes "rid \<notin> qr_id ` set (q_rows q)" and "qx_reservation_id res = rid" and "qr_id r = rid" and "qr_state r = ''reserved''"
  shows "q_rows (cancel_quota res t (q\<lparr>q_rows := q_rows q @ [r]\<rparr>)) =
    q_rows q @ [r\<lparr>qr_state := ''cancelled'', qr_completed_at := Some t\<rparr>]"
proof -
  have "tbl_update (\<lambda>x. qr_id x = rid \<and> qr_state x = ''reserved'') f (q_rows q) = q_rows q" for f
    using assms(1) by (auto simp: tbl_update_def intro!: map_idI)
  then show ?thesis using assms(2-4) by (simp add: cancel_quota_def tbl_update_def)
qed

lemma save_runtime_rows [simp]: "q_rows (save_runtime_state s q) = q_rows q"
  by (simp add: save_runtime_state_def)

lemma fold_save_runtime_rows [simp]: "q_rows (fold save_runtime_state ss q) = q_rows q"
  by (induction ss arbitrary: q) auto

lemma complete_quota_rows:
  "q_rows (complete_quota res u p ss t q) =
    tbl_update (\<lambda>r. qr_id r = qx_reservation_id res \<and> qr_state r = ''reserved'')
      (\<lambda>r. r\<lparr>qr_state := ''completed'', qr_input_tokens := pu_input_tokens (normalized_usage u (qx_estimate res) p),
        qr_output_tokens := pu_output_tokens (normalized_usage u (qx_estimate res) p),
        qr_units := pu_units (normalized_usage u (qx_estimate res) p), qr_completed_at := Some t\<rparr>) (q_rows q)"
  by (simp add: complete_quota_def Let_def)

lemma tbl_update_none: "(\<And>r. r \<in> set rows \<Longrightarrow> \<not> p r) \<Longrightarrow> tbl_update p f rows = rows"
  by (auto simp: tbl_update_def intro!: map_idI)

lemma cancelled_not_reserved:
  "r \<in> set (q_rows (cancel_quota res t q)) \<Longrightarrow> \<not> (qr_id r = qx_reservation_id res \<and> qr_state r = ''reserved'')"
  by (auto simp: cancel_quota_def set_tbl_update)

lemma completed_not_reserved:
  "r \<in> set (q_rows (complete_quota res u p ss t q)) \<Longrightarrow> \<not> (qr_id r = qx_reservation_id res \<and> qr_state r = ''reserved'')"
  by (auto simp: complete_quota_rows set_tbl_update)

lemma cancel_restores_rows:
  assumes "reserve_quota h fp pv prof e pool st now rid q = Inr (q', res)"
  shows "mset (scope_rows (qx_scope_key res) (cancel_quota res t q')) = mset (counted_rows h fp pv prof st now q)"
proof -
  obtain ex where q': "q' = (expire_reservations now q)\<lparr>q_rows := q_rows (expire_reservations now q) @
      [reservation_row rid (quota_scope h fp pv prof st) (lpv_provider_id pv) (quota_pool pool) e now ex]\<rparr>"
    and f: "rid \<notin> qr_id ` set (q_rows (expire_reservations now q))"
    and r: "qx_reservation_id res = rid" "qx_scope_key res = quota_scope h fp pv prof st"
    using assms by (rule reserve_quota_Inr)
  let ?r = "reservation_row rid (quota_scope h fp pv prof st) (lpv_provider_id pv) (quota_pool pool) e now ex"
  have "q_rows (cancel_quota res t q') = q_rows (expire_reservations now q) @
      [?r\<lparr>qr_state := ''cancelled'', qr_completed_at := Some t\<rparr>]"
    unfolding q' by (rule scope_rows_cancel_new [OF f r(1)]) (simp_all add: reservation_row_def)
  then show ?thesis by (simp add: scope_rows_def counted_rows_def r(2))
qed

lemma cancel_after_complete:
  "q_rows (cancel_quota res t2 (complete_quota res u p ss t1 q)) = q_rows (complete_quota res u p ss t1 q)"
  using tbl_update_none [OF completed_not_reserved] by (simp add: cancel_quota_def)

lemma complete_after_cancel:
  "q_rows (complete_quota res u p ss t2 (cancel_quota res t1 q)) = q_rows (cancel_quota res t1 q)"
  unfolding complete_quota_rows by (rule tbl_update_none) (rule cancelled_not_reserved)

lemma complete_after_complete:
  "q_rows (complete_quota res u2 p2 ss2 t2 (complete_quota res u p ss t1 q)) = q_rows (complete_quota res u p ss t1 q)"
  unfolding complete_quota_rows [of res u2] by (rule tbl_update_none) (rule completed_not_reserved)



lemma calibrated_bounds:
  "128 \<le> calibrated_output_tokens_per_domain pid q" "calibrated_output_tokens_per_domain pid q \<le> 4096"
  by (simp_all add: calibrated_output_tokens_per_domain_def Let_def)

text \<open>
  Estimates are bounded and never free: an estimate counts one request, at least one domain and
  one input token, and between 256 output tokens and the larger of 256 and the provider's output
  limit; for non-negative unit prices it is non-negative in every metric. A batch has at least one
  domain and never more than the configured number, nor than the positive cap of the profile.
\<close>

theorem estimate_and_batch_bounds:
  assumes "0 \<le> lp_input_units_per_million_tokens profile" and "0 \<le> lp_output_units_per_million_tokens profile"
  shows "(let e = estimate_provider_usage len pv profile n q in
      es_request_count e = 1 \<and> 1 \<le> es_domain_count e \<and> 1 \<le> es_input_tokens e \<and> 256 \<le> es_output_tokens e \<and>
      es_output_tokens e \<le> max 256 (max 1 (lpv_max_output_tokens pv)) \<and> estimate_nonneg e) \<and>
    (let b = maximum_provider_batch_size profile st in
      1 \<le> b \<and> b \<le> max 1 (qs_domains_per_request st) \<and>
      (0 < lp_max_domains_per_request profile \<longrightarrow> b \<le> lp_max_domains_per_request profile))"
proof (intro conjI)
  have "0 \<le> units_for_usage i out profile" for i out
    using assms by (simp add: units_for_usage_def)
  then show "let e = estimate_provider_usage len pv profile n q in
      es_request_count e = 1 \<and> 1 \<le> es_domain_count e \<and> 1 \<le> es_input_tokens e \<and> 256 \<le> es_output_tokens e \<and>
      es_output_tokens e \<le> max 256 (max 1 (lpv_max_output_tokens pv)) \<and> estimate_nonneg e"
    by (auto simp: Let_def estimate_provider_usage_def estimate_message_tokens_def estimate_nonneg_def)
  show "let b = maximum_provider_batch_size profile st in
      1 \<le> b \<and> b \<le> max 1 (qs_domains_per_request st) \<and>
      (0 < lp_max_domains_per_request profile \<longrightarrow> b \<le> lp_max_domains_per_request profile)"
    by (auto simp: Let_def maximum_provider_batch_size_def)
qed

theorem estimate_and_batch_bounds_witness:
  "estimate_nonneg (estimate_provider_usage 7000 ex_llm_provider ex_limit_profile 3 ex_quota) \<and>
   es_output_tokens (estimate_provider_usage 7000 ex_llm_provider ex_limit_profile 3 ex_quota) \<le> 1000 \<and>
   maximum_provider_batch_size ex_limit_profile ex_settings = 10"
proof -
  have p: "0 \<le> lp_input_units_per_million_tokens ex_limit_profile" "0 \<le> lp_output_units_per_million_tokens ex_limit_profile"
    and m: "max 256 (max 1 (lpv_max_output_tokens ex_llm_provider)) = 1000"
    and b: "maximum_provider_batch_size ex_limit_profile ex_settings = 10" by code_simp+
  show ?thesis using estimate_and_batch_bounds [OF p, of 7000 ex_llm_provider 3 ex_quota ex_settings] m b by (simp add: Let_def)
qed

end
