(* ===== verification/Llm.thy ===== *)
theory Llm
  imports Database Quota
begin

text \<open>
  The validation of provider answers, \<open>llm.py\<close>: extraction of the JSON object, schema validation,
  normalisation of each result into a \<open>Classification\<close>, the one-result-per-domain check and the loop
  over the output modes. A failed check is \<open>LLMResponseError\<close>; messages are not modelled.
  \<open>json.loads\<close> is the argument \<open>loads\<close>, which returns \<^const>\<open>None\<close> for \<open>JSONDecodeError\<close>; \<open>conv\<close> holds
  Python's \<open>str()\<close> on compound values and \<open>float()\<close> on strings; the answer of \<open>request_provider\<close> in
  each output mode is an argument.
\<close>

section \<open>Exceptions\<close>

text \<open>An exception with its class, its text and \<open>__cause__ or __context__\<close>. \<open>RuntimeFailed\<close> stands for
  \<open>RuntimeError\<close> and every other class that no handler singles out.\<close>

datatype exn_kind =
    QuotaUnavailable pyfloat
  | ProviderRateLimit "pyfloat option" "int option"
  | ConnectionFailed
  | TimedOut
  | HTTPFailed "int option"
  | RequestFailed
  | ValueInvalid
  | LLMResponseInvalid
  | RuntimeFailed
  | AnalysisUnavailable pyfloat
  | Cancelled

datatype pyexn = PyExn (ex_kind: exn_kind) (ex_text: string) (ex_cause: "pyexn option")

fun is_http_error :: "exn_kind \<Rightarrow> bool" where
  "is_http_error (ProviderRateLimit _ _) = True"
| "is_http_error (HTTPFailed _) = True"
| "is_http_error _ = False"

definition is_request_exception :: "exn_kind \<Rightarrow> bool" where
  "is_request_exception k \<longleftrightarrow> is_http_error k \<or> k \<in> {ConnectionFailed, TimedOut, RequestFailed}"

definition is_value_error :: "exn_kind \<Rightarrow> bool" where
  "is_value_error k \<longleftrightarrow> k \<in> {ValueInvalid, LLMResponseInvalid}"

fun http_status :: "exn_kind \<Rightarrow> int option" where
  "http_status (ProviderRateLimit _ s) = s"
| "http_status (HTTPFailed s) = s"
| "http_status _ = None"

section \<open>Python conversions of JSON values\<close>

record py_conv =
  cv_str :: "json \<Rightarrow> string"
  cv_float :: "string \<Rightarrow> pyfloat option"

fun json_truthy :: "json \<Rightarrow> bool" where
  "json_truthy JNull = False"
| "json_truthy (JBool b) = b"
| "json_truthy (JInt i) = (i \<noteq> 0)"
| "json_truthy (JFloat x) = (x \<noteq> 0)"
| "json_truthy (JStr s) = (s \<noteq> [])"
| "json_truthy (JList xs) = (xs \<noteq> [])"
| "json_truthy (JObj xs) = (xs \<noteq> [])"

text \<open>\<open>str(value)\<close>, and \<open>str(value or default)\<close> for \<open>payload.get(key)\<close>.\<close>

fun py_str :: "py_conv \<Rightarrow> json \<Rightarrow> string" where
  "py_str conv (JStr s) = s"
| "py_str conv (JInt i) = show_int i"
| "py_str conv (JBool b) = (if b then ''True'' else ''False'')"
| "py_str conv JNull = ''None''"
| "py_str conv v = cv_str conv v"

definition str_field :: "py_conv \<Rightarrow> string \<Rightarrow> json option \<Rightarrow> string" where
  "str_field conv d v = (case v of None \<Rightarrow> d | Some j \<Rightarrow> if json_truthy j then py_str conv j else d)"

text \<open>\<open>float(value)\<close>; \<^const>\<open>None\<close> is \<open>TypeError\<close> or \<open>ValueError\<close>.\<close>

fun py_float :: "py_conv \<Rightarrow> json option \<Rightarrow> pyfloat option" where
  "py_float conv (Some (JBool b)) = Some (if b then 1 else 0)"
| "py_float conv (Some (JInt i)) = Some (of_int i)"
| "py_float conv (Some (JFloat x)) = Some x"
| "py_float conv (Some (JStr s)) = cv_float conv s"
| "py_float conv _ = None"

definition bounded_int :: "py_conv \<Rightarrow> json option \<Rightarrow> int \<Rightarrow> int \<Rightarrow> int \<Rightarrow> int" where
  "bounded_int conv v lo hi d = (case py_float conv v of None \<Rightarrow> d | Some x \<Rightarrow> py_clamp lo hi (py_int x))"

definition bounded_float :: "py_conv \<Rightarrow> json option \<Rightarrow> pyfloat \<Rightarrow> pyfloat \<Rightarrow> pyfloat" where
  "bounded_float conv v lo hi = (case py_float conv v of None \<Rightarrow> lo | Some x \<Rightarrow> py_clamp lo hi x)"

definition as_bool :: "py_conv \<Rightarrow> json option \<Rightarrow> bool \<Rightarrow> bool" where
  "as_bool conv v d =
     (case v of
        Some (JBool b) \<Rightarrow> b
      | Some (JInt i) \<Rightarrow> i \<noteq> 0
      | Some (JFloat x) \<Rightarrow> x \<noteq> 0
      | _ \<Rightarrow> let n = py_lower (py_strip (str_field conv [] v)) in
          if n \<in> {''true'', ''yes'', ''1'', ''on''} then True
          else if n \<in> {''false'', ''no'', ''0'', ''off''} then False else d)"

definition normalize_policy :: "string \<Rightarrow> policy" where
  "normalize_policy v =
     (let n = py_replace (CHR '' '') (CHR ''_'') (py_lower (py_strip v)) in
      if n \<in> {''allow'', ''allowed'', ''permit'', ''permitted'', ''whitelist''} then Policy_ALLOW
      else if n \<in> {''deny'', ''denied'', ''block'', ''blocked'', ''blacklist''} then Policy_DENY
      else if n \<in> {''manual'', ''review'', ''manual_review'', ''needs_review''} then Policy_MANUAL_REVIEW
      else Policy_UNKNOWN)"

definition normalize_tag :: "py_conv \<Rightarrow> string list \<Rightarrow> json option \<Rightarrow> string" where
  "normalize_tag conv allowed v =
     (let n = py_replace (CHR '' '') (CHR ''_'') (py_lower (py_strip (str_field conv ''unknown'' v))) in
      if n \<in> set allowed then n else ''unknown'')"

definition normalize_service_role :: "py_conv \<Rightarrow> json option \<Rightarrow> service_role" where
  "normalize_service_role conv v =
     (case service_role_of (py_lower (py_strip (str_field conv ''unknown'' v))) of
        None \<Rightarrow> Role_UNKNOWN | Some r \<Rightarrow> r)"

section \<open>Schema validation\<close>

definition result_fields :: "string list" where
  "result_fields = [''domain'', ''policy'', ''category'', ''tags'', ''service'', ''service_role'', ''privacy_risk'',
     ''security_risk'', ''breakage_risk'', ''confidence'', ''needs_review'', ''review_reason'', ''recheck_after_days'',
     ''short'', ''details'']"

fun str_of :: "json option \<Rightarrow> string option" where
  "str_of (Some (JStr s)) = Some s"
| "str_of _ = None"

fun int_of :: "json option \<Rightarrow> int option" where
  "int_of (Some (JInt i)) = Some i"
| "int_of _ = None"

definition configured_tags :: "string list \<Rightarrow> string list" where
  "configured_tags tags = map (py_lower \<circ> py_strip) (filter (\<lambda>t. py_strip t \<noteq> []) tags)"

definition valid_tags :: "string list \<Rightarrow> string \<Rightarrow> json option \<Rightarrow> bool" where
  "valid_tags allowed category v =
     (case v of
        Some (JList js) \<Rightarrow> js \<noteq> [] \<and> list_all (\<lambda>j. case str_of (Some j) of None \<Rightarrow> False | Some t \<Rightarrow> t \<in> set allowed) js \<and>
          distinct js \<and> JStr category \<in> set js
      | _ \<Rightarrow> False)"

definition int_in_range :: "int \<Rightarrow> int \<Rightarrow> json option \<Rightarrow> bool" where
  "int_in_range lo hi v = (case int_of v of None \<Rightarrow> False | Some i \<Rightarrow> lo \<le> i \<and> i \<le> hi)"

definition valid_confidence :: "json option \<Rightarrow> bool" where
  "valid_confidence v =
     (case v of Some (JInt i) \<Rightarrow> 0 \<le> i \<and> i \<le> 1 | Some (JFloat x) \<Rightarrow> 0 \<le> x \<and> x \<le> 1 | _ \<Rightarrow> False)"

definition valid_result_types :: "string list \<Rightarrow> jobj \<Rightarrow> bool" where
  "valid_result_types allowed item =
     (let get = map_of item in
      list_all (\<lambda>f. str_of (get f) \<noteq> None)
        [''domain'', ''policy'', ''category'', ''service'', ''service_role'', ''review_reason'', ''short'', ''details''] \<and>
      py_strip (the (str_of (get ''domain''))) \<noteq> [] \<and>
      the (str_of (get ''policy'')) \<in> {''allow'', ''deny'', ''manual_review''} \<and>
      the (str_of (get ''category'')) \<in> set allowed \<and>
      the (str_of (get ''service_role'')) \<in> {''core'', ''optional'', ''shared'', ''unknown''} \<and>
      valid_tags allowed (the (str_of (get ''category''))) (get ''tags'') \<and>
      list_all (\<lambda>f. int_in_range 0 100 (get f)) [''privacy_risk'', ''security_risk'', ''breakage_risk''] \<and>
      valid_confidence (get ''confidence'') \<and>
      (case get ''needs_review'' of Some (JBool _) \<Rightarrow> True | _ \<Rightarrow> False) \<and>
      int_in_range 1 3650 (get ''recheck_after_days''))"

definition valid_result :: "string list \<Rightarrow> json \<Rightarrow> bool" where
  "valid_result allowed v =
     (case v of JObj item \<Rightarrow> set (map fst item) = set result_fields \<and> valid_result_types allowed item | _ \<Rightarrow> False)"

definition valid_schema_version :: "json option \<Rightarrow> bool" where
  "valid_schema_version v = (case v of Some (JInt i) \<Rightarrow> i = 1 | Some (JFloat x) \<Rightarrow> x = 1 | _ \<Rightarrow> False)"

text \<open>\<open>_validate_batch_payload\<close>: \<^const>\<open>None\<close> when it raises, otherwise the array of results.\<close>

definition validate_batch_payload :: "string list \<Rightarrow> jobj \<Rightarrow> json list option" where
  "validate_batch_payload tags payload =
     (if set (map fst payload) \<noteq> {''schema_version'', ''results''} then None
      else if \<not> valid_schema_version (map_of payload ''schema_version'') then None
      else case map_of payload ''results'' of
        Some (JList items) \<Rightarrow>
          if list_all (valid_result (''unknown'' # configured_tags tags)) items then Some items else None
      | _ \<Rightarrow> None)"

section \<open>One classification\<close>

text \<open>The fields of \<open>LLMOptions\<close> and \<open>LLMProviderOptions\<close> that only this module reads.\<close>

record parse_options =
  po_tags :: "string list"
  po_review_confidence_threshold :: pyfloat
  po_default_recheck_days :: int

definition allowed_tag_list :: "string list \<Rightarrow> string list" where
  "allowed_tag_list tags =
     (let allowed = fromkeys (configured_tags tags) in if ''unknown'' \<in> set allowed then allowed else allowed @ [''unknown''])"

definition raw_tag_values :: "json option \<Rightarrow> json list" where
  "raw_tag_values v =
     (case v of Some (JStr s) \<Rightarrow> map JStr (py_split (CHR '','') (py_replace (CHR '';'') (CHR '','') s))
      | Some (JList js) \<Rightarrow> js | _ \<Rightarrow> [])"

definition classification_tags :: "py_conv \<Rightarrow> string list \<Rightarrow> string \<Rightarrow> json option \<Rightarrow> string list" where
  "classification_tags conv allowed category v =
     (let tags = fromkeys (filter (\<lambda>t. t \<noteq> ''unknown'') (map (\<lambda>j. normalize_tag conv allowed (Some j)) (raw_tag_values v)));
          tags1 = (if category \<in> set tags then tags else category # tags)
      in if tags1 = [] then [''unknown''] else tags1)"

definition text_or :: "string \<Rightarrow> string \<Rightarrow> string \<Rightarrow> string \<times> string" where
  "text_or short0 details0 raw =
     (let short = (if short0 = [] then str_or (take 180 details0) (take 180 raw) else short0);
          details = (if details0 = [] then str_or short raw else details0)
      in (short, details))"

definition classification_from_payload ::
  "py_conv \<Rightarrow> parse_options \<Rightarrow> string list \<Rightarrow> string \<Rightarrow> string \<Rightarrow> string \<Rightarrow> jobj \<Rightarrow> classification" where
  "classification_from_payload conv opts tags domain provider raw payload =
     (let get = map_of payload;
          allowed = allowed_tag_list tags;
          category = normalize_tag conv allowed (get ''category'');
          (short, details) = text_or (take 500 (py_strip (str_field conv [] (get ''short''))))
            (py_strip (str_field conv [] (get ''details''))) raw;
          confidence = bounded_float conv (get ''confidence'') 0 1;
          breakage = bounded_int conv (get ''breakage_risk'') 0 100 50;
          reason0 = py_strip (str_field conv [] (get ''review_reason''));
          needs0 = as_bool conv (get ''needs_review'') True;
          low = confidence < po_review_confidence_threshold opts;
          reason1 = (if low then str_or reason0 ''Classification confidence is below the configured threshold.'' else reason0);
          role = normalize_service_role conv (get ''service_role'');
          risky = (role \<in> {Role_CORE, Role_SHARED} \<and> 50 \<le> breakage);
          reason2 = (if risky then str_or reason1 ''Blocking may affect a core or shared service.'' else reason1)
      in \<lparr>c_domain = normalize_domain domain, c_policy = normalize_policy (str_field conv [] (get ''policy'')),
          c_category = category, c_short = short, c_details = details, c_provider = provider,
          c_tags = classification_tags conv allowed category (get ''tags''),
          c_service = py_strip (str_field conv [] (get ''service'')), c_service_role = role,
          c_privacy_risk = bounded_int conv (get ''privacy_risk'') 0 100 0,
          c_security_risk = bounded_int conv (get ''security_risk'') 0 100 0, c_breakage_risk = breakage,
          c_confidence = confidence, c_needs_review = (needs0 \<or> low \<or> risky), c_review_reason = reason2,
          c_recheck_after_days = bounded_int conv (get ''recheck_after_days'') 1 3650 (po_default_recheck_days opts),
          c_raw_text = raw\<rparr>)"

section \<open>Finding the JSON object\<close>

text \<open>The regular expression for a fenced block: three backticks, optionally \<open>json\<close>, white space, the
  shortest braced text that is followed by white space and three backticks.\<close>

definition backticks :: string where
  "backticks = replicate 3 (CHR 0x60)"

fun fence_close :: "string \<Rightarrow> string \<Rightarrow> string option" where
  "fence_close acc [] = None"
| "fence_close acc (c # cs) =
     (if c = CHR ''}'' \<and> py_startswith backticks (dropWhile py_isspace cs) then Some (rev (c # acc))
      else fence_close (c # acc) cs)"

definition fenced_at :: "string \<Rightarrow> string option" where
  "fenced_at s =
     (let t = (if py_lower (take 4 s) = ''json'' then drop 4 s else s) in
      case dropWhile py_isspace t of
        [] \<Rightarrow> None | c # cs \<Rightarrow> if c = CHR ''{'' then fence_close [c] cs else None)"

fun fenced :: "string \<Rightarrow> string option" where
  "fenced [] = None"
| "fenced (c # cs) =
     (case (if py_startswith backticks (c # cs) then fenced_at (drop 3 (c # cs)) else None) of
        Some body \<Rightarrow> Some body | None \<Rightarrow> fenced cs)"

definition braced :: "string \<Rightarrow> string option" where
  "braced text =
     (let s = dropWhile (\<lambda>c. c \<noteq> CHR ''{'') text in
      if CHR ''}'' \<in> set s then Some (rstrip_by (\<lambda>c. c \<noteq> CHR ''}'') s) else None)"

fun first_object :: "(string \<Rightarrow> json option) \<Rightarrow> string list \<Rightarrow> jobj option" where
  "first_object loads [] = None"
| "first_object loads (s # ss) = (case loads s of Some (JObj p) \<Rightarrow> Some p | _ \<Rightarrow> first_object loads ss)"

fun opt_list :: "'a option \<Rightarrow> 'a list" where
  "opt_list None = []"
| "opt_list (Some x) = [x]"

definition parse_json_object :: "(string \<Rightarrow> json option) \<Rightarrow> string \<Rightarrow> jobj option" where
  "parse_json_object loads text = first_object loads (opt_list (fenced text) @ [text] @ opt_list (braced text))"

section \<open>A batch answer\<close>

definition item_domain :: "py_conv \<Rightarrow> string list \<Rightarrow> jobj \<Rightarrow> string" where
  "item_domain conv expected item =
     (let d = normalize_domain (str_field conv [] (map_of item ''domain'')) in
      if length expected = 1 \<and> d = [] then hd expected else d)"

text \<open>The loop over the results; \<open>parsed\<close> is the dictionary \<open>parsed_by_domain\<close>.\<close>

fun parse_items ::
  "py_conv \<Rightarrow> parse_options \<Rightarrow> string list \<Rightarrow> string \<Rightarrow> string \<Rightarrow> string list \<Rightarrow> json list \<Rightarrow>
    (string, classification) dict \<Rightarrow> (string, classification) dict option" where
  "parse_items conv opts tags provider raw expected [] parsed = Some parsed"
| "parse_items conv opts tags provider raw expected (JObj item # items) parsed =
     (let d = item_domain conv expected item in
      if d \<notin> set expected \<or> d \<in> set (map fst parsed) then None
      else parse_items conv opts tags provider raw expected items
        (parsed @ [(d, classification_from_payload conv opts tags d provider raw item)]))"
| "parse_items conv opts tags provider raw expected (_ # items) parsed = None"

definition parse_batch_classifications ::
  "(string \<Rightarrow> json option) \<Rightarrow> py_conv \<Rightarrow> parse_options \<Rightarrow> string \<Rightarrow> string list \<Rightarrow> string list \<Rightarrow> string \<Rightarrow>
    classification list option" where
  "parse_batch_classifications loads conv opts text expected_domains tags provider =
     (let raw = py_strip text in
      if raw = [] then None
      else case parse_json_object loads raw of None \<Rightarrow> None
      | Some payload \<Rightarrow>
        (case validate_batch_payload tags payload of None \<Rightarrow> None
         | Some items \<Rightarrow>
             let expected = map normalize_domain expected_domains in
             (case parse_items conv opts tags provider raw expected items [] of None \<Rightarrow> None
              | Some parsed \<Rightarrow>
                  if list_all (\<lambda>d. map_of parsed d \<noteq> None) expected
                  then Some (map (\<lambda>d. the (map_of parsed d)) expected) else None)))"

section \<open>The request loop\<close>

record provider_response =
  resp_text :: string
  resp_usage :: provider_usage
  resp_latency_ms :: int

record batch_result =
  cb_classifications :: "classification list"
  cb_response :: provider_response

definition structured_modes :: "string \<Rightarrow> string list" where
  "structured_modes mode =
     (let n = py_lower (py_strip mode) in
      if n = ''auto'' then [''json_schema'', ''json_object'', ''prompt_only'']
      else if n \<in> {''json_schema'', ''json_object'', ''prompt_only''} then [n] else [''prompt_only''])"

definition can_try_output_mode_fallback :: "exn_kind \<Rightarrow> bool" where
  "can_try_output_mode_fallback k =
     (if is_http_error k then http_status k \<in> {Some 400, Some 404, Some 415, Some 422}
      else if is_request_exception k then False else is_value_error k)"

text \<open>\<open>request mode\<close> is what \<open>request_provider\<close> returns or raises when it is called with the response
  format of the mode. \<open>last_error\<close> is the exception of the previous mode.\<close>

fun try_modes ::
  "(string \<Rightarrow> pyexn + provider_response) \<Rightarrow> (string \<Rightarrow> classification list option) \<Rightarrow> string list \<Rightarrow> pyexn + batch_result" where
  "try_modes request parse [] = Inl (PyExn RuntimeFailed ''LLM request failed: None'' None)"
| "try_modes request parse (mode # modes) =
     (let outcome = (case request mode of
          Inl e \<Rightarrow> Inl e
        | Inr r \<Rightarrow> (case parse (resp_text r) of
             None \<Rightarrow> Inl (PyExn LLMResponseInvalid ''LLM response rejected'' None)
           | Some cs \<Rightarrow> Inr \<lparr>cb_classifications = cs, cb_response = r\<rparr>))
      in case outcome of
        Inr b \<Rightarrow> Inr b
      | Inl e \<Rightarrow>
          if \<not> (is_request_exception (ex_kind e) \<or> is_value_error (ex_kind e)) then Inl e
          else if modes = [] \<or> \<not> can_try_output_mode_fallback (ex_kind e)
          then Inl (PyExn RuntimeFailed (''LLM request failed: '' @ ex_text e) (Some e))
          else try_modes request parse modes)"

definition classify_domains_with_metadata ::
  "(string \<Rightarrow> json option) \<Rightarrow> py_conv \<Rightarrow> parse_options \<Rightarrow> (string \<Rightarrow> pyexn + provider_response) \<Rightarrow> llm_provider \<Rightarrow>
    string list \<Rightarrow> pyexn + batch_result" where
  "classify_domains_with_metadata loads conv opts request provider domains =
     (let normalized = fromkeys (map normalize_domain (filter (\<lambda>d. py_strip d \<noteq> []) domains)) in
      if normalized = [] then Inl (PyExn ValueInvalid ''At least one domain is required for provider analysis.'' None)
      else if py_strip (lpv_base_url provider) = [] then Inl (PyExn RuntimeFailed ''no base URL configured'' None)
      else if py_strip (lpv_model provider) = [] then Inl (PyExn RuntimeFailed ''no model configured'' None)
      else try_modes request (\<lambda>text. parse_batch_classifications loads conv opts text normalized (po_tags opts) (lpv_name provider))
        (if lpv_api_style provider = ''anthropic_messages'' then [''prompt_only'']
         else structured_modes (lpv_structured_output provider)))"

section \<open>What an accepted answer contains\<close>

definition classification_ok :: "classification \<Rightarrow> bool" where
  "classification_ok c \<longleftrightarrow>
     0 \<le> c_privacy_risk c \<and> c_privacy_risk c \<le> 100 \<and> 0 \<le> c_security_risk c \<and> c_security_risk c \<le> 100 \<and>
     0 \<le> c_breakage_risk c \<and> c_breakage_risk c \<le> 100 \<and> 0 \<le> c_confidence c \<and> c_confidence c \<le> 1 \<and>
     c_tags c \<noteq> [] \<and> distinct (c_tags c) \<and> c_category c \<in> set (c_tags c)"

lemma bounded_int_bounds:
  "lo \<le> hi \<Longrightarrow> lo \<le> d \<Longrightarrow> d \<le> hi \<Longrightarrow> lo \<le> bounded_int conv v lo hi d \<and> bounded_int conv v lo hi d \<le> hi"
  by (simp add: bounded_int_def py_clamp_def split: option.split)

lemma bounded_float_bounds: "lo \<le> hi \<Longrightarrow> lo \<le> bounded_float conv v lo hi \<and> bounded_float conv v lo hi \<le> hi"
  by (simp add: bounded_float_def py_clamp_def split: option.split)

lemma classification_tags_ok:
  "classification_tags conv allowed category v \<noteq> []" "distinct (classification_tags conv allowed category v)"
  "category \<in> set (classification_tags conv allowed category v)"
  by (auto simp: classification_tags_def Let_def filter_empty_conv)

lemma payload_classification_ok: "classification_ok (classification_from_payload conv opts tags d pv raw payload)"
  unfolding classification_ok_def classification_from_payload_def Let_def
  using bounded_int_bounds [of 0 100 0] bounded_int_bounds [of 0 100 50] bounded_float_bounds [of 0 1]
  by (auto simp: classification_tags_ok split: prod.split)

lemma payload_review_guards:
  assumes "c = classification_from_payload conv opts tags d pv raw payload"
  shows "c_domain c = normalize_domain d" and "c_provider c = pv"
    and "c_confidence c < po_review_confidence_threshold opts \<Longrightarrow> c_needs_review c"
    and "c_service_role c \<in> {Role_CORE, Role_SHARED} \<Longrightarrow> 50 \<le> c_breakage_risk c \<Longrightarrow> c_needs_review c"
  using assms by (auto simp: classification_from_payload_def Let_def split: prod.splits)

lemma parse_items_Some:
  "parse_items conv opts tags pv raw expected (map JObj objs) parsed = Some out \<longleftrightarrow>
    out = parsed @ map (\<lambda>p. (item_domain conv expected p,
      classification_from_payload conv opts tags (item_domain conv expected p) pv raw p)) objs \<and>
    set (map (item_domain conv expected) objs) \<subseteq> set expected - set (map fst parsed) \<and>
    distinct (map (item_domain conv expected) objs)"
  by (induction objs arbitrary: parsed) (auto simp: Let_def image_iff)

lemma validated_items: "validate_batch_payload tags payload = Some items \<Longrightarrow> \<exists>objs. items = map JObj objs"
proof -
  assume "validate_batch_payload tags payload = Some items"
  then have "list_all (valid_result (''unknown'' # configured_tags tags)) items"
    by (auto simp: validate_batch_payload_def split: if_splits option.splits json.splits)
  moreover have "\<exists>p. x = JObj p" if "valid_result a x" for a x using that by (cases x) (auto simp: valid_result_def)
  ultimately have "\<forall>x\<in>set items. \<exists>p. x = JObj p" by (auto simp: list_all_iff)
  then show ?thesis by (simp add: ex_map_conv)
qed

text \<open>An accepted answer, spelled out.\<close>

lemma parse_batch_Some:
  assumes "parse_batch_classifications loads conv opts text domains tags pv = Some cs"
  shows "\<exists>objs. list_all2 (\<lambda>d c. \<exists>p\<in>set objs. c = classification_from_payload conv opts tags d pv (py_strip text) p)
    (map normalize_domain domains) cs"
proof -
  let ?e = "map normalize_domain domains"
  let ?d = "item_domain conv ?e" and ?raw = "py_strip text"
  let ?c = "\<lambda>d p. classification_from_payload conv opts tags d pv ?raw p"
  obtain payload items parsed where p: "parse_json_object loads ?raw = Some payload"
    and v: "validate_batch_payload tags payload = Some items"
    and s: "parse_items conv opts tags pv ?raw ?e items [] = Some parsed"
    and all: "list_all (\<lambda>d. map_of parsed d \<noteq> None) ?e" and cs: "cs = map (\<lambda>d. the (map_of parsed d)) ?e"
    using assms by (auto simp: parse_batch_classifications_def Let_def split: if_splits option.splits)
  obtain objs where items: "items = map JObj objs" using validated_items [OF v] by blast
  then have parsed: "parsed = map (\<lambda>p. (?d p, ?c (?d p) p)) objs"
    and sub: "set (map ?d objs) \<subseteq> set ?e" and dist: "distinct (map ?d objs)"
    using s parse_items_Some [of conv opts tags pv ?raw ?e objs "[]" parsed] by auto
  have keys: "map fst parsed = map ?d objs" unfolding parsed by (simp add: comp_def)
  have "set ?e \<subseteq> fst ` set parsed" using all by (auto simp: list_all_iff map_of_eq_None_iff)
  then have eq: "set (map ?d objs) = set ?e" using sub keys by (metis list.set_map subset_antisym)
  have m: "map_of (map (\<lambda>p. (?d p, ?c (?d p) p)) objs) (?d p) = Some (?c (?d p) p)" if "p \<in> set objs" for p
    using that dist keys unfolding parsed by (intro map_of_is_SomeI) (auto simp: comp_def)
  have "\<exists>p\<in>set objs. the (map_of parsed d) = ?c d p" if "d \<in> set ?e" for d
  proof -
    obtain p where p: "p \<in> set objs" "d = ?d p" using \<open>d \<in> set ?e\<close> eq by (metis imageE list.set_map)
    then show ?thesis using m [OF p(1)] parsed by auto
  qed
  then have "list_all2 (\<lambda>d c. \<exists>p\<in>set objs. c = ?c d p) ?e cs"
    unfolding cs by (auto simp: list_all2_conv_all_nth)
  then show ?thesis by blast
qed

lemma parse_batch_domains:
  assumes "parse_batch_classifications loads conv opts text domains tags pv = Some cs"
    and "\<And>d. d \<in> set domains \<Longrightarrow> normalize_domain d = d"
  shows "map c_domain cs = domains"
proof -
  have id: "map normalize_domain domains = domains" using assms(2) by (simp add: map_idI)
  obtain objs where "list_all2 (\<lambda>d c. \<exists>p\<in>set objs. c = classification_from_payload conv opts tags d pv (py_strip text) p)
      domains cs"
    using parse_batch_Some [OF assms(1)] unfolding id by blast
  then show ?thesis using assms(2)
  proof (induction rule: list_all2_induct)
    case (Cons d ds c cs)
    then obtain p where "c = classification_from_payload conv opts tags d pv (py_strip text) p" by blast
    with Cons payload_review_guards(1) [OF this] show ?case by simp
  qed simp
qed

lemma parse_batch_members:
  assumes "parse_batch_classifications loads conv opts text domains tags pv = Some cs" and "c \<in> set cs"
  obtains d p where "c = classification_from_payload conv opts tags d pv (py_strip text) p"
  using parse_batch_Some [OF assms(1)] assms(2) that by (auto simp: in_set_conv_nth list_all2_conv_all_nth)

lemma parse_batch_None_iff:
  assumes "py_strip text \<noteq> []" and "parse_json_object loads (py_strip text) = Some payload"
    and "validate_batch_payload tags payload = Some (map JObj objs)"
  shows "parse_batch_classifications loads conv opts text domains tags pv \<noteq> None \<longleftrightarrow>
    distinct (map (item_domain conv (map normalize_domain domains)) objs) \<and>
    set (map (item_domain conv (map normalize_domain domains)) objs) = set (map normalize_domain domains)"
proof -
  let ?e = "map normalize_domain domains"
  let ?d = "item_domain conv ?e"
  let ?out = "map (\<lambda>p. (?d p, classification_from_payload conv opts tags (?d p) pv (py_strip text) p)) objs"
  have dom: "map_of ?out d \<noteq> None \<longleftrightarrow> d \<in> set (map ?d objs)" for d
    by (simp add: map_of_eq_None_iff image_image)
  show ?thesis
  proof (cases "set (map ?d objs) \<subseteq> set ?e \<and> distinct (map ?d objs)")
    case True
    then have "parse_items conv opts tags pv (py_strip text) ?e (map JObj objs) [] = Some ?out"
      by (simp only: parse_items_Some) simp
    then show ?thesis using True assms dom
      by (auto simp: parse_batch_classifications_def Let_def list_all_iff)
  next
    case False
    then have "parse_items conv opts tags pv (py_strip text) ?e (map JObj objs) [] = None"
      using parse_items_Some [of conv opts tags pv "py_strip text" ?e objs "[]"]
      by (cases "parse_items conv opts tags pv (py_strip text) ?e (map JObj objs) []") auto
    then show ?thesis using False assms by (auto simp: parse_batch_classifications_def Let_def)
  qed
qed

definition ex_parse_options :: parse_options where
  "ex_parse_options = \<lparr>po_tags = [''ads'', ''cdn''], po_review_confidence_threshold = 3 / 4, po_default_recheck_days = 30\<rparr>"

definition ex_conv :: py_conv where
  "ex_conv = \<lparr>cv_str = (\<lambda>_. ''?''), cv_float = (\<lambda>_. None)\<rparr>"

definition ex_item :: "string \<Rightarrow> jobj" where
  "ex_item d = [(''domain'', JStr d), (''policy'', JStr ''deny''), (''category'', JStr ''ads''), (''tags'', JList [JStr ''ads'']),
     (''service'', JStr ''s''), (''service_role'', JStr ''core''), (''privacy_risk'', JInt 70), (''security_risk'', JInt 10),
     (''breakage_risk'', JInt 60), (''confidence'', JFloat (9 / 10)), (''needs_review'', JBool False), (''review_reason'', JStr []),
     (''recheck_after_days'', JInt 30), (''short'', JStr ''x''), (''details'', JStr ''y'')]"

definition ex_loads :: "string \<Rightarrow> json option" where
  "ex_loads s = (if s = ''{}'' then Some (JObj [(''schema_version'', JInt 1),
     (''results'', JList [JObj (ex_item ''b.com''), JObj (ex_item ''A.com.'')])]) else None)"

text \<open>
  C16. An accepted answer classifies exactly the requested domains, in the order of the request. Every
  classification has risks from 0 to 100, a confidence from 0 to 1 and a duplicate-free, non-empty tag
  list that contains its category; it asks for review when its confidence is below the threshold and
  when it would block a core or shared service with a breakage risk of 50 or more. This holds for
  every text that the provider may return.
\<close>

theorem accepted_answer_is_exact:
  assumes "parse_batch_classifications loads conv opts text domains tags pv = Some cs"
    and "\<forall>d\<in>set domains. normalize_domain d = d"
  shows "map c_domain cs = domains \<and>
    (\<forall>c\<in>set cs. classification_ok c \<and> c_provider c = pv \<and>
       (c_confidence c < po_review_confidence_threshold opts \<longrightarrow> c_needs_review c) \<and>
       (c_service_role c \<in> {Role_CORE, Role_SHARED} \<and> 50 \<le> c_breakage_risk c \<longrightarrow> c_needs_review c))"
proof (intro conjI ballI)
  show "map c_domain cs = domains" using parse_batch_domains [OF assms(1)] assms(2) by blast
  fix c assume "c \<in> set cs"
  then obtain d p where c: "c = classification_from_payload conv opts tags d pv (py_strip text) p"
    using parse_batch_members [OF assms(1)] by blast
  then show "classification_ok c" using payload_classification_ok by simp
  show "c_provider c = pv" "c_confidence c < po_review_confidence_threshold opts \<longrightarrow> c_needs_review c"
    "c_service_role c \<in> {Role_CORE, Role_SHARED} \<and> 50 \<le> c_breakage_risk c \<longrightarrow> c_needs_review c"
    using payload_review_guards [OF c] by blast+
qed

lemma ex_parsed:
  "map_option (map (\<lambda>c. (c_domain c, c_policy c, c_needs_review c)))
     (parse_batch_classifications ex_loads ex_conv ex_parse_options ''{}'' [''a.com'', ''b.com''] [''ads'', ''cdn''] ''p'') =
   Some [(''a.com'', Policy_DENY, True), (''b.com'', Policy_DENY, True)]"
  by code_simp

theorem accepted_answer_is_exact_witness:
  "\<exists>cs. parse_batch_classifications ex_loads ex_conv ex_parse_options ''{}'' [''a.com'', ''b.com''] [''ads'', ''cdn''] ''p'' = Some cs \<and>
     map c_domain cs = [''a.com'', ''b.com''] \<and> list_all classification_ok cs \<and> list_all c_needs_review cs"
proof -
  obtain cs where cs: "parse_batch_classifications ex_loads ex_conv ex_parse_options ''{}'' [''a.com'', ''b.com''] [''ads'', ''cdn''] ''p'' = Some cs"
    and m: "map (\<lambda>c. (c_domain c, c_policy c, c_needs_review c)) cs = [(''a.com'', Policy_DENY, True), (''b.com'', Policy_DENY, True)]"
    using ex_parsed by (auto simp: map_option_eq_Some)
  have n: "\<forall>d\<in>set [''a.com'', ''b.com'']. normalize_domain d = d" by code_simp
  have "list_all c_needs_review cs" using m by (auto simp: list_all_iff map_eq_Cons_conv)
  with accepted_answer_is_exact [OF cs n] cs show ?thesis by (auto simp: list_all_iff)
qed

text \<open>
  An answer whose JSON passes the schema is accepted exactly when it has one result for every
  requested domain and none besides: a duplicate, an unexpected domain or a missing one rejects the
  whole answer.
\<close>

theorem answer_accepted_iff_one_result_each:
  assumes "py_strip text \<noteq> []" and "parse_json_object loads (py_strip text) = Some payload"
    and "validate_batch_payload tags payload = Some (map JObj objs)"
  shows "parse_batch_classifications loads conv opts text domains tags pv \<noteq> None \<longleftrightarrow>
    distinct (map (item_domain conv (map normalize_domain domains)) objs) \<and>
    set (map (item_domain conv (map normalize_domain domains)) objs) = set (map normalize_domain domains)"
  by (rule parse_batch_None_iff [OF assms])

theorem answer_accepted_iff_one_result_each_witness:
  "parse_batch_classifications ex_loads ex_conv ex_parse_options ''{}'' [''b.com'', ''A.com''] [''ads'', ''cdn''] ''p'' \<noteq> None \<and>
   parse_batch_classifications ex_loads ex_conv ex_parse_options ''{}'' [''b.com''] [''ads'', ''cdn''] ''p'' = None \<and>
   parse_batch_classifications ex_loads ex_conv ex_parse_options ''{}'' [''b.com'', ''a.com'', ''c.com''] [''ads'', ''cdn''] ''p'' = None"
proof -
  have s: "py_strip ''{}'' \<noteq> []" and p: "parse_json_object ex_loads (py_strip ''{}'') = Some [(''schema_version'', JInt 1),
      (''results'', JList [JObj (ex_item ''b.com''), JObj (ex_item ''A.com.'')])]"
    and v: "validate_batch_payload [''ads'', ''cdn''] [(''schema_version'', JInt 1),
      (''results'', JList [JObj (ex_item ''b.com''), JObj (ex_item ''A.com.'')])] =
      Some (map JObj [ex_item ''b.com'', ex_item ''A.com.''])"
    by code_simp+
  note a = answer_accepted_iff_one_result_each [OF s p v, of ex_conv ex_parse_options _ "''p''"]
  have d: "map (item_domain ex_conv [''b.com'', ''a.com'']) [ex_item ''b.com'', ex_item ''A.com.''] = [''b.com'', ''a.com'']"
    "map normalize_domain [''b.com'', ''A.com''] = [''b.com'', ''a.com'']"
    "map (item_domain ex_conv [''b.com'']) [ex_item ''b.com'', ex_item ''A.com.''] = [''b.com'', ''a.com'']"
    "map normalize_domain [''b.com''] = [''b.com'']"
    "map (item_domain ex_conv [''b.com'', ''a.com'', ''c.com'']) [ex_item ''b.com'', ex_item ''A.com.''] = [''b.com'', ''a.com'']"
    "map normalize_domain [''b.com'', ''a.com'', ''c.com''] = [''b.com'', ''a.com'', ''c.com'']"
    by code_simp+
  have "parse_batch_classifications ex_loads ex_conv ex_parse_options ''{}'' [''b.com'', ''A.com''] [''ads'', ''cdn''] ''p'' \<noteq> None"
    unfolding a d by simp
  moreover have "\<not> parse_batch_classifications ex_loads ex_conv ex_parse_options ''{}'' [''b.com''] [''ads'', ''cdn''] ''p'' \<noteq> None"
    unfolding a d by simp
  moreover have "\<not> parse_batch_classifications ex_loads ex_conv ex_parse_options ''{}'' [''b.com'', ''a.com'', ''c.com''] [''ads'', ''cdn''] ''p'' \<noteq> None"
    unfolding a d by (simp add: set_eq_subset)
  ultimately show ?thesis by simp
qed

section \<open>The request loop returns what was accepted\<close>

lemma try_modes_Inr:
  "try_modes request parse modes = Inr b \<Longrightarrow> parse (resp_text (cb_response b)) = Some (cb_classifications b)"
proof (induction modes)
  case (Cons m ms)
  then show ?case by (auto simp: Let_def split: sum.splits option.splits if_splits)
qed simp

lemma normalized_requests:
  assumes "\<forall>d\<in>set domains. normalize_domain d = d \<and> py_strip d \<noteq> []" and "distinct domains"
  shows "fromkeys (map normalize_domain (filter (\<lambda>d. py_strip d \<noteq> []) domains)) = domains"
proof -
  have "filter (\<lambda>d. py_strip d \<noteq> []) domains = domains" "map normalize_domain domains = domains"
    using assms(1) by (auto simp: filter_id_conv map_idI)
  then show ?thesis using assms(2) by (simp add: fromkeys_id)
qed

lemma classify_exact:
  assumes "classify_domains_with_metadata loads conv opts request provider domains = Inr b"
    and "\<forall>d\<in>set domains. normalize_domain d = d \<and> py_strip d \<noteq> []" and "distinct domains"
  shows "map c_domain (cb_classifications b) = domains"
proof -
  have "parse_batch_classifications loads conv opts (resp_text (cb_response b)) domains (po_tags opts) (lpv_name provider) =
      Some (cb_classifications b)"
    using assms(1) normalized_requests [OF assms(2,3)]
    by (auto simp: classify_domains_with_metadata_def Let_def simp del: try_modes.simps dest!: try_modes_Inr split: if_splits)
  then show ?thesis using parse_batch_domains assms(2) by blast
qed

end
