(* ===== verification/Analysis_Store.thy ===== *)
theory Analysis_Store
  imports Database
begin

text \<open>
  The tables of the analysis layer and their operations, \<open>database_analysis.py\<close>: analysis runs, the
  health record of every provider, and model benchmark runs with their results.
  \<open>uuid4().hex\<close> is the argument \<open>rid\<close> and \<open>time.time()\<close> the argument \<open>now\<close>. A JSON column holds the
  value whose text is stored. Each operation is one transaction.
\<close>

section \<open>Tables\<close>

record analysis_run =
  an_id :: string
  an_pool_id :: string
  an_mode :: string
  an_source :: string
  an_dossier_hash :: string
  an_status :: string
  an_error :: string
  an_created_at :: int
  an_completed_at :: "int option"

record health_row =
  hr_state :: provider_health_state
  hr_updated_at :: pyfloat

record benchmark_run =
  bn_id :: string
  bn_domain :: string
  bn_pool_id :: string
  bn_dossier :: json
  bn_dossier_hash :: string
  bn_status :: string
  bn_error :: string
  bn_created_at :: int
  bn_completed_at :: "int option"

record benchmark_result =
  br_id :: int
  br_run_id :: string
  br_provider_id :: string
  br_provider_name :: string
  br_model :: string
  br_status :: string
  br_error :: string
  br_latency_ms :: int
  br_input_tokens :: int
  br_output_tokens :: int
  br_classification :: json
  br_raw_text :: string
  br_created_at :: int

record analysis_db =
  a_runs :: "analysis_run list"
  a_health :: "health_row list"
  a_benchmarks :: "benchmark_run list"
  a_results :: "benchmark_result list"

definition health_key :: "health_row \<Rightarrow> string" where
  "health_key r = ph_provider_id (hr_state r)"

interpretation health_table: keyed_table health_key "tbl_keys_ok health_key" "tbl_get health_key"
  "tbl_upsert health_key" "\<lambda>k. tbl_delete (\<lambda>r. health_key r = k)"
  by (rule keyed_table_list)

interpretation analysis_run_table: keyed_table an_id "tbl_keys_ok an_id" "tbl_get an_id"
  "tbl_upsert an_id" "\<lambda>k. tbl_delete (\<lambda>r. an_id r = k)"
  by (rule keyed_table_list)

section \<open>Analysis runs\<close>

definition analysis_run_start ::
  "string \<Rightarrow> string \<Rightarrow> string \<Rightarrow> string \<Rightarrow> string \<Rightarrow> pyfloat \<Rightarrow> analysis_db \<Rightarrow> exn + analysis_db" where
  "analysis_run_start rid pool_id mode source dossier_hash now a =
     (if rid \<in> set (map an_id (a_runs a)) then Inl IntegrityError
      else Inr (a\<lparr>a_runs := a_runs a @
        [\<lparr>an_id = rid, an_pool_id = py_lower (py_strip pool_id), an_mode = py_lower (py_strip mode),
          an_source = py_strip source, an_dossier_hash = py_strip dossier_hash, an_status = ''running'',
          an_error = [], an_created_at = py_int now, an_completed_at = None\<rparr>]\<rparr>))"

definition finish_status :: "string \<Rightarrow> string \<Rightarrow> string" where
  "finish_status status error =
     (let s = py_lower (py_strip status) in
      if s \<in> {''completed'', ''completed_with_errors'', ''failed'', ''cancelled''} then s
      else if error \<noteq> [] then ''failed'' else ''completed'')"

definition analysis_run_finish :: "string \<Rightarrow> string \<Rightarrow> string \<Rightarrow> pyfloat \<Rightarrow> analysis_db \<Rightarrow> analysis_db" where
  "analysis_run_finish rid error status now a =
     a\<lparr>a_runs := tbl_update (\<lambda>r. an_id r = rid)
         (\<lambda>r. r\<lparr>an_status := finish_status status error, an_error := take 2000 error,
                an_completed_at := Some (py_int now)\<rparr>) (a_runs a)\<rparr>"

definition analysis_run_get :: "string \<Rightarrow> analysis_db \<Rightarrow> analysis_run option" where
  "analysis_run_get rid a = tbl_get an_id rid (a_runs a)"

section \<open>Provider health\<close>

definition provider_health_get :: "string \<Rightarrow> analysis_db \<Rightarrow> provider_health_state" where
  "provider_health_get pid a =
     (case tbl_get health_key pid (a_health a) of None \<Rightarrow> unknown_health pid | Some r \<Rightarrow> hr_state r)"

definition provider_health_list :: "analysis_db \<Rightarrow> provider_health_state list" where
  "provider_health_list a = map hr_state (sort_key health_key (a_health a))"

definition provider_health_success :: "string \<Rightarrow> int \<Rightarrow> pyfloat \<Rightarrow> analysis_db \<Rightarrow> analysis_db" where
  "provider_health_success pid latency_ms now a =
     (let previous = provider_health_get pid a;
          latency = max 0 (of_int latency_ms);
          average = (if 0 < ph_latency_ewma_ms previous
                     then ph_latency_ewma_ms previous * (4 / 5) + latency * (1 / 5) else latency)
      in a\<lparr>a_health := tbl_upsert health_key
            \<lparr>hr_state = \<lparr>ph_provider_id = pid, ph_state = ''healthy'', ph_cooldown_until = 0,
               ph_consecutive_failures = 0, ph_last_error = [], ph_last_success_at = now,
               ph_last_failure_at = ph_last_failure_at previous, ph_latency_ewma_ms = average\<rparr>,
             hr_updated_at = now\<rparr>
            (\<lambda>r. r\<lparr>hr_state := (hr_state r)\<lparr>ph_state := ''healthy'', ph_cooldown_until := 0,
                 ph_consecutive_failures := 0, ph_last_error := [], ph_last_success_at := now,
                 ph_latency_ewma_ms := average\<rparr>, hr_updated_at := now\<rparr>) (a_health a)\<rparr>)"

definition provider_health_failure :: "string \<Rightarrow> string \<Rightarrow> pyfloat \<Rightarrow> pyfloat \<Rightarrow> analysis_db \<Rightarrow> analysis_db" where
  "provider_health_failure pid error cooldown_until now a =
     (let previous = provider_health_get pid a;
          failures = ph_consecutive_failures previous + 1;
          state = (if now < cooldown_until then ''cooldown'' else ''unavailable'')
      in a\<lparr>a_health := tbl_upsert health_key
            \<lparr>hr_state = \<lparr>ph_provider_id = pid, ph_state = state, ph_cooldown_until = max 0 cooldown_until,
               ph_consecutive_failures = failures, ph_last_error = take 2000 error,
               ph_last_success_at = ph_last_success_at previous, ph_last_failure_at = now,
               ph_latency_ewma_ms = ph_latency_ewma_ms previous\<rparr>, hr_updated_at = now\<rparr>
            (\<lambda>r. r\<lparr>hr_state := (hr_state r)\<lparr>ph_state := state, ph_cooldown_until := max 0 cooldown_until,
                 ph_consecutive_failures := failures, ph_last_error := take 2000 error,
                 ph_last_failure_at := now\<rparr>, hr_updated_at := now\<rparr>) (a_health a)\<rparr>)"

section \<open>Benchmarks\<close>

definition benchmark_run_start ::
  "string \<Rightarrow> string \<Rightarrow> string \<Rightarrow> json \<Rightarrow> string \<Rightarrow> pyfloat \<Rightarrow> analysis_db \<Rightarrow> exn + analysis_db" where
  "benchmark_run_start rid domain pool_id dossier dossier_hash now a =
     (if rid \<in> set (map bn_id (a_benchmarks a)) then Inl IntegrityError
      else Inr (a\<lparr>a_benchmarks := a_benchmarks a @
        [\<lparr>bn_id = rid, bn_domain = normalize_domain domain, bn_pool_id = py_lower (py_strip pool_id),
          bn_dossier = dossier, bn_dossier_hash = dossier_hash, bn_status = ''running'', bn_error = [],
          bn_created_at = py_int now, bn_completed_at = None\<rparr>]\<rparr>))"

definition classification_payload :: "classification \<Rightarrow> jobj" where
  "classification_payload c =
     [(''domain'', JStr (c_domain c)), (''policy'', JStr (policy_value (c_policy c))),
      (''category'', JStr (c_category c)), (''short'', JStr (c_short c)), (''details'', JStr (c_details c)),
      (''provider'', JStr (c_provider c)), (''tags'', JList (map JStr (c_tags c))),
      (''service'', JStr (c_service c)), (''service_role'', JStr (service_role_value (c_service_role c))),
      (''privacy_risk'', JInt (c_privacy_risk c)), (''security_risk'', JInt (c_security_risk c)),
      (''breakage_risk'', JInt (c_breakage_risk c)), (''confidence'', JFloat (c_confidence c)),
      (''needs_review'', JBool (c_needs_review c)), (''review_reason'', JStr (c_review_reason c)),
      (''recheck_after_days'', JInt (c_recheck_after_days c))]"

definition benchmark_result_save ::
  "string \<Rightarrow> string \<Rightarrow> string \<Rightarrow> string \<Rightarrow> string \<Rightarrow> string \<Rightarrow> int \<Rightarrow> provider_usage option \<Rightarrow> classification option \<Rightarrow>
    pyfloat \<Rightarrow> analysis_db \<Rightarrow> exn + analysis_db" where
  "benchmark_result_save rid pid name model status error latency_ms usage classification now a =
     (let u = (case usage of None \<Rightarrow> no_usage | Some u \<Rightarrow> u);
          payload = (case classification of None \<Rightarrow> [] | Some c \<Rightarrow> classification_payload c);
          raw = (case classification of None \<Rightarrow> [] | Some c \<Rightarrow> c_raw_text c)
      in if rid \<notin> set (map bn_id (a_benchmarks a)) then Inl IntegrityError
         else Inr (a\<lparr>a_results := a_results a @
           [\<lparr>br_id = py_max 0 (map br_id (a_results a)) + 1, br_run_id = rid, br_provider_id = pid,
             br_provider_name = name, br_model = model, br_status = status, br_error = take 2000 error,
             br_latency_ms = max 0 latency_ms, br_input_tokens = max 0 (pu_input_tokens u),
             br_output_tokens = max 0 (pu_output_tokens u), br_classification = JObj (sort_key fst payload),
             br_raw_text = raw, br_created_at = py_int now\<rparr>]\<rparr>))"

definition benchmark_status :: "string \<Rightarrow> string \<Rightarrow> analysis_db \<Rightarrow> string" where
  "benchmark_status rid status a =
     (let s = py_lower (py_strip status) in
      if s \<in> {''completed'', ''completed_with_errors'', ''failed'', ''cancelled''} then s
      else if filter (\<lambda>r. br_run_id r = rid \<and> br_status r \<noteq> ''completed'') (a_results a) \<noteq> []
      then ''completed_with_errors'' else ''completed'')"

definition benchmark_run_finish :: "string \<Rightarrow> string \<Rightarrow> string \<Rightarrow> pyfloat \<Rightarrow> analysis_db \<Rightarrow> analysis_db" where
  "benchmark_run_finish rid status error now a =
     a\<lparr>a_benchmarks := tbl_update (\<lambda>r. bn_id r = rid)
         (\<lambda>r. r\<lparr>bn_status := benchmark_status rid status a, bn_error := take 2000 error,
                bn_completed_at := Some (py_int now)\<rparr>) (a_benchmarks a)\<rparr>"

definition benchmark_run_get :: "string \<Rightarrow> analysis_db \<Rightarrow> (benchmark_run \<times> benchmark_result list) option" where
  "benchmark_run_get rid a =
     (case tbl_get bn_id rid (a_benchmarks a) of None \<Rightarrow> None
      | Some run \<Rightarrow> Some (run, sort_key br_id (filter (\<lambda>r. br_run_id r = rid) (a_results a))))"

section \<open>Facts\<close>

definition analysis_wf :: "analysis_db \<Rightarrow> bool" where
  "analysis_wf a \<longleftrightarrow> tbl_keys_ok an_id (a_runs a) \<and> tbl_keys_ok health_key (a_health a) \<and>
     tbl_keys_ok bn_id (a_benchmarks a)"

lemma health_success_ok [invs]: "analysis_wf a \<Longrightarrow> analysis_wf (provider_health_success pid l now a)"
  unfolding analysis_wf_def provider_health_success_def Let_def
  by (simp add: tbl_upsert_keys_ok health_key_def)

lemma health_failure_ok [invs]: "analysis_wf a \<Longrightarrow> analysis_wf (provider_health_failure pid e c now a)"
  unfolding analysis_wf_def provider_health_failure_def Let_def
  by (simp add: tbl_upsert_keys_ok health_key_def)

lemma run_finish_ok [invs]: "analysis_wf a \<Longrightarrow> analysis_wf (analysis_run_finish rid e s now a)"
  by (simp add: analysis_wf_def analysis_run_finish_def tbl_update_keys_ok)

lemma run_start_ok [invs]: "analysis_wf a \<Longrightarrow> analysis_run_start rid p m s h now a = Inr a' \<Longrightarrow> analysis_wf a'"
  by (auto simp: analysis_wf_def analysis_run_start_def tbl_keys_ok_def split: if_splits)

text \<open>What the next read of a health record sees.\<close>

lemma health_get_id:
  assumes "analysis_wf a" shows "ph_provider_id (provider_health_get pid a) = pid"
proof (cases "tbl_get health_key pid (a_health a)")
  case None
  then show ?thesis by (simp add: provider_health_get_def unknown_health_def)
next
  case (Some r)
  then show ?thesis using tbl_get_Some [OF Some] by (simp add: provider_health_get_def health_key_def)
qed

lemma health_after_success:
  assumes "analysis_wf a"
  shows "ph_state (provider_health_get pid (provider_health_success pid l now a)) = ''healthy''"
    and "ph_cooldown_until (provider_health_get pid (provider_health_success pid l now a)) = 0"
    and "ph_consecutive_failures (provider_health_get pid (provider_health_success pid l now a)) = 0"
    and "q \<noteq> pid \<Longrightarrow> provider_health_get q (provider_health_success pid l now a) = provider_health_get q a"
  using assms unfolding analysis_wf_def provider_health_success_def Let_def
  by (auto simp: provider_health_get_def health_table.get_put health_key_def split: option.splits)

lemma health_after_failure:
  assumes "analysis_wf a"
  shows "ph_state (provider_health_get pid (provider_health_failure pid e c now a)) =
      (if now < c then ''cooldown'' else ''unavailable'')"
    and "ph_cooldown_until (provider_health_get pid (provider_health_failure pid e c now a)) = max 0 c"
    and "ph_consecutive_failures (provider_health_get pid (provider_health_failure pid e c now a)) =
      ph_consecutive_failures (provider_health_get pid a) + 1"
    and "q \<noteq> pid \<Longrightarrow> provider_health_get q (provider_health_failure pid e c now a) = provider_health_get q a"
  using assms unfolding analysis_wf_def provider_health_failure_def Let_def
  by (auto simp: provider_health_get_def health_table.get_put health_key_def split: option.splits)

lemma finish_status_not_running: "finish_status s e \<noteq> ''running''"
  by (auto simp: finish_status_def Let_def)

lemma run_after_finish:
  assumes "analysis_run_get rid a = Some r"
  shows "analysis_run_get rid (analysis_run_finish rid e s now a) =
    Some (r\<lparr>an_status := finish_status s e, an_error := take 2000 e, an_completed_at := Some (py_int now)\<rparr>)"
  using assms tbl_get_Some [of an_id rid "a_runs a" r]
  by (simp add: analysis_run_get_def analysis_run_finish_def tbl_get_update)

end
