(* ===== verification/Dispatcher.thy ===== *)
theory Dispatcher
  imports Llm Analysis_Store
begin

text \<open>
  The analysis dispatcher, \<open>analysis_dispatcher.py\<close>: the selection and order of the providers of a
  pool, packing of domains into batches that fit the context window, the request loop of one provider
  that halves a batch when the quota refuses it, and the four pool modes distribute, fallback, compare
  and verify, down to the \<open>analysis_runs\<close> row that \<open>dispatch_analysis\<close> opens and closes.

  \<open>dispatch_env\<close> holds what the code reads from outside: the provider's answer to the \<open>k\<close>-th request of
  a run in each output mode, the length of the serialised prompt, the SHA-256 prefixes that spread
  domains and sample verifications, the loaded options, one reading of the clock, and the order in
  which the futures of the thread pool complete. A job of the thread pool runs as a whole in that
  order: the jobs share only the health table, and each writes only the row of its own provider.
  \<open>de_cancelled n\<close> tells whether the token is set when the collector polls it before the \<open>n\<close>-th
  completed job, or the fallback loop before its \<open>n\<close>-th candidate; inside a job a set token shows as an answer that raises \<open>OperationCancelledError\<close>.
\<close>

section \<open>Options and results\<close>

record membership =
  mb_provider_id :: string
  mb_enabled :: bool
  mb_role :: string
  mb_priority :: int
  mb_weight :: int

record analysis_pool =
  ap_pool_id :: string
  ap_name :: string
  ap_enabled :: bool
  ap_mode :: string
  ap_profile_index :: nat
  ap_max_parallel_requests :: int
  ap_verification_sample_percent :: int
  ap_verify_automatic_actions :: bool
  ap_verify_security_risk_at_least :: int
  ap_verify_breakage_risk_at_least :: int
  ap_memberships :: "membership list"

record candidate =
  cd_membership :: membership
  cd_provider :: llm_provider
  cd_limit_profile :: limit_profile

record provider_result =
  pr_provider_id :: string
  pr_provider_name :: string
  pr_model :: string
  pr_profile_name :: string
  pr_limit_source :: string
  pr_classifications :: "classification list"
  pr_latency_ms :: int
  pr_usage :: provider_usage
  pr_is_primary :: bool

record provider_error =
  pe_provider_id :: string
  pe_provider_name :: string
  pe_error :: string
  pe_retry_at :: pyfloat

record dispatch_result =
  dr_run_id :: string
  dr_pool_id :: string
  dr_mode :: string
  dr_dossier_hash :: string
  dr_provider_results :: "provider_result list"
  dr_errors :: "provider_error list"

text \<open>How \<open>_execute_provider\<close> ends: a result, \<open>ProviderPartialAnalysisError\<close>, or another exception.\<close>

datatype outcome =
    Complete provider_result
  | Partial provider_result "string list" pyexn
  | Raised pyexn

record dispatch_env =
  de_request :: "string \<Rightarrow> nat \<Rightarrow> string \<Rightarrow> pyexn + provider_response"
  de_loads :: "string \<Rightarrow> json option"
  de_conv :: py_conv
  de_parse :: parse_options
  de_message_len :: "jobj list \<Rightarrow> nat"
  de_digest8 :: "string \<Rightarrow> nat"
  de_digest4 :: "string \<Rightarrow> nat"
  de_hash :: "jobj list \<Rightarrow> string"
  de_quota :: quota_db
  de_settings :: quota_settings
  de_providers :: "llm_provider list"
  de_pools :: "analysis_pool list"
  de_profile_names :: "string list"
  de_limit_profile :: "llm_provider \<Rightarrow> limit_profile"
  de_order :: "(candidate \<times> string list) list \<Rightarrow> (candidate \<times> string list) list"
  de_cancelled_on_entry :: bool
  de_cancelled :: "nat \<Rightarrow> bool"
  de_now :: pyfloat

abbreviation cd_pid :: "candidate \<Rightarrow> string" where
  "cd_pid c \<equiv> lpv_provider_id (cd_provider c)"

text \<open>\<open>AnalysisDispatchResult.primary_classifications\<close>.\<close>

definition primary_classifications :: "dispatch_result \<Rightarrow> (string, classification) dict" where
  "primary_classifications r =
     dict_of (map (\<lambda>c. (c_domain c, c)) (concat (map pr_classifications (filter pr_is_primary (dr_provider_results r)))))"

section \<open>Exceptions\<close>

fun exn_chain :: "pyexn \<Rightarrow> pyexn list" where
  "exn_chain (PyExn k t c) = PyExn k t c # (case c of None \<Rightarrow> [] | Some e \<Rightarrow> exn_chain e)"

fun fallback_kind :: "exn_kind \<Rightarrow> bool" where
  "fallback_kind (QuotaUnavailable _) = True"
| "fallback_kind (ProviderRateLimit _ _) = True"
| "fallback_kind ConnectionFailed = True"
| "fallback_kind TimedOut = True"
| "fallback_kind (HTTPFailed s) = (s \<in> {Some 408, Some 429, Some 500, Some 502, Some 503, Some 504})"
| "fallback_kind _ = False"

definition is_fallback_eligible :: "pyexn \<Rightarrow> bool" where
  "is_fallback_eligible e = list_ex (fallback_kind \<circ> ex_kind) (exn_chain e)"

fun kind_retry_at :: "pyfloat \<Rightarrow> exn_kind \<Rightarrow> pyfloat option" where
  "kind_retry_at now (QuotaUnavailable r) = Some r"
| "kind_retry_at now (ProviderRateLimit (Some ra) _) = Some (now + max 0 ra)"
| "kind_retry_at now _ = None"

fun first_retry_at :: "pyfloat \<Rightarrow> pyexn list \<Rightarrow> pyfloat" where
  "first_retry_at now [] = 0"
| "first_retry_at now (e # es) = (case kind_retry_at now (ex_kind e) of Some r \<Rightarrow> r | None \<Rightarrow> first_retry_at now es)"

definition retry_at :: "pyfloat \<Rightarrow> pyexn \<Rightarrow> pyfloat" where
  "retry_at now e = first_retry_at now (exn_chain e)"

fun is_quota_error :: "pyexn \<Rightarrow> bool" where
  "is_quota_error (PyExn (QuotaUnavailable _) _ _) = True"
| "is_quota_error _ = False"

definition is_cancelled :: "pyexn \<Rightarrow> bool" where
  "is_cancelled e \<longleftrightarrow> ex_kind e = Cancelled"

definition cancelled_exn :: pyexn where
  "cancelled_exn = PyExn Cancelled ''Operation cancelled'' None"

definition provider_error_of :: "pyfloat \<Rightarrow> candidate \<Rightarrow> pyexn \<Rightarrow> analysis_db \<Rightarrow> provider_error" where
  "provider_error_of now c e a =
     \<lparr>pe_provider_id = cd_pid c, pe_provider_name = lpv_name (cd_provider c), pe_error = ex_text e,
      pe_retry_at = max (retry_at now e) (ph_cooldown_until (provider_health_get (cd_pid c) a))\<rparr>"

section \<open>Dossiers\<close>

definition freeze_dossiers ::
  "py_conv \<Rightarrow> string list \<Rightarrow> jobj list \<Rightarrow> string list \<times> jobj list" where
  "freeze_dossiers conv domains dossiers =
     (let normalized = fromkeys (map normalize_domain (filter (\<lambda>d. py_strip d \<noteq> []) domains));
          supplied = dict_of (map (\<lambda>d. (normalize_domain (str_field conv [] (map_of d ''domain'')), d)) dossiers)
      in (normalized,
          map (\<lambda>d. AList.update ''domain'' (JStr d)
                 (case map_of supplied d of None \<Rightarrow> [(''domain'', JStr d)] | Some x \<Rightarrow> x)) normalized))"

text \<open>\<open>{str(dossier["domain"]): dossier}\<close>, and the dossiers of a batch.\<close>

definition dossier_dict :: "py_conv \<Rightarrow> jobj list \<Rightarrow> (string, jobj) dict" where
  "dossier_dict conv dossiers =
     dict_of (map (\<lambda>d. (case map_of d ''domain'' of None \<Rightarrow> [] | Some j \<Rightarrow> py_str conv j, d)) dossiers)"

definition dossiers_for :: "(string, jobj) dict \<Rightarrow> string list \<Rightarrow> jobj list" where
  "dossiers_for by_domain batch = map (\<lambda>d. the (map_of by_domain d)) batch"

section \<open>Packing domains into batches\<close>

text \<open>The inner loop: the largest size that fits, or 0.\<close>

primrec fit_size :: "(nat \<Rightarrow> bool) \<Rightarrow> nat \<Rightarrow> nat" where
  "fit_size fits 0 = 0"
| "fit_size fits (Suc n) = (if fits (Suc n) then Suc n else fit_size fits n)"

lemma fit_size_le: "fit_size fits n \<le> n"
  by (induction n) (auto intro: le_SucI)

function pack_batches :: "(string list \<Rightarrow> bool) \<Rightarrow> nat \<Rightarrow> string list \<Rightarrow> string + string list list" where
  "pack_batches fits maximum [] = Inr []"
| "pack_batches fits maximum (d # ds) =
     (let size = fit_size (\<lambda>n. fits (take n (d # ds))) (min maximum (Suc (length ds))) in
      if size = 0 then Inl d
      else case pack_batches fits maximum (drop size (d # ds)) of
        Inl e \<Rightarrow> Inl e | Inr bs \<Rightarrow> Inr (take size (d # ds) # bs))"
  by pat_completeness auto
termination by (relation "measure (\<lambda>(_, _, ds). length ds)") auto

definition batch_fits :: "dispatch_env \<Rightarrow> candidate \<Rightarrow> (string, jobj) dict \<Rightarrow> string list \<Rightarrow> bool" where
  "batch_fits env c by_domain batch =
     batch_fits_context
       (estimate_provider_usage (de_message_len env (dossiers_for by_domain batch)) (cd_provider c)
          (cd_limit_profile c) (int (length batch)) (de_quota env))
       (cd_provider c) (cd_limit_profile c)"

definition provider_batches ::
  "dispatch_env \<Rightarrow> candidate \<Rightarrow> (string, jobj) dict \<Rightarrow> string list \<Rightarrow> string + string list list" where
  "provider_batches env c by_domain domains =
     pack_batches (batch_fits env c by_domain)
       (nat (maximum_provider_batch_size (cd_limit_profile c) (de_settings env))) domains"

section \<open>One provider\<close>

record batch_acc =
  ba_classifications :: "classification list"
  ba_latency :: int
  ba_usage :: provider_usage

definition empty_acc :: batch_acc where
  "empty_acc = \<lparr>ba_classifications = [], ba_latency = 0, ba_usage = no_usage\<rparr>"

definition add_usage :: "provider_usage \<Rightarrow> provider_usage \<Rightarrow> provider_usage" where
  "add_usage u v =
     \<lparr>pu_input_tokens = pu_input_tokens u + pu_input_tokens v, pu_output_tokens = pu_output_tokens u + pu_output_tokens v,
      pu_total_tokens = pu_total_tokens u + pu_total_tokens v, pu_units = pu_units u + pu_units v\<rparr>"

definition add_batch :: "batch_result \<Rightarrow> batch_acc \<Rightarrow> batch_acc" where
  "add_batch r acc =
     \<lparr>ba_classifications = ba_classifications acc @ cb_classifications r,
      ba_latency = ba_latency acc + resp_latency_ms (cb_response r),
      ba_usage = add_usage (ba_usage acc) (resp_usage (cb_response r))\<rparr>"

text \<open>
  The loop over the batches. \<open>ask k batch\<close> is the \<open>k\<close>-th call of \<open>classify_domains_with_metadata\<close>. A
  batch of two or more domains that the quota refuses is halved; any other exception ends the loop
  with the batches from \<open>batch_index\<close> on.
\<close>

definition batch_weight :: "string list \<Rightarrow> nat" where
  "batch_weight b = max 1 (2 * length b - 1)"

function run_batches ::
  "(nat \<Rightarrow> string list \<Rightarrow> pyexn + batch_result) \<Rightarrow> nat \<Rightarrow> string list list \<Rightarrow> batch_acc \<Rightarrow>
    batch_acc \<times> (pyexn \<times> string list list) option" where
  "run_batches ask k [] acc = (acc, None)"
| "run_batches ask k (b # bs) acc =
     (case ask k b of
        Inr r \<Rightarrow> run_batches ask (Suc k) bs (add_batch r acc)
      | Inl e \<Rightarrow>
          if is_quota_error e \<and> 1 < length b
          then let midpoint = max 1 (length b div 2)
               in run_batches ask (Suc k) (take midpoint b # drop midpoint b # bs) acc
          else (acc, Some (e, b # bs)))"
  by pat_completeness auto
termination
  by (relation "measure (\<lambda>(_, _, bs, _). sum_list (map batch_weight bs))") (auto simp: batch_weight_def)

declare run_batches.simps [simp del]

definition analysis_result ::
  "dispatch_env \<Rightarrow> analysis_pool \<Rightarrow> candidate \<Rightarrow> bool \<Rightarrow> batch_acc \<Rightarrow> provider_result" where
  "analysis_result env pool c primary acc =
     \<lparr>pr_provider_id = cd_pid c, pr_provider_name = lpv_name (cd_provider c), pr_model = lpv_model (cd_provider c),
      pr_profile_name = de_profile_names env ! ap_profile_index pool, pr_limit_source = lp_source (cd_limit_profile c),
      pr_classifications = ba_classifications acc, pr_latency_ms = ba_latency acc, pr_usage = ba_usage acc,
      pr_is_primary = primary\<rparr>"

definition ask_provider :: "dispatch_env \<Rightarrow> candidate \<Rightarrow> nat \<Rightarrow> string list \<Rightarrow> pyexn + batch_result" where
  "ask_provider env c k batch =
     classify_domains_with_metadata (de_loads env) (de_conv env) (de_parse env)
       (de_request env (cd_pid c) k) (cd_provider c) batch"

definition backoff :: "int \<Rightarrow> pyfloat" where
  "backoff failures = min 300 (max 5 (2 ^ nat (min 8 failures)))"

definition failure_cooldown :: "pyfloat \<Rightarrow> string \<Rightarrow> pyexn \<Rightarrow> analysis_db \<Rightarrow> pyfloat" where
  "failure_cooldown now pid e a =
     (let r = retry_at now e in
      if r \<le> now then now + backoff (ph_consecutive_failures (provider_health_get pid a)) else r)"

definition execute_provider ::
  "dispatch_env \<Rightarrow> analysis_pool \<Rightarrow> candidate \<Rightarrow> string list \<Rightarrow> jobj list \<Rightarrow> bool \<Rightarrow> analysis_db \<Rightarrow> outcome \<times> analysis_db" where
  "execute_provider env pool c domains dossiers primary a =
     (let by_domain = dossier_dict (de_conv env) dossiers in
      if length (de_profile_names env) \<le> ap_profile_index pool
      then (Raised (PyExn RuntimeFailed ''list index out of range'' None), a)
      else case provider_batches env c by_domain domains of
        Inl d \<Rightarrow> (Raised (PyExn RuntimeFailed (''The dossier for '' @ d @ '' exceeds the context limit of '' @
                   lpv_name (cd_provider c) @ ''.'') None), a)
      | Inr batches \<Rightarrow>
          (case run_batches (ask_provider env c) 0 batches empty_acc of
             (acc, None) \<Rightarrow>
               (Complete (analysis_result env pool c primary acc),
                provider_health_success (cd_pid c) (ba_latency acc) (de_now env) a)
           | (acc, Some (e, rest)) \<Rightarrow>
               if is_cancelled e then (Raised e, a)
               else
                 let a' = (if is_quota_error e then a
                           else provider_health_failure (cd_pid c) (ex_text e)
                                  (failure_cooldown (de_now env) (cd_pid c) e a) (de_now env) a)
                 in if ba_classifications acc \<noteq> []
                    then (Partial (analysis_result env pool c primary acc) (concat rest) e, a')
                    else (Raised e, a')))"

section \<open>Selecting providers\<close>

definition membership_rank :: "string \<Rightarrow> string \<Rightarrow> nat" where
  "membership_rank first role = (if role = first then 0 else 1)"

definition role_rank :: "string \<Rightarrow> nat" where
  "role_rank role = (if role = ''primary'' then 0 else if role = ''verifier'' then 1 else if role = ''fallback'' then 2 else 3)"

definition fallback_order :: "candidate list \<Rightarrow> candidate list" where
  "fallback_order cs = sort_key (\<lambda>c. (membership_rank ''primary'' (mb_role (cd_membership c)),
     mb_priority (cd_membership c), py_lower (lpv_name (cd_provider c)))) cs"

definition verification_order :: "candidate list \<Rightarrow> candidate list" where
  "verification_order cs = sort_key (\<lambda>c. (membership_rank ''verifier'' (mb_role (cd_membership c)),
     mb_priority (cd_membership c), py_lower (lpv_name (cd_provider c)))) cs"

definition usable_membership :: "dispatch_env \<Rightarrow> bool \<Rightarrow> analysis_db \<Rightarrow> membership \<Rightarrow> candidate option" where
  "usable_membership env include_cooldown a m =
     (case map_of (dict_of (map (\<lambda>p. (lpv_provider_id p, p)) (de_providers env))) (mb_provider_id m) of
        None \<Rightarrow> None
      | Some p \<Rightarrow>
          if \<not> mb_enabled m \<or> py_strip (lpv_base_url p) = [] \<or> py_strip (lpv_model p) = [] then None
          else if \<not> include_cooldown \<and> de_now env < ph_cooldown_until (provider_health_get (lpv_provider_id p) a) then None
          else Some \<lparr>cd_membership = m, cd_provider = p, cd_limit_profile = de_limit_profile env p\<rparr>)"

definition pool_candidates :: "dispatch_env \<Rightarrow> analysis_pool \<Rightarrow> bool \<Rightarrow> analysis_db \<Rightarrow> candidate list" where
  "pool_candidates env pool include_cooldown a =
     sort_key (\<lambda>c. (role_rank (mb_role (cd_membership c)), mb_priority (cd_membership c), py_lower (lpv_name (cd_provider c))))
       (List.map_filter (usable_membership env include_cooldown a) (ap_memberships pool))"

definition pool_by_id :: "dispatch_env \<Rightarrow> string \<Rightarrow> pyexn + analysis_pool" where
  "pool_by_id env pool_id =
     (let n = py_lower (py_strip pool_id) in
      case List.find (\<lambda>p. ap_pool_id p = n \<and> ap_enabled p) (de_pools env) of
        Some p \<Rightarrow> Inr p
      | None \<Rightarrow> Inl (PyExn RuntimeFailed (''Analysis pool is disabled or missing: '' @ str_or n ''<empty>'') None))"

definition sort_results :: "provider_result list \<Rightarrow> candidate list \<Rightarrow> provider_result list" where
  "sort_results results cs =
     (let order = dict_of (zip (map cd_pid cs) [0..<length cs]) in
      sort_key (\<lambda>r. case map_of order (pr_provider_id r) of Some i \<Rightarrow> i | None \<Rightarrow> length cs) results)"

section \<open>The modes\<close>

type_synonym dispatch_lists = "provider_result list \<times> provider_error list"

text \<open>Distribute: the hash of a domain picks one of the candidates, each repeated by its weight.\<close>

definition weighted_candidates :: "candidate list \<Rightarrow> candidate list" where
  "weighted_candidates cs = concat (map (\<lambda>c. replicate (nat (max 1 (mb_weight (cd_membership c)))) c) cs)"

definition assigned_provider :: "dispatch_env \<Rightarrow> candidate list \<Rightarrow> string \<Rightarrow> string" where
  "assigned_provider env cs d =
     (let w = weighted_candidates cs in cd_pid (w ! (de_digest8 env d mod length w)))"

definition assign_step ::
  "(string \<Rightarrow> string) \<Rightarrow> string \<Rightarrow> (string, string list) dict \<Rightarrow> (string, string list) dict" where
  "assign_step f d asg = AList.update (f d) ((case map_of asg (f d) of None \<Rightarrow> [] | Some ds \<Rightarrow> ds) @ [d]) asg"

definition assignments :: "dispatch_env \<Rightarrow> candidate list \<Rightarrow> string list \<Rightarrow> (string, string list) dict" where
  "assignments env cs domains = fold (assign_step (assigned_provider env cs)) domains []"

text \<open>The collector of \<open>_dispatch_distribute\<close> and \<open>_dispatch_compare\<close>; \<open>n\<close> counts its polls.\<close>

fun collect_jobs ::
  "dispatch_env \<Rightarrow> analysis_pool \<Rightarrow> jobj list \<Rightarrow> bool \<Rightarrow> (candidate \<times> string list) list \<Rightarrow> nat \<Rightarrow> dispatch_lists \<Rightarrow>
    analysis_db \<Rightarrow> (pyexn + dispatch_lists) \<times> analysis_db" where
  "collect_jobs env pool dossiers primary [] n (results, errors) a =
     (Inr (results, errors), a)"
| "collect_jobs env pool dossiers primary ((c, ds) # jobs) n (results, errors) a =
     (if de_cancelled env n then (Inl cancelled_exn, a)
      else case execute_provider env pool c ds (dossiers_for (dossier_dict (de_conv env) dossiers) ds) primary a of
        (Complete r, a') \<Rightarrow> collect_jobs env pool dossiers primary jobs (Suc n) (results @ [r], errors) a'
      | (Partial r _ e, a') \<Rightarrow>
          collect_jobs env pool dossiers primary jobs (Suc n)
            (results @ [r], errors @ [provider_error_of (de_now env) c e a']) a'
      | (Raised e, a') \<Rightarrow>
          if is_cancelled e then (Inl e, a')
          else collect_jobs env pool dossiers primary jobs (Suc n)
            (results, errors @ [provider_error_of (de_now env) c e a']) a')"

definition sorted_lists :: "candidate list \<Rightarrow> (pyexn + dispatch_lists) \<times> analysis_db \<Rightarrow> (pyexn + dispatch_lists) \<times> analysis_db" where
  "sorted_lists cs out =
     (case out of (Inl e, a) \<Rightarrow> (Inl e, a) | (Inr (rs, es), a) \<Rightarrow> (Inr (sort_results rs cs, es), a))"

definition distribute_jobs :: "dispatch_env \<Rightarrow> candidate list \<Rightarrow> string list \<Rightarrow> (candidate \<times> string list) list" where
  "distribute_jobs env cs domains =
     map (\<lambda>(pid, ds). (the (map_of (dict_of (map (\<lambda>c. (cd_pid c, c)) cs)) pid), ds)) (assignments env cs domains)"

definition dispatch_distribute ::
  "dispatch_env \<Rightarrow> analysis_pool \<Rightarrow> candidate list \<Rightarrow> string list \<Rightarrow> jobj list \<Rightarrow> analysis_db \<Rightarrow>
    (pyexn + dispatch_lists) \<times> analysis_db" where
  "dispatch_distribute env pool cs domains dossiers a =
     sorted_lists cs (collect_jobs env pool dossiers True (de_order env (distribute_jobs env cs domains)) 0 ([], []) a)"

definition dispatch_compare ::
  "dispatch_env \<Rightarrow> analysis_pool \<Rightarrow> candidate list \<Rightarrow> string list \<Rightarrow> jobj list \<Rightarrow> analysis_db \<Rightarrow>
    (pyexn + dispatch_lists) \<times> analysis_db" where
  "dispatch_compare env pool cs domains dossiers a =
     sorted_lists cs (collect_jobs env pool dossiers False (de_order env (map (\<lambda>c. (c, domains)) cs)) 0 ([], []) a)"

fun try_fallbacks ::
  "dispatch_env \<Rightarrow> analysis_pool \<Rightarrow> (string, jobj) dict \<Rightarrow> candidate list \<Rightarrow> nat \<Rightarrow> string list \<Rightarrow> dispatch_lists \<Rightarrow> analysis_db \<Rightarrow>
    (pyexn + dispatch_lists) \<times> analysis_db" where
  "try_fallbacks env pool by_domain [] n remaining out a = (Inr out, a)"
| "try_fallbacks env pool by_domain (c # cs) n remaining (results, errors) a =
     (if de_cancelled env n then (Inl cancelled_exn, a)
      else if remaining = [] then (Inr (results, errors), a)
      else case execute_provider env pool c remaining (dossiers_for by_domain remaining) True a of
        (Complete r, a') \<Rightarrow> try_fallbacks env pool by_domain cs (Suc n) [] (results @ [r], errors) a'
      | (Partial r failed e, a') \<Rightarrow>
          let out = (results @ [r], errors @ [provider_error_of (de_now env) c e a']) in
          if is_fallback_eligible e then try_fallbacks env pool by_domain cs (Suc n) failed out a' else (Inr out, a')
      | (Raised e, a') \<Rightarrow>
          if is_cancelled e \<or> \<not> is_fallback_eligible e then (Inl e, a')
          else try_fallbacks env pool by_domain cs (Suc n) remaining
                 (results, errors @ [provider_error_of (de_now env) c e a']) a')"

definition dispatch_fallback ::
  "dispatch_env \<Rightarrow> analysis_pool \<Rightarrow> candidate list \<Rightarrow> string list \<Rightarrow> jobj list \<Rightarrow> analysis_db \<Rightarrow>
    (pyexn + dispatch_lists) \<times> analysis_db" where
  "dispatch_fallback env pool cs domains dossiers a =
     try_fallbacks env pool (dossier_dict (de_conv env) dossiers) (fallback_order cs) 0 domains ([], []) a"

definition requires_verification :: "dispatch_env \<Rightarrow> analysis_pool \<Rightarrow> classification \<Rightarrow> bool" where
  "requires_verification env pool c =
     (if ap_verify_security_risk_at_least pool \<le> c_security_risk c then True
      else if ap_verify_breakage_risk_at_least pool \<le> c_breakage_risk c then True
      else if ap_verify_automatic_actions pool \<and> \<not> c_needs_review c \<and> c_policy c \<in> {Policy_ALLOW, Policy_DENY} then True
      else int (de_digest4 env (c_domain c) mod 100) < min 100 (max 0 (ap_verification_sample_percent pool)))"

definition classifications_agree :: "classification \<Rightarrow> classification \<Rightarrow> bool" where
  "classifications_agree x y \<longleftrightarrow>
     c_policy x = c_policy y \<and> c_category x = c_category y \<and> set (c_tags x) = set (c_tags y) \<and>
     \<bar>c_security_risk x - c_security_risk y\<bar> \<le> 20 \<and> \<bar>c_breakage_risk x - c_breakage_risk y\<bar> \<le> 20"

definition mark_verification_unavailable :: "provider_result \<Rightarrow> string list \<Rightarrow> provider_result" where
  "mark_verification_unavailable r domains =
     r\<lparr>pr_classifications := map (\<lambda>c. if c_domain c \<in> set domains
         then c\<lparr>c_needs_review := True,
                c_review_reason := str_or (c_review_reason c) ''Independent provider verification was unavailable.''\<rparr>
         else c) (pr_classifications r)\<rparr>"

definition compare_verification :: "classification list \<Rightarrow> classification \<Rightarrow> classification" where
  "compare_verification others c =
     (case map_of (dict_of (map (\<lambda>x. (c_domain x, x)) others)) (c_domain c) of
        None \<Rightarrow> c
      | Some x \<Rightarrow> if classifications_agree c x then c
          else c\<lparr>c_needs_review := True,
                 c_review_reason := ''Independent provider verification disagreed with the primary result.''\<rparr>)"

definition verify_with ::
  "dispatch_env \<Rightarrow> analysis_pool \<Rightarrow> candidate list \<Rightarrow> jobj list \<Rightarrow> provider_result \<Rightarrow> provider_error list \<Rightarrow> analysis_db \<Rightarrow>
    (pyexn + dispatch_lists) \<times> analysis_db" where
  "verify_with env pool cs dossiers primary errors a =
     (let verify_domains = map c_domain (filter (requires_verification env pool) (pr_classifications primary)) in
      if verify_domains = [] then (Inr ([primary], errors), a)
      else case List.find (\<lambda>c. cd_pid c \<noteq> pr_provider_id primary) (verification_order cs) of
        None \<Rightarrow> (Inr ([mark_verification_unavailable primary verify_domains],
           errors @ [\<lparr>pe_provider_id = [], pe_provider_name = [],
                      pe_error = ''No independent verification provider is configured.'', pe_retry_at = 0\<rparr>]), a)
      | Some v \<Rightarrow>
          let finish = (\<lambda>p secondary errs a'.
                (Inr ([p\<lparr>pr_classifications := map (compare_verification (pr_classifications secondary)) (pr_classifications p)\<rparr>,
                       secondary], errs), a')) in
          (case execute_provider env pool v verify_domains
                  (dossiers_for (dossier_dict (de_conv env) dossiers) verify_domains) False a of
             (Complete s, a') \<Rightarrow> finish primary s errors a'
           | (Partial s missing e, a') \<Rightarrow>
               finish (mark_verification_unavailable primary missing) s (errors @ [provider_error_of (de_now env) v e a']) a'
           | (Raised e, a') \<Rightarrow>
               if is_cancelled e then (Inl e, a')
               else (Inr ([mark_verification_unavailable primary verify_domains],
                          errors @ [provider_error_of (de_now env) v e a']), a')))"

definition dispatch_verify ::
  "dispatch_env \<Rightarrow> analysis_pool \<Rightarrow> candidate list \<Rightarrow> string list \<Rightarrow> jobj list \<Rightarrow> analysis_db \<Rightarrow>
    (pyexn + dispatch_lists) \<times> analysis_db" where
  "dispatch_verify env pool cs domains dossiers a =
     (let p = hd (fallback_order cs) in
      case execute_provider env pool p domains dossiers True a of
        (Complete r, a') \<Rightarrow> verify_with env pool cs dossiers r [] a'
      | (Partial r _ e, a') \<Rightarrow> verify_with env pool cs dossiers r [provider_error_of (de_now env) p e a'] a'
      | (Raised e, a') \<Rightarrow> (Inl e, a'))"

section \<open>A dispatch\<close>

definition no_candidates_exn :: "dispatch_env \<Rightarrow> analysis_pool \<Rightarrow> analysis_db \<Rightarrow> pyexn" where
  "no_candidates_exn env pool a =
     (let cooling = filter (\<lambda>t. de_now env < t)
            (map (\<lambda>c. ph_cooldown_until (provider_health_get (cd_pid c) a)) (pool_candidates env pool True a));
          r = py_min 0 cooling
      in if de_now env < r
         then PyExn (AnalysisUnavailable (max 0 r))
                (''All providers in analysis pool '' @ ap_name pool @ '' are cooling down.'') None
         else PyExn RuntimeFailed (''Analysis pool '' @ ap_name pool @ '' has no usable providers.'') None)"

definition run_mode ::
  "dispatch_env \<Rightarrow> analysis_pool \<Rightarrow> candidate list \<Rightarrow> string list \<Rightarrow> jobj list \<Rightarrow> analysis_db \<Rightarrow>
    (pyexn + dispatch_lists) \<times> analysis_db" where
  "run_mode env pool cs domains dossiers a =
     (case pool_mode_of (ap_mode pool) of
        None \<Rightarrow> (Inl (PyExn ValueInvalid (ap_mode pool @ '' is not a valid AnalysisPoolMode'') None), a)
      | Some Pool_DISTRIBUTE \<Rightarrow> dispatch_distribute env pool cs domains dossiers a
      | Some Pool_FALLBACK \<Rightarrow> dispatch_fallback env pool cs domains dossiers a
      | Some Pool_COMPARE \<Rightarrow> dispatch_compare env pool cs domains dossiers a
      | Some Pool_VERIFY \<Rightarrow> dispatch_verify env pool cs domains dossiers a)"

definition error_text :: "provider_error list \<Rightarrow> string" where
  "error_text errors = py_join ''; '' (map pe_error errors)"

definition finish_dispatch ::
  "dispatch_env \<Rightarrow> analysis_pool \<Rightarrow> string \<Rightarrow> string \<Rightarrow> (pyexn + dispatch_lists) \<times> analysis_db \<Rightarrow>
    (pyexn + dispatch_result) \<times> analysis_db" where
  "finish_dispatch env pool rid h out =
     (case out of
        (Inr (results, errors), a) \<Rightarrow>
          if results = [] then
            let e = PyExn (AnalysisUnavailable (max 0 (py_max 0 (map pe_retry_at errors))))
                      (str_or (error_text errors) ''No provider result'') None
            in (Inl e, analysis_run_finish rid (ex_text e) [] (de_now env) a)
          else
            (Inr \<lparr>dr_run_id = rid, dr_pool_id = ap_pool_id pool, dr_mode = ap_mode pool, dr_dossier_hash = h,
                  dr_provider_results = results, dr_errors = errors\<rparr>,
             analysis_run_finish rid (error_text errors)
               (if errors \<noteq> [] then ''completed_with_errors'' else ''completed'') (de_now env) a)
      | (Inl e, a) \<Rightarrow>
          (Inl e, analysis_run_finish rid (ex_text e) (if is_cancelled e then ''cancelled'' else []) (de_now env) a))"

definition dispatch_analysis ::
  "dispatch_env \<Rightarrow> string \<Rightarrow> string \<Rightarrow> string list \<Rightarrow> jobj list \<Rightarrow> string \<Rightarrow> analysis_db \<Rightarrow>
    (pyexn + dispatch_result) \<times> analysis_db" where
  "dispatch_analysis env rid pool_id domains dossiers source a =
     (if de_cancelled_on_entry env then (Inl cancelled_exn, a)
      else case pool_by_id env pool_id of Inl e \<Rightarrow> (Inl e, a)
      | Inr pool \<Rightarrow>
          let (normalized, frozen) = freeze_dossiers (de_conv env) domains dossiers;
              h = de_hash env frozen;
              cs = pool_candidates env pool False a
          in if normalized = [] then (Inl (PyExn ValueInvalid ''At least one domain is required for analysis.'' None), a)
             else if cs = [] then (Inl (no_candidates_exn env pool a), a)
             else case analysis_run_start rid (ap_pool_id pool) (ap_mode pool) source h (de_now env) a of
               Inl e \<Rightarrow> (Inl (PyExn RuntimeFailed ''UNIQUE constraint failed: analysis_runs.id'' None), a)
             | Inr a1 \<Rightarrow> finish_dispatch env pool rid h (run_mode env pool cs normalized frozen a1))"

end
