(* ===== verification/Worker.thy ===== *)
theory Worker
  imports Policy_Engine Dispatcher Queue_Machine
begin

text \<open>
  The classifier worker of \<open>workers.py\<close>: one pass of \<open>Classifier.run\<close>, from the claim of a batch to the
  acknowledgement, deferral or failure of every claimed domain, with \<open>_handle_dispatch_result\<close> between
  them, and the collector pass of \<open>Scanner.run\<close> with its history backfill. It composes the queue, the
  dispatcher, the policy engine and the review store.
  \<open>cycle_env\<close> holds what a pass reads: options, the clock, the dossiers that the research layer builds
  (or the exception it raises), the number of decision-relevant findings in a dossier, and whether
  the stop event is set after the claim.
\<close>

section \<open>Handling the result of a dispatch\<close>

record 'p cycle_env =
  ce_handler :: "'p handler_env"
  ce_dispatch :: dispatch_env
  ce_pool_id :: string
  ce_trigger_size :: int
  ce_max_wait_sec :: int
  ce_dossiers :: "string list \<Rightarrow> pyexn + jobj list"
  ce_evidence :: "jobj \<Rightarrow> int"
  ce_prompt_hash :: string
  ce_run_id :: string
  ce_stop :: bool
  ce_now :: int

definition share_of :: "int \<Rightarrow> nat \<Rightarrow> int" where
  "share_of amount n = py_round (of_int amount / of_nat n)"

definition result_context ::
  "'p cycle_env \<Rightarrow> dispatch_result \<Rightarrow> llm_provider \<Rightarrow> string \<Rightarrow> provider_result \<Rightarrow> run_context" where
  "result_context env res provider profile_name pr =
     (let n = max 1 (length (pr_classifications pr)); u = pr_usage pr in
      \<lparr>rc_analysis_run_id = dr_run_id res, rc_pool_id = dr_pool_id res, rc_pool_mode = dr_mode res,
       rc_provider_id = lpv_provider_id provider, rc_model = lpv_model provider, rc_profile = profile_name,
       rc_prompt_hash = ce_prompt_hash env, rc_is_primary = pr_is_primary pr,
       rc_latency_ms = share_of (pr_latency_ms pr) n,
       rc_usage = \<lparr>pu_input_tokens = share_of (pu_input_tokens u) n, pu_output_tokens = share_of (pu_output_tokens u) n,
                   pu_total_tokens = share_of (pu_total_tokens u) n, pu_units = pu_units u / of_nat n\<rparr>\<rparr>)"

definition compared_options :: "run_context \<Rightarrow> run_options" where
  "compared_options ctx =
     \<lparr>ro_provider_id = rc_provider_id ctx, ro_model = rc_model ctx, ro_profile = rc_profile ctx,
      ro_prompt_hash = rc_prompt_hash ctx, ro_status = ''compared'', ro_planned_action = [], ro_action_status = ''none'',
      ro_analysis_run_id = rc_analysis_run_id ctx, ro_pool_id = rc_pool_id ctx, ro_pool_mode = rc_pool_mode ctx,
      ro_is_primary = False, ro_latency_ms = rc_latency_ms ctx, ro_input_tokens = pu_input_tokens (rc_usage ctx),
      ro_output_tokens = pu_output_tokens (rc_usage ctx), ro_update_current = False\<rparr>"

definition handle_one ::
  "'p cycle_env \<Rightarrow> run_context \<Rightarrow> (string, jobj) dict \<Rightarrow> (string, string) dict \<Rightarrow> classification \<Rightarrow> ('p, unit) step" where
  "handle_one env ctx dossiers sources c =
     (if rc_is_primary ctx
      then handle_classification (ce_handler env) \<lparr>pv_provider_id = rc_provider_id ctx, pv_model = rc_model ctx\<rparr> (rc_profile ctx) ctx
             (case map_of sources (c_domain c) of None \<Rightarrow> [] | Some s \<Rightarrow> s)
             (ce_evidence env (case map_of dossiers (c_domain c) of None \<Rightarrow> [(''domain'', JStr (c_domain c))] | Some d \<Rightarrow> d)) c
      else on_db (review_save_classification c (compared_options ctx) (ce_now env)))"

fun handle_all ::
  "'p cycle_env \<Rightarrow> run_context \<Rightarrow> (string, jobj) dict \<Rightarrow> (string, string) dict \<Rightarrow> classification list \<Rightarrow> string list \<Rightarrow>
    ('p, string list) step" where
  "handle_all env ctx dossiers sources [] completed w = (w, Inr completed)"
| "handle_all env ctx dossiers sources (c # cs) completed w =
     (case handle_one env ctx dossiers sources c w of
        (w', Inl e) \<Rightarrow> (w', Inl e)
      | (w', Inr _) \<Rightarrow> handle_all env ctx dossiers sources cs (completed @ [c_domain c]) w')"

fun handle_results ::
  "'p cycle_env \<Rightarrow> dispatch_result \<Rightarrow> string \<Rightarrow> (string, jobj) dict \<Rightarrow> (string, string) dict \<Rightarrow> provider_result list \<Rightarrow> string list \<Rightarrow>
    ('p, string list) step" where
  "handle_results env res profile_name dossiers sources [] completed w = (w, Inr completed)"
| "handle_results env res profile_name dossiers sources (pr # prs) completed w =
     (case map_of (dict_of (map (\<lambda>p. (lpv_provider_id p, p)) (de_providers (ce_dispatch env)))) (pr_provider_id pr) of
        None \<Rightarrow> handle_results env res profile_name dossiers sources prs completed w
      | Some p \<Rightarrow>
          (case handle_all env (result_context env res p profile_name pr) dossiers sources (pr_classifications pr) completed w of
             (w', Inl e) \<Rightarrow> (w', Inl e)
           | (w', Inr completed') \<Rightarrow> handle_results env res profile_name dossiers sources prs completed' w'))"

text \<open>\<open>next(item for item in options.analysis_pools ...)\<close> finds the pool that the dispatch used.\<close>

definition handle_dispatch_result ::
  "'p cycle_env \<Rightarrow> dispatch_result \<Rightarrow> jobj list \<Rightarrow> (string, string) dict \<Rightarrow> ('p, string list) step" where
  "handle_dispatch_result env res dossiers sources w =
     (case List.find (\<lambda>p. ap_pool_id p = dr_pool_id res) (de_pools (ce_dispatch env)) of
        None \<Rightarrow> (w, Inl (RuntimeError ''StopIteration''))
      | Some pool \<Rightarrow>
          if length (de_profile_names (ce_dispatch env)) \<le> ap_profile_index pool
          then (w, Inl (RuntimeError ''list index out of range''))
          else handle_results env res (de_profile_names (ce_dispatch env) ! ap_profile_index pool)
                 (dict_of (map (\<lambda>d. (str_field (de_conv (ce_dispatch env)) [] (map_of d ''domain''), d)) dossiers))
                 sources (dr_provider_results res) [] w)"

section \<open>Settling the claimed domains\<close>

definition defer_all :: "string list \<Rightarrow> string \<Rightarrow> pyfloat \<Rightarrow> int \<Rightarrow> db \<Rightarrow> db" where
  "defer_all domains reason t now s = fold (\<lambda>d. staging_defer d reason t now) domains s"

definition fail_all :: "string list \<Rightarrow> string \<Rightarrow> int \<Rightarrow> db \<Rightarrow> db" where
  "fail_all domains reason now s = fold (\<lambda>d. staging_fail d reason 1 now) domains s"

definition settle_completed :: "string list \<Rightarrow> string list \<Rightarrow> pyfloat \<Rightarrow> pyfloat \<Rightarrow> int \<Rightarrow> db \<Rightarrow> db" where
  "settle_completed domains completed retry t now s =
     fold (\<lambda>d. if d \<in> set completed then staging_ack d
               else if t < retry then staging_defer d ''Assigned provider is temporarily unavailable.'' retry now
               else staging_fail d ''No provider returned a classification.'' 1 now) domains s"

text \<open>Locked domains leave the queue without being analysed.\<close>

definition skip_locked :: "string list \<Rightarrow> db \<Rightarrow> db \<times> string list" where
  "skip_locked domains s =
     fold (\<lambda>d (s, unlocked). if get_domain_lock d s \<noteq> None then (staging_ack d s, unlocked) else (s, unlocked @ [d])) domains (s, [])"

text \<open>What the handlers of \<open>Classifier.run\<close> do with an exception.\<close>

definition on_exception :: "string list \<Rightarrow> pyexn \<Rightarrow> pyfloat \<Rightarrow> int \<Rightarrow> db \<Rightarrow> db" where
  "on_exception domains e t now s =
     (case ex_kind e of
        Cancelled \<Rightarrow> defer_all domains ''Classification cancelled'' t now s
      | AnalysisUnavailable retry \<Rightarrow>
          if t < retry then defer_all domains (ex_text e) retry now s else fail_all domains (ex_text e) now s
      | _ \<Rightarrow> fail_all domains (ex_text e) now s)"

definition on_store_exception :: "string list \<Rightarrow> exn \<Rightarrow> pyfloat \<Rightarrow> int \<Rightarrow> db \<Rightarrow> db" where
  "on_store_exception domains e t now s =
     (if e = OperationCancelledError then defer_all domains ''Classification cancelled'' t now s
      else fail_all domains (exn_text e) now s)"

definition analyse_claimed ::
  "'p cycle_env \<Rightarrow> string list \<Rightarrow> (string, string) dict \<Rightarrow> 'p world \<Rightarrow> analysis_db \<Rightarrow> 'p world \<times> analysis_db" where
  "analyse_claimed env domains sources w a =
     (let t = de_now (ce_dispatch env); now = ce_now env in
      case ce_dossiers env domains of
        Inl e \<Rightarrow> (w\<lparr>w_db := on_exception domains e t now (w_db w)\<rparr>, a)
      | Inr dossiers \<Rightarrow>
          (case dispatch_analysis (ce_dispatch env) (ce_run_id env) (ce_pool_id env) domains dossiers ''queue'' a of
             (Inl e, a') \<Rightarrow> (w\<lparr>w_db := on_exception domains e t now (w_db w)\<rparr>, a')
           | (Inr res, a') \<Rightarrow>
               (case handle_dispatch_result env res dossiers sources w of
                  (w', Inl e) \<Rightarrow> (w'\<lparr>w_db := on_store_exception domains e t now (w_db w')\<rparr>, a')
                | (w', Inr completed) \<Rightarrow>
                    (w'\<lparr>w_db := settle_completed domains completed (py_max 0 (map pe_retry_at (dr_errors res))) t now (w_db w')\<rparr>, a'))))"

definition classifier_enabled :: "'p cycle_env \<Rightarrow> bool" where
  "classifier_enabled env \<longleftrightarrow> lo_enabled (he_llm (ce_handler env)) \<and>
     (case List.find (\<lambda>p. ap_pool_id p = ce_pool_id env) (de_pools (ce_dispatch env)) of
        None \<Rightarrow> False | Some p \<Rightarrow> ap_enabled p)"

definition classifier_cycle :: "'p cycle_env \<Rightarrow> 'p world \<Rightarrow> analysis_db \<Rightarrow> 'p world \<times> analysis_db" where
  "classifier_cycle env w a =
     (let now = ce_now env; s = w_db w in
      if \<not> classifier_enabled env \<or> \<not> staging_ready (ce_trigger_size env) (ce_max_wait_sec env) (ce_pool_id env) now s then (w, a)
      else case staging_claim_items (lo_worker_batch_size (he_llm (ce_handler env))) (ce_pool_id env) now s of
        (s1, items) \<Rightarrow>
          let domains = map ci_domain items; sources = dict_of (map (\<lambda>i. (ci_domain i, ci_source i)) items) in
          if items = [] then (w\<lparr>w_db := s1\<rparr>, a)
          else if ce_stop env
          then (w\<lparr>w_db := defer_all domains ''Classifier stopped before processing'' (de_now (ce_dispatch env)) now s1\<rparr>, a)
          else case skip_locked domains s1 of
            (s2, unlocked) \<Rightarrow>
              if unlocked = [] then (w\<lparr>w_db := s2\<rparr>, a)
              else analyse_claimed env unlocked sources (w\<lparr>w_db := s2\<rparr>) a)"

section \<open>The collector\<close>

text \<open>\<open>fetch\<close> is \<open>fetch_queries\<close>, \<open>sc_fmt\<close> the formatting of a timestamp and \<open>sc_float\<close> its parser. The
  iteration order of a Python set of domains is the argument \<open>sc_order\<close>.\<close>

record scanner_env =
  sc_enabled :: bool
  sc_connected :: bool
  sc_fetch :: "int \<Rightarrow> pyfloat \<Rightarrow> pyfloat option \<Rightarrow> exn + query_row list"
  sc_batch_size :: int
  sc_history_enabled :: bool
  sc_history_idle_after :: pyfloat
  sc_history_lookback_days :: int
  sc_history_batch_size :: int
  sc_excluded :: "string list"
  sc_fmt :: "pyfloat \<Rightarrow> string"
  sc_float :: "string \<Rightarrow> pyfloat option"
  sc_order :: "string list \<Rightarrow> string list"
  sc_time :: pyfloat
  sc_monotonic :: pyfloat

record scanner =
  sn_from_ts :: pyfloat
  sn_last_live_activity :: pyfloat

definition new_scanner :: "scanner_env \<Rightarrow> pyfloat \<Rightarrow> db \<Rightarrow> scanner" where
  "new_scanner env initial_lookback s =
     (let fallback = sc_time env - initial_lookback;
          stored = (case sc_float env (get_state ''scanner_from_ts'' (sc_fmt env fallback) s) of None \<Rightarrow> fallback | Some x \<Rightarrow> x)
      in \<lparr>sn_from_ts = (if stored \<le> 0 \<or> sc_time env + 60 < stored then fallback else stored),
          sn_last_live_activity = sc_monotonic env\<rparr>)"

definition row_domains :: "scanner_env \<Rightarrow> query_row list \<Rightarrow> string list" where
  "row_domains env rows = sc_order env (fromkeys (map (\<lambda>q. py_lower (py_strip (q_domain q))) (filter (\<lambda>q. py_strip (q_domain q) \<noteq> []) rows)))"

definition history_backfill :: "scanner_env \<Rightarrow> scanner \<Rightarrow> db \<Rightarrow> scanner \<times> db \<times> (exn + unit)" where
  "history_backfill env sn s =
     (let now = sc_time env; inow = py_int now;
          done_at = get_state ''history_backfill_completed_at'' ''0'' s;
          last = (if done_at = [] then Some 0 else sc_float env done_at)
      in case last of None \<Rightarrow> (sn, s, Inl (ValueError ''could not convert string to float''))
      | Some completed \<Rightarrow>
        if now - completed < 21600 then (sn, s, Inr ())
        else
          let start_ts = now - of_int (sc_history_lookback_days env * 86400);
              until0 = (case sc_float env (get_state ''history_backfill_until_ts'' (sc_fmt env now) s) of None \<Rightarrow> now | Some x \<Rightarrow> x);
              until_ts = (if until0 \<le> start_ts \<or> now + 60 < until0 then now else until0);
              finish = (\<lambda>s. set_state ''history_backfill_until_ts'' (sc_fmt env now) inow
                         (set_state ''history_backfill_completed_at'' (show_int inow) inow s));
              idle = sn\<lparr>sn_last_live_activity := sc_monotonic env\<rparr>
          in case sc_fetch env (sc_history_batch_size env) start_ts (Some until_ts) of
               Inl e \<Rightarrow> (sn, s, Inl e)
             | Inr rows \<Rightarrow>
                 if rows = [] then (idle, finish s, Inr ())
                 else case record_discovered_domains rows inow s of
                   Inl e \<Rightarrow> (sn, s, Inl e)
                 | Inr (s1, _) \<Rightarrow>
                     (case queue_domains_needing_analysis (row_domains env rows) False (sc_excluded env) inow s1 of
                        (s2, Inl e) \<Rightarrow> (sn, s2, Inl e)
                      | (s2, Inr _) \<Rightarrow>
                          let times = filter (\<lambda>t. t \<noteq> 0) (map q_time rows);
                              next_until = (if times = [] then start_ts else py_min 0 times - 1 / 1000);
                              s3 = set_state ''history_backfill_until_ts'' (sc_fmt env next_until) inow s2
                          in if next_until \<le> start_ts \<or> int (length rows) < sc_history_batch_size env
                             then (idle, finish s3, Inr ()) else (sn, s3, Inr ())))"

text \<open>One pass of \<open>Scanner.run\<close>. An exception ends the pass; committed transactions stay.\<close>

definition scanner_rows :: "scanner \<Rightarrow> query_row list \<Rightarrow> query_row list" where
  "scanner_rows sn rows = filter (\<lambda>q. sn_from_ts sn < q_time q) rows"

definition scanner_pass :: "scanner_env \<Rightarrow> scanner \<Rightarrow> db \<Rightarrow> scanner \<times> db \<times> (exn + unit)" where
  "scanner_pass env sn s =
     (let inow = py_int (sc_time env) in
      if \<not> sc_enabled env then (sn, s, Inr ())
      else if \<not> sc_connected env then (sn, s, Inl (RuntimeError ''Pi-hole is not reachable''))
      else case sc_fetch env (sc_batch_size env) (of_int (max 0 (py_int (sn_from_ts sn)))) None of
        Inl e \<Rightarrow> (sn, s, Inl e)
      | Inr fetched \<Rightarrow>
          let rows = scanner_rows sn fetched in
          (case record_query_observations rows inow s of
             Inl e \<Rightarrow> (sn, s, Inl e)
           | Inr (s1, _) \<Rightarrow>
               (case queue_domains_needing_analysis (row_domains env rows) False (sc_excluded env) inow s1 of
                  (s2, Inl e) \<Rightarrow> (sn, s2, Inl e)
                | (s2, Inr _) \<Rightarrow>
                    (case (if rows \<noteq> [] then
                             let from_ts = max (sn_from_ts sn) (py_max 0 (map q_time rows) + 1 / 1000) in
                             (sn\<lparr>sn_from_ts := from_ts, sn_last_live_activity := sc_monotonic env\<rparr>,
                              set_state ''scanner_from_ts'' (sc_fmt env from_ts) inow s2, Inr ())
                           else if sc_history_enabled env \<and>
                             sc_history_idle_after env \<le> sc_monotonic env - sn_last_live_activity sn
                           then history_backfill env sn s2 else (sn, s2, Inr ())) of
                       (sn3, s3, Inl e) \<Rightarrow> (sn3, s3, Inl e)
                     | (sn3, s3, Inr _) \<Rightarrow>
                         (case queue_due_rechecks (sc_batch_size env) (sc_excluded env) inow s3 of
                            Inl e \<Rightarrow> (sn3, s3, Inl e) | Inr (s4, _) \<Rightarrow> (sn3, s4, Inr ()))))))"

end
