(* ===== verification/Dispatch_Proofs.thy ===== *)
theory Dispatch_Proofs
  imports Dispatcher "HOL-Library.Multiset"
begin

text \<open>
  Correctness of the dispatcher. The locale \<open>batch_classifier\<close> is the contract between the dispatcher and
  the classification of one batch: an accepted batch answer is exactly about the batch. Its lemmas
  account for every domain through the request loop; the interpretation discharges the contract for
  \<open>classify_domains_with_metadata\<close>. The properties of the four modes rest on it.
\<close>

section \<open>Packing\<close>

lemma fit_size_fits: "fit_size fits n \<noteq> 0 \<Longrightarrow> fits (fit_size fits n)"
  by (induction n) (auto split: if_splits)

lemma fit_size_longest: "fit_size fits n < m \<Longrightarrow> m \<le> n \<Longrightarrow> \<not> fits m"
  by (induction n) (auto simp: le_Suc_eq split: if_splits)

lemma pack_batches_Inr:
  assumes "pack_batches fits maximum ds = Inr bs"
  shows "concat bs = ds \<and> (\<forall>b\<in>set bs. b \<noteq> [] \<and> length b \<le> maximum \<and> fits b)"
  using assms
proof (induction fits maximum ds arbitrary: bs rule: pack_batches.induct)
  case (2 fits maximum d ds)
  define n where "n = fit_size (\<lambda>n. fits (take n (d # ds))) (min maximum (Suc (length ds)))"
  have n: "n \<noteq> 0" and le: "n \<le> maximum" "n \<le> Suc (length ds)"
    using 2(2) fit_size_le [of _ "min maximum (Suc (length ds))"] by (auto simp: Let_def n_def split: if_splits)
  obtain bs' where bs': "pack_batches fits maximum (drop n (d # ds)) = Inr bs'" "bs = take n (d # ds) # bs'"
    using 2(2) by (auto simp: Let_def n_def split: if_splits sum.splits)
  have IH: "concat bs' = drop n (d # ds) \<and> (\<forall>b\<in>set bs'. b \<noteq> [] \<and> length b \<le> maximum \<and> fits b)"
    using 2(1) [OF n_def n bs'(1)] .
  have "fits (take n (d # ds))" using fit_size_fits [of "\<lambda>n. fits (take n (d # ds))"] n by (simp add: n_def)
  with IH n le show ?case by (simp only: bs'(2)) auto
qed simp

lemma pack_batches_Inl:
  assumes "pack_batches fits maximum ds = Inl d" and "0 < maximum"
  shows "d \<in> set ds \<and> \<not> fits [d]"
  using assms
proof (induction fits maximum ds rule: pack_batches.induct)
  case (2 fits maximum x ds)
  define n where "n = fit_size (\<lambda>n. fits (take n (x # ds))) (min maximum (Suc (length ds)))"
  show ?case
  proof (cases "n = 0")
    case True
    then have "\<not> fits (take 1 (x # ds))"
      using 2(3) fit_size_longest [of "\<lambda>n. fits (take n (x # ds))" _ 1] by (simp add: n_def)
    moreover have "d = x" using 2(2) True by (simp add: n_def Let_def)
    ultimately show ?thesis by simp
  next
    case False
    then have "pack_batches fits maximum (drop n (x # ds)) = Inl d"
      using 2(2) by (auto simp: Let_def n_def split: if_splits sum.splits)
    then have "d \<in> set (drop n (x # ds)) \<and> \<not> fits [d]" using 2(1) [OF n_def False _ 2(3)] by blast
    then show ?thesis by (metis in_set_dropD)
  qed
qed simp

section \<open>Splitting a batch\<close>

lemma batch_weight_split:
  assumes "1 < length b" and "m = max 1 (length b div 2)"
  shows "batch_weight (take m b) + batch_weight (drop m b) < batch_weight b"
proof -
  have "1 \<le> m" "m < length b" using assms by auto
  then show ?thesis by (simp add: batch_weight_def)
qed

lemma batch_weight_le: "b \<noteq> [] \<Longrightarrow> batch_weight b \<le> 2 * length b"
  by (cases b) (simp_all add: batch_weight_def)

section \<open>The contract of a batch classifier\<close>

locale batch_classifier =
  fixes ask :: "nat \<Rightarrow> string list \<Rightarrow> pyexn + batch_result"
    and ok :: "string list \<Rightarrow> bool"
  assumes exact: "ok b \<Longrightarrow> ask k b = Inr r \<Longrightarrow> map c_domain (cb_classifications r) = b"
    and ok_parts: "ok (xs @ ys) \<Longrightarrow> ok xs \<and> ok ys"
begin

lemma run_batches_account:
  assumes "ok (concat bs)" and "run_batches ask k bs acc = (acc', out)"
  shows "map c_domain (ba_classifications acc') @ (case out of None \<Rightarrow> [] | Some (e, rest) \<Rightarrow> concat rest) =
    map c_domain (ba_classifications acc) @ concat bs"
  using assms
proof (induction "sum_list (map batch_weight bs)" arbitrary: k bs acc rule: less_induct)
  case less
  show ?case
  proof (cases bs)
    case Nil
    then show ?thesis using less.prems by (simp add: run_batches.simps(1))
  next
    case (Cons b bs')
    have ok: "ok b" "ok (concat bs')" using less.prems(1) ok_parts [of b "concat bs'"] Cons by simp_all
    show ?thesis
    proof (cases "ask k b")
      case (Inr r)
      have "sum_list (map batch_weight bs') < sum_list (map batch_weight bs)" by (simp add: Cons batch_weight_def)
      then have "map c_domain (ba_classifications acc') @ (case out of None \<Rightarrow> [] | Some (e, rest) \<Rightarrow> concat rest) =
          map c_domain (ba_classifications (add_batch r acc)) @ concat bs'"
        using less.hyps ok(2) less.prems(2) by (simp add: Cons Inr run_batches.simps(2))
      then show ?thesis using exact [OF ok(1) Inr] Cons by (simp add: add_batch_def)
    next
      case (Inl e)
      show ?thesis
      proof (cases "is_quota_error e \<and> 1 < length b")
        case True
        let ?m = "max 1 (length b div 2)"
        have lt: "sum_list (map batch_weight (take ?m b # drop ?m b # bs')) < sum_list (map batch_weight bs)"
          using True batch_weight_split [of b ?m] by (simp add: Cons)
        have "run_batches ask (Suc k) (take ?m b # drop ?m b # bs') acc = (acc', out)"
          using less.prems(2) True by (simp add: Cons Inl Let_def run_batches.simps(2) [of ask k b])
        moreover have "concat (take ?m b # drop ?m b # bs') = concat bs"
          using Cons by (simp add: append_assoc [symmetric] del: append_assoc)
        ultimately show ?thesis using less.hyps [OF lt] less.prems(1) by (metis (no_types, lifting))
      next
        case False
        then show ?thesis using less.prems(2) by (auto simp: Cons Inl run_batches.simps(2) [of ask k b])
      qed
    qed
  qed
qed

end

text \<open>The batches left over start with the one that failed; the quota refuses only a single domain for good.\<close>

lemma run_batches_stopped:
  "run_batches ask k bs acc = (acc', Some (e, rest)) \<Longrightarrow>
    rest \<noteq> [] \<and> (is_quota_error e \<longrightarrow> length (hd rest) \<le> 1) \<and> (\<exists>k'. ask k' (hd rest) = Inl e)"
proof (induction ask k bs acc rule: run_batches.induct)
  case (1 ask k acc)
  then show ?case by (simp add: run_batches.simps(1))
next
  case (2 ask k b bs acc)
  show ?case
  proof (cases "ask k b")
    case (Inr r)
    then show ?thesis using 2(2) [OF Inr] 2(3) by (simp add: run_batches.simps(2) [of ask k b])
  next
    case (Inl e')
    show ?thesis
    proof (cases "is_quota_error e' \<and> 1 < length b")
      case True
      then show ?thesis using 2(1) [OF Inl True refl] 2(3) Inl by (simp add: Let_def run_batches.simps(2) [of ask k b])
    next
      case False
      then have "rest = b # bs" "e = e'" using 2(3) Inl by (auto simp: run_batches.simps(2) [of ask k b] split: if_splits)
      then show ?thesis using False Inl by (auto simp del: split_paired_Ex)
    qed
  qed
qed

definition batch_ok :: "string list \<Rightarrow> bool" where
  "batch_ok ds \<longleftrightarrow> distinct ds \<and> (\<forall>d\<in>set ds. normalize_domain d = d \<and> py_strip d \<noteq> [])"

interpretation provider_asked: batch_classifier "ask_provider env c" batch_ok for env c
  by unfold_locales (auto simp: ask_provider_def batch_ok_def dest: classify_exact)

lemma execute_provider_account:
  assumes "execute_provider env pool c domains dossiers primary a = (out, a')" and "batch_ok domains"
  shows "case out of
      Complete r \<Rightarrow> map c_domain (pr_classifications r) = domains \<and> pr_provider_id r = cd_pid c \<and> pr_is_primary r = primary
    | Partial r failed e \<Rightarrow> map c_domain (pr_classifications r) @ failed = domains \<and> pr_classifications r \<noteq> [] \<and>
        \<not> is_cancelled e \<and> pr_provider_id r = cd_pid c \<and> pr_is_primary r = primary
    | Raised e \<Rightarrow> True"
proof (cases "length (de_profile_names env) \<le> ap_profile_index pool")
  case True
  then show ?thesis using assms(1) by (auto simp: execute_provider_def)
next
  case profile: False
  show ?thesis
  proof (cases "provider_batches env c (dossier_dict (de_conv env) dossiers) domains")
    case (Inl d)
    then show ?thesis using assms(1) profile by (auto simp: execute_provider_def)
  next
    case (Inr bs)
    then have bs: "concat bs = domains" unfolding provider_batches_def by (blast dest: pack_batches_Inr)
    obtain acc rout where run: "run_batches (ask_provider env c) 0 bs empty_acc = (acc, rout)" by fastforce
    have "map c_domain (ba_classifications acc) @ (case rout of None \<Rightarrow> [] | Some (e, rest) \<Rightarrow> concat rest) = domains"
      using provider_asked.run_batches_account [OF _ run] assms(2) bs by (simp add: empty_acc_def)
    then show ?thesis using assms(1) profile Inr run
      by (auto simp: execute_provider_def Let_def analysis_result_def split: option.splits if_splits)
  qed
qed

lemma execute_provider_runs:
  "execute_provider env pool c domains dossiers primary a = (out, a') \<Longrightarrow> a_runs a' = a_runs a"
  by (auto simp: execute_provider_def Let_def provider_health_success_def provider_health_failure_def
      split: sum.splits option.splits prod.splits if_splits)

lemma execute_provider_wf [invs]:
  "execute_provider env pool c domains dossiers primary a = (out, a') \<Longrightarrow> analysis_wf a \<Longrightarrow> analysis_wf a'"
  by (auto simp: execute_provider_def Let_def health_success_ok health_failure_ok
      split: sum.splits option.splits prod.splits if_splits)

section \<open>Accounting for domains\<close>

definition classified :: "provider_result list \<Rightarrow> string list" where
  "classified rs = concat (map (\<lambda>r. map c_domain (pr_classifications r)) rs)"

lemma classified_simps [simp]:
  "classified [] = []" "classified (r # rs) = map c_domain (pr_classifications r) @ classified rs"
  "classified (rs @ rs') = classified rs @ classified rs'"
  by (simp_all add: classified_def)

lemma batch_ok_append: "batch_ok (xs @ ys) \<Longrightarrow> batch_ok xs \<and> batch_ok ys"
  by (auto simp: batch_ok_def)

lemma batch_ok_filter: "batch_ok ds \<Longrightarrow> batch_ok (filter P ds)"
  by (auto simp: batch_ok_def)

lemma try_fallbacks_account:
  assumes "try_fallbacks env pool by_domain cs n remaining (rs0, es0) a = (Inr (rs, es), a')" and "batch_ok remaining"
  shows "\<exists>rs1 es1 missing. rs = rs0 @ rs1 \<and> es = es0 @ es1 \<and> classified rs1 @ missing = remaining \<and>
    (\<forall>r\<in>set rs1. pr_is_primary r) \<and> (missing = [] \<or> es1 \<noteq> [] \<or> cs = [])"
  using assms
proof (induction cs arbitrary: n remaining rs0 es0 a)
  case Nil
  then show ?case by auto
next
  case (Cons c cs)
  show ?case
  proof (cases "de_cancelled env n \<or> remaining = []")
    case True
    then show ?thesis using Cons.prems by (auto split: if_splits)
  next
    case False
    obtain out a1 where x: "execute_provider env pool c remaining (dossiers_for by_domain remaining) True a = (out, a1)"
      by fastforce
    note acc = execute_provider_account [OF x Cons.prems(2)]
    show ?thesis
    proof (cases out)
      case (Complete r)
      then have "try_fallbacks env pool by_domain cs (Suc n) [] (rs0 @ [r], es0) a1 = (Inr (rs, es), a')"
        using Cons.prems(1) False x by simp
      from Cons.IH [OF this] Complete acc show ?thesis
        by (fastforce simp: batch_ok_def intro: exI [of _ "[]"])
    next
      case (Partial r failed e)
      let ?err = "provider_error_of (de_now env) c e a1"
      have parts: "map c_domain (pr_classifications r) @ failed = remaining" "pr_is_primary r"
        using acc Partial by auto
      show ?thesis
      proof (cases "is_fallback_eligible e")
        case True
        then have "try_fallbacks env pool by_domain cs (Suc n) failed (rs0 @ [r], es0 @ [?err]) a1 = (Inr (rs, es), a')"
          using Cons.prems(1) False x Partial by (simp add: Let_def)
        from Cons.IH [OF this] obtain rs1 es1 missing where
          "rs = (rs0 @ [r]) @ rs1" "es = (es0 @ [?err]) @ es1" "classified rs1 @ missing = failed"
          "\<forall>r\<in>set rs1. pr_is_primary r"
          using batch_ok_append parts(1) Cons.prems(2) by metis
        with parts show ?thesis
          by (intro exI [of _ "r # rs1"] exI [of _ "?err # es1"] exI [of _ missing]) auto
      next
        case no: False
        then have "rs = rs0 @ [r]" "es = es0 @ [?err]" using Cons.prems(1) False x Partial by auto
        with parts show ?thesis by (intro exI [of _ "[r]"] exI [of _ "[?err]"] exI [of _ failed]) auto
      qed
    next
      case (Raised e)
      let ?err = "provider_error_of (de_now env) c e a1"
      have "try_fallbacks env pool by_domain cs (Suc n) remaining (rs0, es0 @ [?err]) a1 = (Inr (rs, es), a')"
        using Cons.prems(1) False x Raised by (auto split: if_splits)
      from Cons.IH [OF this Cons.prems(2)] obtain rs1 es1 missing where
        "rs = rs0 @ rs1" "es = (es0 @ [?err]) @ es1" "classified rs1 @ missing = remaining" "\<forall>r\<in>set rs1. pr_is_primary r"
        by blast
      then show ?thesis by (intro exI [of _ rs1] exI [of _ "?err # es1"] exI [of _ missing]) auto
    qed
  qed
qed

text \<open>The collector: results and failures of the jobs, whatever their order.\<close>

lemma collect_jobs_account:
  assumes "collect_jobs env pool dossiers primary jobs n (rs0, es0) a = (Inr (rs, es), a')"
    and "\<forall>(c, ds)\<in>set jobs. batch_ok ds"
  shows "\<exists>rs1 es1 missing. rs = rs0 @ rs1 \<and> es = es0 @ es1 \<and>
    mset (classified rs1) + mset missing = mset (concat (map snd jobs)) \<and>
    (\<forall>r\<in>set rs1. pr_is_primary r = primary \<and>
       (\<exists>(c, ds)\<in>set jobs. pr_provider_id r = cd_pid c \<and> (\<forall>x\<in>set (pr_classifications r). c_domain x \<in> set ds))) \<and>
    (missing = [] \<or> es1 \<noteq> [])"
  using assms
proof (induction jobs arbitrary: n rs0 es0 a)
  case Nil
  then show ?case by auto
next
  case (Cons job jobs)
  obtain c ds where job: "job = (c, ds)" by (cases job)
  have nc: "\<not> de_cancelled env n" using Cons.prems(1) job by (auto split: if_splits)
  obtain out a1 where x: "execute_provider env pool c ds (dossiers_for (dossier_dict (de_conv env) dossiers) ds) primary a = (out, a1)"
    by fastforce
  have ok: "batch_ok ds" "\<forall>(c, ds)\<in>set jobs. batch_ok ds" using Cons.prems(2) job by auto
  note acc = execute_provider_account [OF x ok(1)]
  let ?P = "\<lambda>jobs r. pr_is_primary r = primary \<and>
       (\<exists>(c, ds)\<in>set jobs. pr_provider_id r = cd_pid c \<and> (\<forall>x\<in>set (pr_classifications r). c_domain x \<in> set ds))"
  have mono: "?P jobs r \<Longrightarrow> ?P (job # jobs) r" for r by fastforce
  have step: ?case if "collect_jobs env pool dossiers primary jobs (Suc n) (rs0 @ rs', es0 @ es') a1 = (Inr (rs, es), a')"
      and "\<forall>r\<in>set rs'. ?P (job # jobs) r" and "classified rs' @ missing' = ds" and "missing' = [] \<or> es' \<noteq> []"
    for rs' es' missing'
  proof -
    from Cons.IH [OF that(1) ok(2)] obtain rs1 es1 missing where
      "rs = (rs0 @ rs') @ rs1" "es = (es0 @ es') @ es1" and m: "mset (classified rs1) + mset missing = mset (concat (map snd jobs))"
      "\<forall>r\<in>set rs1. ?P jobs r" "missing = [] \<or> es1 \<noteq> []"
      by blast
    moreover have "mset (classified (rs' @ rs1)) + mset (missing' @ missing) = mset (concat (map snd (job # jobs)))"
      using m(1) job that(3) [symmetric] by simp
    ultimately show ?thesis using that(2,4) mono
      by (intro exI [of _ "rs' @ rs1"] exI [of _ "es' @ es1"] exI [of _ "missing' @ missing"]) auto
  qed
  show ?case
  proof (cases out)
    case (Complete r)
    then show ?thesis using Cons.prems(1) job nc x acc
      by (intro step [of "[r]" "[]" "[]"]) auto
  next
    case (Partial r failed e)
    then show ?thesis using Cons.prems(1) job nc x acc
      by (intro step [of "[r]" "[provider_error_of (de_now env) c e a1]" failed]) auto
  next
    case (Raised e)
    then show ?thesis using Cons.prems(1) job nc x
      by (intro step [of "[]" "[provider_error_of (de_now env) c e a1]" ds]) (auto split: if_splits)
  qed
qed

section \<open>Distribution\<close>

lemma mset_assign_step: "mset (concat (map snd (assign_step f d asg))) = mset (concat (map snd asg)) + {#d#}"
  unfolding assign_step_def by (induction asg) auto

lemma mset_fold_assign:
  "mset (concat (map snd (fold (assign_step f) ds asg))) = mset (concat (map snd asg)) + mset ds"
  by (induction ds arbitrary: asg) (auto simp: mset_assign_step simp del: mset_concat)

lemma set_alist_update: "set (AList.update k v al) \<subseteq> insert (k, v) (set al)"
  by (induction al) auto

lemma assign_step_home:
  assumes "\<forall>(p, xs)\<in>set asg. \<forall>x\<in>set xs. f x = p"
  shows "\<forall>(p, xs)\<in>set (assign_step f d asg). \<forall>x\<in>set xs. f x = p"
proof -
  have "\<forall>x\<in>set ((case map_of asg (f d) of None \<Rightarrow> [] | Some ds \<Rightarrow> ds) @ [d]). f x = f d"
    using assms map_of_SomeD [of asg "f d"] by (cases "map_of asg (f d)") auto
  then show ?thesis unfolding assign_step_def
    using assms set_alist_update [of "f d" "(case map_of asg (f d) of None \<Rightarrow> [] | Some ds \<Rightarrow> ds) @ [d]" asg] by fast
qed

lemma fold_assign_home:
  "\<forall>(p, xs)\<in>set asg. \<forall>x\<in>set xs. f x = p \<Longrightarrow> \<forall>(p, xs)\<in>set (fold (assign_step f) ds asg). \<forall>x\<in>set xs. f x = p"
proof (induction ds arbitrary: asg)
  case (Cons d ds)
  show ?case using Cons.IH [OF assign_step_home [OF Cons.prems]] by simp
qed simp

lemma assignments_partition:
  "mset (concat (map snd (assignments env cs domains))) = mset domains"
  "\<forall>(p, xs)\<in>set (assignments env cs domains). \<forall>x\<in>set xs. assigned_provider env cs x = p"
  using mset_fold_assign [of _ domains "[]"] fold_assign_home [of "[]" _ domains]
  by (simp_all add: assignments_def del: mset_concat)

lemma assignments_nonempty: "\<forall>(p, xs)\<in>set (fold (assign_step f) ds asg). xs \<noteq> []"
  if "\<forall>(p, xs)\<in>set asg. xs \<noteq> []"
  using that
proof (induction ds arbitrary: asg)
  case (Cons d ds)
  have "\<forall>(p, xs)\<in>set (assign_step f d asg). xs \<noteq> []"
    unfolding assign_step_def
    using Cons.prems set_alist_update [of "f d" "(case map_of asg (f d) of None \<Rightarrow> [] | Some ds \<Rightarrow> ds) @ [d]" asg] by fast
  then show ?case using Cons.IH by simp
qed simp

lemma weighted_candidates_set: "set (weighted_candidates cs) = set cs"
  by (auto simp: weighted_candidates_def)

lemma assigned_provider_in:
  assumes "cs \<noteq> []" shows "assigned_provider env cs d \<in> cd_pid ` set cs"
proof -
  have "weighted_candidates cs \<noteq> []" using assms weighted_candidates_set by (metis set_empty)
  then have "weighted_candidates cs ! (de_digest8 env d mod length (weighted_candidates cs)) \<in> set cs"
    using weighted_candidates_set by (metis length_greater_0_conv mod_less_divisor nth_mem)
  then show ?thesis by (simp add: assigned_provider_def Let_def)
qed

lemma batch_ok_concat:
  assumes "mset (concat xss) = mset ds" and "batch_ok ds" and "xs \<in> set xss"
  shows "batch_ok xs"
proof -
  have "distinct (concat xss)" using mset_eq_imp_distinct_iff [OF assms(1)] assms(2) by (simp add: batch_ok_def)
  moreover have "set (concat xss) = set ds" using mset_eq_setD [OF assms(1)] .
  ultimately show ?thesis using assms(2,3) by (auto simp: batch_ok_def distinct_concat_iff)
qed

lemma candidate_by_id:
  assumes "pid \<in> cd_pid ` set cs"
  shows "\<exists>c\<in>set cs. map_of (dict_of (map (\<lambda>c. (cd_pid c, c)) cs)) pid = Some c \<and> cd_pid c = pid"
proof -
  obtain c where "map_of (dict_of (map (\<lambda>c. (cd_pid c, c)) cs)) pid = Some c"
    using assms unfolding map_of_dict_of
    by (metis (no_types, lifting) fst_conv image_iff list.set_map map_of_eq_None_iff not_Some_eq set_rev)
  moreover from this have "(pid, c) \<in> set (map (\<lambda>c. (cd_pid c, c)) cs)"
    unfolding map_of_dict_of by (metis map_of_SomeD set_rev)
  ultimately show ?thesis by auto
qed

lemma distribute_jobs_facts:
  assumes "cs \<noteq> []" and "batch_ok domains"
  shows "map snd (distribute_jobs env cs domains) = map snd (assignments env cs domains)"
    and "\<forall>(c, ds)\<in>set (distribute_jobs env cs domains). batch_ok ds \<and> (\<forall>d\<in>set ds. assigned_provider env cs d = cd_pid c)"
proof -
  show *: "map snd (distribute_jobs env cs domains) = map snd (assignments env cs domains)"
    by (simp add: distribute_jobs_def comp_def case_prod_unfold)
  show "\<forall>(c, ds)\<in>set (distribute_jobs env cs domains). batch_ok ds \<and> (\<forall>d\<in>set ds. assigned_provider env cs d = cd_pid c)"
  proof (intro ballI, clarify, intro conjI)
    fix c ds assume job: "(c, ds) \<in> set (distribute_jobs env cs domains)"
    then have "ds \<in> set (map snd (assignments env cs domains))" by (metis * list.set_map image_eqI snd_conv)
    then show "batch_ok ds" using batch_ok_concat [OF assignments_partition(1) assms(2)] by blast
    from job obtain pid where p: "(pid, ds) \<in> set (assignments env cs domains)"
      and c: "c = the (map_of (dict_of (map (\<lambda>c. (cd_pid c, c)) cs)) pid)"
      by (auto simp: distribute_jobs_def)
    have home: "\<forall>d\<in>set ds. assigned_provider env cs d = pid" using assignments_partition(2) p by fast
    have "ds \<noteq> []" using assignments_nonempty [of "[]" "assigned_provider env cs" domains] p by (fastforce simp: assignments_def)
    then have "pid \<in> cd_pid ` set cs" using home assigned_provider_in [OF assms(1)] by (metis list.set_sel(1))
    then have "cd_pid c = pid" using candidate_by_id c by fastforce
    then show "\<forall>d\<in>set ds. assigned_provider env cs d = cd_pid c" using home by simp
  qed
qed

lemma sort_results_mset: "mset (sort_results rs cs) = mset rs"
  by (simp add: sort_results_def Let_def)

lemma mset_classified: "mset rs = mset rs' \<Longrightarrow> mset (classified rs) = mset (classified rs')"
  by (simp add: classified_def mset_concat) (metis mset_map sum_mset_sum_list)

lemma sorted_lists_Inr:
  assumes "sorted_lists cs out = (Inr (rs, es), a')"
  obtains rs0 where "out = (Inr (rs0, es), a')" "mset rs = mset rs0"
  using assms by (auto simp: sorted_lists_def sort_results_mset split: prod.splits sum.splits)

section \<open>Verification\<close>

definition confirmed_by :: "provider_result list \<Rightarrow> provider_result \<Rightarrow> classification \<Rightarrow> bool" where
  "confirmed_by others p c \<longleftrightarrow>
     (\<exists>s\<in>set others. pr_provider_id s \<noteq> pr_provider_id p \<and>
        (\<exists>x\<in>set (pr_classifications s). c_domain x = c_domain c \<and> classifications_agree c x))"

lemma dict_by_domain:
  "map_of (dict_of (map (\<lambda>x. (c_domain x, x)) others)) d = Some x \<Longrightarrow> x \<in> set others \<and> c_domain x = d"
  "map_of (dict_of (map (\<lambda>x. (c_domain x, x)) others)) d = None \<Longrightarrow> d \<notin> c_domain ` set others"
  unfolding map_of_dict_of by (auto dest: map_of_SomeD simp: map_of_eq_None_iff image_image)

lemma mark_unavailable:
  "c \<in> set (pr_classifications (mark_verification_unavailable r ds)) \<Longrightarrow> \<not> c_needs_review c \<Longrightarrow>
    c \<in> set (pr_classifications r) \<and> c_domain c \<notin> set ds"
  "map c_domain (pr_classifications (mark_verification_unavailable r ds)) = map c_domain (pr_classifications r)"
  "pr_provider_id (mark_verification_unavailable r ds) = pr_provider_id r"
  "pr_is_primary (mark_verification_unavailable r ds) = pr_is_primary r"
  by (auto simp: mark_verification_unavailable_def)

lemma compare_verification_domain [simp]: "c_domain (compare_verification others c) = c_domain c"
  by (simp add: compare_verification_def split: option.split)

lemma compare_verification_kept:
  assumes "\<not> c_needs_review (compare_verification others c)"
  shows "compare_verification others c = c"
    and "c_domain c \<in> c_domain ` set others \<Longrightarrow> \<exists>x\<in>set others. c_domain x = c_domain c \<and> classifications_agree c x"
proof -
  let ?m = "map_of (dict_of (map (\<lambda>x. (c_domain x, x)) others)) (c_domain c)"
  have agree: "classifications_agree c x" if "?m = Some x" for x
    using assms that by (cases "classifications_agree c x") (simp_all add: compare_verification_def)
  then show "compare_verification others c = c" by (cases ?m) (simp_all add: compare_verification_def)
  assume "c_domain c \<in> c_domain ` set others"
  then obtain x where "?m = Some x" using dict_by_domain(2) by (cases ?m) blast+
  then show "\<exists>x\<in>set others. c_domain x = c_domain c \<and> classifications_agree c x"
    using agree dict_by_domain(1) by blast
qed

lemma verify_with_sound:
  assumes "verify_with env pool cs dossiers primary errors a = (Inr (rs, es), a')"
    and ok: "batch_ok (map c_domain (pr_classifications primary))"
  shows "\<exists>p rest. rs = p # rest \<and> pr_is_primary p = pr_is_primary primary \<and>
    map c_domain (pr_classifications p) = map c_domain (pr_classifications primary) \<and>
    (\<forall>c\<in>set (pr_classifications p). requires_verification env pool c \<and> \<not> c_needs_review c \<longrightarrow> confirmed_by rest p c)"
proof -
  let ?vs = "map c_domain (filter (requires_verification env pool) (pr_classifications primary))"
  have vok: "batch_ok ?vs" using ok by (auto simp: batch_ok_def distinct_map_filter)
  have req: "c_domain c \<in> set ?vs" if "c \<in> set (pr_classifications primary)" "requires_verification env pool c" for c
    using that by auto
  have unverified: ?thesis if "rs = [mark_verification_unavailable primary ?vs]"
  proof (intro exI conjI ballI impI)
    show "rs = mark_verification_unavailable primary ?vs # []" using that by simp
    fix c assume c: "c \<in> set (pr_classifications (mark_verification_unavailable primary ?vs))"
      "requires_verification env pool c \<and> \<not> c_needs_review c"
    then show "confirmed_by [] (mark_verification_unavailable primary ?vs) c"
      using mark_unavailable(1) [OF c(1)] req by blast
  qed (rule mark_unavailable)+
  show ?thesis
  proof (cases "?vs = []")
    case True
    then have "rs = [primary]" using assms(1) by (auto simp: verify_with_def)
    with True show ?thesis by (auto simp: filter_empty_conv)
  next
    case vs: False
    show ?thesis
    proof (cases "List.find (\<lambda>c. cd_pid c \<noteq> pr_provider_id primary) (verification_order cs)")
      case None
      then have "rs = [mark_verification_unavailable primary ?vs]" using assms(1) vs by (auto simp: verify_with_def Let_def)
      then show ?thesis by (rule unverified)
    next
      case (Some v)
      have v: "cd_pid v \<noteq> pr_provider_id primary" using Some by (auto simp: find_Some_iff)
      obtain out a1 where x: "execute_provider env pool v ?vs
          (dossiers_for (dossier_dict (de_conv env) dossiers) ?vs) False a = (out, a1)" by fastforce
      note acc = execute_provider_account [OF x vok]
      have fin: ?thesis if rs: "rs = [p\<lparr>pr_classifications := map (compare_verification (pr_classifications s)) (pr_classifications p)\<rparr>, s]"
          and s: "pr_provider_id s = cd_pid v" "map c_domain (pr_classifications s) @ missing = ?vs"
          and p: "p = mark_verification_unavailable primary missing" for p s missing
      proof -
        have "confirmed_by [s] q c" if q: "pr_provider_id q = pr_provider_id primary" and c: "c \<in> set (map (compare_verification (pr_classifications s)) (pr_classifications p))"
            "requires_verification env pool c" "\<not> c_needs_review c" for q c
        proof -
          obtain c0 where c0: "c0 \<in> set (pr_classifications p)" "c = compare_verification (pr_classifications s) c0" using c(1) by auto
          then have "c = c0" using c(3) compare_verification_kept(1) by metis
          with c0 c p have m: "c0 \<in> set (pr_classifications primary)" "c_domain c0 \<notin> set missing"
            using mark_unavailable(1) [of c0 primary missing] by auto
          then have "c_domain c0 \<in> set (map c_domain (pr_classifications s) @ missing)"
            using req c(2) \<open>c = c0\<close> s(2) by metis
          then have "c_domain c0 \<in> c_domain ` set (pr_classifications s)" using m(2) by auto
          then have "\<exists>x\<in>set (pr_classifications s). c_domain x = c_domain c \<and> classifications_agree c x"
            using compare_verification_kept(2) [of "pr_classifications s" c0] c(3) c0(2) \<open>c = c0\<close> by simp
          then show ?thesis using s(1) v q by (auto simp: confirmed_by_def)
        qed
        then show ?thesis unfolding rs using p mark_unavailable(2-4) [of primary missing]
          by (auto simp: comp_def)
      qed
      show ?thesis
      proof (cases out)
        case (Complete s)
        have "primary = mark_verification_unavailable primary []" by (simp add: mark_verification_unavailable_def)
        then show ?thesis using assms(1) vs Some x Complete acc by (intro fin [where p = primary and s = s and missing = "[]"]) (auto simp: verify_with_def Let_def)
      next
        case (Partial s missing e)
        then show ?thesis using assms(1) vs Some x acc by (intro fin [where s = s and missing = missing, OF _ _ _ refl]) (auto simp: verify_with_def Let_def)
      next
        case (Raised e)
        then have "rs = [mark_verification_unavailable primary ?vs]"
          using assms(1) vs Some x by (auto simp: verify_with_def Let_def split: if_splits)
        then show ?thesis by (rule unverified)
      qed
    qed
  qed
qed

section \<open>Frames\<close>

lemma collect_jobs_runs: "collect_jobs env pool dossiers primary jobs n out0 a = (out, a') \<Longrightarrow> a_runs a' = a_runs a"
  by (induction env pool dossiers primary jobs n out0 a rule: collect_jobs.induct)
    (auto split: if_splits prod.splits outcome.splits dest!: execute_provider_runs)

lemma try_fallbacks_runs:
  "try_fallbacks env pool by_domain cs n remaining out0 a = (out, a') \<Longrightarrow> a_runs a' = a_runs a"
  by (induction env pool by_domain cs n remaining out0 a rule: try_fallbacks.induct)
    (auto simp: Let_def split: if_splits prod.splits outcome.splits dest!: execute_provider_runs)

lemma verify_with_runs: "verify_with env pool cs dossiers p es a = (out, a') \<Longrightarrow> a_runs a' = a_runs a"
  by (auto simp: verify_with_def Let_def split: if_splits prod.splits outcome.splits option.splits dest!: execute_provider_runs)

lemma run_mode_runs: "run_mode env pool cs domains dossiers a = (out, a') \<Longrightarrow> a_runs a' = a_runs a"
  by (auto simp: run_mode_def dispatch_distribute_def dispatch_compare_def dispatch_fallback_def dispatch_verify_def
      sorted_lists_def Let_def split: option.splits pool_mode.splits prod.splits sum.splits outcome.splits
      dest!: execute_provider_runs collect_jobs_runs try_fallbacks_runs verify_with_runs)

section \<open>An example dispatch\<close>

text \<open>
  Three domains and two providers. The quota refuses the first request of \<open>p1\<close> for three domains; it
  answers for the first one and the connection fails for the other two, which \<open>p2\<close> then takes over.
  The text of an answer is the list of its domains in braces.
\<close>

definition ex_answer :: "string \<Rightarrow> json option" where
  "ex_answer s = Some (JObj [(''schema_version'', JInt 1), (''results'', JList (map (JObj \<circ> ex_item) (py_split (CHR '','') (butlast (tl s)))))])"

definition ex_reply :: "string \<Rightarrow> pyexn + provider_response" where
  "ex_reply s = Inr \<lparr>resp_text = s, resp_usage = no_usage, resp_latency_ms = 5\<rparr>"

definition ex_requests :: "string \<Rightarrow> nat \<Rightarrow> string \<Rightarrow> pyexn + provider_response" where
  "ex_requests pid k mode =
     (if pid = ''p1'' then
        (if k = 0 then Inl (PyExn (QuotaUnavailable 2000) ''quota'' None)
         else if k = 1 then ex_reply ''{a.com}'' else Inl (PyExn ConnectionFailed ''refused'' None))
      else ex_reply ''{b.com,c.com}'')"

definition ex_pool :: "string \<Rightarrow> analysis_pool" where
  "ex_pool mode = \<lparr>ap_pool_id = ''background'', ap_name = ''Background'', ap_enabled = True, ap_mode = mode, ap_profile_index = 0,
     ap_max_parallel_requests = 2, ap_verification_sample_percent = 0, ap_verify_automatic_actions = False,
     ap_verify_security_risk_at_least = 80, ap_verify_breakage_risk_at_least = 50,
     ap_memberships = [\<lparr>mb_provider_id = ''p2'', mb_enabled = True, mb_role = ''verifier'', mb_priority = 1, mb_weight = 1\<rparr>,
       \<lparr>mb_provider_id = ''p1'', mb_enabled = True, mb_role = ''primary'', mb_priority = 1, mb_weight = 1\<rparr>]\<rparr>"

definition ex_dispatch :: dispatch_env where
  "ex_dispatch = \<lparr>de_request = ex_requests, de_loads = ex_answer, de_conv = ex_conv, de_parse = ex_parse_options,
     de_message_len = length, de_digest8 = length, de_digest4 = length, de_hash = (\<lambda>_. ''h''),
     de_quota = \<lparr>q_rows = [], q_runtime = []\<rparr>, de_settings = ex_settings,
     de_providers = [ex_llm_provider\<lparr>lpv_structured_output := ''json_object''\<rparr>, ex_llm_provider\<lparr>lpv_provider_id := ''p2''\<rparr>],
     de_pools = [ex_pool ''fallback''], de_profile_names = [''Balanced''],
     de_limit_profile = (\<lambda>_. ex_limit_profile), de_order = rev, de_cancelled_on_entry = False,
     de_cancelled = (\<lambda>_. False), de_now = 1000\<rparr>"

definition ex_store :: analysis_db where
  "ex_store = \<lparr>a_runs = [], a_health = [], a_benchmarks = [], a_results = []\<rparr>"

definition ex_candidates :: "candidate list" where
  "ex_candidates = pool_candidates ex_dispatch (ex_pool ''fallback'') False ex_store"

definition ex_domains :: "string list" where
  "ex_domains = [''a.com'', ''b.com'', ''c.com'']"

definition ex_dossiers :: "jobj list" where
  "ex_dossiers = snd (freeze_dossiers ex_conv ex_domains [])"

lemma ex_domains_ok: "batch_ok ex_domains" by code_simp

lemma ex_batches:
  "provider_batches ex_dispatch (hd ex_candidates) (dossier_dict ex_conv ex_dossiers) ex_domains = Inr [ex_domains]"
  by code_simp

lemma ex_fallback:
  "(case fst (dispatch_fallback ex_dispatch (ex_pool ''fallback'') ex_candidates ex_domains ex_dossiers ex_store) of
      Inl _ \<Rightarrow> None | Inr (rs, es) \<Rightarrow> Some (map pr_provider_id rs)) = Some [''p1'', ''p2'']"
  by code_simp

section \<open>Properties\<close>

text \<open>
  C21. Packing is a partition. When packing succeeds, the batches in order are exactly the domains, no
  batch is empty, none exceeds the batch size of the provider and each fits the context window. When
  it fails, it names a domain of the request whose dossier alone does not fit.
\<close>

theorem batches_partition_and_fit:
  "case provider_batches env c by_domain domains of
     Inr bs \<Rightarrow> concat bs = domains \<and>
       (\<forall>b\<in>set bs. b \<noteq> [] \<and> int (length b) \<le> maximum_provider_batch_size (cd_limit_profile c) (de_settings env) \<and>
          batch_fits env c by_domain b)
   | Inl d \<Rightarrow> d \<in> set domains \<and> \<not> batch_fits env c by_domain [d]"
proof -
  have "1 \<le> maximum_provider_batch_size (cd_limit_profile c) (de_settings env)"
    by (simp add: maximum_provider_batch_size_def Let_def)
  then show ?thesis unfolding provider_batches_def
    using pack_batches_Inr [of "batch_fits env c by_domain" "nat (maximum_provider_batch_size (cd_limit_profile c) (de_settings env))" domains]
      pack_batches_Inl [of "batch_fits env c by_domain" "nat (maximum_provider_batch_size (cd_limit_profile c) (de_settings env))" domains]
    by (auto split: sum.split simp: le_nat_iff)
qed

theorem batches_partition_and_fit_witness:
  "provider_batches ex_dispatch (hd ex_candidates) (dossier_dict ex_conv ex_dossiers) ex_domains = Inr [ex_domains] \<and>
   batch_fits ex_dispatch (hd ex_candidates) (dossier_dict ex_conv ex_dossiers) ex_domains"
  using batches_partition_and_fit [where env = ex_dispatch and c = "hd ex_candidates" and
      by_domain = "dossier_dict ex_conv ex_dossiers" and domains = ex_domains] ex_batches
  by simp

text \<open>
  C22. No domain is lost or classified twice in fallback mode: the classified domains of the providers
  in order, followed by the domains that no provider classified, are the requested domains. Domains
  stay unclassified only if an error is reported with the result, and every result is primary.
\<close>

theorem fallback_accounts_for_domains:
  assumes "dispatch_fallback env pool cs domains dossiers a = (Inr (rs, es), a')" and "batch_ok domains" and "cs \<noteq> []"
  shows "\<exists>missing. classified rs @ missing = domains \<and> (missing \<noteq> [] \<longrightarrow> es \<noteq> []) \<and> (\<forall>r\<in>set rs. pr_is_primary r)"
proof -
  have "set (fallback_order cs) = set cs" by (simp add: fallback_order_def)
  then have "fallback_order cs \<noteq> []" using assms(3) by auto
  with try_fallbacks_account [OF assms(1) [unfolded dispatch_fallback_def] assms(2)] show ?thesis by auto
qed

theorem fallback_accounts_for_domains_witness:
  "\<exists>rs es a' missing. dispatch_fallback ex_dispatch (ex_pool ''fallback'') ex_candidates ex_domains ex_dossiers ex_store = (Inr (rs, es), a') \<and>
     map pr_provider_id rs = [''p1'', ''p2''] \<and> classified rs @ missing = ex_domains \<and> list_all pr_is_primary rs"
proof -
  obtain out a' where x: "dispatch_fallback ex_dispatch (ex_pool ''fallback'') ex_candidates ex_domains ex_dossiers ex_store = (out, a')"
    by fastforce
  then obtain rs es where "out = Inr (rs, es)" and p: "map pr_provider_id rs = [''p1'', ''p2'']"
    using ex_fallback by (auto split: sum.splits)
  then have r: "dispatch_fallback ex_dispatch (ex_pool ''fallback'') ex_candidates ex_domains ex_dossiers ex_store = (Inr (rs, es), a')"
    using x by simp
  have "ex_candidates \<noteq> []" by code_simp
  from fallback_accounts_for_domains [OF r ex_domains_ok this] obtain missing
    where "classified rs @ missing = ex_domains" "\<forall>r\<in>set rs. pr_is_primary r" by blast
  then show ?thesis using r p unfolding list_all_iff by (intro exI conjI)
qed

text \<open>
  C23. In distribute mode, whatever the order in which the requests complete, every requested domain
  is classified once or missing, and missing only if an error is reported; each classification comes
  from the provider to which the hash of its domain assigns it.
\<close>

theorem distribute_accounts_for_domains:
  assumes "dispatch_distribute env pool cs domains dossiers a = (Inr (rs, es), a')" and "batch_ok domains" and "cs \<noteq> []"
    and "\<forall>jobs. mset (de_order env jobs) = mset jobs"
  shows "\<exists>missing. mset (classified rs) + mset missing = mset domains \<and> (missing \<noteq> [] \<longrightarrow> es \<noteq> []) \<and>
    (\<forall>r\<in>set rs. pr_is_primary r \<and> (\<forall>c\<in>set (pr_classifications r). pr_provider_id r = assigned_provider env cs (c_domain c)))"
proof -
  let ?jobs = "de_order env (distribute_jobs env cs domains)"
  have perm: "mset ?jobs = mset (distribute_jobs env cs domains)" "set ?jobs = set (distribute_jobs env cs domains)"
    using assms(4) mset_eq_setD by blast+
  note jobs = distribute_jobs_facts [OF assms(3,2), of env]
  obtain rs0 where r0: "collect_jobs env pool dossiers True ?jobs 0 ([], []) a = (Inr (rs0, es), a')" and m: "mset rs = mset rs0"
    using assms(1) unfolding dispatch_distribute_def by (rule sorted_lists_Inr)
  have ok: "\<forall>(c, ds)\<in>set ?jobs. batch_ok ds" using jobs(2) perm(2) by fast
  from collect_jobs_account [OF r0 this] obtain missing where
    acc: "mset (classified rs0) + mset missing = mset (concat (map snd ?jobs))" "missing = [] \<or> es \<noteq> []"
    and home: "\<forall>r\<in>set rs0. pr_is_primary r = True \<and>
       (\<exists>(c, ds)\<in>set ?jobs. pr_provider_id r = cd_pid c \<and> (\<forall>x\<in>set (pr_classifications r). c_domain x \<in> set ds))"
    by auto
  have "mset (concat (map snd ?jobs)) = mset (concat (map snd (distribute_jobs env cs domains)))"
    using perm(1) by (simp add: mset_concat) (metis mset_map sum_mset_sum_list)
  then have "mset (classified rs) + mset missing = mset domains"
    using acc(1) assignments_partition(1) [of env cs domains] mset_classified [OF m] unfolding jobs(1) by simp
  moreover have "\<forall>r\<in>set rs. pr_is_primary r \<and> (\<forall>c\<in>set (pr_classifications r). pr_provider_id r = assigned_provider env cs (c_domain c))"
  proof
    fix r assume "r \<in> set rs"
    then have "r \<in> set rs0" using mset_eq_setD [OF m] by simp
    with home obtain c ds where "pr_is_primary r" and job: "(c, ds) \<in> set (distribute_jobs env cs domains)"
      "pr_provider_id r = cd_pid c" "\<forall>x\<in>set (pr_classifications r). c_domain x \<in> set ds"
      using perm(2) by auto
    then show "pr_is_primary r \<and> (\<forall>c\<in>set (pr_classifications r). pr_provider_id r = assigned_provider env cs (c_domain c))"
      using jobs(2) by fastforce
  qed
  ultimately show ?thesis using acc(2) by blast
qed

lemma ex_distribute:
  "(case fst (dispatch_distribute ex_dispatch (ex_pool ''distribute'') ex_candidates [''b.com'', ''c.com''] ex_dossiers ex_store) of
      Inl _ \<Rightarrow> None | Inr (rs, es) \<Rightarrow> Some (map pr_provider_id rs)) = Some [''p2'']"
  by code_simp

theorem distribute_accounts_for_domains_witness:
  "\<exists>rs es a' missing. dispatch_distribute ex_dispatch (ex_pool ''distribute'') ex_candidates [''b.com'', ''c.com''] ex_dossiers ex_store =
       (Inr (rs, es), a') \<and> map pr_provider_id rs = [''p2''] \<and> mset (classified rs) + mset missing = mset [''b.com'', ''c.com'']"
proof -
  obtain out a' where x: "dispatch_distribute ex_dispatch (ex_pool ''distribute'') ex_candidates [''b.com'', ''c.com''] ex_dossiers ex_store = (out, a')"
    by fastforce
  then obtain rs es where "out = Inr (rs, es)" and p: "map pr_provider_id rs = [''p2'']"
    using ex_distribute by (auto split: sum.splits)
  then have r: "dispatch_distribute ex_dispatch (ex_pool ''distribute'') ex_candidates [''b.com'', ''c.com''] ex_dossiers ex_store = (Inr (rs, es), a')"
    using x by simp
  have c: "ex_candidates \<noteq> []" and ok: "batch_ok [''b.com'', ''c.com'']" by code_simp+
  have "\<forall>jobs. mset (de_order ex_dispatch jobs) = mset jobs" by (simp add: ex_dispatch_def)
  from distribute_accounts_for_domains [OF r ok c this] obtain missing
    where "mset (classified rs) + mset missing = mset [''b.com'', ''c.com'']" by blast
  then show ?thesis using r p by (intro exI conjI)
qed

text \<open>
  C24. A verification pool never lets an unconfirmed decision through: in the primary result, every
  classification that requires verification and does not ask for review was confirmed by a result of
  another provider for the same domain, with the same policy, category and tags and risks within 20
  points. A missing verifier, a failed verification and a disagreement all set \<open>needs_review\<close>.
\<close>

theorem verify_requires_confirmation:
  assumes "dispatch_verify env pool cs domains dossiers a = (Inr (rs, es), a')" and "batch_ok domains"
  shows "\<exists>p rest failed. rs = p # rest \<and> pr_is_primary p \<and> map c_domain (pr_classifications p) @ failed = domains \<and>
    (\<forall>c\<in>set (pr_classifications p). requires_verification env pool c \<and> \<not> c_needs_review c \<longrightarrow> confirmed_by rest p c)"
proof -
  let ?c = "hd (fallback_order cs)"
  obtain out a1 where x: "execute_provider env pool ?c domains dossiers True a = (out, a1)" by fastforce
  obtain r errs failed where v: "verify_with env pool cs dossiers r errs a1 = (Inr (rs, es), a')"
    and r: "map c_domain (pr_classifications r) @ failed = domains" "pr_is_primary r"
    using assms(1) x execute_provider_account [OF x assms(2)]
    by (cases out) (fastforce simp: dispatch_verify_def Let_def)+
  have "batch_ok (map c_domain (pr_classifications r))" using r(1) assms(2) batch_ok_append by blast
  from verify_with_sound [OF v this] r show ?thesis by metis
qed

definition ex_verify :: dispatch_env where
  "ex_verify = ex_dispatch\<lparr>de_request := \<lambda>pid k mode.
     if pid = ''p1'' then ex_reply ''{b.com,c.com}'' else if k = 0 then Inl (PyExn (QuotaUnavailable 2000) ''quota'' None)
     else if k = 1 then ex_reply ''{b.com}'' else Inl (PyExn TimedOut ''timeout'' None)\<rparr>"

lemma ex_verified:
  "(case fst (dispatch_verify ex_verify (ex_pool ''verify'') ex_candidates [''b.com'', ''c.com''] ex_dossiers ex_store) of
      Inl _ \<Rightarrow> None | Inr (rs, es) \<Rightarrow> Some (map pr_provider_id rs)) = Some [''p1'', ''p2'']"
  by code_simp

theorem verify_requires_confirmation_witness:
  "\<exists>p rest es a'. dispatch_verify ex_verify (ex_pool ''verify'') ex_candidates [''b.com'', ''c.com''] ex_dossiers ex_store =
       (Inr (p # rest, es), a') \<and> map pr_provider_id (p # rest) = [''p1'', ''p2''] \<and>
     list_all (\<lambda>c. \<not> requires_verification ex_verify (ex_pool ''verify'') c \<or> c_needs_review c \<or> confirmed_by rest p c) (pr_classifications p)"
proof -
  obtain out a' where x: "dispatch_verify ex_verify (ex_pool ''verify'') ex_candidates [''b.com'', ''c.com''] ex_dossiers ex_store = (out, a')"
    by fastforce
  then obtain rs es where "out = Inr (rs, es)" and p: "map pr_provider_id rs = [''p1'', ''p2'']"
    using ex_verified by (auto split: sum.splits)
  then have r: "dispatch_verify ex_verify (ex_pool ''verify'') ex_candidates [''b.com'', ''c.com''] ex_dossiers ex_store = (Inr (rs, es), a')"
    using x by simp
  have ok: "batch_ok [''b.com'', ''c.com'']" by code_simp
  from verify_requires_confirmation [OF r ok] obtain q rest where rs: "rs = q # rest"
    and c: "\<forall>c\<in>set (pr_classifications q). requires_verification ex_verify (ex_pool ''verify'') c \<and> \<not> c_needs_review c \<longrightarrow> confirmed_by rest q c"
    by blast
  have "list_all (\<lambda>c. \<not> requires_verification ex_verify (ex_pool ''verify'') c \<or> c_needs_review c \<or> confirmed_by rest q c) (pr_classifications q)"
    unfolding list_all_iff using c by blast
  then show ?thesis using r p unfolding rs by (intro exI conjI)
qed

text \<open>The row of a run once the dispatch has ended.\<close>

definition closing_status :: "pyexn + dispatch_result \<Rightarrow> string" where
  "closing_status out =
     (case out of
        Inr res \<Rightarrow> if dr_errors res = [] then ''completed'' else ''completed_with_errors''
      | Inl e \<Rightarrow> if is_cancelled e then ''cancelled'' else if ex_text e = [] then ''completed'' else ''failed'')"

lemma known_statuses [simp]:
  "finish_status ''completed'' e = ''completed''" "finish_status ''completed_with_errors'' e = ''completed_with_errors''"
  "finish_status ''cancelled'' e = ''cancelled''" "finish_status [] e = (if e = [] then ''completed'' else ''failed'')"
  by (code_simp | simp add: finish_status_def Let_def)+

lemma finish_dispatch_status:
  assumes "finish_dispatch env pool rid h (out0, a) = (out, a')" and "analysis_run_get rid a = Some r"
  shows "\<exists>r'. analysis_run_get rid a' = Some r' \<and> an_status r' = closing_status out"
  using assms run_after_finish [OF assms(2)]
  by (auto simp: finish_dispatch_def closing_status_def Let_def is_cancelled_def str_or_def split: sum.splits prod.splits if_splits)

text \<open>
  C25. \<open>dispatch_analysis\<close> closes the run that it opens. With a fresh run id, either no run row was
  written and the dispatch raised, or the row exists and is no longer running: it says \<open>completed\<close> or
  \<open>completed_with_errors\<close> when a result is returned, \<open>cancelled\<close> after a cancellation, and \<open>failed\<close>
  after any other exception that has a message. An exception without a message is recorded as
  \<open>completed\<close>. A returned result is never empty.
\<close>

theorem dispatch_closes_its_run:
  assumes "dispatch_analysis env rid pool_id domains dossiers source a = (out, a')"
    and "rid \<notin> set (map an_id (a_runs a))"
  shows "(a' = a \<and> (\<exists>e. out = Inl e)) \<or>
    (\<exists>r. analysis_run_get rid a' = Some r \<and> an_status r = closing_status out \<and> an_status r \<noteq> ''running'' \<and>
       (\<forall>res. out = Inr res \<longrightarrow> dr_provider_results res \<noteq> []))"
proof (cases "a' = a \<and> (\<exists>e. out = Inl e)")
  case False
  obtain pool normalized frozen h cs a1 where
    start: "analysis_run_start rid (ap_pool_id pool) (ap_mode pool) source h (de_now env) a = Inr a1"
    and fin: "finish_dispatch env pool rid h (run_mode env pool cs normalized frozen a1) = (out, a')"
    using assms False by (auto simp: dispatch_analysis_def Let_def split: if_splits sum.splits prod.splits)
  obtain out0 a2 where m: "run_mode env pool cs normalized frozen a1 = (out0, a2)" by fastforce
  have "analysis_run_get rid a1 \<noteq> None"
    using start assms(2) by (auto simp: analysis_run_start_def analysis_run_get_def tbl_get_append tbl_get_None split: if_splits)
  then obtain r where "analysis_run_get rid a2 = Some r" using run_mode_runs [OF m] by (auto simp: analysis_run_get_def)
  from finish_dispatch_status [OF fin [unfolded m] this] obtain r' where
    r': "analysis_run_get rid a' = Some r'" "an_status r' = closing_status out" by blast
  moreover have "closing_status out \<noteq> ''running''" by (auto simp: closing_status_def split: sum.split)
  moreover have "dr_provider_results res \<noteq> []" if "out = Inr res" for res
    using fin m that by (auto simp: finish_dispatch_def Let_def split: sum.splits if_splits)
  ultimately show ?thesis by auto
qed blast

definition ex_silent :: dispatch_env where
  "ex_silent = ex_dispatch\<lparr>de_request := \<lambda>_ _ _. Inl (PyExn RuntimeFailed [] None)\<rparr>"

lemma ex_dispatched:
  "(case dispatch_analysis ex_dispatch ''r1'' '' Background'' [''A.com.'', ''b.com'', ''c.com'', ''a.com''] [] ''test'' ex_store of
      (out, a') \<Rightarrow> (closing_status out, map an_status (a_runs a'))) = (''completed_with_errors'', [''completed_with_errors''])"
  by code_simp

lemma ex_silent_failure:
  "(case dispatch_analysis ex_silent ''r1'' ''background'' [''a.com''] [] ''test'' ex_store of
      (Inl e, a') \<Rightarrow> map an_status (a_runs a') | (Inr _, a') \<Rightarrow> []) = [''completed'']"
  by code_simp

theorem dispatch_closes_its_run_witness:
  "(\<exists>r a' res. dispatch_analysis ex_dispatch ''r1'' '' Background'' [''A.com.'', ''b.com'', ''c.com'', ''a.com''] [] ''test'' ex_store = (Inr res, a') \<and>
      analysis_run_get ''r1'' a' = Some r \<and> an_status r = ''completed_with_errors'') \<and>
   (\<exists>r a' e. dispatch_analysis ex_silent ''r1'' ''background'' [''a.com''] [] ''test'' ex_store = (Inl e, a') \<and>
      analysis_run_get ''r1'' a' = Some r \<and> an_status r = ''completed'')"
proof
  have fresh: "''r1'' \<notin> set (map an_id (a_runs ex_store))" and empty: "a_runs ex_store = []" by (simp_all add: ex_store_def)
  obtain out a' where x: "dispatch_analysis ex_dispatch ''r1'' '' Background'' [''A.com.'', ''b.com'', ''c.com'', ''a.com''] [] ''test'' ex_store = (out, a')"
    by fastforce
  then have s: "closing_status out = ''completed_with_errors''" "a_runs a' \<noteq> []" using ex_dispatched by auto
  from dispatch_closes_its_run [OF x fresh] s empty obtain r where "analysis_run_get ''r1'' a' = Some r" "an_status r = ''completed_with_errors''"
    by auto
  moreover obtain res where "out = Inr res" using s(1) by (auto simp: closing_status_def split: sum.splits if_splits)
  ultimately show "\<exists>r a' res. dispatch_analysis ex_dispatch ''r1'' '' Background'' [''A.com.'', ''b.com'', ''c.com'', ''a.com''] [] ''test'' ex_store = (Inr res, a') \<and>
      analysis_run_get ''r1'' a' = Some r \<and> an_status r = ''completed_with_errors''" using x by blast
  obtain out2 a2 where y: "dispatch_analysis ex_silent ''r1'' ''background'' [''a.com''] [] ''test'' ex_store = (out2, a2)" by fastforce
  then obtain e where e: "out2 = Inl e" and st: "map an_status (a_runs a2) = [''completed'']" using ex_silent_failure by (cases out2) auto
  then have "a2 \<noteq> ex_store" using empty by auto
  with dispatch_closes_its_run [OF y fresh] obtain r where r: "analysis_run_get ''r1'' a2 = Some r" by blast
  then have "r \<in> set (a_runs a2)" using tbl_get_Some unfolding analysis_run_get_def by fastforce
  then have "an_status r = ''completed''" using st by (auto simp: map_eq_Cons_conv)
  with r y e show "\<exists>r a' e. dispatch_analysis ex_silent ''r1'' ''background'' [''a.com''] [] ''test'' ex_store = (Inl e, a') \<and>
      analysis_run_get ''r1'' a' = Some r \<and> an_status r = ''completed''" by blast
qed

section \<open>Cooling down\<close>

lemma backoff_bounds: "5 \<le> backoff n \<and> backoff n \<le> 300"
  by (simp add: backoff_def)

lemma failure_cooldown_later: "now < failure_cooldown now pid e a"
  using backoff_bounds [of "ph_consecutive_failures (provider_health_get pid a)"]
  by (simp add: failure_cooldown_def Let_def)

lemma cooling_not_usable:
  assumes "de_now env < ph_cooldown_until (provider_health_get pid a)"
  shows "pid \<notin> cd_pid ` set (pool_candidates env pool False a)"
  using assms by (auto simp: pool_candidates_def usable_membership_def map_filter_def split: option.splits if_splits)

text \<open>
  A provider whose requests fail is left alone for a while: after an exception other than a
  refused quota or a cancellation its health record counts one more consecutive failure and holds a
  cooldown in the future, so that no dispatch at that time selects it. A refused quota and a
  cancellation leave the health table unchanged, and no other provider's record ever changes.
\<close>

theorem failed_provider_cools_down:
  assumes "execute_provider env pool c domains dossiers primary a = (out, a')" and "analysis_wf a"
    and "out = Raised e \<or> out = Partial r failed e"
    and "provider_batches env c (dossier_dict (de_conv env) dossiers) domains = Inr bs"
    and "ap_profile_index pool < length (de_profile_names env)"
  shows "(if is_quota_error e \<or> is_cancelled e then a' = a
     else ph_consecutive_failures (provider_health_get (cd_pid c) a') = ph_consecutive_failures (provider_health_get (cd_pid c) a) + 1 \<and>
       de_now env < ph_cooldown_until (provider_health_get (cd_pid c) a') \<and>
       (\<forall>pool2. cd_pid c \<notin> cd_pid ` set (pool_candidates env pool2 False a'))) \<and>
    (\<forall>pid. pid \<noteq> cd_pid c \<longrightarrow> provider_health_get pid a' = provider_health_get pid a)"
proof -
  have a': "a' = (if is_quota_error e \<or> is_cancelled e then a
      else provider_health_failure (cd_pid c) (ex_text e) (failure_cooldown (de_now env) (cd_pid c) e a) (de_now env) a)"
    using assms(1,3,4,5) by (auto simp: execute_provider_def Let_def split: prod.splits option.splits if_splits)
  let ?cd = "failure_cooldown (de_now env) (cd_pid c) e a"
  have "de_now env < max 0 ?cd" using failure_cooldown_later [of "de_now env" "cd_pid c" e a] by simp
  then have "de_now env < ph_cooldown_until (provider_health_get (cd_pid c) a')" if "\<not> (is_quota_error e \<or> is_cancelled e)"
    using that a' health_after_failure(2) [OF assms(2)] by simp
  then show ?thesis using a' health_after_failure(3,4) [OF assms(2)] cooling_not_usable by auto
qed

definition ex_down :: dispatch_env where
  "ex_down = ex_dispatch\<lparr>de_request := \<lambda>_ _ _. Inl (PyExn TimedOut ''timeout'' None)\<rparr>"

theorem failed_provider_cools_down_witness:
  "\<exists>e a'. execute_provider ex_down (ex_pool ''fallback'') (hd ex_candidates) ex_domains ex_dossiers True ex_store = (Raised e, a') \<and>
     cd_pid (hd ex_candidates) \<notin> cd_pid ` set (pool_candidates ex_down (ex_pool ''fallback'') False a')"
proof -
  obtain out a' where x: "execute_provider ex_down (ex_pool ''fallback'') (hd ex_candidates) ex_domains ex_dossiers True ex_store = (out, a')"
    by fastforce
  have "case fst (execute_provider ex_down (ex_pool ''fallback'') (hd ex_candidates) ex_domains ex_dossiers True ex_store) of
      Raised e \<Rightarrow> \<not> is_quota_error e \<and> \<not> is_cancelled e | _ \<Rightarrow> False" by code_simp
  then obtain e where e: "out = Raised e" "\<not> is_quota_error e" "\<not> is_cancelled e" using x by (auto split: outcome.splits)
  have wf: "analysis_wf ex_store" and b: "provider_batches ex_down (hd ex_candidates) (dossier_dict (de_conv ex_down) ex_dossiers) ex_domains = Inr [ex_domains]"
    and n: "ap_profile_index (ex_pool ''fallback'') < length (de_profile_names ex_down)" by code_simp+
  from failed_provider_cools_down [OF x wf _ b n, of e] e x show ?thesis by auto
qed

section \<open>The number of requests\<close>

lemma run_batches_cong:
  assumes "\<And>j. j < k + sum_list (map batch_weight bs) \<Longrightarrow> ask j = ask' j"
  shows "run_batches ask k bs acc = run_batches ask' k bs acc"
  using assms
proof (induction "sum_list (map batch_weight bs)" arbitrary: k bs acc rule: less_induct)
  case less
  show ?case
  proof (cases bs)
    case Nil
    then show ?thesis by (simp add: run_batches.simps(1))
  next
    case (Cons b bs')
    have w: "1 \<le> batch_weight b" by (simp add: batch_weight_def)
    then have k: "ask k b = ask' k b" using less.prems [of k] Cons by simp
    have IH: "run_batches ask (Suc k) bs'' acc'' = run_batches ask' (Suc k) bs'' acc''"
      if "sum_list (map batch_weight bs'') < sum_list (map batch_weight bs)" for bs'' acc''
      using less.hyps [OF that, of "Suc k"] less.prems that by simp
    let ?m = "max 1 (length b div 2)"
    have "1 < length b \<Longrightarrow> sum_list (map batch_weight (take ?m b # drop ?m b # bs')) < sum_list (map batch_weight bs)"
      using batch_weight_split [of b ?m] by (simp add: Cons)
    then show ?thesis using IH [of bs'] IH [of "take ?m b # drop ?m b # bs'"] w
      by (auto simp: Cons k Let_def run_batches.simps(2) [of _ k b] split: sum.split)
  qed
qed

lemma batch_weight_total: "\<forall>b\<in>set bs. b \<noteq> [] \<Longrightarrow> sum_list (map batch_weight bs) \<le> 2 * length (concat bs)"
  using batch_weight_le by (induction bs) (auto simp: add_mono)



section \<open>The assignment of domains as a reference definition\<close>

definition reference_assignments :: "(string \<Rightarrow> string) \<Rightarrow> string list \<Rightarrow> (string, string list) dict" where
  "reference_assignments f domains = map (\<lambda>p. (p, filter (\<lambda>d. f d = p) domains)) (fromkeys (map f domains))"

lemma fromkeys_acc_snoc:
  "fromkeys_acc seen (xs @ [x]) = fromkeys_acc seen xs @ (if x \<in> set seen \<union> set xs then [] else [x])"
  by (induction seen xs rule: fromkeys_acc.induct) auto

lemma fromkeys_snoc: "fromkeys (xs @ [x]) = fromkeys xs @ (if x \<in> set xs then [] else [x])"
  by (simp add: fromkeys_def fromkeys_acc_snoc)

lemma update_graph:
  "distinct ks \<Longrightarrow> AList.update p v (map (\<lambda>q. (q, g q)) ks) =
    map (\<lambda>q. (q, if q = p then v else g q)) ks @ (if p \<in> set ks then [] else [(p, v)])"
  by (induction ks) auto

lemma map_of_graph: "map_of (map (\<lambda>q. (q, g q)) ks) p = (if p \<in> set ks then Some (g p) else None)"
  by (induction ks) auto

text \<open>
  The loop that assigns domains to providers computes the reference partition: the providers in
  the order of their first domain, each with exactly the domains that hash to it, in request order.
\<close>

theorem assignments_eq_reference:
  "assignments env cs domains = reference_assignments (assigned_provider env cs) domains"
  unfolding assignments_def
proof (induction domains rule: rev_induct)
  case Nil
  then show ?case by (simp add: reference_assignments_def fromkeys_def)
next
  case (snoc d ds)
  let ?f = "assigned_provider env cs" and ?ks = "fromkeys (map (assigned_provider env cs) ds)"
  have "assign_step ?f d (reference_assignments ?f ds) = reference_assignments ?f (ds @ [d])"
    unfolding assign_step_def reference_assignments_def
    by (simp add: update_graph map_of_graph fromkeys_snoc filter_empty_conv)
      (auto simp: filter_empty_conv, (metis image_eqI)+)
  then show ?case using snoc by simp
qed

end
