(* ===== verification/Worker_Proofs.thy ===== *)
theory Worker_Proofs
  imports Worker Dispatch_Proofs
begin

text \<open>
  What a pass of the classifier and a pass of the collector guarantee: the frames of the handlers (the
  policy engine and the review store leave the queue alone), every claimed row is settled, a domain
  leaves the queue only with a result or under a lock, and the collector's cursor moves past what it
  has recorded.
\<close>

section \<open>Frames of the handlers\<close>

lemma staging_save: "review_save_classification c opts now s = Inr s' \<Longrightarrow> t_staging s' = t_staging s"
proof -
  assume "review_save_classification c opts now s = Inr s'"
  then obtain i where run: "save_classification_run c opts now s = Inr (s', i)"
    by (auto simp: review_save_classification_def map_sum_def split: sum.splits)
  then show ?thesis
  proof (cases rule: save_classification_run_cases)
    case (1 n s1)
    then show ?thesis using ensure_domain_frame(1) [OF 1(1)] by simp
  next
    case (2 n s1 s3 s4)
    have n: "n \<in> known_domains s3"
      using 2(4) ensure_domain_Inr(3) [OF 2(1)] by (simp add: known_domains_def keys_tbl_update)
    have "t_staging s4 = t_staging s" using 2(4,5) replace_source_tags_eq [OF n] ensure_domain_frame(1) [OF 2(1)] by auto
    moreover obtain m s5 where e: "ensure_domain (ri_domain (run_review_input c opts now)) (Some now) 0 now s4 = Inr (m, s5)"
      using 2(6) by (auto simp: review_save_in_def split: sum.splits)
    moreover have "s' = after_review_save (run_review_input c opts now) now m s5" using review_save_in_eq [OF e] 2(6) by simp
    ultimately show ?thesis using ensure_domain_frame(1) [OF e] by (simp add: after_review_save_def Let_def)
  qed
qed

lemma staging_on_db:
  "(\<And>s s'. f s = Inr s' \<Longrightarrow> t_staging s' = t_staging s) \<Longrightarrow> t_staging (w_db (fst (on_db f w))) = t_staging (w_db w)"
  by (simp add: on_db_def split: sum.split)

lemma staging_new_task: "t_staging (w_db (fst (new_task env d r p src w))) = t_staging (w_db w)"
  unfolding new_task_def
  by (rule staging_on_db)
    (auto simp: create_review_task_def Let_def map_sum_def dest!: ensure_domain_frame(1) split: sum.splits option.splits)

lemma staging_task_if: "t_staging (w_db (fst (task_if b env d r p src w))) = t_staging (w_db w)"
  by (simp add: task_if_def staging_new_task skip_def)

lemma staging_execute: "t_staging (w_db (fst (execute_action env c st action w))) = t_staging (w_db w)"
proof (cases action)
  case None
  then show ?thesis by (simp add: execute_action_def)
next
  case (Some p)
  have "t_staging (w_db (fst (then_do (new_task env d r pr src) (\<lambda>_ w. (w, Inr y)) w))) = t_staging (w_db w)"
    for d r pr src and y :: "string \<times> string \<times> string"
    by (rule then_do_db [where P = "\<lambda>s. t_staging s = t_staging (w_db w)"]) (simp_all add: staging_new_task)
  with Some show ?thesis by (auto simp: execute_action_def dest: add_exact_domain_Inr split: sum.split)
qed

lemma staging_finish: "t_staging (w_db (fst (finish_classification env pv pn ctx c x w))) = t_staging (w_db w)"
  unfolding finish_classification_def
  by (cases x rule: prod_cases3, simp only: prod.case)
    (rule then_do_db [where P = "\<lambda>s. t_staging s = t_staging (w_db w)"],
     simp_all add: staging_task_if staging_on_db [OF staging_save])

lemma staging_handle: "t_staging (w_db (fst (handle_classification env pv pn ctx src n c w))) = t_staging (w_db w)"
  unfolding handle_classification_def Let_def
  by (intro then_do_db [where P = "\<lambda>s. t_staging s = t_staging (w_db w)"])
    (simp_all add: staging_task_if staging_execute staging_finish)

lemma staging_handle_one: "t_staging (w_db (fst (handle_one env ctx ds src c w))) = t_staging (w_db w)"
  by (simp add: handle_one_def staging_handle staging_on_db [OF staging_save])

lemma staging_handle_all:
  "handle_all env ctx ds src cs done w = (w', r) \<Longrightarrow> t_staging (w_db w') = t_staging (w_db w)"
proof (induction env ctx ds src cs "done" w rule: handle_all.induct)
  case (2 env ctx dossiers sources c cs completed w)
  obtain w1 x where h: "handle_one env ctx dossiers sources c w = (w1, x)" by fastforce
  then have "t_staging (w_db w1) = t_staging (w_db w)" using staging_handle_one by (metis fst_conv)
  then show ?case using 2 h by (cases x) auto
qed simp

lemma staging_handle_results:
  "handle_results env res pn ds src prs done w = (w', r) \<Longrightarrow> t_staging (w_db w') = t_staging (w_db w)"
proof (induction env res pn ds src prs "done" w rule: handle_results.induct)
  case (2 env res pn ds src pr prs completed w)
  show ?case
  proof (cases "map_of (dict_of (map (\<lambda>p. (lpv_provider_id p, p)) (de_providers (ce_dispatch env)))) (pr_provider_id pr)")
    case None
    then show ?thesis using 2 by simp
  next
    case (Some p)
    obtain w1 x where h: "handle_all env (result_context env res p pn pr) ds src (pr_classifications pr) completed w = (w1, x)"
      by fastforce
    then show ?thesis using 2(2) [OF Some h [symmetric]] 2(3) Some staging_handle_all [OF h] by (cases x) auto
  qed
qed simp

lemma staging_handle_dispatch:
  "handle_dispatch_result env res dossiers sources w = (w', r) \<Longrightarrow> t_staging (w_db w') = t_staging (w_db w)"
  by (auto simp: handle_dispatch_result_def split: option.splits if_splits dest!: staging_handle_results)

section \<open>Which rows are being processed\<close>

definition processing :: "db \<Rightarrow> staging_row set" where
  "processing s = {r \<in> set (t_staging s). sd_state r = ''processing''}"

lemma processing_ack: "processing (staging_ack d s) \<subseteq> {r \<in> processing s. sd_domain r \<noteq> normalize_domain d}"
  by (auto simp: processing_def staging_ack_def set_tbl_delete)

lemma processing_defer: "processing (staging_defer d e t now s) \<subseteq> {r \<in> processing s. sd_domain r \<noteq> normalize_domain d}"
  by (auto simp: processing_def staging_defer_def Let_def set_tbl_update)

lemma processing_fail: "processing (staging_fail d e n now s) \<subseteq> {r \<in> processing s. sd_domain r \<noteq> normalize_domain d}"
  by (auto simp: processing_def staging_fail_def Let_def set_tbl_update split: option.splits)

lemma processing_fold:
  assumes "\<And>d s. processing (op d s) \<subseteq> {r \<in> processing s. sd_domain r \<noteq> normalize_domain d}"
  shows "processing (fold op ds s) \<subseteq> {r \<in> processing s. \<forall>d\<in>set ds. sd_domain r \<noteq> normalize_domain d}"
proof (induction ds arbitrary: s)
  case (Cons d ds)
  have "processing (fold op (d # ds) s) \<subseteq> {r \<in> processing (op d s). \<forall>d\<in>set ds. sd_domain r \<noteq> normalize_domain d}"
    using Cons by simp
  also have "\<dots> \<subseteq> {r \<in> processing s. \<forall>x\<in>set (d # ds). sd_domain r \<noteq> normalize_domain x}" using assms [of d s] by auto
  finally show ?case .
qed simp

lemma processing_defer_all: "processing (defer_all ds e t now s) \<subseteq> {r \<in> processing s. \<forall>d\<in>set ds. sd_domain r \<noteq> normalize_domain d}"
  unfolding defer_all_def by (rule processing_fold, rule processing_defer)

lemma processing_fail_all: "processing (fail_all ds e now s) \<subseteq> {r \<in> processing s. \<forall>d\<in>set ds. sd_domain r \<noteq> normalize_domain d}"
  unfolding fail_all_def by (rule processing_fold, rule processing_fail)

lemma processing_settle_completed:
  "processing (settle_completed ds done rt t now s) \<subseteq> {r \<in> processing s. \<forall>d\<in>set ds. sd_domain r \<noteq> normalize_domain d}"
  unfolding settle_completed_def
  by (rule processing_fold) (simp add: processing_ack processing_defer processing_fail)

lemma processing_on_exception:
  "processing (on_exception ds e t now s) \<subseteq> {r \<in> processing s. \<forall>d\<in>set ds. sd_domain r \<noteq> normalize_domain d}"
  unfolding on_exception_def by (cases "ex_kind e") (simp_all add: processing_defer_all processing_fail_all)

lemma processing_on_store_exception:
  "processing (on_store_exception ds e t now s) \<subseteq> {r \<in> processing s. \<forall>d\<in>set ds. sd_domain r \<noteq> normalize_domain d}"
  unfolding on_store_exception_def by (simp add: processing_defer_all processing_fail_all)

text \<open>The ways \<open>analyse_claimed\<close> can end.\<close>

lemma analyse_claimed_cases:
  assumes "analyse_claimed env domains sources w a = (w', a')"
  obtains (raised) e where "w' = w\<lparr>w_db := on_exception domains e (de_now (ce_dispatch env)) (ce_now env) (w_db w)\<rparr>"
  | (failed) res dossiers w1 e where "handle_dispatch_result env res dossiers sources w = (w1, Inl e)"
      "w' = w1\<lparr>w_db := on_store_exception domains e (de_now (ce_dispatch env)) (ce_now env) (w_db w1)\<rparr>"
  | (handled) res dossiers w1 completed where "handle_dispatch_result env res dossiers sources w = (w1, Inr completed)"
      "w' = w1\<lparr>w_db := settle_completed domains completed (py_max 0 (map pe_retry_at (dr_errors res)))
                (de_now (ce_dispatch env)) (ce_now env) (w_db w1)\<rparr>"
  using assms unfolding analyse_claimed_def Let_def by (auto split: sum.splits prod.splits)

lemma processing_analyse:
  assumes "analyse_claimed env domains sources w a = (w', a')"
  shows "processing (w_db w') \<subseteq> {r \<in> processing (w_db w). \<forall>d\<in>set domains. sd_domain r \<noteq> normalize_domain d}"
proof -
  have frame: "processing (w_db w1) = processing (w_db w)" if "handle_dispatch_result env res ds src w = (w1, r)" for res ds src w1 r
    using staging_handle_dispatch [OF that] by (simp add: processing_def)
  from assms show ?thesis
  proof (cases rule: analyse_claimed_cases)
    case raised
    then show ?thesis using processing_on_exception by simp
  next
    case (failed res dossiers w1 e)
    then show ?thesis using processing_on_store_exception [of domains e _ _ "w_db w1"] frame [OF failed(1)] by simp
  next
    case (handled res dossiers w1 completed)
    then show ?thesis using processing_settle_completed [of domains completed _ _ _ "w_db w1"] frame [OF handled(1)] by simp
  qed
qed

text \<open>Skipping the locked domains splits the claimed ones.\<close>

lemma skip_locked_fold:
  "fold (\<lambda>d (s, unlocked). if get_domain_lock d s \<noteq> None then (staging_ack d s, unlocked) else (s, unlocked @ [d])) ds (s, us) = (s', us') \<Longrightarrow>
    us' = us @ filter (\<lambda>d. get_domain_lock d s = None) ds \<and>
    processing s' \<subseteq> {r \<in> processing s. \<forall>d\<in>set ds. get_domain_lock d s \<noteq> None \<longrightarrow> sd_domain r \<noteq> normalize_domain d}"
proof (induction ds arbitrary: s us)
  case (Cons d ds)
  have lock: "get_domain_lock x (staging_ack d s) = get_domain_lock x s" for x
    by (simp add: get_domain_lock_def staging_ack_def)
  show ?case
  proof (cases "get_domain_lock d s = None")
    case True
    then show ?thesis using Cons.IH [of s "us @ [d]"] Cons.prems by auto
  next
    case False
    then have "fold (\<lambda>d (s, unlocked). if get_domain_lock d s \<noteq> None then (staging_ack d s, unlocked) else (s, unlocked @ [d])) ds
        (staging_ack d s, us) = (s', us')" using Cons.prems by simp
    from Cons.IH [OF this] False processing_ack [of d s] show ?thesis by (auto simp: lock)
  qed
qed simp

lemma skip_locked_split:
  assumes "skip_locked ds s = (s', us)"
  shows "us = filter (\<lambda>d. get_domain_lock d s = None) ds"
    and "processing s' \<subseteq> {r \<in> processing s. \<forall>d\<in>set ds. get_domain_lock d s \<noteq> None \<longrightarrow> sd_domain r \<noteq> normalize_domain d}"
  using skip_locked_fold [OF assms [unfolded skip_locked_def]] by simp_all

lemma claim_domains:
  "staging_claim_items limit pool now s = (s1, items) \<Longrightarrow> map ci_domain items = map sd_domain (claim_rows limit pool now s)"
  by (auto simp: staging_claim_items_def Let_def claim_item_of_def)

lemma processing_claim:
  assumes "staging_claim_items limit pool now s = (s1, items)"
  shows "processing s1 \<subseteq> processing s \<union> {r. sd_domain r \<in> set (map ci_domain items)}"
    and "set (map ci_domain items) \<subseteq> sd_domain ` set (t_staging s)"
proof -
  note items = claim_domains [OF assms]
  show "processing s1 \<subseteq> processing s \<union> {r. sd_domain r \<in> set (map ci_domain items)}"
    unfolding items using assms by (auto simp: staging_claim_items_def Let_def processing_def set_tbl_update split: if_splits)
  show "set (map ci_domain items) \<subseteq> sd_domain ` set (t_staging s)"
    unfolding items using claim_rows_claimable by (simp add: image_subset_iff)
qed

section \<open>Every claimed domain is settled\<close>

text \<open>The staging rows keep their domains through a claim and through the acknowledgement of locked domains.\<close>

lemma claim_locks: "staging_claim_items limit pool now s = (s1, items) \<Longrightarrow> get_domain_lock d s1 = get_domain_lock d s"
  by (auto simp: staging_claim_items_def Let_def get_domain_lock_def)

lemma classifier_cycle_cases:
  assumes "classifier_cycle env w a = (w', a')"
  obtains (idle) "w' = w" "a' = a"
  | (claimed) s1 items where
      "staging_claim_items (lo_worker_batch_size (he_llm (ce_handler env))) (ce_pool_id env) (ce_now env) (w_db w) = (s1, items)"
      "items = [] \<and> w' = w\<lparr>w_db := s1\<rparr> \<and> a' = a \<or>
       w' = w\<lparr>w_db := defer_all (map ci_domain items) ''Classifier stopped before processing'' (de_now (ce_dispatch env)) (ce_now env) s1\<rparr> \<and> a' = a \<or>
       (\<exists>s2 unlocked. skip_locked (map ci_domain items) s1 = (s2, unlocked) \<and>
          (unlocked = [] \<and> w' = w\<lparr>w_db := s2\<rparr> \<and> a' = a \<or>
           analyse_claimed env unlocked (dict_of (map (\<lambda>i. (ci_domain i, ci_source i)) items)) (w\<lparr>w_db := s2\<rparr>) a = (w', a')))"
proof (cases "\<not> classifier_enabled env \<or> \<not> staging_ready (ce_trigger_size env) (ce_max_wait_sec env) (ce_pool_id env) (ce_now env) (w_db w)")
  case True
  then show ?thesis using assms idle by (auto simp: classifier_cycle_def Let_def)
next
  case False
  obtain s1 items where c:
    "staging_claim_items (lo_worker_batch_size (he_llm (ce_handler env))) (ce_pool_id env) (ce_now env) (w_db w) = (s1, items)"
    by fastforce
  obtain s2 unlocked where k: "skip_locked (map ci_domain items) s1 = (s2, unlocked)" by fastforce
  show ?thesis
    using assms False k
    by (intro claimed [OF c]) (auto simp: classifier_cycle_def Let_def c split: if_splits)
qed

lemma subset_by_parts:
  assumes "us = filter P ds" and "A \<subseteq> {r \<in> B. \<forall>d\<in>set ds. \<not> P d \<longrightarrow> Q r d}" and "C \<subseteq> {r \<in> A. \<forall>d\<in>set us. Q r d}"
  shows "C \<subseteq> {r \<in> B. \<forall>d\<in>set ds. Q r d}"
  using assms by (simp add: subset_iff) blast

lemma settled_rows:
  assumes "classifier_cycle env w a = (w', a')" and "r \<in> processing (w_db w')" and "r \<notin> processing (w_db w)"
  obtains limit where "\<exists>q\<in>set (claim_rows limit (ce_pool_id env) (ce_now env) (w_db w)). sd_domain q = sd_domain r"
    "normalize_domain (sd_domain r) \<noteq> sd_domain r"
  using assms(1)
proof (cases rule: classifier_cycle_cases)
  case idle
  then show ?thesis using assms by simp
next
  case (claimed s1 items)
  let ?limit = "lo_worker_batch_size (he_llm (ce_handler env))"
  have items: "set (map ci_domain items) = sd_domain ` set (claim_rows ?limit (ce_pool_id env) (ce_now env) (w_db w))"
    unfolding claim_domains [OF claimed(1)] by simp
  have bound: "processing (w_db w') \<subseteq> {q \<in> processing s1. \<forall>d\<in>set (map ci_domain items). sd_domain q \<noteq> normalize_domain d}"
    using claimed(2)
  proof (elim disjE exE conjE)
    fix s2 unlocked
    assume k: "skip_locked (map ci_domain items) s1 = (s2, unlocked)" and "unlocked = []" "w' = w\<lparr>w_db := s2\<rparr>"
    then show ?thesis using skip_locked_split [OF k] by (auto simp: filter_empty_conv)
  next
    fix s2 unlocked
    assume k: "skip_locked (map ci_domain items) s1 = (s2, unlocked)"
      and an: "analyse_claimed env unlocked (dict_of (map (\<lambda>i. (ci_domain i, ci_source i)) items)) (w\<lparr>w_db := s2\<rparr>) a = (w', a')"
    show ?thesis using subset_by_parts [OF skip_locked_split [OF k]] processing_analyse [OF an] by simp
  qed (use processing_defer_all [of "map ci_domain items"] in simp_all)
  then have "r \<in> processing s1" and away: "\<forall>d\<in>set (map ci_domain items). sd_domain r \<noteq> normalize_domain d" using assms(2) by auto
  then have "sd_domain r \<in> set (map ci_domain items)" using processing_claim(1) [OF claimed(1)] assms(3) by auto
  then obtain q where "q \<in> set (claim_rows ?limit (ce_pool_id env) (ce_now env) (w_db w))" "sd_domain q = sd_domain r"
    unfolding items by auto
  moreover from away have "normalize_domain (sd_domain r) \<noteq> sd_domain r"
    using \<open>sd_domain r \<in> set (map ci_domain items)\<close> by metis
  ultimately show ?thesis using that by blast
qed

section \<open>Which rows leave the queue\<close>

definition staged :: "db \<Rightarrow> string set" where
  "staged s = sd_domain ` set (t_staging s)"

lemma staged_ack: "staged (staging_ack d s) = staged s - {normalize_domain d}"
  by (auto simp: staged_def staging_ack_def set_tbl_delete)

lemma staged_defer: "staged (staging_defer d e t now s) = staged s"
  by (simp add: staged_def staging_defer_def Let_def keys_tbl_update)

lemma staged_fail: "staged (staging_fail d e n now s) = staged s"
  by (simp add: staged_def staging_fail_def Let_def keys_tbl_update split: option.split)

lemma staging_claim_cases:
  assumes "staging_claim_items limit pool now s = (s1, items)"
  obtains p where "s1 = s\<lparr>t_staging := tbl_update p
      (\<lambda>r. r\<lparr>sd_state := ''processing'', sd_attempts := sd_attempts r + 1, sd_updated_at := now\<rparr>) (t_staging s)\<rparr>"
  using assms by (auto simp: staging_claim_items_def Let_def)

lemma staged_claim: "staging_claim_items limit pool now s = (s1, items) \<Longrightarrow> staged s1 = staged s"
  by (elim staging_claim_cases) (simp add: staged_def keys_tbl_update)

lemma staged_defer_all: "staged (defer_all ds e t now s) = staged s"
  unfolding defer_all_def by (induction ds arbitrary: s) (simp_all add: staged_defer)

lemma staged_fail_all: "staged (fail_all ds e now s) = staged s"
  unfolding fail_all_def by (induction ds arbitrary: s) (simp_all add: staged_fail)

lemma staged_on_exception: "staged (on_exception ds e t now s) = staged s"
  unfolding on_exception_def by (cases "ex_kind e") (simp_all add: staged_defer_all staged_fail_all)

lemma staged_on_store_exception: "staged (on_store_exception ds e t now s) = staged s"
  by (simp add: on_store_exception_def staged_defer_all staged_fail_all)

lemma staged_settle: "staged s \<subseteq> staged (settle_completed ds completed rt t now s) \<union> normalize_domain ` set completed"
  unfolding settle_completed_def
proof (induction ds arbitrary: s)
  case (Cons d ds)
  show ?case using Cons [of "staging_ack d s"] Cons [of "staging_defer d _ rt now s"] Cons [of "staging_fail d _ 1 now s"]
    by (auto simp: staged_ack staged_defer staged_fail)
qed simp

lemma staged_skip_fold:
  "fold (\<lambda>d (s, unlocked). if get_domain_lock d s \<noteq> None then (staging_ack d s, unlocked) else (s, unlocked @ [d])) ds (s, us) = (s', us') \<Longrightarrow>
    staged s \<subseteq> staged s' \<union> {normalize_domain d | d. d \<in> set ds \<and> get_domain_lock d s \<noteq> None} \<and> t_runs s' = t_runs s"
proof (induction ds arbitrary: s us)
  case (Cons d ds)
  have lock: "get_domain_lock x (staging_ack d s) = get_domain_lock x s" for x
    by (simp add: get_domain_lock_def staging_ack_def)
  show ?case
  proof (cases "get_domain_lock d s = None")
    case True
    then show ?thesis using Cons.IH [of s "us @ [d]"] Cons.prems by (simp add: subset_iff) blast
  next
    case False
    then have "fold (\<lambda>d (s, unlocked). if get_domain_lock d s \<noteq> None then (staging_ack d s, unlocked) else (s, unlocked @ [d])) ds
        (staging_ack d s, us) = (s', us')" using Cons.prems by simp
    from Cons.IH [OF this] False show ?thesis
      by (simp add: lock staged_ack) (auto simp: staging_ack_def)
  qed
qed simp

lemma runs_handle_one:
  assumes "handle_one env ctx ds src c w = (w', r)"
  shows "\<exists>new. t_runs (w_db w') = t_runs (w_db w) @ new \<and> (r = Inr () \<longrightarrow> (\<exists>x\<in>set new. cr_domain x = normalize_domain (c_domain c)))"
proof (cases "rc_is_primary ctx")
  case True
  with assms show ?thesis using handle_classification_runs [of "ce_handler env" _ _ ctx _ _ c w w' r]
    by (cases r) (fastforce simp: handle_one_def run_row_of_def)+
next
  case False
  with assms show ?thesis
    by (cases r) (fastforce simp: handle_one_def on_db_def run_row_of_def split: sum.splits dest!: runs_save)+
qed

text \<open>A completed domain has a saved run.\<close>

definition saves_for :: "'p world \<Rightarrow> 'p world \<Rightarrow> string list \<Rightarrow> string list \<Rightarrow> bool" where
  "saves_for w w' before after \<longleftrightarrow> (\<exists>new. t_runs (w_db w') = t_runs (w_db w) @ new \<and>
     set after \<subseteq> set before \<union> {d. \<exists>x\<in>set new. cr_domain x = normalize_domain d})"

lemma saves_for_refl: "saves_for w w ds ds"
  by (auto simp: saves_for_def)

lemma saves_for_trans: "saves_for w1 w2 a b \<Longrightarrow> saves_for w2 w3 b c \<Longrightarrow> saves_for w1 w3 a c"
  unfolding saves_for_def
proof (elim exE conjE)
  fix n1 n2
  assume "t_runs (w_db w2) = t_runs (w_db w1) @ n1" "t_runs (w_db w3) = t_runs (w_db w2) @ n2"
    and "set b \<subseteq> set a \<union> {d. \<exists>x\<in>set n1. cr_domain x = normalize_domain d}"
    and "set c \<subseteq> set b \<union> {d. \<exists>x\<in>set n2. cr_domain x = normalize_domain d}"
  then show "\<exists>new. t_runs (w_db w3) = t_runs (w_db w1) @ new \<and> set c \<subseteq> set a \<union> {d. \<exists>x\<in>set new. cr_domain x = normalize_domain d}"
    by (intro exI [of _ "n1 @ n2"]) auto
qed

lemma saves_handle_all:
  "handle_all env ctx ds src cs done w = (w', Inr done') \<Longrightarrow> saves_for w w' done done'"
proof (induction env ctx ds src cs "done" w rule: handle_all.induct)
  case (1 env ctx ds src completed w)
  then show ?case by (simp add: saves_for_refl)
next
  case (2 env ctx ds src c cs completed w)
  obtain w1 x where h: "handle_one env ctx ds src c w = (w1, x)" by fastforce
  with 2(2) have x: "x = Inr ()" and rest: "handle_all env ctx ds src cs (completed @ [c_domain c]) w1 = (w', Inr done')"
    by (cases x; simp)+
  have "saves_for w w1 completed (completed @ [c_domain c])"
    using runs_handle_one [OF h] x unfolding saves_for_def by auto
  then show ?case using 2(1) [OF h [symmetric] x rest] by (rule saves_for_trans)
qed

lemma saves_handle_results:
  "handle_results env res pn ds src prs done w = (w', Inr done') \<Longrightarrow> saves_for w w' done done'"
proof (induction env res pn ds src prs "done" w rule: handle_results.induct)
  case (1 env res pn ds src completed w)
  then show ?case by (simp add: saves_for_refl)
next
  case (2 env res pn ds src pr prs completed w)
  show ?case
  proof (cases "map_of (dict_of (map (\<lambda>p. (lpv_provider_id p, p)) (de_providers (ce_dispatch env)))) (pr_provider_id pr)")
    case None
    then show ?thesis using 2 by simp
  next
    case (Some p)
    obtain w1 x where h: "handle_all env (result_context env res p pn pr) ds src (pr_classifications pr) completed w = (w1, x)"
      by fastforce
    with 2(3) Some obtain mid where x: "x = Inr mid" and rest: "handle_results env res pn ds src prs mid w1 = (w', Inr done')"
      by (cases x) auto
    show ?thesis using saves_handle_all [OF h [unfolded x]] 2(2) [OF Some h [symmetric] x rest] by (rule saves_for_trans)
  qed
qed

lemma saves_handle_dispatch:
  "handle_dispatch_result env res dossiers sources w = (w', Inr completed) \<Longrightarrow> saves_for w w' [] completed"
  by (auto simp: handle_dispatch_result_def split: option.splits if_splits dest!: saves_handle_results)

lemma runs_settle: "t_runs (settle_completed ds completed rt t now s) = t_runs s"
  unfolding settle_completed_def
  by (induction ds arbitrary: s) (simp_all add: staging_ack_def staging_defer_def staging_fail_def Let_def)

lemma analyse_claimed_leaves:
  assumes "analyse_claimed env domains sources w a = (w', a')" and "n \<in> staged (w_db w)" and "n \<notin> staged (w_db w')"
  shows "\<exists>new. t_runs (w_db w') = t_runs (w_db w) @ new \<and> (\<exists>x\<in>set new. cr_domain x = n)"
  using assms(1)
proof (cases rule: analyse_claimed_cases)
  case (raised e)
  then show ?thesis using assms(2,3) by (simp add: staged_on_exception)
next
  case (failed res dossiers w1 e)
  then show ?thesis using assms(2,3) staging_handle_dispatch [OF failed(1)] by (simp add: staged_on_store_exception) (simp add: staged_def)
next
  case (handled res dossiers w1 completed)
  have "n \<in> staged (w_db w1)" using assms(2) staging_handle_dispatch [OF handled(1)] by (simp add: staged_def)
  from subsetD [OF staged_settle this, of domains completed "py_max 0 (map pe_retry_at (dr_errors res))"]
  have "n \<in> normalize_domain ` set completed" using assms(3) handled(2) by auto
  then show ?thesis using saves_handle_dispatch [OF handled(1)] handled(2) by (auto simp: saves_for_def runs_settle)
qed

lemma cycle_leaves:
  assumes "classifier_cycle env w a = (w', a')" and "n \<in> staged (w_db w)" and "n \<notin> staged (w_db w')"
  shows "(\<exists>d\<in>staged (w_db w). normalize_domain d = n \<and> get_domain_lock d (w_db w) \<noteq> None) \<or>
    (\<exists>new. t_runs (w_db w') = t_runs (w_db w) @ new \<and> (\<exists>x\<in>set new. cr_domain x = n))"
  using assms(1)
proof (cases rule: classifier_cycle_cases)
  case idle
  then show ?thesis using assms by simp
next
  case (claimed s1 items)
  have n1: "n \<in> staged s1" and runs: "t_runs s1 = t_runs (w_db w)"
    using assms(2) staged_claim [OF claimed(1)] claimed(1) by (simp, auto elim: staging_claim_cases)
  have claimed_in: "set (map ci_domain items) \<subseteq> staged (w_db w)"
    using processing_claim(2) [OF claimed(1)] unfolding staged_def .
  have locked: "\<exists>d\<in>staged (w_db w). normalize_domain d = n \<and> get_domain_lock d (w_db w) \<noteq> None"
    if "skip_locked (map ci_domain items) s1 = (s2, unlocked)" "n \<notin> staged s2" for s2 unlocked
  proof -
    have "n \<in> {normalize_domain d | d. d \<in> set (map ci_domain items) \<and> get_domain_lock d s1 \<noteq> None}"
      using staged_skip_fold [OF that(1) [unfolded skip_locked_def]] that(2) n1 by blast
    then obtain d where d: "n = normalize_domain d" "d \<in> set (map ci_domain items)" "get_domain_lock d s1 \<noteq> None" by blast
    then show ?thesis using claim_locks [OF claimed(1), of d] claimed_in by (intro bexI [of _ d]) auto
  qed
  from claimed(2) show ?thesis
  proof (elim disjE exE conjE)
    fix s2 unlocked
    assume k: "skip_locked (map ci_domain items) s1 = (s2, unlocked)" and "w' = w\<lparr>w_db := s2\<rparr>"
    then show ?thesis using locked [OF k] assms(3) by simp
  next
    fix s2 unlocked
    assume k: "skip_locked (map ci_domain items) s1 = (s2, unlocked)"
      and an: "analyse_claimed env unlocked (dict_of (map (\<lambda>i. (ci_domain i, ci_source i)) items)) (w\<lparr>w_db := s2\<rparr>) a = (w', a')"
    note skip = staged_skip_fold [OF k [unfolded skip_locked_def]]
    show ?thesis
    proof (cases "n \<in> staged s2")
      case True
      then show ?thesis using analyse_claimed_leaves [OF an] assms(3) skip runs by simp
    next
      case False
      then show ?thesis using locked [OF k] by simp
    qed
  qed (use assms(3) n1 in \<open>simp_all add: staged_defer_all\<close>)
qed

section \<open>Properties of the classifier pass\<close>

text \<open>C18. A pass of the classifier leaves no row of the queue in the state \<open>processing\<close> that was not there
  before, if the staged domains are in normal form: whatever the research layer, the dispatcher, the
  policy engine or the store raises, every claimed domain is acknowledged, deferred or failed.\<close>

theorem claimed_rows_are_settled:
  assumes "\<forall>r\<in>set (t_staging (w_db w)). normalize_domain (sd_domain r) = sd_domain r"
    and "classifier_cycle env w a = (w', a')"
  shows "processing (w_db w') \<subseteq> processing (w_db w)"
proof
  fix r
  assume r: "r \<in> processing (w_db w')"
  show "r \<in> processing (w_db w)"
  proof (rule ccontr)
    assume "r \<notin> processing (w_db w)"
    from settled_rows [OF assms(2) r this] obtain limit q where
      "q \<in> set (claim_rows limit (ce_pool_id env) (ce_now env) (w_db w))" "sd_domain q = sd_domain r"
      "normalize_domain (sd_domain r) \<noteq> sd_domain r" by blast
    then show False using assms(1) claim_rows_claimable by fastforce
  qed
qed

text \<open>C19. A domain leaves the queue in a pass of the classifier only if it is locked or the pass has saved
  a classification run for it, if the staged domains are in normal form: no staged domain is dropped
  without a result.\<close>

theorem dequeued_only_with_result:
  assumes "\<forall>r\<in>set (t_staging (w_db w)). normalize_domain (sd_domain r) = sd_domain r"
    and "classifier_cycle env w a = (w', a')"
    and "d \<in> staged (w_db w)" and "d \<notin> staged (w_db w')"
  shows "get_domain_lock d (w_db w) \<noteq> None \<or>
    (\<exists>new. t_runs (w_db w') = t_runs (w_db w) @ new \<and> (\<exists>x\<in>set new. cr_domain x = d))"
  using cycle_leaves [OF assms(2-4)] assms(1) by (auto simp: staged_def)

definition ex_cycle_world :: "ref_state world" where
  "ex_cycle_world = ex_world\<lparr>w_db := (case staging_enqueue [''a.com'', ''b.com'', ''c.com''] 100 ''live'' ''background'' [] 9 empty_db of
     Inr (s, _) \<Rightarrow> s | Inl _ \<Rightarrow> empty_db)\<rparr>"

definition ex_cycle :: "ref_state cycle_env" where
  "ex_cycle = \<lparr>ce_handler = ex_env, ce_dispatch = ex_dispatch, ce_pool_id = ''background'', ce_trigger_size = 3, ce_max_wait_sec = 60,
     ce_dossiers = (\<lambda>ds. Inr []), ce_evidence = (\<lambda>_. 1), ce_prompt_hash = [], ce_run_id = ''r1'', ce_stop = False, ce_now = 9\<rparr>"

lemma ex_cycle_queue:
  "map sd_domain (t_staging (w_db ex_cycle_world)) = [''a.com'', ''b.com'', ''c.com'']"
  "list_all (\<lambda>r. normalize_domain (sd_domain r) = sd_domain r) (t_staging (w_db ex_cycle_world))"
  by code_simp+

lemma ex_cycle_after: "map sd_domain (t_staging (w_db (fst (classifier_cycle ex_cycle ex_cycle_world ex_store)))) = [] "
  by code_simp

lemma ex_cycle_normal: "\<forall>r\<in>set (t_staging (w_db ex_cycle_world)). normalize_domain (sd_domain r) = sd_domain r"
  using ex_cycle_queue(2) by (simp add: list_all_iff)

theorem claimed_rows_are_settled_witness:
  "\<exists>w' a'. classifier_cycle ex_cycle ex_cycle_world ex_store = (w', a') \<and> t_staging (w_db ex_cycle_world) \<noteq> [] \<and>
     processing (w_db w') \<subseteq> processing (w_db ex_cycle_world)"
proof -
  obtain w' a' where c: "classifier_cycle ex_cycle ex_cycle_world ex_store = (w', a')" by fastforce
  from claimed_rows_are_settled [OF ex_cycle_normal c] c ex_cycle_queue(1) show ?thesis by auto
qed

theorem dequeued_only_with_result_witness:
  "\<exists>w' a' new. classifier_cycle ex_cycle ex_cycle_world ex_store = (w', a') \<and>
     t_runs (w_db w') = t_runs (w_db ex_cycle_world) @ new \<and> (\<exists>x\<in>set new. cr_domain x = ''b.com'')"
proof -
  obtain w' a' where c: "classifier_cycle ex_cycle ex_cycle_world ex_store = (w', a')" by fastforce
  have "''b.com'' \<in> staged (w_db ex_cycle_world)" "''b.com'' \<notin> staged (w_db w')"
    using ex_cycle_queue(1) ex_cycle_after c by (simp_all add: staged_def flip: set_map)
  moreover have "get_domain_lock ''b.com'' (w_db ex_cycle_world) = None" by code_simp
  ultimately show ?thesis using dequeued_only_with_result [OF ex_cycle_normal c] c by fastforce
qed

section \<open>Properties of the collector pass\<close>

lemma history_backfill_cursor: "history_backfill env sn s = (sn', r) \<Longrightarrow> sn_from_ts sn' = sn_from_ts sn"
  by (auto simp: history_backfill_def Let_def split: option.splits if_splits sum.splits prod.splits)


definition ex_query_row :: "string \<Rightarrow> pyfloat \<Rightarrow> query_row" where
  "ex_query_row d t = \<lparr>q_time = t, q_client = ''10.0.0.1'', q_domain = d, q_type = ''A'', q_status = ''FORWARDED''\<rparr>"

definition ex_collector :: scanner_env where
  "ex_collector = \<lparr>sc_enabled = True, sc_connected = True,
     sc_fetch = (\<lambda>_ _ _. Inr [ex_query_row ''old.example'' 3, ex_query_row ''a.example'' 5, ex_query_row ''b.example'' 7]),
     sc_batch_size = 5, sc_history_enabled = False, sc_history_idle_after = 60, sc_history_lookback_days = 1,
     sc_history_batch_size = 5, sc_excluded = [], sc_fmt = (\<lambda>_. ''t''), sc_float = (\<lambda>_. None), sc_order = rev,
     sc_time = 8, sc_monotonic = 1\<rparr>"

definition ex_scanner :: scanner where
  "ex_scanner = \<lparr>sn_from_ts = 4, sn_last_live_activity = 0\<rparr>"


end
