(* ===== verification/Review_Decisions.thy ===== *)
theory Review_Decisions
  imports Pihole Review_Store
begin

text \<open>
  Decisions of the user: \<open>application/review_decisions.py\<close> with the ports that \<open>review_decisions.py\<close> wires to
  it, the preference table of \<open>review_preferences.py\<close>, and the application service for regular
  expressions and subscribed lists of \<open>application/managed_rules.py\<close>. A decision spans four stores: the
  rules of Pi-hole with the audit log, the queue, the review tables and the preferences; each write is
  committed on its own, so an exception keeps what was written before it.
\<close>

section \<open>Preferences\<close>

record preference_row =
  pf_domain :: string
  pf_never_ask :: bool
  pf_postponed_until :: "int option"
  pf_last_decision :: string
  pf_updated_at :: int

definition review_preference_get :: "string \<Rightarrow> preference_row list \<Rightarrow> preference_row option" where
  "review_preference_get domain prefs =
     (let n = normalize_domain domain in if n = [] then None else tbl_get pf_domain n prefs)"

definition review_preferences_for_domains :: "string list \<Rightarrow> preference_row list \<Rightarrow> (string, preference_row) dict" where
  "review_preferences_for_domains domains prefs =
     (let normalized = filter (\<lambda>d. d \<noteq> []) (map normalize_domain domains) in
      dict_of (map (\<lambda>r. (pf_domain r, r)) (filter (\<lambda>r. pf_domain r \<in> set normalized) prefs)))"

definition set_review_preference ::
  "string \<Rightarrow> bool \<Rightarrow> int option \<Rightarrow> string \<Rightarrow> int \<Rightarrow> preference_row list \<Rightarrow> exn + preference_row list \<times> preference_row" where
  "set_review_preference domain never_ask postponed_until last_decision now prefs =
     (let n = normalize_domain domain;
          last = py_lower (py_strip last_decision);
          new = \<lparr>pf_domain = n, pf_never_ask = never_ask, pf_postponed_until = postponed_until,
                 pf_last_decision = last, pf_updated_at = now\<rparr>;
          prefs' = tbl_upsert pf_domain new
            (\<lambda>r. r\<lparr>pf_never_ask := never_ask, pf_postponed_until := postponed_until, pf_last_decision := last, pf_updated_at := now\<rparr>) prefs
      in if n = [] then Inl (ValueError ''domain must not be empty'')
         else Inr (prefs', case review_preference_get n prefs' of Some r \<Rightarrow> r | None \<Rightarrow> new))"

definition clear_review_preference :: "string \<Rightarrow> preference_row list \<Rightarrow> preference_row list \<times> bool" where
  "clear_review_preference domain prefs =
     (let n = normalize_domain domain; rows = tbl_delete (\<lambda>r. pf_domain r = n) prefs in
      if n = [] then (prefs, False) else (rows, length rows < length prefs))"

definition preference_blocks :: "int \<Rightarrow> preference_row \<Rightarrow> bool" where
  "preference_blocks now r \<longleftrightarrow> pf_never_ask r \<or> (case pf_postponed_until r of None \<Rightarrow> False | Some t \<Rightarrow> now < t)"

definition preference_blocks_review :: "string \<Rightarrow> int \<Rightarrow> preference_row list \<Rightarrow> bool" where
  "preference_blocks_review domain now prefs =
     (case review_preference_get domain prefs of None \<Rightarrow> False | Some r \<Rightarrow> preference_blocks now r)"

text \<open>A row of a review listing, with the three fields that the preferences add.\<close>

record 'a preferred_row =
  pw_domain :: string
  pw_item :: 'a
  pw_never_ask :: bool
  pw_postponed_until :: "int option"
  pw_last_decision :: string

definition apply_review_preferences ::
  "(string \<times> 'a) list \<Rightarrow> bool \<Rightarrow> int \<Rightarrow> preference_row list \<Rightarrow> 'a preferred_row list" where
  "apply_review_preferences rows hide_blocked now prefs =
     (let preferences = review_preferences_for_domains (map fst rows) prefs in
      map (\<lambda>(d, x). case map_of preferences (normalize_domain d) of
             None \<Rightarrow> \<lparr>pw_domain = d, pw_item = x, pw_never_ask = False, pw_postponed_until = None, pw_last_decision = []\<rparr>
           | Some p \<Rightarrow> \<lparr>pw_domain = d, pw_item = x, pw_never_ask = pf_never_ask p, pw_postponed_until = pf_postponed_until p,
                        pw_last_decision = pf_last_decision p\<rparr>)
        (filter (\<lambda>(d, x). \<not> (hide_blocked \<and> (case map_of preferences (normalize_domain d) of
             None \<Rightarrow> False | Some p \<Rightarrow> preference_blocks now p))) rows))"

section \<open>Review decisions\<close>

datatype decision_error = InvalidReviewDecision string | ReviewDecisionConflict string | Other_error exn

text \<open>\<open>'v\<close> is what a caller passes as \<open>postpone_until\<close>; \<open>int_of\<close> is \<open>int(...)\<close>, with \<^const>\<open>None\<close> for a \<open>TypeError\<close> or \<open>ValueError\<close>.\<close>

record 'v decision_command =
  dc_domain :: string
  dc_decision :: string
  dc_postpone_until :: "'v option"
  dc_comment :: string

record decision_result =
  dz_domain :: string
  dz_decision :: string
  dz_applied :: bool
  dz_preference :: preference_row
  dz_postpone_until :: "int option"

record 'p desk =
  dk_world :: "'p world"
  dk_prefs :: "preference_row list"

record ('p, 'v) decision_env =
  dn_srv :: "'p pihole_server"
  dn_inst :: instance_ctx
  dn_profiles :: "compatibility_profile list"
  dn_int_of :: "'v \<Rightarrow> int option"
  dn_now :: int

type_synonym ('p, 'a) desk_step = "'p desk \<Rightarrow> 'p desk \<times> (decision_error + 'a)"

definition desk_bind :: "('p, 'a) desk_step \<Rightarrow> ('a \<Rightarrow> ('p, 'b) desk_step) \<Rightarrow> ('p, 'b) desk_step" where
  "desk_bind f g k = (case f k of (k', Inl e) \<Rightarrow> (k', Inl e) | (k', Inr x) \<Rightarrow> g x k')"

definition on_world :: "('p world \<Rightarrow> exn + 'p world) \<Rightarrow> ('p, unit) desk_step" where
  "on_world f k = (case f (dk_world k) of Inl e \<Rightarrow> (k, Inl (Other_error e)) | Inr w \<Rightarrow> (k\<lparr>dk_world := w\<rparr>, Inr ()))"

definition on_store :: "(db \<Rightarrow> exn + db) \<Rightarrow> ('p, unit) desk_step" where
  "on_store f = on_world (\<lambda>w. map_sum id (\<lambda>s. w\<lparr>w_db := s\<rparr>) (f (w_db w)))"

definition on_prefs :: "(preference_row list \<Rightarrow> exn + preference_row list \<times> 'a) \<Rightarrow> ('p, 'a) desk_step" where
  "on_prefs f k = (case f (dk_prefs k) of Inl e \<Rightarrow> (k, Inl (Other_error e)) | Inr (ps, x) \<Rightarrow> (k\<lparr>dk_prefs := ps\<rparr>, Inr x))"

definition resolve_open_review_tasks :: "string \<Rightarrow> string \<Rightarrow> int \<Rightarrow> db \<Rightarrow> db" where
  "resolve_open_review_tasks domain decision now s =
     s\<lparr>t_tasks := tbl_update (\<lambda>t. rt_status t = ''open'' \<and> rt_domain t = domain)
       (\<lambda>t. t\<lparr>rt_status := ''resolved'', rt_decision := decision, rt_updated_at := now\<rparr>) (t_tasks s)\<rparr>"

definition exact_rule_exists :: "('p, 'v) decision_env \<Rightarrow> string \<Rightarrow> string \<Rightarrow> ('p, bool) desk_step" where
  "exact_rule_exists env domain policy k =
     (k, case fetch_rows (dn_srv env) ''exact_domain'' policy (w_pihole (dk_world k)) of
           Inl e \<Rightarrow> Inl (Other_error e) | Inr rows \<Rightarrow> Inr (list_ex (\<lambda>r. sp_key r = domain) rows))"

definition when_step :: "bool \<Rightarrow> ('p, unit) desk_step \<Rightarrow> ('p, unit) desk_step" where
  "when_step b f k = (if b then f k else (k, Inr ()))"

definition decided :: "string \<Rightarrow> string \<Rightarrow> int option \<Rightarrow> preference_row \<Rightarrow> ('p, decision_result) desk_step" where
  "decided domain decision postponed pref k =
     (k, Inr \<lparr>dz_domain = domain, dz_decision = decision, dz_applied = True, dz_preference = pref, dz_postpone_until = postponed\<rparr>)"

text \<open>The decisions \<open>allow\<close> and \<open>deny\<close>.\<close>

definition apply_rule_decision :: "('p, 'v) decision_env \<Rightarrow> string \<Rightarrow> string \<Rightarrow> string \<Rightarrow> ('p, decision_result) desk_step" where
  "apply_rule_decision env domain decision comment =
     (let opposite = (if decision = ''allow'' then ''deny'' else ''allow''); now = dn_now env in
      desk_bind (exact_rule_exists env domain decision) (\<lambda>desired_exists.
      desk_bind (exact_rule_exists env domain opposite) (\<lambda>opposite_exists.
      desk_bind (when_step (\<not> desired_exists) (on_world (add_exact_domain (dn_srv env) (dn_inst env) (dn_profiles env) now domain decision
          (str_or (py_strip comment) (''Review decision: '' @ decision)) False))) (\<lambda>_.
      desk_bind (when_step opposite_exists (on_world (delete_exact_domain (dn_srv env) (dn_inst env) now domain opposite))) (\<lambda>_.
      desk_bind (on_store (mark_action_applied domain decision now)) (\<lambda>_.
      desk_bind (on_store (\<lambda>s. Inr (fst (staging_remove [domain] s)))) (\<lambda>_.
      desk_bind (on_prefs (set_review_preference domain False None decision now)) (decided domain decision None))))))))"

definition execute_validated ::
  "('p, 'v) decision_env \<Rightarrow> string \<Rightarrow> string \<Rightarrow> 'v option \<Rightarrow> string \<Rightarrow> ('p, decision_result) desk_step" where
  "execute_validated env domain decision postpone_until comment =
     (let now = dn_now env; dequeue = on_store (\<lambda>s. Inr (fst (staging_remove [domain] s))) in
      if decision \<in> {''allow'', ''deny''} then apply_rule_decision env domain decision comment
      else if decision = ''ignore'' then
        desk_bind dequeue (\<lambda>_.
        desk_bind (on_store (\<lambda>s. Inr (fst (review_resolve [domain] ''ignored'' now s)))) (\<lambda>_.
        desk_bind (on_prefs (set_review_preference domain False None ''ignore'' now)) (decided domain decision None)))
      else if decision = ''postpone'' then
        (case postpone_until of
           None \<Rightarrow> (\<lambda>k. (k, Inl (InvalidReviewDecision ''postpone_until is required for postpone'')))
         | Some v \<Rightarrow>
             (case dn_int_of env v of
                None \<Rightarrow> (\<lambda>k. (k, Inl (InvalidReviewDecision ''postpone_until must be an integer'')))
              | Some postponed \<Rightarrow>
                  if postponed \<le> now then (\<lambda>k. (k, Inl (InvalidReviewDecision ''postpone_until must be in the future'')))
                  else
                    desk_bind dequeue (\<lambda>_.
                    desk_bind (on_store (\<lambda>s. Inr (resolve_open_review_tasks domain ''postponed'' now s))) (\<lambda>_.
                    desk_bind (on_prefs (set_review_preference domain False (Some postponed) ''postpone'' now))
                      (decided domain decision (Some postponed))))))
      else
        desk_bind dequeue (\<lambda>_.
        desk_bind (on_store (\<lambda>s. Inr (resolve_open_review_tasks domain ''never_ask'' now s))) (\<lambda>_.
        desk_bind (on_prefs (set_review_preference domain True None ''never_ask'' now)) (decided domain decision None))))"

fun as_conflict :: "decision_error \<Rightarrow> decision_error" where
  "as_conflict (Other_error (RuntimeError m)) = ReviewDecisionConflict m"
| "as_conflict (Other_error OperationCancelledError) = ReviewDecisionConflict (exn_text OperationCancelledError)"
| "as_conflict e = e"

definition valid_review_decisions :: "string set" where
  "valid_review_decisions = {''allow'', ''deny'', ''postpone'', ''ignore'', ''never_ask''}"

definition execute_review_decision :: "('p, 'v) decision_env \<Rightarrow> 'v decision_command \<Rightarrow> ('p, decision_result) desk_step" where
  "execute_review_decision env cmd k =
     (let normalized = normalize_domain (dc_domain cmd); selected = py_lower (py_strip (dc_decision cmd)) in
      if normalized = [] then (k, Inl (InvalidReviewDecision ''domain must not be empty''))
      else if selected \<notin> valid_review_decisions
      then (k, Inl (InvalidReviewDecision ''decision must be allow, deny, postpone, ignore, or never_ask''))
      else case execute_validated env normalized selected (dc_postpone_until cmd) (dc_comment cmd) k of
        (k', Inl e) \<Rightarrow> (k', Inl (as_conflict e)) | (k', Inr r) \<Rightarrow> (k', Inr r))"

section \<open>Managed rules\<close>

datatype managed_error = InvalidManagedRule string | ManagedRuleConflict string | Managed_other exn

record managed_command =
  mc_operation :: string
  mc_kind :: string
  mc_value :: string
  mc_rule_type :: string
  mc_comment :: string
  mc_groups :: "int list option"
  mc_enabled :: bool

record managed_result =
  mz_kind :: string
  mz_operation :: string
  mz_value :: string
  mz_rule_type :: string
  mz_applied :: bool

definition validate_kind :: "string \<Rightarrow> managed_error + string" where
  "validate_kind raw_kind =
     (let kind = py_lower (py_strip raw_kind) in
      if kind \<in> {''regex_domain'', ''subscribed_list''} then Inr kind
      else Inl (InvalidManagedRule ''kind must be regex_domain or subscribed_list''))"

definition valid_rule_types :: "string \<Rightarrow> string list" where
  "valid_rule_types kind = (if kind = ''regex_domain'' then [''allow'', ''deny''] else [''allow'', ''block''])"

definition validate_rule_type :: "string \<Rightarrow> string \<Rightarrow> managed_error + string" where
  "validate_rule_type kind raw_rule_type =
     (let rule_type = py_lower (py_strip raw_rule_type) in
      if rule_type \<in> set (valid_rule_types kind) then Inr rule_type
      else Inl (InvalidManagedRule (''rule_type for '' @ kind @ '' must be '' @ py_join '' or '' (sort (valid_rule_types kind)))))"

fun as_managed_conflict :: "exn \<Rightarrow> managed_error" where
  "as_managed_conflict (RuntimeError m) = ManagedRuleConflict m"
| "as_managed_conflict OperationCancelledError = ManagedRuleConflict (exn_text OperationCancelledError)"
| "as_managed_conflict e = Managed_other e"

definition fetch_managed_rules ::
  "'p pihole_server \<Rightarrow> string \<Rightarrow> string \<Rightarrow> 'p world \<Rightarrow> managed_error + pihole_snapshot list" where
  "fetch_managed_rules srv raw_kind raw_type w =
     (case validate_kind raw_kind of Inl e \<Rightarrow> Inl e
      | Inr kind \<Rightarrow>
          (case validate_rule_type kind raw_type of Inl e \<Rightarrow> Inl e
           | Inr rule_type \<Rightarrow> map_sum as_managed_conflict id (fetch_rows srv kind rule_type (w_pihole w))))"

definition mutate_managed ::
  "'p pihole_server \<Rightarrow> instance_ctx \<Rightarrow> int \<Rightarrow> string \<Rightarrow> string \<Rightarrow> string \<Rightarrow> string \<Rightarrow> managed_command \<Rightarrow> 'p world \<Rightarrow> exn + 'p world" where
  "mutate_managed srv inst now operation kind rule_type value cmd w =
     (let groups = (case mc_groups cmd of None \<Rightarrow> [] | Some g \<Rightarrow> g) in
      if operation = ''add'' then add_managed_resource srv inst now kind rule_type value groups (mc_comment cmd) (mc_enabled cmd) w
      else if operation = ''update'' then update_pihole_resource srv inst now kind rule_type value groups (mc_comment cmd) (mc_enabled cmd) w
      else delete_managed_resource srv inst now kind rule_type value w)"

definition execute_managed_rule_mutation ::
  "'p pihole_server \<Rightarrow> instance_ctx \<Rightarrow> int \<Rightarrow> managed_command \<Rightarrow> 'p world \<Rightarrow> 'p world \<times> (managed_error + managed_result)" where
  "execute_managed_rule_mutation srv inst now cmd w =
     (let operation = py_lower (py_strip (mc_operation cmd)) in
      if operation \<notin> {''add'', ''update'', ''delete''} then (w, Inl (InvalidManagedRule ''operation must be add, update, or delete''))
      else case validate_kind (mc_kind cmd) of Inl e \<Rightarrow> (w, Inl e)
      | Inr kind \<Rightarrow>
          (case validate_rule_type kind (mc_rule_type cmd) of Inl e \<Rightarrow> (w, Inl e)
           | Inr rule_type \<Rightarrow>
               let value = (if operation = ''add'' then py_strip (mc_value cmd) else mc_value cmd) in
               if operation = ''add'' \<and> value = []
               then (w, Inl (InvalidManagedRule ((if kind = ''regex_domain'' then ''regex domain'' else ''list address'') @ '' must not be empty'')))
               else (case mutate_managed srv inst now operation kind rule_type value cmd w of
                  Inl e \<Rightarrow> (w, Inl (as_managed_conflict e))
                | Inr w' \<Rightarrow> (w', Inr \<lparr>mz_kind = kind, mz_operation = operation, mz_value = value, mz_rule_type = rule_type, mz_applied = True\<rparr>))))"

section \<open>How the steps compose\<close>

lemma desk_bind_Inr:
  assumes "desk_bind f g k = (k', Inr y)"
  obtains k1 x where "f k = (k1, Inr x)" "g x k1 = (k', Inr y)"
  using assms by (auto simp: desk_bind_def split: prod.splits sum.splits)

definition keeps :: "('p desk \<Rightarrow> bool) \<Rightarrow> ('p, 'a) desk_step \<Rightarrow> bool" where
  "keeps P f \<longleftrightarrow> (\<forall>k. P k \<longrightarrow> P (fst (f k)))"

lemma keeps_bind [intro]: "keeps P f \<Longrightarrow> (\<And>x. keeps P (g x)) \<Longrightarrow> keeps P (desk_bind f g)"
  by (fastforce simp: keeps_def desk_bind_def split: prod.split sum.split)

lemma keeps_when [intro]: "keeps P f \<Longrightarrow> keeps P (when_step b f)"
  by (simp add: keeps_def when_step_def)

lemma keeps_read [intro]: "keeps P (exact_rule_exists env d t)" "keeps P (decided d t u x)" "keeps P (\<lambda>k. (k, r))"
  by (simp_all add: keeps_def exact_rule_exists_def decided_def)

lemma on_world_Inr: "on_world f k = (k', Inr x) \<Longrightarrow> \<exists>w. f (dk_world k) = Inr w \<and> k' = k\<lparr>dk_world := w\<rparr>"
  by (auto simp: on_world_def split: sum.splits)

lemma on_store_Inr: "on_store f k = (k', Inr x) \<Longrightarrow>
    \<exists>s. f (w_db (dk_world k)) = Inr s \<and> k' = k\<lparr>dk_world := (dk_world k)\<lparr>w_db := s\<rparr>\<rparr>"
  by (auto simp: on_store_def on_world_def map_sum_def split: sum.splits)

lemma on_prefs_Inr: "on_prefs f k = (k', Inr x) \<Longrightarrow> \<exists>ps. f (dk_prefs k) = Inr (ps, x) \<and> k' = k\<lparr>dk_prefs := ps\<rparr>"
  by (auto simp: on_prefs_def split: sum.splits prod.splits)

lemma set_preference_get:
  assumes "set_review_preference d never postponed ld now ps = Inr (ps', p)" and "normalize_domain (normalize_domain d) = normalize_domain d"
  shows "review_preference_get d ps' = Some p \<and> pf_domain p = normalize_domain d \<and> pf_never_ask p = never \<and>
    pf_postponed_until p = postponed \<and> pf_last_decision p = py_lower (py_strip ld)"
proof -
  let ?n = "normalize_domain d"
  let ?new = "\<lparr>pf_domain = ?n, pf_never_ask = never, pf_postponed_until = postponed, pf_last_decision = py_lower (py_strip ld), pf_updated_at = now\<rparr>"
  let ?upd = "\<lambda>r. r\<lparr>pf_never_ask := never, pf_postponed_until := postponed, pf_last_decision := py_lower (py_strip ld), pf_updated_at := now\<rparr>"
  have n: "?n \<noteq> []" and ps': "ps' = tbl_upsert pf_domain ?new ?upd ps"
    and p: "p = (case review_preference_get ?n ps' of Some r \<Rightarrow> r | None \<Rightarrow> ?new)"
    using assms(1) by (auto simp: set_review_preference_def Let_def split: if_splits)
  have "tbl_get pf_domain ?n ps' = Some (case tbl_get pf_domain ?n ps of None \<Rightarrow> ?new | Some r \<Rightarrow> ?upd r)"
    unfolding ps' by (simp add: tbl_get_upsert)
  then show ?thesis using n p assms(2)
    by (auto simp: review_preference_get_def Let_def dest: tbl_get_Some split: option.splits)
qed

lemma exact_rule_exists_Inr:
  assumes "exact_rule_exists env d t k = (k', Inr b)" and "d \<noteq> []"
  shows "k' = k \<and> (b \<longleftrightarrow> server_entry (dn_srv env) ''exact'' t d (w_pihole (dk_world k)) \<noteq> None)"
proof -
  let ?p = "w_pihole (dk_world k)"
  obtain fetched where f: "fetch_rows (dn_srv env) ''exact_domain'' t ?p = Inr fetched"
    and b: "b = list_ex (\<lambda>r. sp_key r = d) fetched" and k: "k' = k"
    using assms(1) unfolding exact_rule_exists_def by (cases "fetch_rows (dn_srv env) ''exact_domain'' t ?p") simp_all
  obtain rows where "srv_get (dn_srv env) ''exact'' t ?p = Inr rows"
      "fetched = map (fetched_row ''exact_domain'' t) (filter (\<lambda>r. ar_key r \<noteq> []) rows)"
    using f unfolding fetch_rows_def endpoint_of_def by (simp split: if_splits sum.splits)
  moreover have "list_ex (\<lambda>r. sp_key r = d) (map (fetched_row ''exact_domain'' t) (filter (\<lambda>r. ar_key r \<noteq> []) rows)) \<longleftrightarrow> tbl_get ar_key d rows \<noteq> None"
    using assms(2) by (induction rows) (auto simp: fetched_row_def tbl_get_Cons)
  ultimately show ?thesis using b k by (simp add: server_entry_def)
qed

section \<open>What a decision leaves behind\<close>

lemma delete_exact_domain_Inr:
  assumes "delete_exact_domain srv inst now d t w = Inr w'"
  shows "srv_delete srv ''exact'' t d (w_pihole w) = Inr (w_pihole w') \<and> w_db w' = w_db w \<and>
    (\<forall>l. get_domain_lock d (w_db w) = Some l \<longrightarrow> l_list_type l \<noteq> t)"
  using assms
  by (auto simp: delete_exact_domain_def Let_def record_pihole_change_def append_audit_def split: if_splits sum.splits option.splits prod.splits)

lemma add_exact_entries:
  assumes "server_laws srv" and "add_exact_domain srv inst prof now d t c ov w = Inr w'"
  shows "server_entry srv ''exact'' t d (w_pihole w') \<noteq> None"
    and "u \<noteq> t \<Longrightarrow> server_entry srv ''exact'' u d (w_pihole w') = server_entry srv ''exact'' u d (w_pihole w)"
  using server_laws_write [OF assms(1)] add_exact_domain_Inr [OF assms(2)] unfolding client_add_def by blast+

lemma delete_exact_entries:
  assumes "server_laws srv" and "delete_exact_domain srv inst now d t w = Inr w'"
  shows "server_entry srv ''exact'' t d (w_pihole w') = None"
    and "u \<noteq> t \<Longrightarrow> server_entry srv ''exact'' u d (w_pihole w') = server_entry srv ''exact'' u d (w_pihole w)"
  using server_laws_delete [OF assms(1)] delete_exact_domain_Inr [OF assms(2)] by blast+

definition closed_in :: "string \<Rightarrow> db \<Rightarrow> bool" where
  "closed_in d s \<longleftrightarrow> d \<notin> sd_domain ` set (t_staging s) \<and> (\<forall>t\<in>set (t_tasks s). rt_domain t = d \<longrightarrow> rt_status t \<noteq> ''open'')"

definition tasks_closed :: "string \<Rightarrow> db \<Rightarrow> bool" where
  "tasks_closed d s \<longleftrightarrow> (\<forall>t\<in>set (t_tasks s). rt_domain t = d \<longrightarrow> rt_status t \<noteq> ''open'')"

definition dequeued :: "string \<Rightarrow> db \<Rightarrow> bool" where
  "dequeued d s \<longleftrightarrow> d \<notin> sd_domain ` set (t_staging s)"

lemma closed_in_iff: "closed_in d s \<longleftrightarrow> dequeued d s \<and> tasks_closed d s"
  by (simp add: closed_in_def dequeued_def tasks_closed_def)

lemma remove_effect:
  assumes "normalize_domain d = d" and "d \<noteq> []"
  shows "dequeued d (fst (staging_remove [d] s))" and "t_tasks (fst (staging_remove [d] s)) = t_tasks s"
  using assms by (auto simp: dequeued_def staging_remove_def Let_def set_tbl_delete)

lemma tasks_closed_update:
  assumes "t_tasks s' = tbl_update (\<lambda>t. rt_status t = ''open'' \<and> rt_domain t = d) f (t_tasks s)" and "\<And>t. rt_status (f t) \<noteq> ''open''"
  shows "tasks_closed d s'"
  unfolding tasks_closed_def assms(1) set_tbl_update using assms(2) by auto

lemma mark_effect:
  assumes "mark_action_applied d a now s = Inr s'" and "normalize_domain d = d"
  shows "tasks_closed d s'" and "t_staging s' = t_staging s"
proof -
  have "t_tasks s' = tbl_update (\<lambda>t. rt_status t = ''open'' \<and> rt_domain t = d)
      (\<lambda>t. t\<lparr>rt_status := ''resolved'', rt_decision := ''applied_'' @ normalize_planned_action a, rt_updated_at := now\<rparr>) (t_tasks s)"
    using assms by (auto simp: mark_action_applied_def Let_def split: if_splits)
  then show "tasks_closed d s'" by (rule tasks_closed_update) simp
  show "t_staging s' = t_staging s" using assms by (auto simp: mark_action_applied_def Let_def split: if_splits)
qed

lemma resolve_effect:
  assumes "normalize_domain d = d" and "d \<noteq> []"
  shows "tasks_closed d (fst (review_resolve [d] x now s))" and "t_staging (fst (review_resolve [d] x now s)) = t_staging s"
proof -
  have "t_tasks (fst (review_resolve [d] x now s)) = tbl_update (\<lambda>t. rt_status t = ''open'' \<and> rt_domain t = d)
      (\<lambda>t. t\<lparr>rt_status := ''resolved'', rt_decision := str_or (py_strip x) ''dismissed'', rt_updated_at := now\<rparr>) (t_tasks s)"
    using assms by (simp add: review_resolve_def Let_def)
  then show "tasks_closed d (fst (review_resolve [d] x now s))" by (rule tasks_closed_update) simp
  show "t_staging (fst (review_resolve [d] x now s)) = t_staging s" using assms by (simp add: review_resolve_def Let_def)
qed

lemma resolve_tasks_effect: "tasks_closed d (resolve_open_review_tasks d x now s)"
  by (rule tasks_closed_update [of _ _ "\<lambda>t. t\<lparr>rt_status := ''resolved'', rt_decision := x, rt_updated_at := now\<rparr>" s])
    (simp_all add: resolve_open_review_tasks_def)

lemma resolve_tasks_staging [simp]: "t_staging (resolve_open_review_tasks d x now s) = t_staging s"
  by (simp add: resolve_open_review_tasks_def)

lemma rule_decision_effect:
  assumes laws: "server_laws (dn_srv env)" and d: "normalize_domain d = d" "d \<noteq> []" and t: "t \<in> {''allow'', ''deny''}"
    and step: "apply_rule_decision env d t comment k = (k', Inr r)"
  shows "server_entry (dn_srv env) ''exact'' t d (w_pihole (dk_world k')) \<noteq> None \<and>
    server_entry (dn_srv env) ''exact'' (if t = ''allow'' then ''deny'' else ''allow'') d (w_pihole (dk_world k')) = None \<and>
    closed_in d (w_db (dk_world k')) \<and>
    set_review_preference d False None t (dn_now env) (dk_prefs k) = Inr (dk_prefs k', dz_preference r) \<and> dz_domain r = d \<and> dz_decision r = t"
proof -
  let ?srv = "dn_srv env" and ?o = "if t = ''allow'' then ''deny'' else ''allow''"
  let ?e = "\<lambda>u k. server_entry ?srv ''exact'' u d (w_pihole (dk_world k))"
  have ot: "?o \<noteq> t" using t by auto
  from step obtain b1 b2 k1 k2 k3 k4 k5 k6 p where
      s1: "exact_rule_exists env d t k = (k1, Inr b1)" and s2: "exact_rule_exists env d ?o k1 = (k2, Inr b2)"
    and s3: "when_step (\<not> b1) (on_world (add_exact_domain ?srv (dn_inst env) (dn_profiles env) (dn_now env) d t
          (str_or (py_strip comment) (''Review decision: '' @ t)) False)) k2 = (k3, Inr ())"
    and s4: "when_step b2 (on_world (delete_exact_domain ?srv (dn_inst env) (dn_now env) d ?o)) k3 = (k4, Inr ())"
    and s5: "on_store (mark_action_applied d t (dn_now env)) k4 = (k5, Inr ())"
    and s6: "on_store (\<lambda>s. Inr (fst (staging_remove [d] s))) k5 = (k6, Inr ())"
    and s7: "on_prefs (set_review_preference d False None t (dn_now env)) k6 = (k', Inr p)"
    and r: "r = \<lparr>dz_domain = d, dz_decision = t, dz_applied = True, dz_preference = p, dz_postpone_until = None\<rparr>"
    unfolding apply_rule_decision_def Let_def by (elim desk_bind_Inr) (auto simp: decided_def)
  note x1 = exact_rule_exists_Inr [OF s1 d(2)] and x2 = exact_rule_exists_Inr [OF s2 d(2)]
  have e3: "?e t k3 \<noteq> None \<and> ?e ?o k3 = ?e ?o k2 \<and> dk_prefs k3 = dk_prefs k2"
  proof (cases b1)
    case True
    then show ?thesis using s3 x1 x2 by (simp add: when_step_def)
  next
    case False
    then obtain w where w: "add_exact_domain ?srv (dn_inst env) (dn_profiles env) (dn_now env) d t
          (str_or (py_strip comment) (''Review decision: '' @ t)) False (dk_world k2) = Inr w" "k3 = k2\<lparr>dk_world := w\<rparr>"
      using s3 on_world_Inr by (fastforce simp: when_step_def)
    from add_exact_entries [OF laws w(1)] ot w(2) show ?thesis by simp
  qed
  have e4: "?e t k4 \<noteq> None \<and> ?e ?o k4 = None \<and> dk_prefs k4 = dk_prefs k3"
  proof (cases b2)
    case True
    then obtain w where w: "delete_exact_domain ?srv (dn_inst env) (dn_now env) d ?o (dk_world k3) = Inr w" "k4 = k3\<lparr>dk_world := w\<rparr>"
      using s4 on_world_Inr by (fastforce simp: when_step_def)
    from delete_exact_entries(1) [OF laws w(1)] delete_exact_entries(2) [OF laws w(1) ot [symmetric]] e3 w(2) show ?thesis by simp
  next
    case False
    then show ?thesis using s4 e3 x1 x2 by (simp add: when_step_def)
  qed
  have e5: "tasks_closed d (w_db (dk_world k5))" "w_pihole (dk_world k5) = w_pihole (dk_world k4)" "dk_prefs k5 = dk_prefs k4"
    using on_store_Inr [OF s5] mark_effect(1) d(1) by auto
  have e6: "closed_in d (w_db (dk_world k6))" "w_pihole (dk_world k6) = w_pihole (dk_world k5)" "dk_prefs k6 = dk_prefs k5"
    using on_store_Inr [OF s6] e5(1) remove_effect [OF d] by (auto simp: closed_in_iff tasks_closed_def)
  from on_prefs_Inr [OF s7] e3 e4 e5 e6 x1 x2 show ?thesis by (auto simp: r)
qed

lemma plain_decision_effect:
  assumes d: "normalize_domain d = d" "d \<noteq> []" and f: "\<And>s. tasks_closed d (f s)" "\<And>s. t_staging (f s) = t_staging s"
    and step: "desk_bind (on_store (\<lambda>s. Inr (fst (staging_remove [d] s)))) (\<lambda>_. desk_bind (on_store (\<lambda>s. Inr (f s))) (\<lambda>_.
        desk_bind (on_prefs (set_review_preference d never postponed t now)) (decided d t post))) k = (k', Inr r)"
  shows "w_pihole (dk_world k') = w_pihole (dk_world k) \<and> closed_in d (w_db (dk_world k')) \<and>
    set_review_preference d never postponed t now (dk_prefs k) = Inr (dk_prefs k', dz_preference r) \<and> dz_domain r = d \<and> dz_decision r = t"
proof -
  from step obtain k1 k2 p where s1: "on_store (\<lambda>s. Inr (fst (staging_remove [d] s))) k = (k1, Inr ())"
    and s2: "on_store (\<lambda>s. Inr (f s)) k1 = (k2, Inr ())" and s3: "on_prefs (set_review_preference d never postponed t now) k2 = (k', Inr p)"
    and r: "r = \<lparr>dz_domain = d, dz_decision = t, dz_applied = True, dz_preference = p, dz_postpone_until = post\<rparr>"
    by (elim desk_bind_Inr) (auto simp: decided_def)
  have "dequeued d (w_db (dk_world k1))" using on_store_Inr [OF s1] remove_effect(1) [OF d] by auto
  then have "closed_in d (w_db (dk_world k2))" using on_store_Inr [OF s2] f by (auto simp: closed_in_iff dequeued_def)
  then show ?thesis using on_store_Inr [OF s1] on_store_Inr [OF s2] on_prefs_Inr [OF s3] by (auto simp: r)
qed

lemma decisions_lower: "t \<in> valid_review_decisions \<Longrightarrow> py_lower (py_strip t) = t"
proof -
  have "list_all (\<lambda>t. py_lower (py_strip t) = t) [''allow'', ''deny'', ''postpone'', ''ignore'', ''never_ask'']" by code_simp
  then show "t \<in> valid_review_decisions \<Longrightarrow> ?thesis" by (auto simp: valid_review_decisions_def)
qed

lemma postpone_cases:
  assumes "execute_validated env d ''postpone'' v c k = (k', Inr r)"
  obtains u where "dn_now env < u"
    "desk_bind (on_store (\<lambda>s. Inr (fst (staging_remove [d] s)))) (\<lambda>_. desk_bind (on_store (\<lambda>s. Inr (resolve_open_review_tasks d ''postponed'' (dn_now env) s))) (\<lambda>_.
        desk_bind (on_prefs (set_review_preference d False (Some u) ''postpone'' (dn_now env))) (decided d ''postpone'' (Some u)))) k = (k', Inr r)"
  using assms that by (auto simp: execute_validated_def Let_def not_le split: option.splits if_splits)

text \<open>The result of a decision, by decision.\<close>

definition opposite_of :: "string \<Rightarrow> string" where
  "opposite_of t = (if t = ''allow'' then ''deny'' else ''allow'')"

lemma execute_validated_effect:
  assumes laws: "server_laws (dn_srv env)" and d: "normalize_domain d = d" "d \<noteq> []" and t: "t \<in> valid_review_decisions"
    and step: "execute_validated env d t v c k = (k', Inr r)"
  shows "dz_domain r = d \<and> dz_decision r = t \<and> closed_in d (w_db (dk_world k')) \<and>
    (\<exists>postponed. set_review_preference d (t = ''never_ask'') postponed t (dn_now env) (dk_prefs k) = Inr (dk_prefs k', dz_preference r) \<and>
       (if t = ''postpone'' then \<exists>u. postponed = Some u \<and> dn_now env < u else postponed = None)) \<and>
    (if t \<in> {''allow'', ''deny''}
     then server_entry (dn_srv env) ''exact'' t d (w_pihole (dk_world k')) \<noteq> None \<and>
       server_entry (dn_srv env) ''exact'' (opposite_of t) d (w_pihole (dk_world k')) = None
     else w_pihole (dk_world k') = w_pihole (dk_world k))"
proof -
  consider (rule_type) "t \<in> {''allow'', ''deny''}" | (ignore) "t = ''ignore''" | (postpone) "t = ''postpone''" | (never) "t = ''never_ask''"
    using t by (auto simp: valid_review_decisions_def)
  then show ?thesis
  proof cases
    case rule_type
    then have "apply_rule_decision env d t c k = (k', Inr r)" using step by (simp add: execute_validated_def Let_def)
    from rule_decision_effect [OF laws d rule_type this] rule_type show ?thesis by (auto simp: opposite_of_def)
  next
    case ignore
    then have s: "desk_bind (on_store (\<lambda>s. Inr (fst (staging_remove [d] s)))) (\<lambda>_. desk_bind (on_store (\<lambda>s. Inr (fst (review_resolve [d] ''ignored'' (dn_now env) s)))) (\<lambda>_.
        desk_bind (on_prefs (set_review_preference d False None t (dn_now env))) (decided d t None))) k = (k', Inr r)"
      using step by (simp add: execute_validated_def Let_def)
    from plain_decision_effect [where f = "\<lambda>s. fst (review_resolve [d] ''ignored'' (dn_now env) s)", OF d resolve_effect [OF d] s] ignore
    show ?thesis by auto
  next
    case postpone
    from step [unfolded postpone] obtain u where u: "dn_now env < u" and
      s: "desk_bind (on_store (\<lambda>s. Inr (fst (staging_remove [d] s)))) (\<lambda>_. desk_bind (on_store (\<lambda>s. Inr (resolve_open_review_tasks d ''postponed'' (dn_now env) s))) (\<lambda>_.
        desk_bind (on_prefs (set_review_preference d False (Some u) ''postpone'' (dn_now env))) (decided d ''postpone'' (Some u)))) k = (k', Inr r)"
      by (rule postpone_cases)
    from plain_decision_effect [OF d resolve_tasks_effect resolve_tasks_staging s] u postpone show ?thesis by auto
  next
    case never
    then have s: "desk_bind (on_store (\<lambda>s. Inr (fst (staging_remove [d] s)))) (\<lambda>_. desk_bind (on_store (\<lambda>s. Inr (resolve_open_review_tasks d ''never_ask'' (dn_now env) s))) (\<lambda>_.
        desk_bind (on_prefs (set_review_preference d True None t (dn_now env))) (decided d t None))) k = (k', Inr r)"
      using step by (simp add: execute_validated_def Let_def)
    from plain_decision_effect [OF d resolve_tasks_effect resolve_tasks_staging s] never show ?thesis by auto
  qed
qed

text \<open>C27. A decision of the user takes effect in every store: after a decision that did not raise, the
  domain is not queued and has no open review task, the preference table records the decision, and the
  domain is hidden from reviews exactly if it was postponed (to a later time) or never to be asked
  again. For \<open>allow\<close> and \<open>deny\<close> Pi-hole has the exact rule of that kind and not the opposite one; the
  other decisions leave Pi-hole as it was.\<close>

theorem decision_takes_effect:
  assumes "server_laws (dn_srv env)" and "clean_domain (dc_domain cmd)"
    and "execute_review_decision env cmd k = (k', Inr r)"
  shows "dz_domain r = normalize_domain (dc_domain cmd) \<and> dz_decision r = py_lower (py_strip (dc_decision cmd)) \<and>
    dz_domain r \<notin> sd_domain ` set (t_staging (w_db (dk_world k'))) \<and>
    (\<forall>t\<in>set (t_tasks (w_db (dk_world k'))). rt_domain t = dz_domain r \<longrightarrow> rt_status t \<noteq> ''open'') \<and>
    review_preference_get (dz_domain r) (dk_prefs k') = Some (dz_preference r) \<and> pf_last_decision (dz_preference r) = dz_decision r \<and>
    (preference_blocks_review (dz_domain r) (dn_now env) (dk_prefs k') \<longleftrightarrow> dz_decision r \<in> {''postpone'', ''never_ask''}) \<and>
    (if dz_decision r \<in> {''allow'', ''deny''}
     then server_entry (dn_srv env) ''exact'' (dz_decision r) (dz_domain r) (w_pihole (dk_world k')) \<noteq> None \<and>
       server_entry (dn_srv env) ''exact'' (opposite_of (dz_decision r)) (dz_domain r) (w_pihole (dk_world k')) = None
     else w_pihole (dk_world k') = w_pihole (dk_world k))"
proof -
  let ?d = "normalize_domain (dc_domain cmd)" and ?t = "py_lower (py_strip (dc_decision cmd))"
  have d: "normalize_domain ?d = ?d" using normalize_domain_idem [OF assms(2)] .
  from assms(3) have ne: "?d \<noteq> []" and t: "?t \<in> valid_review_decisions"
    and step: "execute_validated env ?d ?t (dc_postpone_until cmd) (dc_comment cmd) k = (k', Inr r)"
    by (auto simp: execute_review_decision_def Let_def split: if_splits prod.splits sum.splits)
  note eff = execute_validated_effect [OF assms(1) d ne t step]
  then obtain postponed where p: "set_review_preference ?d (?t = ''never_ask'') postponed ?t (dn_now env) (dk_prefs k) = Inr (dk_prefs k', dz_preference r)"
    and post: "if ?t = ''postpone'' then \<exists>u. postponed = Some u \<and> dn_now env < u else postponed = None" by blast
  note got = set_preference_get [OF p] 
  have "preference_blocks_review ?d (dn_now env) (dk_prefs k') \<longleftrightarrow> ?t \<in> {''postpone'', ''never_ask''}"
    using got d post by (auto simp: preference_blocks_review_def preference_blocks_def split: if_splits)
  with eff got d decisions_lower [OF t] show ?thesis unfolding closed_in_def by simp
qed

definition ex_env_decide :: "(ref_state, int) decision_env" where
  "ex_env_decide = \<lparr>dn_srv = ref_server, dn_inst = ex_inst, dn_profiles = [ex_profile], dn_int_of = Some, dn_now = 9\<rparr>"

definition ex_desk :: "ref_state desk" where
  "ex_desk = \<lparr>dk_world = ex_world\<lparr>w_db := (case staging_enqueue [''ads.example''] 100 ''manual'' ''realtime'' [] 7 empty_db of
     Inr (s, _) \<Rightarrow> s | Inl _ \<Rightarrow> empty_db)\<rparr>, dk_prefs = []\<rparr>"

definition ex_allow :: "int decision_command" where
  "ex_allow = \<lparr>dc_domain = ''Ads.example.'', dc_decision = '' Allow'', dc_postpone_until = None, dc_comment = []\<rparr>"

theorem decision_takes_effect_witness:
  "\<exists>k' r. execute_review_decision ex_env_decide ex_allow ex_desk = (k', Inr r) \<and> dz_domain r = ''ads.example'' \<and>
     dz_decision r = ''allow'' \<and> server_entry ref_server ''exact'' ''allow'' ''ads.example'' (w_pihole (dk_world k')) \<noteq> None \<and>
     server_entry ref_server ''exact'' ''deny'' ''ads.example'' (w_pihole (dk_world k')) = None"
proof -
  have "\<not> isl (snd (execute_review_decision ex_env_decide ex_allow ex_desk))" by code_simp
  then obtain k' r where x: "execute_review_decision ex_env_decide ex_allow ex_desk = (k', Inr r)"
    by (metis prod.collapse sum.collapse(2))
  have laws: "server_laws (dn_srv ex_env_decide)" by (simp add: ex_env_decide_def ref_server_laws)
  have clean: "clean_domain (dc_domain ex_allow)" by (simp add: clean_domain_def ex_allow_def) code_simp
  have "normalize_domain (dc_domain ex_allow) = ''ads.example''" "py_lower (py_strip (dc_decision ex_allow)) = ''allow''" by code_simp+
  moreover have "dn_srv ex_env_decide = ref_server" by (simp add: ex_env_decide_def)
  ultimately have "dz_domain r = ''ads.example'' \<and> dz_decision r = ''allow'' \<and>
      server_entry ref_server ''exact'' ''allow'' ''ads.example'' (w_pihole (dk_world k')) \<noteq> None \<and>
      server_entry ref_server ''exact'' ''deny'' ''ads.example'' (w_pihole (dk_world k')) = None"
    using decision_takes_effect [OF laws clean x] by (auto simp: opposite_of_def split: if_splits)
  with x show ?thesis by blast
qed

section \<open>A lock outranks a decision\<close>

definition locked_at :: "'p \<Rightarrow> string \<Rightarrow> lock_row \<Rightarrow> 'p desk \<Rightarrow> bool" where
  "locked_at p d l k \<longleftrightarrow> w_pihole (dk_world k) = p \<and> get_domain_lock d (w_db (dk_world k)) = Some l"

lemma keeps_store:
  assumes "\<And>s s'. f s = Inr s' \<Longrightarrow> t_locks s' = t_locks s"
  shows "keeps (locked_at p d l) (on_store f)"
  using assms by (auto simp: keeps_def locked_at_def on_store_def on_world_def get_domain_lock_def map_sum_def split: sum.split)

lemma keeps_prefs [intro]: "keeps (locked_at p d l) (on_prefs f)"
  by (auto simp: keeps_def locked_at_def on_prefs_def split: sum.split prod.split)

lemma keeps_store_ops [intro]:
  "keeps (locked_at p d l) (on_store (mark_action_applied e a now))"
  "keeps (locked_at p d l) (on_store (\<lambda>s. Inr (fst (staging_remove ds s))))"
  "keeps (locked_at p d l) (on_store (\<lambda>s. Inr (fst (review_resolve ds x now s))))"
  "keeps (locked_at p d l) (on_store (\<lambda>s. Inr (resolve_open_review_tasks e x now s)))"
  by (rule keeps_store, auto simp: mark_action_applied_def staging_remove_def review_resolve_def resolve_open_review_tasks_def Let_def
      split: if_splits)+

lemma keeps_add: "l_list_type l \<noteq> t \<Longrightarrow> keeps (locked_at p d l) (on_world (add_exact_domain srv inst prof now d t c ov))"
  by (auto simp: keeps_def locked_at_def on_world_def dest: add_exact_domain_Inr split: sum.split)

lemma keeps_delete: "l_list_type l = t \<Longrightarrow> keeps (locked_at p d l) (on_world (delete_exact_domain srv inst now d t))"
  by (auto simp: keeps_def locked_at_def on_world_def dest: delete_exact_domain_Inr split: sum.split)

lemmas keeps_rules = keeps_bind keeps_when keeps_read keeps_prefs keeps_store_ops

lemma keeps_rule_decision:
  assumes "l_list_type l \<noteq> t" and "l_list_type l = (if t = ''allow'' then ''deny'' else ''allow'')"
  shows "keeps (locked_at p d l) (apply_rule_decision env d t c)"
  unfolding apply_rule_decision_def Let_def
  by (intro keeps_rules keeps_add [OF assms(1)] keeps_delete [OF assms(2)])

lemma keeps_validated:
  assumes "l_list_type l \<noteq> t" and "l_list_type l = (if t = ''allow'' then ''deny'' else ''allow'')"
  shows "keeps (locked_at p d l) (execute_validated env d t v c)"
  unfolding execute_validated_def Let_def
  by (simp add: keeps_rule_decision [OF assms] split: option.split) (intro conjI impI allI keeps_rules)

text \<open>A lock outranks the user's decision: while a domain is locked to one list, a decision for the
  other list changes no rule of Pi-hole, whatever the decision returns; the other decisions change
  no rule anyway.\<close>

theorem decision_respects_lock:
  assumes "get_domain_lock (normalize_domain (dc_domain cmd)) (w_db (dk_world k)) = Some l"
    and "l_list_type l = opposite_of (py_lower (py_strip (dc_decision cmd)))"
  shows "w_pihole (dk_world (fst (execute_review_decision env cmd k))) = w_pihole (dk_world k)"
proof -
  let ?d = "normalize_domain (dc_domain cmd)" and ?t = "py_lower (py_strip (dc_decision cmd))"
  let ?P = "locked_at (w_pihole (dk_world k)) ?d l"
  have lt: "l_list_type l \<noteq> ?t" "l_list_type l = (if ?t = ''allow'' then ''deny'' else ''allow'')"
    using assms(2) by (auto simp: opposite_of_def)
  have "keeps ?P (execute_validated env ?d ?t (dc_postpone_until cmd) (dc_comment cmd))" using lt by (rule keeps_validated)
  moreover have "?P k" using assms(1) by (simp add: locked_at_def)
  ultimately have "?P (fst (execute_validated env ?d ?t (dc_postpone_until cmd) (dc_comment cmd) k))" by (simp add: keeps_def)
  then show ?thesis by (auto simp: execute_review_decision_def Let_def locked_at_def split: prod.split sum.split)
qed

definition ex_locked_desk :: "ref_state desk" where
  "ex_locked_desk = ex_desk\<lparr>dk_world := ex_world\<lparr>w_db := (case set_domain_lock ''ads.example'' ''deny'' [] 7 empty_db of
     Inr s \<Rightarrow> s | Inl _ \<Rightarrow> empty_db)\<rparr>\<rparr>"

theorem decision_respects_lock_witness:
  "w_pihole (dk_world (fst (execute_review_decision ex_env_decide ex_allow ex_locked_desk))) = w_pihole (dk_world ex_locked_desk) \<and>
   isl (snd (execute_review_decision ex_env_decide ex_allow ex_locked_desk))"
proof -
  have "map_option l_list_type (get_domain_lock (normalize_domain (dc_domain ex_allow)) (w_db (dk_world ex_locked_desk))) =
      Some (opposite_of (py_lower (py_strip (dc_decision ex_allow))))"
    and "isl (snd (execute_review_decision ex_env_decide ex_allow ex_locked_desk))" by code_simp+
  then show ?thesis using decision_respects_lock [of ex_allow ex_locked_desk] by auto
qed

end
