(* ===== verification/Evidence.thy ===== *)
theory Evidence
  imports Llm Review_Store
begin

text \<open>
  Weighing research findings: the source scores, contradictions and summary of \<open>evidence_quality.py\<close> and
  the expiry rules of \<open>evidence_freshness.py\<close>. Findings are \<open>ResearchFinding\<close> values; floats are exact
  rationals, so \<open>round(x, 3)\<close> is rounding to the nearest thousandth with halves to even.
\<close>

section \<open>Source kinds and scores\<close>

definition source_base_scores :: "(string \<times> pyfloat) list" where
  "source_base_scores =
     [(''phishtank'', 99 / 100), (''threatfox'', 97 / 100), (''virustotal'', 93 / 100), (''disconnect_tracking'', 92 / 100),
      (''adguard_services'', 90 / 100), (''rdap'', 89 / 100), (''dns_records'', 87 / 100), (''ripestat'', 85 / 100),
      (''cloudflare_radar'', 84 / 100), (''urlscan'', 80 / 100), (''netcraft'', 70 / 100), (''hagezi_tif_mini'', 92 / 100),
      (''easyprivacy_trackingservers'', 91 / 100), (''urlhaus'', 99 / 100), (''crtsh'', 94 / 100),
      (''google_safe_browsing'', 99 / 100), (''compatibility_profile'', 98 / 100)]"

definition evidence_kind_to_source_kind :: "(string \<times> string) list" where
  "evidence_kind_to_source_kind =
     [(''phishing_database'', ''phishtank''), (''ioc_database'', ''threatfox''), (''threat_intelligence'', ''virustotal''),
      (''tracker_catalog'', ''disconnect_tracking''), (''service_catalog'', ''adguard_services''), (''registration'', ''rdap''),
      (''dns_records'', ''dns_records''), (''network_routing'', ''ripestat''), (''domain_popularity'', ''cloudflare_radar''),
      (''archived_web_scan'', ''urlscan''), (''site_infrastructure'', ''netcraft''), (''malware_url_host'', ''urlhaus'')]"

text \<open>Dimension, side and strength of a verdict.\<close>

definition verdict_stances :: "(string \<times> string \<times> string \<times> pyfloat) list" where
  "verdict_stances =
     [(''malicious'', ''security'', ''harmful'', 1), (''phishing'', ''security'', ''harmful'', 1), (''malware'', ''security'', ''harmful'', 1),
      (''command_and_control'', ''security'', ''harmful'', 1), (''malicious_scan'', ''security'', ''harmful'', 85 / 100),
      (''suspicious'', ''security'', ''harmful'', 65 / 100), (''benign'', ''security'', ''safe'', 1), (''safe'', ''security'', ''safe'', 1),
      (''clean'', ''security'', ''safe'', 90 / 100), (''trusted'', ''security'', ''safe'', 90 / 100),
      (''advertising'', ''privacy'', ''tracking'', 90 / 100), (''analytics'', ''privacy'', ''tracking'', 85 / 100),
      (''cross_site_tracking'', ''privacy'', ''tracking'', 1), (''email_tracking'', ''privacy'', ''tracking'', 90 / 100),
      (''social_tracking'', ''privacy'', ''tracking'', 80 / 100), (''tracker'', ''privacy'', ''tracking'', 85 / 100),
      (''non_tracking'', ''privacy'', ''non_tracking'', 90 / 100), (''privacy_safe'', ''privacy'', ''non_tracking'', 1)]"

definition opposing_stances :: "(string \<times> string) list" where
  "opposing_stances = [(''harmful'', ''safe''), (''safe'', ''harmful''), (''tracking'', ''non_tracking''), (''non_tracking'', ''tracking'')]"

record quality_score =
  qz_source_kind :: string
  qz_source_score :: pyfloat
  qz_evidence_score :: pyfloat
  qz_tier :: string

record contradiction =
  ct_dimension :: string
  ct_left_provider :: string
  ct_left_verdict :: string
  ct_right_provider :: string
  ct_right_verdict :: string
  ct_severity :: string
  ct_confidence :: pyfloat
  ct_reason :: string

definition annotate_source_kind :: "research_finding \<Rightarrow> string \<Rightarrow> research_finding" where
  "annotate_source_kind f source_kind =
     (let n = py_lower (py_strip source_kind) in
      if n = [] \<or> map_of (rf_raw_data f) ''wormhole_source_kind'' \<noteq> None then f
      else f\<lparr>rf_raw_data := rf_raw_data f @ [(''wormhole_source_kind'', JStr n)]\<rparr>)"

definition source_kind_for :: "py_conv \<Rightarrow> research_finding \<Rightarrow> string" where
  "source_kind_for conv f =
     (let explicit = py_lower (py_strip (str_field conv [] (map_of (rf_raw_data f) ''wormhole_source_kind'')));
          kind = py_lower (py_strip (rf_kind f))
      in if explicit \<noteq> [] then explicit
         else case map_of evidence_kind_to_source_kind kind of Some k \<Rightarrow> k | None \<Rightarrow> str_or kind ''unknown'')"

definition clamp01 :: "pyfloat \<Rightarrow> pyfloat" where
  "clamp01 x = max 0 (min 1 x)"

definition quality_tier :: "pyfloat \<Rightarrow> string" where
  "quality_tier score =
     (if 9 / 10 \<le> score then ''very_high'' else if 8 / 10 \<le> score then ''high'' else if 65 / 100 \<le> score then ''medium'' else ''low'')"

definition score_finding :: "py_conv \<Rightarrow> int \<Rightarrow> research_finding \<Rightarrow> quality_score" where
  "score_finding conv now f =
     (let source_kind = source_kind_for conv f;
          source_score = (case map_of source_base_scores source_kind of Some x \<Rightarrow> x | None \<Rightarrow> 65 / 100);
          base = source_score * (65 / 100) + clamp01 (rf_confidence f) * (35 / 100);
          aged = (if 0 < rf_expires_at f \<and> rf_expires_at f < now then base * (75 / 100) else base);
          evidence_score = clamp01 aged
      in \<lparr>qz_source_kind = source_kind, qz_source_score = source_score, qz_evidence_score = evidence_score,
          qz_tier = quality_tier evidence_score\<rparr>)"

section \<open>Contradictions\<close>

definition contradiction_severity :: "pyfloat \<Rightarrow> string" where
  "contradiction_severity c = (if 8 / 10 \<le> c then ''high'' else if 6 / 10 \<le> c then ''medium'' else ''low'')"

text \<open>A finding that takes a side, with its dimension, side and strength.\<close>

type_synonym stance = "research_finding \<times> string \<times> string \<times> pyfloat"

definition finding_verdict :: "research_finding \<Rightarrow> string" where
  "finding_verdict f = py_lower (py_strip (str_or (rf_verdict f) ''unknown''))"

definition finding_provider :: "research_finding \<Rightarrow> string" where
  "finding_provider f = str_or (rf_provider f) ''Unknown source''"

definition stance_of :: "research_finding \<Rightarrow> stance option" where
  "stance_of f =
     (case map_of verdict_stances (py_lower (py_strip (rf_verdict f))) of
        None \<Rightarrow> None
      | Some (dimension, side, strength) \<Rightarrow>
          let signal = py_lower (py_strip (rf_signal_type f)) in
          if signal \<noteq> [] \<and> signal \<notin> {dimension, ''behavior''} then None else Some (f, dimension, side, strength))"

definition contradiction_key :: "stance \<Rightarrow> stance \<Rightarrow> string \<times> string list" where
  "contradiction_key l r =
     (case (l, r) of ((lf, dimension, _), (rf, _)) \<Rightarrow>
        (dimension, sort [py_lower (finding_provider lf) @ [CHR 0x00] @ finding_verdict lf,
                          py_lower (finding_provider rf) @ [CHR 0x00] @ finding_verdict rf]))"

definition opposes :: "stance \<Rightarrow> stance \<Rightarrow> bool" where
  "opposes l r = (case (l, r) of ((_, ld, ls, _), (_, rd, rs, _)) \<Rightarrow> ld = rd \<and> (ls, rs) \<in> set opposing_stances)"

definition contradiction_of :: "py_conv \<Rightarrow> int \<Rightarrow> stance \<Rightarrow> stance \<Rightarrow> contradiction" where
  "contradiction_of conv now l r =
     (case (l, r) of ((lf, dimension, _, lstrength), (rf, _, _, rstrength)) \<Rightarrow>
        let lp = finding_provider lf; rp = finding_provider rf; lv = finding_verdict lf; rv = finding_verdict rf;
            confidence = min (min (min (qz_evidence_score (score_finding conv now lf)) (qz_evidence_score (score_finding conv now rf)))
              lstrength) rstrength
        in \<lparr>ct_dimension = dimension, ct_left_provider = lp, ct_left_verdict = lv, ct_right_provider = rp, ct_right_verdict = rv,
            ct_severity = contradiction_severity confidence, ct_confidence = confidence,
            ct_reason = lp @ '' reports '' @ lv @ '', while '' @ rp @ '' reports '' @ rv @ ''.''\<rparr>)"

fun later_pairs :: "'a list \<Rightarrow> ('a \<times> 'a) list" where
  "later_pairs [] = []"
| "later_pairs (x # xs) = map (Pair x) xs @ later_pairs xs"

definition contradiction_step ::
  "py_conv \<Rightarrow> int \<Rightarrow> stance \<times> stance \<Rightarrow> (string \<times> string list) list \<times> contradiction list \<Rightarrow> (string \<times> string list) list \<times> contradiction list" where
  "contradiction_step conv now p st =
     (case (p, st) of ((l, r), (seen, out)) \<Rightarrow>
        let key = contradiction_key l r in
        if \<not> opposes l r \<or> key \<in> set seen then (seen, out) else (seen @ [key], out @ [contradiction_of conv now l r]))"

definition severity_rank :: "string \<Rightarrow> int" where
  "severity_rank s = (if s = ''high'' then 0 else if s = ''medium'' then 1 else 2)"

definition contradiction_order :: "contradiction \<Rightarrow> int \<times> pyfloat \<times> string \<times> string \<times> string" where
  "contradiction_order c =
     (severity_rank (ct_severity c), - ct_confidence c, ct_dimension c, py_lower (ct_left_provider c), py_lower (ct_right_provider c))"

definition detect_contradictions :: "py_conv \<Rightarrow> int \<Rightarrow> research_finding list \<Rightarrow> contradiction list" where
  "detect_contradictions conv now findings =
     (let candidates = List.map_filter stance_of findings in
      sort_key contradiction_order (snd (fold (contradiction_step conv now) (later_pairs candidates) ([], []))))"

definition round3 :: "pyfloat \<Rightarrow> pyfloat" where
  "round3 x = of_int (py_round (1000 * x)) / 1000"

record quality_totals =
  qt_average_source_score :: pyfloat
  qt_average_evidence_score :: pyfloat
  qt_high_quality_count :: nat
  qt_contradiction_count :: nat
  qt_high_severity_contradiction_count :: nat

definition quality_summary :: "py_conv \<Rightarrow> int \<Rightarrow> research_finding list \<Rightarrow> contradiction list option \<Rightarrow> quality_totals" where
  "quality_summary conv now findings contradictions =
     (let scores = map (score_finding conv now) findings;
          detected = (case contradictions of Some cs \<Rightarrow> cs | None \<Rightarrow> detect_contradictions conv now findings);
          average = (\<lambda>f. if scores = [] then 0 else rat_sum (map f scores) / of_nat (length scores))
      in \<lparr>qt_average_source_score = round3 (average qz_source_score), qt_average_evidence_score = round3 (average qz_evidence_score),
          qt_high_quality_count = length (filter (\<lambda>q. 8 / 10 \<le> qz_evidence_score q) scores),
          qt_contradiction_count = length detected,
          qt_high_severity_contradiction_count = length (filter (\<lambda>c. ct_severity c = ''high'') detected)\<rparr>)"

section \<open>Freshness\<close>

definition default_tag_max_age_hours :: "(string \<times> int) list" where
  "default_tag_max_age_hours =
     [(''advertising'', 72), (''cross_site_tracking'', 72), (''analytics'', 72), (''telemetry'', 72), (''crash_reporting'', 168),
      (''authentication'', 72), (''payments'', 48), (''api_backend'', 72), (''content_media'', 168), (''cdn_shared_infrastructure'', 168),
      (''software_updates'', 24), (''notifications_messaging'', 72), (''security_antifraud'', 12), (''iot_cloud'', 72), (''malware'', 6),
      (''phishing'', 6), (''command_and_control'', 6), (''unknown'', 24)]"

definition fallback_source_max_age_hours :: "(string \<times> int) list" where
  "fallback_source_max_age_hours =
     [(''adguard_services'', 24), (''dns_records'', 6), (''disconnect_tracking'', 24), (''rdap'', 168), (''ripestat'', 24),
      (''netcraft'', 168), (''virustotal'', 24), (''threatfox'', 6), (''phishtank'', 1), (''urlscan'', 12), (''cloudflare_radar'', 168),
      (''repository_lists'', 12), (''urlhaus'', 6), (''crtsh'', 24), (''google_safe_browsing'', 6), (''compatibility_profile'', 8760)]"

record freshness_context =
  fx_domain :: string
  fx_tags :: "string list"
  fx_global_max_age_hours :: int
  fx_provider_hours :: "(string, int) dict"
  fx_provider_kinds :: "(string, string) dict"
  fx_tag_max_age_hours :: "(string \<times> int) list"

record freshness_decision =
  fd_source_kind :: string
  fd_source_max_age_hours :: int
  fd_tag_max_age_hours :: "int option"
  fd_matched_tags :: "string list"
  fd_effective_max_age_seconds :: int
  fd_effective_expires_at :: int
  fd_original_expires_at :: int

definition provider_key :: "string \<Rightarrow> string" where
  "provider_key v = py_join '' '' (py_words (py_lower (py_strip v)))"

text \<open>\<open>_effective_domain_tags\<close>: the tags of the strongest source that has any; \<open>rows\<close> in the order of the query.\<close>

definition tags_of_source :: "string \<Rightarrow> tag_row list \<Rightarrow> string list" where
  "tags_of_source source rows =
     filter (\<lambda>t. t \<noteq> []) (map (\<lambda>r. py_replace (CHR '' '') (CHR ''_'') (py_lower (py_strip (dt_tag r))))
       (filter (\<lambda>r. py_lower (py_strip (dt_source r)) = source) rows))"

definition effective_domain_tags :: "string \<Rightarrow> db \<Rightarrow> string list" where
  "effective_domain_tags domain s =
     (let rows = domain_tags domain s;
          known = map (\<lambda>src. tags_of_source src rows) [''manual'', ''llm'', ''current''];
          sources = fromkeys (map (\<lambda>r. py_lower (py_strip (dt_source r))) rows)
      in if normalize_domain domain = [] then []
         else fromkeys (case List.find (\<lambda>ts. ts \<noteq> []) known of
           Some ts \<Rightarrow> ts | None \<Rightarrow> concat (map (\<lambda>src. tags_of_source src rows) sources)))"

record research_provider =
  rp_name :: string
  rp_kind :: string
  rp_refresh_interval_hours :: int

definition build_freshness_context :: "research_provider list \<Rightarrow> string \<Rightarrow> int \<Rightarrow> db \<Rightarrow> freshness_context" where
  "build_freshness_context providers domain default_max_age_days s =
     (let named = filter (\<lambda>p. provider_key (rp_name p) \<noteq> []) providers in
      \<lparr>fx_domain = normalize_domain domain, fx_tags = effective_domain_tags domain s,
       fx_global_max_age_hours = max 1 default_max_age_days * 24,
       fx_provider_hours = dict_of (map (\<lambda>p. (provider_key (rp_name p), max 1 (rp_refresh_interval_hours p))) named),
       fx_provider_kinds = dict_of (map (\<lambda>p. (provider_key (rp_name p), py_lower (py_strip (rp_kind p)))) named),
       fx_tag_max_age_hours = default_tag_max_age_hours\<rparr>)"

definition freshness_source_kind :: "py_conv \<Rightarrow> freshness_context \<Rightarrow> research_finding \<Rightarrow> string" where
  "freshness_source_kind conv ctx f =
     (let explicit = py_lower (py_strip (str_field conv [] (map_of (rf_raw_data f) ''wormhole_source_kind''))) in
      if explicit \<noteq> [] then explicit
      else case map_of (fx_provider_kinds ctx) (provider_key (rf_provider f)) of
        Some k \<Rightarrow> if k \<noteq> [] then k else py_lower (py_strip (str_or (rf_kind f) ''unknown''))
      | None \<Rightarrow> py_lower (py_strip (str_or (rf_kind f) ''unknown'')))"

definition source_hours :: "freshness_context \<Rightarrow> string \<Rightarrow> string \<Rightarrow> int" where
  "source_hours ctx provider source_kind =
     max 1 (case map_of (fx_provider_hours ctx) (provider_key provider) of
        Some h \<Rightarrow> h
      | None \<Rightarrow> (case map_of fallback_source_max_age_hours source_kind of Some h \<Rightarrow> h | None \<Rightarrow> fx_global_max_age_hours ctx))"

definition tag_ceiling :: "freshness_context \<Rightarrow> string \<Rightarrow> int option \<times> string list" where
  "tag_ceiling ctx source_kind =
     (let matches = filter (\<lambda>t. map_of (fx_tag_max_age_hours ctx) t \<noteq> None) (fx_tags ctx) in
      if source_kind = ''compatibility_profile'' \<or> matches = [] then (None, [])
      else (Some (py_min 0 (List.map_filter (map_of (fx_tag_max_age_hours ctx)) matches)), matches))"

definition freshness_decision_for_finding :: "py_conv \<Rightarrow> int \<Rightarrow> freshness_context \<Rightarrow> research_finding \<Rightarrow> freshness_decision" where
  "freshness_decision_for_finding conv now ctx f =
     (let retrieved_at = max 0 (if rf_retrieved_at f = 0 then now else rf_retrieved_at f);
          source_kind = freshness_source_kind conv ctx f;
          hours = source_hours ctx (rf_provider f) source_kind;
          (tag_hours, matched) = tag_ceiling ctx source_kind;
          effective_hours = min hours (case tag_hours of Some h \<Rightarrow> h | None \<Rightarrow> hours);
          policy_expires_at = retrieved_at + effective_hours * 3600;
          original = max 0 (rf_expires_at f)
      in \<lparr>fd_source_kind = source_kind, fd_source_max_age_hours = hours, fd_tag_max_age_hours = tag_hours,
          fd_matched_tags = matched, fd_effective_max_age_seconds = effective_hours * 3600,
          fd_effective_expires_at = (if 0 < original then min original policy_expires_at else policy_expires_at),
          fd_original_expires_at = original\<rparr>)"

definition freshness_payload :: "freshness_decision \<Rightarrow> json" where
  "freshness_payload d = JObj
     [(''policy_version'', JInt 1), (''source_kind'', JStr (fd_source_kind d)),
      (''source_max_age_hours'', JInt (fd_source_max_age_hours d)),
      (''tag_max_age_hours'', case fd_tag_max_age_hours d of None \<Rightarrow> JNull | Some h \<Rightarrow> JInt h),
      (''matched_tags'', JList (map JStr (fd_matched_tags d))),
      (''effective_max_age_seconds'', JInt (fd_effective_max_age_seconds d)),
      (''effective_expires_at'', JInt (fd_effective_expires_at d)), (''original_expires_at'', JInt (fd_original_expires_at d)),
      (''rule'', JStr ''minimum of provider expiry, source refresh interval, and tag ceiling'')]"

definition apply_freshness_policy :: "py_conv \<Rightarrow> int \<Rightarrow> freshness_context \<Rightarrow> research_finding \<Rightarrow> research_finding" where
  "apply_freshness_policy conv now ctx f =
     (let d = freshness_decision_for_finding conv now ctx f in
      f\<lparr>rf_retrieved_at := (if rf_retrieved_at f = 0 then now else rf_retrieved_at f), rf_expires_at := fd_effective_expires_at d,
        rf_raw_data := AList.update ''freshness_policy'' (freshness_payload d) (rf_raw_data f)\<rparr>)"

text \<open>The loop of \<open>apply_freshness_policies\<close> with its cache of contexts.\<close>

definition freshness_step ::
  "py_conv \<Rightarrow> int \<Rightarrow> (string \<Rightarrow> freshness_context) \<Rightarrow> research_finding \<Rightarrow> (string, freshness_context) dict \<times> research_finding list \<Rightarrow>
    (string, freshness_context) dict \<times> research_finding list" where
  "freshness_step conv now build f st =
     (case st of (contexts, out) \<Rightarrow>
        let domain = normalize_domain (rf_domain f) in
        case map_of contexts domain of
          Some ctx \<Rightarrow> (contexts, out @ [apply_freshness_policy conv now ctx f])
        | None \<Rightarrow> let ctx = build domain in (AList.update domain ctx contexts, out @ [apply_freshness_policy conv now ctx f]))"

definition apply_freshness_policies ::
  "py_conv \<Rightarrow> int \<Rightarrow> research_provider list \<Rightarrow> int \<Rightarrow> db \<Rightarrow> research_finding list \<Rightarrow> research_finding list" where
  "apply_freshness_policies conv now providers days s findings =
     snd (fold (freshness_step conv now (\<lambda>d. build_freshness_context providers d days s)) findings ([], []))"

definition finding_of_row :: "freshness_context \<Rightarrow> finding_row \<Rightarrow> research_finding" where
  "finding_of_row ctx r =
     \<lparr>rf_domain = str_or (fr_domain r) (fx_domain ctx), rf_provider = fr_provider r, rf_kind = str_or (fr_kind r) ''context'',
      rf_title = fr_title r, rf_summary = fr_summary r, rf_source_url = fr_source_url r, rf_confidence = fr_confidence r,
      rf_signal_type = str_or (fr_signal_type r) ''context'', rf_verdict = str_or (fr_verdict r) ''unknown'',
      rf_decision_relevant = fr_decision_relevant r, rf_retrieved_at = fr_retrieved_at r, rf_expires_at = fr_expires_at r,
      rf_raw_data = fr_raw_data r\<rparr>"

definition row_is_fresh :: "py_conv \<Rightarrow> int \<Rightarrow> freshness_context \<Rightarrow> int \<Rightarrow> finding_row \<Rightarrow> bool" where
  "row_is_fresh conv clock ctx now r \<longleftrightarrow> now < fd_effective_expires_at (freshness_decision_for_finding conv clock ctx (finding_of_row ctx r))"

section \<open>Scores\<close>

lemma clamp01_bounds: "0 \<le> clamp01 x" "clamp01 x \<le> 1" "0 \<le> x \<Longrightarrow> x \<le> 1 \<Longrightarrow> clamp01 x = x"
  by (auto simp: clamp01_def)

lemma score_bounds: "0 \<le> qz_evidence_score (score_finding conv now f)" "qz_evidence_score (score_finding conv now f) \<le> 1"
  by (simp_all add: score_finding_def Let_def clamp01_bounds)

lemma stance_strength: "stance_of f = Some (g, dimension, side, x) \<Longrightarrow> g = f \<and> 0 \<le> x \<and> x \<le> 1"
proof -
  assume a: "stance_of f = Some (g, dimension, side, x)"
  have "list_all (\<lambda>(_, _, _, x). 0 \<le> x \<and> x \<le> 1) verdict_stances" by code_simp
  with a show ?thesis
    by (auto simp: stance_of_def Let_def list_all_iff dest!: map_of_SomeD split: option.splits if_splits prod.splits)
qed

section \<open>Contradictions are complete and reported once\<close>

lemma ordered_pair_Cons:
  "(\<exists>i j. i < j \<and> j < length (a # xs) \<and> P ((a # xs) ! i) ((a # xs) ! j)) \<longleftrightarrow>
   (\<exists>y\<in>set xs. P a y) \<or> (\<exists>i j. i < j \<and> j < length xs \<and> P (xs ! i) (xs ! j))" (is "?l \<longleftrightarrow> ?r")
proof
  assume ?l
  then obtain i j where "i < j" "j < length (a # xs)" "P ((a # xs) ! i) ((a # xs) ! j)" by blast
  then show ?r by (cases i; cases j) (auto dest: nth_mem)
next
  assume ?r
  then show ?l
  proof
    assume "\<exists>y\<in>set xs. P a y"
    then obtain j where "j < length xs" "P a (xs ! j)" by (auto simp: in_set_conv_nth)
    then show ?l by (intro exI [of _ 0] exI [of _ "Suc j"]) simp
  next
    assume "\<exists>i j. i < j \<and> j < length xs \<and> P (xs ! i) (xs ! j)"
    then obtain i j where "i < j" "j < length xs" "P (xs ! i) (xs ! j)" by blast
    then show ?l by (intro exI [of _ "Suc i"] exI [of _ "Suc j"]) simp
  qed
qed

lemma map_filter_simps2: "List.map_filter g [] = []"
  "List.map_filter g (x # xs) = (case g x of None \<Rightarrow> List.map_filter g xs | Some y \<Rightarrow> y # List.map_filter g xs)"
  by (simp_all add: List.map_filter_def split: option.splits)

lemma set_map_filter_iff: "y \<in> set (List.map_filter g xs) \<longleftrightarrow> (\<exists>x\<in>set xs. g x = Some y)"
  by (induction xs) (auto simp: map_filter_simps2 split: option.splits)

lemma later_pairs_map_filter:
  "(a, b) \<in> set (later_pairs (List.map_filter g xs)) \<longleftrightarrow>
   (\<exists>i j. i < j \<and> j < length xs \<and> g (xs ! i) = Some a \<and> g (xs ! j) = Some b)"
proof (induction xs)
  case (Cons x xs)
  show ?case
    unfolding ordered_pair_Cons [of x xs "\<lambda>u v. g u = Some a \<and> g v = Some b"] Cons [symmetric]
    by (auto simp: map_filter_simps2 set_map_filter_iff image_iff split: option.splits)
qed (simp add: map_filter_simps2)

text \<open>The loop keeps, for every key, the first opposing pair with that key.\<close>

definition pair_key :: "stance \<times> stance \<Rightarrow> string \<times> string list" where
  "pair_key p = contradiction_key (fst p) (snd p)"

definition pair_report :: "py_conv \<Rightarrow> int \<Rightarrow> stance \<times> stance \<Rightarrow> contradiction" where
  "pair_report conv now p = contradiction_of conv now (fst p) (snd p)"

definition report_step :: "stance \<times> stance \<Rightarrow> (stance \<times> stance) list \<Rightarrow> (stance \<times> stance) list" where
  "report_step p acc = (if \<not> opposes (fst p) (snd p) \<or> pair_key p \<in> set (map pair_key acc) then acc else acc @ [p])"

lemma contradiction_step_report:
  "contradiction_step conv now p (map pair_key acc, map (pair_report conv now) acc) =
    (map pair_key (report_step p acc), map (pair_report conv now) (report_step p acc))"
  by (cases p) (auto simp: contradiction_step_def report_step_def pair_key_def pair_report_def Let_def)

lemma contradiction_fold:
  "fold (contradiction_step conv now) ps (map pair_key acc, map (pair_report conv now) acc) =
    (map pair_key (fold report_step ps acc), map (pair_report conv now) (fold report_step ps acc))"
  by (induction ps arbitrary: acc) (simp_all add: contradiction_step_report)

definition reported_pairs :: "research_finding list \<Rightarrow> (stance \<times> stance) list" where
  "reported_pairs fs = fold report_step (later_pairs (List.map_filter stance_of fs)) []"

lemma detect_contradictions_eq:
  "detect_contradictions conv now fs = sort_key contradiction_order (map (pair_report conv now) (reported_pairs fs))"
  using contradiction_fold [of conv now "later_pairs (List.map_filter stance_of fs)" "[]"]
  by (simp add: detect_contradictions_def reported_pairs_def Let_def)

lemma report_fold_distinct: "distinct (map pair_key acc) \<Longrightarrow> distinct (map pair_key (fold report_step ps acc))"
  by (induction ps arbitrary: acc) (auto simp: report_step_def)

lemma report_fold_sub: "set (fold report_step ps acc) \<subseteq> set acc \<union> {p \<in> set ps. opposes (fst p) (snd p)}"
proof (induction ps arbitrary: acc)
  case (Cons p ps)
  show ?case using Cons [of "report_step p acc"] by (auto simp: report_step_def split: if_splits)
qed simp

lemma report_fold_mono: "pair_key ` set acc \<subseteq> pair_key ` set (fold report_step ps acc)"
proof (induction ps arbitrary: acc)
  case (Cons p ps)
  show ?case using Cons [of "report_step p acc"] by (auto simp: report_step_def split: if_splits)
qed simp

lemma report_fold_covers:
  "p \<in> set ps \<Longrightarrow> opposes (fst p) (snd p) \<Longrightarrow> pair_key p \<in> pair_key ` set (fold report_step ps acc)"
proof (induction ps arbitrary: acc)
  case (Cons q ps)
  have "pair_key q \<in> pair_key ` set (report_step q acc)" if "opposes (fst q) (snd q)"
    using that by (auto simp: report_step_def)
  then show ?case using Cons report_fold_mono [of "report_step q acc" ps] by (cases "p = q") auto
qed simp

lemma reported_pairs_iff:
  "p \<in> set (reported_pairs fs) \<Longrightarrow> opposes (fst p) (snd p) \<and>
    (\<exists>i j. i < j \<and> j < length fs \<and> stance_of (fs ! i) = Some (fst p) \<and> stance_of (fs ! j) = Some (snd p))"
  using report_fold_sub [of "later_pairs (List.map_filter stance_of fs)" "[]"]
    later_pairs_map_filter [of "fst p" "snd p" stance_of fs] by (auto simp: reported_pairs_def)

text \<open>The key of a contradiction, read off the report.\<close>

definition report_key :: "contradiction \<Rightarrow> string \<times> string list" where
  "report_key c = (ct_dimension c, sort [py_lower (ct_left_provider c) @ [CHR 0x00] @ ct_left_verdict c,
     py_lower (ct_right_provider c) @ [CHR 0x00] @ ct_right_verdict c])"

lemma report_key_of: "report_key (contradiction_of conv now l r) = contradiction_key l r"
  by (cases l; cases r) (simp add: report_key_def contradiction_of_def contradiction_key_def Let_def)

lemma report_key_pair: "report_key (pair_report conv now p) = pair_key p"
  by (simp add: pair_report_def pair_key_def report_key_of)

lemma report_confidence:
  "p \<in> set (reported_pairs fs) \<Longrightarrow> 0 \<le> ct_confidence (pair_report conv now p) \<and> ct_confidence (pair_report conv now p) \<le> 1"
proof -
  assume p: "p \<in> set (reported_pairs fs)"
  obtain lf ld ls lx rf rd rs rx where e: "p = ((lf, ld, ls, lx), (rf, rd, rs, rx))" by (metis prod_cases4 surj_pair)
  from reported_pairs_iff [OF p] have "0 \<le> lx" "lx \<le> 1" "0 \<le> rx" "rx \<le> 1"
    by (auto simp: e dest!: stance_strength)
  then show ?thesis using score_bounds [of conv now lf] score_bounds [of conv now rf]
    by (simp add: e pair_report_def contradiction_of_def Let_def min_def)
qed

section \<open>Freshness\<close>

lemma source_hours_pos: "1 \<le> source_hours ctx p k"
  by (simp add: source_hours_def)

lemma default_tag_hours_pos: "map_of default_tag_max_age_hours t = Some h \<Longrightarrow> 0 < h"
proof -
  have "list_all (\<lambda>(_, h). 0 < h) default_tag_max_age_hours" by code_simp
  then show "map_of default_tag_max_age_hours t = Some h \<Longrightarrow> 0 < h"
    by (auto simp: list_all_iff dest!: map_of_SomeD)
qed

text \<open>The hours that bound the age of a finding: the source's interval and the ceiling of every tag that has one.\<close>

definition age_limits :: "freshness_context \<Rightarrow> string \<Rightarrow> string \<Rightarrow> int set" where
  "age_limits ctx provider kind = insert (source_hours ctx provider kind)
     (if kind = ''compatibility_profile'' then {} else {h. \<exists>t\<in>set (fx_tags ctx). map_of (fx_tag_max_age_hours ctx) t = Some h})"

lemma finite_age_limits: "finite (age_limits ctx p k)"
proof -
  have "{h. \<exists>t\<in>set (fx_tags ctx). map_of (fx_tag_max_age_hours ctx) t = Some h} \<subseteq>
      (the \<circ> map_of (fx_tag_max_age_hours ctx)) ` set (fx_tags ctx)" by (auto simp: image_iff) force
  then show ?thesis by (simp add: age_limits_def finite_subset)
qed

lemma effective_hours_Min:
  "min (source_hours ctx p k) (case fst (tag_ceiling ctx k) of Some h \<Rightarrow> h | None \<Rightarrow> source_hours ctx p k) = Min (age_limits ctx p k)"
proof -
  let ?T = "{h. \<exists>t\<in>set (fx_tags ctx). map_of (fx_tag_max_age_hours ctx) t = Some h}"
  let ?m = "filter (\<lambda>t. map_of (fx_tag_max_age_hours ctx) t \<noteq> None) (fx_tags ctx)"
  let ?hs = "List.map_filter (map_of (fx_tag_max_age_hours ctx)) ?m"
  have hs: "set ?hs = ?T" by (auto simp: set_map_filter_iff) blast
  have ne: "?hs = [] \<longleftrightarrow> ?m = []"
    by (auto simp: List.map_filter_def filter_empty_conv)
  have fin: "finite ?T" using hs by (metis List.finite_set)
  show ?thesis
  proof (cases "k = ''compatibility_profile'' \<or> ?m = []")
    case True
    then have "k = ''compatibility_profile'' \<or> ?T = {}" using hs ne by auto
    then show ?thesis using True by (auto simp: tag_ceiling_def age_limits_def Let_def)
  next
    case False
    then have n: "?hs \<noteq> []" using ne by blast
    then have "?T \<noteq> {}" "py_min 0 ?hs = Min ?T" using hs by (metis set_empty, simp add: py_min_eq)
    then show ?thesis using False fin
      by (simp add: tag_ceiling_def age_limits_def Let_def Min_insert)
  qed
qed

lemma effective_expiry:
  "fd_effective_expires_at (freshness_decision_for_finding conv now ctx f) =
    (let stale = max 0 (if rf_retrieved_at f = 0 then now else rf_retrieved_at f) +
           Min (age_limits ctx (rf_provider f) (freshness_source_kind conv ctx f)) * 3600
     in if 0 < rf_expires_at f then min (rf_expires_at f) stale else stale)"
  by (auto simp: freshness_decision_for_finding_def Let_def effective_hours_Min [symmetric] split: prod.splits)

lemma freshness_kind_applied:
  "freshness_source_kind conv ctx (apply_freshness_policy conv now ctx f) = freshness_source_kind conv ctx f"
  by (simp add: apply_freshness_policy_def freshness_source_kind_def Let_def update_conv split: option.splits)

lemma applied_fields:
  "rf_provider (apply_freshness_policy conv now ctx f) = rf_provider f"
  "rf_retrieved_at (apply_freshness_policy conv now ctx f) = (if rf_retrieved_at f = 0 then now else rf_retrieved_at f)"
  "rf_expires_at (apply_freshness_policy conv now ctx f) = fd_effective_expires_at (freshness_decision_for_finding conv now ctx f)"
  by (simp_all add: apply_freshness_policy_def Let_def)

lemma freshness_fold:
  assumes "\<forall>d c. map_of contexts d = Some c \<longrightarrow> c = build d"
  shows "snd (fold (freshness_step conv now build) fs (contexts, out)) =
    out @ map (\<lambda>f. apply_freshness_policy conv now (build (normalize_domain (rf_domain f))) f) fs"
  using assms
proof (induction fs arbitrary: contexts out)
  case (Cons f fs)
  show ?case
  proof (cases "map_of contexts (normalize_domain (rf_domain f))")
    case None
    let ?d = "normalize_domain (rf_domain f)"
    have "\<forall>d c. map_of (AList.update ?d (build ?d) contexts) d = Some c \<longrightarrow> c = build d"
      using Cons.prems by (simp add: update_conv)
    from Cons.IH [OF this] show ?thesis using None by (simp add: freshness_step_def Let_def)
  next
    case (Some c)
    then have "c = build (normalize_domain (rf_domain f))" using Cons.prems by blast
    with Some show ?thesis using Cons.IH [OF Cons.prems] by (simp add: freshness_step_def Let_def)
  qed
qed simp

section \<open>Properties\<close>

text \<open>C31. The contradictions that \<open>detect_contradictions\<close> reports are exactly the disagreements between
  the findings: every report comes from two findings, in their order, that take opposite sides of one
  dimension; every such pair is reported under its key (dimension and the two source/verdict
  sides); no key is reported twice; every confidence is between 0 and 1; and the list is
  ordered by severity, then by falling confidence, dimension and sources.\<close>

theorem contradictions_exact:
  "sorted (map contradiction_order (detect_contradictions conv now fs)) \<and>
   distinct (map report_key (detect_contradictions conv now fs)) \<and>
   (\<forall>c\<in>set (detect_contradictions conv now fs). 0 \<le> ct_confidence c \<and> ct_confidence c \<le> 1 \<and>
      (\<exists>i j l r. i < j \<and> j < length fs \<and> stance_of (fs ! i) = Some l \<and> stance_of (fs ! j) = Some r \<and> opposes l r \<and>
         c = contradiction_of conv now l r)) \<and>
   (\<forall>i j l r. i < j \<and> j < length fs \<and> stance_of (fs ! i) = Some l \<and> stance_of (fs ! j) = Some r \<and> opposes l r \<longrightarrow>
      contradiction_key l r \<in> report_key ` set (detect_contradictions conv now fs))"
proof (intro conjI ballI allI impI)
  have set_eq: "set (detect_contradictions conv now fs) = pair_report conv now ` set (reported_pairs fs)"
    by (simp add: detect_contradictions_eq)
  show "sorted (map contradiction_order (detect_contradictions conv now fs))"
    by (simp add: detect_contradictions_eq)
  have "distinct (map report_key (map (pair_report conv now) (reported_pairs fs)))"
    using report_fold_distinct [of "[]"] by (simp add: reported_pairs_def comp_def report_key_pair)
  then show "distinct (map report_key (detect_contradictions conv now fs))"
    unfolding detect_contradictions_eq distinct_map_sort_key .
  fix c assume c: "c \<in> set (detect_contradictions conv now fs)"
  then obtain p where p: "p \<in> set (reported_pairs fs)" "c = pair_report conv now p" by (auto simp: set_eq)
  show "0 \<le> ct_confidence c" "ct_confidence c \<le> 1" using report_confidence [OF p(1)] by (simp_all add: p(2))
  show "\<exists>i j l r. i < j \<and> j < length fs \<and> stance_of (fs ! i) = Some l \<and> stance_of (fs ! j) = Some r \<and> opposes l r \<and>
      c = contradiction_of conv now l r"
    using reported_pairs_iff [OF p(1)] p(2) unfolding pair_report_def by blast
next
  fix i j l r
  assume a: "i < j \<and> j < length fs \<and> stance_of (fs ! i) = Some l \<and> stance_of (fs ! j) = Some r \<and> opposes l r"
  then have "(l, r) \<in> set (later_pairs (List.map_filter stance_of fs))" by (auto simp: later_pairs_map_filter)
  from report_fold_covers [OF this, of "[]"] a have "pair_key (l, r) \<in> pair_key ` set (reported_pairs fs)"
    by (simp add: reported_pairs_def)
  then show "contradiction_key l r \<in> report_key ` set (detect_contradictions conv now fs)"
    by (force simp: detect_contradictions_eq report_key_pair image_image pair_key_def [of "(l, r)"])
qed

text \<open>A finding expires at the earliest of: its own expiry where it has one, the refresh interval of
  its source after its retrieval, and, unless it is a compatibility profile, the age ceiling of every tag of its domain
  after its retrieval; and that moment is what the stored finding carries.\<close>

theorem freshness_expiry_is_minimum:
  "rf_expires_at (apply_freshness_policy conv now ctx f) =
     (let kind = freshness_source_kind conv ctx f;
          retrieved = max 0 (if rf_retrieved_at f = 0 then now else rf_retrieved_at f);
          hours = insert (source_hours ctx (rf_provider f) kind)
            {h. kind \<noteq> ''compatibility_profile'' \<and> (\<exists>t\<in>set (fx_tags ctx). map_of (fx_tag_max_age_hours ctx) t = Some h)}
      in Min ((\<lambda>h. retrieved + h * 3600) ` hours \<union> (if 0 < rf_expires_at f then {rf_expires_at f} else {})))"
proof -
  let ?k = "freshness_source_kind conv ctx f"
  let ?r = "max 0 (if rf_retrieved_at f = 0 then now else rf_retrieved_at f)"
  let ?L = "age_limits ctx (rf_provider f) ?k"
  have L: "insert (source_hours ctx (rf_provider f) ?k)
      {h. ?k \<noteq> ''compatibility_profile'' \<and> (\<exists>t\<in>set (fx_tags ctx). map_of (fx_tag_max_age_hours ctx) t = Some h)} = ?L"
    by (auto simp: age_limits_def)
  have ne: "?L \<noteq> {}" by (simp add: age_limits_def)
  have "mono (\<lambda>h. ?r + h * 3600)" by (simp add: mono_def)
  from mono_Min_commute [OF this finite_age_limits ne]
  have m: "Min ((\<lambda>h. ?r + h * 3600) ` ?L) = ?r + Min ?L * 3600" by simp
  have "Min (insert x ((\<lambda>h. ?r + h * 3600) ` ?L)) = min x (?r + Min ?L * 3600)" for x
    unfolding m [symmetric] using ne finite_age_limits by (intro Min_insert) simp_all
  then show ?thesis unfolding Let_def L using m by (simp add: applied_fields effective_expiry Let_def)
qed

text \<open>Freshness is never extended: applying the policy again, at any later clock, to a finding that already
  went through it leaves its expiry as it is.\<close>

theorem freshness_never_extended:
  assumes "0 < now"
  shows "rf_expires_at (apply_freshness_policy conv later (build_freshness_context providers domain days s)
       (apply_freshness_policy conv now (build_freshness_context providers domain days s) f)) =
     rf_expires_at (apply_freshness_policy conv now (build_freshness_context providers domain days s) f)"
proof -
  let ?c = "build_freshness_context providers domain days s"
  let ?L = "age_limits ?c (rf_provider f) (freshness_source_kind conv ?c f)"
  have "\<forall>h\<in>?L. 0 < h"
    using source_hours_pos [of ?c] default_tag_hours_pos
    by (auto simp: age_limits_def build_freshness_context_def Let_def intro: less_le_trans [OF zero_less_one])
  moreover have "Min ?L \<in> ?L" using finite_age_limits by (rule Min_in) (simp add: age_limits_def)
  ultimately have "0 < Min ?L" by blast
  then have "0 < max 0 t + Min ?L * 3600" for t by (simp add: add_nonneg_pos)
  then show ?thesis using assms
    by (simp add: applied_fields effective_expiry freshness_kind_applied Let_def)
qed

text \<open>The cache of contexts in \<open>apply_freshness_policies\<close> changes nothing: the result is every finding, in order, with the
  policy of a context built for its own domain.\<close>

theorem freshness_cache_transparent:
  "apply_freshness_policies conv now providers days s fs =
     map (\<lambda>f. apply_freshness_policy conv now (build_freshness_context providers (normalize_domain (rf_domain f)) days s) f) fs"
  unfolding apply_freshness_policies_def by (subst freshness_fold) simp_all

definition ex_finding :: "string \<Rightarrow> string \<Rightarrow> string \<Rightarrow> research_finding" where
  "ex_finding provider kind verdict =
     \<lparr>rf_domain = ''a.com'', rf_provider = provider, rf_kind = kind, rf_title = [], rf_summary = [], rf_source_url = [],
      rf_confidence = 9 / 10, rf_signal_type = [], rf_verdict = verdict, rf_decision_relevant = True, rf_retrieved_at = 0,
      rf_expires_at = 0, rf_raw_data = []\<rparr>"

definition ex_evidence :: "research_finding list" where
  "ex_evidence = [ex_finding ''PhishTank'' ''phishing_database'' ''phishing'', ex_finding ''Radar'' ''domain_popularity'' ''clean'']"

lemma contradictions_exact_witness:
  "(\<exists>l r. stance_of (ex_evidence ! 0) = Some l \<and> stance_of (ex_evidence ! 1) = Some r \<and> opposes l r \<and>
     contradiction_key l r \<in> report_key ` set (detect_contradictions ex_conv 1000 ex_evidence)) \<and>
   sorted (map contradiction_order (detect_contradictions ex_conv 1000 ex_evidence))"
proof -
  have "\<exists>l r. stance_of (ex_evidence ! 0) = Some l \<and> stance_of (ex_evidence ! 1) = Some r \<and> opposes l r"
    by (simp add: ex_evidence_def ex_finding_def stance_of_def verdict_stances_def opposes_def opposing_stances_def py_lower_def
        py_lower_char_def py_strip_def lstrip_by_def rstrip_by_def py_isspace_def of_char_def)
  then obtain l r where lr: "stance_of (ex_evidence ! 0) = Some l \<and> stance_of (ex_evidence ! 1) = Some r \<and> opposes l r" by blast
  moreover have "(0::nat) < 1 \<and> 1 < length ex_evidence" by (simp add: ex_evidence_def)
  ultimately show ?thesis using contradictions_exact [of ex_conv 1000 ex_evidence] by blast
qed

lemma freshness_never_extended_witness:
  "rf_expires_at (apply_freshness_policy ex_conv 9000 (build_freshness_context [] ''a.com'' 30 empty_db)
       (apply_freshness_policy ex_conv 1000 (build_freshness_context [] ''a.com'' 30 empty_db) (ex_finding ''RDAP'' ''rdap'' []))) =
   1000 + 168 * 3600"
proof -
  have "rf_expires_at (apply_freshness_policy ex_conv 1000 (build_freshness_context [] ''a.com'' 30 empty_db) (ex_finding ''RDAP'' ''rdap'' [])) =
      1000 + 168 * 3600" by code_simp
  then show ?thesis
    using freshness_never_extended [of 1000 ex_conv 9000 "[]" "''a.com''" 30 empty_db "ex_finding ''RDAP'' ''rdap'' []"] by simp
qed

end
