(* ===== verification/Config.thy ===== *)
theory Config
  imports Llm
begin

text \<open>
  \<open>pihole_manager/config.py\<close>, the data: the option dataclasses with their defaults, the tolerant
  conversions \<open>_as_int\<close>, \<open>_as_float\<close> and \<open>_as_bool\<close>, and the loaders that turn parsed JSON into
  dataclass instances.

  A dataclass instance is the dictionary of its fields in declaration order (what \<open>asdict\<close>
  returns); before validation a field may hold any JSON value, as the attribute does in Python.
  \<open>conv\<close> holds the parts of \<open>str\<close> and \<open>float\<close> that are not modelled (\<open>str\<close> of containers and floats,
  parsing of decimal floats).
\<close>

section \<open>Conversions\<close>

text \<open>\<open>int(s)\<close>: white space around, a sign, digits with single underscores between them, at most 4300 of them.\<close>

definition c_isspace :: "char \<Rightarrow> bool" where
  "c_isspace c = (let n = (of_char c :: nat) in (9 \<le> n \<and> n \<le> 13) \<or> n = 32)"

definition digit_value :: "char \<Rightarrow> int" where
  "digit_value c = int (of_char c) - 48"

fun more_digits :: "int \<Rightarrow> string \<Rightarrow> int option" where
  "more_digits acc [] = Some acc"
| "more_digits acc (c # cs) =
     (if py_isdigit c then more_digits (acc * 10 + digit_value c) cs
      else case cs of
        d # ds \<Rightarrow> if c = CHR ''_'' \<and> py_isdigit d then more_digits (acc * 10 + digit_value d) ds else None
      | [] \<Rightarrow> None)"

definition unsigned_int :: "string \<Rightarrow> int option" where
  "unsigned_int s =
     (case s of
        c # cs \<Rightarrow> if py_isdigit c \<and> int (length (filter py_isdigit s)) \<le> 4300 then more_digits (digit_value c) cs else None
      | [] \<Rightarrow> None)"

definition py_int_of_str :: "string \<Rightarrow> int option" where
  "py_int_of_str s =
     (let t = rstrip_by c_isspace (lstrip_by c_isspace s) in
      case t of
        c # cs \<Rightarrow> if c = CHR ''-'' then map_option uminus (unsigned_int cs) else if c = CHR ''+'' then unsigned_int cs else unsigned_int t
      | [] \<Rightarrow> None)"

text \<open>\<open>int(value)\<close>; \<^const>\<open>None\<close> is \<open>TypeError\<close> or \<open>ValueError\<close>.\<close>

fun py_int_of :: "json \<Rightarrow> int option" where
  "py_int_of (JBool b) = Some (if b then 1 else 0)"
| "py_int_of (JInt i) = Some i"
| "py_int_of (JFloat x) = Some (py_int x)"
| "py_int_of (JStr s) = py_int_of_str s"
| "py_int_of _ = None"

definition as_int :: "json \<Rightarrow> int \<Rightarrow> int" where
  "as_int v d = (case py_int_of v of Some i \<Rightarrow> i | None \<Rightarrow> d)"

definition as_float :: "py_conv \<Rightarrow> json \<Rightarrow> pyfloat \<Rightarrow> pyfloat" where
  "as_float conv v d = (case py_float conv (Some v) of Some x \<Rightarrow> x | None \<Rightarrow> d)"

definition cfg_as_bool :: "json \<Rightarrow> bool \<Rightarrow> bool" where
  "cfg_as_bool v d =
     (case v of
        JBool b \<Rightarrow> b
      | JInt i \<Rightarrow> i \<noteq> 0
      | JFloat x \<Rightarrow> x \<noteq> 0
      | JStr s \<Rightarrow> (let n = py_lower (py_strip s) in
          if n \<in> {''true'', ''yes'', ''on'', ''1''} then True
          else if n \<in> {''false'', ''no'', ''off'', ''0''} then False else d)
      | _ \<Rightarrow> d)"

definition py_upper_char :: "char \<Rightarrow> char" where
  "py_upper_char c = (let n = (of_char c :: nat) in if 97 \<le> n \<and> n \<le> 122 then char_of (n - 32) else c)"

definition py_upper :: "string \<Rightarrow> string" where
  "py_upper s = map py_upper_char s"

text \<open>\<open>str(value or default)\<close>, and \<open>str(value).strip().lower().replace(" ", "_")\<close>.\<close>

definition str_default :: "py_conv \<Rightarrow> json \<Rightarrow> string \<Rightarrow> string" where
  "str_default conv v d = str_field conv d (Some v)"

definition tag_text :: "string \<Rightarrow> string" where
  "tag_text s = py_replace (CHR '' '') (CHR ''_'') (py_lower (py_strip s))"

definition cfg_normalize_tags :: "py_conv \<Rightarrow> json \<Rightarrow> string list" where
  "cfg_normalize_tags conv v =
     (case v of
        JList xs \<Rightarrow> fromkeys (map tag_text (filter (\<lambda>s. py_strip s \<noteq> []) (map (py_str conv) xs)))
      | _ \<Rightarrow> [])"

section \<open>Fields\<close>

definition jget :: "string \<Rightarrow> jobj \<Rightarrow> json" where
  "jget k o' = (case map_of o' k of Some v \<Rightarrow> v | None \<Rightarrow> JNull)"

definition jhas :: "string \<Rightarrow> jobj \<Rightarrow> bool" where
  "jhas k o' \<longleftrightarrow> k \<in> fst ` set o'"

definition jput :: "string \<Rightarrow> json \<Rightarrow> jobj \<Rightarrow> jobj" where
  "jput k v o' = AList.update k v o'"

definition jsetdefault :: "string \<Rightarrow> json \<Rightarrow> jobj \<Rightarrow> jobj" where
  "jsetdefault k v o' = (if jhas k o' then o' else jput k v o')"

definition jmapping :: "json \<Rightarrow> jobj" where
  "jmapping v = (case v of JObj o' \<Rightarrow> o' | _ \<Rightarrow> [])"

definition jitems :: "json \<Rightarrow> json list" where
  "jitems v = (case v of JList xs \<Rightarrow> xs | _ \<Rightarrow> [])"

text \<open>The dictionaries among the items of a list.\<close>

definition jobjs :: "json list \<Rightarrow> jobj list" where
  "jobjs xs = List.map_filter (\<lambda>v. case v of JObj o' \<Rightarrow> Some o' | _ \<Rightarrow> None) xs"

section \<open>The option dataclasses\<close>

definition current_schema_version :: int where
  "current_schema_version = 18"

definition LoggingOptions :: jobj where
  "LoggingOptions =
     [(''enabled'', JBool True), (''level'', JStr ''INFO''), (''filename'', JStr ''pihole_manager.log''),
      (''rotate_bytes'', JInt 2000000), (''backup_count'', JInt 3)]"

definition NotifyOptions :: jobj where
  "NotifyOptions =
     [(''enable_desktop'', JBool False), (''enable_sound'', JBool False), (''rate_limit_sec'', JInt 5),
      (''toast_title'', JStr ''Pi-hole Manager'')]"

definition ScanOptions :: jobj where
  "ScanOptions =
     [(''enabled'', JBool False), (''interval_sec'', JInt 5), (''batch_size'', JInt 200), (''initial_lookback_sec'', JInt 300),
      (''queue_trigger_size'', JInt 20), (''max_queue_wait_sec'', JInt 300), (''history_backfill_enabled'', JBool False),
      (''history_idle_after_sec'', JInt 300), (''history_lookback_days'', JInt 30), (''history_batch_size'', JInt 500),
      (''excluded_domain_suffixes'', JList [JStr ''.arpa''])]"

definition PiHoleOptions :: jobj where
  "PiHoleOptions =
     [(''base_url'', JStr ''http://pi.hole''), (''password'', JStr ''''), (''ca_bundle_path'', JStr ''''),
      (''timeout_sec'', JFloat 10)]"

definition ProviderLimitOptions :: jobj where
  "ProviderLimitOptions =
     [(''mode'', JStr ''auto''), (''quota_group'', JStr ''''), (''requests_per_minute'', JInt 0),
      (''requests_per_hour'', JInt 0), (''requests_per_day'', JInt 0), (''input_tokens_per_minute'', JInt 0),
      (''output_tokens_per_minute'', JInt 0), (''tokens_per_minute'', JInt 0), (''tokens_per_hour'', JInt 0),
      (''tokens_per_day'', JInt 0), (''units_per_day'', JFloat 0), (''context_tokens'', JInt 0),
      (''max_domains_per_request'', JInt 0), (''safety_margin_percent'', JFloat 10)]"

text \<open>The hexadecimal digits that \<open>uuid4\<close> generates are an argument.\<close>

definition LLMProviderOptions :: "string \<Rightarrow> jobj" where
  "LLMProviderOptions hex =
     [(''provider_id'', JStr (''provider-'' @ hex)), (''name'', JStr ''Custom OpenAI-compatible''), (''preset_id'', JStr ''custom''),
      (''api_style'', JStr ''openai_compatible''), (''base_url'', JStr ''''), (''api_key'', JStr ''''), (''model'', JStr ''''),
      (''temperature'', JFloat 0), (''timeout_sec'', JFloat 30), (''max_output_tokens'', JInt 4096),
      (''max_tokens_parameter'', JStr ''max_tokens''), (''send_temperature'', JBool True),
      (''structured_output'', JStr ''auto''), (''limits'', JObj ProviderLimitOptions)]"

definition ProviderPoolMembershipOptions :: jobj where
  "ProviderPoolMembershipOptions =
     [(''provider_id'', JStr ''''), (''enabled'', JBool True), (''role'', JStr ''primary''), (''priority'', JInt 100),
      (''weight'', JInt 1)]"

definition AnalysisPoolOptions :: jobj where
  "AnalysisPoolOptions =
     [(''pool_id'', JStr ''background''), (''name'', JStr ''Background analysis''), (''enabled'', JBool True),
      (''mode'', JStr ''distribute''), (''profile_index'', JInt 0), (''max_parallel_requests'', JInt 2),
      (''verification_sample_percent'', JInt 10), (''verify_automatic_actions'', JBool True),
      (''verify_security_risk_at_least'', JInt 80), (''verify_breakage_risk_at_least'', JInt 50), (''memberships'', JList [])]"

definition ProviderRegistryOptions :: jobj where
  "ProviderRegistryOptions =
     [(''auto_update'', JBool False), (''refresh_interval_hours'', JInt 168), (''last_checked_at'', JInt 0),
      (''registry_url'', JStr ''https://github.com/HyperCriSiS/Pi-Hole-Manager/releases/latest/download/provider-registry.json''),
      (''signature_url'', JStr ''https://github.com/HyperCriSiS/Pi-Hole-Manager/releases/latest/download/provider-registry.json.sig'')]"

definition default_system_prompt :: string where
  "default_system_prompt =
     ''You classify DNS domains for a Pi-hole v6 administrator. Start with the supplied domain dossier and distinguish '' @
     ''verified facts from inference. If the selected model and API perform live web search without an additional tool '' @
     ''request, independently verify the exact domain using official vendor documentation, GitHub code, issues and '' @
     ''discussions, Pi-hole community reports, reputable blocklist repositories such as AdGuardTeam/HostlistsRegistry, '' @
     ''hagezi/dns-blocklists, easylist/easylist, disconnectme/disconnect-tracking-protection, and credible user reports. '' @
     ''Pi-hole Manager does not currently invoke provider-specific web-search tools. Never claim to have searched the web '' @
     ''when browsing is not available. Include useful source URLs in details when known, and prefer manual review when '' @
     ''evidence is weak or blocking may break an important service.''"

definition default_user_template :: string where
  "default_user_template =
     ''Analyse the following domain dossiers. Return only the required structured result.'' @ [CHR 0x0A] @
     ''{domain_dossiers}''"

definition PromptProfileOptions :: jobj where
  "PromptProfileOptions = [(''name'', JStr ''Balanced''), (''system'', JStr default_system_prompt), (''user_template'', JStr default_user_template)]"

definition default_tags :: "string list" where
  "default_tags =
     [''advertising'', ''cross_site_tracking'', ''analytics'', ''telemetry'', ''crash_reporting'', ''authentication'',
      ''payments'', ''api_backend'', ''content_media'', ''cdn_shared_infrastructure'', ''software_updates'',
      ''notifications_messaging'', ''security_antifraud'', ''iot_cloud'', ''malware'', ''phishing'', ''command_and_control'',
      ''unknown'']"

definition default_tag_policies :: "(string \<times> string) list" where
  "default_tag_policies =
     [(''advertising'', ''deny''), (''cross_site_tracking'', ''deny''), (''analytics'', ''manual_review''),
      (''telemetry'', ''manual_review''), (''crash_reporting'', ''manual_review''), (''authentication'', ''manual_review''),
      (''payments'', ''manual_review''), (''api_backend'', ''manual_review''), (''content_media'', ''manual_review''),
      (''cdn_shared_infrastructure'', ''manual_review''), (''software_updates'', ''manual_review''),
      (''notifications_messaging'', ''manual_review''), (''security_antifraud'', ''manual_review''),
      (''iot_cloud'', ''manual_review''), (''malware'', ''deny''), (''phishing'', ''deny''),
      (''command_and_control'', ''deny''), (''unknown'', ''manual_review'')]"

definition default_tag_recheck_days :: "(string \<times> int) list" where
  "default_tag_recheck_days =
     [(''advertising'', 30), (''cross_site_tracking'', 30), (''analytics'', 30), (''telemetry'', 30),
      (''crash_reporting'', 30), (''authentication'', 90), (''payments'', 90), (''api_backend'', 60), (''content_media'', 60),
      (''cdn_shared_infrastructure'', 90), (''software_updates'', 60), (''notifications_messaging'', 60),
      (''security_antifraud'', 60), (''iot_cloud'', 45), (''malware'', 7), (''phishing'', 7), (''command_and_control'', 7),
      (''unknown'', 3)]"

definition LLMOptions :: jobj where
  "LLMOptions =
     [(''enabled'', JBool False), (''interval_sec'', JInt 10), (''worker_batch_size'', JInt 25),
      (''domains_per_request'', JInt 10), (''min_request_interval_sec'', JFloat 1), (''max_retries'', JInt 2),
      (''realtime_quota_reserve_percent'', JFloat 20), (''quota_wait_timeout_sec'', JFloat 30),
      (''unknown_remote_requests_per_minute'', JInt 2), (''unknown_remote_max_domains_per_request'', JInt 1),
      (''active_provider_index'', JInt 0), (''active_profile_index'', JInt 0),
      (''automation_mode'', JStr (automation_mode_value Mode_HYBRID)), (''simulation_mode'', JBool True),
      (''default_recheck_days'', JInt 30), (''review_confidence_threshold'', JFloat (3 / 4)),
      (''auto_action_min_confidence'', JFloat (19 / 20)), (''require_research_for_auto_action'', JBool True),
      (''tags'', JList (map JStr default_tags)),
      (''tag_policies'', JObj (map (\<lambda>(k, v). (k, JStr v)) default_tag_policies)),
      (''tag_recheck_days'', JObj (map (\<lambda>(k, v). (k, JInt v)) default_tag_recheck_days))]"

definition ResearchOptions :: jobj where
  "ResearchOptions =
     [(''max_age_days'', JInt 30)]"

definition UpdateOptions :: jobj where
  "UpdateOptions =
     [(''check_automatically'', JBool False), (''channel'', JStr ''stable''), (''check_interval_hours'', JInt 24),
      (''last_check_at'', JInt 0)]"

definition ExternalTriggerOptions :: jobj where
  "ExternalTriggerOptions =
     [(''enabled'', JBool False), (''bind_host'', JStr ''127.0.0.1''), (''port'', JInt 8765), (''token'', JStr ''''),
      (''allow_remote'', JBool False), (''max_domains_per_request'', JInt 500)]"

definition ResearchProviderOptions :: jobj where
  "ResearchProviderOptions =
     [(''name'', JStr ''RDAP registration data''), (''kind'', JStr ''rdap''), (''enabled'', JBool False),
      (''base_url'', JStr ''''), (''api_key'', JStr ''''), (''timeout_sec'', JFloat 15), (''min_interval_sec'', JFloat 1),
      (''refresh_interval_hours'', JInt 24), (''max_results'', JInt 5), (''test_domain'', JStr '''')]"

definition default_visible_columns :: "(string \<times> string list) list" where
  "default_visible_columns =
     [(''queries'', [''selected'', ''time'', ''client'', ''domain'', ''type'', ''status'']),
      (''history'', [''selected'', ''time'', ''client'', ''domain'', ''type'', ''status'', ''classified'']),
      (''lists'', [''selected'', ''locked'', ''domain'', ''enabled'', ''tags'', ''details'']),
      (''review'', [''selected'', ''order'', ''queued'', ''lock'', ''domain'', ''tags'', ''service'', ''role'', ''policy'', ''planned'',
          ''confidence'', ''breakage'', ''short'', ''status'']),
      (''domains'', [''domain'', ''tags'', ''service'', ''role'', ''policy'', ''planned'', ''confidence'', ''breakage'', ''queries'',
          ''last_seen'', ''review'', ''short''])]"

definition default_column_order :: "(string \<times> string list) list" where
  "default_column_order =
     [(''queries'', [''selected'', ''time'', ''client'', ''domain'', ''type'', ''status'']),
      (''history'', [''selected'', ''time'', ''client'', ''domain'', ''type'', ''status'', ''classified'']),
      (''lists'', [''selected'', ''locked'', ''domain'', ''enabled'', ''comment'', ''tags'', ''details'']),
      (''review'', [''selected'', ''order'', ''queued'', ''lock'', ''domain'', ''tags'', ''service'', ''role'', ''policy'', ''planned'',
          ''confidence'', ''privacy'', ''security'', ''breakage'', ''short'', ''status'']),
      (''domains'', [''domain'', ''tags'', ''service'', ''role'', ''policy'', ''planned'', ''confidence'', ''privacy'', ''security'',
          ''breakage'', ''queries'', ''last_seen'', ''classified'', ''recheck'', ''review'', ''lock'', ''provider'', ''short''])]"

definition default_column_widths :: "(string \<times> (string \<times> int) list) list" where
  "default_column_widths =
     [(''queries'', [(''selected'', 38), (''time'', 90), (''client'', 170), (''domain'', 360), (''type'', 80), (''status'', 140)]),
      (''history'', [(''selected'', 38), (''time'', 150), (''client'', 180), (''domain'', 390), (''type'', 80), (''status'', 150),
          (''classified'', 90)]),
      (''lists'', [(''selected'', 38), (''locked'', 58), (''domain'', 290), (''enabled'', 70), (''comment'', 260), (''tags'', 230),
          (''details'', 430)]),
      (''review'', [(''selected'', 38), (''order'', 48), (''queued'', 115), (''lock'', 48), (''domain'', 250), (''tags'', 230),
          (''service'', 180), (''role'', 80), (''policy'', 105), (''planned'', 95), (''confidence'', 65), (''privacy'', 65),
          (''security'', 65), (''breakage'', 90), (''short'', 300), (''status'', 120)]),
      (''domains'', [(''domain'', 280), (''tags'', 240), (''service'', 180), (''role'', 80), (''policy'', 105), (''planned'', 95),
          (''confidence'', 65), (''privacy'', 65), (''security'', 65), (''breakage'', 70), (''queries'', 80),
          (''last_seen'', 135), (''classified'', 135), (''recheck'', 135), (''review'', 65), (''lock'', 70),
          (''provider'', 150), (''short'', 340)])]"

definition int_dict :: "(string \<times> int) list \<Rightarrow> json" where
  "int_dict kvs = JObj (map (\<lambda>(k, v). (k, JInt v)) kvs)"

definition str_list :: "string list \<Rightarrow> json" where
  "str_list xs = JList (map JStr xs)"

definition UIOptions :: jobj where
  "UIOptions =
     [(''theme'', JStr ''system''), (''show_tooltips'', JBool True), (''window_width'', JInt 1280),
      (''window_height'', JInt 820), (''auto_update_queries'', JBool False), (''query_refresh_ms'', JInt 2000),
      (''auto_scroll_queries'', JBool True), (''history_deduplicate_domains'', JBool True),
      (''evidence_test_skip_api_key_sources'', JBool False), (''evidence_test_skip_missing_api_keys'', JBool True),
      (''lists_queue_only_unreviewed'', JBool True),
      (''queries_colwidths'', int_dict (the (map_of default_column_widths ''queries''))),
      (''table_visible_columns'', JObj (map (\<lambda>(k, v). (k, str_list v)) default_visible_columns)),
      (''table_column_order'', JObj (map (\<lambda>(k, v). (k, str_list v)) default_column_order)),
      (''table_column_widths'', JObj (map (\<lambda>(k, v). (k, int_dict v)) default_column_widths))]"

text \<open>A dataclass call with keyword arguments.\<close>

definition research_provider_with :: "jobj \<Rightarrow> jobj" where
  "research_provider_with kws = fold (\<lambda>(k, v) inst. AList.update k v inst) kws ResearchProviderOptions"

definition default_research_providers :: "jobj list" where
  "default_research_providers =
     [research_provider_with [(''name'', JStr ''AdGuard service catalog''), (''kind'', JStr ''adguard_services''), (''enabled'', JBool True),
        (''base_url'', JStr ''https://adguardteam.github.io/HostlistsRegistry/assets/services.json''),
        (''refresh_interval_hours'', JInt 24)],
      research_provider_with [(''name'', JStr ''Local DNS records''), (''kind'', JStr ''dns_records''), (''enabled'', JBool True),
        (''min_interval_sec'', JFloat 0), (''refresh_interval_hours'', JInt 6)],
      research_provider_with [(''name'', JStr ''Disconnect tracker catalog''), (''kind'', JStr ''disconnect_tracking''), (''enabled'', JBool False),
        (''base_url'', JStr ''https://raw.githubusercontent.com/disconnectme/disconnect-tracking-protection/master/services.json''),
        (''refresh_interval_hours'', JInt 24)],
      research_provider_with [(''name'', JStr ''RDAP registration data''), (''kind'', JStr ''rdap''), (''enabled'', JBool False),
        (''base_url'', JStr ''https://data.iana.org/rdap/dns.json''), (''refresh_interval_hours'', JInt 168)],
      research_provider_with [(''name'', JStr ''RIPEstat network information''), (''kind'', JStr ''ripestat''), (''enabled'', JBool False),
        (''base_url'', JStr ''https://stat.ripe.net/data''), (''refresh_interval_hours'', JInt 24)],
      research_provider_with [(''name'', JStr ''Netcraft Site Report''), (''kind'', JStr ''netcraft''), (''enabled'', JBool False),
        (''base_url'', JStr ''https://sitereport.netcraft.com/''), (''min_interval_sec'', JFloat 10),
        (''refresh_interval_hours'', JInt 168)],
      research_provider_with [(''name'', JStr ''VirusTotal domain report''), (''kind'', JStr ''virustotal''), (''enabled'', JBool False),
        (''base_url'', JStr ''https://www.virustotal.com/api/v3''), (''min_interval_sec'', JFloat (31 / 2)),
        (''refresh_interval_hours'', JInt 24)],
      research_provider_with [(''name'', JStr ''ThreatFox IOC lookup''), (''kind'', JStr ''threatfox''), (''enabled'', JBool False),
        (''base_url'', JStr ''https://threatfox-api.abuse.ch/api/v1/''), (''min_interval_sec'', JFloat 2),
        (''refresh_interval_hours'', JInt 6)],
      research_provider_with [(''name'', JStr ''PhishTank verified phishing database''), (''kind'', JStr ''phishtank''), (''enabled'', JBool False),
        (''base_url'', JStr ''https://data.phishtank.com/data/{api_key}/online-valid.json.bz2''),
        (''refresh_interval_hours'', JInt 1)],
      research_provider_with [(''name'', JStr ''urlscan.io archived scans''), (''kind'', JStr ''urlscan''), (''enabled'', JBool False),
        (''base_url'', JStr ''https://urlscan.io/api/v1''), (''min_interval_sec'', JFloat 2),
        (''refresh_interval_hours'', JInt 12), (''max_results'', JInt 3)],
      research_provider_with [(''name'', JStr ''Cloudflare Radar domain ranking''), (''kind'', JStr ''cloudflare_radar''),
        (''enabled'', JBool False), (''base_url'', JStr ''https://api.cloudflare.com/client/v4/radar''),
        (''min_interval_sec'', JFloat 1), (''refresh_interval_hours'', JInt 168)],
      research_provider_with [(''name'', JStr ''Curated repository blocklists''), (''kind'', JStr ''repository_lists''), (''enabled'', JBool False),
        (''min_interval_sec'', JFloat 0), (''refresh_interval_hours'', JInt 12), (''max_results'', JInt 5),
        (''test_domain'', JStr ''example.com'')],
      research_provider_with [(''name'', JStr ''URLhaus host lookup''), (''kind'', JStr ''urlhaus''), (''enabled'', JBool False),
        (''base_url'', JStr ''https://urlhaus-api.abuse.ch/v1''), (''min_interval_sec'', JFloat 1),
        (''refresh_interval_hours'', JInt 6), (''max_results'', JInt 5), (''test_domain'', JStr ''example.com'')]]"

record options =
  op_schema_version :: int
  op_logging :: jobj
  op_notify :: jobj
  op_scans :: jobj
  op_pihole :: jobj
  op_llm :: jobj
  op_research :: jobj
  op_updates :: jobj
  op_provider_registry :: jobj
  op_external_trigger :: jobj
  op_llm_providers :: "jobj list"
  op_analysis_pools :: "jobj list"
  op_prompt_profiles :: "jobj list"
  op_research_providers :: "jobj list"
  op_ui :: jobj

definition default_options :: "string \<Rightarrow> options" where
  "default_options hex =
     \<lparr>op_schema_version = current_schema_version, op_logging = LoggingOptions, op_notify = NotifyOptions, op_scans = ScanOptions,
      op_pihole = PiHoleOptions, op_llm = LLMOptions, op_research = ResearchOptions, op_updates = UpdateOptions,
      op_provider_registry = ProviderRegistryOptions, op_external_trigger = ExternalTriggerOptions,
      op_llm_providers = [LLMProviderOptions hex], op_analysis_pools = [], op_prompt_profiles = [PromptProfileOptions],
      op_research_providers = default_research_providers, op_ui = UIOptions\<rparr>"

section \<open>Loading instances from parsed JSON\<close>

text \<open>\<open>_coerce_dataclass\<close>: \<open>cls\<close> is the default instance; only known fields are taken over.\<close>

definition coerce_dataclass :: "jobj \<Rightarrow> json \<Rightarrow> jobj" where
  "coerce_dataclass cls raw = fold (\<lambda>(k, v) inst. if jhas k cls then jput k v inst else inst) (jmapping raw) cls"

definition load_list :: "json \<Rightarrow> jobj \<Rightarrow> jobj list \<Rightarrow> jobj list" where
  "load_list raw cls fallback =
     (case raw of
        JList xs \<Rightarrow> let loaded = map (\<lambda>o'. coerce_dataclass cls (JObj o')) (jobjs xs) in if loaded = [] then fallback else loaded
      | _ \<Rightarrow> fallback)"

text \<open>\<open>hexes i\<close> are the digits of the identifier generated for the default of the i-th provider.\<close>

definition load_provider :: "string \<Rightarrow> jobj \<Rightarrow> jobj" where
  "load_provider hex item =
     jput ''limits'' (JObj (coerce_dataclass ProviderLimitOptions (jget ''limits'' item)))
       (coerce_dataclass (LLMProviderOptions hex) (JObj item))"

definition load_llm_providers :: "(nat \<Rightarrow> string) \<Rightarrow> json \<Rightarrow> jobj list" where
  "load_llm_providers hexes raw =
     (case raw of
        JList xs \<Rightarrow>
          let providers = map (\<lambda>(i, item). load_provider (hexes i) item) (enumerate 0 (jobjs xs)) in
          if providers = [] then [LLMProviderOptions (hexes 0)] else providers
      | _ \<Rightarrow> [LLMProviderOptions (hexes 0)])"

definition load_pool :: "jobj \<Rightarrow> jobj" where
  "load_pool item =
     jput ''memberships'' (JList (map JObj (load_list (jget ''memberships'' item) ProviderPoolMembershipOptions [])))
       (coerce_dataclass AnalysisPoolOptions (JObj item))"

definition load_analysis_pools :: "json \<Rightarrow> jobj list" where
  "load_analysis_pools raw = (case raw of JList xs \<Rightarrow> map load_pool (jobjs xs) | _ \<Rightarrow> [])"

section \<open>Lemmas on fields\<close>

named_theorems cfg_simps \<open>reading and writing fields\<close>

lemma jget_jput [simp, cfg_simps]: "jget k (jput k' v o') = (if k = k' then v else jget k o')"
  by (simp add: jget_def jput_def update_conv)

lemma jhas_jput [simp, cfg_simps]: "jhas k (jput k' v o') \<longleftrightarrow> k = k' \<or> jhas k o'"
  by (auto simp: jhas_def jput_def dom_update [symmetric] dom_map_of_conv_image_fst [symmetric] update_conv)

lemma jput_same: "jhas k o' \<Longrightarrow> jget k o' = v \<Longrightarrow> jput k v o' = o'"
  by (induction o') (auto simp: jhas_def jget_def jput_def split: option.splits if_splits)

lemma keys_jput: "jhas k o' \<Longrightarrow> map fst (jput k v o') = map fst o'"
  by (induction o') (auto simp: jhas_def jput_def)

lemma jhas_keys: "jhas k o' \<longleftrightarrow> k \<in> set (map fst o')"
  by (simp add: jhas_def)

lemma jput_twice [simp]: "jput k v (jput k w o') = jput k v o'"
  by (induction o') (auto simp: jput_def)

text \<open>A coerced instance has exactly the fields of its class.\<close>

lemma coerce_fold_keys:
  "map fst inst = map fst cls \<Longrightarrow>
    map fst (fold (\<lambda>(k, v) inst. if jhas k cls then jput k v inst else inst) kvs inst) = map fst cls"
proof (induction kvs arbitrary: inst)
  case (Cons kv kvs)
  obtain k v where kv: "kv = (k, v)" by fastforce
  have "map fst (if jhas k cls then jput k v inst else inst) = map fst cls"
    using Cons.prems by (simp add: keys_jput jhas_keys)
  from Cons.IH [OF this] show ?case by (simp add: kv)
qed simp

lemma coerce_keys [simp]: "map fst (coerce_dataclass cls raw) = map fst cls"
  by (simp add: coerce_dataclass_def coerce_fold_keys)

lemma coerce_fold_get:
  "distinct (map fst kvs) \<Longrightarrow>
    jget k (fold (\<lambda>(k, v) inst. if jhas k cls then jput k v inst else inst) kvs inst) =
      (if jhas k cls \<and> jhas k kvs then jget k kvs else jget k inst)"
proof (induction kvs arbitrary: inst)
  case Nil
  then show ?case by (simp add: jhas_def)
next
  case (Cons kv kvs)
  obtain a b where kv: "kv = (a, b)" by fastforce
  have nin: "\<not> jhas a kvs" using Cons.prems by (simp add: kv jhas_def)
  have h: "jhas k (kv # kvs) \<longleftrightarrow> k = a \<or> jhas k kvs" by (auto simp: kv jhas_def)
  have g: "jget k (kv # kvs) = (if k = a then b else jget k kvs)" by (simp add: kv jget_def)
  show ?case using Cons.prems nin by (auto simp: kv Cons.IH h [unfolded kv] g [unfolded kv])
qed

text \<open>A field of the coerced instance is the value of the file where the file has one, and the default otherwise.\<close>

lemma coerce_get:
  "distinct (map fst kvs) \<Longrightarrow>
    jget k (coerce_dataclass cls (JObj kvs)) = (if jhas k cls \<and> jhas k kvs then jget k kvs else jget k cls)"
  by (simp add: coerce_dataclass_def jmapping_def coerce_fold_get)

end
