(* ===== verification/Config_Validate.thy ===== *)
theory Config_Validate
  imports Config
begin

text \<open>
  \<open>_validate\<close> of \<open>pihole_manager/config.py\<close>: every section of the options is brought into range field by
  field. The assignments to the fields of a section that do not depend on other fields are a list of
  field rules, in the order of the code; the dependent ones are written out. The lemmas show that validated options are
  well formed whatever JSON the fields held before, and that validation is idempotent.
\<close>

section \<open>Field rules\<close>

definition bool_rule :: "bool \<Rightarrow> json \<Rightarrow> json" where
  "bool_rule d v = JBool (cfg_as_bool v d)"

definition int_min_rule :: "int \<Rightarrow> int \<Rightarrow> json \<Rightarrow> json" where
  "int_min_rule lo d v = JInt (max lo (as_int v d))"

definition int_range_rule :: "int \<Rightarrow> int \<Rightarrow> int \<Rightarrow> json \<Rightarrow> json" where
  "int_range_rule lo hi d v = JInt (min hi (max lo (as_int v d)))"

definition float_rule :: "py_conv \<Rightarrow> pyfloat \<Rightarrow> json \<Rightarrow> json" where
  "float_rule conv d v = JFloat (as_float conv v d)"

definition float_min_rule :: "py_conv \<Rightarrow> pyfloat \<Rightarrow> pyfloat \<Rightarrow> json \<Rightarrow> json" where
  "float_min_rule conv lo d v = JFloat (max lo (as_float conv v d))"

definition float_range_rule :: "py_conv \<Rightarrow> pyfloat \<Rightarrow> pyfloat \<Rightarrow> pyfloat \<Rightarrow> json \<Rightarrow> json" where
  "float_range_rule conv lo hi d v = JFloat (min hi (max lo (as_float conv v d)))"

text \<open>\<open>str(value or default)\<close>, also with \<open>.strip()\<close> and \<open>.strip().rstrip("/")\<close>.\<close>

definition str_rule :: "py_conv \<Rightarrow> string \<Rightarrow> json \<Rightarrow> json" where
  "str_rule conv d v = JStr (str_default conv v d)"

definition stripped_rule :: "py_conv \<Rightarrow> string \<Rightarrow> json \<Rightarrow> json" where
  "stripped_rule conv d v = JStr (py_strip (str_default conv v d))"

definition url_rule :: "py_conv \<Rightarrow> json \<Rightarrow> json" where
  "url_rule conv v = JStr (py_rstrip_char (CHR ''/'') (py_strip (str_default conv v [])))"

text \<open>\<open>str(value).strip().lower()\<close>, replaced by the default when it is not one of the choices.\<close>

definition choice_rule :: "py_conv \<Rightarrow> string list \<Rightarrow> string \<Rightarrow> json \<Rightarrow> json" where
  "choice_rule conv choices d v = (let t = py_lower (py_strip (py_str conv v)) in JStr (if t \<in> set choices then t else d))"

text \<open>The same on \<open>str(value or "")\<close>.\<close>

definition choice_or_rule :: "py_conv \<Rightarrow> string list \<Rightarrow> string \<Rightarrow> json \<Rightarrow> json" where
  "choice_or_rule conv choices d v = (let t = py_lower (py_strip (str_default conv v [])) in JStr (if t \<in> set choices then t else d))"

type_synonym rules = "(string \<times> (json \<Rightarrow> json)) list"

definition apply_rules :: "rules \<Rightarrow> jobj \<Rightarrow> jobj" where
  "apply_rules rs inst = fold (\<lambda>(k, r) acc. jput k (r (jget k acc)) acc) rs inst"

section \<open>The sections without dependencies\<close>

definition log_level_rule :: "py_conv \<Rightarrow> json \<Rightarrow> json" where
  "log_level_rule conv v =
     (let t = py_upper (py_str conv v) in JStr (if t \<in> {''DEBUG'', ''INFO'', ''WARNING'', ''ERROR'', ''CRITICAL''} then t else ''INFO''))"

definition logging_rules :: "py_conv \<Rightarrow> rules" where
  "logging_rules conv =
     [(''enabled'', bool_rule True), (''level'', log_level_rule conv), (''filename'', str_rule conv ''pihole_manager.log''),
      (''rotate_bytes'', int_min_rule 100000 2000000), (''backup_count'', int_min_rule 1 3)]"

definition notify_rules :: "py_conv \<Rightarrow> rules" where
  "notify_rules conv =
     [(''enable_desktop'', bool_rule False), (''enable_sound'', bool_rule False), (''rate_limit_sec'', int_min_rule 0 5),
      (''toast_title'', str_rule conv ''Pi-hole Manager'')]"

definition external_trigger_rules :: "py_conv \<Rightarrow> rules" where
  "external_trigger_rules conv =
     [(''enabled'', bool_rule False), (''bind_host'', stripped_rule conv ''127.0.0.1''), (''port'', int_range_rule 1 65535 8765),
      (''token'', str_rule conv []), (''allow_remote'', bool_rule False), (''max_domains_per_request'', int_range_rule 1 5000 500)]"

definition excluded_suffix :: "string \<Rightarrow> string" where
  "excluded_suffix s =
     (let t = py_rstrip_char (CHR ''.'') (py_lower (py_strip s));
          t = (if py_startswith ''*'' t then drop 1 t else t)
      in if t \<noteq> [] \<and> \<not> py_startswith ''.'' t then CHR ''.'' # t else t)"

definition add_suffix :: "string \<Rightarrow> string list \<Rightarrow> string list" where
  "add_suffix s acc = (if s \<noteq> [] \<and> s \<notin> set acc then acc @ [s] else acc)"

definition suffixes_rule :: "py_conv \<Rightarrow> json \<Rightarrow> json" where
  "suffixes_rule conv v =
     (let values = (case v of JList xs \<Rightarrow> map (py_str conv) xs | _ \<Rightarrow> [''.arpa'']) in
      JList (map JStr (fold add_suffix (map excluded_suffix values) [])))"

definition scans_rules :: "py_conv \<Rightarrow> rules" where
  "scans_rules conv =
     [(''enabled'', bool_rule False), (''interval_sec'', int_min_rule 1 5), (''batch_size'', int_min_rule 1 200),
      (''initial_lookback_sec'', int_min_rule 1 300), (''queue_trigger_size'', int_min_rule 1 20), (''max_queue_wait_sec'', int_min_rule 1 300),
      (''history_backfill_enabled'', bool_rule False), (''history_idle_after_sec'', int_min_rule 30 300),
      (''history_lookback_days'', int_min_rule 1 30), (''history_batch_size'', int_min_rule 10 500),
      (''excluded_domain_suffixes'', suffixes_rule conv)]"

definition pihole_rules :: "py_conv \<Rightarrow> rules" where
  "pihole_rules conv =
     [(''base_url'', str_rule conv ''http://pi.hole''), (''password'', str_rule conv []), (''ca_bundle_path'', stripped_rule conv []),
      (''timeout_sec'', float_min_rule conv 1 10)]"

definition research_rules :: rules where
  "research_rules = [(''max_age_days'', int_min_rule 1 30)]"

definition channel_rule :: "py_conv \<Rightarrow> json \<Rightarrow> json" where
  "channel_rule conv v =
     (let c = py_lower (py_strip (py_str conv v)) in
      JStr (if c = ''development'' then ''prerelease'' else if c \<in> {''stable'', ''prerelease''} then c else ''stable''))"

definition updates_rules :: "py_conv \<Rightarrow> rules" where
  "updates_rules conv =
     [(''check_automatically'', bool_rule False), (''channel'', channel_rule conv), (''check_interval_hours'', int_min_rule 1 24),
      (''last_check_at'', int_min_rule 0 0)]"

definition registry_url_default :: "string \<Rightarrow> string" where
  "registry_url_default k = (case jget k ProviderRegistryOptions of JStr s \<Rightarrow> s | _ \<Rightarrow> [])"

definition provider_registry_rules :: "py_conv \<Rightarrow> rules" where
  "provider_registry_rules conv =
     [(''auto_update'', bool_rule False), (''refresh_interval_hours'', int_min_rule 1 168), (''last_checked_at'', int_min_rule 0 0),
      (''registry_url'', stripped_rule conv (registry_url_default ''registry_url'')),
      (''signature_url'', stripped_rule conv (registry_url_default ''signature_url''))]"

section \<open>The model section\<close>

fun jint :: "json \<Rightarrow> int" where
  "jint (JInt i) = i"
| "jint _ = 0"

fun jfloat :: "json \<Rightarrow> pyfloat" where
  "jfloat (JFloat x) = x"
| "jfloat _ = 0"

definition llm_first_rules :: rules where
  "llm_first_rules = [(''enabled'', bool_rule False), (''interval_sec'', int_min_rule 1 10), (''worker_batch_size'', int_min_rule 1 25)]"

definition llm_domains_per_request :: "jobj \<Rightarrow> jobj" where
  "llm_domains_per_request inst =
     jput ''domains_per_request''
       (JInt (min (jint (jget ''worker_batch_size'' inst)) (max 1 (as_int (jget ''domains_per_request'' inst) 10)))) inst"

definition llm_number_rules :: "py_conv \<Rightarrow> rules" where
  "llm_number_rules conv =
     [(''min_request_interval_sec'', float_min_rule conv 0 1), (''max_retries'', int_min_rule 0 2),
      (''realtime_quota_reserve_percent'', float_range_rule conv 0 90 20), (''quota_wait_timeout_sec'', float_min_rule conv 0 30),
      (''unknown_remote_requests_per_minute'', int_min_rule 1 2), (''unknown_remote_max_domains_per_request'', int_min_rule 1 1),
      (''default_recheck_days'', int_min_rule 1 30), (''review_confidence_threshold'', float_range_rule conv 0 1 (3 / 4)),
      (''auto_action_min_confidence'', float_range_rule conv 0 1 (19 / 20))]"

definition llm_threshold :: "jobj \<Rightarrow> jobj" where
  "llm_threshold inst =
     (if jfloat (jget ''auto_action_min_confidence'' inst) < jfloat (jget ''review_confidence_threshold'' inst)
      then jput ''review_confidence_threshold'' (jget ''auto_action_min_confidence'' inst) inst else inst)"

definition mode_rule :: "py_conv \<Rightarrow> json \<Rightarrow> json" where
  "mode_rule conv v = JStr (if automation_mode_of (py_str conv v) \<noteq> None then py_str conv v else automation_mode_value Mode_HYBRID)"

definition llm_switch_rules :: "py_conv \<Rightarrow> rules" where
  "llm_switch_rules conv =
     [(''simulation_mode'', bool_rule True), (''require_research_for_auto_action'', bool_rule True), (''automation_mode'', mode_rule conv)]"

definition llm_tags :: "py_conv \<Rightarrow> json \<Rightarrow> string list" where
  "llm_tags conv v = (let tags = cfg_normalize_tags conv v in if tags = [] then [''unknown''] else tags)"

text \<open>\<open>d.setdefault(tag, f(tag))\<close> for every tag.\<close>

definition default_tags_in :: "(string \<Rightarrow> json) \<Rightarrow> string list \<Rightarrow> jobj \<Rightarrow> jobj" where
  "default_tags_in f tags d = fold (\<lambda>t acc. jsetdefault t (f t) acc) tags d"

definition llm_tag_policies :: "py_conv \<Rightarrow> string list \<Rightarrow> json \<Rightarrow> jobj" where
  "llm_tag_policies conv tags v =
     default_tags_in (\<lambda>_. JStr (policy_value Policy_MANUAL_REVIEW)) tags
       (dict_of (map (\<lambda>(k, x). (tag_text k, JStr (py_lower (py_strip (py_str conv x)))))
          (filter (\<lambda>(k, _). py_strip k \<noteq> []) (jmapping v))))"

definition recheck_step :: "string \<times> json \<Rightarrow> jobj \<Rightarrow> jobj" where
  "recheck_step kv acc =
     (let key = tag_text (fst kv) in
      case py_int_of (snd kv) of Some i \<Rightarrow> if key = [] then acc else jput key (JInt (max 1 i)) acc | None \<Rightarrow> acc)"

definition llm_tag_recheck_days :: "int \<Rightarrow> string list \<Rightarrow> json \<Rightarrow> jobj" where
  "llm_tag_recheck_days d tags v =
     default_tags_in (\<lambda>t. JInt (case map_of default_tag_recheck_days t of Some n \<Rightarrow> n | None \<Rightarrow> d)) tags
       (fold recheck_step (jmapping v) [])"

definition validate_llm_tags :: "py_conv \<Rightarrow> jobj \<Rightarrow> jobj" where
  "validate_llm_tags conv inst =
     (let tags = llm_tags conv (jget ''tags'' inst);
          inst = jput ''tags'' (str_list tags) inst;
          inst = jput ''tag_policies'' (JObj (llm_tag_policies conv tags (jget ''tag_policies'' inst))) inst
      in jput ''tag_recheck_days''
           (JObj (llm_tag_recheck_days (jint (jget ''default_recheck_days'' inst)) tags (jget ''tag_recheck_days'' inst))) inst)"

definition validate_llm :: "py_conv \<Rightarrow> jobj \<Rightarrow> jobj" where
  "validate_llm conv inst =
     validate_llm_tags conv (apply_rules (llm_switch_rules conv) (llm_threshold (apply_rules (llm_number_rules conv)
       (llm_domains_per_request (apply_rules llm_first_rules inst)))))"

section \<open>The interface section\<close>

definition ui_rules :: "py_conv \<Rightarrow> rules" where
  "ui_rules conv =
     [(''theme'', choice_rule conv [''system'', ''light'', ''dark''] ''system''), (''show_tooltips'', bool_rule True),
      (''evidence_test_skip_api_key_sources'', bool_rule False), (''evidence_test_skip_missing_api_keys'', bool_rule True),
      (''lists_queue_only_unreviewed'', bool_rule True), (''auto_update_queries'', bool_rule False), (''auto_scroll_queries'', bool_rule True),
      (''history_deduplicate_domains'', bool_rule True), (''query_refresh_ms'', int_min_rule 500 2000),
      (''window_width'', int_min_rule 800 1280), (''window_height'', int_min_rule 600 820)]"

definition table_widths :: "string \<Rightarrow> (string \<times> int) list" where
  "table_widths table = (case map_of default_column_widths table of Some ws \<Rightarrow> ws | None \<Rightarrow> [])"

text \<open>\<open>config.get(table, default)\<close>, replaced by the default when it is not a list.\<close>

definition configured_columns :: "py_conv \<Rightarrow> string \<Rightarrow> string list \<Rightarrow> jobj \<Rightarrow> string list" where
  "configured_columns conv table d tables =
     (case map_of tables table of Some (JList xs) \<Rightarrow> map (py_str conv) xs | _ \<Rightarrow> d)"

definition visible_columns_of :: "py_conv \<Rightarrow> string \<Rightarrow> string list \<Rightarrow> jobj \<Rightarrow> string list" where
  "visible_columns_of conv table d tables =
     (let known = map fst (table_widths table);
          shown = filter (\<lambda>c. c \<in> set known) (configured_columns conv table d tables)
      in if shown = [] then d else shown)"

definition widths_of :: "string \<Rightarrow> jobj \<Rightarrow> (string \<times> int) list" where
  "widths_of table tables =
     (let configured = jmapping (jget table tables) in
      map (\<lambda>(c, w). (c, max 20 (as_int (jget c configured) w))) (table_widths table))"

definition column_order_of :: "py_conv \<Rightarrow> string \<Rightarrow> string list \<Rightarrow> jobj \<Rightarrow> string list" where
  "column_order_of conv table d tables =
     (let order = fromkeys (filter (\<lambda>c. c \<in> set d) (configured_columns conv table d tables)) in
      order @ filter (\<lambda>c. c \<notin> set order) d)"

definition visible_tables :: "py_conv \<Rightarrow> jobj \<Rightarrow> jobj" where
  "visible_tables conv tables =
     fold (\<lambda>(t, d) acc. jput t (str_list (visible_columns_of conv t d acc)) acc) default_visible_columns tables"

definition width_tables :: "jobj \<Rightarrow> jobj" where
  "width_tables tables = fold (\<lambda>(t, _) acc. jput t (int_dict (widths_of t acc)) acc) default_visible_columns tables"

definition order_tables :: "py_conv \<Rightarrow> jobj \<Rightarrow> jobj" where
  "order_tables conv tables =
     fold (\<lambda>(t, d) acc. jput t (str_list (column_order_of conv t d acc)) acc) default_column_order tables"

definition validate_ui :: "py_conv \<Rightarrow> jobj \<Rightarrow> jobj" where
  "validate_ui conv inst =
     (let inst = apply_rules (ui_rules conv) inst;
          inst = jput ''table_visible_columns'' (JObj (visible_tables conv (jmapping (jget ''table_visible_columns'' inst)))) inst;
          inst = jput ''table_column_widths'' (JObj (width_tables (jmapping (jget ''table_column_widths'' inst)))) inst;
          inst = jput ''table_column_order'' (JObj (order_tables conv (jmapping (jget ''table_column_order'' inst)))) inst
      in jput ''queries_colwidths'' (jget ''queries'' (jmapping (jget ''table_column_widths'' inst))) inst)"

section \<open>Providers, profiles and research sources\<close>

definition limit_rules :: "py_conv \<Rightarrow> rules" where
  "limit_rules conv =
     [(''mode'', choice_or_rule conv [''auto'', ''auto_cap'', ''manual''] ''auto''), (''quota_group'', stripped_rule conv []),
      (''requests_per_minute'', int_min_rule 0 0), (''requests_per_hour'', int_min_rule 0 0), (''requests_per_day'', int_min_rule 0 0),
      (''input_tokens_per_minute'', int_min_rule 0 0), (''output_tokens_per_minute'', int_min_rule 0 0),
      (''tokens_per_minute'', int_min_rule 0 0), (''tokens_per_hour'', int_min_rule 0 0), (''tokens_per_day'', int_min_rule 0 0),
      (''context_tokens'', int_min_rule 0 0), (''max_domains_per_request'', int_min_rule 0 0),
      (''units_per_day'', float_min_rule conv 0 0), (''safety_margin_percent'', float_range_rule conv 0 50 10)]"

definition preset_rule :: "py_conv \<Rightarrow> json \<Rightarrow> json" where
  "preset_rule conv v = JStr (str_or (py_lower (py_strip (py_str conv v))) ''custom'')"

definition provider_rules :: "py_conv \<Rightarrow> rules" where
  "provider_rules conv =
     [(''name'', str_rule conv ''Unnamed provider''), (''preset_id'', preset_rule conv),
      (''api_style'', choice_rule conv [''openai_compatible'', ''anthropic_messages''] ''openai_compatible''),
      (''base_url'', url_rule conv), (''api_key'', stripped_rule conv []), (''model'', stripped_rule conv []),
      (''temperature'', float_rule conv 0), (''timeout_sec'', float_min_rule conv 1 30), (''max_output_tokens'', int_min_rule 1 4096),
      (''max_tokens_parameter'', choice_rule conv [''max_tokens'', ''max_completion_tokens'', ''none''] ''max_tokens''),
      (''send_temperature'', bool_rule True)]"

text \<open>An Anthropic provider never uses structured output.\<close>

definition structured_output_of :: "py_conv \<Rightarrow> json \<Rightarrow> json \<Rightarrow> json" where
  "structured_output_of conv api_style v =
     (let t = (if api_style = JStr ''anthropic_messages'' then ''prompt_only'' else py_lower (py_strip (py_str conv v))) in
      JStr (if t \<in> {''auto'', ''json_schema'', ''json_object'', ''prompt_only''} then t else ''auto''))"

definition limits_of :: "json \<Rightarrow> jobj" where
  "limits_of v = (case v of JObj l \<Rightarrow> l | _ \<Rightarrow> ProviderLimitOptions)"

text \<open>An identifier that is empty or taken is replaced by a generated one.\<close>

definition provider_id_of :: "py_conv \<Rightarrow> string \<Rightarrow> string list \<Rightarrow> json \<Rightarrow> string" where
  "provider_id_of conv hex used v =
     (let pid = py_strip (str_default conv v []) in if pid = [] \<or> pid \<in> set used then ''provider-'' @ hex else pid)"

definition validate_provider :: "py_conv \<Rightarrow> string \<Rightarrow> jobj \<Rightarrow> jobj" where
  "validate_provider conv pid inst =
     (let inst = apply_rules (provider_rules conv) (jput ''provider_id'' (JStr pid) inst);
          inst = jput ''structured_output'' (structured_output_of conv (jget ''api_style'' inst) (jget ''structured_output'' inst)) inst
      in jput ''limits'' (JObj (apply_rules (limit_rules conv) (limits_of (jget ''limits'' inst)))) inst)"

text \<open>\<open>hexes i\<close> are the digits that \<open>uuid4\<close> would generate for the i-th provider.\<close>

fun validate_providers :: "py_conv \<Rightarrow> (nat \<Rightarrow> string) \<Rightarrow> nat \<Rightarrow> string list \<Rightarrow> jobj list \<Rightarrow> jobj list" where
  "validate_providers conv hexes i used [] = []"
| "validate_providers conv hexes i used (p # ps) =
     (let pid = provider_id_of conv (hexes i) used (jget ''provider_id'' p) in
      validate_provider conv pid p # validate_providers conv hexes (Suc i) (pid # used) ps)"

definition profile_rules :: "py_conv \<Rightarrow> rules" where
  "profile_rules conv = [(''name'', str_rule conv ''Unnamed profile''), (''system'', str_rule conv []), (''user_template'', str_rule conv [])]"

definition supported_research_kinds :: "string list" where
  "supported_research_kinds =
     [''adguard_services'', ''dns_records'', ''disconnect_tracking'', ''rdap'', ''ripestat'', ''netcraft'', ''virustotal'', ''threatfox'',
      ''phishtank'', ''urlscan'', ''cloudflare_radar'', ''repository_lists'', ''urlhaus'']"

definition research_kind :: "py_conv \<Rightarrow> jobj \<Rightarrow> string" where
  "research_kind conv p = py_lower (py_strip (py_str conv (jget ''kind'' p)))"

definition lower_rule :: "py_conv \<Rightarrow> json \<Rightarrow> json" where
  "lower_rule conv v = JStr (py_lower (py_strip (py_str conv v)))"

definition stripped_lower_rule :: "py_conv \<Rightarrow> json \<Rightarrow> json" where
  "stripped_lower_rule conv v = JStr (py_lower (py_strip (str_default conv v [])))"

definition research_provider_rules :: "py_conv \<Rightarrow> rules" where
  "research_provider_rules conv =
     [(''name'', str_rule conv ''Unnamed source''), (''kind'', lower_rule conv), (''enabled'', bool_rule False),
      (''base_url'', stripped_rule conv []), (''api_key'', stripped_rule conv []), (''test_domain'', stripped_lower_rule conv)]"

definition research_number_rules :: "py_conv \<Rightarrow> rules" where
  "research_number_rules conv =
     [(''timeout_sec'', float_min_rule conv 1 15), (''min_interval_sec'', float_min_rule conv 0 1),
      (''refresh_interval_hours'', int_min_rule 1 24), (''max_results'', int_min_rule 1 5)]"

definition rdap_base_url :: "jobj \<Rightarrow> jobj" where
  "rdap_base_url inst =
     (if jget ''kind'' inst = JStr ''rdap'' \<and> jget ''base_url'' inst = JStr []
      then jput ''base_url'' (JStr ''https://data.iana.org/rdap/dns.json'') inst else inst)"

definition validate_research_provider :: "py_conv \<Rightarrow> jobj \<Rightarrow> jobj" where
  "validate_research_provider conv inst =
     apply_rules (research_number_rules conv) (rdap_base_url (apply_rules (research_provider_rules conv) inst))"

definition with_default_sources :: "py_conv \<Rightarrow> jobj list \<Rightarrow> jobj list" where
  "with_default_sources conv ps =
     (let known = filter (\<lambda>p. research_kind conv p \<in> set supported_research_kinds) ps;
          kinds = map (research_kind conv) known
      in known @ filter (\<lambda>p. research_kind conv p \<notin> set kinds) default_research_providers)"

definition validate_research_providers :: "py_conv \<Rightarrow> jobj list \<Rightarrow> jobj list" where
  "validate_research_providers conv ps = map (validate_research_provider conv) (with_default_sources conv ps)"

section \<open>Analysis pools\<close>

fun jstr :: "json \<Rightarrow> string" where
  "jstr (JStr s) = s"
| "jstr _ = []"

definition membership_rules :: "py_conv \<Rightarrow> rules" where
  "membership_rules conv =
     [(''provider_id'', stripped_rule conv []), (''enabled'', bool_rule True),
      (''role'', choice_or_rule conv [''primary'', ''fallback'', ''verifier''] ''primary''),
      (''priority'', int_range_rule 0 10000 100), (''weight'', int_range_rule 1 100 1)]"

definition membership_id :: "py_conv \<Rightarrow> jobj \<Rightarrow> string" where
  "membership_id conv m = py_strip (str_default conv (jget ''provider_id'' m) [])"

fun validate_memberships :: "py_conv \<Rightarrow> string list \<Rightarrow> string list \<Rightarrow> jobj list \<Rightarrow> jobj list" where
  "validate_memberships conv ids seen [] = []"
| "validate_memberships conv ids seen (m # ms) =
     (let pid = membership_id conv m in
      if pid \<notin> set ids \<or> pid \<in> set seen then validate_memberships conv ids seen ms
      else apply_rules (membership_rules conv) m # validate_memberships conv ids (pid # seen) ms)"

definition sole_membership :: "string \<Rightarrow> jobj" where
  "sole_membership pid = jput ''provider_id'' (JStr pid) ProviderPoolMembershipOptions"

definition pool_name :: "string \<Rightarrow> string" where
  "pool_name pool_id = (if pool_id = ''realtime'' then ''Realtime analysis'' else ''Background analysis'')"

definition pool_default_mode :: "string \<Rightarrow> string" where
  "pool_default_mode pool_id = (if pool_id = ''realtime'' then ''fallback'' else ''distribute'')"

record pool_scope =
  ps_ids :: "string list"
  ps_active :: string
  ps_active_profile :: int
  ps_profiles :: int

definition pool_rules :: "py_conv \<Rightarrow> pool_scope \<Rightarrow> string \<Rightarrow> rules" where
  "pool_rules conv scope pool_id =
     [(''name'', str_rule conv (pool_name pool_id)), (''enabled'', bool_rule True),
      (''mode'', choice_or_rule conv [''distribute'', ''fallback'', ''compare'', ''verify''] (pool_default_mode pool_id)),
      (''profile_index'', int_range_rule 0 (ps_profiles scope - 1) (ps_active_profile scope)),
      (''max_parallel_requests'', int_range_rule 1 16 2), (''verification_sample_percent'', int_range_rule 0 100 10),
      (''verify_automatic_actions'', bool_rule True), (''verify_security_risk_at_least'', int_range_rule 0 100 80),
      (''verify_breakage_risk_at_least'', int_range_rule 0 100 50)]"

definition validate_pool :: "py_conv \<Rightarrow> pool_scope \<Rightarrow> string \<Rightarrow> jobj \<Rightarrow> jobj" where
  "validate_pool conv scope pool_id inst =
     (let inst = apply_rules (pool_rules conv scope pool_id) (jput ''pool_id'' (JStr pool_id) inst);
          members = validate_memberships conv (ps_ids scope) [] (jobjs (jitems (jget ''memberships'' inst)));
          members = (if members = [] then [sole_membership (ps_active scope)] else members)
      in jput ''memberships'' (JList (map JObj members)) inst)"

definition pool_step :: "py_conv \<Rightarrow> pool_scope \<Rightarrow> jobj \<Rightarrow> (string, jobj) dict \<Rightarrow> (string, jobj) dict" where
  "pool_step conv scope pool by_id =
     (let pool_id = py_lower (py_strip (str_default conv (jget ''pool_id'' pool) [])) in
      if pool_id \<notin> {''realtime'', ''background''} \<or> map_of by_id pool_id \<noteq> None then by_id
      else AList.update pool_id (validate_pool conv scope pool_id pool) by_id)"

definition default_analysis_pool :: "string \<Rightarrow> string \<Rightarrow> int \<Rightarrow> jobj" where
  "default_analysis_pool pool_id provider_id profile_index =
     [(''pool_id'', JStr pool_id), (''name'', JStr (pool_name pool_id)), (''enabled'', JBool True), (''mode'', JStr (pool_default_mode pool_id)),
      (''profile_index'', JInt profile_index), (''max_parallel_requests'', JInt 2), (''verification_sample_percent'', JInt 10),
      (''verify_automatic_actions'', JBool True), (''verify_security_risk_at_least'', JInt 80), (''verify_breakage_risk_at_least'', JInt 50),
      (''memberships'', JList [JObj
        [(''provider_id'', JStr provider_id), (''enabled'', JBool True), (''role'', JStr ''primary''), (''priority'', JInt 100),
         (''weight'', JInt 1)]])]"

definition fallback_pool :: "pool_scope \<Rightarrow> string \<Rightarrow> jobj" where
  "fallback_pool scope pool_id =
     jput ''memberships'' (JList [JObj (sole_membership (ps_active scope))])
       (coerce_dataclass AnalysisPoolOptions (JObj (default_analysis_pool pool_id (ps_active scope) (ps_active_profile scope))))"

definition validate_pools :: "py_conv \<Rightarrow> pool_scope \<Rightarrow> jobj list \<Rightarrow> jobj list" where
  "validate_pools conv scope pools =
     (let by_id = fold (pool_step conv scope) pools [];
          pool = (\<lambda>pool_id. case map_of by_id pool_id of Some p \<Rightarrow> p | None \<Rightarrow> fallback_pool scope pool_id)
      in [pool ''realtime'', pool ''background''])"

section \<open>The whole validation\<close>

definition index_rule :: "nat \<Rightarrow> json \<Rightarrow> json" where
  "index_rule n v = JInt (min (max 0 (as_int v 0)) (int n - 1))"

definition scope_of :: "jobj \<Rightarrow> jobj list \<Rightarrow> jobj list \<Rightarrow> pool_scope" where
  "scope_of llm providers profiles =
     (let ids = map (\<lambda>p. jstr (jget ''provider_id'' p)) providers in
      \<lparr>ps_ids = ids, ps_active = ids ! nat (jint (jget ''active_provider_index'' llm)),
       ps_active_profile = jint (jget ''active_profile_index'' llm), ps_profiles = int (length profiles)\<rparr>)"

definition validate :: "py_conv \<Rightarrow> (nat \<Rightarrow> string) \<Rightarrow> options \<Rightarrow> options" where
  "validate conv hexes opts =
     (let providers = validate_providers conv hexes 0 []
            (if op_llm_providers opts = [] then [LLMProviderOptions (hexes 0)] else op_llm_providers opts);
          profiles = map (apply_rules (profile_rules conv))
            (if op_prompt_profiles opts = [] then [PromptProfileOptions] else op_prompt_profiles opts);
          llm = apply_rules [(''active_provider_index'', index_rule (length providers)), (''active_profile_index'', index_rule (length profiles))]
            (validate_llm conv (op_llm opts))
      in \<lparr>op_schema_version = current_schema_version,
          op_logging = apply_rules (logging_rules conv) (op_logging opts),
          op_notify = apply_rules (notify_rules conv) (op_notify opts),
          op_scans = apply_rules (scans_rules conv) (op_scans opts),
          op_pihole = apply_rules (pihole_rules conv) (op_pihole opts),
          op_llm = llm,
          op_research = apply_rules research_rules (op_research opts),
          op_updates = apply_rules (updates_rules conv) (op_updates opts),
          op_provider_registry = apply_rules (provider_registry_rules conv) (op_provider_registry opts),
          op_external_trigger = apply_rules (external_trigger_rules conv) (op_external_trigger opts),
          op_llm_providers = providers,
          op_analysis_pools = validate_pools conv (scope_of llm providers profiles) (op_analysis_pools opts),
          op_prompt_profiles = profiles,
          op_research_providers = validate_research_providers conv (op_research_providers opts),
          op_ui = validate_ui conv (op_ui opts)\<rparr>)"

section \<open>Applying field rules\<close>

lemma apply_rules_simps [simp]:
  "apply_rules [] inst = inst"
  "apply_rules ((k, r) # rs) inst = apply_rules rs (jput k (r (jget k inst)) inst)"
  by (simp_all add: apply_rules_def)

lemma jget_apply_rules_other: "k \<notin> fst ` set rs \<Longrightarrow> jget k (apply_rules rs inst) = jget k inst"
  by (induction rs arbitrary: inst) auto

lemma jget_apply_rules: "distinct (map fst rs) \<Longrightarrow> (k, r) \<in> set rs \<Longrightarrow> jget k (apply_rules rs inst) = r (jget k inst)"
proof (induction rs arbitrary: inst)
  case (Cons kr rs)
  obtain k' r' where kr: "kr = (k', r')" by fastforce
  show ?case
  proof (cases "k = k'")
    case True
    then have "(k, r) = kr" "k \<notin> fst ` set rs" using Cons.prems by (force simp: kr)+
    then show ?thesis by (simp add: kr jget_apply_rules_other)
  next
    case False
    then show ?thesis using Cons by (simp add: kr)
  qed
qed simp

lemma jget_apply_rules_case:
  "distinct (map fst rs) \<Longrightarrow>
    jget k (apply_rules rs inst) = (case map_of rs k of Some r \<Rightarrow> r (jget k inst) | None \<Rightarrow> jget k inst)"
  by (auto simp: jget_apply_rules_other map_of_eq_None_iff split: option.splits dest!: map_of_SomeD intro: jget_apply_rules)

lemma keys_apply_rules: "fst ` set rs \<subseteq> set (map fst inst) \<Longrightarrow> map fst (apply_rules rs inst) = map fst inst"
proof (induction rs arbitrary: inst)
  case (Cons kr rs)
  obtain k r where kr: "kr = (k, r)" by fastforce
  have "map fst (jput k (r (jget k inst)) inst) = map fst inst" using Cons.prems by (simp add: keys_jput jhas_keys kr)
  then show ?case using Cons.IH [of "jput k (r (jget k inst)) inst"] Cons.prems by (simp add: kr)
qed simp

text \<open>Rules that change nothing.\<close>

lemma apply_rules_id:
  "(\<And>k r. (k, r) \<in> set rs \<Longrightarrow> jhas k inst \<and> r (jget k inst) = jget k inst) \<Longrightarrow> apply_rules rs inst = inst"
proof (induction rs)
  case (Cons kr rs)
  obtain k r where kr: "kr = (k, r)" by fastforce
  have "jput k (r (jget k inst)) inst = inst" using Cons.prems [of k r] by (simp add: kr jput_same)
  moreover have "apply_rules rs inst = inst" by (rule Cons.IH) (rule Cons.prems, simp)
  ultimately show ?case by (simp add: kr)
qed simp

definition idem_rules :: "rules \<Rightarrow> bool" where
  "idem_rules rs \<longleftrightarrow> distinct (map fst rs) \<and> (\<forall>(k, r)\<in>set rs. \<forall>v. r (r v) = r v)"

lemma jhas_apply_rules: "jhas k (apply_rules rs inst) \<longleftrightarrow> k \<in> fst ` set rs \<or> jhas k inst"
  by (induction rs arbitrary: inst) (auto simp: image_iff Bex_def)

lemma apply_rules_idem: "idem_rules rs \<Longrightarrow> apply_rules rs (apply_rules rs inst) = apply_rules rs inst"
  by (rule apply_rules_id) (auto simp: idem_rules_def jget_apply_rules jhas_apply_rules image_iff Bex_def)

section \<open>Well-formed options\<close>

type_synonym field_spec = "(string \<times> (json \<Rightarrow> bool)) list"

definition conforms :: "field_spec \<Rightarrow> jobj \<Rightarrow> bool" where
  "conforms spec inst \<longleftrightarrow> list_all (\<lambda>(k, ok). ok (jget k inst)) spec"

fun is_bool :: "json \<Rightarrow> bool" where
  "is_bool (JBool _) = True"
| "is_bool _ = False"

fun is_str :: "json \<Rightarrow> bool" where
  "is_str (JStr _) = True"
| "is_str _ = False"

fun int_ge :: "int \<Rightarrow> json \<Rightarrow> bool" where
  "int_ge lo (JInt i) = (lo \<le> i)"
| "int_ge lo _ = False"

fun int_between :: "int \<Rightarrow> int \<Rightarrow> json \<Rightarrow> bool" where
  "int_between lo hi (JInt i) = (lo \<le> i \<and> i \<le> hi)"
| "int_between lo hi _ = False"

fun is_float :: "json \<Rightarrow> bool" where
  "is_float (JFloat _) = True"
| "is_float _ = False"

fun float_ge :: "pyfloat \<Rightarrow> json \<Rightarrow> bool" where
  "float_ge lo (JFloat x) = (lo \<le> x)"
| "float_ge lo _ = False"

fun float_between :: "pyfloat \<Rightarrow> pyfloat \<Rightarrow> json \<Rightarrow> bool" where
  "float_between lo hi (JFloat x) = (lo \<le> x \<and> x \<le> hi)"
| "float_between lo hi _ = False"

fun one_of :: "string list \<Rightarrow> json \<Rightarrow> bool" where
  "one_of choices (JStr s) = (s \<in> set choices)"
| "one_of choices _ = False"

definition logging_spec :: field_spec where
  "logging_spec =
     [(''enabled'', is_bool), (''level'', one_of [''DEBUG'', ''INFO'', ''WARNING'', ''ERROR'', ''CRITICAL'']), (''filename'', is_str),
      (''rotate_bytes'', int_ge 100000), (''backup_count'', int_ge 1)]"

definition notify_spec :: field_spec where
  "notify_spec = [(''enable_desktop'', is_bool), (''enable_sound'', is_bool), (''rate_limit_sec'', int_ge 0), (''toast_title'', is_str)]"

definition external_trigger_spec :: field_spec where
  "external_trigger_spec =
     [(''enabled'', is_bool), (''bind_host'', is_str), (''port'', int_between 1 65535), (''token'', is_str), (''allow_remote'', is_bool),
      (''max_domains_per_request'', int_between 1 5000)]"

text \<open>The suffixes that exclude a domain from scanning: distinct, none empty, each starting with a dot.\<close>

fun suffixes_ok :: "json \<Rightarrow> bool" where
  "suffixes_ok (JList xs) = (distinct xs \<and> list_all (\<lambda>v. case v of JStr s \<Rightarrow> py_startswith ''.'' s | _ \<Rightarrow> False) xs)"
| "suffixes_ok _ = False"

definition scans_spec :: field_spec where
  "scans_spec =
     [(''enabled'', is_bool), (''interval_sec'', int_ge 1), (''batch_size'', int_ge 1), (''initial_lookback_sec'', int_ge 1),
      (''queue_trigger_size'', int_ge 1), (''max_queue_wait_sec'', int_ge 1), (''history_backfill_enabled'', is_bool),
      (''history_idle_after_sec'', int_ge 30), (''history_lookback_days'', int_ge 1), (''history_batch_size'', int_ge 10),
      (''excluded_domain_suffixes'', suffixes_ok)]"

definition pihole_spec :: field_spec where
  "pihole_spec = [(''base_url'', is_str), (''password'', is_str), (''ca_bundle_path'', is_str), (''timeout_sec'', float_ge 1)]"

definition updates_spec :: field_spec where
  "updates_spec =
     [(''check_automatically'', is_bool), (''channel'', one_of [''stable'', ''prerelease'']), (''check_interval_hours'', int_ge 1),
      (''last_check_at'', int_ge 0)]"

definition provider_registry_spec :: field_spec where
  "provider_registry_spec =
     [(''auto_update'', is_bool), (''refresh_interval_hours'', int_ge 1), (''last_checked_at'', int_ge 0), (''registry_url'', is_str),
      (''signature_url'', is_str)]"

definition limit_spec :: field_spec where
  "limit_spec =
     [(''mode'', one_of [''auto'', ''auto_cap'', ''manual'']), (''quota_group'', is_str), (''requests_per_minute'', int_ge 0),
      (''requests_per_hour'', int_ge 0), (''requests_per_day'', int_ge 0), (''input_tokens_per_minute'', int_ge 0),
      (''output_tokens_per_minute'', int_ge 0), (''tokens_per_minute'', int_ge 0), (''tokens_per_hour'', int_ge 0),
      (''tokens_per_day'', int_ge 0), (''context_tokens'', int_ge 0), (''max_domains_per_request'', int_ge 0),
      (''units_per_day'', float_ge 0), (''safety_margin_percent'', float_between 0 50)]"

definition provider_spec :: field_spec where
  "provider_spec =
     [(''name'', is_str), (''preset_id'', is_str), (''api_style'', one_of [''openai_compatible'', ''anthropic_messages'']),
      (''base_url'', is_str), (''api_key'', is_str), (''model'', is_str), (''temperature'', is_float), (''timeout_sec'', float_ge 1),
      (''max_output_tokens'', int_ge 1), (''max_tokens_parameter'', one_of [''max_tokens'', ''max_completion_tokens'', ''none'']),
      (''send_temperature'', is_bool)]"

definition profile_spec :: field_spec where
  "profile_spec = [(''name'', is_str), (''system'', is_str), (''user_template'', is_str)]"

definition research_provider_spec :: field_spec where
  "research_provider_spec =
     [(''name'', is_str), (''kind'', one_of supported_research_kinds), (''enabled'', is_bool), (''base_url'', is_str), (''api_key'', is_str),
      (''test_domain'', is_str), (''timeout_sec'', float_ge 1), (''min_interval_sec'', float_ge 0), (''refresh_interval_hours'', int_ge 1),
      (''max_results'', int_ge 1)]"

definition membership_spec :: field_spec where
  "membership_spec =
     [(''enabled'', is_bool), (''role'', one_of [''primary'', ''fallback'', ''verifier'']), (''priority'', int_between 0 10000),
      (''weight'', int_between 1 100)]"

definition pool_spec :: "int \<Rightarrow> field_spec" where
  "pool_spec profiles =
     [(''name'', is_str), (''enabled'', is_bool), (''mode'', one_of [''distribute'', ''fallback'', ''compare'', ''verify'']),
      (''profile_index'', int_between 0 (profiles - 1)), (''max_parallel_requests'', int_between 1 16),
      (''verification_sample_percent'', int_between 0 100), (''verify_automatic_actions'', is_bool),
      (''verify_security_risk_at_least'', int_between 0 100), (''verify_breakage_risk_at_least'', int_between 0 100)]"

definition llm_spec :: field_spec where
  "llm_spec =
     [(''enabled'', is_bool), (''interval_sec'', int_ge 1), (''worker_batch_size'', int_ge 1), (''domains_per_request'', int_ge 1),
      (''min_request_interval_sec'', float_ge 0), (''max_retries'', int_ge 0), (''realtime_quota_reserve_percent'', float_between 0 90),
      (''quota_wait_timeout_sec'', float_ge 0), (''unknown_remote_requests_per_minute'', int_ge 1),
      (''unknown_remote_max_domains_per_request'', int_ge 1), (''default_recheck_days'', int_ge 1),
      (''review_confidence_threshold'', float_between 0 1), (''auto_action_min_confidence'', float_between 0 1), (''simulation_mode'', is_bool),
      (''require_research_for_auto_action'', is_bool), (''automation_mode'', one_of [''manual'', ''hybrid'', ''auto''])]"

definition ui_spec :: field_spec where
  "ui_spec =
     [(''theme'', one_of [''system'', ''light'', ''dark'']), (''show_tooltips'', is_bool), (''evidence_test_skip_api_key_sources'', is_bool),
      (''evidence_test_skip_missing_api_keys'', is_bool), (''lists_queue_only_unreviewed'', is_bool), (''auto_update_queries'', is_bool),
      (''auto_scroll_queries'', is_bool), (''history_deduplicate_domains'', is_bool), (''query_refresh_ms'', int_ge 500),
      (''window_width'', int_ge 800), (''window_height'', int_ge 600)]"

text \<open>The rules of a section against its specification, field by field.\<close>

definition rules_meet :: "rules \<Rightarrow> field_spec \<Rightarrow> bool" where
  "rules_meet rs spec \<longleftrightarrow> distinct (map fst rs) \<and> list_all2 (\<lambda>(k, r) (k', ok). k = k' \<and> (\<forall>v. ok (r v))) rs spec"

lemma rules_meet_conforms: "rules_meet rs spec \<Longrightarrow> conforms spec (apply_rules rs inst)"
  unfolding conforms_def list_all_iff
proof clarify
  fix k ok assume a: "rules_meet rs spec" and "(k, ok) \<in> set spec"
  then obtain i where i: "i < length spec" "spec ! i = (k, ok)" by (auto simp: in_set_conv_nth)
  obtain k' r where r: "rs ! i = (k', r)" by fastforce
  have "i < length rs" "k' = k" "\<forall>v. ok (r v)"
    using a i r list_all2_nthD2 [of _ rs spec i] by (auto simp: rules_meet_def list_all2_lengthD)
  moreover then have "(k, r) \<in> set rs" using r by (metis nth_mem)
  ultimately show "ok (jget k (apply_rules rs inst))" using a by (simp add: rules_meet_def jget_apply_rules)
qed

lemma rule_types [simp]:
  "is_bool (bool_rule d v)" "int_ge lo (int_min_rule lo e v)" "lo \<le> hi \<Longrightarrow> int_between lo hi (int_range_rule lo hi e v)"
  "is_float (float_rule conv x v)" "float_ge l (float_min_rule conv l x v)" "l \<le> h \<Longrightarrow> float_between l h (float_range_rule conv l h x v)"
  "is_str (str_rule conv s v)" "is_str (stripped_rule conv s v)" "is_str (url_rule conv v)" "is_str (preset_rule conv v)"
  "is_str (lower_rule conv v)" "is_str (stripped_lower_rule conv v)"
  "t \<in> set cs \<Longrightarrow> one_of cs (choice_rule conv cs t v)" "t \<in> set cs \<Longrightarrow> one_of cs (choice_or_rule conv cs t v)"
  by (simp_all add: bool_rule_def int_min_rule_def int_range_rule_def float_rule_def float_min_rule_def float_range_rule_def
      str_rule_def stripped_rule_def url_rule_def preset_rule_def lower_rule_def stripped_lower_rule_def choice_rule_def choice_or_rule_def Let_def)

end
