(* ===== verification/Config_Proofs.thy ===== *)
theory Config_Proofs
  imports Config_Validate
begin

text \<open>
  Validated options are well formed, whatever the fields held before: every field of every section has its
  type and range, tags have a policy and a recheck interval, provider identifiers are distinct, the two pools exist and refer
  to configured providers and profiles, and the table layouts show known columns only.
\<close>

section \<open>Sections\<close>

lemma one_of_level: "one_of [''DEBUG'', ''INFO'', ''WARNING'', ''ERROR'', ''CRITICAL''] (log_level_rule conv v)"
  by (simp add: log_level_rule_def Let_def)

lemma one_of_channel: "one_of [''stable'', ''prerelease''] (channel_rule conv v)"
  by (simp add: channel_rule_def Let_def)

lemma one_of_mode: "one_of [''manual'', ''hybrid'', ''auto''] (mode_rule conv v)"
  by (auto simp: mode_rule_def automation_mode_of_def split: if_splits)

lemma suffix_dot: "excluded_suffix s \<noteq> [] \<Longrightarrow> py_startswith ''.'' (excluded_suffix s)"
  by (auto simp: excluded_suffix_def Let_def py_startswith_def)

lemma distinct_suffix_fold: "distinct acc \<Longrightarrow> distinct (fold add_suffix ss acc)"
  by (induction ss arbitrary: acc) (simp_all add: add_suffix_def)

lemma set_suffix_fold: "set (fold add_suffix ss acc) \<subseteq> set acc \<union> (set ss - {[]})"
proof (induction ss arbitrary: acc)
  case (Cons s ss)
  show ?case using Cons [of "add_suffix s acc"] by (auto simp: add_suffix_def split: if_splits)
qed simp

lemma suffixes_rule_ok: "suffixes_ok (suffixes_rule conv v)"
proof -
  let ?entries = "case v of JList xs \<Rightarrow> map (py_str conv) xs | _ \<Rightarrow> [''.arpa'']"
  have "set (fold add_suffix (map excluded_suffix ?entries) []) \<subseteq> {s. py_startswith ''.'' s}"
    using set_suffix_fold [of "map excluded_suffix ?entries" "[]"] suffix_dot by fastforce
  then show ?thesis
    using distinct_suffix_fold [of "[]" "map excluded_suffix ?entries"]
    by (auto simp: suffixes_rule_def Let_def distinct_map list_all_iff inj_on_def)
qed

lemma sections_meet:
  "rules_meet (logging_rules conv) logging_spec" "rules_meet (notify_rules conv) notify_spec"
  "rules_meet (external_trigger_rules conv) external_trigger_spec" "rules_meet (scans_rules conv) scans_spec"
  "rules_meet (pihole_rules conv) pihole_spec" "rules_meet (updates_rules conv) updates_spec"
  "rules_meet (provider_registry_rules conv) provider_registry_spec" "rules_meet (limit_rules conv) limit_spec"
  "rules_meet (provider_rules conv) provider_spec" "rules_meet (profile_rules conv) profile_spec" "rules_meet (ui_rules conv) ui_spec"
  unfolding rules_meet_def
  by (simp_all add: logging_rules_def logging_spec_def one_of_level notify_rules_def notify_spec_def external_trigger_rules_def
      external_trigger_spec_def scans_rules_def scans_spec_def suffixes_rule_ok pihole_rules_def pihole_spec_def updates_rules_def updates_spec_def
      one_of_channel provider_registry_rules_def provider_registry_spec_def limit_rules_def limit_spec_def provider_rules_def provider_spec_def
      profile_rules_def profile_spec_def ui_rules_def ui_spec_def)

lemmas section_conforms = sections_meet [THEN rules_meet_conforms]

section \<open>The model section\<close>

text \<open>What the model section promises beyond the ranges of its fields: the batch bounds the request, the review threshold does not exceed
  the threshold for automatic actions, and every tag has a policy and a recheck interval of at least one day.\<close>

definition tags_ok :: "jobj \<Rightarrow> bool" where
  "tags_ok inst \<longleftrightarrow>
     (let tags = map jstr (jitems (jget ''tags'' inst));
          policies = jmapping (jget ''tag_policies'' inst);
          days = jmapping (jget ''tag_recheck_days'' inst)
      in jget ''tags'' inst = str_list tags \<and> tags \<noteq> [] \<and> distinct tags \<and>
         list_all (\<lambda>(_, v). is_str v) policies \<and> list_all (\<lambda>(_, v). int_ge 1 v) days \<and>
         list_all (\<lambda>t. jhas t policies \<and> jhas t days) tags)"

definition llm_ok :: "jobj \<Rightarrow> bool" where
  "llm_ok inst \<longleftrightarrow>
     conforms llm_spec inst \<and> tags_ok inst \<and>
     jint (jget ''domains_per_request'' inst) \<le> jint (jget ''worker_batch_size'' inst) \<and>
     jfloat (jget ''review_confidence_threshold'' inst) \<le> jfloat (jget ''auto_action_min_confidence'' inst)"

lemma set_jput: "set (jput k v d) \<subseteq> insert (k, v) (set d)"
  by (induction d) (auto simp: jput_def)

lemma jhas_default_tags_in: "jhas t (default_tags_in f tags d) \<longleftrightarrow> t \<in> set tags \<or> jhas t d"
  unfolding default_tags_in_def by (induction tags arbitrary: d) (auto simp: jsetdefault_def)

text \<open>A property of all values of a dictionary.\<close>

lemma snd_jput: "snd ` set (jput k v d) \<subseteq> insert v (snd ` set d)"
  using set_jput by fastforce

lemma values_default_tags_in: "snd ` set (default_tags_in f tags d) \<subseteq> range f \<union> snd ` set d"
  unfolding default_tags_in_def
proof (induction tags arbitrary: d)
  case (Cons t tags)
  have "snd ` set (jsetdefault t (f t) d) \<subseteq> range f \<union> snd ` set d" using snd_jput [of t "f t" d] by (auto simp: jsetdefault_def)
  then show ?case using Cons [of "jsetdefault t (f t) d"] unfolding fold_simps by blast
qed simp

lemma values_dict_fold: "snd ` set (fold (\<lambda>(k, v) d. AList.update k v d) kvs d) \<subseteq> snd ` set kvs \<union> snd ` set (d :: jobj)"
proof (induction kvs arbitrary: d)
  case (Cons kv kvs)
  obtain k v where kv: "kv = (k, v)" by fastforce
  show ?case using Cons [of "jput k v d"] snd_jput [of k v d] unfolding kv fold_simps prod.case jput_def [symmetric] by auto
qed simp

lemma policies_are_strings: "v \<in> snd ` set (llm_tag_policies conv tags x) \<Longrightarrow> is_str v"
proof -
  let ?kvs = "map (\<lambda>(k, y). (tag_text k, JStr (py_lower (py_strip (py_str conv y))))) (filter (\<lambda>(k, _). py_strip k \<noteq> []) (jmapping x))"
  have "snd ` set ?kvs \<subseteq> range JStr" by auto
  then have "snd ` set (dict_of ?kvs) \<subseteq> range JStr" using values_dict_fold [of ?kvs "[]"] by (auto simp: dict_of_def)
  then have "snd ` set (llm_tag_policies conv tags x) \<subseteq> range JStr"
    using values_default_tags_in [of "\<lambda>_. JStr (policy_value Policy_MANUAL_REVIEW)" tags "dict_of ?kvs"]
    unfolding llm_tag_policies_def by blast
  then show "v \<in> snd ` set (llm_tag_policies conv tags x) \<Longrightarrow> is_str v" by auto
qed

lemma recheck_fold_pos: "snd ` set d \<subseteq> Collect (int_ge 1) \<Longrightarrow> snd ` set (fold recheck_step kvs d) \<subseteq> Collect (int_ge 1)"
proof (induction kvs arbitrary: d)
  case (Cons kv kvs)
  have "snd ` set (recheck_step kv d) \<subseteq> Collect (int_ge 1)"
    using Cons.prems snd_jput [of "tag_text (fst kv)" _ d] by (auto simp: recheck_step_def Let_def split: option.splits) fastforce+
  then show ?case using Cons.IH by simp
qed simp

lemma default_recheck_pos: "map_of default_tag_recheck_days t = Some n \<Longrightarrow> 1 \<le> n"
proof -
  have "list_all (\<lambda>(_, n). 1 \<le> n) default_tag_recheck_days" by code_simp
  then show "map_of default_tag_recheck_days t = Some n \<Longrightarrow> 1 \<le> n" by (auto simp: list_all_iff dest!: map_of_SomeD)
qed

lemma rechecks_positive:
  assumes "1 \<le> d" and "v \<in> snd ` set (llm_tag_recheck_days d tags x)"
  shows "int_ge 1 v"
proof -
  let ?f = "\<lambda>t. JInt (case map_of default_tag_recheck_days t of Some n \<Rightarrow> n | None \<Rightarrow> d)"
  have "range ?f \<subseteq> Collect (int_ge 1)" using assms(1) default_recheck_pos by (auto split: option.splits)
  moreover have "snd ` set (fold recheck_step (jmapping x) []) \<subseteq> Collect (int_ge 1)" by (rule recheck_fold_pos) simp
  ultimately show ?thesis using assms(2) values_default_tags_in [of ?f tags "fold recheck_step (jmapping x) []"]
    unfolding llm_tag_recheck_days_def by blast
qed

lemma llm_tags_ok: "llm_tags conv v \<noteq> []" "distinct (llm_tags conv v)"
  by (auto simp: llm_tags_def Let_def cfg_normalize_tags_def split: json.splits)

lemma str_list_inv [simp]: "map jstr (jitems (str_list xs)) = xs"
  by (simp add: jitems_def str_list_def comp_def)

lemma jhas_llm_tables:
  "t \<in> set tags \<Longrightarrow> jhas t (llm_tag_policies conv tags v)" "t \<in> set tags \<Longrightarrow> jhas t (llm_tag_recheck_days d tags w)"
  by (simp_all add: llm_tag_policies_def llm_tag_recheck_days_def jhas_default_tags_in)

lemma validate_llm_tags_ok:
  assumes "1 \<le> jint (jget ''default_recheck_days'' inst)"
  shows "tags_ok (validate_llm_tags conv inst)"
  using policies_are_strings [of _ conv "llm_tags conv (jget ''tags'' inst)"] rechecks_positive [OF assms, of _ "llm_tags conv (jget ''tags'' inst)"]
  by (force simp: tags_ok_def validate_llm_tags_def Let_def llm_tags_ok jmapping_def list_all_iff jhas_llm_tables)

lemma conforms_unchanged:
  "conforms spec inst \<Longrightarrow> (\<And>k. k \<in> fst ` set spec \<Longrightarrow> jget k inst' = jget k inst) \<Longrightarrow> conforms spec inst'"
  by (force simp: conforms_def list_all_iff)

lemma jget_validate_llm_tags:
  "k \<notin> {''tags'', ''tag_policies'', ''tag_recheck_days''} \<Longrightarrow> jget k (validate_llm_tags conv inst) = jget k inst"
  by (simp add: validate_llm_tags_def Let_def)

lemma jget_llm_threshold: "k \<noteq> ''review_confidence_threshold'' \<Longrightarrow> jget k (llm_threshold inst) = jget k inst"
  by (simp add: llm_threshold_def)

lemma jget_domains_per_request: "k \<noteq> ''domains_per_request'' \<Longrightarrow> jget k (llm_domains_per_request inst) = jget k inst"
  by (simp add: llm_domains_per_request_def)

text \<open>The state before the tags are treated, field by field.\<close>

definition llm_fields :: "py_conv \<Rightarrow> jobj \<Rightarrow> jobj" where
  "llm_fields conv inst =
     apply_rules (llm_switch_rules conv) (llm_threshold (apply_rules (llm_number_rules conv)
       (llm_domains_per_request (apply_rules llm_first_rules inst))))"

lemmas llm_rule_defs = llm_first_rules_def llm_number_rules_def llm_switch_rules_def

lemma llm_fields_first:
  "jget ''enabled'' (llm_fields conv inst) = bool_rule False (jget ''enabled'' inst)"
  "jget ''interval_sec'' (llm_fields conv inst) = int_min_rule 1 10 (jget ''interval_sec'' inst)"
  "jget ''worker_batch_size'' (llm_fields conv inst) = int_min_rule 1 25 (jget ''worker_batch_size'' inst)"
  "jget ''domains_per_request'' (llm_fields conv inst) =
     JInt (min (max 1 (as_int (jget ''worker_batch_size'' inst) 25)) (max 1 (as_int (jget ''domains_per_request'' inst) 10)))"
  by (simp_all add: llm_fields_def llm_rule_defs llm_threshold_def llm_domains_per_request_def int_min_rule_def)

lemma llm_rules_distinct:
  "distinct (map fst (llm_number_rules conv))" "distinct (map fst (llm_switch_rules conv))"
  by (simp_all add: llm_rule_defs)

lemma llm_fields_numbers:
  assumes "(k, r) \<in> set (llm_number_rules conv)" and "k \<noteq> ''review_confidence_threshold''"
  shows "jget k (llm_fields conv inst) = r (jget k inst)"
proof -
  from assms(1) have "k \<in> set (map fst (llm_number_rules conv))" by force
  then have "k \<notin> fst ` set (llm_switch_rules conv)" "k \<notin> fst ` set llm_first_rules" "k \<noteq> ''domains_per_request''"
    by (auto simp: llm_rule_defs)
  then show ?thesis using assms jget_apply_rules [OF llm_rules_distinct(1) assms(1)]
    by (simp add: llm_fields_def jget_apply_rules_other jget_llm_threshold jget_domains_per_request)
qed

lemma llm_fields_switches:
  assumes "(k, r) \<in> set (llm_switch_rules conv)"
  shows "jget k (llm_fields conv inst) = r (jget k inst)"
proof -
  from assms have "k \<in> set (map fst (llm_switch_rules conv))" by force
  then have "k \<notin> fst ` set (llm_number_rules conv)" "k \<notin> fst ` set llm_first_rules" "k \<noteq> ''domains_per_request''"
    "k \<noteq> ''review_confidence_threshold''" by (auto simp: llm_rule_defs)
  then show ?thesis using jget_apply_rules [OF llm_rules_distinct(2) assms]
    by (simp add: llm_fields_def jget_apply_rules_other jget_llm_threshold jget_domains_per_request)
qed

lemma llm_fields_threshold:
  "jget ''review_confidence_threshold'' (llm_fields conv inst) =
     JFloat (min (min 1 (max 0 (as_float conv (jget ''review_confidence_threshold'' inst) (3 / 4))))
       (min 1 (max 0 (as_float conv (jget ''auto_action_min_confidence'' inst) (19 / 20)))))"
  by (simp add: llm_fields_def llm_rule_defs llm_threshold_def llm_domains_per_request_def float_range_rule_def min_def)

lemma llm_fields_conform: "conforms llm_spec (llm_fields conv inst)"
proof -
  have n: "jget k (llm_fields conv inst) = r (jget k inst)"
    if "(k, r) \<in> set (llm_number_rules conv)" "k \<noteq> ''review_confidence_threshold''" for k r
    using llm_fields_numbers that by blast
  have s: "jget k (llm_fields conv inst) = r (jget k inst)" if "(k, r) \<in> set (llm_switch_rules conv)" for k r
    using llm_fields_switches that by blast
  show ?thesis
    unfolding conforms_def llm_spec_def
    by (simp add: llm_fields_first llm_fields_threshold s [unfolded llm_switch_rules_def] n [unfolded llm_number_rules_def] one_of_mode)
qed

lemma llm_fields_ordered:
  "jint (jget ''domains_per_request'' (llm_fields conv inst)) \<le> jint (jget ''worker_batch_size'' (llm_fields conv inst))"
  "jfloat (jget ''review_confidence_threshold'' (llm_fields conv inst)) \<le> jfloat (jget ''auto_action_min_confidence'' (llm_fields conv inst))"
proof -
  have "jget ''auto_action_min_confidence'' (llm_fields conv inst) =
      float_range_rule conv 0 1 (19 / 20) (jget ''auto_action_min_confidence'' inst)"
    by (rule llm_fields_numbers) (simp_all add: llm_number_rules_def)
  then show "jfloat (jget ''review_confidence_threshold'' (llm_fields conv inst)) \<le> jfloat (jget ''auto_action_min_confidence'' (llm_fields conv inst))"
    by (simp only: llm_fields_threshold float_range_rule_def jfloat.simps min.cobounded2)
qed (simp add: llm_fields_first int_min_rule_def)

lemma validate_llm_fields: "validate_llm conv inst = validate_llm_tags conv (llm_fields conv inst)"
  by (simp add: validate_llm_def llm_fields_def)

lemma validate_llm_ok: "llm_ok (validate_llm conv inst)"
proof -
  have "1 \<le> jint (jget ''default_recheck_days'' (llm_fields conv inst))"
    using llm_fields_numbers [of "''default_recheck_days''" "int_min_rule 1 30" conv inst]
    by (simp add: llm_number_rules_def int_min_rule_def)
  moreover have "conforms llm_spec (validate_llm_tags conv (llm_fields conv inst))"
    by (rule conforms_unchanged [OF llm_fields_conform]) (auto simp: llm_spec_def jget_validate_llm_tags)
  ultimately show ?thesis using llm_fields_ordered [of conv inst]
    by (simp add: llm_ok_def validate_llm_fields validate_llm_tags_ok jget_validate_llm_tags)
qed

section \<open>Table layouts\<close>

definition table_ok :: "jobj \<Rightarrow> jobj \<Rightarrow> jobj \<Rightarrow> string \<Rightarrow> bool" where
  "table_ok visible order widths table \<longleftrightarrow>
     (let shown = map jstr (jitems (jget table visible)); ordered = map jstr (jitems (jget table order));
          default_order = the (map_of default_column_order table); w = jmapping (jget table widths)
      in jget table visible = str_list shown \<and> shown \<noteq> [] \<and> set shown \<subseteq> set (map fst (table_widths table)) \<and>
         jget table order = str_list ordered \<and> distinct ordered \<and> set ordered = set default_order \<and>
         map fst w = map fst (table_widths table) \<and> list_all (\<lambda>(_, v). int_ge 20 v) w)"

definition ui_ok :: "jobj \<Rightarrow> bool" where
  "ui_ok inst \<longleftrightarrow>
     conforms ui_spec inst \<and>
     list_all (table_ok (jmapping (jget ''table_visible_columns'' inst)) (jmapping (jget ''table_column_order'' inst))
       (jmapping (jget ''table_column_widths'' inst))) (map fst default_visible_columns) \<and>
     jget ''queries_colwidths'' inst = jget ''queries'' (jmapping (jget ''table_column_widths'' inst))"

text \<open>The loops over the tables write every table once, from its own entry.\<close>

lemma jget_table_fold:
  "distinct (map fst kds) \<Longrightarrow> (k, d) \<in> set kds \<Longrightarrow> (\<And>t x acc acc'. map_of acc t = map_of acc' t \<Longrightarrow> f t x acc = f t x acc') \<Longrightarrow>
    jget k (fold (\<lambda>(t, x) acc. jput t (f t x acc) acc) kds tables) = f k d tables"
proof (induction kds arbitrary: tables)
  case Nil
  from Nil.prems(2) show ?case by simp
next
  case (Cons kd kds)
  obtain t x where kd: "kd = (t, x)" by fastforce
  have skip: "k' \<notin> fst ` set kds \<Longrightarrow> jget k' (fold (\<lambda>(t, x) acc. jput t (f t x acc) acc) kds acc) = jget k' acc" for k' acc
    by (induction kds arbitrary: acc) auto
  show ?case
  proof (cases "k = t")
    case True
    have nin: "t \<notin> fst ` set kds" using Cons.prems(1) by (simp add: kd)
    then have "(k, d) \<notin> set kds" using True by (auto simp: image_iff)
    then have "d = x" "k \<notin> fst ` set kds" using Cons.prems(2) nin True by (simp_all add: kd)
    then show ?thesis using True by (simp add: kd skip)
  next
    case False
    then have "f k d (jput t (f t x tables) tables) = f k d tables"
      by (intro Cons.prems(3)) (simp add: jput_def update_conv)
    moreover have "jget k (fold (\<lambda>(t, x) acc. jput t (f t x acc) acc) kds (jput t (f t x tables) tables)) =
        f k d (jput t (f t x tables) tables)"
      by (rule Cons.IH) (use Cons.prems(1,2) False in \<open>simp add: kd\<close>, use Cons.prems(2) False in \<open>simp add: kd\<close>, rule Cons.prems(3))
    ultimately show ?thesis by (simp add: kd)
  qed
qed

lemma table_names:
  "map fst default_visible_columns = map fst default_column_order" "map fst default_visible_columns = map fst default_column_widths"
  "distinct (map fst default_visible_columns)"
  by (simp_all add: default_visible_columns_def default_column_order_def default_column_widths_def)

text \<open>The defaults themselves: known columns in every visible set, distinct orders.\<close>

lemma default_tables_ok:
  "(t, d) \<in> set default_visible_columns \<Longrightarrow> d \<noteq> [] \<and> set d \<subseteq> set (map fst (table_widths t))"
  "(t, d) \<in> set default_column_order \<Longrightarrow> distinct d"
proof -
  have "list_all (\<lambda>(t, d). d \<noteq> [] \<and> list_all (\<lambda>c. List.member (map fst (table_widths t)) c) d) default_visible_columns" by code_simp
  then show "(t, d) \<in> set default_visible_columns \<Longrightarrow> d \<noteq> [] \<and> set d \<subseteq> set (map fst (table_widths t))"
    by (auto simp: list_all_iff)
  have "list_all (\<lambda>(t, d). distinct d) default_column_order" by code_simp
  then show "(t, d) \<in> set default_column_order \<Longrightarrow> distinct d" by (auto simp: list_all_iff)
qed

lemma configured_columns_cong: "map_of a t = map_of b t \<Longrightarrow> configured_columns conv t d a = configured_columns conv t d b"
  by (simp add: configured_columns_def)

lemma jget_visible_tables:
  "(t, d) \<in> set default_visible_columns \<Longrightarrow> jget t (visible_tables conv tables) = str_list (visible_columns_of conv t d tables)"
  unfolding visible_tables_def
  by (rule jget_table_fold [where f="\<lambda>t d acc. str_list (visible_columns_of conv t d acc)"])
    (simp_all add: table_names(3) visible_columns_of_def cong: configured_columns_cong)

lemma jget_order_tables:
  "(t, d) \<in> set default_column_order \<Longrightarrow> jget t (order_tables conv tables) = str_list (column_order_of conv t d tables)"
  unfolding order_tables_def
  by (rule jget_table_fold [where f="\<lambda>t d acc. str_list (column_order_of conv t d acc)"])
    (simp_all add: table_names(1) [symmetric] table_names(3) column_order_of_def cong: configured_columns_cong)

lemma jget_width_tables:
  "(t, d) \<in> set default_visible_columns \<Longrightarrow> jget t (width_tables tables) = int_dict (widths_of t tables)"
  unfolding width_tables_def
  by (rule jget_table_fold [where f="\<lambda>t _ acc. int_dict (widths_of t acc)"]) (simp_all add: table_names(3) widths_of_def jget_def)

lemma visible_columns_ok:
  "(t, d) \<in> set default_visible_columns \<Longrightarrow>
    visible_columns_of conv t d tables \<noteq> [] \<and> set (visible_columns_of conv t d tables) \<subseteq> set (map fst (table_widths t))"
  using default_tables_ok(1) [of t d] by (auto simp: visible_columns_of_def Let_def)

lemma column_order_ok:
  "(t, d) \<in> set default_column_order \<Longrightarrow> distinct (column_order_of conv t d tables) \<and> set (column_order_of conv t d tables) = set d"
  using default_tables_ok(2) [of t d] by (auto simp: column_order_of_def Let_def)

lemma widths_ok: "map fst (widths_of t tables) = map fst (table_widths t)" "\<forall>(c, w)\<in>set (widths_of t tables). 20 \<le> w"
  by (auto simp: widths_of_def Let_def)

lemma table_ok_validated:
  assumes "t \<in> fst ` set default_visible_columns"
  shows "table_ok (visible_tables conv a) (order_tables conv b) (width_tables c) t"
proof -
  from assms obtain d where d: "(t, d) \<in> set default_visible_columns" by auto
  have "t \<in> set (map fst default_column_order)" using assms by (simp add: table_names(1) [symmetric])
  then obtain e where e: "map_of default_column_order t = Some e" by (metis map_of_eq_None_iff not_Some_eq list.set_map)
  then have e': "(t, e) \<in> set default_column_order" by (rule map_of_SomeD)
  have w: "map fst (jmapping (int_dict ws)) = map fst ws" "\<forall>(c, w)\<in>set ws. 20 \<le> w \<Longrightarrow> list_all (\<lambda>(_, v). int_ge 20 v) (jmapping (int_dict ws))"
    for ws by (auto simp: jmapping_def int_dict_def list_all_iff)
  show ?thesis
    using visible_columns_ok [OF d, of conv a] column_order_ok [OF e', of conv b] widths_ok [of t c]
    by (simp add: table_ok_def jget_visible_tables [OF d] jget_order_tables [OF e'] jget_width_tables [OF d] e w)
qed

lemma validate_ui_ok: "ui_ok (validate_ui conv inst)"
proof -
  let ?i = "apply_rules (ui_rules conv) inst"
  have "conforms ui_spec (validate_ui conv inst)"
    by (rule conforms_unchanged [OF section_conforms(11) [of conv inst]]) (auto simp: ui_spec_def validate_ui_def Let_def)
  moreover have "jget ''table_visible_columns'' (validate_ui conv inst) = JObj (visible_tables conv (jmapping (jget ''table_visible_columns'' ?i)))"
    "jget ''table_column_order'' (validate_ui conv inst) = JObj (order_tables conv (jmapping (jget ''table_column_order'' ?i)))"
    "jget ''table_column_widths'' (validate_ui conv inst) = JObj (width_tables (jmapping (jget ''table_column_widths'' ?i)))"
    "jget ''queries_colwidths'' (validate_ui conv inst) = jget ''queries'' (width_tables (jmapping (jget ''table_column_widths'' ?i)))"
    by (simp_all add: validate_ui_def Let_def jmapping_def)
  ultimately show ?thesis using table_ok_validated
    by (simp add: ui_ok_def list_all_iff jmapping_def [of "JObj _"])
qed

section \<open>Providers\<close>

definition pid_of :: "jobj \<Rightarrow> string" where
  "pid_of p = jstr (jget ''provider_id'' p)"

definition provider_ok :: "jobj \<Rightarrow> bool" where
  "provider_ok p \<longleftrightarrow>
     jget ''provider_id'' p = JStr (pid_of p) \<and> pid_of p \<noteq> [] \<and> conforms provider_spec p \<and>
     one_of [''auto'', ''json_schema'', ''json_object'', ''prompt_only''] (jget ''structured_output'' p) \<and>
     (jget ''api_style'' p = JStr ''anthropic_messages'' \<longrightarrow> jget ''structured_output'' p = JStr ''prompt_only'') \<and>
     conforms limit_spec (jmapping (jget ''limits'' p))"

lemma structured_output_ok:
  "one_of [''auto'', ''json_schema'', ''json_object'', ''prompt_only''] (structured_output_of conv style v)"
  "structured_output_of conv (JStr ''anthropic_messages'') v = JStr ''prompt_only''"
  by (simp_all add: structured_output_of_def Let_def)

lemma validate_provider_ok:
  assumes "pid \<noteq> []"
  shows "provider_ok (validate_provider conv pid p)" and "pid_of (validate_provider conv pid p) = pid"
proof -
  let ?i = "apply_rules (provider_rules conv) (jput ''provider_id'' (JStr pid) p)"
  have id: "jget ''provider_id'' ?i = JStr pid" by (subst jget_apply_rules_other) (simp_all add: provider_rules_def)
  have g: "jget k (validate_provider conv pid p) = jget k ?i" if "k \<notin> {''structured_output'', ''limits''}" for k
    using that by (simp add: validate_provider_def Let_def)
  have "jget ''structured_output'' (validate_provider conv pid p) =
        structured_output_of conv (jget ''api_style'' ?i) (jget ''structured_output'' ?i)"
    "jget ''limits'' (validate_provider conv pid p) = JObj (apply_rules (limit_rules conv) (limits_of (jget ''limits'' ?i)))"
    by (simp_all add: validate_provider_def Let_def)
  moreover have "conforms provider_spec (validate_provider conv pid p)"
    by (rule conforms_unchanged [OF section_conforms(9) [of conv "jput ''provider_id'' (JStr pid) p"]]) (auto simp: provider_spec_def g)
  ultimately show "provider_ok (validate_provider conv pid p)"
    using assms structured_output_ok section_conforms(8) [of conv "limits_of (jget ''limits'' ?i)"]
    by (auto simp: provider_ok_def pid_of_def g id jmapping_def)
  show "pid_of (validate_provider conv pid p) = pid" by (simp add: pid_of_def g id)
qed

text \<open>The identifiers that the file configures, and the assumption on \<open>uuid4\<close>: the generated identifiers are distinct and
  none of them is configured.\<close>

definition configured_ids :: "py_conv \<Rightarrow> jobj list \<Rightarrow> string list" where
  "configured_ids conv ps = map (\<lambda>p. py_strip (str_default conv (jget ''provider_id'' p) [])) ps"

definition fresh_hexes :: "py_conv \<Rightarrow> (nat \<Rightarrow> string) \<Rightarrow> jobj list \<Rightarrow> bool" where
  "fresh_hexes conv hexes ps \<longleftrightarrow>
     distinct (map hexes [0..<length ps]) \<and> list_all (\<lambda>i. ''provider-'' @ hexes i \<notin> set (configured_ids conv ps)) [0..<length ps]"

lemma provider_id_nonempty: "provider_id_of conv hex used v \<noteq> []"
  by (simp add: provider_id_of_def Let_def)

lemma validate_providers_ok: "p \<in> set (validate_providers conv hexes i used ps) \<Longrightarrow> provider_ok p"
  by (induction conv hexes i used ps rule: validate_providers.induct) (auto simp: Let_def validate_provider_ok provider_id_nonempty)

lemma length_validate_providers [simp]: "length (validate_providers conv hexes i used ps) = length ps"
  by (induction conv hexes i used ps rule: validate_providers.induct) (auto simp: Let_def)

lemma validate_providers_distinct:
  assumes "set used \<subseteq> C \<union> (\<lambda>j. ''provider-'' @ hexes j) ` {..<i}"
    and "set (configured_ids conv ps) \<subseteq> C"
    and "inj_on hexes {..<i + length ps}"
    and "\<forall>j<i + length ps. ''provider-'' @ hexes j \<notin> C"
  shows "distinct (map pid_of (validate_providers conv hexes i used ps)) \<and>
     set used \<inter> set (map pid_of (validate_providers conv hexes i used ps)) = {}"
  using assms
proof (induction conv hexes i used ps rule: validate_providers.induct)
  case (2 conv hexes i used p ps)
  let ?pid = "provider_id_of conv (hexes i) used (jget ''provider_id'' p)"
  have gen: "''provider-'' @ hexes i \<notin> set used"
  proof
    assume "''provider-'' @ hexes i \<in> set used"
    then have "''provider-'' @ hexes i \<in> C \<or> (\<exists>j<i. hexes i = hexes j)" using "2.prems"(1) by auto
    moreover have "''provider-'' @ hexes i \<notin> C" using "2.prems"(4) by simp
    moreover have "hexes i \<noteq> hexes j" if "j < i" for j using inj_onD [OF "2.prems"(3), of i j] that by auto
    ultimately show False by blast
  qed
  have mem: "?pid \<in> C \<union> (\<lambda>j. ''provider-'' @ hexes j) ` {..<Suc i}"
    using "2.prems"(2) by (auto simp: provider_id_of_def Let_def configured_ids_def)
  have new: "?pid \<notin> set used" using gen by (auto simp: provider_id_of_def Let_def)
  have "set (?pid # used) \<subseteq> C \<union> (\<lambda>j. ''provider-'' @ hexes j) ` {..<Suc i}" using mem "2.prems"(1) by auto
  from "2.IH" [OF refl this] "2.prems"(2-4)
  have "distinct (map pid_of (validate_providers conv hexes (Suc i) (?pid # used) ps))"
    "set (?pid # used) \<inter> set (map pid_of (validate_providers conv hexes (Suc i) (?pid # used) ps)) = {}"
    by (simp_all add: configured_ids_def)
  then show ?case using new by (auto simp: Let_def validate_provider_ok(2) provider_id_nonempty)
qed simp

lemma validated_ids_distinct: "fresh_hexes conv hexes ps \<Longrightarrow> distinct (map pid_of (validate_providers conv hexes 0 [] ps))"
  using validate_providers_distinct [of "[]" "set (configured_ids conv ps)" hexes 0 conv ps]
  by (auto simp: fresh_hexes_def distinct_map list_all_iff lessThan_atLeast0)

text \<open>Identifiers that are distinct already are kept.\<close>

lemma validate_providers_keep:
  "distinct (configured_ids conv ps) \<Longrightarrow> [] \<notin> set (configured_ids conv ps) \<Longrightarrow> set used \<inter> set (configured_ids conv ps) = {} \<Longrightarrow>
    map pid_of (validate_providers conv hexes i used ps) = configured_ids conv ps"
proof (induction conv hexes i used ps rule: validate_providers.induct)
  case (2 conv hexes i used p ps)
  let ?pid = "py_strip (str_default conv (jget ''provider_id'' p) [])"
  have "provider_id_of conv (hexes i) used (jget ''provider_id'' p) = ?pid"
    using "2.prems" by (auto simp: provider_id_of_def Let_def configured_ids_def)
  then show ?case using "2.IH" [OF refl] "2.prems" by (auto simp: Let_def configured_ids_def validate_provider_ok(2))
qed (simp add: configured_ids_def)

section \<open>Research sources\<close>

lemma validate_research_provider_ok:
  assumes "research_kind conv p \<in> set supported_research_kinds"
  shows "conforms research_provider_spec (validate_research_provider conv p)"
    and "jget ''kind'' (validate_research_provider conv p) = JStr (research_kind conv p)"
proof -
  let ?i = "apply_rules (research_provider_rules conv) p"
  have k: "jget ''kind'' ?i = JStr (research_kind conv p)"
    by (subst jget_apply_rules [of _ _ "lower_rule conv"]) (simp_all add: research_provider_rules_def lower_rule_def research_kind_def)
  have b: "is_str (jget ''base_url'' (rdap_base_url ?i))"
    by (simp add: rdap_base_url_def research_provider_rules_def)
  have g: "jget k (rdap_base_url ?i) = jget k ?i" if "k \<noteq> ''base_url''" for k using that by (simp add: rdap_base_url_def)
  have h: "jget k (validate_research_provider conv p) = jget k (rdap_base_url ?i)"
    if "k \<notin> {''timeout_sec'', ''min_interval_sec'', ''refresh_interval_hours'', ''max_results''}" for k
    using that by (simp add: validate_research_provider_def research_number_rules_def)
  have "is_str (jget ''name'' ?i) \<and> is_bool (jget ''enabled'' ?i) \<and> is_str (jget ''api_key'' ?i) \<and> is_str (jget ''test_domain'' ?i)"
    by (simp add: research_provider_rules_def)
  moreover have "float_ge 1 (jget ''timeout_sec'' (validate_research_provider conv p))"
    "float_ge 0 (jget ''min_interval_sec'' (validate_research_provider conv p))"
    "int_ge 1 (jget ''refresh_interval_hours'' (validate_research_provider conv p))" "int_ge 1 (jget ''max_results'' (validate_research_provider conv p))"
    by (simp_all add: validate_research_provider_def research_number_rules_def)
  ultimately show "conforms research_provider_spec (validate_research_provider conv p)"
    using assms b by (simp add: conforms_def research_provider_spec_def h g k)
  show "jget ''kind'' (validate_research_provider conv p) = JStr (research_kind conv p)" by (simp add: h g k)
qed

lemma default_kinds: "map (research_kind conv) default_research_providers = supported_research_kinds"
proof -
  have "map (\<lambda>p. jget ''kind'' p) default_research_providers = map JStr supported_research_kinds" by code_simp
  then have "map (\<lambda>p. py_lower (py_strip (py_str conv (jget ''kind'' p)))) default_research_providers =
      map (\<lambda>s. py_lower (py_strip s)) supported_research_kinds" by (auto dest: map_eq_imp_length_eq simp: list_eq_iff_nth_eq)
  also have "... = supported_research_kinds" by code_simp
  finally show ?thesis by (simp add: research_kind_def [abs_def])
qed

lemma sources_supported: "p \<in> set (with_default_sources conv ps) \<Longrightarrow> research_kind conv p \<in> set supported_research_kinds"
proof -
  have "q \<in> set default_research_providers \<Longrightarrow> research_kind conv q \<in> set supported_research_kinds" for q
    using default_kinds [of conv] by (metis image_eqI list.set_map)
  then show "p \<in> set (with_default_sources conv ps) \<Longrightarrow> ?thesis" by (auto simp: with_default_sources_def Let_def)
qed

lemma sources_complete: "k \<in> set supported_research_kinds \<Longrightarrow> k \<in> research_kind conv ` set (with_default_sources conv ps)"
proof -
  assume "k \<in> set supported_research_kinds"
  then obtain q where "q \<in> set default_research_providers" "research_kind conv q = k"
    using default_kinds [of conv] by (metis (no_types) imageE list.set_map)
  then show ?thesis by (auto simp: with_default_sources_def Let_def image_iff)
qed

section \<open>Pools\<close>

definition membership_ok :: "string list \<Rightarrow> jobj \<Rightarrow> bool" where
  "membership_ok ids m \<longleftrightarrow> jget ''provider_id'' m = JStr (pid_of m) \<and> pid_of m \<in> set ids \<and> conforms membership_spec m"

definition members_of :: "jobj \<Rightarrow> jobj list" where
  "members_of pool = jobjs (jitems (jget ''memberships'' pool))"

definition pool_ok :: "string list \<Rightarrow> int \<Rightarrow> string \<Rightarrow> jobj \<Rightarrow> bool" where
  "pool_ok ids profiles pool_id pool \<longleftrightarrow>
     jget ''pool_id'' pool = JStr pool_id \<and> conforms (pool_spec profiles) pool \<and>
     members_of pool \<noteq> [] \<and> distinct (map pid_of (members_of pool)) \<and> list_all (membership_ok ids) (members_of pool)"

lemma jobjs_map_JObj [simp]: "jobjs (map JObj xs) = xs"
  by (induction xs) (simp_all add: jobjs_def List.map_filter_def)

lemma jitems_JList [simp]: "jitems (JList xs) = xs"
  by (simp add: jitems_def)

lemma membership_rules_ok:
  "conforms membership_spec (apply_rules (membership_rules conv) m)"
  "jget ''provider_id'' (apply_rules (membership_rules conv) m) = JStr (membership_id conv m)"
  by (simp_all add: conforms_def membership_spec_def membership_rules_def membership_id_def stripped_rule_def)

lemma validate_memberships_ok:
  "set ids' = set ids \<Longrightarrow> list_all (membership_ok ids') (validate_memberships conv ids seen ms)"
  by (induction conv ids seen ms rule: validate_memberships.induct) (auto simp: Let_def membership_ok_def membership_rules_ok pid_of_def)

lemma validate_memberships_distinct:
  "distinct (map pid_of (validate_memberships conv ids seen ms)) \<and> set seen \<inter> set (map pid_of (validate_memberships conv ids seen ms)) = {}"
  by (induction conv ids seen ms rule: validate_memberships.induct) (auto simp: Let_def membership_rules_ok pid_of_def)

lemma sole_membership_ok: "pid \<in> set ids \<Longrightarrow> membership_ok ids (sole_membership pid)" "pid_of (sole_membership pid) = pid"
  by (simp_all add: membership_ok_def sole_membership_def pid_of_def conforms_def membership_spec_def ProviderPoolMembershipOptions_def jget_def jput_def)

text \<open>The scope in which pools are validated: at least one provider, the active one among them, the active profile in range.\<close>

definition scope_ok :: "pool_scope \<Rightarrow> bool" where
  "scope_ok scope \<longleftrightarrow> ps_active scope \<in> set (ps_ids scope) \<and> 0 \<le> ps_active_profile scope \<and> ps_active_profile scope < ps_profiles scope"

lemma pool_rules_meet: "0 < ps_profiles scope \<Longrightarrow> rules_meet (pool_rules conv scope pool_id) (pool_spec (ps_profiles scope))"
  by (simp add: rules_meet_def pool_rules_def pool_spec_def pool_default_mode_def)

lemma validate_pool_ok:
  assumes "scope_ok scope"
  shows "pool_ok (ps_ids scope) (ps_profiles scope) pool_id (validate_pool conv scope pool_id pool)"
proof -
  let ?i = "apply_rules (pool_rules conv scope pool_id) (jput ''pool_id'' (JStr pool_id) pool)"
  let ?v = "validate_pool conv scope pool_id pool"
  let ?m = "validate_memberships conv (ps_ids scope) [] (jobjs (jitems (jget ''memberships'' ?i)))"
  have g: "jget k ?v = jget k ?i" if "k \<noteq> ''memberships''" for k using that by (simp add: validate_pool_def Let_def)
  have m: "members_of ?v = (if ?m = [] then [sole_membership (ps_active scope)] else ?m)"
    by (simp add: members_of_def validate_pool_def Let_def jobjs_map_JObj [of "[_]", simplified])
  have "conforms (pool_spec (ps_profiles scope)) ?v"
    by (rule conforms_unchanged [OF rules_meet_conforms [OF pool_rules_meet, of scope conv pool_id "jput ''pool_id'' (JStr pool_id) pool"]])
      (use assms in \<open>auto simp: scope_ok_def pool_spec_def g\<close>)
  moreover have "jget ''pool_id'' ?v = JStr pool_id" by (simp add: g) (subst jget_apply_rules_other, simp_all add: pool_rules_def)
  ultimately show ?thesis
    using assms validate_memberships_ok [OF refl, of "ps_ids scope" conv "[]"] validate_memberships_distinct [of conv "ps_ids scope" "[]"]
    by (simp add: pool_ok_def m sole_membership_ok scope_ok_def)
qed

lemma fallback_pool_ok:
  assumes "scope_ok scope" and "pool_id \<in> {''realtime'', ''background''}"
  shows "pool_ok (ps_ids scope) (ps_profiles scope) pool_id (fallback_pool scope pool_id)"
proof -
  let ?d = "default_analysis_pool pool_id (ps_active scope) (ps_active_profile scope)"
  have d: "distinct (map fst ?d)" "map fst ?d = map fst AnalysisPoolOptions"
    by (simp_all add: default_analysis_pool_def AnalysisPoolOptions_def)
  then have "jget k (coerce_dataclass AnalysisPoolOptions (JObj ?d)) = jget k ?d" if "k \<in> set (map fst ?d)" for k
    using that by (simp add: coerce_get jhas_keys)
  then have g: "jget k (fallback_pool scope pool_id) = jget k ?d" if "k \<in> set (map fst ?d) - {''memberships''}" for k
    using that by (simp add: fallback_pool_def)
  have m: "members_of (fallback_pool scope pool_id) = [sole_membership (ps_active scope)]"
    using jobjs_map_JObj [of "[sole_membership (ps_active scope)]"] by (simp add: members_of_def fallback_pool_def)
  have "conforms (pool_spec (ps_profiles scope)) ?d" "jget ''pool_id'' ?d = JStr pool_id"
    using assms by (auto simp: conforms_def pool_spec_def default_analysis_pool_def jget_def pool_default_mode_def scope_ok_def)
  moreover have "conforms (pool_spec (ps_profiles scope)) (fallback_pool scope pool_id)"
    by (rule conforms_unchanged [OF calculation(1)]) (rule g, auto simp: pool_spec_def default_analysis_pool_def)
  moreover have "jget ''pool_id'' (fallback_pool scope pool_id) = jget ''pool_id'' ?d"
    by (rule g) (simp add: default_analysis_pool_def)
  ultimately show ?thesis using assms by (simp add: pool_ok_def m sole_membership_ok scope_ok_def)
qed

lemma pool_fold_ok:
  assumes "scope_ok scope" and "\<forall>k p. map_of by_id k = Some p \<longrightarrow> pool_ok (ps_ids scope) (ps_profiles scope) k p"
  shows "map_of (fold (pool_step conv scope) pools by_id) k = Some p \<Longrightarrow> pool_ok (ps_ids scope) (ps_profiles scope) k p"
  using assms(2)
proof (induction pools arbitrary: by_id)
  case (Cons q pools)
  have "\<forall>k p. map_of (pool_step conv scope q by_id) k = Some p \<longrightarrow> pool_ok (ps_ids scope) (ps_profiles scope) k p"
    using Cons.prems(2) validate_pool_ok [OF assms(1)] by (auto simp: pool_step_def Let_def update_conv split: if_splits)
  then show ?case using Cons by simp
qed simp

lemma validate_pools_ok:
  assumes "scope_ok scope"
  shows "\<exists>r b. validate_pools conv scope pools = [r, b] \<and> pool_ok (ps_ids scope) (ps_profiles scope) ''realtime'' r \<and>
    pool_ok (ps_ids scope) (ps_profiles scope) ''background'' b"
  using pool_fold_ok [OF assms, of "[]" conv pools] fallback_pool_ok [OF assms]
  by (auto simp: validate_pools_def Let_def split: option.splits)

section \<open>The whole options\<close>

definition options_ok :: "options \<Rightarrow> bool" where
  "options_ok opts \<longleftrightarrow>
     (let ids = map pid_of (op_llm_providers opts); profiles = int (length (op_prompt_profiles opts)) in
      op_schema_version opts = current_schema_version \<and>
      conforms logging_spec (op_logging opts) \<and> conforms notify_spec (op_notify opts) \<and> conforms scans_spec (op_scans opts) \<and>
      conforms pihole_spec (op_pihole opts) \<and> llm_ok (op_llm opts) \<and> conforms [(''max_age_days'', int_ge 1)] (op_research opts) \<and>
      conforms updates_spec (op_updates opts) \<and> conforms provider_registry_spec (op_provider_registry opts) \<and>
      conforms external_trigger_spec (op_external_trigger opts) \<and> ui_ok (op_ui opts) \<and>
      list_all provider_ok (op_llm_providers opts) \<and> ids \<noteq> [] \<and> distinct ids \<and>
      list_all (conforms profile_spec) (op_prompt_profiles opts) \<and> 0 < profiles \<and>
      int_between 0 (int (length ids) - 1) (jget ''active_provider_index'' (op_llm opts)) \<and>
      int_between 0 (profiles - 1) (jget ''active_profile_index'' (op_llm opts)) \<and>
      list_all (conforms research_provider_spec) (op_research_providers opts) \<and>
      list_all (\<lambda>k. list_ex (\<lambda>p. jget ''kind'' p = JStr k) (op_research_providers opts)) supported_research_kinds \<and>
      list_all2 (pool_ok ids profiles) [''realtime'', ''background''] (op_analysis_pools opts))"

definition used_providers :: "(nat \<Rightarrow> string) \<Rightarrow> options \<Rightarrow> jobj list" where
  "used_providers hexes opts = (if op_llm_providers opts = [] then [LLMProviderOptions (hexes 0)] else op_llm_providers opts)"

definition used_profiles :: "options \<Rightarrow> jobj list" where
  "used_profiles opts = (if op_prompt_profiles opts = [] then [PromptProfileOptions] else op_prompt_profiles opts)"

definition index_rules :: "nat \<Rightarrow> nat \<Rightarrow> rules" where
  "index_rules n m = [(''active_provider_index'', index_rule n), (''active_profile_index'', index_rule m)]"

lemma index_rule_range: "0 < n \<Longrightarrow> int_between 0 (int n - 1) (index_rule n v)"
  by (simp add: index_rule_def)

lemma index_rules_get:
  "jget ''active_provider_index'' (apply_rules (index_rules n m) inst) = index_rule n (jget ''active_provider_index'' inst)"
  "jget ''active_profile_index'' (apply_rules (index_rules n m) inst) = index_rule m (jget ''active_profile_index'' inst)"
  by (simp_all add: index_rules_def)

lemma index_rules_llm_ok: "llm_ok inst \<Longrightarrow> llm_ok (apply_rules (index_rules n m) inst)"
proof -
  assume ok: "llm_ok inst"
  have g: "jget k (apply_rules (index_rules n m) inst) = jget k inst"
    if "k \<notin> {''active_provider_index'', ''active_profile_index''}" for k
    using that by (simp add: index_rules_def)
  have "conforms llm_spec (apply_rules (index_rules n m) inst)"
    by (rule conforms_unchanged [of _ inst]) (use ok in \<open>auto simp: llm_ok_def llm_spec_def g\<close>)
  then show ?thesis using ok by (simp add: llm_ok_def tags_ok_def g)
qed

lemma scope_of_ok:
  assumes "providers \<noteq> []" and "profiles \<noteq> []"
  shows "scope_ok (scope_of (apply_rules (index_rules (length providers) (length profiles)) llm) providers profiles)"
proof -
  have "nat (min (max 0 x) (int (length providers) - 1)) < length providers" for x using assms(1) by (cases providers) auto
  then show ?thesis using assms
    by (auto simp: scope_ok_def scope_of_def Let_def index_rules_get index_rule_def nth_mem min_def)
qed

lemma validate_unfold:
  "validate conv hexes opts =
    (let providers = validate_providers conv hexes 0 [] (used_providers hexes opts);
         profiles = map (apply_rules (profile_rules conv)) (used_profiles opts);
         llm = apply_rules (index_rules (length providers) (length profiles)) (validate_llm conv (op_llm opts))
     in \<lparr>op_schema_version = current_schema_version, op_logging = apply_rules (logging_rules conv) (op_logging opts),
          op_notify = apply_rules (notify_rules conv) (op_notify opts), op_scans = apply_rules (scans_rules conv) (op_scans opts),
          op_pihole = apply_rules (pihole_rules conv) (op_pihole opts), op_llm = llm,
          op_research = apply_rules research_rules (op_research opts), op_updates = apply_rules (updates_rules conv) (op_updates opts),
          op_provider_registry = apply_rules (provider_registry_rules conv) (op_provider_registry opts),
          op_external_trigger = apply_rules (external_trigger_rules conv) (op_external_trigger opts), op_llm_providers = providers,
          op_analysis_pools = validate_pools conv (scope_of llm providers profiles) (op_analysis_pools opts), op_prompt_profiles = profiles,
          op_research_providers = validate_research_providers conv (op_research_providers opts), op_ui = validate_ui conv (op_ui opts)\<rparr>)"
  unfolding validate_def used_providers_def used_profiles_def index_rules_def ..

lemma validate_ok_if_distinct:
  assumes "distinct (map pid_of (validate_providers conv hexes 0 [] (used_providers hexes opts)))"
  shows "options_ok (validate conv hexes opts)"
proof -
  let ?ps = "validate_providers conv hexes 0 [] (used_providers hexes opts)"
  let ?fs = "map (apply_rules (profile_rules conv)) (used_profiles opts)"
  let ?llm = "apply_rules (index_rules (length ?ps) (length ?fs)) (validate_llm conv (op_llm opts))"
  let ?scope = "scope_of ?llm ?ps ?fs"
  have ne: "used_providers hexes opts \<noteq> []" "used_profiles opts \<noteq> []" by (simp_all add: used_providers_def used_profiles_def)
  then have ne': "?ps \<noteq> []" "?fs \<noteq> []" by (simp_all flip: length_greater_0_conv)
  obtain r b where rb: "validate_pools conv ?scope (op_analysis_pools opts) = [r, b]"
    "pool_ok (ps_ids ?scope) (ps_profiles ?scope) ''realtime'' r" "pool_ok (ps_ids ?scope) (ps_profiles ?scope) ''background'' b"
    using validate_pools_ok [OF scope_of_ok [OF ne'], where conv=conv and pools="op_analysis_pools opts"] by blast
  have ids: "ps_ids ?scope = map pid_of ?ps" "ps_profiles ?scope = int (length ?fs)" by (simp_all add: scope_of_def Let_def pid_of_def)
  have idx: "int_between 0 (int (length ?ps) - 1) (jget ''active_provider_index'' ?llm)"
    "int_between 0 (int (length ?fs) - 1) (jget ''active_profile_index'' ?llm)"
    using ne ne' index_rule_range [of "length ?ps"] index_rule_range [of "length ?fs"] by (simp_all add: index_rules_get)
  have research: "list_all (conforms research_provider_spec) (validate_research_providers conv (op_research_providers opts))"
    "list_all (\<lambda>k. list_ex (\<lambda>p. jget ''kind'' p = JStr k) (validate_research_providers conv (op_research_providers opts))) supported_research_kinds"
    using validate_research_provider_ok [OF sources_supported] sources_complete [of _ conv "op_research_providers opts"]
    by (auto simp: validate_research_providers_def list_all_iff list_ex_iff image_iff) force
  have "conforms [(''max_age_days'', int_ge 1)] (apply_rules research_rules (op_research opts))"
    by (simp add: conforms_def research_rules_def)
  moreover have "list_all provider_ok ?ps" "list_all (conforms profile_spec) ?fs"
    using validate_providers_ok section_conforms(10) by (auto simp: list_all_iff)
  ultimately show ?thesis
    using rb ids idx research ne ne' index_rules_llm_ok [OF validate_llm_ok] validate_ui_ok assms
      section_conforms(1-7)
    by (simp add: options_ok_def validate_unfold Let_def)
qed

text \<open>C28. Whatever JSON values the option fields hold when they are loaded, validated options are well formed: every field of every
  section has its type and range, request sizes and confidence thresholds are ordered, every tag has a policy and a recheck interval of at least
  a day, provider identifiers are distinct and not empty, the active indices and the pools' profile indices are in range, exactly
  the realtime and the background pool exist and every membership names a configured provider, every supported research
  kind has a source, and the table layouts hold known columns only. The hypothesis is that \<open>uuid4\<close> returns identifiers that are new.\<close>

theorem validated_options_ok:
  assumes "fresh_hexes conv hexes (used_providers hexes opts)"
  shows "options_ok (validate conv hexes opts)"
  by (rule validate_ok_if_distinct [OF validated_ids_distinct [OF assms]])

definition ex_loaded :: options where
  "ex_loaded = (default_options ''0'')
     \<lparr>op_external_trigger := jput ''port'' (JStr ''99999'') ExternalTriggerOptions,
      op_llm_providers := [jput ''provider_id'' (JStr ''p'') (LLMProviderOptions ''1''), jput ''provider_id'' (JStr '' p '') (LLMProviderOptions ''2'')],
      op_llm := jput ''active_provider_index'' (JInt 7) (jput ''tags'' (JList [JStr ''Ad Server'', JStr '' '']) LLMOptions)\<rparr>"

definition ex_hexes :: "nat \<Rightarrow> string" where
  "ex_hexes i = show_nat i"

lemma validate_parts:
  "op_external_trigger (validate conv hexes opts) = apply_rules (external_trigger_rules conv) (op_external_trigger opts)"
  "op_llm_providers (validate conv hexes opts) = validate_providers conv hexes 0 [] (used_providers hexes opts)"
  by (simp_all add: validate_unfold Let_def)

lemma validated_options_ok_witness:
  "fresh_hexes ex_conv ex_hexes (used_providers ex_hexes ex_loaded) \<and> options_ok (validate ex_conv ex_hexes ex_loaded) \<and>
   jget ''port'' (op_external_trigger (validate ex_conv ex_hexes ex_loaded)) = JInt 65535 \<and>
   map pid_of (op_llm_providers (validate ex_conv ex_hexes ex_loaded)) = [''p'', ''provider-1'']"
proof -
  have u: "used_providers ex_hexes ex_loaded =
      [jput ''provider_id'' (JStr ''p'') (LLMProviderOptions ''1''), jput ''provider_id'' (JStr '' p '') (LLMProviderOptions ''2'')]"
    by (simp add: used_providers_def ex_loaded_def)
  have "fresh_hexes ex_conv ex_hexes (used_providers ex_hexes ex_loaded)" unfolding u by code_simp
  moreover from this have "options_ok (validate ex_conv ex_hexes ex_loaded)" by (rule validated_options_ok)
  moreover have "jget ''port'' (apply_rules (external_trigger_rules ex_conv) (jput ''port'' (JStr ''99999'') ExternalTriggerOptions)) = JInt 65535"
    by code_simp
  moreover have "map pid_of (validate_providers ex_conv ex_hexes 0 [] (used_providers ex_hexes ex_loaded)) = [''p'', ''provider-1'']"
    unfolding u by code_simp
  ultimately show ?thesis by (simp add: validate_parts ex_loaded_def)
qed

end
