(* ===== verification/Config_Migrate.thy ===== *)
theory Config_Migrate
  imports Config_Proofs
begin

text \<open>
  \<open>_migrated_provider_id\<close>, \<open>_migrate\<close> and \<open>load_options\<close> of \<open>pihole_manager/config.py\<close>: the configuration file, as parsed JSON, is
  brought to the current schema, turned into dataclass instances and validated. \<open>sha\<close> is the hexadecimal SHA-256 digest of a
  text. A \<open>TypeError\<close> raised on the way (iterating a number or a boolean) is a value of \<open>config_error\<close>.
\<close>

section \<open>Python values\<close>

datatype config_error = UnsupportedConfigVersion int | ConfigTypeError

text \<open>\<open>a or b\<close>, \<open>d.get(k, default)\<close>, \<open>d.pop(k, None)\<close> and the items of \<open>value or []\<close>.\<close>

definition json_or :: "json \<Rightarrow> json \<Rightarrow> json" where
  "json_or a b = (if json_truthy a then a else b)"

definition jget_or :: "string \<Rightarrow> json \<Rightarrow> jobj \<Rightarrow> json" where
  "jget_or k d inst = (case map_of inst k of Some v \<Rightarrow> v | None \<Rightarrow> d)"

definition jpop :: "string \<Rightarrow> jobj \<Rightarrow> jobj" where
  "jpop k inst = AList.delete k inst"

definition iter_items :: "json \<Rightarrow> config_error + json list" where
  "iter_items v =
     (if \<not> json_truthy v then Inr []
      else case v of
        JList xs \<Rightarrow> Inr xs
      | JStr s \<Rightarrow> Inr (map (\<lambda>c. JStr [c]) s)
      | JObj kvs \<Rightarrow> Inr (map (\<lambda>(k, _). JStr k) kvs)
      | _ \<Rightarrow> Inl ConfigTypeError)"

section \<open>Sections\<close>

definition source_version :: "jobj \<Rightarrow> int" where
  "source_version raw = as_int (json_or (jget ''schema_version'' raw) (JInt 0)) 0"

definition migrate_pihole :: "py_conv \<Rightarrow> jobj \<Rightarrow> jobj" where
  "migrate_pihole conv p =
     (let p = jput ''base_url'' (json_or (json_or (jget ''base_url'' p) (jget ''host'' p)) (JStr ''http://pi.hole'')) p;
          p = jput ''password'' (json_or (json_or (jget ''password'' p) (jget ''app_password'' p)) (JStr [])) p;
          p = jput ''ca_bundle_path'' (JStr (py_strip (str_default conv (jget ''ca_bundle_path'' p) []))) p
      in jpop ''verify_tls'' p)"

definition migrate_logging :: "jobj \<Rightarrow> jobj" where
  "migrate_logging l =
     (let l = jput ''enabled'' (jget_or ''enabled'' (jget_or ''to_file'' (JBool True) l) l) l
      in jput ''filename'' (json_or (json_or (jget ''filename'' l) (jget ''file'' l)) (JStr ''pihole_manager.log'')) l)"

definition migrate_scans :: "jobj \<Rightarrow> jobj" where
  "migrate_scans s = jput ''batch_size'' (jget_or ''batch_size'' (jget_or ''batch'' (JInt 200) s) s) s"

definition migrate_llm :: "jobj \<Rightarrow> jobj" where
  "migrate_llm l =
     (let l = (if jhas ''profile_active_index'' l \<and> \<not> jhas ''active_profile_index'' l
               then jput ''active_profile_index'' (jget ''profile_active_index'' l) l else l);
          l = jput ''worker_batch_size'' (jget_or ''worker_batch_size'' (jget_or ''batch_size'' (jget_or ''batch'' (JInt 25) l) l) l) l;
          tags = json_or (jget ''tags'' l) (jget ''categories'' l);
          l = (if json_truthy tags then jput ''tags'' tags l else l);
          policies = json_or (jget ''tag_policies'' l) (jget ''category_policies'' l);
          l = (if json_truthy policies then jput ''tag_policies'' policies l else l)
      in jsetdefault ''tag_recheck_days'' (int_dict default_tag_recheck_days) l)"

text \<open>The columns added to the review table: \<open>order\<close> at position 1 and \<open>queued\<close> at position 2.\<close>

definition insert_column :: "string \<times> nat \<Rightarrow> json list \<Rightarrow> json list" where
  "insert_column cp cols =
     (if JStr (fst cp) \<in> set cols then cols
      else let i = min (snd cp) (length cols) in take i cols @ [JStr (fst cp)] @ drop i cols)"

definition add_review_columns :: "json list \<Rightarrow> json list" where
  "add_review_columns cols = fold insert_column [(''order'', 1), (''queued'', 2)] cols"

definition migrate_review_columns :: "string \<Rightarrow> jobj \<Rightarrow> config_error + jobj" where
  "migrate_review_columns key ui =
     (let tables = jmapping (jget key ui) in
      case iter_items (jget ''review'' tables) of
        Inl e \<Rightarrow> Inl e
      | Inr cols \<Rightarrow> Inr (if cols = [] then ui else jput key (JObj (jput ''review'' (JList (add_review_columns cols)) tables)) ui))"

definition migrate_ui :: "jobj \<Rightarrow> config_error + jobj" where
  "migrate_ui u =
     (let u = (if \<not> jhas ''table_column_widths'' u \<and> jhas ''queries_colwidths'' u
               then jput ''table_column_widths''
                 (JObj (jput ''queries'' (JObj (jmapping (jget ''queries_colwidths'' u))) (jmapping (jget ''table_column_widths'' UIOptions)))) u
               else u);
          u = jsetdefault ''show_tooltips'' (JBool True) u
      in case migrate_review_columns ''table_visible_columns'' u of
           Inl e \<Rightarrow> Inl e | Inr u \<Rightarrow> migrate_review_columns ''table_column_order'' u)"

definition migrate_updates :: "jobj \<Rightarrow> jobj" where
  "migrate_updates u =
     (let u = jsetdefault ''check_automatically'' (JBool False) u;
          u = (if jhas ''channel'' u then u
               else jput ''channel'' (JStr (if json_truthy (jget ''include_prereleases'' u) then ''prerelease'' else ''stable'')) u);
          u = jpop ''include_prereleases'' u
      in jsetdefault ''last_check_at'' (JInt 0) (jsetdefault ''check_interval_hours'' (JInt 24) u))"

definition with_defaults :: "jobj \<Rightarrow> jobj \<Rightarrow> jobj" where
  "with_defaults defaults inst = fold (\<lambda>(k, v) acc. jsetdefault k v acc) defaults inst"

definition migrate_research :: "jobj \<Rightarrow> jobj" where
  "migrate_research r = jpop ''run_before_llm'' (jpop ''enabled'' r)"

section \<open>Profiles and research sources\<close>

definition known_default_systems :: "string list" where
  "known_default_systems =
     [''You classify DNS domains for a Pi-hole v6 administrator. Use the supplied evidence, distinguish facts from '' @
      ''inference, and prefer manual review when evidence is weak or blocking may break an important service.'',
      ''You classify DNS domains for a Pi-hole v6 administrator. Start with the supplied domain dossier and distinguish '' @
      ''verified facts from inference. If the selected model and API perform live web search without an additional tool '' @
      ''request, independently verify the exact domain using official vendor documentation, GitHub code, issues and '' @
      ''discussions, Pi-hole community reports, reputable blocklist repositories, and credible user reports. Never claim '' @
      ''to have searched the web when browsing is not available. Include useful source URLs in details when known, and '' @
      ''prefer manual review when evidence is weak or blocking may break an important service.'']"

definition migrate_profile :: "py_conv \<Rightarrow> jobj \<Rightarrow> jobj" where
  "migrate_profile conv p =
     (if py_lower (py_strip (str_default conv (jget ''name'' p) [])) = ''balanced'' \<and>
        py_strip (str_default conv (jget ''system'' p) []) \<in> set known_default_systems
      then jput ''system'' (JStr default_system_prompt) p else p)"

definition migrate_source :: "py_conv \<Rightarrow> json \<Rightarrow> jobj \<Rightarrow> jobj option" where
  "migrate_source conv legacy_enabled p =
     (let kind = py_lower (py_strip (str_default conv (jget ''kind'' p) [])) in
      if kind \<notin> set supported_research_kinds then None
      else let p = jput ''kind'' (JStr kind) p in Some (if legacy_enabled = JBool False then jput ''enabled'' (JBool False) p else p))"

definition migrate_sources :: "py_conv \<Rightarrow> json \<Rightarrow> jobj list \<Rightarrow> jobj list" where
  "migrate_sources conv legacy_enabled ps =
     (let known = List.map_filter (migrate_source conv legacy_enabled) ps;
          kinds = map (\<lambda>p. str_default conv (jget ''kind'' p) []) known
      in known @ filter (\<lambda>p. jstr (jget ''kind'' p) \<notin> set kinds) default_research_providers)"

section \<open>Provider identifiers\<close>

text \<open>\<open>while candidate in used: candidate = f"{candidate}-{suffix}"; suffix += 1\<close>. The candidate grows with every round, so it leaves
  the finite set of used identifiers.\<close>

function unused_candidate :: "string list \<Rightarrow> string \<Rightarrow> nat \<Rightarrow> string" where
  "unused_candidate used candidate suffix =
     (if candidate \<in> set used then unused_candidate used (candidate @ ''-'' @ show_nat suffix) (Suc suffix) else candidate)"
  by pat_completeness auto

termination
proof (relation "measure (\<lambda>(used, candidate, _). card {u \<in> set used. length candidate \<le> length u})")
  fix used :: "string list" and candidate :: string and suffix :: nat assume "candidate \<in> set used"
  then show "((used, candidate @ ''-'' @ show_nat suffix, Suc suffix), used, candidate, suffix)
      \<in> measure (\<lambda>(used, candidate, _). card {u \<in> set used. length candidate \<le> length u})"
  proof -
    have "candidate \<in> {u \<in> set used. length candidate \<le> length u}"
      "candidate \<notin> {u \<in> set used. length (candidate @ ''-'' @ show_nat suffix) \<le> length u}" using \<open>candidate \<in> set used\<close> by auto
    moreover have "{u \<in> set used. length (candidate @ ''-'' @ show_nat suffix) \<le> length u} \<subseteq> {u \<in> set used. length candidate \<le> length u}"
      by auto
    ultimately have "{u \<in> set used. length (candidate @ ''-'' @ show_nat suffix) \<le> length u} \<subset> {u \<in> set used. length candidate \<le> length u}"
      by blast
    then show ?thesis by (simp add: psubset_card_mono)
  qed
qed simp

declare unused_candidate.simps [simp del]

definition provider_identity :: "py_conv \<Rightarrow> jobj \<Rightarrow> nat \<Rightarrow> string" where
  "provider_identity conv p index =
     py_join [CHR 0x00] [show_nat index, str_default conv (jget ''name'' p) [], str_default conv (jget ''base_url'' p) [],
       str_default conv (jget ''model'' p) []]"

definition migrated_provider_id :: "py_conv \<Rightarrow> (string \<Rightarrow> string) \<Rightarrow> jobj \<Rightarrow> nat \<Rightarrow> string list \<Rightarrow> string" where
  "migrated_provider_id conv sha p index used =
     (let configured = py_strip (str_default conv (jget ''provider_id'' p) []) in
      if configured \<noteq> [] \<and> configured \<notin> set used then configured
      else unused_candidate used (''provider-'' @ take 20 (sha (provider_identity conv p index))) 2)"

definition migrate_provider :: "py_conv \<Rightarrow> string \<Rightarrow> jobj \<Rightarrow> jobj" where
  "migrate_provider conv pid raw =
     (let p = jput ''provider_id'' (JStr pid) raw;
          p = jsetdefault ''preset_id'' (JStr ''custom'') p;
          p = jsetdefault ''api_style'' (JStr ''openai_compatible'') p;
          p = jsetdefault ''max_output_tokens'' (JInt 4096) p;
          p = jsetdefault ''max_tokens_parameter'' (JStr ''max_tokens'') p;
          p = jsetdefault ''send_temperature'' (JBool True) p;
          p = jput ''limits'' (JObj (with_defaults ProviderLimitOptions (jmapping (jget ''limits'' p)))) p;
          base_url = py_rstrip_char (CHR ''/'') (py_strip (str_default conv (jget ''base_url'' p) []))
      in if base_url \<noteq> [] \<and> \<not> jhas ''api_style'' raw \<and>
           \<not> list_ex (\<lambda>s. py_endswith s base_url) [''/v1'', ''/openai'', ''/chat/completions'']
         then jput ''base_url'' (JStr (base_url @ ''/v1'')) p else p)"

fun migrate_providers :: "py_conv \<Rightarrow> (string \<Rightarrow> string) \<Rightarrow> nat \<Rightarrow> string list \<Rightarrow> json list \<Rightarrow> jobj list" where
  "migrate_providers conv sha i used [] = []"
| "migrate_providers conv sha i used (v # vs) =
     (case v of
        JObj p \<Rightarrow> let pid = migrated_provider_id conv sha p i used in
          migrate_provider conv pid p # migrate_providers conv sha (Suc i) (pid # used) vs
      | _ \<Rightarrow> migrate_providers conv sha (Suc i) used vs)"

definition migrated_providers :: "py_conv \<Rightarrow> (string \<Rightarrow> string) \<Rightarrow> string \<Rightarrow> json list \<Rightarrow> jobj list" where
  "migrated_providers conv sha hex vs =
     (let ps = migrate_providers conv sha 0 [] vs;
          fallback = LLMProviderOptions hex
      in if ps = [] then [jput ''provider_id'' (JStr (migrated_provider_id conv sha fallback 0 [])) fallback] else ps)"

section \<open>Pools\<close>

definition migrate_pool :: "py_conv \<Rightarrow> string list \<Rightarrow> jobj \<Rightarrow> config_error + jobj" where
  "migrate_pool conv ids pool =
     (case iter_items (jget ''memberships'' pool) of
        Inl e \<Rightarrow> Inl e
      | Inr ms \<Rightarrow> Inr (jput ''memberships''
          (JList (map JObj (filter (\<lambda>m. py_strip (str_default conv (jget ''provider_id'' m) []) \<in> set ids) (jobjs ms)))) pool))"

definition migrate_pools :: "py_conv \<Rightarrow> jobj \<Rightarrow> jobj list \<Rightarrow> json \<Rightarrow> config_error + jobj list" where
  "migrate_pools conv llm providers raw =
     (let ids = map (\<lambda>p. py_str conv (jget ''provider_id'' p)) providers;
          active = ids ! nat (min (max 0 (as_int (jget ''active_provider_index'' llm) 0)) (int (length providers) - 1));
          profile = max 0 (as_int (jget ''active_profile_index'' llm) 0)
      in case fold_res (\<lambda>p acc. map_sum id (\<lambda>q. acc @ [q]) (migrate_pool conv ids p)) (jobjs (jitems raw)) [] of
           Inl e \<Rightarrow> Inl e
         | Inr pools \<Rightarrow>
             let known = map (\<lambda>p. py_lower (py_strip (str_default conv (jget ''pool_id'' p) []))) pools in
             Inr (pools @ map (\<lambda>i. default_analysis_pool i active profile) (filter (\<lambda>i. i \<notin> set known) [''realtime'', ''background''])))"

section \<open>The migration\<close>

text \<open>The sections that cannot fail, in the order of the code.\<close>

definition migrate_sections :: "py_conv \<Rightarrow> jobj \<Rightarrow> jobj" where
  "migrate_sections conv raw =
     (let d = jpop ''locks'' raw;
          d = jput ''pihole'' (JObj (migrate_pihole conv (jmapping (jget ''pihole'' d)))) d;
          d = jput ''logging'' (JObj (migrate_logging (jmapping (jget ''logging'' d)))) d;
          d = jput ''scans'' (JObj (migrate_scans (jmapping (jget ''scans'' d)))) d
      in jput ''llm'' (JObj (migrate_llm (jmapping (jget ''llm'' d)))) d)"

definition migrate_services :: "jobj \<Rightarrow> jobj" where
  "migrate_services d =
     (let d = jput ''updates'' (JObj (migrate_updates (jmapping (jget ''updates'' d)))) d;
          d = jput ''provider_registry'' (JObj (with_defaults ProviderRegistryOptions (jmapping (jget ''provider_registry'' d)))) d
      in jput ''research'' (JObj (migrate_research (jmapping (jget ''research'' d)))) d)"

definition migrate_profiles :: "py_conv \<Rightarrow> jobj \<Rightarrow> config_error + jobj" where
  "migrate_profiles conv d =
     (case iter_items (jget ''prompt_profiles'' d) of
        Inl e \<Rightarrow> Inl e
      | Inr xs \<Rightarrow> let ps = map (\<lambda>p. JObj (migrate_profile conv p)) (jobjs xs) in
          Inr (if ps = [] then d else jput ''prompt_profiles'' (JList ps) d))"

definition migrate_lists :: "py_conv \<Rightarrow> (string \<Rightarrow> string) \<Rightarrow> string \<Rightarrow> json \<Rightarrow> jobj \<Rightarrow> config_error + jobj" where
  "migrate_lists conv sha hex legacy_enabled d =
     (case iter_items (jget ''research_providers'' d) of
        Inl e \<Rightarrow> Inl e
      | Inr rs \<Rightarrow>
          let d = jput ''research_providers'' (JList (map JObj (migrate_sources conv legacy_enabled (jobjs rs)))) d in
          case iter_items (jget ''llm_providers'' d) of
            Inl e \<Rightarrow> Inl e
          | Inr vs \<Rightarrow>
              let ps = migrated_providers conv sha hex vs;
                  d = jput ''llm_providers'' (JList (map JObj ps)) d
              in case migrate_pools conv (jmapping (jget ''llm'' d)) ps (jget ''analysis_pools'' d) of
                   Inl e \<Rightarrow> Inl e
                 | Inr pools \<Rightarrow> Inr (jput ''schema_version'' (JInt current_schema_version)
                     (jput ''analysis_pools'' (JList (map JObj pools)) d)))"

definition migrate :: "py_conv \<Rightarrow> (string \<Rightarrow> string) \<Rightarrow> string \<Rightarrow> jobj \<Rightarrow> config_error + jobj" where
  "migrate conv sha hex raw =
     (if current_schema_version < source_version raw then Inl (UnsupportedConfigVersion (source_version raw))
      else let d = migrate_sections conv raw in
        case migrate_ui (jmapping (jget ''ui'' d)) of
          Inl e \<Rightarrow> Inl e
        | Inr ui \<Rightarrow>
            let d = migrate_services (jput ''ui'' (JObj ui) d) in
            case migrate_profiles conv d of
              Inl e \<Rightarrow> Inl e
            | Inr d \<Rightarrow> migrate_lists conv sha hex (jget ''enabled'' (jmapping (jget ''research'' raw))) d)"

section \<open>Loading\<close>

definition options_of_json :: "(nat \<Rightarrow> string) \<Rightarrow> jobj \<Rightarrow> options" where
  "options_of_json hexes raw =
     \<lparr>op_schema_version = as_int (jget_or ''schema_version'' (JInt current_schema_version) raw) 0,
      op_logging = coerce_dataclass LoggingOptions (jget ''logging'' raw), op_notify = coerce_dataclass NotifyOptions (jget ''notify'' raw),
      op_scans = coerce_dataclass ScanOptions (jget ''scans'' raw), op_pihole = coerce_dataclass PiHoleOptions (jget ''pihole'' raw),
      op_llm = coerce_dataclass LLMOptions (jget ''llm'' raw), op_research = coerce_dataclass ResearchOptions (jget ''research'' raw),
      op_updates = coerce_dataclass UpdateOptions (jget ''updates'' raw),
      op_provider_registry = coerce_dataclass ProviderRegistryOptions (jget ''provider_registry'' raw),
      op_external_trigger = coerce_dataclass ExternalTriggerOptions (jget ''external_trigger'' raw),
      op_llm_providers = load_llm_providers hexes (jget ''llm_providers'' raw),
      op_analysis_pools = load_analysis_pools (jget ''analysis_pools'' raw),
      op_prompt_profiles = load_list (jget ''prompt_profiles'' raw) PromptProfileOptions [PromptProfileOptions],
      op_research_providers = load_list (jget ''research_providers'' raw) ResearchProviderOptions default_research_providers,
      op_ui = coerce_dataclass UIOptions (jget ''ui'' raw)\<rparr>"

text \<open>\<open>load_options\<close> up to the credential store: \<open>parsed\<close> is the parsed file, \<^const>\<open>None\<close> when there is none or it is not JSON.\<close>

definition read_options :: "py_conv \<Rightarrow> (string \<Rightarrow> string) \<Rightarrow> (nat \<Rightarrow> string) \<Rightarrow> json option \<Rightarrow> config_error + options" where
  "read_options conv sha hexes parsed =
     (case parsed of
        Some (JObj raw) \<Rightarrow>
          (case migrate conv sha (hexes 0) raw of
             Inl (UnsupportedConfigVersion v) \<Rightarrow> Inl (UnsupportedConfigVersion v)
           | Inl ConfigTypeError \<Rightarrow> Inr (validate conv hexes (default_options (hexes 0)))
           | Inr d \<Rightarrow> Inr (validate conv hexes (options_of_json hexes d)))
      | _ \<Rightarrow> Inr (validate conv hexes (default_options (hexes 0))))"

section \<open>Identifiers after migration\<close>

lemma unused_candidate_new: "unused_candidate used candidate suffix \<notin> set used"
proof (induction used candidate suffix rule: unused_candidate.induct)
  case (1 used candidate suffix)
  then show ?case by (subst unused_candidate.simps) simp
qed

text \<open>The documented form of \<open>hexdigest\<close>.\<close>

definition hex_digest :: "(string \<Rightarrow> string) \<Rightarrow> bool" where
  "hex_digest sha \<longleftrightarrow> (\<forall>t. set (sha t) \<subseteq> set ''0123456789abcdef'')"

definition trimmed :: "string \<Rightarrow> bool" where
  "trimmed s \<longleftrightarrow> s \<noteq> [] \<and> py_strip s = s"

lemma digit_not_space: "\<not> py_isspace (digit_char (n mod 10))"
proof -
  have "n mod 10 \<in> set [0..<10]" by simp
  then show ?thesis by (simp add: upt_rec digit_char_def py_isspace_def Let_def of_char_char_of_small)
qed

lemma show_nat_no_space: "\<forall>c\<in>set (show_nat n). \<not> py_isspace c"
proof (induction n rule: show_nat.induct)
  case (1 n)
  then show ?case using digit_not_space [of n] by (subst show_nat.simps) (auto simp: mod_less)
qed

lemma show_nat_nonempty: "show_nat n \<noteq> []"
  by (subst show_nat.simps) simp

lemma no_space_trimmed: "s \<noteq> [] \<Longrightarrow> \<forall>c\<in>set s. \<not> py_isspace c \<Longrightarrow> trimmed s"
  by (simp add: trimmed_def py_strip_no_space)

lemma unused_candidate_no_space:
  "\<forall>c\<in>set candidate. \<not> py_isspace c \<Longrightarrow> candidate \<noteq> [] \<Longrightarrow>
    (\<forall>c\<in>set (unused_candidate used candidate suffix). \<not> py_isspace c) \<and> unused_candidate used candidate suffix \<noteq> []"
proof (induction used candidate suffix rule: unused_candidate.induct)
  case (1 used candidate suffix)
  have "\<forall>c\<in>set (candidate @ ''-'' @ show_nat suffix). \<not> py_isspace c"
    using "1.prems"(1) show_nat_no_space [of suffix] by (auto simp: py_isspace_def)
  then show ?case using 1 by (subst (1 2) unused_candidate.simps) simp
qed

lemma hex_no_space:
  assumes "hex_digest sha"
  shows "\<forall>c\<in>set (''provider-'' @ take 20 (sha t)). \<not> py_isspace c"
proof -
  have "list_all (\<lambda>c. \<not> py_isspace c) (''provider-'' @ ''0123456789abcdef'')" by code_simp
  moreover have "set (take 20 (sha t)) \<subseteq> set ''0123456789abcdef''"
    using assms set_take_subset [of 20 "sha t"] unfolding hex_digest_def by blast
  ultimately show ?thesis unfolding list_all_iff set_append by blast
qed

lemma migrated_id_new: "migrated_provider_id conv sha p i used \<notin> set used"
  by (simp add: migrated_provider_id_def Let_def unused_candidate_new)

lemma migrated_id_trimmed: "hex_digest sha \<Longrightarrow> trimmed (migrated_provider_id conv sha p i used)"
  using unused_candidate_no_space [OF hex_no_space, of sha "provider_identity conv p i" used 2]
  by (auto simp: migrated_provider_id_def Let_def intro: no_space_trimmed) (simp add: trimmed_def)

text \<open>A parsed JSON document is a tree of dictionaries with distinct keys.\<close>

fun json_wf :: "json \<Rightarrow> bool" where
  "json_wf (JList xs) = list_all json_wf xs"
| "json_wf (JObj kvs) = (distinct (map fst kvs) \<and> list_all json_wf (map snd kvs))"
| "json_wf _ = True"

lemma keys_distinct [simp]:
  "distinct (map fst d) \<Longrightarrow> distinct (map fst (jput k v d))" "distinct (map fst d) \<Longrightarrow> distinct (map fst (jsetdefault k v d))"
  by (simp_all add: jput_def jsetdefault_def distinct_update)

lemma jget_jsetdefault_other: "k \<noteq> k' \<Longrightarrow> jget k (jsetdefault k' v d) = jget k d"
  by (simp add: jsetdefault_def)

lemma migrate_provider_fields:
  "jget ''provider_id'' (migrate_provider conv pid raw) = JStr pid" "jhas ''provider_id'' (migrate_provider conv pid raw)"
  "distinct (map fst raw) \<Longrightarrow> distinct (map fst (migrate_provider conv pid raw))"
  by (auto simp: migrate_provider_def Let_def jget_jsetdefault_other) (auto simp: jsetdefault_def)

text \<open>What the loaders need of the migrated providers: distinct, trimmed identifiers.\<close>

definition ids_ok :: "jobj list \<Rightarrow> bool" where
  "ids_ok ps \<longleftrightarrow>
     list_all (\<lambda>p. distinct (map fst p) \<and> jhas ''provider_id'' p \<and> jget ''provider_id'' p = JStr (pid_of p) \<and> trimmed (pid_of p)) ps \<and>
     distinct (map pid_of ps)"

lemma migrate_providers_ids:
  assumes "hex_digest sha" and "list_all json_wf vs"
  shows "ids_ok (migrate_providers conv sha i used vs) \<and> set used \<inter> set (map pid_of (migrate_providers conv sha i used vs)) = {}"
  using assms(2)
proof (induction vs arbitrary: i used)
  case (Cons v vs)
  show ?case
  proof (cases v)
    case (JObj p)
    let ?pid = "migrated_provider_id conv sha p i used"
    have f: "jget ''provider_id'' (migrate_provider conv ?pid p) = JStr ?pid" "pid_of (migrate_provider conv ?pid p) = ?pid"
      by (simp_all add: migrate_provider_fields pid_of_def)
    have "ids_ok (migrate_providers conv sha (Suc i) (?pid # used) vs) \<and>
        set (?pid # used) \<inter> set (map pid_of (migrate_providers conv sha (Suc i) (?pid # used) vs)) = {}"
      by (rule Cons.IH) (use Cons.prems in simp)
    then show ?thesis
      using JObj f Cons.prems migrate_provider_fields [where pid="?pid" and raw=p and conv=conv] migrated_id_new [of conv sha p i used]
        migrated_id_trimmed [OF assms(1)]
      by (auto simp: ids_ok_def Let_def)
  qed (use Cons in auto)
qed (simp add: ids_ok_def)

lemma migrated_providers_ids:
  assumes "hex_digest sha" and "list_all json_wf vs"
  shows "ids_ok (migrated_providers conv sha hex vs)" and "migrated_providers conv sha hex vs \<noteq> []"
proof -
  let ?p = "jput ''provider_id'' (JStr (migrated_provider_id conv sha (LLMProviderOptions hex) 0 [])) (LLMProviderOptions hex)"
  have "distinct (map fst (LLMProviderOptions hex))" by (simp add: LLMProviderOptions_def)
  then have "ids_ok [?p]" using migrated_id_trimmed [OF assms(1)] by (simp add: ids_ok_def pid_of_def)
  then show "ids_ok (migrated_providers conv sha hex vs)"
    using migrate_providers_ids [OF assms, of conv 0 "[]"] by (simp add: migrated_providers_def Let_def)
  show "migrated_providers conv sha hex vs \<noteq> []" by (simp add: migrated_providers_def Let_def)
qed

text \<open>The loaders keep the identifiers, and validation has nothing to replace.\<close>

lemma load_provider_id:
  assumes "distinct (map fst p)" and "jhas ''provider_id'' p"
  shows "jget ''provider_id'' (load_provider hex p) = jget ''provider_id'' p"
  using assms by (simp add: load_provider_def coerce_get) (simp add: jhas_def LLMProviderOptions_def)

lemma loaded_ids:
  assumes "ids_ok ps" and "ps \<noteq> []"
  shows "configured_ids conv (load_llm_providers hexes (JList (map JObj ps))) = map pid_of ps" and "load_llm_providers hexes (JList (map JObj ps)) \<noteq> []"
proof -
  have l: "load_llm_providers hexes (JList (map JObj ps)) = map (\<lambda>(i, item). load_provider (hexes i) item) (enumerate 0 ps)"
  proof -
    have "enumerate 0 ps \<noteq> []" using assms(2) by (metis length_0_conv length_enumerate)
    then show ?thesis by (simp add: load_llm_providers_def Let_def)
  qed
  have "py_strip (str_default conv (jget ''provider_id'' (load_provider hex p)) []) = pid_of p" if "p \<in> set ps" for p hex
    using assms(1) that by (auto simp: ids_ok_def list_all_iff load_provider_id str_default_def str_field_def trimmed_def)
  then show "configured_ids conv (load_llm_providers hexes (JList (map JObj ps))) = map pid_of ps"
    unfolding l configured_ids_def by (intro nth_equalityI) (auto simp: nth_enumerate_eq)
  show "load_llm_providers hexes (JList (map JObj ps)) \<noteq> []"
    using assms(2) unfolding l by (metis Nil_is_map_conv length_0_conv length_enumerate)
qed

lemma loaded_options_distinct:
  assumes "ids_ok ps" and "ps \<noteq> []" and "op_llm_providers opts = load_llm_providers hexes (JList (map JObj ps))"
  shows "distinct (map pid_of (validate_providers conv hexes 0 [] (used_providers hexes opts)))"
proof -
  have "used_providers hexes opts = load_llm_providers hexes (JList (map JObj ps))"
    using assms loaded_ids(2) [OF assms(1,2)] by (simp add: used_providers_def)
  moreover have "[] \<notin> set (map pid_of ps)" "distinct (map pid_of ps)"
    using assms(1) by (auto simp: ids_ok_def list_all_iff trimmed_def)
  ultimately show ?thesis using validate_providers_keep [of conv _ "[]" hexes 0] loaded_ids(1) [OF assms(1,2), of conv hexes] by simp
qed

lemma default_options_distinct: "distinct (map pid_of (validate_providers conv hexes 0 [] (used_providers hexes (default_options hex))))"
  by (simp add: used_providers_def default_options_def Let_def)

section \<open>Every file loads\<close>

lemma iter_items_wf: "json_wf v \<Longrightarrow> iter_items v = Inr xs \<Longrightarrow> list_all json_wf xs"
  by (cases v) (auto simp: iter_items_def list_all_iff split: if_splits)

lemma jget_wf: "list_all json_wf (map snd d) \<Longrightarrow> json_wf (jget k d)"
  by (auto simp: jget_def list_all_iff split: option.splits dest!: map_of_SomeD)

lemma jget_jpop_other: "k \<noteq> k' \<Longrightarrow> jget k (jpop k' d) = jget k d"
  by (simp add: jget_def jpop_def delete_conv)

lemma migrate_profiles_other:
  "migrate_profiles conv d = Inr d' \<Longrightarrow> k \<noteq> ''prompt_profiles'' \<Longrightarrow> jget k d' = jget k d"
  by (auto simp: migrate_profiles_def Let_def split: sum.splits if_splits)

lemma migrate_lists_providers:
  assumes "migrate_lists conv sha hex e d = Inr d'"
  shows "\<exists>vs. iter_items (jget ''llm_providers'' d) = Inr vs \<and> jget ''llm_providers'' d' = JList (map JObj (migrated_providers conv sha hex vs))"
  using assms by (auto simp: migrate_lists_def Let_def split: sum.splits)

text \<open>The providers of a migrated file come from the entry of the file itself.\<close>

lemma migrate_providers_of:
  assumes "migrate conv sha hex raw = Inr d"
  shows "\<exists>vs. iter_items (jget ''llm_providers'' raw) = Inr vs \<and> jget ''llm_providers'' d = JList (map JObj (migrated_providers conv sha hex vs))"
proof -
  from assms obtain ui d1 where ui: "migrate_ui (jmapping (jget ''ui'' (migrate_sections conv raw))) = Inr ui"
    and d1: "migrate_profiles conv (migrate_services (jput ''ui'' (JObj ui) (migrate_sections conv raw))) = Inr d1"
    and l: "migrate_lists conv sha hex (jget ''enabled'' (jmapping (jget ''research'' raw))) d1 = Inr d"
    by (auto simp: migrate_def Let_def split: if_splits sum.splits)
  have "jget ''llm_providers'' d1 = jget ''llm_providers'' raw"
    using migrate_profiles_other [OF d1, of "''llm_providers''"]
    by (simp add: migrate_services_def migrate_sections_def Let_def jget_jpop_other)
  then show ?thesis using migrate_lists_providers [OF l] by simp
qed

lemma migrate_error:
  assumes "migrate conv sha hex raw = Inl e"
  shows "if current_schema_version < source_version raw then e = UnsupportedConfigVersion (source_version raw) else e = ConfigTypeError"
proof -
  have it: "iter_items v = Inl e' \<Longrightarrow> e' = ConfigTypeError" for v e'
    by (cases v) (auto simp: iter_items_def split: if_splits)
  have rc: "migrate_review_columns k u = Inl e' \<Longrightarrow> e' = ConfigTypeError" for k u e'
    using it by (auto simp: migrate_review_columns_def Let_def split: sum.splits)
  have ui: "migrate_ui u = Inl e' \<Longrightarrow> e' = ConfigTypeError" for u e'
    using rc by (auto simp: migrate_ui_def Let_def split: sum.splits)
  have pr: "migrate_profiles conv d = Inl e' \<Longrightarrow> e' = ConfigTypeError" for d e'
    using it by (auto simp: migrate_profiles_def Let_def split: sum.splits)
  have po: "migrate_pool conv ids p = Inl e' \<Longrightarrow> e' = ConfigTypeError" for ids p e'
    using it by (auto simp: migrate_pool_def split: sum.splits)
  have fo: "fold_res (\<lambda>p acc. map_sum id (\<lambda>q. acc @ [q]) (migrate_pool conv ids p)) ps acc = Inl e' \<Longrightarrow> e' = ConfigTypeError" for ids ps acc e'
    by (induction ps arbitrary: acc) (auto split: sum.splits dest: po simp: map_sum_def)
  have ps: "migrate_pools conv llm provs r = Inl e' \<Longrightarrow> e' = ConfigTypeError" for llm provs r e'
    using fo by (auto simp: migrate_pools_def Let_def split: sum.splits)
  have li: "migrate_lists conv sha hex l d = Inl e' \<Longrightarrow> e' = ConfigTypeError" for l d e'
    using it ps by (auto simp: migrate_lists_def Let_def split: sum.splits)
  show ?thesis using assms ui pr li by (auto simp: migrate_def Let_def split: if_splits sum.splits)
qed


definition ex_sha :: "string \<Rightarrow> string" where
  "ex_sha _ = ''ab''"

definition ex_file :: "int \<Rightarrow> jobj" where
  "ex_file version =
     [(''schema_version'', JInt version), (''ui'', JInt 5), (''llm_providers'', JList [JObj [(''provider_id'', JStr ''p'')], JObj [(''provider_id'', JStr ''p'')]])]"


section \<open>Columns that cannot be hidden\<close>

text \<open>The migration is not limited to old files: in every file that configures the visible columns of the review table the columns
  \<open>order\<close> and \<open>queued\<close> are visible after it, so hiding one of them lasts until the next load only.\<close>

lemma set_insert_column: "set (insert_column cp cols) = insert (JStr (fst cp)) (set cols)"
proof -
  have "set (take i cols) \<union> set (drop i cols) = set cols" for i by (metis append_take_drop_id set_append)
  then show ?thesis by (auto simp: insert_column_def Let_def)
qed

lemma add_review_columns_all: "{JStr ''order'', JStr ''queued''} \<subseteq> set (add_review_columns cols)"
  by (simp add: add_review_columns_def set_insert_column)

lemma migrate_review_columns_get:
  assumes "migrate_review_columns key u = Inr u'"
  shows "k \<noteq> key \<Longrightarrow> jget k u' = jget k u"
    and "iter_items (jget ''review'' (jmapping (jget key u))) = Inr cols \<Longrightarrow> cols \<noteq> [] \<Longrightarrow>
      jget key u' = JObj (jput ''review'' (JList (add_review_columns cols)) (jmapping (jget key u)))"
  using assms by (auto simp: migrate_review_columns_def Let_def split: sum.splits if_splits)

lemma hidden_review_columns_return:
  assumes "migrate_ui ui = Inr ui'"
    and "iter_items (jget ''review'' (jmapping (jget ''table_visible_columns'' ui))) = Inr cols" and "cols \<noteq> []"
  shows "{JStr ''order'', JStr ''queued''} \<subseteq> set (jitems (jget ''review'' (jmapping (jget ''table_visible_columns'' ui'))))"
proof -
  from assms(1) obtain u0 u where u: "migrate_review_columns ''table_visible_columns'' u0 = Inr u"
    "migrate_review_columns ''table_column_order'' u = Inr ui'" "jget ''table_visible_columns'' u0 = jget ''table_visible_columns'' ui"
    by (fastforce simp: migrate_ui_def Let_def jget_jsetdefault_other split: sum.splits)
  have "jget ''table_visible_columns'' ui' = jget ''table_visible_columns'' u"
    by (rule migrate_review_columns_get(1) [OF u(2)]) simp
  also have "... = JObj (jput ''review'' (JList (add_review_columns cols)) (jmapping (jget ''table_visible_columns'' ui)))"
    using migrate_review_columns_get(2) [OF u(1), of cols] assms(2,3) by (simp add: u(3))
  finally show ?thesis using add_review_columns_all [of cols] by (simp add: jmapping_def)
qed

end
