(* ===== verification/Credentials.thy ===== *)
theory Credentials
  imports Config_Migrate
begin

text \<open>
  \<open>pihole_manager/credentials.py\<close>, and \<open>load_options\<close> and \<open>save_options\<close> of \<open>config.py\<close> around it: the secrets of the
  options are kept in the credential store of the operating system and not in the file. The \<open>keyring\<close> package
  is not part of the repository; it is the argument \<open>kr\<close>, a record of its functions on a store of type \<open>'s\<close>, where \<^const>\<open>None\<close> is a raised exception.
  A file is the options value that \<open>asdict\<close> and \<open>json.dumps\<close> write.
\<close>

datatype read_state = State_PRESENT | State_MISSING | State_UNAVAILABLE

record 's keyring =
  kr_available :: bool
  kr_get :: "string \<Rightarrow> 's \<Rightarrow> string option option"
  kr_set :: "string \<Rightarrow> string \<Rightarrow> 's \<Rightarrow> 's option"
  kr_delete :: "string \<Rightarrow> 's \<Rightarrow> 's option"

record 's cred_world =
  cw_store :: 's
  cw_states :: "(string, read_state) dict"

definition set_read_state :: "string \<Rightarrow> read_state \<Rightarrow> 's cred_world \<Rightarrow> 's cred_world" where
  "set_read_state key st w = w\<lparr>cw_states := AList.update key st (cw_states w)\<rparr>"

definition read_secret :: "'s keyring \<Rightarrow> string \<Rightarrow> 's cred_world \<Rightarrow> (read_state \<times> string) \<times> 's cred_world" where
  "read_secret kr key w =
     (if \<not> kr_available kr then ((State_UNAVAILABLE, []), set_read_state key State_UNAVAILABLE w)
      else case kr_get kr key (cw_store w) of
        None \<Rightarrow> ((State_UNAVAILABLE, []), set_read_state key State_UNAVAILABLE w)
      | Some v \<Rightarrow>
          let value = (case v of Some s \<Rightarrow> s | None \<Rightarrow> []);
              st = (if value \<noteq> [] then State_PRESENT else State_MISSING)
          in ((st, value), set_read_state key st w))"

definition write_secret :: "'s keyring \<Rightarrow> string \<Rightarrow> string \<Rightarrow> 's cred_world \<Rightarrow> bool \<times> 's cred_world" where
  "write_secret kr key value w =
     (if \<not> kr_available kr then (False, w)
      else case kr_set kr key value (cw_store w) of
        None \<Rightarrow> (False, w)
      | Some s \<Rightarrow> (True, set_read_state key State_PRESENT (w\<lparr>cw_store := s\<rparr>)))"

definition delete_secret :: "'s keyring \<Rightarrow> string \<Rightarrow> 's cred_world \<Rightarrow> bool \<times> 's cred_world" where
  "delete_secret kr key w =
     (if map_of (cw_states w) key = Some State_UNAVAILABLE \<or> \<not> kr_available kr then (False, w)
      else case kr_delete kr key (cw_store w) of
        None \<Rightarrow> (False, w)
      | Some s \<Rightarrow> (True, set_read_state key State_MISSING (w\<lparr>cw_store := s\<rparr>)))"

section \<open>Slots\<close>

text \<open>The attributes that hold secrets, with their keys in the store.\<close>

datatype slot = Slot_pihole | Slot_trigger | Slot_llm nat | Slot_research nat

fun slot_get :: "slot \<Rightarrow> options \<Rightarrow> json" where
  "slot_get Slot_pihole opts = jget ''password'' (op_pihole opts)"
| "slot_get Slot_trigger opts = jget ''token'' (op_external_trigger opts)"
| "slot_get (Slot_llm i) opts = jget ''api_key'' (op_llm_providers opts ! i)"
| "slot_get (Slot_research i) opts = jget ''api_key'' (op_research_providers opts ! i)"

fun slot_set :: "slot \<Rightarrow> json \<Rightarrow> options \<Rightarrow> options" where
  "slot_set Slot_pihole v opts = opts\<lparr>op_pihole := jput ''password'' v (op_pihole opts)\<rparr>"
| "slot_set Slot_trigger v opts = opts\<lparr>op_external_trigger := jput ''token'' v (op_external_trigger opts)\<rparr>"
| "slot_set (Slot_llm i) v opts = opts\<lparr>op_llm_providers := (op_llm_providers opts)[i := jput ''api_key'' v (op_llm_providers opts ! i)]\<rparr>"
| "slot_set (Slot_research i) v opts =
     opts\<lparr>op_research_providers := (op_research_providers opts)[i := jput ''api_key'' v (op_research_providers opts ! i)]\<rparr>"

definition llm_slots :: "py_conv \<Rightarrow> jobj list \<Rightarrow> (string \<times> slot) list" where
  "llm_slots conv ps =
     map (\<lambda>(i, pid). (''llm/'' @ pid @ ''/api_key'', Slot_llm i))
       (filter (\<lambda>(_, pid). pid \<noteq> []) (enumerate 0 (map (\<lambda>p. py_strip (str_default conv (jget ''provider_id'' p) [])) ps)))"

definition research_slots :: "py_conv \<Rightarrow> jobj list \<Rightarrow> (string \<times> slot) list" where
  "research_slots conv ps =
     map (\<lambda>(i, kind). (''research/'' @ kind @ ''/api_key'', Slot_research i))
       (filter (\<lambda>(_, kind). kind \<noteq> []) (enumerate 0 (map (\<lambda>p. py_lower (py_strip (str_default conv (jget ''kind'' p) []))) ps)))"

definition credential_slots :: "py_conv \<Rightarrow> options \<Rightarrow> (string \<times> slot) list" where
  "credential_slots conv opts =
     [(''pihole/password'', Slot_pihole), (''external_trigger/token'', Slot_trigger)] @
     llm_slots conv (op_llm_providers opts) @ research_slots conv (op_research_providers opts)"

definition slot_text :: "py_conv \<Rightarrow> slot \<Rightarrow> options \<Rightarrow> string" where
  "slot_text conv s opts = str_default conv (slot_get s opts) []"

section \<open>Hydrating and securing\<close>

type_synonym 's hydration = "bool \<times> options \<times> 's cred_world"

definition hydrate_step :: "'s keyring \<Rightarrow> py_conv \<Rightarrow> string \<times> slot \<Rightarrow> 's hydration \<Rightarrow> 's hydration" where
  "hydrate_step kr conv ks st =
     (case (ks, st) of ((key, s), (migrated, opts, w)) \<Rightarrow>
        let plaintext = slot_text conv s opts in
        case read_secret kr key w of
          ((State_PRESENT, stored), w) \<Rightarrow> (migrated \<or> plaintext \<noteq> [], slot_set s (JStr stored) opts, w)
        | ((State_MISSING, _), w) \<Rightarrow>
            if plaintext = [] then (migrated, opts, w)
            else let (written, w) = write_secret kr key plaintext w in (migrated \<or> written, opts, w)
        | ((State_UNAVAILABLE, _), w) \<Rightarrow> (migrated, opts, w))"

definition hydrate_credentials :: "'s keyring \<Rightarrow> py_conv \<Rightarrow> options \<Rightarrow> 's cred_world \<Rightarrow> 's hydration" where
  "hydrate_credentials kr conv opts w = fold (hydrate_step kr conv) (credential_slots conv opts) (False, opts, w)"

text \<open>One credential of \<open>secure_options_payload\<close>: a secret leaves the payload when the store has taken it; an empty one is deleted there.\<close>

definition secure_step :: "'s keyring \<Rightarrow> py_conv \<Rightarrow> options \<Rightarrow> string \<times> slot \<Rightarrow> options \<times> 's cred_world \<Rightarrow> options \<times> 's cred_world" where
  "secure_step kr conv opts ks st =
     (case (ks, st) of ((key, s), (payload, w)) \<Rightarrow>
        let secret = slot_text conv s opts in
        if secret \<noteq> []
        then (case write_secret kr key secret w of (written, w) \<Rightarrow> (if written then slot_set s (JStr []) payload else payload, w))
        else (slot_set s (JStr []) payload, snd (delete_secret kr key w)))"

definition secure_options_payload :: "'s keyring \<Rightarrow> py_conv \<Rightarrow> options \<Rightarrow> 's cred_world \<Rightarrow> options \<times> 's cred_world" where
  "secure_options_payload kr conv opts w = fold (secure_step kr conv opts) (credential_slots conv opts) (opts, w)"

section \<open>Saving and loading\<close>

text \<open>\<open>asdict\<close> of the options.\<close>

definition json_of_options :: "options \<Rightarrow> json" where
  "json_of_options opts =
     JObj [(''schema_version'', JInt (op_schema_version opts)), (''logging'', JObj (op_logging opts)), (''notify'', JObj (op_notify opts)),
       (''scans'', JObj (op_scans opts)), (''pihole'', JObj (op_pihole opts)), (''llm'', JObj (op_llm opts)), (''research'', JObj (op_research opts)),
       (''updates'', JObj (op_updates opts)), (''provider_registry'', JObj (op_provider_registry opts)),
       (''external_trigger'', JObj (op_external_trigger opts)), (''llm_providers'', JList (map JObj (op_llm_providers opts))),
       (''analysis_pools'', JList (map JObj (op_analysis_pools opts))), (''prompt_profiles'', JList (map JObj (op_prompt_profiles opts))),
       (''research_providers'', JList (map JObj (op_research_providers opts))), (''ui'', JObj (op_ui opts))]"

text \<open>\<open>save_options\<close>: validation changes the options in place, so they are a result too; the file is replaced atomically.\<close>

definition save_options :: "'s keyring \<Rightarrow> py_conv \<Rightarrow> (nat \<Rightarrow> string) \<Rightarrow> options \<Rightarrow> 's cred_world \<Rightarrow> options \<times> json \<times> 's cred_world" where
  "save_options kr conv hexes opts w =
     (let opts = validate conv hexes opts in
      case secure_options_payload kr conv opts w of (payload, w) \<Rightarrow> (opts, json_of_options payload, w))"

text \<open>\<open>load_options\<close>: \<open>file\<close> is the content of the file if there is one, \<open>loads\<close> the JSON parser; the result is the options, the file and the store.\<close>

definition load_options ::
  "'s keyring \<Rightarrow> py_conv \<Rightarrow> (string \<Rightarrow> string) \<Rightarrow> (nat \<Rightarrow> string) \<Rightarrow> ('f \<Rightarrow> json option) \<Rightarrow> (json \<Rightarrow> 'f) \<Rightarrow> 'f option \<Rightarrow> 's cred_world \<Rightarrow>
    config_error + (options \<times> 'f option \<times> 's cred_world)" where
  "load_options kr conv sha hexes loads dumps file w =
     (case file of
        None \<Rightarrow>
          (case hydrate_credentials kr conv (validate conv hexes (default_options (hexes 0))) w of (_, opts, w) \<Rightarrow>
             case save_options kr conv hexes opts w of (opts, saved, w) \<Rightarrow> Inr (opts, Some (dumps saved), w))
      | Some f \<Rightarrow>
          (case read_options conv sha hexes (loads f) of
             Inl e \<Rightarrow> Inl e
           | Inr opts \<Rightarrow>
               (case loads f of
                  Some (JObj raw) \<Rightarrow>
                    (case migrate conv sha (hexes 0) raw of
                       Inl _ \<Rightarrow> Inr (opts, Some f, w)
                     | Inr _ \<Rightarrow>
                         (case hydrate_credentials kr conv opts w of (migrated, opts, w) \<Rightarrow>
                            if migrated then (case save_options kr conv hexes opts w of (opts, saved, w) \<Rightarrow> Inr (opts, Some (dumps saved), w))
                            else Inr (opts, Some f, w)))
                | _ \<Rightarrow> Inr (opts, Some f, w))))"

section \<open>Laws of the slots\<close>

fun slot_in :: "slot \<Rightarrow> options \<Rightarrow> bool" where
  "slot_in Slot_pihole opts = jhas ''password'' (op_pihole opts)"
| "slot_in Slot_trigger opts = jhas ''token'' (op_external_trigger opts)"
| "slot_in (Slot_llm i) opts = (i < length (op_llm_providers opts) \<and> jhas ''api_key'' (op_llm_providers opts ! i))"
| "slot_in (Slot_research i) opts = (i < length (op_research_providers opts) \<and> jhas ''api_key'' (op_research_providers opts ! i))"

lemma slot_get_set: "slot_in s opts \<Longrightarrow> slot_get s (slot_set s v opts) = v"
  by (cases s) simp_all

lemma slot_get_set_other: "s \<noteq> t \<Longrightarrow> slot_get s (slot_set t v opts) = slot_get s opts"
  by (cases s; cases t) auto

lemma slot_set_get: "slot_in s opts \<Longrightarrow> slot_set s (slot_get s opts) opts = opts"
  by (cases s) (simp_all add: jput_same)

lemma slot_set_set: "slot_set s v (slot_set s w opts) = slot_set s v opts"
proof -
  have "xs[i := jput k v (xs[i := jput k w (xs ! i)] ! i)] = xs[i := jput k v (xs ! i)]" for xs :: "jobj list" and i k
    by (cases "i < length xs") (simp_all add: list_update_beyond)
  then show ?thesis by (cases s) simp_all
qed

lemma slot_set_commute: "s \<noteq> t \<Longrightarrow> slot_set s v (slot_set t w opts) = slot_set t w (slot_set s v opts)"
  by (cases s; cases t) (auto simp: list_update_swap)

lemma slot_in_set [simp]: "slot_in s opts \<Longrightarrow> slot_in s (slot_set t v opts)"
proof -
  have "jhas k (xs ! i) \<Longrightarrow> jhas k (xs[j := jput k v (xs ! j)] ! i)" for xs :: "jobj list" and i j k
    by (cases "j < length xs"; cases "i = j") (simp_all add: list_update_beyond)
  then show "slot_in s opts \<Longrightarrow> ?thesis" by (cases s; cases t) simp_all
qed

text \<open>Writing a secret does not move a slot.\<close>

lemma map_update_same: "f y = f (xs ! i) \<Longrightarrow> map f (xs[i := y]) = map f xs"
  by (cases "i < length xs") (auto simp: map_update list_update_beyond intro: list_update_same_conv [THEN iffD2])

lemma credential_slots_set: "credential_slots conv (slot_set t v opts) = credential_slots conv opts"
  by (cases t) (simp_all add: credential_slots_def llm_slots_def research_slots_def map_update_same)

text \<open>Writing all slots of a list.\<close>

definition set_slots :: "(slot \<Rightarrow> json) \<Rightarrow> slot list \<Rightarrow> options \<Rightarrow> options" where
  "set_slots f ss opts = fold (\<lambda>s. slot_set s (f s)) ss opts"

lemma set_slots_simps [simp]:
  "set_slots f [] opts = opts" "set_slots f (s # ss) opts = set_slots f ss (slot_set s (f s) opts)"
  "set_slots f (ss @ ts) opts = set_slots f ts (set_slots f ss opts)"
  by (simp_all add: set_slots_def)

lemma slot_in_set_slots [simp]: "slot_in s opts \<Longrightarrow> slot_in s (set_slots f ss opts)"
  by (induction ss arbitrary: opts) simp_all

lemma credential_slots_set_slots [simp]: "credential_slots conv (set_slots f ss opts) = credential_slots conv opts"
  by (induction ss arbitrary: opts) (simp_all add: credential_slots_set)

lemma set_slots_other: "s \<notin> set ss \<Longrightarrow> slot_get s (set_slots f ss opts) = slot_get s opts"
  by (induction ss arbitrary: opts) (simp_all add: slot_get_set_other)

lemma set_slots_get: "distinct ss \<Longrightarrow> s \<in> set ss \<Longrightarrow> slot_in s opts \<Longrightarrow> slot_get s (set_slots f ss opts) = f s"
  by (induction ss arbitrary: opts) (auto simp: slot_get_set set_slots_other)

lemma set_slots_slot_commute: "s \<notin> set ss \<Longrightarrow> slot_set s v (set_slots f ss opts) = set_slots f ss (slot_set s v opts)"
  by (induction ss arbitrary: opts) (simp_all add: slot_set_commute)

lemma set_slots_again: "distinct ss \<Longrightarrow> set_slots g ss (set_slots f ss opts) = set_slots g ss opts"
proof (induction ss arbitrary: opts)
  case (Cons s ss)
  then show ?case by (simp add: set_slots_slot_commute slot_set_set)
qed simp

lemma set_slots_id: "(\<And>s. s \<in> set ss \<Longrightarrow> slot_in s opts \<and> f s = slot_get s opts) \<Longrightarrow> set_slots f ss opts = opts"
proof (induction ss)
  case (Cons s ss)
  then have "slot_set s (f s) opts = opts" using slot_set_get [of s opts] by simp
  then show ?case using Cons by simp
qed simp

lemma set_slots_cong: "(\<And>s. s \<in> set ss \<Longrightarrow> f s = g s) \<Longrightarrow> set_slots f ss opts = set_slots g ss opts"
  by (induction ss arbitrary: opts) simp_all

lemma distinct_slots: "distinct (map snd (credential_slots conv opts))"
proof -
  have e: "distinct (map (\<lambda>x. c (fst x)) (filter P (enumerate 0 xs)))" if "inj c" for c :: "nat \<Rightarrow> slot" and P and xs :: "string list"
  proof -
    have "distinct (map fst (filter P (enumerate 0 xs)))" by (rule distinct_map_filter) simp
    moreover have "distinct (map c ys)" if "distinct ys" for ys
      using inj_on_subset [OF \<open>inj c\<close> subset_UNIV] that by (simp add: distinct_map)
    ultimately have "distinct (map c (map fst (filter P (enumerate 0 xs))))" by blast
    then show ?thesis by (simp add: comp_def)
  qed
  have "map snd (llm_slots conv ps) = map (\<lambda>x. Slot_llm (fst x)) (filter (\<lambda>(_, pid). pid \<noteq> [])
      (enumerate 0 (map (\<lambda>p. py_strip (str_default conv (jget ''provider_id'' p) [])) ps)))" for ps
    by (simp add: llm_slots_def comp_def case_prod_unfold)
  moreover have "map snd (research_slots conv ps) = map (\<lambda>x. Slot_research (fst x)) (filter (\<lambda>(_, kind). kind \<noteq> [])
      (enumerate 0 (map (\<lambda>p. py_lower (py_strip (str_default conv (jget ''kind'' p) []))) ps)))" for ps
    by (simp add: research_slots_def comp_def case_prod_unfold)
  ultimately have d: "distinct (map snd (llm_slots conv ps))" "distinct (map snd (research_slots conv qs))"
      "set (map snd (llm_slots conv ps)) \<subseteq> range Slot_llm" "set (map snd (research_slots conv qs)) \<subseteq> range Slot_research" for ps qs
    using e [of Slot_llm] e [of Slot_research] by (auto simp: inj_def)
  let ?l = "map snd (llm_slots conv (op_llm_providers opts))" and ?r = "map snd (research_slots conv (op_research_providers opts))"
  have "distinct ?l" "distinct ?r" "set ?l \<subseteq> range Slot_llm" "set ?r \<subseteq> range Slot_research" by (rule d)+
  moreover from this(3,4) have "set ?l \<inter> set ?r = {}" "{Slot_pihole, Slot_trigger} \<inter> (set ?l \<union> set ?r) = {}" by blast+
  moreover have "map snd (credential_slots conv opts) = [Slot_pihole, Slot_trigger] @ ?l @ ?r" by (simp add: credential_slots_def)
  ultimately show ?thesis by (simp only: distinct_append) simp
qed

section \<open>A working credential store\<close>

text \<open>The documented behaviour of a \<open>keyring\<close> backend that works: a password that is set is read back, until it is deleted; deleting a missing
  password raises; other keys are not touched.\<close>

definition keyring_works :: "'s keyring \<Rightarrow> bool" where
  "keyring_works kr \<longleftrightarrow>
     kr_available kr \<and>
     (\<forall>k v s. \<exists>s'. kr_set kr k v s = Some s' \<and> kr_get kr k s' = Some (Some v) \<and> (\<forall>k'. k' \<noteq> k \<longrightarrow> kr_get kr k' s' = kr_get kr k' s)) \<and>
     (\<forall>k s. case kr_delete kr k s of
        None \<Rightarrow> kr_get kr k s = Some None
      | Some s' \<Rightarrow> kr_get kr k s' = Some None \<and> (\<forall>k'. k' \<noteq> k \<longrightarrow> kr_get kr k' s' = kr_get kr k' s))"

text \<open>No read of a credential has failed so far.\<close>

definition no_failed_read :: "'s cred_world \<Rightarrow> bool" where
  "no_failed_read w \<longleftrightarrow> State_UNAVAILABLE \<notin> snd ` set (cw_states w)"

text \<open>What the store holds for a key; a missing password reads as the empty string.\<close>

definition stored :: "'s keyring \<Rightarrow> string \<Rightarrow> 's cred_world \<Rightarrow> string option" where
  "stored kr key w = map_option (\<lambda>v. case v of Some s \<Rightarrow> s | None \<Rightarrow> []) (kr_get kr key (cw_store w))"

lemma no_failed_set: "no_failed_read w \<Longrightarrow> st \<noteq> State_UNAVAILABLE \<Longrightarrow> no_failed_read (set_read_state key st (w\<lparr>cw_store := s\<rparr>))"
proof -
  assume a: "no_failed_read w" "st \<noteq> State_UNAVAILABLE"
  have "set (AList.update k v xs) \<subseteq> insert (k, v) (set xs)" for k :: string and v :: read_state and xs by (induction xs) auto
  with a show ?thesis by (force simp: no_failed_read_def set_read_state_def)
qed

lemma stored_written:
  "stored kr k (set_read_state key st (w\<lparr>cw_store := s\<rparr>)) = map_option (\<lambda>v. case v of Some x \<Rightarrow> x | None \<Rightarrow> []) (kr_get kr k s)"
  by (simp add: stored_def set_read_state_def)

lemma write_works:
  assumes "keyring_works kr"
  obtains w' where "write_secret kr key v w = (True, w')" "stored kr key w' = Some v" "\<And>k. k \<noteq> key \<Longrightarrow> stored kr k w' = stored kr k w"
    "no_failed_read w \<Longrightarrow> no_failed_read w'"
proof -
  obtain s' where s: "kr_set kr key v (cw_store w) = Some s'" "kr_get kr key s' = Some (Some v)"
    "\<forall>k'. k' \<noteq> key \<longrightarrow> kr_get kr k' s' = kr_get kr k' (cw_store w)"
    using assms unfolding keyring_works_def by metis
  let ?w = "set_read_state key State_PRESENT (w\<lparr>cw_store := s'\<rparr>)"
  show ?thesis
  proof (rule that [of ?w])
    show "write_secret kr key v w = (True, ?w)" using assms s by (simp add: write_secret_def keyring_works_def)
  qed (use s in \<open>simp_all add: no_failed_set stored_written stored_def [of kr _ w]\<close>)
qed

lemma delete_works:
  assumes "keyring_works kr" and "no_failed_read w"
  shows "stored kr key (snd (delete_secret kr key w)) = Some []" "k \<noteq> key \<Longrightarrow> stored kr k (snd (delete_secret kr key w)) = stored kr k w"
    "no_failed_read (snd (delete_secret kr key w))"
proof -
  have u: "map_of (cw_states w) key \<noteq> Some State_UNAVAILABLE" using assms(2) by (force simp: no_failed_read_def dest: map_of_SomeD)
  have av: "kr_available kr" and del: "case kr_delete kr key (cw_store w) of None \<Rightarrow> kr_get kr key (cw_store w) = Some None
      | Some s' \<Rightarrow> kr_get kr key s' = Some None \<and> (\<forall>k'. k' \<noteq> key \<longrightarrow> kr_get kr k' s' = kr_get kr k' (cw_store w))"
    using assms(1) by (auto simp: keyring_works_def)
  show "stored kr key (snd (delete_secret kr key w)) = Some []" "k \<noteq> key \<Longrightarrow> stored kr k (snd (delete_secret kr key w)) = stored kr k w"
    "no_failed_read (snd (delete_secret kr key w))"
    using u av del assms(2)
    by (auto simp: delete_secret_def stored_written no_failed_set stored_def [of kr _ w] split: option.splits)
qed

lemma secure_step_works:
  assumes "keyring_works kr" and "no_failed_read w"
  obtains w' where "secure_step kr conv opts (key, s) (payload, w) = (slot_set s (JStr []) payload, w')"
    "stored kr key w' = Some (slot_text conv s opts)" "\<And>k. k \<noteq> key \<Longrightarrow> stored kr k w' = stored kr k w" "no_failed_read w'"
proof (cases "slot_text conv s opts = []")
  case True
  then show ?thesis using that [of "snd (delete_secret kr key w)"] delete_works [OF assms] by (simp add: secure_step_def)
next
  case False
  obtain w' where w': "write_secret kr key (slot_text conv s opts) w = (True, w')" "stored kr key w' = Some (slot_text conv s opts)"
    "\<And>k. k \<noteq> key \<Longrightarrow> stored kr k w' = stored kr k w" "no_failed_read w'"
    using write_works [OF assms(1)] assms(2) by metis
  show ?thesis by (rule that [of w']) (use False w' in \<open>simp_all add: secure_step_def\<close>)
qed

lemma secure_fold_works:
  assumes "keyring_works kr"
  shows "no_failed_read w \<Longrightarrow> distinct (map fst ks) \<Longrightarrow>
    \<exists>w'. fold (secure_step kr conv opts) ks (payload, w) = (set_slots (\<lambda>_. JStr []) (map snd ks) payload, w') \<and> no_failed_read w' \<and>
      (\<forall>(k, s)\<in>set ks. stored kr k w' = Some (slot_text conv s opts)) \<and> (\<forall>k. k \<notin> fst ` set ks \<longrightarrow> stored kr k w' = stored kr k w)"
proof (induction ks arbitrary: payload w)
  case (Cons ks kss)
  obtain key s where ks: "ks = (key, s)" by fastforce
  obtain w1 where w1: "secure_step kr conv opts (key, s) (payload, w) = (slot_set s (JStr []) payload, w1)"
    "stored kr key w1 = Some (slot_text conv s opts)" "\<And>k. k \<noteq> key \<Longrightarrow> stored kr k w1 = stored kr k w" "no_failed_read w1"
    using secure_step_works [OF assms Cons.prems(1)] by metis
  have "distinct (map fst kss)" "key \<notin> fst ` set kss" using Cons.prems(2) by (simp_all add: ks)
  then obtain w2 where w2: "fold (secure_step kr conv opts) kss (slot_set s (JStr []) payload, w1) =
        (set_slots (\<lambda>_. JStr []) (map snd kss) (slot_set s (JStr []) payload), w2)" "no_failed_read w2"
      "\<forall>(k, s)\<in>set kss. stored kr k w2 = Some (slot_text conv s opts)" "\<forall>k. k \<notin> fst ` set kss \<longrightarrow> stored kr k w2 = stored kr k w1"
    using Cons.IH [OF w1(4)] by blast
  show ?case
  proof (intro exI [of _ w2] conjI)
    show "fold (secure_step kr conv opts) (ks # kss) (payload, w) = (set_slots (\<lambda>_. JStr []) (map snd (ks # kss)) payload, w2)"
      by (simp add: ks w1(1) w2(1))
    show "\<forall>(k, s)\<in>set (ks # kss). stored kr k w2 = Some (slot_text conv s opts)"
      using w2(3,4) w1(2) \<open>key \<notin> fst ` set kss\<close> by (simp add: ks)
    show "\<forall>k. k \<notin> fst ` set (ks # kss) \<longrightarrow> stored kr k w2 = stored kr k w" using w2(4) w1(3) by (simp add: ks)
  qed (rule w2(2))
qed simp

lemma read_secret_stored:
  assumes "kr_available kr" and "stored kr key w = Some v"
  shows "\<exists>w'. read_secret kr key w = ((if v \<noteq> [] then State_PRESENT else State_MISSING, v), w') \<and> cw_store w' = cw_store w"
proof -
  obtain g where "kr_get kr key (cw_store w) = Some g" "v = (case g of Some s \<Rightarrow> s | None \<Rightarrow> [])"
    using assms(2) by (auto simp: stored_def)
  then show ?thesis using assms(1) by (simp add: read_secret_def set_read_state_def Let_def)
qed

lemma hydrate_fold_works:
  assumes "keyring_works kr"
  shows "\<forall>(k, s)\<in>set ks. stored kr k w = Some (txt s) \<Longrightarrow> \<forall>s\<in>snd ` set ks. slot_in s opts \<and> slot_get s opts = JStr [] \<Longrightarrow>
    distinct (map snd ks) \<Longrightarrow>
    \<exists>w'. fold (hydrate_step kr conv) ks (False, opts, w) = (False, set_slots (\<lambda>s. JStr (txt s)) (map snd ks) opts, w')"
proof (induction ks arbitrary: opts w)
  case (Cons ks kss)
  obtain key s where ks: "ks = (key, s)" by fastforce
  have blank: "slot_in s opts" "slot_get s opts = JStr []" using Cons.prems(2) by (simp_all add: ks)
  have "kr_available kr" "stored kr key w = Some (txt s)" using assms Cons.prems(1) by (simp_all add: ks keyring_works_def)
  then obtain w1 where w1: "read_secret kr key w = ((if txt s \<noteq> [] then State_PRESENT else State_MISSING, txt s), w1)"
    "cw_store w1 = cw_store w" using read_secret_stored by blast
  have step: "hydrate_step kr conv (key, s) (False, opts, w) = (False, slot_set s (JStr (txt s)) opts, w1)"
    using w1(1) blank slot_set_get [of s opts] by (simp add: hydrate_step_def slot_text_def str_default_def str_field_def)
  have "\<forall>(k, t)\<in>set kss. stored kr k w1 = Some (txt t)" using Cons.prems(1) w1(2) by (simp add: stored_def)
  moreover have "\<forall>t\<in>snd ` set kss. slot_in t (slot_set s (JStr (txt s)) opts) \<and> slot_get t (slot_set s (JStr (txt s)) opts) = JStr []"
  proof
    fix t assume t: "t \<in> snd ` set kss"
    then have "t \<noteq> s" "slot_in t opts" "slot_get t opts = JStr []" using Cons.prems(2,3) by (auto simp: ks)
    then show "slot_in t (slot_set s (JStr (txt s)) opts) \<and> slot_get t (slot_set s (JStr (txt s)) opts) = JStr []"
      by (simp add: slot_get_set_other)
  qed
  ultimately show ?case using Cons.IH [of w1 "slot_set s (JStr (txt s)) opts"] Cons.prems(3) step by (simp add: ks)
qed simp

section \<open>Properties\<close>

text \<open>C30. With a credential store that works, saving keeps no secret in the file and loading restores them all: after
  \<open>secure_options_payload\<close> every credential of the payload is the empty string and the store holds exactly the secrets, and
  \<open>hydrate_credentials\<close> on that payload gives the original options back without anything left to migrate. The hypotheses are that the credentials are strings,
  as validation leaves them, and that no two of them share a key.\<close>

theorem secrets_round_trip:
  assumes "keyring_works kr" and "no_failed_read w" and "distinct (map fst (credential_slots conv opts))"
    and "list_all (\<lambda>s. slot_in s opts \<and> is_str (slot_get s opts)) (map snd (credential_slots conv opts))"
  shows "case secure_options_payload kr conv opts w of (payload, w1) \<Rightarrow>
       list_all (\<lambda>(k, s). slot_get s payload = JStr [] \<and> stored kr k w1 = Some (slot_text conv s opts)) (credential_slots conv opts) \<and>
       (\<exists>w2. hydrate_credentials kr conv payload w1 = (False, opts, w2))"
proof -
  let ?ks = "credential_slots conv opts"
  let ?blank = "set_slots (\<lambda>_. JStr []) (map snd ?ks) opts"
  obtain w1 where w1: "secure_options_payload kr conv opts w = (?blank, w1)" "\<forall>(k, s)\<in>set ?ks. stored kr k w1 = Some (slot_text conv s opts)"
    using secure_fold_works [OF assms(1,2,3), of conv opts opts] by (auto simp: secure_options_payload_def)
  have inb: "slot_in s ?blank \<and> slot_get s ?blank = JStr []" if "s \<in> snd ` set ?ks" for s
  proof -
    have "s \<in> set (map snd ?ks)" "slot_in s opts" using assms(4) that by (auto simp: list_all_iff)
    then show ?thesis using set_slots_get [OF distinct_slots] by simp
  qed
  have plain: "slot_get s opts = JStr (slot_text conv s opts)" if "s \<in> set (map snd ?ks)" for s
    using assms(4) that by (cases "slot_get s opts") (auto simp: list_all_iff slot_text_def str_default_def str_field_def)
  obtain w2 where "fold (hydrate_step kr conv) ?ks (False, ?blank, w1) =
      (False, set_slots (\<lambda>s. JStr (slot_text conv s opts)) (map snd ?ks) ?blank, w2)"
    using hydrate_fold_works [OF assms(1) w1(2), of ?blank conv] inb distinct_slots by blast
  moreover have "set_slots (\<lambda>s. JStr (slot_text conv s opts)) (map snd ?ks) ?blank = opts"
    unfolding set_slots_again [OF distinct_slots]
    by (rule set_slots_id) (use assms(4) plain in \<open>auto simp: list_all_iff\<close>)
  ultimately have "\<exists>w2. hydrate_credentials kr conv ?blank w1 = (False, opts, w2)" by (simp add: hydrate_credentials_def)
  moreover have "list_all (\<lambda>(k, s). slot_get s ?blank = JStr [] \<and> stored kr k w1 = Some (slot_text conv s opts)) ?ks"
    using inb w1(2) by (force simp: list_all_iff)
  ultimately show ?thesis by (simp add: w1(1))
qed

definition ex_keyring :: "(string, string) dict keyring" where
  "ex_keyring = \<lparr>kr_available = True, kr_get = (\<lambda>k s. Some (map_of s k)), kr_set = (\<lambda>k v s. Some (AList.update k v s)),
     kr_delete = (\<lambda>k s. if map_of s k = None then None else Some (AList.delete k s))\<rparr>"

definition ex_vault :: "(string, string) dict cred_world" where
  "ex_vault = \<lparr>cw_store = [(''external_trigger/token'', ''old'')], cw_states = []\<rparr>"

definition ex_secret_options :: options where
  "ex_secret_options = (default_options ''0'')
     \<lparr>op_pihole := jput ''password'' (JStr ''pw'') PiHoleOptions, op_llm_providers := [jput ''api_key'' (JStr ''k1'') (LLMProviderOptions ''1'')]\<rparr>"

lemma ex_keyring_works: "keyring_works ex_keyring"
  by (simp add: keyring_works_def ex_keyring_def update_conv delete_conv)

lemma secrets_round_trip_witness:
  "keyring_works ex_keyring \<and>
   (\<exists>payload w1 w2. secure_options_payload ex_keyring ex_conv ex_secret_options ex_vault = (payload, w1) \<and>
      slot_get Slot_pihole payload = JStr [] \<and> stored ex_keyring ''pihole/password'' w1 = Some ''pw'' \<and>
      hydrate_credentials ex_keyring ex_conv payload w1 = (False, ex_secret_options, w2))"
proof -
  have n: "no_failed_read ex_vault" by (simp add: no_failed_read_def ex_vault_def)
  have d: "distinct (map fst (credential_slots ex_conv ex_secret_options))" by code_simp
  have s: "list_all (\<lambda>s. slot_in s ex_secret_options \<and> is_str (slot_get s ex_secret_options)) (map snd (credential_slots ex_conv ex_secret_options))"
    by code_simp
  have t: "slot_text ex_conv Slot_pihole ex_secret_options = ''pw''" by code_simp
  obtain payload w1 where p: "secure_options_payload ex_keyring ex_conv ex_secret_options ex_vault = (payload, w1)" by fastforce
  have "list_all (\<lambda>(k, s). slot_get s payload = JStr [] \<and> stored ex_keyring k w1 = Some (slot_text ex_conv s ex_secret_options))
      (credential_slots ex_conv ex_secret_options) \<and> (\<exists>w2. hydrate_credentials ex_keyring ex_conv payload w1 = (False, ex_secret_options, w2))"
    using secrets_round_trip [OF ex_keyring_works n d s] by (simp add: p)
  then show ?thesis using ex_keyring_works t p by (auto simp: credential_slots_def)
qed

section \<open>Two sources of one kind\<close>

text \<open>The key of a research source in the store is its kind. When two sources of one kind are configured and only the first has an API key, saving writes
  the key and then deletes it for the second source: it is neither in the file nor in the store.\<close>

definition ex_twin_options :: options where
  "ex_twin_options = (default_options ''0'')
     \<lparr>op_llm_providers := [],
      op_research_providers := [research_provider_with [(''kind'', JStr ''urlscan''), (''api_key'', JStr ''k2'')], research_provider_with [(''kind'', JStr ''urlscan'')]]\<rparr>"

lemma twin_source_key_lost:
  "(case secure_options_payload ex_keyring ex_conv ex_twin_options ex_vault of (payload, w1) \<Rightarrow>
     slot_get (Slot_research 0) ex_twin_options = JStr ''k2'' \<and> slot_get (Slot_research 0) payload = JStr [] \<and>
     stored ex_keyring ''research/urlscan/api_key'' w1 = Some [])"
  by code_simp

end
