(* ===== verification/Network_Access.thy ===== *)
theory Network_Access
  imports Config "HOL-Library.Word"
begin

text \<open>
  \<open>pihole_manager/network_access.py\<close>: which client addresses may talk to the review server. Addresses are read as
  \<open>ipaddress.ip_address\<close> reads them, an IPv4 address as a 32-bit and an IPv6 address as a 128-bit word; membership in a network compares the
  leading bits.
\<close>

section \<open>Addresses\<close>

datatype ip_address = IPv4 "32 word" | IPv6 "128 word"

text \<open>An octet: one to three digits, no leading zero, at most 255.\<close>

definition ipv4_octet :: "string \<Rightarrow> int option" where
  "ipv4_octet s =
     (if s = [] \<or> \<not> list_all py_isdigit s \<or> 3 < length s \<or> (s \<noteq> ''0'' \<and> hd s = CHR ''0'') then None
      else let v = fold (\<lambda>c acc. acc * 10 + digit_value c) s 0 in if 255 < v then None else Some v)"

definition ipv4_int :: "string \<Rightarrow> int option" where
  "ipv4_int s =
     (case py_split (CHR ''.'') s of
        [a, b, c, d] \<Rightarrow>
          (case (ipv4_octet a, ipv4_octet b, ipv4_octet c, ipv4_octet d) of
             (Some w, Some x, Some y, Some z) \<Rightarrow> Some (((w * 256 + x) * 256 + y) * 256 + z)
           | _ \<Rightarrow> None)
      | _ \<Rightarrow> None)"

definition hex_value :: "char \<Rightarrow> int option" where
  "hex_value c =
     (let n = int (of_char c) in
      if 48 \<le> n \<and> n \<le> 57 then Some (n - 48) else if 97 \<le> n \<and> n \<le> 102 then Some (n - 87)
      else if 65 \<le> n \<and> n \<le> 70 then Some (n - 55) else None)"

text \<open>One to four hexadecimal digits.\<close>

definition hextet :: "string \<Rightarrow> int option" where
  "hextet s =
     (if s = [] \<or> 4 < length s then None
      else fold (\<lambda>c acc. case (acc, hex_value c) of (Some v, Some d) \<Rightarrow> Some (v * 16 + d) | _ \<Rightarrow> None) s (Some 0))"

text \<open>The groups between the colons: text, or the two halves of an embedded IPv4 address.\<close>

type_synonym group = "string + int"

definition is_gap :: "group \<Rightarrow> bool" where
  "is_gap g \<longleftrightarrow> g = Inl []"

definition group_value :: "group \<Rightarrow> int option" where
  "group_value g = (case g of Inl s \<Rightarrow> hextet s | Inr v \<Rightarrow> Some v)"

definition ipv6_groups :: "string \<Rightarrow> group list option" where
  "ipv6_groups s =
     (let parts = py_split (CHR '':'') s in
      if length parts < 3 then None
      else if CHR ''.'' \<in> set (last parts)
      then (case ipv4_int (last parts) of
              None \<Rightarrow> None | Some v \<Rightarrow> Some (map Inl (butlast parts) @ [Inr (v div 65536), Inr (v mod 65536)]))
      else Some (map Inl parts))"

text \<open>The number from the leading groups, the groups that \<open>::\<close> stands for and the trailing groups.\<close>

definition assemble :: "group list \<Rightarrow> nat \<Rightarrow> group list \<Rightarrow> int option" where
  "assemble hi skipped lo =
     fold (\<lambda>g acc. case (acc, group_value g) of (Some v, Some d) \<Rightarrow> Some (v * 65536 + d) | _ \<Rightarrow> None)
       (hi @ replicate skipped (Inr 0) @ lo) (Some 0)"

definition ipv6_int :: "string \<Rightarrow> int option" where
  "ipv6_int s =
     (case ipv6_groups s of
        None \<Rightarrow> None
      | Some parts \<Rightarrow>
          let n = length parts; gaps = filter (\<lambda>i. is_gap (parts ! i)) [1..<n - 1] in
          if 9 < n then None
          else case gaps of
            [] \<Rightarrow> if n \<noteq> 8 \<or> is_gap (hd parts) \<or> is_gap (last parts) then None else assemble parts 0 []
          | [i] \<Rightarrow>
              let lead = is_gap (hd parts); trail = is_gap (last parts);
                  hi = (if lead then i - 1 else i); lo = (if trail then n - i - 2 else n - i - 1)
              in if (lead \<and> hi \<noteq> 0) \<or> (trail \<and> lo \<noteq> 0) \<or> 8 < hi + lo + 1 then None
                 else assemble (take hi parts) (8 - (hi + lo)) (drop (n - lo) parts)
          | _ \<Rightarrow> None)"

text \<open>A scope after \<open>%\<close> is not part of the number; it must not be empty or contain another \<open>%\<close>.\<close>

definition split_scope :: "string \<Rightarrow> string option" where
  "split_scope s =
     (case py_split (CHR ''%'') s of [a] \<Rightarrow> Some a | [a, scope] \<Rightarrow> if scope = [] then None else Some a | _ \<Rightarrow> None)"

definition parse_ip :: "string \<Rightarrow> ip_address option" where
  "parse_ip s =
     (if CHR ''/'' \<in> set s then None
      else case ipv4_int s of
        Some v \<Rightarrow> Some (IPv4 (word_of_int v))
      | None \<Rightarrow> (case split_scope s of None \<Rightarrow> None | Some a \<Rightarrow> map_option (\<lambda>v. IPv6 (word_of_int v)) (ipv6_int a)))"

text \<open>\<open>is_loopback\<close>; from Python 3.13 on (\<open>mapped\<close>) an IPv6 address that maps an IPv4 loopback address is one too.\<close>

definition loopback4 :: "32 word \<Rightarrow> bool" where
  "loopback4 w \<longleftrightarrow> drop_bit 24 w = 127"

definition is_loopback :: "bool \<Rightarrow> ip_address \<Rightarrow> bool" where
  "is_loopback mapped ip =
     (case ip of
        IPv4 w \<Rightarrow> loopback4 w
      | IPv6 w \<Rightarrow> w = 1 \<or> (mapped \<and> drop_bit 32 w = 0xFFFF \<and> loopback4 (ucast w)))"

section \<open>Access modes\<close>

definition access_modes :: "string list" where
  "access_modes = [''local'', ''lan'', ''tailscale'', ''lan_tailscale'', ''any'']"

datatype ip_network = Net4 "32 word" nat | Net6 "128 word" nat

fun ip_in :: "ip_address \<Rightarrow> ip_network \<Rightarrow> bool" where
  "ip_in (IPv4 w) (Net4 n len) = (drop_bit (32 - len) w = drop_bit (32 - len) n)"
| "ip_in (IPv6 w) (Net6 n len) = (drop_bit (128 - len) w = drop_bit (128 - len) n)"
| "ip_in _ _ = False"

definition lan_networks :: "ip_network list" where
  "lan_networks = [Net4 0x0A000000 8, Net4 0xAC100000 12, Net4 0xC0A80000 16, Net6 (push_bit 112 0xFC00) 7, Net6 (push_bit 112 0xFE80) 10]"

definition tailscale_networks :: "ip_network list" where
  "tailscale_networks = [Net4 0x64400000 10, Net6 (push_bit 80 0xFD7A115CA1E0) 48]"

definition normalize_access_mode :: "py_conv \<Rightarrow> json \<Rightarrow> bool \<Rightarrow> string" where
  "normalize_access_mode conv v legacy_remote =
     (let mode = py_lower (py_strip (str_default conv v [])) in
      if mode \<in> set access_modes then mode else if legacy_remote then ''any'' else ''local'')"

text \<open>\<open>load_review_access_options\<close>: \<open>parsed\<close> is the parsed file, if there is one that parses.\<close>

definition load_review_access_options :: "py_conv \<Rightarrow> json option \<Rightarrow> bool \<Rightarrow> string" where
  "load_review_access_options conv parsed legacy_remote =
     (case parsed of
        Some (JObj raw) \<Rightarrow> normalize_access_mode conv (jget ''mode'' raw) legacy_remote
      | _ \<Rightarrow> if legacy_remote then ''any'' else ''local'')"

definition save_review_access_options :: "py_conv \<Rightarrow> json \<Rightarrow> json" where
  "save_review_access_options conv mode = JObj [(''version'', JInt 1), (''mode'', JStr (normalize_access_mode conv mode False))]"

definition client_access_allowed :: "bool \<Rightarrow> string \<Rightarrow> string \<Rightarrow> bool" where
  "client_access_allowed mapped address mode =
     (case parse_ip (hd (py_split (CHR ''%'') address)) of
        None \<Rightarrow> False
      | Some ip \<Rightarrow>
          let m = py_lower (py_strip mode); m = (if m \<in> set access_modes then m else ''local'') in
          is_loopback mapped ip \<or> m = ''any'' \<or>
          (m \<in> {''lan'', ''lan_tailscale''} \<and> list_ex (ip_in ip) lan_networks) \<or>
          (m \<in> {''tailscale'', ''lan_tailscale''} \<and> list_ex (ip_in ip) tailscale_networks))"

section \<open>IPv4 addresses in dotted form\<close>

definition dotted :: "nat \<Rightarrow> nat \<Rightarrow> nat \<Rightarrow> nat \<Rightarrow> string" where
  "dotted a b c d = show_nat a @ ''.'' @ show_nat b @ ''.'' @ show_nat c @ ''.'' @ show_nat d"

lemma digit_char_value: "n < 10 \<Longrightarrow> digit_value (digit_char n) = int n"
  by (simp add: digit_value_def digit_char_def of_char_char_of_small)

lemma digit_char_digit: "n < 10 \<Longrightarrow> py_isdigit (digit_char n)"
  by (simp add: py_isdigit_def digit_char_def of_char_char_of_small)

lemma show_nat_digits: "list_all py_isdigit (show_nat n)"
proof (induction n rule: show_nat.induct)
  case (1 n)
  show ?case by (subst show_nat.simps) (use 1 in \<open>simp add: digit_char_digit\<close>)
qed

lemma show_nat_value: "fold (\<lambda>c acc. acc * 10 + digit_value c) (show_nat n) 0 = int n"
proof (induction n rule: show_nat.induct)
  case (1 n)
  show ?case
  proof (cases "n < 10")
    case True
    then show ?thesis by (subst show_nat.simps) (simp add: digit_char_value)
  next
    case False
    then show ?thesis using 1 by (subst show_nat.simps) (simp add: digit_char_value zdiv_int zmod_int)
  qed
qed

lemma show_nat_split: "py_split (CHR ''.'') (show_nat n @ CHR ''.'' # t) = show_nat n # py_split (CHR ''.'') t"
  "py_split (CHR ''.'') (show_nat n) = [show_nat n]"
proof -
  have nd: "list_all py_isdigit s \<Longrightarrow> py_split (CHR ''.'') (s @ CHR ''.'' # t) = s # py_split (CHR ''.'') t" for s
    by (induction s) (auto simp: py_isdigit_def)
  have ne: "list_all py_isdigit s \<Longrightarrow> py_split (CHR ''.'') s = [s]" for s
    by (induction s) (auto simp: py_isdigit_def)
  show "py_split (CHR ''.'') (show_nat n @ CHR ''.'' # t) = show_nat n # py_split (CHR ''.'') t" by (rule nd [OF show_nat_digits])
  show "py_split (CHR ''.'') (show_nat n) = [show_nat n]" by (rule ne [OF show_nat_digits])
qed

text \<open>All 256 octets print and read back.\<close>

lemma octet_round_trip: "n < 256 \<Longrightarrow> ipv4_octet (show_nat n) = Some (int n)"
proof -
  assume n: "n < 256"
  have s: "show_nat n = (if n < 10 then [digit_char n] else if n < 100 then [digit_char (n div 10), digit_char (n mod 10)]
      else [digit_char (n div 100), digit_char (n div 10 mod 10), digit_char (n mod 10)])"
  proof (cases "n < 10")
    case True
    then show ?thesis by (subst show_nat.simps) simp
  next
    case False
    have "show_nat (n div 100) = [digit_char (n div 100)]" using n by (subst show_nat.simps) auto
    then have "show_nat (n div 10) = (if n < 100 then [digit_char (n div 10)] else [digit_char (n div 100), digit_char (n div 10 mod 10)])"
      using n by (subst show_nat.simps) (auto simp: div_mult2_eq [symmetric])
    then show ?thesis using False by (subst show_nat.simps) simp
  qed
  have z: "digit_char m = CHR ''0'' \<longleftrightarrow> m = 0" if "m < 10" for m
  proof -
    have "(of_char (digit_char m) :: nat) = m + 48" using that by (simp add: digit_char_def of_char_char_of_small)
    moreover have "(of_char (CHR ''0'') :: nat) = 48" by simp
    ultimately show ?thesis using of_char_eq_iff [of "digit_char m" "CHR ''0''", where ?'a=nat] by simp
  qed
  have "show_nat n \<noteq> [] \<and> length (show_nat n) \<le> 3 \<and> (show_nat n = ''0'' \<or> hd (show_nat n) \<noteq> CHR ''0'')"
    unfolding s using n z [of n] z [of "n div 10"] z [of "n div 100"] by (auto simp: div_eq_0_iff)
  then show ?thesis using n show_nat_digits [of n] show_nat_value [of n]
    by (auto simp: ipv4_octet_def Let_def)
qed

lemma dotted_no_special: "CHR ''/'' \<notin> set (dotted a b c d)" "py_split (CHR ''%'') (dotted a b c d) = [dotted a b c d]"
proof -
  have d: "\<forall>x\<in>set (dotted a b c d). py_isdigit x \<or> x = CHR ''.''" using show_nat_digits by (auto simp: dotted_def list_all_iff)
  then show "CHR ''/'' \<notin> set (dotted a b c d)" by (auto simp: py_isdigit_def)
  have "\<forall>x\<in>set s. py_isdigit x \<or> x = CHR ''.'' \<Longrightarrow> py_split (CHR ''%'') s = [s]" for s
    by (induction s) (auto simp: py_isdigit_def)
  then show "py_split (CHR ''%'') (dotted a b c d) = [dotted a b c d]" using d by blast
qed

lemma parse_dotted:
  assumes "a < 256" "b < 256" "c < 256" "d < 256"
  shows "parse_ip (dotted a b c d) = Some (IPv4 (word_of_int (((int a * 256 + int b) * 256 + int c) * 256 + int d)))"
proof -
  have "py_split (CHR ''.'') (dotted a b c d) = [show_nat a, show_nat b, show_nat c, show_nat d]"
    by (simp add: dotted_def show_nat_split)
  then have "ipv4_int (dotted a b c d) = Some (((int a * 256 + int b) * 256 + int c) * 256 + int d)"
    using assms by (simp add: ipv4_int_def octet_round_trip)
  then show ?thesis by (simp add: parse_ip_def dotted_no_special)
qed

text \<open>Leading bits of a word are a quotient of the number.\<close>

lemma leading_bits:
  assumes "0 \<le> v" "v < 2 ^ 32" "0 \<le> u" "u < 2 ^ 32"
  shows "drop_bit k (word_of_int v :: 32 word) = drop_bit k (word_of_int u) \<longleftrightarrow> v div 2 ^ k = u div 2 ^ k"
proof -
  have "uint (word_of_int x :: 32 word) = x" if "0 \<le> x" "x < 2 ^ 32" for x
    using that by (simp add: uint_word_of_int_eq take_bit_eq_mod)
  moreover have "uint (drop_bit k w) = uint w div 2 ^ k" for w :: "32 word"
    using uint_lt2p [of w] by (simp only: unsigned_drop_bit_eq) (simp add: drop_bit_eq_div take_bit_int_eq_self)
  ultimately show ?thesis using assms unfolding word_uint_eq_iff by simp
qed

lemma quotient_remainder_unique: "0 \<le> q \<Longrightarrow> q < k \<Longrightarrow> x * k + q = n \<longleftrightarrow> x = n div k \<and> q = n mod k" for x q k n :: int
  using int_div_pos_eq [of n k x q] int_mod_pos_eq [of n k x q] by (auto simp: mult.commute)

lemma dotted_networks:
  assumes "a < 256" "b < 256" "c < 256" "d < 256"
  defines "v \<equiv> ((int a * 256 + int b) * 256 + int c) * 256 + int d"
  shows "loopback4 (word_of_int v) \<longleftrightarrow> a = 127"
    and "list_ex (ip_in (IPv4 (word_of_int v))) lan_networks \<longleftrightarrow> a = 10 \<or> (a = 172 \<and> 16 \<le> b \<and> b \<le> 31) \<or> (a = 192 \<and> b = 168)"
    and "list_ex (ip_in (IPv4 (word_of_int v))) tailscale_networks \<longleftrightarrow> a = 100 \<and> 64 \<le> b \<and> b \<le> 127"
proof -
  have v: "0 \<le> v" "v < 2 ^ 32" using assms by (simp_all add: v_def)
  have l: "drop_bit k (word_of_int v :: 32 word) = drop_bit k (word_of_int u) \<longleftrightarrow> v div 2 ^ k = u div 2 ^ k" if "0 \<le> u" "u < 2 ^ 32" for k u
    by (rule leading_bits [OF v that])
  have q: "v div 16777216 = int a" "v div 65536 = int a * 256 + int b"
  proof -
    show "v div 16777216 = int a"
      by (rule int_div_pos_eq [of _ _ _ "(int b * 256 + int c) * 256 + int d"]) (use assms(1-4) in \<open>simp_all add: v_def\<close>)
    show "v div 65536 = int a * 256 + int b"
      by (rule int_div_pos_eq [of _ _ _ "int c * 256 + int d"]) (use assms(1-4) in \<open>simp_all add: v_def\<close>)
  qed
  have "v div 1048576 = v div 65536 div 16" "v div 4194304 = v div 65536 div 64" by (simp_all add: zdiv_zmult2_eq [symmetric])
  then have q': "v div 1048576 = int a * 16 + int b div 16" "v div 4194304 = int a * 4 + int b div 64" by (simp_all add: q(2))
  have b: "0 \<le> int b div 16" "int b div 16 < 16" "0 \<le> int b div 64" "int b div 64 < 4" using assms(2) by simp_all
  have d: "int b div 16 = 1 \<longleftrightarrow> 16 \<le> b \<and> b \<le> 31" "int b div 64 = 1 \<longleftrightarrow> 64 \<le> b \<and> b \<le> 127" by linarith+
  have e: "int a * 16 + int b div 16 = 2753 \<longleftrightarrow> a = 172 \<and> 16 \<le> b \<and> b \<le> 31" "int a * 256 + int b = 49320 \<longleftrightarrow> a = 192 \<and> b = 168"
    "int a * 4 + int b div 64 = 401 \<longleftrightarrow> a = 100 \<and> 64 \<le> b \<and> b \<le> 127"
    using quotient_remainder_unique [OF b(1,2), of "int a" 2753] quotient_remainder_unique [of "int b" 256 "int a" 49320]
      quotient_remainder_unique [OF b(3,4), of "int a" 401] assms(2) d by simp_all
  show "loopback4 (word_of_int v) \<longleftrightarrow> a = 127"
    using l [of "127 * 16777216" 24] by (simp add: loopback4_def q)
  show "list_ex (ip_in (IPv4 (word_of_int v))) lan_networks \<longleftrightarrow> a = 10 \<or> (a = 172 \<and> 16 \<le> b \<and> b \<le> 31) \<or> (a = 192 \<and> b = 168)"
    using l [of "0x0A000000" 24] l [of "0xAC100000" 20] l [of "0xC0A80000" 16]
    by (simp add: lan_networks_def q q' e)
  show "list_ex (ip_in (IPv4 (word_of_int v))) tailscale_networks \<longleftrightarrow> a = 100 \<and> 64 \<le> b \<and> b \<le> 127"
    using l [of "0x64400000" 22] by (simp add: tailscale_networks_def q q' e)
qed

section \<open>Properties\<close>

text \<open>What a client with an IPv4 address \<open>a.b.c.d\<close> may do: a loopback client is always admitted, mode \<open>any\<close> admits every
  client, \<open>lan\<close> the private ranges 10/8, 172.16/12 and 192.168/16, \<open>tailscale\<close> the range 100.64/10, \<open>lan_tailscale\<close> both, and
  every other mode, also an unknown one, admits the loopback range 127/8 only.\<close>

theorem client_access_ranges:
  assumes "a < 256" and "b < 256" and "c < 256" and "d < 256"
  shows "client_access_allowed mapped (dotted a b c d) mode \<longleftrightarrow>
     (let m = py_lower (py_strip mode);
          lan = (a = 10 \<or> (a = 172 \<and> 16 \<le> b \<and> b \<le> 31) \<or> (a = 192 \<and> b = 168));
          tailscale = (a = 100 \<and> 64 \<le> b \<and> b \<le> 127)
      in a = 127 \<or> m = ''any'' \<or> (m = ''lan'' \<and> lan) \<or> (m = ''tailscale'' \<and> tailscale) \<or> (m = ''lan_tailscale'' \<and> (lan \<or> tailscale)))"
proof -
  obtain w where "parse_ip (dotted a b c d) = Some (IPv4 w)" "loopback4 w \<longleftrightarrow> a = 127"
    "list_ex (ip_in (IPv4 w)) lan_networks \<longleftrightarrow> a = 10 \<or> (a = 172 \<and> 16 \<le> b \<and> b \<le> 31) \<or> (a = 192 \<and> b = 168)"
    "list_ex (ip_in (IPv4 w)) tailscale_networks \<longleftrightarrow> a = 100 \<and> 64 \<le> b \<and> b \<le> 127"
    using parse_dotted [OF assms] dotted_networks [OF assms] by blast
  then show ?thesis
    by (auto simp: client_access_allowed_def dotted_no_special is_loopback_def access_modes_def Let_def)
qed

lemma client_access_ranges_witness:
  "client_access_allowed False (dotted 172 31 0 9) ''lan'' \<and> \<not> client_access_allowed False (dotted 172 32 0 9) ''lan'' \<and>
   \<not> client_access_allowed False (dotted 100 64 1 2) ''local'' \<and> client_access_allowed False (dotted 100 64 1 2) '' Tailscale ''"
proof -
  have l: "py_lower (py_strip ''lan'') = ''lan''" "py_lower (py_strip ''local'') = ''local''" "py_lower (py_strip '' Tailscale '') = ''tailscale''" by code_simp+
  show ?thesis using client_access_ranges [of 172 31 0 9] client_access_ranges [of 172 32 0 9] client_access_ranges [of 100 64 1 2]
    by (simp add: Let_def l)
qed

end
