(* ===== verification/Trigger_Api.thy ===== *)
theory Trigger_Api
  imports Review_Decisions Network_Access
begin

text \<open>
  \<open>pihole_manager/external_trigger.py\<close> and the scoped server of \<open>network_access.py\<close>: starting the review server, and its two request
  handlers. As in the constructor of \<open>ExternalTriggerServer\<close>, the operations behind the server are callbacks; \<open>observatory_callbacks\<close> are its
  defaults on the models of the queue, the review decisions and the workers. A request is given by what the HTTP library hands to the handler: the path without its
  query, the first \<open>limit\<close> of the query, the headers and the body as \<open>json.loads\<close> reads it.
\<close>

record trigger_options =
  tg_enabled :: bool
  tg_bind_host :: string
  tg_port :: int
  tg_token :: string
  tg_allow_remote :: bool
  tg_max_domains :: int

record api_request =
  rq_client :: string
  rq_path :: string
  rq_limit :: "string option"
  rq_authorization :: string
  rq_content_length :: string
  rq_body :: "json option"

datatype api_reply = Json_reply int jobj | Asset_reply string | Redirect_reply string | Raised exn

record 'k callbacks =
  cb_queue :: "string list \<Rightarrow> string \<Rightarrow> 'k \<Rightarrow> 'k \<times> (exn + json)"
  cb_cancel :: "'k \<Rightarrow> 'k \<times> int"
  cb_recheck :: "int \<Rightarrow> 'k \<Rightarrow> 'k \<times> (exn + int)"
  cb_reviews :: "int \<Rightarrow> 'k \<Rightarrow> jobj list"
  cb_lookup :: "string \<Rightarrow> 'k \<Rightarrow> jobj option"
  cb_decide :: "string \<Rightarrow> string \<Rightarrow> int option \<Rightarrow> 'k \<Rightarrow> 'k \<times> (exn + json)"

text \<open>A server that listens: its address, its token and limit, and the access mode its handler was built with.\<close>

record server =
  sv_host :: string
  sv_port :: int
  sv_token :: string
  sv_max_domains :: int
  sv_mode :: string

record env =
  en_conv :: py_conv
  en_mapped :: bool
  en_unquote :: "string \<Rightarrow> string"
  en_asset :: "string \<Rightarrow> string option"

section \<open>Starting\<close>

definition is_loopback_host :: "bool \<Rightarrow> string \<Rightarrow> bool" where
  "is_loopback_host mapped host =
     (let n = py_lower (py_strip host) in
      n = ''localhost'' \<or> (case parse_ip n of Some ip \<Rightarrow> is_loopback mapped ip | None \<Rightarrow> False))"

text \<open>\<open>ExternalTriggerServer.start\<close> of a server that does not run yet; \<^const>\<open>None\<close> when it is disabled.\<close>

definition start_server :: "bool \<Rightarrow> string \<Rightarrow> trigger_options \<Rightarrow> exn + server option" where
  "start_server mapped mode opts =
     (if \<not> tg_enabled opts then Inr None
      else let token = py_strip (tg_token opts); host = str_or (py_strip (tg_bind_host opts)) ''127.0.0.1'' in
        if token = [] then Inl (ValueError ''External trigger requires an authentication token'')
        else if \<not> is_loopback_host mapped host \<and> \<not> tg_allow_remote opts
        then Inl (ValueError ''External trigger may bind to a non-loopback address only when remote access is explicitly enabled'')
        else Inr (Some \<lparr>sv_host = host, sv_port = tg_port opts, sv_token = token, sv_max_domains = max 1 (tg_max_domains opts), sv_mode = mode\<rparr>))"

text \<open>\<open>ScopedExternalTriggerServer.start\<close>: the access mode decides about remote access, for the time of the start. The handler reads the
  mode again while it is set.\<close>

definition start_scoped :: "py_conv \<Rightarrow> bool \<Rightarrow> json option \<Rightarrow> trigger_options \<Rightarrow> exn + server option" where
  "start_scoped conv mapped access_file opts =
     (let mode = load_review_access_options conv access_file (tg_allow_remote opts);
          scoped = opts\<lparr>tg_allow_remote := mode \<noteq> ''local''\<rparr>
      in start_server mapped (load_review_access_options conv access_file (tg_allow_remote scoped)) scoped)"

text \<open>\<open>configure_external_trigger\<close>: the running server is stopped first; a failed start leaves none.\<close>

definition configure_external_trigger ::
  "py_conv \<Rightarrow> bool \<Rightarrow> json option \<Rightarrow> trigger_options \<Rightarrow> server option \<Rightarrow> server option \<times> (exn + unit)" where
  "configure_external_trigger conv mapped access_file opts running =
     (if \<not> tg_enabled opts then (None, Inr ())
      else case start_scoped conv mapped access_file opts of Inl e \<Rightarrow> (None, Inl e) | Inr s \<Rightarrow> (s, Inr ()))"

definition stop_external_trigger :: "server option \<Rightarrow> server option" where
  "stop_external_trigger running = None"

section \<open>Helpers of the handler\<close>

definition json_error :: "int \<Rightarrow> string \<Rightarrow> api_reply" where
  "json_error status e = Json_reply status [(''error'', JStr e)]"

definition authorized :: "server \<Rightarrow> api_request \<Rightarrow> bool" where
  "authorized sv rq \<longleftrightarrow> rq_authorization rq = ''Bearer '' @ sv_token sv"

text \<open>\<open>_read_json\<close>: a body of 1 byte to 64 KiB that is a JSON object.\<close>

definition read_json :: "api_request \<Rightarrow> api_reply + jobj" where
  "read_json rq =
     (let length = (case py_int_of_str (rq_content_length rq) of Some n \<Rightarrow> n | None \<Rightarrow> 0) in
      if length \<le> 0 \<or> 64 * 1024 < length then Inl (json_error 400 ''invalid_request_body'')
      else case rq_body rq of Some (JObj payload) \<Rightarrow> Inr payload | _ \<Rightarrow> Inl (json_error 400 ''invalid_json''))"

definition review_api_fields :: "string list" where
  "review_api_fields =
     [''domain'', ''tags'', ''categories'', ''policy'', ''short'', ''details'', ''provider'', ''status'', ''service'', ''service_role'',
      ''privacy_risk'', ''security_risk'', ''breakage_risk'', ''confidence'', ''needs_review'', ''review_reason'', ''planned_action'',
      ''action_status'', ''locked'', ''queue_source'', ''queue_state'', ''queue_error'', ''queue_priority'', ''queue_created_at'', ''updated_at'']"

definition serialize_review :: "jobj \<Rightarrow> jobj" where
  "serialize_review row =
     (let payload = map (\<lambda>f. (f, jget f row)) (filter (\<lambda>f. jhas f row) review_api_fields);
          payload = (if \<not> jhas ''tags'' payload \<and> jhas ''categories'' payload
                     then jput ''tags'' (JList (jitems (jget ''categories'' payload))) payload else payload)
      in AList.delete ''categories'' payload)"

definition path_domain :: "env \<Rightarrow> string \<Rightarrow> string" where
  "path_domain en encoded = py_rstrip_char (CHR ''.'') (py_lower (py_strip (en_unquote en encoded)))"

definition requested_limit :: "server \<Rightarrow> int \<Rightarrow> api_request \<Rightarrow> int" where
  "requested_limit sv default_limit rq =
     min (sv_max_domains sv)
       (max 1 (case rq_limit rq of None \<Rightarrow> default_limit
               | Some s \<Rightarrow> (case py_int_of_str s of Some n \<Rightarrow> n | None \<Rightarrow> default_limit)))"

section \<open>GET\<close>

definition do_GET :: "env \<Rightarrow> 'k callbacks \<Rightarrow> server \<Rightarrow> api_request \<Rightarrow> 'k \<Rightarrow> api_reply" where
  "do_GET en cb sv rq k =
     (let path = rq_path rq in
      if path \<in> {''/'', ''/app''} then Redirect_reply ''/app/''
      else case en_asset en path of
        Some asset \<Rightarrow> Asset_reply asset
      | None \<Rightarrow>
          if \<not> authorized sv rq then json_error 401 ''unauthorized''
          else if path = ''/health'' then Json_reply 200 [(''status'', JStr ''ok'')]
          else if path = ''/v1/status'' then
            Json_reply 200 [(''status'', JStr ''ok''), (''api_version'', JInt 1), (''service'', JStr ''wormhole-observatory''),
              (''capabilities'', JList (map JStr [''review_queue'', ''review_lookup'', ''queue_review'', ''queue_rechecks'', ''cancel_jobs'',
                 ''review_pwa'', ''review_decisions'']))]
          else if path = ''/v1/reviews'' then
            (let limit = requested_limit sv 200 rq;
                 items = map serialize_review (take (nat limit) (cb_reviews cb limit k))
             in Json_reply 200 [(''items'', JList (map JObj items)), (''count'', JInt (int (length items))), (''limit'', JInt limit)])
          else if py_startswith ''/v1/reviews/'' path then
            (let domain = path_domain en (drop (length ''/v1/reviews/'') path) in
             if domain = [] \<or> CHR ''/'' \<in> set domain then json_error 400 ''invalid_domain''
             else case cb_lookup cb domain k of
               None \<Rightarrow> json_error 404 ''review_not_found''
             | Some row \<Rightarrow> Json_reply 200 [(''item'', JObj (serialize_review row))])
          else json_error 404 ''not_found'')"

section \<open>POST\<close>

text \<open>What the handler makes of an exception of the decision: a \<open>ValueError\<close> is a bad request, a \<open>RuntimeError\<close> (the cancellation too) a conflict.\<close>

fun decision_reply :: "exn + json \<Rightarrow> api_reply" where
  "decision_reply (Inr r) = Json_reply 200 [(''result'', r)]"
| "decision_reply (Inl (ValueError m)) = Json_reply 400 [(''error'', JStr ''invalid_decision''), (''message'', JStr m)]"
| "decision_reply (Inl (RuntimeError m)) = Json_reply 409 [(''error'', JStr ''decision_conflict''), (''message'', JStr m)]"
| "decision_reply (Inl OperationCancelledError) =
     Json_reply 409 [(''error'', JStr ''decision_conflict''), (''message'', JStr (exn_text OperationCancelledError))]"
| "decision_reply (Inl e) = Raised e"

definition post_decision :: "env \<Rightarrow> 'k callbacks \<Rightarrow> string \<Rightarrow> api_request \<Rightarrow> 'k \<Rightarrow> 'k \<times> api_reply" where
  "post_decision en cb domain rq k =
     (if domain = [] \<or> CHR ''/'' \<in> set domain then (k, json_error 400 ''invalid_domain'')
      else case read_json rq of
        Inl r \<Rightarrow> (k, r)
      | Inr payload \<Rightarrow>
          let decision = py_lower (py_strip (str_default (en_conv en) (jget ''decision'' payload) []));
              raw = jget ''postpone_until'' payload
          in if raw \<noteq> JNull \<and> py_int_of raw = None then (k, json_error 400 ''invalid_postpone_until'')
             else map_prod id decision_reply (cb_decide cb domain decision (py_int_of raw) k))"

text \<open>The domains of a review request: the strings of the list, normalised, without repetition.\<close>

definition request_domains :: "json list \<Rightarrow> string list" where
  "request_domains values =
     fromkeys (filter (\<lambda>d. d \<noteq> [])
       (map (\<lambda>s. py_rstrip_char (CHR ''.'') (py_lower (py_strip s)))
         (List.map_filter (\<lambda>v. case v of JStr s \<Rightarrow> Some s | _ \<Rightarrow> None) values)))"

definition post_review :: "'k callbacks \<Rightarrow> server \<Rightarrow> api_request \<Rightarrow> 'k \<Rightarrow> 'k \<times> api_reply" where
  "post_review cb sv rq k =
     (case read_json rq of
        Inl r \<Rightarrow> (k, r)
      | Inr payload \<Rightarrow>
          (case jget ''domains'' payload of
             JList values \<Rightarrow>
               (let domains = request_domains values in
                if domains = [] then (k, json_error 400 ''no_valid_domains'')
                else if sv_max_domains sv < int (length domains)
                then (k, Json_reply 413 [(''error'', JStr ''too_many_domains''), (''limit'', JInt (sv_max_domains sv))])
                else case cb_queue cb domains ''manual_external_trigger'' k of
                  (k', Inl e) \<Rightarrow> (k', Raised e)
                | (k', Inr queued) \<Rightarrow>
                    (k', Json_reply 202 [(''status'', JStr ''queued''), (''domains'', JList (map JStr domains)), (''result'', queued)]))
           | _ \<Rightarrow> (k, json_error 400 ''domains_must_be_a_list'')))"

definition post_recheck :: "'k callbacks \<Rightarrow> server \<Rightarrow> api_request \<Rightarrow> 'k \<Rightarrow> 'k \<times> api_reply" where
  "post_recheck cb sv rq k =
     (let limit = requested_limit sv (sv_max_domains sv) rq in
      case cb_recheck cb limit k of
        (k', Inl e) \<Rightarrow> (k', Raised e)
      | (k', Inr queued) \<Rightarrow> (k', Json_reply 202 [(''status'', JStr ''queued''), (''queued'', JInt queued), (''limit'', JInt limit)]))"

definition decision_path :: "string \<Rightarrow> string option" where
  "decision_path path =
     (if py_startswith ''/v1/reviews/'' path \<and> py_endswith ''/decision'' path
      then Some (take (length path - length ''/decision'' - length ''/v1/reviews/'') (drop (length ''/v1/reviews/'') path)) else None)"

definition do_POST :: "env \<Rightarrow> 'k callbacks \<Rightarrow> server \<Rightarrow> api_request \<Rightarrow> 'k \<Rightarrow> 'k \<times> api_reply" where
  "do_POST en cb sv rq k =
     (if \<not> authorized sv rq then (k, json_error 401 ''unauthorized'')
      else case decision_path (rq_path rq) of
        Some encoded \<Rightarrow> post_decision en cb (path_domain en encoded) rq k
      | None \<Rightarrow>
          if rq_path rq = ''/v1/review'' then post_review cb sv rq k
          else if rq_path rq = ''/v1/recheck-due'' then post_recheck cb sv rq k
          else if rq_path rq = ''/v1/cancel'' then
            (case cb_cancel cb k of (k', n) \<Rightarrow> (k', Json_reply 200 [(''status'', JStr ''cancelled''), (''jobs'', JInt n)]))
          else (k, json_error 404 ''not_found''))"

section \<open>The scoped handler\<close>

datatype api_method = GET | POST

definition network_allowed :: "env \<Rightarrow> server \<Rightarrow> api_request \<Rightarrow> bool" where
  "network_allowed en sv rq \<longleftrightarrow> client_access_allowed (en_mapped en) (rq_client rq) (sv_mode sv)"

definition handle :: "env \<Rightarrow> 'k callbacks \<Rightarrow> server \<Rightarrow> api_method \<Rightarrow> api_request \<Rightarrow> 'k \<Rightarrow> 'k \<times> api_reply" where
  "handle en cb sv meth rq k =
     (if \<not> network_allowed en sv rq then (k, json_error 403 ''client_network_not_allowed'')
      else case meth of GET \<Rightarrow> (k, do_GET en cb sv rq k) | POST \<Rightarrow> do_POST en cb sv rq k)"

text \<open>Requests one after the other.\<close>

definition serve :: "env \<Rightarrow> 'k callbacks \<Rightarrow> server \<Rightarrow> (api_method \<times> api_request) list \<Rightarrow> 'k \<Rightarrow> 'k" where
  "serve en cb sv rqs k = fold (\<lambda>(m, rq) k. fst (handle en cb sv m rq k)) rqs k"

section \<open>The callbacks of the observatory\<close>

definition enqueue_json :: "enqueue_result \<Rightarrow> json" where
  "enqueue_json r = JObj
     [(''requested'', JInt (qe_requested r)), (''queued'', JInt (qe_queued r)), (''requeued'', JInt (qe_requeued r)),
      (''already_pending'', JInt (qe_already_pending r)), (''skipped_locked'', JInt (qe_skipped_locked r)), (''skipped_filtered'', JInt (qe_skipped_filtered r))]"

definition int_option_json :: "int option \<Rightarrow> json" where
  "int_option_json v = (case v of None \<Rightarrow> JNull | Some i \<Rightarrow> JInt i)"

definition preference_json :: "preference_row \<Rightarrow> json" where
  "preference_json p = JObj
     [(''domain'', JStr (pf_domain p)), (''never_ask'', JBool (pf_never_ask p)), (''postponed_until'', int_option_json (pf_postponed_until p)),
      (''last_decision'', JStr (pf_last_decision p)), (''updated_at'', JInt (pf_updated_at p))]"

definition decision_json :: "decision_result \<Rightarrow> json" where
  "decision_json r = JObj
     ([(''domain'', JStr (dz_domain r)), (''decision'', JStr (dz_decision r)), (''applied'', JBool (dz_applied r)),
       (''preference'', preference_json (dz_preference r))] @
      (case dz_postpone_until r of None \<Rightarrow> [] | Some t \<Rightarrow> [(''postpone_until'', JInt t)]))"

fun error_exn :: "decision_error \<Rightarrow> exn" where
  "error_exn (InvalidReviewDecision m) = ValueError m"
| "error_exn (ReviewDecisionConflict m) = RuntimeError m"
| "error_exn (Other_error e) = e"

definition apply_review_decision :: "('p, int) decision_env \<Rightarrow> string \<Rightarrow> string \<Rightarrow> int option \<Rightarrow> 'p desk \<Rightarrow> 'p desk \<times> (exn + json)" where
  "apply_review_decision dn domain decision postpone_until k =
     map_prod id (map_sum error_exn decision_json)
       (execute_review_decision dn \<lparr>dc_domain = domain, dc_decision = decision, dc_postpone_until = postpone_until, dc_comment = []\<rparr> k)"

text \<open>Operations of the store on the desk; an exception rolls the transaction back.\<close>

definition on_queue :: "(db \<Rightarrow> exn + db \<times> 'a) \<Rightarrow> 'p desk \<Rightarrow> 'p desk \<times> (exn + 'a)" where
  "on_queue f k =
     (case f (w_db (dk_world k)) of
        Inl e \<Rightarrow> (k, Inl e) | Inr (s, x) \<Rightarrow> (k\<lparr>dk_world := (dk_world k)\<lparr>w_db := s\<rparr>\<rparr>, Inr x))"

text \<open>\<open>excluded\<close> are the suffixes of the scan options, \<open>cancel\<close> the number of running jobs that the workers cancel, \<open>reviews\<close> and \<open>lookup\<close> the two read-only
  views of the store.\<close>

definition observatory_callbacks ::
  "('p, int) decision_env \<Rightarrow> string list \<Rightarrow> ('p desk \<Rightarrow> int) \<Rightarrow> (int \<Rightarrow> 'p desk \<Rightarrow> jobj list) \<Rightarrow> (string \<Rightarrow> 'p desk \<Rightarrow> jobj option) \<Rightarrow> 'p desk callbacks" where
  "observatory_callbacks dn excluded cancel reviews lookup =
     \<lparr>cb_queue = (\<lambda>domains source k. map_prod id (map_sum id enqueue_json)
        (on_queue (queue_domains_for_review domains source excluded (dn_now dn)) k)),
      cb_cancel = (\<lambda>k. (k, cancel k)),
      cb_recheck = (\<lambda>limit k. on_queue (queue_due_rechecks limit excluded (dn_now dn)) k),
      cb_reviews = reviews, cb_lookup = lookup, cb_decide = apply_review_decision dn\<rparr>"

section \<open>Lemmas\<close>

lemma start_server_guarded:
  "start_server mapped mode opts = Inr (Some sv) \<Longrightarrow>
    sv_token sv \<noteq> [] \<and> sv_token sv = py_strip (tg_token opts) \<and> 1 \<le> sv_max_domains sv \<and> sv_mode sv = mode \<and>
    (is_loopback_host mapped (sv_host sv) \<or> tg_allow_remote opts)"
  by (auto simp: start_server_def Let_def split: if_splits)

text \<open>The access mode that the handler reads is the one that decided about the address.\<close>

lemma scoped_mode:
  "load_review_access_options conv f (load_review_access_options conv f b \<noteq> ''local'') = load_review_access_options conv f b"
  by (auto simp: load_review_access_options_def normalize_access_mode_def access_modes_def Let_def split: option.splits json.splits)

lemma start_scoped_guarded:
  assumes "start_scoped conv mapped f opts = Inr (Some sv)"
  shows "sv_token sv \<noteq> [] \<and> sv_token sv = py_strip (tg_token opts) \<and> 1 \<le> sv_max_domains sv \<and>
    sv_mode sv = load_review_access_options conv f (tg_allow_remote opts) \<and> (is_loopback_host mapped (sv_host sv) \<or> sv_mode sv \<noteq> ''local'')"
proof -
  let ?m = "load_review_access_options conv f (tg_allow_remote opts)"
  have "start_server mapped ?m (opts\<lparr>tg_allow_remote := ?m \<noteq> ''local''\<rparr>) = Inr (Some sv)"
    using assms by (simp add: start_scoped_def Let_def scoped_mode)
  from start_server_guarded [OF this] show ?thesis by auto
qed

lemma handle_refused: "\<not> network_allowed en sv rq \<or> \<not> authorized sv rq \<Longrightarrow> fst (handle en cb sv m rq k) = k"
  by (cases m) (auto simp: handle_def do_POST_def)

lemma serve_refused:
  "list_all (\<lambda>(m, rq). \<not> network_allowed en sv rq \<or> \<not> authorized sv rq) rqs \<Longrightarrow> serve en cb sv rqs k = k"
  unfolding serve_def by (induction rqs arbitrary: k) (auto simp: handle_refused)

lemma request_domains_ok: "distinct (request_domains vs)" "[] \<notin> set (request_domains vs)"
  by (simp_all add: request_domains_def)

lemma requested_limit_bounds: "1 \<le> sv_max_domains sv \<Longrightarrow> 1 \<le> requested_limit sv d rq \<and> requested_limit sv d rq \<le> sv_max_domains sv"
  by (simp add: requested_limit_def)

lemma post_decision_effect:
  "fst (post_decision en cb domain rq k) = k \<or>
    (domain \<noteq> [] \<and> CHR ''/'' \<notin> set domain \<and> (\<exists>decision until. fst (post_decision en cb domain rq k) = fst (cb_decide cb domain decision until k)))"
  by (auto simp: post_decision_def Let_def split: sum.splits)

lemma post_review_effect:
  "fst (post_review cb sv rq k) = k \<or>
    (\<exists>domains. domains \<noteq> [] \<and> distinct domains \<and> [] \<notin> set domains \<and> int (length domains) \<le> sv_max_domains sv \<and>
       fst (post_review cb sv rq k) = fst (cb_queue cb domains ''manual_external_trigger'' k))"
proof (cases "read_json rq")
  case (Inr payload)
  show ?thesis
  proof (cases "jget ''domains'' payload")
    case (JList vs)
    then show ?thesis using request_domains_ok [of vs] Inr
      by (auto simp: post_review_def Let_def not_less split: prod.splits sum.splits intro!: exI [of _ "request_domains vs"])
  qed (simp_all add: post_review_def Inr)
qed (simp add: post_review_def)

lemma post_recheck_effect:
  "1 \<le> sv_max_domains sv \<Longrightarrow>
    \<exists>limit. 1 \<le> limit \<and> limit \<le> sv_max_domains sv \<and> fst (post_recheck cb sv rq k) = fst (cb_recheck cb limit k)"
  using requested_limit_bounds [of sv "sv_max_domains sv" rq]
  by (intro exI [of _ "requested_limit sv (sv_max_domains sv) rq"]) (simp add: post_recheck_def Let_def split: prod.splits sum.splits)

lemma do_POST_routes:
  assumes "authorized sv rq" and "decision_path (rq_path rq) = None"
  shows "do_POST en cb sv rq k = post_review cb sv rq k \<or> do_POST en cb sv rq k = post_recheck cb sv rq k \<or>
    fst (do_POST en cb sv rq k) = fst (cb_cancel cb k) \<or> fst (do_POST en cb sv rq k) = k"
  unfolding do_POST_def by (simp only: assms not_True_eq_False if_False option.case) (simp split: prod.splits)

section \<open>Properties\<close>

text \<open>C32. A started review server has a token, listens on a loopback address unless the access mode admits remote clients, and does nothing for
  strangers: any sequence of requests each of which lacks the bearer token or comes from a network outside the access mode leaves the whole state as it is,
  whatever its method, path and body are.\<close>

theorem strangers_change_nothing:
  assumes "start_scoped conv mapped access_file opts = Inr (Some sv)"
    and "list_all (\<lambda>(m, rq). rq_authorization rq \<noteq> ''Bearer '' @ py_strip (tg_token opts) \<or>
       \<not> client_access_allowed (en_mapped en) (rq_client rq) (load_review_access_options conv access_file (tg_allow_remote opts))) rqs"
  shows "serve en cb sv rqs k = k \<and> py_strip (tg_token opts) \<noteq> [] \<and>
     (is_loopback_host mapped (sv_host sv) \<or> load_review_access_options conv access_file (tg_allow_remote opts) \<noteq> ''local'')"
proof -
  note g = start_scoped_guarded [OF assms(1)]
  have "list_all (\<lambda>(m, rq). \<not> network_allowed en sv rq \<or> \<not> authorized sv rq) rqs"
    using assms(2) g by (auto simp: list_all_iff network_allowed_def authorized_def)
  then show ?thesis using g by (auto simp: serve_refused)
qed

text \<open>C33. What one request can do: a \<open>GET\<close> changes nothing; a \<open>POST\<close> with the token from an admitted network calls at most one operation, with
  arguments in bounds: it queues between one and the configured maximum of distinct, non-empty domains, queues due rechecks with a limit between one
  and the maximum, decides about one domain that is not empty and has no slash, or cancels the running jobs; every other request leaves the state as it is.\<close>

theorem request_effects_bounded:
  assumes "start_scoped conv mapped access_file opts = Inr (Some sv)"
  shows "fst (handle en cb sv m rq k) = k \<or>
     (m = POST \<and> rq_authorization rq = ''Bearer '' @ py_strip (tg_token opts) \<and> network_allowed en sv rq \<and>
      ((\<exists>domains. domains \<noteq> [] \<and> distinct domains \<and> [] \<notin> set domains \<and> int (length domains) \<le> max 1 (tg_max_domains opts) \<and>
          fst (handle en cb sv m rq k) = fst (cb_queue cb domains ''manual_external_trigger'' k)) \<or>
       (\<exists>limit. 1 \<le> limit \<and> limit \<le> max 1 (tg_max_domains opts) \<and> fst (handle en cb sv m rq k) = fst (cb_recheck cb limit k)) \<or>
       (\<exists>domain decision until. domain \<noteq> [] \<and> CHR ''/'' \<notin> set domain \<and> fst (handle en cb sv m rq k) = fst (cb_decide cb domain decision until k)) \<or>
       fst (handle en cb sv m rq k) = fst (cb_cancel cb k)))"
proof (cases "m = POST \<and> network_allowed en sv rq \<and> authorized sv rq")
  case True
  have sv: "sv_max_domains sv = max 1 (tg_max_domains opts)" "sv_token sv = py_strip (tg_token opts)"
    using assms by (auto simp: start_scoped_def start_server_def Let_def split: if_splits)
  have h: "handle en cb sv m rq k = do_POST en cb sv rq k" using True by (simp add: handle_def)
  have a: "rq_authorization rq = ''Bearer '' @ py_strip (tg_token opts)" using True by (simp add: authorized_def sv)
  show ?thesis
  proof (cases "decision_path (rq_path rq)")
    case (Some encoded)
    then have "do_POST en cb sv rq k = post_decision en cb (path_domain en encoded) rq k" using True by (simp add: do_POST_def)
    then show ?thesis using post_decision_effect [of en cb "path_domain en encoded" rq k] True a unfolding h by metis
  next
    case None
    consider "do_POST en cb sv rq k = post_review cb sv rq k" | "do_POST en cb sv rq k = post_recheck cb sv rq k"
      | "fst (do_POST en cb sv rq k) = fst (cb_cancel cb k)" | "fst (do_POST en cb sv rq k) = k"
      using do_POST_routes [of sv rq en cb k] True None by blast
    then show ?thesis
    proof cases
      case 1
      then show ?thesis using post_review_effect [of cb sv rq k] True a unfolding h sv by metis
    next
      case 2
      then show ?thesis using post_recheck_effect [of sv cb rq k] True a unfolding h sv by (metis max.cobounded1)
    qed (use True a h in simp_all)
  qed
next
  case False
  then show ?thesis using handle_refused [of en sv rq cb m k] by (cases m) (auto simp: handle_def)
qed

definition ex_api_options :: trigger_options where
  "ex_api_options = \<lparr>tg_enabled = True, tg_bind_host = ''0.0.0.0'', tg_port = 8765, tg_token = '' t '', tg_allow_remote = False, tg_max_domains = 2\<rparr>"

definition ex_access_file :: "json option" where
  "ex_access_file = Some (JObj [(''mode'', JStr ''lan'')])"

definition ex_api_env :: env where
  "ex_api_env = \<lparr>en_conv = ex_conv, en_mapped = False, en_unquote = id, en_asset = (\<lambda>_. None)\<rparr>"

text \<open>Callbacks that count.\<close>

definition ex_callbacks :: "int callbacks" where
  "ex_callbacks = \<lparr>cb_queue = (\<lambda>ds _ k. (k + int (length ds), Inr JNull)), cb_cancel = (\<lambda>k. (k + 1, 0)), cb_recheck = (\<lambda>n k. (k + 1, Inr n)),
     cb_reviews = (\<lambda>_ _. []), cb_lookup = (\<lambda>_ _. None), cb_decide = (\<lambda>_ _ _ k. (k + 1, Inr JNull))\<rparr>"

definition ex_post :: "string \<Rightarrow> string \<Rightarrow> api_request" where
  "ex_post client token = \<lparr>rq_client = client, rq_path = ''/v1/review'', rq_limit = None, rq_authorization = ''Bearer '' @ token,
     rq_content_length = ''40'', rq_body = Some (JObj [(''domains'', JList [JStr ''A.com'', JStr ''a.com.'', JStr ''b.com''])])\<rparr>"

definition ex_server :: server where
  "ex_server = \<lparr>sv_host = ''0.0.0.0'', sv_port = 8765, sv_token = ''t'', sv_max_domains = 2, sv_mode = ''lan''\<rparr>"

lemma ex_started: "start_scoped ex_conv False ex_access_file ex_api_options = Inr (Some ex_server)"
  by code_simp

lemma lan_clients:
  assumes "a < 256" "b < 256" "c < 256" "d < 256"
  shows "client_access_allowed mapped (dotted a b c d) ''lan'' \<longleftrightarrow> a \<in> {10, 127} \<or> (a = 172 \<and> 16 \<le> b \<and> b \<le> 31) \<or> (a = 192 \<and> b = 168)"
proof -
  have "py_lower (py_strip ''lan'') = ''lan''" by code_simp
  then show ?thesis using dotted_networks [OF assms]
    by (auto simp: client_access_allowed_def dotted_no_special parse_dotted [OF assms] is_loopback_def access_modes_def Let_def)
qed

lemma ex_lan: "load_review_access_options ex_conv ex_access_file (tg_allow_remote ex_api_options) = ''lan''"
  "py_strip (tg_token ex_api_options) = ''t''"
  by code_simp+

lemma strangers_change_nothing_witness:
  "start_scoped ex_conv False ex_access_file ex_api_options = Inr (Some ex_server) \<and>
   serve ex_api_env ex_callbacks ex_server [(POST, ex_post (dotted 8 8 8 8) ''t''), (POST, ex_post (dotted 10 0 0 2) ''u'')] 7 = 7"
proof -
  have "list_all (\<lambda>(m, rq). rq_authorization rq \<noteq> ''Bearer '' @ py_strip (tg_token ex_api_options) \<or>
       \<not> client_access_allowed (en_mapped ex_api_env) (rq_client rq) (load_review_access_options ex_conv ex_access_file (tg_allow_remote ex_api_options)))
     [(POST, ex_post (dotted 8 8 8 8) ''t''), (POST, ex_post (dotted 10 0 0 2) ''u'')]"
    by (simp add: ex_lan ex_post_def lan_clients)
  from conjI [OF ex_started conjunct1 [OF strangers_change_nothing [OF ex_started this]]] show ?thesis .
qed

text \<open>The same body with the token from 10.0.0.2: two domains remain of the three, and they are queued.\<close>

lemma ex_accepted: "fst (handle ex_api_env ex_callbacks ex_server POST (ex_post (dotted 10 0 0 2) ''t'') 7) = 9"
proof -
  have l1: "py_int_of_str ''40'' = Some 40" by code_simp
  have l2: "request_domains [JStr ''A.com'', JStr ''a.com.'', JStr ''b.com''] = [''a.com'', ''b.com'']" by code_simp
  have l3: "decision_path ''/v1/review'' = None" by code_simp
  note l = l1 l2 l3
  have r: "read_json (ex_post x t) = Inr [(''domains'', JList [JStr ''A.com'', JStr ''a.com.'', JStr ''b.com''])]" for x t
    by (simp add: read_json_def ex_post_def l)
  have "post_review ex_callbacks ex_server (ex_post x t) 7 = (9, Json_reply 202
      [(''status'', JStr ''queued''), (''domains'', JList (map JStr [''a.com'', ''b.com''])), (''result'', JNull)])" for x t
    by (simp add: post_review_def r jget_def l ex_server_def ex_callbacks_def)
  moreover have "network_allowed ex_api_env ex_server (ex_post (dotted 10 0 0 2) ''t'')"
    by (simp add: network_allowed_def ex_post_def ex_server_def lan_clients)
  moreover have "authorized ex_server (ex_post x ''t'')" "rq_path (ex_post x t) = ''/v1/review''" for x t
    by (simp_all add: authorized_def ex_post_def ex_server_def)
  ultimately show ?thesis by (simp add: handle_def do_POST_def l)
qed

lemma request_effects_bounded_witness:
  "fst (handle ex_api_env ex_callbacks ex_server POST (ex_post (dotted 10 0 0 2) ''t'') 7) = 9 \<and>
   (\<exists>domains. domains \<noteq> [] \<and> int (length domains) \<le> 2 \<and> 9 = fst (cb_queue ex_callbacks domains ''manual_external_trigger'' 7))"
proof -
  have "fst (cb_recheck ex_callbacks n 7) \<noteq> 9" "fst (cb_decide ex_callbacks d e u 7) \<noteq> 9" "fst (cb_cancel ex_callbacks 7) \<noteq> 9" for n d e u
    by (simp_all add: ex_callbacks_def)
  then have "\<exists>domains. domains \<noteq> [] \<and> int (length domains) \<le> max 1 (tg_max_domains ex_api_options) \<and>
      9 = fst (cb_queue ex_callbacks domains ''manual_external_trigger'' 7)"
    using request_effects_bounded [OF ex_started, of ex_api_env ex_callbacks POST "ex_post (dotted 10 0 0 2) ''t''" 7]
    unfolding ex_accepted by fastforce
  then show ?thesis by (simp add: ex_accepted ex_api_options_def)
qed

end
