(* ===== verification/Rule_Conflicts.thy ===== *)
theory Rule_Conflicts
  imports Review_Decisions Config
begin

text \<open>
  \<open>pihole_manager/rule_conflicts.py\<close>: the report on active Pi-hole rules and local locks that contradict each other, with
  \<open>fetch_groups\<close> of \<open>pihole_service.py\<close>. Rows are the dictionaries of the fetch functions. The regular expressions of Python are the argument
  \<open>compile\<close>: \<^const>\<open>Inl\<close> the text of \<open>re.error\<close>, or \<^const>\<open>Inr\<close> whether \<open>search\<close> finds a match in a string.
\<close>

section \<open>Python\<close>

text \<open>\<open>repr\<close> of a string.\<close>

definition hex_digit :: "nat \<Rightarrow> char" where
  "hex_digit n = (if n < 10 then digit_char n else char_of (87 + n))"

definition repr_char :: "char \<Rightarrow> char \<Rightarrow> string" where
  "repr_char q c =
     (let n = (of_char c :: nat) in
      if c = q \<or> n = 92 then [CHR 0x5C, c]
      else if n = 9 then [CHR 0x5C, CHR ''t''] else if n = 10 then [CHR 0x5C, CHR ''n''] else if n = 13 then [CHR 0x5C, CHR ''r'']
      else if n < 32 \<or> n = 127 then [CHR 0x5C, CHR ''x'', hex_digit (n div 16), hex_digit (n mod 16)]
      else [c])"

definition py_repr :: "string \<Rightarrow> string" where
  "py_repr s =
     (let q = (if CHR 0x27 \<in> set s \<and> CHR 0x22 \<notin> set s then CHR 0x22 else CHR 0x27)
      in [q] @ concat (map (repr_char q) s) @ [q])"

text \<open>What the scan may raise: \<open>TypeError\<close> for \<open>groups\<close> that cannot be iterated, or what a fetch raises.\<close>

datatype scan_error = TypeError | Fetch_error exn | Managed_fetch_error managed_error

definition scan_bind :: "scan_error + 'a \<Rightarrow> ('a \<Rightarrow> scan_error + 'b) \<Rightarrow> scan_error + 'b" where
  "scan_bind m f = (case m of Inl e \<Rightarrow> Inl e | Inr x \<Rightarrow> f x)"

fun py_iter :: "json \<Rightarrow> scan_error + json list" where
  "py_iter (JList xs) = Inr xs"
| "py_iter (JStr s) = Inr (map (\<lambda>c. JStr [c]) s)"
| "py_iter (JObj kvs) = Inr (map (\<lambda>kv. JStr (fst kv)) kvs)"
| "py_iter _ = Inl TypeError"

definition get_default :: "string \<Rightarrow> json \<Rightarrow> jobj \<Rightarrow> json" where
  "get_default k d row = (if jhas k row then jget k row else d)"

section \<open>Rules and conflicts\<close>

record rule_conflict =
  rc_severity :: string
  rc_kind :: string
  rc_subject :: string
  rc_details :: string

record rule =
  ru_value :: string
  ru_policy :: string
  ru_kind :: string
  ru_groups :: "int list"

text \<open>The set of group numbers of a row, as a list without repetition.\<close>

definition row_groups :: "jobj \<Rightarrow> scan_error + int list" where
  "row_groups row =
     (let g = jget ''groups'' row in
      map_sum id (\<lambda>ids. fromkeys (List.map_filter py_int_of ids)) (if json_truthy g then py_iter g else Inr []))"

definition normalize_rule_rows :: "py_conv \<Rightarrow> jobj list \<Rightarrow> string \<Rightarrow> string \<Rightarrow> scan_error + rule list" where
  "normalize_rule_rows conv rows policy kind =
     fold_res (\<lambda>row output.
       let value = py_strip (str_default conv (jget ''domain'' row) []) in
       if value = [] \<or> \<not> json_truthy (get_default ''enabled'' (JBool True) row) then Inr output
       else map_sum id (\<lambda>groups. output @ [\<lparr>ru_value = value, ru_policy = policy, ru_kind = kind, ru_groups = groups\<rparr>]) (row_groups row))
     rows []"

definition groups_overlap :: "int list \<Rightarrow> int list \<Rightarrow> bool" where
  "groups_overlap first second \<longleftrightarrow> first = [] \<or> second = [] \<or> list_ex (\<lambda>g. g \<in> set second) first"

definition rule_label :: "rule \<Rightarrow> string" where
  "rule_label r = ru_kind r @ '' '' @ ru_policy r @ '': '' @ ru_value r"

definition missing_group_conflict :: "rule \<Rightarrow> int list \<Rightarrow> rule_conflict" where
  "missing_group_conflict r missing =
     \<lparr>rc_severity = ''error'', rc_kind = ''missing_group'', rc_subject = rule_label r,
      rc_details = ''References unknown Pi-hole group IDs: '' @ py_join '', '' (map show_int missing) @ ''.''\<rparr>"

definition disabled_groups_conflict :: "rule \<Rightarrow> rule_conflict" where
  "disabled_groups_conflict r =
     \<lparr>rc_severity = ''warning'', rc_kind = ''disabled_groups_only'', rc_subject = rule_label r,
      rc_details = ''The rule is assigned only to disabled Pi-hole groups.''\<rparr>"

definition group_conflicts :: "rule list \<Rightarrow> (int, bool) dict \<Rightarrow> rule_conflict list" where
  "group_conflicts rules enabled_groups =
     concat (map (\<lambda>r.
       let groups = ru_groups r;
           missing = sort (filter (\<lambda>g. g \<notin> fst ` set enabled_groups) groups);
           disabled = sort (filter (\<lambda>g. map_of enabled_groups g = Some False) groups)
       in (if missing \<noteq> [] then [missing_group_conflict r missing] else []) @
          (if groups \<noteq> [] \<and> set groups \<subseteq> set disabled then [disabled_groups_conflict r] else [])) rules)"

definition exact_policy_conflict :: "rule \<Rightarrow> rule_conflict" where
  "exact_policy_conflict allow =
     \<lparr>rc_severity = ''error'', rc_kind = ''exact_policy_overlap'', rc_subject = ru_value allow,
      rc_details = ''Active exact allow and deny rules overlap in at least one Pi-hole group.''\<rparr>"

definition exact_policy_conflicts :: "rule list \<Rightarrow> rule list \<Rightarrow> rule_conflict list" where
  "exact_policy_conflicts allow_rules deny_rules =
     concat (map (\<lambda>allow. concat (map (\<lambda>deny.
       if py_lower (ru_value allow) \<noteq> py_lower (ru_value deny) then []
       else if \<not> groups_overlap (ru_groups allow) (ru_groups deny) then []
       else [exact_policy_conflict allow]) deny_rules)) allow_rules)"

section \<open>Regular expressions\<close>

type_synonym re_compile = "string \<Rightarrow> string + (string \<Rightarrow> bool)"

text \<open>The dictionary \<open>compiled\<close>: \<^const>\<open>None\<close> for a pattern that does not compile.\<close>

type_synonym compiled = "(string, (string \<Rightarrow> bool) option) dict"

definition re_compiled :: "re_compile \<Rightarrow> string \<Rightarrow> (string \<Rightarrow> bool) option" where
  "re_compiled compile pattern = (case compile pattern of Inl _ \<Rightarrow> None | Inr search \<Rightarrow> Some search)"

definition invalid_regex_conflict :: "string \<Rightarrow> string \<Rightarrow> rule_conflict" where
  "invalid_regex_conflict pattern exc =
     \<lparr>rc_severity = ''error'', rc_kind = ''invalid_regex'', rc_subject = pattern, rc_details = ''Regex cannot be compiled: '' @ exc @ ''.''\<rparr>"

definition compile_step :: "re_compile \<Rightarrow> rule \<Rightarrow> compiled \<times> rule_conflict list \<Rightarrow> compiled \<times> rule_conflict list" where
  "compile_step compile r = (\<lambda>(compiled, conflicts).
     let pattern = ru_value r in
     if pattern \<in> fst ` set compiled then (compiled, conflicts)
     else case compile pattern of
       Inr search \<Rightarrow> (AList.update pattern (Some search) compiled, conflicts)
     | Inl exc \<Rightarrow> (AList.update pattern None compiled, conflicts @ [invalid_regex_conflict pattern exc]))"

definition regex_policy_conflict :: "rule \<Rightarrow> rule_conflict" where
  "regex_policy_conflict allow =
     \<lparr>rc_severity = ''error'', rc_kind = ''regex_policy_overlap'', rc_subject = ru_value allow,
      rc_details = ''Identical active allow and deny regex rules overlap in at least one Pi-hole group.''\<rparr>"

definition regex_policy_conflicts :: "re_compile \<Rightarrow> rule list \<Rightarrow> rule list \<Rightarrow> rule_conflict list" where
  "regex_policy_conflicts compile allow_rules deny_rules =
     (let (compiled, conflicts) = fold (compile_step compile) (allow_rules @ deny_rules) ([], []) in
      conflicts @
      concat (map (\<lambda>allow. concat (map (\<lambda>deny.
        if ru_value allow \<noteq> ru_value deny then []
        else if \<not> groups_overlap (ru_groups allow) (ru_groups deny) then []
        else [regex_policy_conflict allow]) deny_rules)) allow_rules))"

definition exact_regex_conflict :: "rule \<Rightarrow> rule \<Rightarrow> rule_conflict" where
  "exact_regex_conflict exact regex_rule =
     \<lparr>rc_severity = ''warning'', rc_kind = ''exact_regex_overlap'', rc_subject = ru_value exact,
      rc_details = ''Exact '' @ ru_policy exact @ '' rule matches opposite '' @ ru_policy regex_rule @ '' regex '' @ py_repr (ru_value regex_rule) @
        '' in an overlapping group.''\<rparr>"

definition exact_regex_step ::
  "re_compile \<Rightarrow> rule list \<Rightarrow> rule \<Rightarrow> compiled \<times> rule_conflict list \<Rightarrow> compiled \<times> rule_conflict list" where
  "exact_regex_step compile exact_rules regex_rule = (\<lambda>(compiled, conflicts).
     let pattern = ru_value regex_rule;
         compiled = (if pattern \<in> fst ` set compiled then compiled else AList.update pattern (re_compiled compile pattern) compiled)
     in case map_of compiled pattern of
          Some (Some search) \<Rightarrow>
            (compiled, conflicts @ concat (map (\<lambda>exact.
               if \<not> groups_overlap (ru_groups exact) (ru_groups regex_rule) then []
               else if \<not> search (ru_value exact) then []
               else [exact_regex_conflict exact regex_rule]) exact_rules))
        | _ \<Rightarrow> (compiled, conflicts))"

definition exact_regex_conflicts :: "re_compile \<Rightarrow> rule list \<Rightarrow> rule list \<Rightarrow> rule_conflict list" where
  "exact_regex_conflicts compile exact_rules opposite_regex_rules =
     snd (fold (exact_regex_step compile exact_rules) opposite_regex_rules ([], []))"

section \<open>Locks\<close>

definition lock_exact_conflict :: "string \<Rightarrow> string \<Rightarrow> string \<Rightarrow> rule_conflict" where
  "lock_exact_conflict domain desired opposite =
     \<lparr>rc_severity = ''error'', rc_kind = ''lock_exact_conflict'', rc_subject = domain,
      rc_details = ''Local '' @ desired @ '' lock conflicts with active exact '' @ opposite @ '' rule.''\<rparr>"

definition lock_regex_conflict :: "string \<Rightarrow> string \<Rightarrow> string \<Rightarrow> string \<Rightarrow> rule_conflict" where
  "lock_regex_conflict domain desired opposite pattern =
     \<lparr>rc_severity = ''error'', rc_kind = ''lock_regex_conflict'', rc_subject = domain,
      rc_details = ''Local '' @ desired @ '' lock is matched by active '' @ opposite @ '' regex '' @ py_repr pattern @ ''.''\<rparr>"

definition re_matches :: "re_compile \<Rightarrow> string \<Rightarrow> string \<Rightarrow> bool" where
  "re_matches compile pattern s = (case compile pattern of Inl _ \<Rightarrow> False | Inr search \<Rightarrow> search s)"

definition one_lock_conflicts ::
  "py_conv \<Rightarrow> re_compile \<Rightarrow> (string \<Rightarrow> rule list) \<Rightarrow> (string \<Rightarrow> rule list) \<Rightarrow> jobj \<Rightarrow> rule_conflict list" where
  "one_lock_conflicts conv compile exact_by_policy regex_by_policy lock =
     (let domain = py_lower (py_strip (str_default conv (jget ''domain'' lock) []));
          desired = py_lower (py_strip (str_default conv (jget ''list_type'' lock) []))
      in if domain = [] \<or> desired \<notin> {''allow'', ''deny''} then []
         else let opposite = (if desired = ''allow'' then ''deny'' else ''allow'') in
           concat (map (\<lambda>r. if py_lower (ru_value r) = py_lower domain then [lock_exact_conflict domain desired opposite] else [])
             (exact_by_policy opposite)) @
           concat (map (\<lambda>r. if re_matches compile (ru_value r) domain then [lock_regex_conflict domain desired opposite (ru_value r)] else [])
             (regex_by_policy opposite)))"

definition lock_conflicts ::
  "py_conv \<Rightarrow> re_compile \<Rightarrow> jobj list \<Rightarrow> rule list \<Rightarrow> rule list \<Rightarrow> rule list \<Rightarrow> rule list \<Rightarrow> rule_conflict list" where
  "lock_conflicts conv compile locks exact_allow exact_deny regex_allow regex_deny =
     concat (map (one_lock_conflicts conv compile
       (\<lambda>p. if p = ''allow'' then exact_allow else exact_deny) (\<lambda>p. if p = ''allow'' then regex_allow else regex_deny)) locks)"

section \<open>The report\<close>

definition conflict_rank :: "string \<Rightarrow> int" where
  "conflict_rank s = (if s = ''error'' then 0 else if s = ''warning'' then 1 else if s = ''info'' then 2 else 9)"

definition conflict_order :: "rule_conflict \<Rightarrow> int \<times> string \<times> string \<times> string" where
  "conflict_order c = (conflict_rank (rc_severity c), rc_kind c, py_lower (rc_subject c), py_lower (rc_details c))"

definition conflict_key :: "rule_conflict \<Rightarrow> string \<times> string \<times> string \<times> string" where
  "conflict_key c = (rc_severity c, rc_kind c, rc_subject c, rc_details c)"

text \<open>\<open>enabled_groups\<close>: the groups with a number, the last one of a number counts.\<close>

definition enabled_groups_of :: "jobj list \<Rightarrow> (int, bool) dict" where
  "enabled_groups_of groups =
     dict_of (List.map_filter (\<lambda>g. map_option (\<lambda>i. (i, json_truthy (get_default ''enabled'' (JBool True) g))) (py_int_of (jget ''id'' g))) groups)"

record rule_sets =
  rs_allow :: "jobj list"
  rs_deny :: "jobj list"

definition report_of :: "rule_conflict list \<Rightarrow> rule_conflict list" where
  "report_of conflicts = sort_key conflict_order (map snd (dict_of (map (\<lambda>c. (conflict_key c, c)) conflicts)))"

definition detect_rule_conflicts ::
  "py_conv \<Rightarrow> re_compile \<Rightarrow> rule_sets \<Rightarrow> rule_sets \<Rightarrow> jobj list \<Rightarrow> jobj list \<Rightarrow> scan_error + rule_conflict list" where
  "detect_rule_conflicts conv compile exact_rules regex_rules groups locks =
     (let enabled_groups = enabled_groups_of groups in
      scan_bind (normalize_rule_rows conv (rs_allow exact_rules) ''allow'' ''exact'') (\<lambda>exact_allow.
      scan_bind (normalize_rule_rows conv (rs_deny exact_rules) ''deny'' ''exact'') (\<lambda>exact_deny.
      scan_bind (normalize_rule_rows conv (rs_allow regex_rules) ''allow'' ''regex'') (\<lambda>regex_allow.
      scan_bind (normalize_rule_rows conv (rs_deny regex_rules) ''deny'' ''regex'') (\<lambda>regex_deny.
        Inr (report_of
          (group_conflicts (exact_allow @ exact_deny @ regex_allow @ regex_deny) enabled_groups @
           exact_policy_conflicts exact_allow exact_deny @
           regex_policy_conflicts compile regex_allow regex_deny @
           exact_regex_conflicts compile exact_allow regex_deny @
           exact_regex_conflicts compile exact_deny regex_allow @
           lock_conflicts conv compile locks exact_allow exact_deny regex_allow regex_deny)))))))"

section \<open>The scan\<close>

text \<open>\<open>fetch_groups\<close> on the rows of the answer.\<close>

definition group_dict :: "py_conv \<Rightarrow> jobj \<Rightarrow> jobj option" where
  "group_dict conv row =
     (if jget ''id'' row = JNull \<or> jget ''name'' row = JNull then None
      else map_option (\<lambda>i. [(''id'', JInt i), (''name'', JStr (py_str conv (jget ''name'' row))), (''comment'', JStr (str_default conv (jget ''comment'' row) [])),
          (''enabled'', JBool (json_truthy (get_default ''enabled'' (JBool True) row)))]) (py_int_of (jget ''id'' row)))"

definition fetch_groups :: "py_conv \<Rightarrow> jobj list \<Rightarrow> jobj list" where
  "fetch_groups conv rows =
     sort_key (\<lambda>g. (py_lower (py_str conv (jget ''name'' g)), as_int (jget ''id'' g) 0)) (List.map_filter (group_dict conv) rows)"

text \<open>The dictionaries of the fetched rules and of the locks, with the fields that the report reads.\<close>

definition rule_dict :: "pihole_snapshot \<Rightarrow> jobj" where
  "rule_dict sp = [(''domain'', JStr (sp_key sp)), (''comment'', JStr (sp_comment sp)), (''enabled'', JBool (sp_enabled sp)),
     (''groups'', JList (map JInt (opt_or [] (sp_groups sp))))]"

definition lock_dict :: "lock_row \<Rightarrow> jobj" where
  "lock_dict l = [(''domain'', JStr (l_domain l)), (''list_type'', JStr (l_list_type l)), (''reason'', JStr (l_reason l)),
     (''created_at'', JInt (l_created_at l)), (''updated_at'', JInt (l_updated_at l))]"

definition fetch_exact_domains :: "'p pihole_server \<Rightarrow> string \<Rightarrow> 'p world \<Rightarrow> scan_error + jobj list" where
  "fetch_exact_domains srv type w = map_sum Fetch_error (map rule_dict) (fetch_rows srv ''exact_domain'' type (w_pihole w))"

definition fetch_regex_domains :: "'p pihole_server \<Rightarrow> string \<Rightarrow> 'p world \<Rightarrow> scan_error + jobj list" where
  "fetch_regex_domains srv type w = map_sum Managed_fetch_error (map rule_dict) (fetch_managed_rules srv ''regex_domain'' type w)"

text \<open>\<open>group_rows\<close> is the answer of the Pi-hole about its groups.\<close>

definition scan_rule_conflicts ::
  "py_conv \<Rightarrow> re_compile \<Rightarrow> 'p pihole_server \<Rightarrow> (exn + jobj list) \<Rightarrow> 'p world \<Rightarrow> scan_error + rule_conflict list" where
  "scan_rule_conflicts conv compile srv group_rows w =
     scan_bind (fetch_exact_domains srv ''allow'' w) (\<lambda>exact_allow.
     scan_bind (fetch_exact_domains srv ''deny'' w) (\<lambda>exact_deny.
     scan_bind (fetch_regex_domains srv ''allow'' w) (\<lambda>regex_allow.
     scan_bind (fetch_regex_domains srv ''deny'' w) (\<lambda>regex_deny.
     scan_bind (map_sum Fetch_error (fetch_groups conv) group_rows) (\<lambda>groups.
       detect_rule_conflicts conv compile \<lparr>rs_allow = exact_allow, rs_deny = exact_deny\<rparr> \<lparr>rs_allow = regex_allow, rs_deny = regex_deny\<rparr>
         groups (map lock_dict (list_domain_locks None (w_db w))))))))"

section \<open>What a conflict is\<close>

text \<open>The reference: two active rules, or a lock and an active rule, that contradict each other, a rule without an enabled group, a rule with an
  unknown group, a pattern that does not compile. \<open>enabled\<close> tells of the known groups whether they are enabled.\<close>

inductive contradiction_in ::
  "re_compile \<Rightarrow> (int \<Rightarrow> bool option) \<Rightarrow> rule set \<Rightarrow> (string \<times> string) set \<Rightarrow> rule_conflict \<Rightarrow> bool"
  for compile enabled R locks where
  missing: "r \<in> R \<Longrightarrow> filter (\<lambda>g. enabled g = None) (ru_groups r) \<noteq> [] \<Longrightarrow>
    contradiction_in compile enabled R locks (missing_group_conflict r (sort (filter (\<lambda>g. enabled g = None) (ru_groups r))))"
| disabled: "r \<in> R \<Longrightarrow> ru_groups r \<noteq> [] \<Longrightarrow> \<forall>g\<in>set (ru_groups r). enabled g = Some False \<Longrightarrow>
    contradiction_in compile enabled R locks (disabled_groups_conflict r)"
| exact_exact: "a \<in> R \<Longrightarrow> d \<in> R \<Longrightarrow> ru_kind a = ''exact'' \<Longrightarrow> ru_kind d = ''exact'' \<Longrightarrow> ru_policy a = ''allow'' \<Longrightarrow> ru_policy d = ''deny'' \<Longrightarrow>
    py_lower (ru_value a) = py_lower (ru_value d) \<Longrightarrow> groups_overlap (ru_groups a) (ru_groups d) \<Longrightarrow>
    contradiction_in compile enabled R locks (exact_policy_conflict a)"
| invalid: "r \<in> R \<Longrightarrow> ru_kind r = ''regex'' \<Longrightarrow> compile (ru_value r) = Inl exc \<Longrightarrow>
    contradiction_in compile enabled R locks (invalid_regex_conflict (ru_value r) exc)"
| regex_regex: "a \<in> R \<Longrightarrow> d \<in> R \<Longrightarrow> ru_kind a = ''regex'' \<Longrightarrow> ru_kind d = ''regex'' \<Longrightarrow> ru_policy a = ''allow'' \<Longrightarrow> ru_policy d = ''deny'' \<Longrightarrow>
    ru_value a = ru_value d \<Longrightarrow> groups_overlap (ru_groups a) (ru_groups d) \<Longrightarrow>
    contradiction_in compile enabled R locks (regex_policy_conflict a)"
| exact_regex: "e \<in> R \<Longrightarrow> r \<in> R \<Longrightarrow> ru_kind e = ''exact'' \<Longrightarrow> ru_kind r = ''regex'' \<Longrightarrow> ru_policy e \<noteq> ru_policy r \<Longrightarrow>
    groups_overlap (ru_groups e) (ru_groups r) \<Longrightarrow> re_matches compile (ru_value r) (ru_value e) \<Longrightarrow>
    contradiction_in compile enabled R locks (exact_regex_conflict e r)"
| lock_exact: "(domain, desired) \<in> locks \<Longrightarrow> r \<in> R \<Longrightarrow> ru_kind r = ''exact'' \<Longrightarrow> ru_policy r \<noteq> desired \<Longrightarrow>
    py_lower (ru_value r) = domain \<Longrightarrow>
    contradiction_in compile enabled R locks (lock_exact_conflict domain desired (ru_policy r))"
| lock_regex: "(domain, desired) \<in> locks \<Longrightarrow> r \<in> R \<Longrightarrow> ru_kind r = ''regex'' \<Longrightarrow> ru_policy r \<noteq> desired \<Longrightarrow>
    re_matches compile (ru_value r) domain \<Longrightarrow>
    contradiction_in compile enabled R locks (lock_regex_conflict domain desired (ru_policy r) (ru_value r))"

section \<open>Lemmas\<close>

lemma set_report_of: "set (report_of cs) = set cs"
proof -
  let ?kvs = "map (\<lambda>c. (conflict_key c, c)) cs"
  have "c \<in> snd ` set (dict_of ?kvs) \<longleftrightarrow> c \<in> set cs" for c
  proof -
    have inj: "conflict_key x = conflict_key y \<longleftrightarrow> x = y" for x y :: rule_conflict by (auto simp: conflict_key_def)
    have m: "map_of (rev ?kvs) k = Some c \<longleftrightarrow> c \<in> set cs \<and> k = conflict_key c" for k
      by (induction cs rule: rev_induct) (auto simp: inj)
    have "c \<in> snd ` set (dict_of ?kvs) \<longleftrightarrow> (\<exists>k. map_of (dict_of ?kvs) k = Some c)"
      using distinct_dict_of [of ?kvs] by (force simp: image_iff map_of_eq_Some_iff)
    then show ?thesis unfolding map_of_dict_of m by blast
  qed
  then show ?thesis by (auto simp: report_of_def)
qed

lemma distinct_report_of: "distinct (report_of cs)"
proof -
  let ?kvs = "map (\<lambda>c. (conflict_key c, c)) cs"
  have "k = conflict_key c" if "(k, c) \<in> set (dict_of ?kvs)" for k c
  proof -
    have "map_of (rev ?kvs) k = Some c" using that distinct_dict_of [of ?kvs] by (simp add: map_of_dict_of [symmetric])
    then show ?thesis by (auto dest!: map_of_SomeD)
  qed
  then have "map fst (dict_of ?kvs) = map conflict_key (map snd (dict_of ?kvs))" by auto
  then have "distinct (map conflict_key (map snd (dict_of ?kvs)))" using distinct_dict_of [of ?kvs] by (simp only:)
  then have "distinct (map snd (dict_of ?kvs))" by (simp only: distinct_map)
  then show ?thesis by (simp add: report_of_def)
qed

lemma sorted_report_of: "sorted (map conflict_order (report_of cs))"
  by (simp add: report_of_def)

lemma set_group_conflicts:
  "set (group_conflicts rules eg) =
    {missing_group_conflict r (sort (filter (\<lambda>g. map_of eg g = None) (ru_groups r))) | r. r \<in> set rules \<and> filter (\<lambda>g. map_of eg g = None) (ru_groups r) \<noteq> []} \<union>
    {disabled_groups_conflict r | r. r \<in> set rules \<and> ru_groups r \<noteq> [] \<and> (\<forall>g\<in>set (ru_groups r). map_of eg g = Some False)}"
proof -
  have "(\<lambda>g. g \<notin> fst ` set eg) = (\<lambda>g. map_of eg g = None)" by (simp add: fun_eq_iff map_of_eq_None_iff)
  moreover have "sort xs \<noteq> [] \<longleftrightarrow> xs \<noteq> []" for xs :: "int list" by (metis set_empty set_sort)
  ultimately show ?thesis by (auto simp: group_conflicts_def Let_def)
qed

lemma compile_fold:
  "set (snd (fold (compile_step compile) rs (compiled, acc))) = set acc \<union>
    {invalid_regex_conflict (ru_value r) exc | r exc. r \<in> set rs \<and> ru_value r \<notin> fst ` set compiled \<and> compile (ru_value r) = Inl exc}"
proof (induction rs arbitrary: compiled acc)
  case (Cons r rs)
  have skip: "compile_step compile r (compiled, acc) = (compiled, acc)" if "ru_value r \<in> fst ` set compiled"
    using that by (simp add: compile_step_def Let_def)
  obtain v where add: "ru_value r \<notin> fst ` set compiled \<Longrightarrow> compile_step compile r (compiled, acc) =
      (AList.update (ru_value r) v compiled, acc @ (case compile (ru_value r) of Inl exc \<Rightarrow> [invalid_regex_conflict (ru_value r) exc] | Inr _ \<Rightarrow> []))"
    by (cases "compile (ru_value r)") (simp_all add: compile_step_def Let_def)
  show ?case
  proof (cases "ru_value r \<in> fst ` set compiled")
    case True
    then show ?thesis unfolding fold_simps skip [OF True] Cons.IH by auto
  next
    case False
    show ?thesis unfolding fold_simps add [OF False] Cons.IH dom_update using False
      by (cases "compile (ru_value r)") (auto, (metis sum.inject(1) sum.distinct(1))+)
  qed
qed simp

lemma exact_regex_fold:
  assumes "\<And>p v. map_of compiled p = Some v \<Longrightarrow> v = re_compiled compile p"
  shows "set (snd (fold (exact_regex_step compile exact_rules) rs (compiled, acc))) = set acc \<union>
    {exact_regex_conflict e r | e r. e \<in> set exact_rules \<and> r \<in> set rs \<and> groups_overlap (ru_groups e) (ru_groups r) \<and> re_matches compile (ru_value r) (ru_value e)}"
  using assms
proof (induction rs arbitrary: compiled acc)
  case (Cons r rs)
  let ?c = "if ru_value r \<in> fst ` set compiled then compiled else AList.update (ru_value r) (re_compiled compile (ru_value r)) compiled"
  have c: "map_of ?c p = Some v \<Longrightarrow> v = re_compiled compile p" for p v
    using Cons.prems by (auto simp: update_conv' split: if_splits)
  have l: "map_of ?c (ru_value r) = Some (re_compiled compile (ru_value r))"
    using Cons.prems by (auto simp: update_conv' dest!: weak_map_of_SomeI)
  show ?case
  proof (cases "re_compiled compile (ru_value r)")
    case None
    then have "exact_regex_step compile exact_rules r (compiled, acc) = (?c, acc)"
      using l by (simp add: exact_regex_step_def Let_def)
    moreover have "\<not> re_matches compile (ru_value r) x" for x
      using None by (auto simp: re_compiled_def re_matches_def split: sum.splits)
    ultimately show ?thesis using Cons.IH [OF c] by auto
  next
    case (Some search)
    then have "exact_regex_step compile exact_rules r (compiled, acc) = (?c, acc @ concat (map (\<lambda>exact.
               if \<not> groups_overlap (ru_groups exact) (ru_groups r) then []
               else if \<not> search (ru_value exact) then []
               else [exact_regex_conflict exact r]) exact_rules))"
      using l by (simp add: exact_regex_step_def Let_def)
    moreover have "re_matches compile (ru_value r) x \<longleftrightarrow> search x" for x
      using Some by (auto simp: re_compiled_def re_matches_def split: sum.splits)
    ultimately show ?thesis using Cons.IH [OF c] by (auto split: if_splits)
  qed
qed simp

lemma set_exact_policy_conflicts:
  "set (exact_policy_conflicts as ds) = {exact_policy_conflict a | a d. a \<in> set as \<and> d \<in> set ds \<and>
     py_lower (ru_value a) = py_lower (ru_value d) \<and> groups_overlap (ru_groups a) (ru_groups d)}"
  by (auto simp: exact_policy_conflicts_def)

lemma set_regex_policy_conflicts:
  "set (regex_policy_conflicts compile as ds) =
    {invalid_regex_conflict (ru_value r) exc | r exc. r \<in> set as \<union> set ds \<and> compile (ru_value r) = Inl exc} \<union>
    {regex_policy_conflict a | a d. a \<in> set as \<and> d \<in> set ds \<and> ru_value a = ru_value d \<and> groups_overlap (ru_groups a) (ru_groups d)}"
proof -
  obtain compiled conflicts where f: "fold (compile_step compile) (as @ ds) ([], []) = (compiled, conflicts)" by fastforce
  have c: "set conflicts = {invalid_regex_conflict (ru_value r) exc | r exc. r \<in> set as \<union> set ds \<and> compile (ru_value r) = Inl exc}"
    using compile_fold [of compile "as @ ds" "[]" "[]"] unfolding f by auto
  have "set (regex_policy_conflicts compile as ds) = set conflicts \<union>
    {regex_policy_conflict a | a d. a \<in> set as \<and> d \<in> set ds \<and> ru_value a = ru_value d \<and> groups_overlap (ru_groups a) (ru_groups d)}"
    by (auto simp: regex_policy_conflicts_def f simp del: fold_append)
  then show ?thesis unfolding c .
qed

lemma set_exact_regex_conflicts:
  "set (exact_regex_conflicts compile es rs) =
    {exact_regex_conflict e r | e r. e \<in> set es \<and> r \<in> set rs \<and> groups_overlap (ru_groups e) (ru_groups r) \<and> re_matches compile (ru_value r) (ru_value e)}"
  using exact_regex_fold [of "[]" compile es rs "[]"] by (simp add: exact_regex_conflicts_def)

text \<open>The locks that count, with the domain and the list as the report reads them.\<close>

definition locked_pairs :: "py_conv \<Rightarrow> jobj list \<Rightarrow> (string \<times> string) set" where
  "locked_pairs conv locks =
     {(d, t). d \<noteq> [] \<and> t \<in> {''allow'', ''deny''} \<and> (\<exists>l\<in>set locks.
        d = py_lower (py_strip (str_default conv (jget ''domain'' l) [])) \<and> t = py_lower (py_strip (str_default conv (jget ''list_type'' l) [])))}"

lemma set_one_lock:
  assumes "d = py_lower (py_strip (str_default conv (jget ''domain'' l) []))" and "t = py_lower (py_strip (str_default conv (jget ''list_type'' l) []))"
  shows "set (one_lock_conflicts conv compile E X l) =
    (if d = [] \<or> t \<notin> {''allow'', ''deny''} then {}
     else let q = (if t = ''allow'' then ''deny'' else ''allow'') in
       {lock_exact_conflict d t q | r. r \<in> set (E q) \<and> py_lower (ru_value r) = d} \<union>
       {lock_regex_conflict d t q (ru_value r) | r. r \<in> set (X q) \<and> re_matches compile (ru_value r) d})"
proof -
  have "py_lower d = d" by (simp add: assms(1))
  then show ?thesis by (auto simp: one_lock_conflicts_def Let_def assms [symmetric])
qed

lemma map_sum_Inr_iff: "map_sum f g x = Inr y \<longleftrightarrow> (\<exists>z. x = Inr z \<and> y = g z)"
  by (cases x) auto

lemma normalize_rule_rows_kinds:
  "normalize_rule_rows conv rows p k = Inr rs \<Longrightarrow> \<forall>r\<in>set rs. ru_policy r = p \<and> ru_kind r = k"
  unfolding normalize_rule_rows_def
  by (erule fold_res_invariant [rotated -1]) (auto simp: Let_def map_sum_Inr_iff split: if_splits)

definition of_kind :: "string \<Rightarrow> string \<Rightarrow> rule list \<Rightarrow> bool" where
  "of_kind policy kind rs \<longleftrightarrow> (\<forall>r\<in>set rs. ru_policy r = policy \<and> ru_kind r = kind)"

lemma opposite_rules:
  assumes "of_kind ''allow'' k xs" "of_kind ''deny'' k ys" "t \<in> {''allow'', ''deny''}"
  defines "q \<equiv> if t = ''allow'' then ''deny'' else ''allow''"
  shows "{f q r | r. r \<in> set (if q = ''allow'' then xs else ys) \<and> P r} = {f (ru_policy r) r | r. r \<in> set xs \<union> set ys \<and> ru_policy r \<noteq> t \<and> P r}"
proof -
  have "r \<in> set xs \<Longrightarrow> ru_policy r = ''allow''" "r \<in> set ys \<Longrightarrow> ru_policy r = ''deny''" for r
    using assms(1,2) by (auto simp: of_kind_def)
  then have m: "r \<in> set (if q = ''allow'' then xs else ys) \<longleftrightarrow> r \<in> set xs \<union> set ys \<and> ru_policy r \<noteq> t"
    and q: "r \<in> set (if q = ''allow'' then xs else ys) \<Longrightarrow> ru_policy r = q" for r
    using assms(3) by (auto simp: q_def)
  show ?thesis using q unfolding m by fast
qed

lemma set_lock_conflicts:
  assumes "of_kind ''allow'' ''exact'' ea" "of_kind ''deny'' ''exact'' ed" "of_kind ''allow'' ''regex'' ra" "of_kind ''deny'' ''regex'' rd"
  shows "set (lock_conflicts conv compile locks ea ed ra rd) =
    (\<Union>(d, t)\<in>locked_pairs conv locks.
      {lock_exact_conflict d t (ru_policy r) | r. r \<in> set ea \<union> set ed \<and> ru_policy r \<noteq> t \<and> py_lower (ru_value r) = d} \<union>
      {lock_regex_conflict d t (ru_policy r) (ru_value r) | r. r \<in> set ra \<union> set rd \<and> ru_policy r \<noteq> t \<and> re_matches compile (ru_value r) d})"
    (is "_ = (\<Union>(d, t)\<in>_. ?S d t)")
proof -
  let ?d = "\<lambda>l. py_lower (py_strip (str_default conv (jget ''domain'' l) []))" and ?t = "\<lambda>l. py_lower (py_strip (str_default conv (jget ''list_type'' l) []))"
  have one: "set (one_lock_conflicts conv compile (\<lambda>p. if p = ''allow'' then ea else ed) (\<lambda>p. if p = ''allow'' then ra else rd) l) =
      (if ?d l \<noteq> [] \<and> ?t l \<in> {''allow'', ''deny''} then ?S (?d l) (?t l) else {})" for l
  proof (cases "?d l \<noteq> [] \<and> ?t l \<in> {''allow'', ''deny''}")
    case True
    note o = opposite_rules [OF _ _ conjunct2 [OF True]]
    show ?thesis unfolding set_one_lock [OF refl refl] if_P [OF True] Let_def
      using True o [OF assms(1,2), of "\<lambda>q r. lock_exact_conflict (?d l) (?t l) q"]
        o [OF assms(3,4), of "\<lambda>q r. lock_regex_conflict (?d l) (?t l) q (ru_value r)"] by (simp only: if_not_P simp_thms)
  qed (auto simp: set_one_lock [OF refl refl])
  have "locked_pairs conv locks = (\<lambda>l. (?d l, ?t l)) ` {l \<in> set locks. ?d l \<noteq> [] \<and> ?t l \<in> {''allow'', ''deny''}}"
    by (auto simp: locked_pairs_def)
  then have "(\<Union>(d, t)\<in>locked_pairs conv locks. ?S d t) = (\<Union>l\<in>{l \<in> set locks. ?d l \<noteq> [] \<and> ?t l \<in> {''allow'', ''deny''}}. ?S (?d l) (?t l))"
    by (simp only: UN_simps prod.case)
  also have "\<dots> = (\<Union>l\<in>set locks. if ?d l \<noteq> [] \<and> ?t l \<in> {''allow'', ''deny''} then ?S (?d l) (?t l) else {})" by (auto split: if_splits)
  finally show ?thesis unfolding lock_conflicts_def set_concat set_map image_image one by (rule sym)
qed

definition sorted_out :: "rule list \<Rightarrow> rule list \<Rightarrow> rule list \<Rightarrow> rule list \<Rightarrow> bool" where
  "sorted_out ea ed ra rd \<longleftrightarrow> of_kind ''allow'' ''exact'' ea \<and> of_kind ''deny'' ''exact'' ed \<and> of_kind ''allow'' ''regex'' ra \<and> of_kind ''deny'' ''regex'' rd"

definition all_conflicts ::
  "py_conv \<Rightarrow> re_compile \<Rightarrow> (int, bool) dict \<Rightarrow> jobj list \<Rightarrow> rule list \<Rightarrow> rule list \<Rightarrow> rule list \<Rightarrow> rule list \<Rightarrow> rule_conflict list" where
  "all_conflicts conv compile eg locks ea ed ra rd =
     group_conflicts (ea @ ed @ ra @ rd) eg @ exact_policy_conflicts ea ed @ regex_policy_conflicts compile ra rd @
     exact_regex_conflicts compile ea rd @ exact_regex_conflicts compile ed ra @ lock_conflicts conv compile locks ea ed ra rd"

lemma conflict_sound:
  assumes "sorted_out ea ed ra rd" and "c \<in> set (all_conflicts conv compile eg locks ea ed ra rd)"
  shows "contradiction_in compile (map_of eg) (set ea \<union> set ed \<union> set ra \<union> set rd) (locked_pairs conv locks) c"
proof -
  note k = assms(1) [unfolded sorted_out_def of_kind_def]
  note l = set_lock_conflicts [of ea ed ra rd conv compile locks]
  have "of_kind ''allow'' ''exact'' ea" "of_kind ''deny'' ''exact'' ed" "of_kind ''allow'' ''regex'' ra" "of_kind ''deny'' ''regex'' rd"
    using assms(1) by (simp_all add: sorted_out_def)
  note l = l [OF this]
  from assms(2) consider "c \<in> set (group_conflicts (ea @ ed @ ra @ rd) eg)" | "c \<in> set (exact_policy_conflicts ea ed)"
    | "c \<in> set (regex_policy_conflicts compile ra rd)" | "c \<in> set (exact_regex_conflicts compile ea rd)"
    | "c \<in> set (exact_regex_conflicts compile ed ra)" | "c \<in> set (lock_conflicts conv compile locks ea ed ra rd)"
    by (auto simp: all_conflicts_def)
  then show ?thesis
  proof cases
    case 1
    then show ?thesis by (auto simp: set_group_conflicts intro: contradiction_in.missing contradiction_in.disabled)
  next
    case 2
    then obtain a d where "c = exact_policy_conflict a" "a \<in> set ea" "d \<in> set ed" "py_lower (ru_value a) = py_lower (ru_value d)"
      "groups_overlap (ru_groups a) (ru_groups d)" by (auto simp: set_exact_policy_conflicts)
    then show ?thesis using k by (auto intro: contradiction_in.exact_exact [of a _ d])
  next
    case 3
    then show ?thesis using k by (auto simp: set_regex_policy_conflicts intro!: contradiction_in.regex_regex contradiction_in.invalid)
  next
    case 4
    then show ?thesis using k by (auto simp: set_exact_regex_conflicts intro!: contradiction_in.exact_regex)
  next
    case 5
    then show ?thesis using k by (auto simp: set_exact_regex_conflicts intro!: contradiction_in.exact_regex)
  next
    case 6
    then show ?thesis using k unfolding l by (auto intro!: contradiction_in.lock_exact contradiction_in.lock_regex)
  qed
qed

lemma conflict_complete:
  assumes "sorted_out ea ed ra rd"
    and "contradiction_in compile (map_of eg) (set ea \<union> set ed \<union> set ra \<union> set rd) (locked_pairs conv locks) c"
  shows "c \<in> set (all_conflicts conv compile eg locks ea ed ra rd)"
proof -
  have k: "of_kind ''allow'' ''exact'' ea" "of_kind ''deny'' ''exact'' ed" "of_kind ''allow'' ''regex'' ra" "of_kind ''deny'' ''regex'' rd"
    using assms(1) by (simp_all add: sorted_out_def)
  let ?R = "set ea \<union> set ed \<union> set ra \<union> set rd"
  have exact: "r \<in> ?R \<Longrightarrow> ru_kind r = ''exact'' \<Longrightarrow> (r \<in> set ea \<and> ru_policy r = ''allow'') \<or> (r \<in> set ed \<and> ru_policy r = ''deny'')" for r
    using k by (auto simp: of_kind_def)
  have regex: "r \<in> ?R \<Longrightarrow> ru_kind r = ''regex'' \<Longrightarrow> (r \<in> set ra \<and> ru_policy r = ''allow'') \<or> (r \<in> set rd \<and> ru_policy r = ''deny'')" for r
    using k by (auto simp: of_kind_def)
  note l = set_lock_conflicts [OF k, of conv compile locks]
  from assms(2) show ?thesis
  proof cases
    case (missing r)
    then have "c \<in> set (group_conflicts (ea @ ed @ ra @ rd) eg)" unfolding set_group_conflicts by auto
    then show ?thesis by (simp add: all_conflicts_def)
  next
    case (disabled r)
    then have "c \<in> set (group_conflicts (ea @ ed @ ra @ rd) eg)" unfolding set_group_conflicts by auto
    then show ?thesis by (simp add: all_conflicts_def)
  next
    case (exact_exact a d)
    then have "a \<in> set ea" "d \<in> set ed" using exact [of a] exact [of d] by auto
    then have "c \<in> set (exact_policy_conflicts ea ed)" using exact_exact unfolding set_exact_policy_conflicts by blast
    then show ?thesis by (simp add: all_conflicts_def)
  next
    case (invalid r exc)
    then have "c \<in> set (regex_policy_conflicts compile ra rd)" using regex [of r] unfolding set_regex_policy_conflicts by blast
    then show ?thesis by (simp add: all_conflicts_def)
  next
    case (regex_regex a d)
    then have "a \<in> set ra" "d \<in> set rd" using regex [of a] regex [of d] by auto
    then have "c \<in> set (regex_policy_conflicts compile ra rd)" using regex_regex unfolding set_regex_policy_conflicts by blast
    then show ?thesis by (simp add: all_conflicts_def)
  next
    case (exact_regex e r)
    then have "(e \<in> set ea \<and> r \<in> set rd) \<or> (e \<in> set ed \<and> r \<in> set ra)" using exact [of e] regex [of r] by auto
    then have "c \<in> set (exact_regex_conflicts compile ea rd) \<union> set (exact_regex_conflicts compile ed ra)"
      using exact_regex unfolding set_exact_regex_conflicts by blast
    then show ?thesis by (auto simp: all_conflicts_def)
  next
    case (lock_exact domain desired r)
    then have "c \<in> set (lock_conflicts conv compile locks ea ed ra rd)" using exact [of r] unfolding l by blast
    then show ?thesis by (simp add: all_conflicts_def)
  next
    case (lock_regex domain desired r)
    then have "c \<in> set (lock_conflicts conv compile locks ea ed ra rd)" using regex [of r] unfolding l by blast
    then show ?thesis by (simp add: all_conflicts_def)
  qed
qed

lemma detect_rule_conflicts_eq:
  assumes "normalize_rule_rows conv (rs_allow E) ''allow'' ''exact'' = Inr ea" and "normalize_rule_rows conv (rs_deny E) ''deny'' ''exact'' = Inr ed"
    and "normalize_rule_rows conv (rs_allow X) ''allow'' ''regex'' = Inr ra" and "normalize_rule_rows conv (rs_deny X) ''deny'' ''regex'' = Inr rd"
  shows "detect_rule_conflicts conv compile E X groups locks = Inr (report_of (all_conflicts conv compile (enabled_groups_of groups) locks ea ed ra rd))"
    and "sorted_out ea ed ra rd"
  using assms [THEN normalize_rule_rows_kinds]
  by (simp_all add: detect_rule_conflicts_def scan_bind_def assms all_conflicts_def sorted_out_def of_kind_def Let_def)

text \<open>The active rules among fetched ones.\<close>

definition active_rules :: "string \<Rightarrow> string \<Rightarrow> pihole_snapshot list \<Rightarrow> rule list" where
  "active_rules policy kind rows =
     map (\<lambda>sp. \<lparr>ru_value = py_strip (sp_key sp), ru_policy = policy, ru_kind = kind, ru_groups = fromkeys (opt_or [] (sp_groups sp))\<rparr>)
       (filter (\<lambda>sp. sp_enabled sp \<and> py_strip (sp_key sp) \<noteq> []) rows)"

lemma fold_res_append_map:
  "(\<And>x out. x \<in> set xs \<Longrightarrow> f x out = Inr (out @ g x)) \<Longrightarrow> fold_res f xs out = Inr (out @ concat (map g xs))"
  by (induction xs arbitrary: out) simp_all

lemma normalize_fetched: "normalize_rule_rows conv (map rule_dict rows) policy kind = Inr (active_rules policy kind rows)"
proof -
  have d: "jget ''domain'' (rule_dict sp) = JStr (sp_key sp)" "get_default ''enabled'' (JBool True) (rule_dict sp) = JBool (sp_enabled sp)"
    "jget ''groups'' (rule_dict sp) = JList (map JInt (opt_or [] (sp_groups sp)))" for sp
    by (simp_all add: rule_dict_def jget_def get_default_def jhas_def)
  have "List.map_filter py_int_of (map JInt gs) = gs" for gs
    by (induction gs) (simp_all add: List.map_filter_def)
  then have g: "row_groups (rule_dict sp) = Inr (fromkeys (opt_or [] (sp_groups sp)))" for sp
    by (simp add: row_groups_def d Let_def fromkeys_def)
  have s: "str_default conv (JStr k) [] = k" for k by (simp add: str_default_def str_field_def)
  let ?g = "\<lambda>row. case normalize_rule_rows conv [row] policy kind of Inr rs \<Rightarrow> rs | Inl _ \<Rightarrow> []"
  have "normalize_rule_rows conv (map rule_dict rows) policy kind = Inr ([] @ concat (map ?g (map rule_dict rows)))"
    unfolding normalize_rule_rows_def
    by (rule fold_res_append_map) (auto simp: Let_def d g s)
  also have "concat (map ?g (map rule_dict rows)) = active_rules policy kind rows"
    by (induction rows) (auto simp: active_rules_def normalize_rule_rows_def Let_def d g s)
  finally show ?thesis by simp
qed

lemma fetch_regex_eq:
  assumes "type \<in> {''allow'', ''deny''}"
  shows "fetch_regex_domains srv type w =
    map_sum Managed_fetch_error (map rule_dict) (map_sum as_managed_conflict id (fetch_rows srv ''regex_domain'' type (w_pihole w)))"
proof -
  have "validate_kind ''regex_domain'' = Inr ''regex_domain''" "validate_rule_type ''regex_domain'' ''allow'' = Inr ''allow''"
    "validate_rule_type ''regex_domain'' ''deny'' = Inr ''deny''" by code_simp+
  then show ?thesis using assms by (auto simp: fetch_regex_domains_def fetch_managed_rules_def)
qed

text \<open>The locks of the store, as the report reads them.\<close>

definition db_locks :: "db \<Rightarrow> (string \<times> string) set" where
  "db_locks s = {(d, t). d \<noteq> [] \<and> t \<in> {''allow'', ''deny''} \<and>
     (\<exists>l\<in>set (t_locks s). d = py_lower (py_strip (l_domain l)) \<and> t = py_lower (py_strip (l_list_type l)))}"

lemma locked_pairs_db: "locked_pairs conv (map lock_dict (list_domain_locks None s)) = db_locks s"
proof -
  have "str_default conv (jget ''domain'' (lock_dict l)) [] = l_domain l" "str_default conv (jget ''list_type'' (lock_dict l)) [] = l_list_type l" for l
    by (simp_all add: str_default_def str_field_def lock_dict_def jget_def)
  then show ?thesis by (simp add: locked_pairs_def db_locks_def list_domain_locks_def)
qed

section \<open>Properties\<close>

text \<open>C34. When the Pi-hole answers, the scan returns a report, and the report is exact: it lists, without repetition and ordered by severity, kind,
  subject and details, precisely the contradictions among the enabled rules of the Pi-hole, its groups and the local locks. So it reports nothing that
  is not there and misses nothing, although it compiles every pattern once only and drops duplicates.\<close>

theorem conflict_report_exact:
  assumes "fetch_rows srv ''exact_domain'' ''allow'' (w_pihole w) = Inr ea" and "fetch_rows srv ''exact_domain'' ''deny'' (w_pihole w) = Inr ed"
    and "fetch_rows srv ''regex_domain'' ''allow'' (w_pihole w) = Inr ra" and "fetch_rows srv ''regex_domain'' ''deny'' (w_pihole w) = Inr rd"
  shows "\<exists>cs. scan_rule_conflicts conv compile srv (Inr groups) w = Inr cs \<and> sorted (map conflict_order cs) \<and> distinct cs \<and>
    (\<forall>c. c \<in> set cs \<longleftrightarrow> contradiction_in compile (map_of (enabled_groups_of (fetch_groups conv groups)))
       (set (active_rules ''allow'' ''exact'' ea) \<union> set (active_rules ''deny'' ''exact'' ed) \<union>
        set (active_rules ''allow'' ''regex'' ra) \<union> set (active_rules ''deny'' ''regex'' rd)) (db_locks (w_db w)) c)"
proof -
  let ?locks = "map lock_dict (list_domain_locks None (w_db w))"
  let ?E = "\<lparr>rs_allow = map rule_dict ea, rs_deny = map rule_dict ed\<rparr>" and ?X = "\<lparr>rs_allow = map rule_dict ra, rs_deny = map rule_dict rd\<rparr>"
  let ?all = "all_conflicts conv compile (enabled_groups_of (fetch_groups conv groups)) ?locks (active_rules ''allow'' ''exact'' ea) (active_rules ''deny'' ''exact'' ed)
    (active_rules ''allow'' ''regex'' ra) (active_rules ''deny'' ''regex'' rd)"
  have scan: "scan_rule_conflicts conv compile srv (Inr groups) w = detect_rule_conflicts conv compile ?E ?X (fetch_groups conv groups) ?locks"
    by (simp add: scan_rule_conflicts_def scan_bind_def fetch_exact_domains_def fetch_regex_eq assms)
  note d = detect_rule_conflicts_eq [of conv ?E _ _ ?X, simplified, OF normalize_fetched normalize_fetched normalize_fetched normalize_fetched]
  have "c \<in> set (report_of ?all) \<longleftrightarrow> contradiction_in compile (map_of (enabled_groups_of (fetch_groups conv groups)))
       (set (active_rules ''allow'' ''exact'' ea) \<union> set (active_rules ''deny'' ''exact'' ed) \<union>
        set (active_rules ''allow'' ''regex'' ra) \<union> set (active_rules ''deny'' ''regex'' rd)) (db_locks (w_db w)) c" for c
    using conflict_sound [OF d(2), of c conv compile _ ?locks] conflict_complete [OF d(2), of compile _ conv ?locks c]
    unfolding set_report_of locked_pairs_db by blast
  then show ?thesis using sorted_report_of distinct_report_of unfolding scan d(1) by blast
qed

definition ex_rule_world :: "ref_state world" where
  "ex_rule_world = ex_world\<lparr>w_pihole :=
     [((''exact'', ''deny'', ''ads.example''), \<lparr>ab_comment = None, ab_groups = [2, 0], ab_enabled = True\<rparr>),
      ((''exact'', ''allow'', ''Ads.Example''), \<lparr>ab_comment = None, ab_groups = [0], ab_enabled = True\<rparr>)]\<rparr>"

lemma ex_rule_rows:
  "fetch_rows ref_server ''exact_domain'' ''allow'' (w_pihole ex_rule_world) =
    Inr [\<lparr>sp_key = ''Ads.Example'', sp_type = [], sp_comment = [], sp_enabled = True, sp_groups = Some [0]\<rparr>]"
  "fetch_rows ref_server ''exact_domain'' ''deny'' (w_pihole ex_rule_world) =
    Inr [\<lparr>sp_key = ''ads.example'', sp_type = [], sp_comment = [], sp_enabled = True, sp_groups = Some [2, 0]\<rparr>]"
  "fetch_rows ref_server ''regex_domain'' ''allow'' (w_pihole ex_rule_world) = Inr []"
  "fetch_rows ref_server ''regex_domain'' ''deny'' (w_pihole ex_rule_world) = Inr []"
  by code_simp+

lemma conflict_report_exact_witness:
  "\<exists>cs. scan_rule_conflicts ex_conv (\<lambda>_. Inl ''x'') ref_server (Inr []) ex_rule_world = Inr cs \<and>
    \<lparr>rc_severity = ''error'', rc_kind = ''exact_policy_overlap'', rc_subject = ''Ads.Example'',
      rc_details = ''Active exact allow and deny rules overlap in at least one Pi-hole group.''\<rparr> \<in> set cs"
proof -
  let ?a = "\<lparr>ru_value = ''Ads.Example'', ru_policy = ''allow'', ru_kind = ''exact'', ru_groups = [0]\<rparr>"
  let ?d = "\<lparr>ru_value = ''ads.example'', ru_policy = ''deny'', ru_kind = ''exact'', ru_groups = [2, 0]\<rparr>"
  have r: "active_rules ''allow'' ''exact'' [\<lparr>sp_key = ''Ads.Example'', sp_type = [], sp_comment = [], sp_enabled = True, sp_groups = Some [0]\<rparr>] = [?a]"
    "active_rules ''deny'' ''exact'' [\<lparr>sp_key = ''ads.example'', sp_type = [], sp_comment = [], sp_enabled = True, sp_groups = Some [2, 0]\<rparr>] = [?d]"
    "py_lower (ru_value ?a) = py_lower (ru_value ?d)" "groups_overlap (ru_groups ?a) (ru_groups ?d)" by code_simp+
  have "contradiction_in c e ({?a} \<union> {?d} \<union> X \<union> Y) L (exact_policy_conflict ?a)" for c e X Y L
    by (rule contradiction_in.exact_exact [of ?a _ ?d]) (use r(3,4) in simp_all)
  then show ?thesis
    using conflict_report_exact [OF ex_rule_rows, of ex_conv "\<lambda>_. Inl ''x''" "[]"] unfolding r by (auto simp: exact_policy_conflict_def)
qed

end
