(* ===== verification/List_Audit.thy ===== *)
theory List_Audit
  imports Queue_Machine Config Network_Access
begin

text \<open>
  \<open>pihole_manager/list_rule_parser.py\<close>, \<open>list_audit_config.py\<close> and \<open>list_audit.py\<close>: reading domains out of downloaded block lists, and the cycle that
  puts unclassified ones into the background queue. Lines and names are ASCII strings; on these the codec \<open>idna\<close> only checks the lengths of the labels.
  Downloads, the answers of \<open>should_stop\<close> and \<open>wait\<close> and the clock are arguments.
\<close>

section \<open>Rules of a list\<close>

definition is_ip_address :: "string \<Rightarrow> bool" where
  "is_ip_address value \<longleftrightarrow> parse_ip value \<noteq> None"

text \<open>\<open>s.encode("idna")\<close> of an ASCII string: \<^const>\<open>None\<close> is \<open>UnicodeError\<close>.\<close>

definition idna_ascii :: "string \<Rightarrow> string option" where
  "idna_ascii s =
     (let labels = py_split (CHR ''.'') s in
      if list_all (\<lambda>l. 0 < length l \<and> length l < 64) (butlast labels) \<and> length (last labels) < 64 then Some s else None)"

definition is_alnum :: "char \<Rightarrow> bool" where
  "is_alnum c = (let n = (of_char c :: nat) in py_isdigit c \<or> (65 \<le> n \<and> n \<le> 90) \<or> (97 \<le> n \<and> n \<le> 122))"

text \<open>\<open>^[a-z0-9](?:[a-z0-9-]{0,61}[a-z0-9])?$\<close> on a whole label, upper and lower case.\<close>

definition host_label :: "string \<Rightarrow> bool" where
  "host_label l \<longleftrightarrow>
     (case l of
        [] \<Rightarrow> False
      | c # cs \<Rightarrow> is_alnum c \<and>
          (cs = [] \<or> (length (butlast cs) \<le> 61 \<and> list_all (\<lambda>x. is_alnum x \<or> x = CHR ''-'') (butlast cs) \<and> is_alnum (last cs))))"

definition validated_domain :: "string \<Rightarrow> string" where
  "validated_domain value =
     (let normalized = py_rstrip_char (CHR ''.'') (py_lower (py_strip value)) in
      if normalized = [] \<or> 253 < length normalized \<or> CHR ''.'' \<notin> set normalized then []
      else if is_ip_address normalized then []
      else case idna_ascii normalized of
        None \<Rightarrow> []
      | Some ascii_domain \<Rightarrow>
          if list_ex (\<lambda>label. label = [] \<or> 63 < length label \<or> \<not> host_label label) (py_split (CHR ''.'') ascii_domain) then []
          else normalized)"

definition domain_from_list_rule :: "string \<Rightarrow> string" where
  "domain_from_list_rule rule =
     (let value = py_strip rule in
      if value = [] \<or> list_ex (\<lambda>p. py_startswith p value) [''!'', ''#'', ''['', ''@@''] then []
      else if py_startswith ''||'' value then
        (let candidate = takeWhile (\<lambda>c. c \<noteq> CHR ''$'') (drop 2 value);
             candidate = takeWhile (\<lambda>c. c \<noteq> CHR ''^'') candidate;
             candidate = rstrip_by (\<lambda>c. c \<in> set ''|/'') (lstrip_by (\<lambda>c. c \<in> set ''|/'') candidate)
         in if candidate = [] \<or> list_ex (\<lambda>c. c \<in> set (''*[]()'' @ [CHR 0x5C])) candidate then []
            else validated_domain candidate)
      else let fields = py_words value in
        if 2 \<le> length fields \<and> is_ip_address (fields ! 0) then validated_domain (fields ! 1)
        else if length fields = 1 \<and> \<not> list_ex (\<lambda>c. c \<in> set (''/^$|*=,;()[]'' @ [CHR 0x5C])) value then validated_domain value
        else [])"

section \<open>Reading a list\<close>

record list_fetch_result =
  lf_domains :: "string list"
  lf_truncated :: bool

fun extract_loop :: "int \<Rightarrow> int \<Rightarrow> int \<Rightarrow> string list \<Rightarrow> string list \<Rightarrow> list_fetch_result" where
  "extract_loop limit byte_limit consumed domains [] = \<lparr>lf_domains = domains, lf_truncated = False\<rparr>"
| "extract_loop limit byte_limit consumed domains (line # lines) =
     (let consumed = consumed + int (length line) + 1 in
      if byte_limit < consumed then \<lparr>lf_domains = domains, lf_truncated = True\<rparr>
      else let domain = domain_from_list_rule line in
        if domain = [] \<or> domain \<in> set domains then extract_loop limit byte_limit consumed domains lines
        else let domains = domains @ [domain] in
          if limit \<le> int (length domains) then \<lparr>lf_domains = domains, lf_truncated = True\<rparr>
          else extract_loop limit byte_limit consumed domains lines)"

definition extract_domains_from_lines :: "string list \<Rightarrow> int \<Rightarrow> int \<Rightarrow> list_fetch_result" where
  "extract_domains_from_lines lines max_domains max_bytes = extract_loop (max 1 max_domains) (max 1 max_bytes) 0 [] lines"

definition max_download_bytes :: int where
  "max_download_bytes = 32 * 1024 * 1024"

text \<open>\<open>fetch_domains_from_list\<close>: \<open>urlparse\<close> gives scheme and location of the address, \<open>get\<close> the lines of the answer.\<close>

definition fetch_domains_from_list ::
  "(string \<Rightarrow> exn + string \<times> string) \<Rightarrow> (string \<Rightarrow> pyfloat \<Rightarrow> exn + string list) \<Rightarrow> string \<Rightarrow> pyfloat \<Rightarrow> int \<Rightarrow> exn + list_fetch_result" where
  "fetch_domains_from_list urlparse get address timeout_sec max_domains =
     (case urlparse (py_strip address) of
        Inl e \<Rightarrow> Inl e
      | Inr (scheme, netloc) \<Rightarrow>
          if scheme \<notin> {''http'', ''https''} \<or> netloc = []
          then Inl (ValueError ''List audit currently supports HTTP and HTTPS list addresses only.'')
          else map_sum id (\<lambda>lines. extract_domains_from_lines lines max_domains max_download_bytes) (get address (max 1 timeout_sec)))"

section \<open>Options\<close>

record list_audit_options =
  la_enabled :: bool
  la_interval_sec :: int
  la_batch_size :: int
  la_rate_limit_sec :: pyfloat
  la_max_domains_per_list :: int

definition default_audit_options :: list_audit_options where
  "default_audit_options = \<lparr>la_enabled = False, la_interval_sec = 86400, la_batch_size = 100, la_rate_limit_sec = 2, la_max_domains_per_list = 5000\<rparr>"

definition normalize_list_audit_options :: "list_audit_options \<Rightarrow> list_audit_options" where
  "normalize_list_audit_options opts =
     \<lparr>la_enabled = la_enabled opts, la_interval_sec = max 300 (la_interval_sec opts), la_batch_size = min 5000 (max 1 (la_batch_size opts)),
      la_rate_limit_sec = min 3600 (max 0 (la_rate_limit_sec opts)), la_max_domains_per_list = min 100000 (max 1 (la_max_domains_per_list opts))\<rparr>"

text \<open>\<open>load_list_audit_options\<close>: the stored text as \<open>json.loads\<close> reads it, \<^const>\<open>None\<close> when there is none or it cannot be read; a value that is not
  a mapping raises \<open>AttributeError\<close>, which nobody catches: the outer \<^const>\<open>None\<close>.\<close>

definition with_default :: "string \<Rightarrow> json \<Rightarrow> jobj \<Rightarrow> json" where
  "with_default k d data = (if jhas k data then jget k data else d)"

definition audit_options_of :: "py_conv \<Rightarrow> jobj \<Rightarrow> list_audit_options" where
  "audit_options_of conv data =
     (case (py_int_of (with_default ''interval_sec'' (JInt 86400) data), py_int_of (with_default ''batch_size'' (JInt 100) data),
            py_float conv (Some (with_default ''rate_limit_sec'' (JFloat 2) data)), py_int_of (with_default ''max_domains_per_list'' (JInt 5000) data)) of
        (Some interval, Some batch, Some rate, Some most) \<Rightarrow>
          normalize_list_audit_options
            \<lparr>la_enabled = json_truthy (with_default ''enabled'' (JBool False) data), la_interval_sec = interval, la_batch_size = batch,
             la_rate_limit_sec = rate, la_max_domains_per_list = most\<rparr>
      | _ \<Rightarrow> default_audit_options)"

definition load_list_audit_options :: "py_conv \<Rightarrow> json option \<Rightarrow> list_audit_options option" where
  "load_list_audit_options conv stored =
     (case stored of None \<Rightarrow> Some default_audit_options | Some (JObj data) \<Rightarrow> Some (audit_options_of conv data) | Some _ \<Rightarrow> None)"

definition save_list_audit_options :: "list_audit_options \<Rightarrow> json" where
  "save_list_audit_options opts =
     (let n = normalize_list_audit_options opts in
      JObj [(''batch_size'', JInt (la_batch_size n)), (''enabled'', JBool (la_enabled n)), (''interval_sec'', JInt (la_interval_sec n)),
        (''max_domains_per_list'', JInt (la_max_domains_per_list n)), (''rate_limit_sec'', JFloat (la_rate_limit_sec n))])"

section \<open>The audit cycle\<close>

record audit_summary =
  au_lists_seen :: int
  au_lists_audited :: int
  au_lists_failed :: int
  au_domains_seen :: int
  au_domains_queued :: int
  au_batches :: int
  au_truncated_lists :: int
  au_cancelled :: bool

text \<open>The callbacks: the answer of the \<open>n\<close>-th call of \<open>should_stop\<close> and of \<open>wait\<close>, the clock at the \<open>n\<close>-th batch, the excluded suffixes
  of the scan options, and the download of a list.\<close>

record audit_env =
  le_stop :: "nat \<Rightarrow> bool"
  le_wait :: "nat \<Rightarrow> bool"
  le_clock :: "nat \<Rightarrow> int"
  le_excluded :: "string list"
  le_fetch :: "string \<Rightarrow> int \<Rightarrow> exn + list_fetch_result"

record audit_run =
  lr_db :: db
  lr_summary :: audit_summary
  lr_first_batch :: bool
  lr_stops :: nat
  lr_waits :: nat

text \<open>A loop goes on, returns a cancelled summary, or raises.\<close>

datatype audit_outcome = Going audit_run | Stopped audit_run | Failed exn audit_run

fun chunks :: "nat \<Rightarrow> 'a list \<Rightarrow> 'a list list" where
  "chunks n [] = []"
| "chunks n (x # xs) = take (max 1 n) (x # xs) # chunks n (drop (max 1 n) (x # xs))"

definition count_up :: "(audit_summary \<Rightarrow> audit_summary) \<Rightarrow> audit_run \<Rightarrow> audit_run" where
  "count_up f r = r\<lparr>lr_summary := f (lr_summary r)\<rparr>"

definition ask_stop :: "audit_run \<Rightarrow> audit_run" where
  "ask_stop r = r\<lparr>lr_stops := lr_stops r + 1\<rparr>"

fun audit_batches :: "audit_env \<Rightarrow> list_audit_options \<Rightarrow> string list list \<Rightarrow> audit_run \<Rightarrow> audit_outcome" where
  "audit_batches env audit [] r = Going r"
| "audit_batches env audit (batch # batches) r =
     (if le_stop env (lr_stops r) then Stopped (ask_stop r)
      else let r = ask_stop r; waits = (\<not> lr_first_batch r \<and> 0 < la_rate_limit_sec audit) in
        if waits \<and> le_wait env (lr_waits r) then Stopped (r\<lparr>lr_waits := lr_waits r + 1\<rparr>)
        else let r = (if waits then r\<lparr>lr_waits := lr_waits r + 1\<rparr> else r) in
          case staging_enqueue batch 0 ''list_audit'' ''background'' (le_excluded env) (le_clock env (nat (au_batches (lr_summary r)))) (lr_db r) of
            Inl e \<Rightarrow> Failed e r
          | Inr (s, n) \<Rightarrow>
              audit_batches env audit batches
                (count_up (\<lambda>u. u\<lparr>au_domains_queued := au_domains_queued u + n, au_batches := au_batches u + 1\<rparr>) (r\<lparr>lr_db := s, lr_first_batch := False\<rparr>)))"

fun audit_lists :: "py_conv \<Rightarrow> audit_env \<Rightarrow> list_audit_options \<Rightarrow> jobj list \<Rightarrow> audit_run \<Rightarrow> audit_outcome" where
  "audit_lists conv env audit [] r = Going r"
| "audit_lists conv env audit (row # rows) r =
     (if le_stop env (lr_stops r) then Stopped (ask_stop r)
      else let r = ask_stop r; address = py_strip (str_default conv (jget ''address'' row) []) in
        if address = [] then audit_lists conv env audit rows (count_up (\<lambda>u. u\<lparr>au_lists_failed := au_lists_failed u + 1\<rparr>) r)
        else case le_fetch env address (la_max_domains_per_list audit) of
          Inl e \<Rightarrow> audit_lists conv env audit rows (count_up (\<lambda>u. u\<lparr>au_lists_failed := au_lists_failed u + 1\<rparr>) r)
        | Inr fetched \<Rightarrow>
            let r = count_up (\<lambda>u. u\<lparr>au_lists_audited := au_lists_audited u + 1, au_domains_seen := au_domains_seen u + int (length (lf_domains fetched)),
                      au_truncated_lists := au_truncated_lists u + (if lf_truncated fetched then 1 else 0)\<rparr>) r;
                eligible_domains = filter_unclassified_domains (lf_domains fetched) (lr_db r);
                batch_size = max 1 (la_batch_size audit)
            in case audit_batches env audit (chunks (nat batch_size) eligible_domains) r of
                 Going r \<Rightarrow> audit_lists conv env audit rows r
               | other \<Rightarrow> other)"

definition enabled_lists :: "jobj list \<Rightarrow> jobj list" where
  "enabled_lists rows = filter (\<lambda>row. json_truthy (with_default ''enabled'' (JBool True) row)) rows"

text \<open>\<open>answer\<close> is what \<open>list_fetcher\<close> returns or raises. The result is the store afterwards and the summary or the exception.\<close>

definition run_list_audit_cycle ::
  "py_conv \<Rightarrow> audit_env \<Rightarrow> list_audit_options \<Rightarrow> (exn + jobj list) \<Rightarrow> db \<Rightarrow> db \<times> (exn + audit_summary)" where
  "run_list_audit_cycle conv env audit answer s =
     (case answer of
        Inl e \<Rightarrow> (s, Inl e)
      | Inr fetched \<Rightarrow>
          (let rows = enabled_lists fetched;
               start = \<lparr>lr_db = s, lr_summary = \<lparr>au_lists_seen = int (length rows), au_lists_audited = 0, au_lists_failed = 0, au_domains_seen = 0,
                  au_domains_queued = 0, au_batches = 0, au_truncated_lists = 0, au_cancelled = False\<rparr>, lr_first_batch = True, lr_stops = 0, lr_waits = 0\<rparr>
           in case audit_lists conv env audit rows start of
                Going r \<Rightarrow> (lr_db r, Inr (lr_summary r))
              | Stopped r \<Rightarrow> (lr_db r, Inr ((lr_summary r)\<lparr>au_cancelled := True\<rparr>))
              | Failed e r \<Rightarrow> (lr_db r, Inl e)))"

section \<open>Names that the parser lets through\<close>

definition host_name :: "string \<Rightarrow> bool" where
  "host_name d \<longleftrightarrow> length d \<le> 253 \<and> CHR ''.'' \<in> set d \<and> py_lower d = d \<and> parse_ip d = None \<and> list_all host_label (py_split (CHR ''.'') d)"

lemma in_some_field: "x \<in> set s \<Longrightarrow> x \<noteq> c \<Longrightarrow> \<exists>l\<in>set (py_split c s). x \<in> set l"
proof (induction s)
  case (Cons y s)
  show ?case
  proof (cases "x = y")
    case True
    then show ?thesis using Cons.prems by (cases "py_split c s") auto
  next
    case False
    then obtain l where "l \<in> set (py_split c s)" "x \<in> set l" using Cons by auto
    then show ?thesis by (cases "py_split c s") auto
  qed
qed simp

lemma host_label_chars: "host_label l \<Longrightarrow> x \<in> set l \<Longrightarrow> is_alnum x \<or> x = CHR ''-''"
proof (cases l)
  case (Cons c cs)
  assume "host_label l" "x \<in> set l"
  then show ?thesis using Cons by (cases cs rule: rev_cases) (auto simp: host_label_def list_all_iff)
qed simp

lemma not_space: "is_alnum x \<or> x = CHR ''-'' \<or> x = CHR ''.'' \<Longrightarrow> \<not> py_isspace x"
  by (auto simp: is_alnum_def py_isspace_def py_isdigit_def Let_def)

lemma host_name_no_space: "host_name d \<Longrightarrow> x \<in> set d \<Longrightarrow> \<not> py_isspace x"
proof -
  assume h: "host_name d" and x: "x \<in> set d"
  have "is_alnum x \<or> x = CHR ''-''" if ne: "x \<noteq> CHR ''.''"
  proof -
    obtain l where l: "l \<in> set (py_split (CHR ''.'') d)" "x \<in> set l" using in_some_field [OF x ne] by blast
    have "host_label l" using h l(1) by (simp add: host_name_def list_all_iff)
    then show ?thesis using l(2) by (rule host_label_chars)
  qed
  then show ?thesis by (intro not_space) blast
qed

lemma host_name_clean: "host_name d \<Longrightarrow> clean_domain d"
  using host_name_no_space set_py_strip by (fastforce simp: clean_domain_def)

text \<open>A label is not empty, so a host name does not end with a dot.\<close>

lemma py_split_not_Nil [simp]: "py_split c s \<noteq> []"
  by (cases s) (auto split: list.splits)

lemma split_last_empty: "py_split c (s @ [c]) = py_split c s @ [[]]"
proof (induction s)
  case (Cons x s)
  then show ?case by (cases "py_split c s") auto
qed simp

lemma host_name_normal: "host_name d \<Longrightarrow> normalize_domain d = d \<and> d \<noteq> []"
proof -
  assume h: "host_name d"
  then have s: "py_strip d = d" by (intro py_strip_no_space ballI) (rule host_name_no_space)
  have "d \<noteq> []" using h by (auto simp: host_name_def)
  moreover have "last d \<noteq> CHR ''.''"
  proof
    assume "last d = CHR ''.''"
    then obtain t where "d = t @ [CHR ''.'']" using \<open>d \<noteq> []\<close> by (metis append_butlast_last_id)
    then have "[] \<in> set (py_split (CHR ''.'') d)" by (simp add: split_last_empty)
    then show False using h by (auto simp: host_name_def list_all_iff host_label_def)
  qed
  ultimately have "py_rstrip_char (CHR ''.'') d = d"
    by (cases d rule: rev_cases) (simp_all add: py_rstrip_char_def rstrip_by_def)
  then show ?thesis using h s \<open>d \<noteq> []\<close> by (simp add: normalize_domain_def host_name_def)
qed

lemma validated_domain_ok: "validated_domain v = [] \<or> host_name (validated_domain v)"
proof -
  let ?n = "py_rstrip_char (CHR ''.'') (py_lower (py_strip v))"
  have l: "py_lower ?n = ?n" by (simp add: py_rstrip_char_def py_lower_rstrip_lower)
  have i: "idna_ascii s = Some a \<Longrightarrow> a = s" for s a by (auto simp: idna_ascii_def Let_def split: if_splits)
  show ?thesis
    by (auto simp: validated_domain_def Let_def host_name_def l is_ip_address_def list_ex_iff list_all_iff split: option.splits dest!: i)
qed

lemma domain_from_list_rule_ok: "domain_from_list_rule rule = [] \<or> host_name (domain_from_list_rule rule)"
  using validated_domain_ok unfolding domain_from_list_rule_def Let_def by (auto split: if_splits)

lemma extract_loop_ok:
  "list_all host_name ds \<Longrightarrow> distinct ds \<Longrightarrow> int (length ds) < limit \<Longrightarrow>
    (let r = lf_domains (extract_loop limit b n ds lines) in list_all host_name r \<and> distinct r \<and> int (length r) \<le> limit)"
proof (induction lines arbitrary: ds n)
  case (Cons line lines)
  let ?d = "domain_from_list_rule line"
  show ?case
  proof (cases "b < n + int (length line) + 1 \<or> ?d = [] \<or> ?d \<in> set ds")
    case True
    then show ?thesis using Cons.IH [OF Cons.prems] Cons.prems by (auto simp: Let_def)
  next
    case False
    then have "host_name ?d" using domain_from_list_rule_ok by blast
    then show ?thesis using False Cons.prems Cons.IH [of "ds @ [?d]"] by (auto simp: Let_def)
  qed
qed (simp add: Let_def)

lemma extract_domains_ok:
  "list_all host_name (lf_domains (extract_domains_from_lines lines m b))" "distinct (lf_domains (extract_domains_from_lines lines m b))"
  "int (length (lf_domains (extract_domains_from_lines lines m b))) \<le> max 1 m"
  using extract_loop_ok [of "[]" "max 1 m" "max 1 b" 0 lines] by (simp_all add: extract_domains_from_lines_def Let_def)

lemma fetch_domains_ok: "fetch_domains_from_list u g a t m = Inr r \<Longrightarrow> list_all host_name (lf_domains r)"
  by (cases "g a (max 1 t)") (auto simp: fetch_domains_from_list_def extract_domains_ok split: sum.splits if_splits prod.splits)

section \<open>What a batch does\<close>

lemma enqueue_one_classified:
  assumes "enqueue_one now p src pool rq v (s, cs) = Inr (s', cs')" and "d \<noteq> normalize_domain v"
  shows "is_classified s' d = is_classified s d"
proof -
  from assms(1) obtain n s1 where e: "ensure_domain v (Some now) 0 now s = Inr (n, s1)"
    by (auto simp: enqueue_one_def split: sum.splits prod.splits)
  have r: "t_review s' = t_review s1" "t_domains s' = t_domains s1"
    using assms(1) by (auto simp: enqueue_one_def e Let_def split: prod.splits option.splits if_splits)
  have "tbl_get d_domain d (t_domains s1) = tbl_get d_domain d (t_domains s)"
    using e assms(2) by (auto simp: ensure_domain_def Let_def new_domain_row_def tbl_get_upsert split: if_splits)
  then show ?thesis unfolding is_classified_def r ensure_domain_frame(4) [OF e] by (simp only:)
qed

lemma fold_enqueue_classified:
  assumes "fold_res (enqueue_one now p src pool rq) ds (s, cs) = Inr (s', cs')" and "d \<notin> normalize_domain ` set ds"
  shows "is_classified s' d = is_classified s d"
proof -
  have "(\<lambda>st. is_classified (fst st) d = is_classified s d) (s', cs')"
  proof (rule fold_res_invariant [OF _ _ assms(1)])
    fix v st st' assume "v \<in> set ds" "is_classified (fst st) d = is_classified s d" "enqueue_one now p src pool rq v st = Inr st'"
    then show "is_classified (fst st') d = is_classified s d"
      using enqueue_one_classified [of now p src pool rq v "fst st" "snd st" "fst st'" "snd st'" d] assms(2) by auto
  qed simp
  then show ?thesis by simp
qed

abbreviation queue_keys :: "db \<Rightarrow> string set" where
  "queue_keys s \<equiv> sd_domain ` set (t_staging s)"

text \<open>The store after the names \<open>B\<close> have been enqueued, in any order and in any number of batches.\<close>

definition queued_from :: "string list \<Rightarrow> string set \<Rightarrow> db \<Rightarrow> db \<Rightarrow> bool" where
  "queued_from excl B s s' \<longleftrightarrow> t_locks s' = t_locks s \<and>
     queue_keys s' = queue_keys s \<union> {d \<in> B. \<not> domain_matches_suffix d excl \<and> d \<notin> l_domain ` set (t_locks s)} \<and>
     (\<forall>d. d \<notin> B \<longrightarrow> is_classified s' d = is_classified s d)"

lemma queued_from_refl: "queued_from excl {} s s"
  by (simp add: queued_from_def)

lemma queued_from_trans: "queued_from excl A s s1 \<Longrightarrow> queued_from excl B s1 s2 \<Longrightarrow> queued_from excl (A \<union> B) s s2"
  by (auto simp: queued_from_def)

lemma host_names_normal: "list_all host_name ds \<Longrightarrow> normalize_domain ` set ds = set ds"
  using host_name_normal by (force simp: list_all_iff)

lemma enqueue_batch:
  assumes "list_all host_name batch"
  shows "\<exists>s' n. staging_enqueue batch p src pool excl now s = Inr (s', n) \<and> queued_from excl (set batch) s s'"
proof -
  have clean: "\<forall>d\<in>set batch. clean_domain d" using assms host_name_clean by (auto simp: list_all_iff)
  note n = host_names_normal [OF assms]
  have ne: "[] \<notin> set batch" using assms host_name_normal by (auto simp: list_all_iff)
  obtain s' r where e: "staging_enqueue_detailed batch p src pool False excl now s = Inr (s', r)"
    and k: "t_locks s' = t_locks s"
      "queue_keys s' = queue_keys s \<union> {d \<in> normalize_domain ` set batch. d \<noteq> [] \<and> \<not> domain_matches_suffix d excl \<and> d \<notin> l_domain ` set (t_locks s)}"
    by (rule enqueue_clean [OF clean])
  from e obtain cs where f: "fold_res (enqueue_one now (max 0 p) (py_strip src) (queue_pool_id pool (max 0 p) (py_strip src)) False)
      (filter (\<lambda>d. \<not> domain_matches_suffix d excl) (unique_normalized batch)) (s, (0, 0, 0, 0)) = Inr (s', cs)"
    by (auto simp: staging_enqueue_detailed_def Let_def split: sum.splits prod.splits)
  have sub: "normalize_domain ` set (filter (\<lambda>d. \<not> domain_matches_suffix d excl) (unique_normalized batch)) \<subseteq> set batch"
  proof -
    have "set (unique_normalized batch) \<subseteq> set batch" using n by (auto simp: unique_normalized_def)
    then show ?thesis using n by auto
  qed
  have c: "is_classified s' d = is_classified s d" if "d \<notin> set batch" for d
    by (rule fold_enqueue_classified [OF f]) (use that sub in blast)
  have "queue_keys s' = queue_keys s \<union> {d \<in> set batch. \<not> domain_matches_suffix d excl \<and> d \<notin> l_domain ` set (t_locks s)}"
    using k(2) ne unfolding n by auto
  then have "queued_from excl (set batch) s s'" using k(1) c by (simp add: queued_from_def)
  then show ?thesis using e by (auto simp: staging_enqueue_def)
qed

section \<open>What the cycle does\<close>

text \<open>The run that an outcome leaves behind, and the counters that the batches do not touch.\<close>

fun run_of :: "audit_outcome \<Rightarrow> audit_run" where
  "run_of (Going r) = r"
| "run_of (Stopped r) = r"
| "run_of (Failed e r) = r"

definition is_failed :: "audit_outcome \<Rightarrow> bool" where
  "is_failed out = (case out of Failed _ _ \<Rightarrow> True | _ \<Rightarrow> False)"

definition is_going :: "audit_outcome \<Rightarrow> bool" where
  "is_going out = (case out of Going _ \<Rightarrow> True | _ \<Rightarrow> False)"

definition list_counts :: "audit_run \<Rightarrow> int \<times> int \<times> bool" where
  "list_counts r = (let u = lr_summary r in (au_lists_seen u, au_lists_audited u + au_lists_failed u, au_cancelled u))"

lemma audit_batches_effect:
  assumes "list_all (list_all host_name) batches"
  shows "\<not> is_failed (audit_batches env audit batches r) \<and> list_counts (run_of (audit_batches env audit batches r)) = list_counts r \<and>
    (\<exists>B\<subseteq>set (concat batches). queued_from (le_excluded env) B (lr_db r) (lr_db (run_of (audit_batches env audit batches r))) \<and>
       (is_going (audit_batches env audit batches r) \<longrightarrow> B = set (concat batches)))"
  using assms
proof (induction batches arbitrary: r)
  case (Cons batch batches)
  let ?w = "\<not> lr_first_batch r \<and> 0 < la_rate_limit_sec audit"
  let ?r = "if ?w then (ask_stop r)\<lparr>lr_waits := lr_waits r + 1\<rparr> else ask_stop r"
  show ?case
  proof (cases "le_stop env (lr_stops r) \<or> ?w \<and> le_wait env (lr_waits r)")
    case True
    then show ?thesis
      by (auto simp: ask_stop_def is_failed_def is_going_def list_counts_def Let_def intro!: exI [of _ "{}"] queued_from_refl)
  next
    case False
    obtain s n where e: "staging_enqueue batch 0 ''list_audit'' ''background'' (le_excluded env) (le_clock env (nat (au_batches (lr_summary r)))) (lr_db r) = Inr (s, n)"
      and q: "queued_from (le_excluded env) (set batch) (lr_db r) s"
      using enqueue_batch [of batch] Cons.prems by (metis list.pred_inject(2))
    let ?n = "count_up (\<lambda>u. u\<lparr>au_domains_queued := au_domains_queued u + n, au_batches := au_batches u + 1\<rparr>) (?r\<lparr>lr_db := s, lr_first_batch := False\<rparr>)"
    have step: "audit_batches env audit (batch # batches) r = audit_batches env audit batches ?n"
      using False e by (auto simp: ask_stop_def Let_def)
    have n: "lr_db ?n = s" "list_counts ?n = list_counts r" by (simp_all add: count_up_def ask_stop_def list_counts_def Let_def)
    from Cons.IH [of ?n] Cons.prems obtain B where "B \<subseteq> set (concat batches)"
      "queued_from (le_excluded env) B s (lr_db (run_of (audit_batches env audit batches ?n)))"
      "is_going (audit_batches env audit batches ?n) \<longrightarrow> B = set (concat batches)"
      "\<not> is_failed (audit_batches env audit batches ?n)" "list_counts (run_of (audit_batches env audit batches ?n)) = list_counts r"
      unfolding n by auto
    then show ?thesis unfolding step using queued_from_trans [OF q]
      by (intro conjI exI [of _ "set batch \<union> B"]) auto
  qed
qed (simp add: is_failed_def is_going_def queued_from_refl)

lemma chunks_concat [simp]: "concat (chunks n xs) = xs"
proof (induction n xs rule: chunks.induct)
  case (2 n x xs)
  then show ?case by (simp only: chunks.simps concat.simps append_take_drop_id)
qed simp

lemma set_filter_unclassified:
  "list_all host_name ds \<Longrightarrow> set (filter_unclassified_domains ds s) = {d \<in> set ds. \<not> is_classified s d}"
proof -
  assume h: "list_all host_name ds"
  have "[] \<notin> set ds" using h host_name_normal by (auto simp: list_all_iff)
  then have "set (unique_normalized ds) = set ds" using host_names_normal [OF h] by (auto simp: unique_normalized_def)
  then show ?thesis by (simp add: filter_unclassified_domains_def)
qed

lemma list_all_chunks: "list_all P xs \<Longrightarrow> list_all (list_all P) (chunks n xs)"
proof -
  assume "list_all P xs"
  moreover have "set (concat (chunks n xs)) = set xs" by simp
  ultimately show ?thesis unfolding list_all_iff set_concat by blast
qed

text \<open>The names in the lists that can be read.\<close>

definition listed :: "py_conv \<Rightarrow> audit_env \<Rightarrow> list_audit_options \<Rightarrow> jobj list \<Rightarrow> string set" where
  "listed conv env audit rows =
     {d. \<exists>row\<in>set rows. \<exists>fetched. py_strip (str_default conv (jget ''address'' row) []) \<noteq> [] \<and>
        le_fetch env (py_strip (str_default conv (jget ''address'' row) [])) (la_max_domains_per_list audit) = Inr fetched \<and> d \<in> set (lf_domains fetched)}"

definition fetches_host_names :: "audit_env \<Rightarrow> bool" where
  "fetches_host_names env \<longleftrightarrow> (\<forall>a m r. le_fetch env a m = Inr r \<longrightarrow> list_all host_name (lf_domains r))"

text \<open>The effect of the loop over the lists, in one predicate: it never raises, it enqueues unclassified listed names only and, when it is not
  stopped, all of them, and it counts every list once.\<close>

definition audit_effect :: "py_conv \<Rightarrow> audit_env \<Rightarrow> list_audit_options \<Rightarrow> jobj list \<Rightarrow> audit_run \<Rightarrow> audit_outcome \<Rightarrow> bool" where
  "audit_effect conv env audit rows r out \<longleftrightarrow>
     \<not> is_failed out \<and>
     (\<exists>B\<subseteq>{d \<in> listed conv env audit rows. \<not> is_classified (lr_db r) d}. queued_from (le_excluded env) B (lr_db r) (lr_db (run_of out)) \<and>
        (is_going out \<longrightarrow> B = {d \<in> listed conv env audit rows. \<not> is_classified (lr_db r) d})) \<and>
     (case (list_counts r, list_counts (run_of out)) of ((seen, done, c), (seen', done', c')) \<Rightarrow>
        seen' = seen \<and> c' = c \<and> done' \<le> done + int (length rows) \<and> (is_going out \<longrightarrow> done' = done + int (length rows)))"

lemma audit_effect_step:
  assumes "queued_from (le_excluded env) {d \<in> L. \<not> is_classified (lr_db r) d} (lr_db r) (lr_db r1)"
    and "audit_effect conv env audit rows r1 out" and "listed conv env audit (row # rows) = L \<union> listed conv env audit rows"
    and "list_counts r = (seen, done, c)" and "list_counts r1 = (seen, done + 1, c)"
  shows "audit_effect conv env audit (row # rows) r out"
proof -
  let ?E = "{d \<in> L. \<not> is_classified (lr_db r) d}"
  from assms(2) obtain B where B: "B \<subseteq> {d \<in> listed conv env audit rows. \<not> is_classified (lr_db r1) d}"
      "queued_from (le_excluded env) B (lr_db r1) (lr_db (run_of out))"
      "is_going out \<longrightarrow> B = {d \<in> listed conv env audit rows. \<not> is_classified (lr_db r1) d}"
    by (auto simp: audit_effect_def)
  have same: "d \<notin> ?E \<Longrightarrow> is_classified (lr_db r1) d = is_classified (lr_db r) d" for d using assms(1) by (simp add: queued_from_def)
  have sub: "?E \<union> B \<subseteq> {d \<in> listed conv env audit (row # rows). \<not> is_classified (lr_db r) d}" using B(1) same assms(3) by blast
  have sup: "is_going out \<Longrightarrow> ?E \<union> B = {d \<in> listed conv env audit (row # rows). \<not> is_classified (lr_db r) d}"
    using B(3) sub same assms(3) by blast
  have "queued_from (le_excluded env) (?E \<union> B) (lr_db r) (lr_db (run_of out))" by (rule queued_from_trans [OF assms(1) B(2)])
  with sub sup have "\<exists>B\<subseteq>{d \<in> listed conv env audit (row # rows). \<not> is_classified (lr_db r) d}. queued_from (le_excluded env) B (lr_db r) (lr_db (run_of out)) \<and>
      (is_going out \<longrightarrow> B = {d \<in> listed conv env audit (row # rows). \<not> is_classified (lr_db r) d})" by blast
  then show ?thesis using assms(2,4,5) by (auto simp: audit_effect_def split: prod.splits)
qed

lemma audit_effect_end:
  assumes "\<not> is_failed out" and "is_going out \<longrightarrow> rows = []" and "B \<subseteq> {d \<in> listed conv env audit rows. \<not> is_classified (lr_db r) d}"
    and "queued_from (le_excluded env) B (lr_db r) (lr_db (run_of out))"
    and "list_counts r = (seen, done, c)" and "list_counts (run_of out) = (seen, done', c)" and "done' \<le> done + int (length rows)" and "is_going out \<longrightarrow> done' = done"
  shows "audit_effect conv env audit rows r out"
proof -
  have "is_going out \<longrightarrow> B = {d \<in> listed conv env audit rows. \<not> is_classified (lr_db r) d}"
    using assms(2,3) by (auto simp: listed_def)
  then show ?thesis using assms by (auto simp: audit_effect_def)
qed

lemma audit_lists_effect:
  assumes "fetches_host_names env"
  shows "audit_effect conv env audit rows r (audit_lists conv env audit rows r)"
proof (induction rows arbitrary: r)
  case Nil
  obtain seen don c where l: "list_counts r = (seen, don, c)" by (metis prod_cases3)
  show ?case by (rule audit_effect_end [of _ _ "{}", OF _ _ _ _ l]) (simp_all add: is_failed_def is_going_def queued_from_refl l)
next
  case (Cons row rows)
  obtain seen don c where l: "list_counts r = (seen, don, c)" by (metis prod_cases3)
  let ?a = "py_strip (str_default conv (jget ''address'' row) [])" and ?r = "ask_stop r"
  let ?skip = "count_up (\<lambda>u. u\<lparr>au_lists_failed := au_lists_failed u + 1\<rparr>) ?r"
  have lr: "list_counts ?r = (seen, don, c)" "lr_db ?r = lr_db r" using l by (simp_all add: ask_stop_def list_counts_def)
  show ?case
  proof (cases "le_stop env (lr_stops r)")
    case True
    then have e: "audit_lists conv env audit (row # rows) r = Stopped ?r" by simp
    show ?thesis unfolding e
      by (intro audit_effect_end [of _ _ "{}", OF _ _ _ _ l]) (simp_all add: is_failed_def is_going_def queued_from_refl lr, linarith?)
  next
    case False
    show ?thesis
    proof (cases "?a = [] \<or> isl (le_fetch env ?a (la_max_domains_per_list audit))")
      case True
      then have e: "audit_lists conv env audit (row # rows) r = audit_lists conv env audit rows ?skip"
        using False by (auto simp: Let_def isl_def)
      have li: "listed conv env audit (row # rows) = {} \<union> listed conv env audit rows" using True by (auto simp: listed_def isl_def)
      show ?thesis unfolding e
        by (rule audit_effect_step [OF _ Cons.IH li l])
          (use lr in \<open>simp_all add: count_up_def queued_from_refl list_counts_def Let_def\<close>)
    next
      case fetched: False
      then obtain f where f: "le_fetch env ?a (la_max_domains_per_list audit) = Inr f" by (cases "le_fetch env ?a (la_max_domains_per_list audit)") auto
      let ?n = "count_up (\<lambda>u. u\<lparr>au_lists_audited := au_lists_audited u + 1, au_domains_seen := au_domains_seen u + int (length (lf_domains f)),
                      au_truncated_lists := au_truncated_lists u + (if lf_truncated f then 1 else 0)\<rparr>) ?r"
      let ?el = "filter_unclassified_domains (lf_domains f) (lr_db ?n)" and ?size = "nat (max 1 (la_batch_size audit))"
      let ?out = "audit_batches env audit (chunks ?size ?el) ?n"
      have n: "lr_db ?n = lr_db r" "list_counts ?n = (seen, don + 1, c)" using lr by (simp_all add: count_up_def list_counts_def Let_def)
      have h: "list_all host_name (lf_domains f)" using assms f by (simp add: fetches_host_names_def)
      then have el: "set ?el = {d \<in> set (lf_domains f). \<not> is_classified (lr_db r) d}" by (simp add: set_filter_unclassified n)
      have "list_all host_name ?el" using h el by (auto simp: list_all_iff)
      from audit_batches_effect [OF list_all_chunks [OF this], of env audit ?size ?n]
      obtain B where B: "B \<subseteq> set ?el" "queued_from (le_excluded env) B (lr_db r) (lr_db (run_of ?out))" "is_going ?out \<longrightarrow> B = set ?el"
        and o: "\<not> is_failed ?out" "list_counts (run_of ?out) = (seen, don + 1, c)"
        unfolding chunks_concat n by blast
      have li: "listed conv env audit (row # rows) = set (lf_domains f) \<union> listed conv env audit rows"
        using fetched f by (auto simp: listed_def)
      have e: "audit_lists conv env audit (row # rows) r = (case ?out of Going r \<Rightarrow> audit_lists conv env audit rows r | other \<Rightarrow> other)"
        using False fetched f by (simp add: Let_def)
      show ?thesis
      proof (cases "is_going ?out")
        case True
        then obtain r1 where g: "?out = Going r1" by (auto simp: is_going_def split: audit_outcome.splits)
        show ?thesis unfolding e g audit_outcome.case
          by (rule audit_effect_step [OF _ Cons.IH li l]) (use B o True g el in simp_all)
      next
        case False
        then have e': "(case ?out of Going r \<Rightarrow> audit_lists conv env audit rows r | other \<Rightarrow> other) = ?out"
          by (auto simp: is_going_def split: audit_outcome.splits)
        have sub: "B \<subseteq> {d \<in> listed conv env audit (row # rows). \<not> is_classified (lr_db r) d}" using B(1) unfolding el li by blast
        show ?thesis unfolding e e' by (rule audit_effect_end [OF o(1) _ sub B(2) l o(2)]) (use False in simp_all)
      qed
    qed
  qed
qed

section \<open>Properties\<close>

text \<open>The names that a cycle is to queue.\<close>

definition audit_candidates :: "py_conv \<Rightarrow> audit_env \<Rightarrow> list_audit_options \<Rightarrow> jobj list \<Rightarrow> db \<Rightarrow> string set" where
  "audit_candidates conv env audit rows s =
     {d \<in> listed conv env audit (enabled_lists rows). \<not> is_classified s d \<and> \<not> domain_matches_suffix d (le_excluded env) \<and> d \<notin> l_domain ` set (t_locks s)}"

text \<open>C35. One cycle of the list audit over downloaded lists, whatever their lines are: it never raises, it touches no lock and removes nothing from the
  queue; every name that it adds is a well-formed host name of an enabled list that could be read, is not classified, has no excluded suffix
  and is not protected. A cycle that nobody stopped has counted every enabled list once, as audited or as failed, and has added all of these names.\<close>

theorem list_audit_queues_exactly:
  assumes "le_fetch env = (\<lambda>a m. fetch_domains_from_list urlparse get a timeout m)"
  shows "let new = audit_candidates conv env audit rows s in
    \<exists>s' u. run_list_audit_cycle conv env audit (Inr rows) s = (s', Inr u) \<and> t_locks s' = t_locks s \<and>
     queue_keys s \<subseteq> queue_keys s' \<and> queue_keys s' \<subseteq> queue_keys s \<union> new \<and> (\<forall>d\<in>new. host_name d) \<and>
     au_lists_seen u = int (length (enabled_lists rows)) \<and> au_lists_audited u + au_lists_failed u \<le> au_lists_seen u \<and>
     (\<not> au_cancelled u \<longrightarrow> queue_keys s' = queue_keys s \<union> new \<and> au_lists_audited u + au_lists_failed u = au_lists_seen u)"
proof -
  define new where "new = audit_candidates conv env audit rows s"
  note new_def' = new_def [unfolded audit_candidates_def]
  have h: "fetches_host_names env" using fetch_domains_ok by (auto simp: fetches_host_names_def assms(1))
  define start where "start = \<lparr>lr_db = s, lr_summary = \<lparr>au_lists_seen = int (length (enabled_lists rows)), au_lists_audited = 0, au_lists_failed = 0, au_domains_seen = 0,
                  au_domains_queued = 0, au_batches = 0, au_truncated_lists = 0, au_cancelled = False\<rparr>, lr_first_batch = True, lr_stops = 0, lr_waits = 0\<rparr>"
  define out where "out = audit_lists conv env audit (enabled_lists rows) start"
  have lc: "list_counts start = (int (length (enabled_lists rows)), 0, False)" "lr_db start = s" by (simp_all add: start_def list_counts_def)
  obtain seen don c where lo: "list_counts (run_of out) = (seen, don, c)" by (metis prod_cases3)
  from audit_lists_effect [OF h, of conv audit "enabled_lists rows" start]
  obtain B where B: "B \<subseteq> {d \<in> listed conv env audit (enabled_lists rows). \<not> is_classified s d}" "queued_from (le_excluded env) B s (lr_db (run_of out))"
      "is_going out \<longrightarrow> B = {d \<in> listed conv env audit (enabled_lists rows). \<not> is_classified s d}"
    and f: "\<not> is_failed out" and c: "seen = int (length (enabled_lists rows))" "\<not> c" "don \<le> seen" "is_going out \<longrightarrow> don = seen"
    unfolding audit_effect_def out_def [symmetric] lc lo by auto
  have new: "\<forall>d\<in>new. host_name d" using h by (auto simp: new_def' listed_def fetches_host_names_def list_all_iff)
  have q: "t_locks (lr_db (run_of out)) = t_locks s" "queue_keys s \<subseteq> queue_keys (lr_db (run_of out))"
      "queue_keys (lr_db (run_of out)) \<subseteq> queue_keys s \<union> new" "is_going out \<Longrightarrow> queue_keys (lr_db (run_of out)) = queue_keys s \<union> new"
    using B by (auto simp: queued_from_def new_def')
  define u where "u = (lr_summary (run_of out))\<lparr>au_cancelled := \<not> is_going out\<rparr>"
  have "run_list_audit_cycle conv env audit (Inr rows) s = (lr_db (run_of out), Inr u)"
    using f lo c(2) by (cases out) (auto simp: run_list_audit_cycle_def Let_def start_def [symmetric] out_def [symmetric] is_failed_def is_going_def u_def list_counts_def)
  moreover have "au_lists_seen u = seen" "au_lists_audited u + au_lists_failed u = don" "au_cancelled u \<longleftrightarrow> \<not> is_going out"
    using lo by (simp_all add: u_def list_counts_def Let_def)
  ultimately show ?thesis unfolding Let_def new_def [symmetric] using q new c by (intro exI conjI) (assumption, auto)
qed

definition ex_audit_env :: audit_env where
  "ex_audit_env = \<lparr>le_stop = (\<lambda>_. False), le_wait = (\<lambda>_. False), le_clock = (\<lambda>n. 100 + int n), le_excluded = [],
     le_fetch = (\<lambda>a m. fetch_domains_from_list (\<lambda>_. Inr (''https'', ''lists.example'')) (\<lambda>_ _. Inr [''! x'', ''||ads.example.com^'']) a 5 m)\<rparr>"

definition ex_audit_rows :: "jobj list" where
  "ex_audit_rows = [[(''address'', JStr ''https://lists.example/a'')], [(''address'', JStr ''b''), (''enabled'', JBool False)]]"

lemma ex_audit_run:
  "(case snd (run_list_audit_cycle ex_conv ex_audit_env default_audit_options (Inr ex_audit_rows) empty_db) of Inr u \<Rightarrow> \<not> au_cancelled u | Inl _ \<Rightarrow> False)"
  by code_simp

lemma ex_audit_lists:
  "enabled_lists ex_audit_rows = [[(''address'', JStr ''https://lists.example/a'')]]"
  "py_strip (str_default ex_conv (jget ''address'' [(''address'', JStr ''https://lists.example/a'')]) []) = ''https://lists.example/a''"
  "le_fetch ex_audit_env ''https://lists.example/a'' 5000 = Inr \<lparr>lf_domains = [''ads.example.com''], lf_truncated = False\<rparr>"
  by code_simp+

lemma list_audit_queues_exactly_witness:
  "queue_keys (fst (run_list_audit_cycle ex_conv ex_audit_env default_audit_options (Inr ex_audit_rows) empty_db)) = {''ads.example.com''} \<and>
   host_name ''ads.example.com''"
proof -
  have "listed ex_conv ex_audit_env default_audit_options (enabled_lists ex_audit_rows) = {''ads.example.com''}"
    by (simp add: listed_def ex_audit_lists default_audit_options_def)
  then have c: "audit_candidates ex_conv ex_audit_env default_audit_options ex_audit_rows empty_db = {''ads.example.com''}"
    by (simp add: audit_candidates_def is_classified_def empty_db_def tbl_get_def ex_audit_env_def domain_matches_suffix_def)
  have k: "queue_keys empty_db = {}" by (simp add: empty_db_def)
  have "le_fetch ex_audit_env = (\<lambda>a m. fetch_domains_from_list (\<lambda>_. Inr (''https'', ''lists.example'')) (\<lambda>_ _. Inr [''! x'', ''||ads.example.com^'']) a 5 m)"
    by (simp add: ex_audit_env_def)
  from list_audit_queues_exactly [OF this, of ex_conv default_audit_options ex_audit_rows empty_db] show ?thesis
    using ex_audit_run unfolding c Let_def k by auto
qed

end
