(* ===== verification/Catalogs.thy ===== *)
theory Catalogs
  imports Evidence List_Audit Config_Migrate
begin

text \<open>
  Evidence from catalogues that are downloaded whole and searched on this machine: \<open>research_catalogs.py\<close> (AdGuard services, Disconnect, PhishTank) and
  \<open>repository_lists.py\<close> (block lists), with the neutral finding of \<open>research_common.py\<close>. What \<open>fetch_cached_bytes\<close> and the decoding of a download give is an
  argument, as are \<open>json.dumps\<close> with sorted keys (\<open>dumps\<close>) and the host of a URL.
\<close>

record evidence_source =
  es_name :: string
  es_kind :: string
  es_enabled :: bool
  es_base_url :: string
  es_api_key :: string
  es_min_interval_sec :: pyfloat
  es_refresh_interval_hours :: int
  es_max_results :: int
  es_test_domain :: string

datatype research_error = Research_error string | Type_failure | Attribute_failure | Value_failure | Fetch_failure string

text \<open>\<open>xs[:n]\<close>.\<close>

definition py_prefix :: "int \<Rightarrow> 'a list \<Rightarrow> 'a list" where
  "py_prefix n xs = take (if 0 \<le> n then nat n else length xs - nat (- n)) xs"

definition expiry :: "evidence_source \<Rightarrow> int \<Rightarrow> int" where
  "expiry p now = now + es_refresh_interval_hours p * 3600"

definition negative_finding :: "string \<Rightarrow> evidence_source \<Rightarrow> string \<Rightarrow> int \<Rightarrow> research_finding" where
  "negative_finding domain p summary now =
     \<lparr>rf_domain = normalize_domain domain, rf_provider = es_name p, rf_kind = ''lookup_status'', rf_title = ''No matching evidence'',
      rf_summary = summary, rf_source_url = [], rf_confidence = 0, rf_signal_type = ''status'', rf_verdict = ''no_match'',
      rf_decision_relevant = False, rf_retrieved_at = now, rf_expires_at = expiry p now, rf_raw_data = [(''include_in_prompt'', JBool False)]\<rparr>"

definition no_evidence :: string where
  "no_evidence = ''No matching structured evidence was found.''"

section \<open>Indices\<close>

text \<open>An index maps a domain to the entries listed for it; \<open>defaultdict(list)\<close> keeps them in the order of the download.\<close>

type_synonym catalog_index = "(string, jobj list) dict"

definition index_entries :: "catalog_index \<Rightarrow> string \<Rightarrow> jobj list" where
  "index_entries index suffix = (case map_of index suffix of Some items \<Rightarrow> items | None \<Rightarrow> [])"

definition add_entry :: "string \<times> jobj \<Rightarrow> catalog_index \<Rightarrow> catalog_index" where
  "add_entry e index = AList.update (fst e) (index_entries index (fst e) @ [snd e]) index"

definition index_of :: "(string \<times> jobj) list \<Rightarrow> catalog_index" where
  "index_of entries = fold add_entry entries []"

text \<open>The items that a \<open>for\<close> loop sees: a dictionary gives its keys and a string its characters.\<close>

definition py_iter :: "json \<Rightarrow> research_error + json list" where
  "py_iter v =
     (case v of
        JList vs \<Rightarrow> Inr vs
      | JObj kvs \<Rightarrow> Inr (map (JStr \<circ> fst) kvs)
      | JStr s \<Rightarrow> Inr (map (\<lambda>c. JStr [c]) s)
      | _ \<Rightarrow> Inl Type_failure)"

definition top_items :: "string \<Rightarrow> json \<Rightarrow> research_error + json list" where
  "top_items key data =
     (case data of
        JList vs \<Rightarrow> Inr vs
      | JObj kvs \<Rightarrow> py_iter (jget_or key (JList []) kvs)
      | _ \<Rightarrow> Inl Attribute_failure)"

definition has_char :: "string \<Rightarrow> string \<Rightarrow> bool" where
  "has_char chars s = list_ex (\<lambda>c. c \<in> set chars) s"

definition domain_from_adblock_rule :: "string \<Rightarrow> string" where
  "domain_from_adblock_rule rule =
     (let value = py_strip rule in
      if py_startswith ''@@'' value then []
      else if \<not> py_startswith ''||'' value then []
      else let value = takeWhile (\<lambda>c. c \<noteq> CHR ''$'') (drop 2 value);
               value = takeWhile (\<lambda>c. c \<noteq> CHR ''^'') value;
               value = rstrip_by (\<lambda>c. c \<in> set ''|/'') (lstrip_by (\<lambda>c. c \<in> set ''|/'') value)
           in if value = [] \<or> has_char (''*[]()'' @ [CHR 0x5C]) value then [] else normalize_domain value)"

text \<open>The entries of one AdGuard service.\<close>

definition adguard_entry :: "py_conv \<Rightarrow> jobj \<Rightarrow> json \<Rightarrow> (string \<times> jobj) list" where
  "adguard_entry conv service rule =
     (let suffix = domain_from_adblock_rule (py_str conv rule) in
      if suffix = [] then []
      else [(suffix, [(''id'', jget ''id'' service), (''name'', jget ''name'' service), (''group'', jget ''group'' service), (''rule'', rule),
              (''matched_domain'', JStr suffix)])])"

definition adguard_entries :: "py_conv \<Rightarrow> json \<Rightarrow> (string \<times> jobj) list \<Rightarrow> research_error + (string \<times> jobj) list" where
  "adguard_entries conv v entries =
     (case v of
        JObj service \<Rightarrow>
          map_sum id (\<lambda>rules. entries @ concat (map (adguard_entry conv service) rules)) (py_iter (json_or (jget ''rules'' service) (JList [])))
      | _ \<Rightarrow> Inr entries)"

definition build_adguard_index :: "py_conv \<Rightarrow> json \<Rightarrow> research_error + catalog_index" where
  "build_adguard_index conv data =
     (case top_items ''services'' data of
        Inl e \<Rightarrow> Inl e
      | Inr services \<Rightarrow> map_sum id index_of (fold_res (adguard_entries conv) services []))"

definition disconnect_entry :: "py_conv \<Rightarrow> string \<Rightarrow> string \<Rightarrow> string \<Rightarrow> json \<Rightarrow> (string \<times> jobj) list" where
  "disconnect_entry conv category company homepage listed_domain =
     (let suffix = normalize_domain (py_str conv listed_domain) in
      if suffix = [] then []
      else [(suffix, [(''category'', JStr category), (''company'', JStr company), (''homepage'', JStr homepage), (''matched_domain'', JStr suffix)])])"

definition build_disconnect_index :: "py_conv \<Rightarrow> json \<Rightarrow> catalog_index" where
  "build_disconnect_index conv data =
     index_of (concat (map (\<lambda>(category, entries).
       concat (map (\<lambda>entry.
         concat (map (\<lambda>(company, homepage_map).
           concat (map (\<lambda>(homepage, domains). concat (map (disconnect_entry conv category company homepage) (jitems domains))) (jmapping homepage_map)))
         (jmapping entry)))
       (jitems entries)))
     (jmapping (jget ''categories'' (jmapping data)))))"

text \<open>\<open>host\<close> is \<open>urlsplit(url).hostname or ""\<close>; \<^const>\<open>None\<close> is the \<open>ValueError\<close> of a malformed address.\<close>

definition phishtank_entries ::
  "py_conv \<Rightarrow> (string \<Rightarrow> string option) \<Rightarrow> json \<Rightarrow> (string \<times> jobj) list \<Rightarrow> research_error + (string \<times> jobj) list" where
  "phishtank_entries conv host v entries =
     (case v of
        JObj item \<Rightarrow>
          (case host (str_default conv (jget ''url'' item) []) of
             None \<Rightarrow> Inl Value_failure
           | Some h \<Rightarrow> let hostname = normalize_domain h in Inr (if hostname = [] then entries else entries @ [(hostname, item)]))
      | _ \<Rightarrow> Inr entries)"

definition build_phishtank_index :: "py_conv \<Rightarrow> (string \<Rightarrow> string option) \<Rightarrow> json \<Rightarrow> research_error + catalog_index" where
  "build_phishtank_index conv host data =
     (case top_items ''entries'' data of
        Inl e \<Rightarrow> Inl e
      | Inr items \<Rightarrow> map_sum id index_of (fold_res (phishtank_entries conv host) items []))"

text \<open>\<open>_domain_from_repository_rule\<close> and its helpers are the functions of \<open>list_rule_parser.py\<close> once more.\<close>

definition domain_from_repository_rule :: "string \<Rightarrow> string" where
  "domain_from_repository_rule rule = domain_from_list_rule rule"

definition repository_entry :: "nat \<times> string \<Rightarrow> (string \<times> jobj) option" where
  "repository_entry l =
     (let rule = py_strip (snd l); domain = domain_from_repository_rule rule in
      if domain = [] then None
      else Some (domain, [(''matched_domain'', JStr domain), (''rule'', JStr (take 500 rule)), (''line_number'', JInt (int (fst l)))]))"

definition build_repository_list_index :: "string list \<Rightarrow> catalog_index" where
  "build_repository_list_index text_lines = index_of (List.map_filter repository_entry (enumerate 1 text_lines))"

section \<open>Lookup\<close>

text \<open>The first of the items that have one rendering.\<close>

fun first_by_marker :: "(jobj \<Rightarrow> string) \<Rightarrow> string set \<Rightarrow> jobj list \<Rightarrow> jobj list" where
  "first_by_marker dumps seen [] = []"
| "first_by_marker dumps seen (x # xs) =
     (if dumps x \<in> seen then first_by_marker dumps seen xs else x # first_by_marker dumps (insert (dumps x) seen) xs)"

text \<open>The domain and its parents of at least two and at most six labels, the longest first.\<close>

definition lookup_names :: "string \<Rightarrow> string list" where
  "lookup_names domain =
     (let labels = py_split (CHR ''.'') (normalize_domain domain) in
      map (\<lambda>position. py_join ''.'' (drop position labels)) [length labels - 6 ..< length labels - 1])"

definition lookup_suffixes :: "(jobj \<Rightarrow> string) \<Rightarrow> string \<Rightarrow> catalog_index \<Rightarrow> jobj list" where
  "lookup_suffixes dumps domain index = first_by_marker dumps {} (concat (map (index_entries index) (lookup_names domain)))"

text \<open>\<open>_cached_index\<close>: the parsed index is kept beside the payload that it was built from.\<close>

definition cached_index :: "('p \<Rightarrow> research_error + catalog_index) \<Rightarrow> string \<Rightarrow> 'p \<Rightarrow> (string, 'p \<times> catalog_index) dict \<Rightarrow>
    (research_error + catalog_index) \<times> (string, 'p \<times> catalog_index) dict" where
  "cached_index builder prefix payload cache =
     (case map_of cache prefix of
        Some (kept, index) \<Rightarrow>
          if kept = payload then (Inr index, cache)
          else (case builder payload of Inl e \<Rightarrow> (Inl e, cache) | Inr built \<Rightarrow> (Inr built, AList.update prefix (payload, built) cache))
      | None \<Rightarrow> (case builder payload of Inl e \<Rightarrow> (Inl e, cache) | Inr built \<Rightarrow> (Inr built, AList.update prefix (payload, built) cache)))"

section \<open>Findings\<close>

definition adguard_url :: string where
  "adguard_url = ''https://adguardteam.github.io/HostlistsRegistry/assets/services.json''"

definition first_str :: "py_conv \<Rightarrow> string list \<Rightarrow> string \<Rightarrow> jobj \<Rightarrow> string" where
  "first_str conv keys d item =
     (case List.find (\<lambda>k. json_truthy (jget k item)) keys of Some k \<Rightarrow> py_str conv (jget k item) | None \<Rightarrow> d)"

definition adguard_finding :: "py_conv \<Rightarrow> string \<Rightarrow> evidence_source \<Rightarrow> string \<Rightarrow> int \<Rightarrow> jobj \<Rightarrow> research_finding" where
  "adguard_finding conv domain p url now item =
     (let service = first_str conv [''name'', ''id''] ''Unknown service'' item; group = first_str conv [''group''] ''unknown'' item;
          rule = first_str conv [''rule''] [] item in
      \<lparr>rf_domain = normalize_domain domain, rf_provider = es_name p, rf_kind = ''service_catalog'', rf_title = ''AdGuard service match: '' @ service,
       rf_summary = ''Matched service '' @ service @ '' in group '' @ group @ '' using rule '' @ rule @
         ''. This identifies a service relationship but does not by itself justify allowing or blocking the domain.'',
       rf_source_url = url, rf_confidence = 92 / 100, rf_signal_type = ''identity'', rf_verdict = ''service_match'', rf_decision_relevant = False,
       rf_retrieved_at = now, rf_expires_at = expiry p now, rf_raw_data = item\<rparr>)"

definition disconnect_url :: string where
  "disconnect_url = ''https://raw.githubusercontent.com/disconnectme/disconnect-tracking-protection/master/services.json''"

definition disconnect_verdict :: "string \<Rightarrow> string" where
  "disconnect_verdict category =
     (let normalized = py_replace (CHR '' '') (CHR ''_'') (py_lower (py_strip category)) in
      case map_of [(''advertising'', ''advertising''), (''analytics'', ''analytics''), (''fingerprinting'', ''cross_site_tracking''),
          (''session_replay'', ''cross_site_tracking''), (''cryptomining'', ''cryptomining''), (''email'', ''email_tracking''),
          (''emailaggressive'', ''email_tracking''), (''social'', ''social_tracking'')] normalized of
        Some v \<Rightarrow> v | None \<Rightarrow> str_or normalized ''tracker'')"

definition disconnect_finding :: "py_conv \<Rightarrow> string \<Rightarrow> evidence_source \<Rightarrow> string \<Rightarrow> int \<Rightarrow> jobj \<Rightarrow> research_finding" where
  "disconnect_finding conv domain p url now item =
     (let category = first_str conv [''category''] ''Unknown'' item; company = first_str conv [''company''] ''Unknown'' item;
          homepage = first_str conv [''homepage''] [] item in
      \<lparr>rf_domain = normalize_domain domain, rf_provider = es_name p, rf_kind = ''tracker_catalog'', rf_title = ''Disconnect catalog match: '' @ company,
       rf_summary = ''Disconnect classifies the matched domain under '' @ category @ '' and associates it with '' @ company @ ''.'',
       rf_source_url = str_or homepage url, rf_confidence = 9 / 10, rf_signal_type = ''privacy'', rf_verdict = disconnect_verdict category,
       rf_decision_relevant = True, rf_retrieved_at = now, rf_expires_at = expiry p now, rf_raw_data = item\<rparr>)"

definition phishtank_url :: string where
  "phishtank_url = ''https://data.phishtank.com/data/{api_key}/online-valid.json.bz2''"

definition phishtank_finding :: "py_conv \<Rightarrow> string \<Rightarrow> evidence_source \<Rightarrow> int \<Rightarrow> jobj \<Rightarrow> research_finding" where
  "phishtank_finding conv domain p now item =
     (let target = first_str conv [''target''] ''unknown target'' item in
      \<lparr>rf_domain = normalize_domain domain, rf_provider = es_name p, rf_kind = ''phishing_database'',
       rf_title = ''Verified PhishTank entry targeting '' @ target,
       rf_summary = ''The hostname occurs in PhishTank's downloadable database of verified, currently online phishing URLs. Target: '' @ target @ ''.'',
       rf_source_url = first_str conv [''phish_detail_url''] [] item, rf_confidence = 98 / 100, rf_signal_type = ''security'', rf_verdict = ''phishing'',
       rf_decision_relevant = True, rf_retrieved_at = now, rf_expires_at = expiry p now, rf_raw_data = item\<rparr>)"

text \<open>The three searches have one shape: fetch, index, look up, and one finding per match.\<close>

definition search_catalog ::
  "(jobj \<Rightarrow> string) \<Rightarrow> (json \<Rightarrow> research_error + catalog_index) \<Rightarrow> (jobj \<Rightarrow> research_finding) \<Rightarrow> string \<Rightarrow> evidence_source \<Rightarrow> int \<Rightarrow>
    research_error + json \<Rightarrow> research_error + research_finding list" where
  "search_catalog dumps build finding domain p now fetched =
     (case fetched of
        Inl e \<Rightarrow> Inl e
      | Inr data \<Rightarrow>
          (case build data of
             Inl e \<Rightarrow> Inl e
           | Inr index \<Rightarrow>
               let matches = lookup_suffixes dumps domain index in
               Inr (if matches = [] then [negative_finding domain p no_evidence now] else map finding (py_prefix (es_max_results p) matches))))"

definition research_adguard_services ::
  "py_conv \<Rightarrow> (jobj \<Rightarrow> string) \<Rightarrow> (string \<Rightarrow> research_error + json) \<Rightarrow> string \<Rightarrow> evidence_source \<Rightarrow> int \<Rightarrow> research_error + research_finding list" where
  "research_adguard_services conv dumps fetch domain p now =
     (let url = str_or (es_base_url p) adguard_url in
      search_catalog dumps (build_adguard_index conv) (adguard_finding conv domain p url now) domain p now (fetch url))"

definition research_disconnect_tracking ::
  "py_conv \<Rightarrow> (jobj \<Rightarrow> string) \<Rightarrow> (string \<Rightarrow> research_error + json) \<Rightarrow> string \<Rightarrow> evidence_source \<Rightarrow> int \<Rightarrow> research_error + research_finding list" where
  "research_disconnect_tracking conv dumps fetch domain p now =
     (let url = str_or (es_base_url p) disconnect_url in
      search_catalog dumps (\<lambda>data. Inr (build_disconnect_index conv data)) (disconnect_finding conv domain p url now) domain p now (fetch url))"

definition research_phishtank ::
  "py_conv \<Rightarrow> (jobj \<Rightarrow> string) \<Rightarrow> (string \<Rightarrow> string option) \<Rightarrow> (string \<Rightarrow> research_error + json) \<Rightarrow> string \<Rightarrow> evidence_source \<Rightarrow> int \<Rightarrow>
    research_error + research_finding list" where
  "research_phishtank conv dumps host fetch domain p now =
     search_catalog dumps (build_phishtank_index conv host) (phishtank_finding conv domain p now) domain p now (fetch (str_or (es_base_url p) phishtank_url))"

section \<open>Lemmas\<close>

lemma index_entries_add: "index_entries (add_entry e index) s = index_entries index s @ (if fst e = s then [snd e] else [])"
  by (simp add: index_entries_def add_entry_def update_conv)

lemma index_entries_of: "index_entries (index_of entries) s = map snd (filter (\<lambda>e. fst e = s) entries)"
proof -
  have "index_entries (fold add_entry entries index) s = index_entries index s @ map snd (filter (\<lambda>e. fst e = s) entries)" for index
    by (induction entries arbitrary: index) (simp_all add: index_entries_add)
  then show ?thesis by (simp add: index_of_def index_entries_def)
qed

lemma set_first_by_marker: "set (first_by_marker dumps seen xs) \<subseteq> set xs"
  by (induction xs arbitrary: seen) auto

lemma markers_first_by_marker: "dumps ` set (first_by_marker dumps seen xs) = dumps ` set xs - seen"
  by (induction xs arbitrary: seen) auto

lemma distinct_first_by_marker: "distinct (map dumps (first_by_marker dumps seen xs))"
proof (induction xs arbitrary: seen)
  case (Cons x xs)
  have "dumps x \<notin> dumps ` set (first_by_marker dumps (insert (dumps x) seen) xs)" by (simp add: markers_first_by_marker)
  then show ?case using Cons by simp
qed simp

text \<open>The names looked up: what the last two to six labels of the domain spell.\<close>

lemma lookup_names_iff:
  "name \<in> set (lookup_names domain) \<longleftrightarrow>
    (\<exists>pre suffix. py_split (CHR ''.'') (normalize_domain domain) = pre @ suffix \<and> name = py_join ''.'' suffix \<and> 2 \<le> length suffix \<and> length suffix \<le> 6)"
proof -
  let ?labels = "py_split (CHR ''.'') (normalize_domain domain)"
  have "(\<exists>position. length ?labels - 6 \<le> position \<and> position < length ?labels - 1 \<and> name = py_join ''.'' (drop position ?labels)) \<longleftrightarrow>
    (\<exists>pre suffix. ?labels = pre @ suffix \<and> name = py_join ''.'' suffix \<and> 2 \<le> length suffix \<and> length suffix \<le> 6)" (is "?l = ?r")
  proof
    assume ?l
    then obtain k where k: "length ?labels - 6 \<le> k" "k < length ?labels - 1" "name = py_join ''.'' (drop k ?labels)" by blast
    then have "2 \<le> length (drop k ?labels)" "length (drop k ?labels) \<le> 6" by auto
    then show ?r using k(3) append_take_drop_id [of k ?labels] by metis
  next
    assume ?r
    then obtain pre suffix where s: "?labels = pre @ suffix" "name = py_join ''.'' suffix" "2 \<le> length suffix" "length suffix \<le> 6" by blast
    then have "length ?labels - 6 \<le> length pre" "length pre < length ?labels - 1" "drop (length pre) ?labels = suffix" by simp_all
    then show ?l using s(2) by metis
  qed
  then show ?thesis by (auto simp: lookup_names_def Let_def)
qed

lemma lookup_markers:
  "dumps ` set (lookup_suffixes dumps domain (index_of entries)) = dumps ` {item. \<exists>name\<in>set (lookup_names domain). (name, item) \<in> set entries}"
proof -
  have "set (concat (map (index_entries (index_of entries)) (lookup_names domain))) = {item. \<exists>name\<in>set (lookup_names domain). (name, item) \<in> set entries}"
    by (force simp: index_entries_of)
  then show ?thesis by (simp add: lookup_suffixes_def markers_first_by_marker)
qed

lemma repository_entry_iff:
  "repository_entry (Suc n, l) = Some (name, item) \<longleftrightarrow> name = domain_from_list_rule (py_strip l) \<and> name \<noteq> [] \<and>
    item = [(''matched_domain'', JStr name), (''rule'', JStr (take 500 (py_strip l))), (''line_number'', JInt (int n + 1))]"
  unfolding repository_entry_def domain_from_repository_rule_def Let_def by (simp split: if_splits) (metis add.commute)

lemma in_enumerate_1: "(\<exists>l\<in>set (enumerate 1 xs). P l) \<longleftrightarrow> (\<exists>n < length xs. P (Suc n, xs ! n))"
proof
  assume "\<exists>l\<in>set (enumerate 1 xs). P l"
  then obtain k x where l: "(k, x) \<in> set (enumerate 1 xs)" "P (k, x)" by force
  then have "1 \<le> k" "k < length xs + 1" "xs ! (k - 1) = x" by (simp_all add: in_set_enumerate_eq)
  then show "\<exists>n < length xs. P (Suc n, xs ! n)" using l(2) by (intro exI [of _ "k - 1"]) simp
next
  assume "\<exists>n < length xs. P (Suc n, xs ! n)"
  then obtain n where "n < length xs" "P (Suc n, xs ! n)" by blast
  moreover have "(Suc n, xs ! n) \<in> set (enumerate 1 xs)" using \<open>n < length xs\<close> by (simp add: in_set_enumerate_eq)
  ultimately show "\<exists>l\<in>set (enumerate 1 xs). P l" by blast
qed

text \<open>The cache never changes what a search sees, as long as every index in it belongs to its payload.\<close>

definition cache_ok :: "(string \<Rightarrow> 'p \<Rightarrow> research_error + catalog_index) \<Rightarrow> (string, 'p \<times> catalog_index) dict \<Rightarrow> bool" where
  "cache_ok builders cache \<longleftrightarrow> (\<forall>prefix payload index. map_of cache prefix = Some (payload, index) \<longrightarrow> builders prefix payload = Inr index)"

lemma cached_index_transparent:
  assumes "cache_ok builders cache" and "cached_index (builders prefix) prefix payload cache = (result, cache')"
  shows "result = builders prefix payload \<and> cache_ok builders cache'"
  using assms by (auto simp: cached_index_def cache_ok_def update_conv split: option.splits sum.splits if_splits)

text \<open>A host of seven labels that a list names is not found.\<close>

lemma long_names_missed:
  "lookup_suffixes (\<lambda>_. []) ''a.b.c.d.e.f.example.com'' (build_repository_list_index [''||a.b.c.d.e.f.example.com^'']) = []"
  "domain_from_repository_rule ''||a.b.c.d.e.f.example.com^'' = ''a.b.c.d.e.f.example.com''"
  by code_simp+

section \<open>Property\<close>

text \<open>C39. A block list is searched exactly: what a lookup reports are, without repetition, the entries of those lines of the list whose rule names the domain
  itself or one of its parents, read off the last two to six labels, and none other; each entry carries the name, the rule and the number of its line.\<close>

theorem block_list_lookup_exact:
  "distinct (map dumps (lookup_suffixes dumps domain (build_repository_list_index text_lines))) \<and>
   dumps ` set (lookup_suffixes dumps domain (build_repository_list_index text_lines)) =
     dumps ` {[(''matched_domain'', JStr name), (''rule'', JStr (take 500 (py_strip (text_lines ! n)))), (''line_number'', JInt (int n + 1))] | n name.
       n < length text_lines \<and> name = domain_from_list_rule (py_strip (text_lines ! n)) \<and> name \<noteq> [] \<and>
       (\<exists>pre suffix. py_split (CHR ''.'') (normalize_domain domain) = pre @ suffix \<and> name = py_join ''.'' suffix \<and> 2 \<le> length suffix \<and> length suffix \<le> 6)}"
proof -
  let ?item = "\<lambda>n name. [(''matched_domain'', JStr name), (''rule'', JStr (take 500 (py_strip (text_lines ! n)))), (''line_number'', JInt (int n + 1))]"
  have "(name, item) \<in> set (List.map_filter repository_entry (enumerate 1 text_lines)) \<longleftrightarrow>
      (\<exists>n < length text_lines. name = domain_from_list_rule (py_strip (text_lines ! n)) \<and> name \<noteq> [] \<and> item = ?item n name)" for name item
  proof -
    have "(name, item) \<in> set (List.map_filter repository_entry (enumerate 1 text_lines)) \<longleftrightarrow>
        (\<exists>n < length text_lines. repository_entry (Suc n, text_lines ! n) = Some (name, item))"
      unfolding set_map_filter_iff by (rule in_enumerate_1)
    then show ?thesis unfolding repository_entry_iff .
  qed
  then have "{item. \<exists>name\<in>set (lookup_names domain). (name, item) \<in> set (List.map_filter repository_entry (enumerate 1 text_lines))} =
      {?item n name | n name. n < length text_lines \<and> name = domain_from_list_rule (py_strip (text_lines ! n)) \<and> name \<noteq> [] \<and> name \<in> set (lookup_names domain)}"
    by blast
  then show ?thesis
    unfolding lookup_names_iff build_repository_list_index_def lookup_markers by (simp only: lookup_suffixes_def distinct_first_by_marker simp_thms)
qed

end
