(* ===== verification/Licensing.thy ===== *)
theory Licensing
  imports Catalogs
begin

text \<open>
  \<open>evidence_licensing.py\<close>: the reviewed terms of the evidence sources and the check of what a distributed build enables; and the sources of \<open>repository_lists.py\<close>,
  which are searched only under reviewed terms.
\<close>

record license_policy =
  lp_license_id :: string
  lp_license_url :: string
  lp_commercial_use :: string
  lp_redistribution :: string
  lp_reviewed_at :: string
  lp_release_default_eligible :: bool
  lp_review_required :: bool
  lp_note :: string

definition policy_entry :: "string \<Rightarrow> string \<Rightarrow> string \<Rightarrow> string \<Rightarrow> bool \<Rightarrow> bool \<Rightarrow> string \<Rightarrow> license_policy" where
  "policy_entry license_id url commercial_use redistribution eligible review_required note =
     \<lparr>lp_license_id = license_id, lp_license_url = url, lp_commercial_use = commercial_use, lp_redistribution = redistribution,
      lp_reviewed_at = ''2026-08-20'', lp_release_default_eligible = eligible, lp_review_required = review_required, lp_note = note\<rparr>"

definition source_policies :: "(string \<times> license_policy) list" where
  "source_policies =
    [(''adguard_services'', policy_entry ''GPL-3.0''
       ''https://github.com/AdguardTeam/HostlistsRegistry/blob/main/LICENSE''
       ''allowed-with-license-obligations'' ''runtime-download-not-bundled'' True False
       ''HostlistsRegistry is GPL-3.0; Wormhole downloads the service catalog at runtime.''),
     (''dns_records'', policy_entry ''local-data''
       []
       ''not-applicable'' ''not-applicable'' True False
       ''Uses the configured DNS resolver and does not redistribute a third-party dataset.''),
     (''disconnect_tracking'', policy_entry ''CC-BY-NC-SA-4.0''
       ''https://github.com/disconnectme/disconnect-tracking-protection/blob/master/LICENSE''
       ''restricted-noncommercial'' ''runtime-download-not-bundled'' False False
       ''Disconnect's tracker lists are NonCommercial. Keep this source opt-in and do not enable it in distributed defaults without a separate commercial licence.''),
     (''rdap'', policy_entry ''provider-specific-rdap-terms''
       []
       ''provider-terms'' ''not-bundled'' False False
       ''RDAP queries multiple registries; their service terms are provider-specific.''),
     (''ripestat'', policy_entry ''provider-terms''
       ''https://stat.ripe.net/docs/''
       ''provider-terms'' ''not-bundled'' False False
       ''Optional live lookup; no RIPEstat dataset is bundled with releases.''),
     (''netcraft'', policy_entry ''provider-fair-use''
       ''https://www.netcraft.com/terms/''
       ''provider-terms'' ''not-bundled'' False False
       ''Optional live lookup subject to Netcraft access and usage terms.''),
     (''virustotal'', policy_entry ''provider-api-terms''
       ''https://docs.virustotal.com/reference/terms-of-service''
       ''provider-terms'' ''not-bundled'' False False
       ''Optional API integration; releases do not bundle VirusTotal data.''),
     (''threatfox'', policy_entry ''abuse.ch-community-api-fair-use''
       ''https://threatfox.abuse.ch/api/''
       ''provider-terms'' ''not-bundled'' False False
       ''Optional abuse.ch Community API integration subject to current fair-use terms.''),
     (''phishtank'', policy_entry ''PhishTank-Data-Terms''
       ''https://phishtank.org/terms.php''
       ''allowed'' ''runtime-download-not-bundled'' True False
       ''PhishTank's Terms explicitly allow commercial use of defined Data without charge; the verified database is downloaded at runtime and is not bundled.''),
     (''urlscan'', policy_entry ''provider-api-terms''
       ''https://urlscan.io/about-api/''
       ''provider-terms'' ''not-bundled'' False False
       ''Optional archived-scan lookup; no urlscan dataset is bundled.''),
     (''cloudflare_radar'', policy_entry ''provider-api-terms''
       ''https://developers.cloudflare.com/radar/''
       ''provider-terms'' ''not-bundled'' False False
       ''Optional API integration; no Cloudflare Radar dataset is bundled.''),
     (''repository_lists'', policy_entry ''per-source''
       []
       ''per-source'' ''runtime-download-not-bundled'' True False
       ''Every configured repository list is reviewed independently before use.''),
     (''urlhaus'', policy_entry ''abuse.ch-community-api-fair-use''
       ''https://urlhaus.abuse.ch/api/''
       ''conditional-commercial-api'' ''not-bundled'' False False
       ''The free Community API is governed by abuse.ch fair-use principles; commercial or for-profit needs may require the enhanced paid API.''),
     (''crtsh'', policy_entry ''public-service-terms''
       ''https://crt.sh/''
       ''provider-terms'' ''not-bundled'' False False
       ''Optional public lookup; no certificate-transparency dataset is bundled.''),
     (''google_safe_browsing'', policy_entry ''google-safe-browsing-noncommercial''
       ''https://developers.google.com/safe-browsing/''
       ''restricted-noncommercial'' ''not-bundled'' False False
       ''Google documents Safe Browsing as non-commercial only. Keep this provider opt-in; commercial deployments need an appropriate alternative such as Web Risk.'')]"

definition repository_list_policies :: "(string \<times> license_policy) list" where
  "repository_list_policies =
    [(''hagezi_tif_mini'', policy_entry ''GPL-3.0''
       ''https://github.com/hagezi/dns-blocklists/blob/main/LICENSE''
       ''allowed-with-license-obligations'' ''runtime-download-not-bundled'' True False
       ''HaGeZi dns-blocklists is GPL-3.0 and permits redistribution under that licence.''),
     (''easyprivacy_trackingservers'', policy_entry ''GPL-3.0-or-later OR CC-BY-SA-3.0-or-later''
       ''https://easylist.to/pages/licence.html''
       ''allowed-with-license-obligations'' ''runtime-download-not-bundled'' True False
       ''EasyList/EasyPrivacy is dual-licensed under GPL-3.0-or-later or CC BY-SA 3.0-or-later; attribution/share-alike obligations apply as appropriate.'')]"

definition source_license_policy :: "string \<Rightarrow> license_policy option" where
  "source_license_policy kind = map_of source_policies (py_lower (py_strip kind))"

definition repository_list_license_policy :: "string \<Rightarrow> license_policy option" where
  "repository_list_license_policy source_id = map_of repository_list_policies (py_lower (py_strip source_id))"

text \<open>The issues of one enabled kind, and of a distribution.\<close>

definition nested_issue :: "string \<times> license_policy \<Rightarrow> string list" where
  "nested_issue n =
     (if lp_review_required (snd n) then [fst n @ '': repository-list licensing review is required'']
      else if \<not> lp_release_default_eligible (snd n)
      then [fst n @ '': repository list is not safe for release defaults ('' @ lp_commercial_use (snd n) @ '')''] else [])"

definition kind_issues :: "string \<Rightarrow> string list" where
  "kind_issues kind =
     (case source_license_policy kind of
        None \<Rightarrow> [kind @ '': no reviewed evidence-source usage policy is registered'']
      | Some policy \<Rightarrow>
          if lp_review_required policy then [kind @ '': licensing/usage review is still required'']
          else (if lp_release_default_eligible policy then []
                else [kind @ '': must remain opt-in for distributed builds ('' @ lp_commercial_use policy @ '')'']) @
               (if kind = ''repository_lists'' then concat (map nested_issue repository_list_policies) else []))"

definition distribution_license_issues :: "string list \<Rightarrow> string list" where
  "distribution_license_issues enabled =
     concat (map kind_issues (fromkeys (map (\<lambda>k. py_lower (py_strip k)) (filter (\<lambda>k. k \<noteq> []) enabled))))"

section \<open>Repository lists\<close>

record list_source =
  ls_source_id :: string
  ls_name :: string
  ls_repository :: string
  ls_repository_ref :: string
  ls_list_path :: string
  ls_raw_url :: string
  ls_signal_type :: string
  ls_verdict :: string
  ls_confidence :: pyfloat
  ls_description :: string

definition list_source_url :: "list_source \<Rightarrow> string" where
  "list_source_url src = ls_repository src @ ''/blob/'' @ ls_repository_ref src @ ''/'' @ ls_list_path src"

definition repository_list_sources :: "list_source list" where
  "repository_list_sources =
    [\<lparr>ls_source_id = ''hagezi_tif_mini'',
       ls_name = ''HaGeZi Threat Intelligence Feeds Mini'',
       ls_repository = ''https://github.com/hagezi/dns-blocklists'',
       ls_repository_ref = ''main'',
       ls_list_path = ''adblock/tif.mini.txt'',
       ls_raw_url = ''https://raw.githubusercontent.com/hagezi/dns-blocklists/main/adblock/tif.mini.txt'',
       ls_signal_type = ''security'',
       ls_verdict = ''suspicious'',
       ls_confidence = 92 / 100,
       ls_description = ''HaGeZi's size-optimized Threat Intelligence Feed list contains domains selected from security-focused feeds. A match is a strong risk signal, but is not treated as proof that the domain is currently malicious.''\<rparr>,
     \<lparr>ls_source_id = ''easyprivacy_trackingservers'',
       ls_name = ''EasyPrivacy tracking servers'',
       ls_repository = ''https://github.com/easylist/easylist'',
       ls_repository_ref = ''master'',
       ls_list_path = ''easyprivacy/easyprivacy_trackingservers.txt'',
       ls_raw_url = ''https://raw.githubusercontent.com/easylist/easylist/master/easyprivacy/easyprivacy_trackingservers.txt'',
       ls_signal_type = ''privacy'',
       ls_verdict = ''tracker'',
       ls_confidence = 90 / 100,
       ls_description = ''EasyPrivacy identifies tracking infrastructure. Its upstream repository licence has been reviewed and is recorded in the evidence provenance.''\<rparr>]"

definition repository_finding :: "py_conv \<Rightarrow> string \<Rightarrow> evidence_source \<Rightarrow> int \<Rightarrow> list_source \<times> license_policy \<times> jobj \<Rightarrow> research_finding" where
  "repository_finding conv domain p now m =
     (case m of (src, policy, item) \<Rightarrow>
        let matched_domain = first_str conv [''matched_domain''] domain item;
            line_number = as_int (json_or (jget ''line_number'' item) (JInt 0)) 0 in
        \<lparr>rf_domain = domain, rf_provider = es_name p, rf_kind = ''repository_list'', rf_title = ls_name src @ '' match: '' @ matched_domain,
         rf_summary = ls_description src @ '' Matched '' @ matched_domain @
           (if line_number \<noteq> 0 then '' at source line '' @ show_int line_number @ ''.'' else ''.''),
         rf_source_url = list_source_url src, rf_confidence = ls_confidence src, rf_signal_type = ls_signal_type src, rf_verdict = ls_verdict src,
         rf_decision_relevant = True, rf_retrieved_at = now, rf_expires_at = expiry p now,
         rf_raw_data = fold (\<lambda>(k, v). AList.update k v)
           [(''source_id'', JStr (ls_source_id src)), (''repository'', JStr (ls_repository src)), (''repository_ref'', JStr (ls_repository_ref src)),
            (''list_path'', JStr (ls_list_path src)), (''list_url'', JStr (ls_raw_url src)), (''license_id'', JStr (lp_license_id policy)),
            (''license_url'', JStr (lp_license_url policy)), (''license_commercial_use'', JStr (lp_commercial_use policy)),
            (''license_redistribution'', JStr (lp_redistribution policy)), (''license_reviewed_at'', JStr (lp_reviewed_at policy)),
            (''license_review_required'', JBool (lp_review_required policy)),
            (''release_default_eligible'', JBool (lp_release_default_eligible policy)), (''wormhole_source_kind'', JStr (ls_source_id src))] item\<rparr>)"

text \<open>One source of the loop: skipped unless its terms are reviewed; \<open>fetch\<close> gives the lines of the list behind a URL.\<close>

definition list_matches ::
  "(jobj \<Rightarrow> string) \<Rightarrow> (string \<Rightarrow> research_error + string list) \<Rightarrow> string \<Rightarrow> list_source \<Rightarrow> (list_source \<times> license_policy \<times> jobj) list \<Rightarrow>
    research_error + (list_source \<times> license_policy \<times> jobj) list" where
  "list_matches dumps fetch domain src found =
     (case repository_list_license_policy (ls_source_id src) of
        None \<Rightarrow> Inr found
      | Some policy \<Rightarrow>
          if lp_review_required policy then Inr found
          else map_sum id (\<lambda>text_lines. found @ map (\<lambda>item. (src, policy, item)) (lookup_suffixes dumps domain (build_repository_list_index text_lines)))
                 (fetch (ls_raw_url src)))"

definition research_repository_lists ::
  "py_conv \<Rightarrow> (jobj \<Rightarrow> string) \<Rightarrow> (string \<Rightarrow> research_error + string list) \<Rightarrow> string \<Rightarrow> evidence_source \<Rightarrow> int \<Rightarrow> research_error + research_finding list" where
  "research_repository_lists conv dumps fetch domain p now =
     (let normalized = normalize_domain domain in
      map_sum id (\<lambda>found.
        if found = []
        then [negative_finding normalized p
          ''No match was found in the enabled locally cached repository lists. A missing match is neutral evidence and does not imply that the domain is safe.'' now]
        else map (repository_finding conv normalized p now) (py_prefix (es_max_results p) found))
       (fold_res (list_matches dumps fetch normalized) repository_list_sources []))"

section \<open>Lemmas\<close>

lemma repository_lists_reviewed:
  "list_all (\<lambda>src. case repository_list_license_policy (ls_source_id src) of Some p \<Rightarrow> \<not> lp_review_required p \<and> lp_release_default_eligible p | None \<Rightarrow> False)
    repository_list_sources"
  by code_simp

lemma clean_distribution:
  "distribution_license_issues [''adguard_services'', ''dns_records'', ''phishtank'', ''repository_lists''] = []"
  by code_simp

end
