(* ===== verification/Research_Common.thy ===== *)
theory Research_Common
  imports Licensing
begin

text \<open>
  What all evidence sources share, \<open>research_common.py\<close> and \<open>http_retry.py\<close>: the definitions of the sources, the delays that a server asks for, the pacing of requests per
  source, and taking secrets out of texts. Times are arguments, and so is the reading of HTTP dates.
\<close>

section \<open>Source definitions\<close>

record source_definition =
  sf_kind :: string
  sf_display_name :: string
  sf_mode :: string
  sf_sends_domain :: bool
  sf_requires_api_key :: bool
  sf_description :: string
  sf_license_note :: string
  sf_experimental :: bool

definition source_entry :: "string \<Rightarrow> string \<Rightarrow> string \<Rightarrow> bool \<Rightarrow> bool \<Rightarrow> string \<Rightarrow> string \<Rightarrow> bool \<Rightarrow> source_definition" where
  "source_entry kind display_name mode sends_domain requires_api_key description license_note experimental =
     \<lparr>sf_kind = kind, sf_display_name = display_name, sf_mode = mode, sf_sends_domain = sends_domain, sf_requires_api_key = requires_api_key,
      sf_description = description, sf_license_note = license_note, sf_experimental = experimental\<rparr>"

definition source_definitions :: "source_definition list" where
  "source_definitions =
    [source_entry ''adguard_services'' ''AdGuard service catalog'' ''catalog'' False False
       ''Downloads a complete service-to-domain catalog and performs lookups locally.''
       ''GPL-3.0 dataset; downloaded at runtime and not bundled.'' False,
     source_entry ''dns_records'' ''Local DNS records'' ''local'' False False
       ''Queries the configured DNS resolver for A, AAAA, CNAME, NS, MX, HTTPS, and SVCB.''
       [] False,
     source_entry ''disconnect_tracking'' ''Disconnect tracker catalog'' ''catalog'' False False
       ''Downloads the complete Disconnect tracker catalog and performs lookups locally.''
       ''CC BY-NC-SA 4.0; enable only when the intended use complies with the license.'' False,
     source_entry ''rdap'' ''RDAP registration data'' ''lookup'' True False
       ''Retrieves registrar, registration events, status, and authoritative nameservers.''
       [] False,
     source_entry ''ripestat'' ''RIPEstat network information'' ''lookup'' False False
       ''Resolves the domain locally and sends only resulting public IP addresses to RIPEstat.''
       [] False,
     source_entry ''netcraft'' ''Netcraft Site Report'' ''lookup'' True False
       ''Parses selected structured fields from the public Site Report when robots.txt permits it.''
       ''Public HTML under Netcraft fair-use terms; layout may change and access may be blocked.'' True,
     source_entry ''virustotal'' ''VirusTotal domain report'' ''lookup'' True True
       ''Retrieves reputation, scanner verdict counts, and vendor categories.''
       [] False,
     source_entry ''threatfox'' ''ThreatFox IOC lookup'' ''lookup'' True True
       ''Performs an exact IOC lookup for active malware infrastructure.''
       [] False,
     source_entry ''phishtank'' ''PhishTank verified phishing database'' ''catalog'' False True
       ''Downloads the verified online phishing database and performs hostname lookups locally.''
       [] False,
     source_entry ''urlscan'' ''urlscan.io archived scans'' ''lookup'' True False
       ''Searches existing archived scans; it never submits a new active scan.''
       [] False,
     source_entry ''cloudflare_radar'' ''Cloudflare Radar domain ranking'' ''lookup'' True True
       ''Retrieves popularity bucket, rank, and Cloudflare domain categories.''
       [] False,
     source_entry ''repository_lists'' ''Curated repository blocklists'' ''catalog'' False False
       ''Downloads selected upstream DNS-safe lists and performs lookups locally.''
       ''Per-source licences are reviewed and recorded in evidence provenance.'' False,
     source_entry ''urlhaus'' ''URLhaus host lookup'' ''lookup'' True True
       ''Queries the authenticated URLhaus host endpoint for malware-distribution URLs.''
       ''Community API is subject to abuse.ch fair-use terms.'' False,
     source_entry ''crtsh'' ''crt.sh certificate transparency'' ''lookup'' True False
       ''Queries public certificate-transparency search results for identity history.''
       ''Context-only evidence; certificate presence is never treated as a malicious verdict.'' False,
     source_entry ''google_safe_browsing'' ''Google Safe Browsing v5'' ''lookup'' True True
       ''Checks HTTP and HTTPS domain URLs against Google Safe Browsing v5 threat search.''
       ''Non-commercial API; keep opt-in and use an appropriate commercial service when needed.'' False]"

definition find_source_definition :: "string \<Rightarrow> source_definition option" where
  "find_source_definition kind = List.find (\<lambda>d. sf_kind d = py_lower (py_strip kind)) source_definitions"

text \<open>The names tried for a domain: itself and its parents down to two labels.\<close>

definition domain_candidates :: "string \<Rightarrow> string list" where
  "domain_candidates domain =
     (let normalized = normalize_domain domain; labels = py_split (CHR ''.'') normalized in
      if length labels < 2 then (if normalized = [] then [] else [normalized])
      else map (\<lambda>index. py_join ''.'' (drop index labels)) [0 ..< length labels - 1])"

section \<open>Delays that a server asks for\<close>

text \<open>One match of \<open>(\d+(?:\.\d+)?)\s*(ms|s|m|h)\<close> at the start of a text: the seconds, the text matched and the rest.\<close>

definition digits_number :: "string \<Rightarrow> pyfloat" where
  "digits_number s = fold (\<lambda>c n. n * 10 + of_int (digit_value c)) s 0"

definition read_number :: "string \<Rightarrow> (pyfloat \<times> string) option" where
  "read_number s =
     (let digits = takeWhile py_isdigit s; rest = dropWhile py_isdigit s; fraction = takeWhile py_isdigit (tl rest) in
      if digits = [] then None
      else if rest \<noteq> [] \<and> hd rest = CHR ''.'' \<and> fraction \<noteq> []
      then Some (digits_number (digits @ fraction) / 10 ^ length fraction, dropWhile py_isdigit (tl rest))
      else Some (digits_number digits, rest))"

definition read_unit :: "string \<Rightarrow> (pyfloat \<times> string) option" where
  "read_unit s =
     (let t = py_lower s in
      if py_startswith ''ms'' t then Some (1 / 1000, drop 2 s)
      else if py_startswith ''s'' t then Some (1, drop 1 s)
      else if py_startswith ''m'' t then Some (60, drop 1 s)
      else if py_startswith ''h'' t then Some (3600, drop 1 s) else None)"

definition read_duration :: "string \<Rightarrow> (pyfloat \<times> string \<times> string) option" where
  "read_duration s =
     (case read_number s of
        None \<Rightarrow> None
      | Some (x, rest) \<Rightarrow>
          (case read_unit (dropWhile py_isspace rest) of
             None \<Rightarrow> None
           | Some (unit, rest) \<Rightarrow> Some (x * unit, take (length s - length rest) s, rest)))"

lemma read_duration_shrinks: "read_duration s = Some (x, matched, rest) \<Longrightarrow> length rest < length s"
proof -
  assume "read_duration s = Some (x, matched, rest)"
  then obtain y r u where n: "read_number s = Some (y, r)" and u: "read_unit (dropWhile py_isspace r) = Some (u, rest)"
    by (auto simp: read_duration_def split: option.splits)
  have "length r \<le> length s"
    using n length_dropWhile_le [of py_isdigit s] length_dropWhile_le [of py_isdigit "tl (dropWhile py_isdigit s)"]
    by (auto simp: read_number_def Let_def split: if_splits)
  moreover have "length rest < length (dropWhile py_isspace r)"
    using u by (auto simp: read_unit_def py_startswith_iff Let_def split: if_splits dest!: arg_cong [of "py_lower _" _ length])
  ultimately show ?thesis using length_dropWhile_le [of py_isspace r] by linarith
qed

function durations :: "string \<Rightarrow> (pyfloat \<times> string) list" where
  "durations s =
     (case s of
        [] \<Rightarrow> []
      | _ # cs \<Rightarrow> (case read_duration s of Some (x, matched, rest) \<Rightarrow> (x, matched) # durations rest | None \<Rightarrow> durations cs))"
  by auto
termination
  by (relation "measure length") (auto dest: read_duration_shrinks)

declare durations.simps [simp del]

definition without_blanks :: "string \<Rightarrow> string" where
  "without_blanks s = filter (\<lambda>c. c \<noteq> CHR '' '') s"

definition duration_seconds :: "string \<Rightarrow> pyfloat option" where
  "duration_seconds value =
     (let matches = durations value in
      if matches = [] \<or> without_blanks (concat (map snd matches)) \<noteq> without_blanks value then None else Some (rat_sum (map fst matches)))"

definition reset_delay :: "py_conv \<Rightarrow> string \<Rightarrow> pyfloat \<Rightarrow> pyfloat option" where
  "reset_delay conv value now =
     (if value = [] then None
      else let compact = py_lower (py_strip value) in
        case duration_seconds compact of
          Some d \<Rightarrow> Some d
        | None \<Rightarrow> map_option (\<lambda>number. let number = (if 10000000000 < number then number / 1000 else number) in if now + 1 < number then number - now else number)
            (cv_float conv compact))"

definition retry_after_delay :: "py_conv \<Rightarrow> (string \<Rightarrow> pyfloat option) \<Rightarrow> string \<Rightarrow> pyfloat \<Rightarrow> pyfloat option" where
  "retry_after_delay conv http_date value now =
     (if value = [] then None else case cv_float conv value of Some x \<Rightarrow> Some x | None \<Rightarrow> map_option (\<lambda>t. t - now) (http_date value))"

definition reset_headers :: "string list" where
  "reset_headers =
     [''x-ratelimit-reset-after'', ''x-ratelimit-reset-requests'', ''x-ratelimit-reset-tokens'', ''x-ratelimit-reset'', ''ratelimit-reset'']"

definition retry_delay_from_headers ::
  "py_conv \<Rightarrow> (string \<Rightarrow> pyfloat option) \<Rightarrow> (string \<times> string) list \<Rightarrow> pyfloat \<Rightarrow> pyfloat \<Rightarrow> pyfloat option" where
  "retry_delay_from_headers conv http_date headers maximum now =
     (let normalized = dict_of (map (\<lambda>(k, v). (py_lower k, py_strip v)) headers);
          get = (\<lambda>k. case map_of normalized k of Some v \<Rightarrow> v | None \<Rightarrow> []);
          delays = List.map_filter id (retry_after_delay conv http_date (get ''retry-after'') now # map (\<lambda>k. reset_delay conv (get k) now) reset_headers)
      in if headers = [] \<or> delays = [] then None else Some (min (max 0 maximum) (max 0 (py_max 0 delays))))"

section \<open>Pacing\<close>

record rate_state =
  ra_next_request_at :: pyfloat
  ra_adaptive_interval :: pyfloat

type_synonym rate_states = "(string, rate_state) dict"

definition source_key :: "evidence_source \<Rightarrow> string" where
  "source_key p = py_lower (py_strip (es_kind p)) @ '':'' @ py_lower (py_strip (es_name p))"

definition rate_of :: "string \<Rightarrow> rate_states \<Rightarrow> rate_state" where
  "rate_of key states = (case map_of states key of Some st \<Rightarrow> st | None \<Rightarrow> \<lparr>ra_next_request_at = 0, ra_adaptive_interval = 0\<rparr>)"

text \<open>One turn of the loop of \<open>wait_for_provider\<close>: \<^const>\<open>None\<close> lets the request pass, else the caller sleeps that long and comes back.\<close>

definition wait_turn :: "evidence_source \<Rightarrow> pyfloat \<Rightarrow> rate_states \<Rightarrow> pyfloat option \<times> rate_states" where
  "wait_turn p now states =
     (let key = source_key p; st = rate_of key states; delay = max 0 (ra_next_request_at st - now) in
      if delay \<le> 0
      then (None, AList.update key (st\<lparr>ra_next_request_at := now + max (max 0 (es_min_interval_sec p)) (ra_adaptive_interval st)\<rparr>) states)
      else (Some delay, AList.update key st states))"

definition failure_delay :: "pyfloat option \<Rightarrow> nat \<Rightarrow> pyfloat" where
  "failure_delay asked attempt = (case asked of Some d \<Rightarrow> d | None \<Rightarrow> min 300 (max 1 (2 ^ attempt)))"

definition register_provider_failure :: "evidence_source \<Rightarrow> nat \<Rightarrow> pyfloat option \<Rightarrow> pyfloat \<Rightarrow> rate_states \<Rightarrow> pyfloat \<times> rate_states" where
  "register_provider_failure p attempt asked now states =
     (let delay = failure_delay asked attempt; key = source_key p; st = rate_of key states; base = max 0 (es_min_interval_sec p);
          adaptive = (if ra_adaptive_interval st \<noteq> 0 then ra_adaptive_interval st * 2 else max 1 base);
          interval = min 60 (max base adaptive)
      in (delay, AList.update key (st\<lparr>ra_adaptive_interval := interval, ra_next_request_at := max (ra_next_request_at st) (now + max delay interval)\<rparr>) states))"

definition register_provider_success :: "evidence_source \<Rightarrow> rate_states \<Rightarrow> rate_states" where
  "register_provider_success p states =
     (let key = source_key p; st = rate_of key states in
      AList.update key (st\<lparr>ra_adaptive_interval := max (max 0 (es_min_interval_sec p)) (ra_adaptive_interval st / 2)\<rparr>) states)"

text \<open>The threads of all sources share the states under one lock, so they see a sequence of turns and reports.\<close>

datatype rate_event = Turn evidence_source pyfloat | Failed evidence_source nat "pyfloat option" pyfloat | Succeeded evidence_source

text \<open>The requests that pass: key, time and the interval configured.\<close>

fun passed_requests :: "rate_event list \<Rightarrow> rate_states \<Rightarrow> (string \<times> pyfloat \<times> pyfloat) list" where
  "passed_requests [] states = []"
| "passed_requests (Turn p now # es) states =
     (case wait_turn p now states of
        (None, states) \<Rightarrow> (source_key p, now, max 0 (es_min_interval_sec p)) # passed_requests es states
      | (Some _, states) \<Rightarrow> passed_requests es states)"
| "passed_requests (Failed p attempt asked now # es) states = passed_requests es (snd (register_provider_failure p attempt asked now states))"
| "passed_requests (Succeeded p # es) states = passed_requests es (register_provider_success p states)"

section \<open>Secrets in texts\<close>

text \<open>\<open>text.replace(old, new)\<close>.\<close>

function replace_all :: "string \<Rightarrow> string \<Rightarrow> string \<Rightarrow> string" where
  "replace_all old new [] = []"
| "replace_all old new (c # cs) =
     (if old \<noteq> [] \<and> py_startswith old (c # cs) then new @ replace_all old new (drop (length old - 1) cs) else c # replace_all old new cs)"
  by pat_completeness auto
termination by (relation "measure (\<lambda>(_, _, s). length s)") auto

text \<open>\<open>quote(s, safe="")\<close> and \<open>quote_plus\<close> of ASCII text.\<close>

definition hex_char :: "nat \<Rightarrow> char" where
  "hex_char n = char_of (if n < 10 then n + 48 else n + 55)"

definition quote_char :: "char \<Rightarrow> string" where
  "quote_char c = (if is_alnum c \<or> c \<in> set ''_.-~'' then [c] else let n = of_char c in [CHR ''%'', hex_char (n div 16), hex_char (n mod 16)])"

definition url_quote :: "string \<Rightarrow> string" where
  "url_quote s = concat (map quote_char s)"

definition url_quote_plus :: "string \<Rightarrow> string" where
  "url_quote_plus s = concat (map (\<lambda>c. if c = CHR '' '' then ''+'' else quote_char c) s)"

text \<open>The forms in which a secret may occur, the longest first.\<close>

definition secret_variants :: "string \<Rightarrow> string list" where
  "secret_variants secret = sort_key (\<lambda>v. - int (length v)) (fromkeys [secret, url_quote secret, url_quote_plus secret])"

definition redact_secret_text :: "string \<Rightarrow> string \<Rightarrow> string" where
  "redact_secret_text text' api_key =
     (let secret = py_strip api_key in
      if secret = [] then text' else fold (\<lambda>variant redacted. replace_all variant ''***'' redacted) (secret_variants secret) text')"

fun redact_metadata :: "string \<Rightarrow> json \<Rightarrow> json" where
  "redact_metadata api_key (JStr s) = JStr (redact_secret_text s api_key)"
| "redact_metadata api_key (JList vs) = JList (map (redact_metadata api_key) vs)"
| "redact_metadata api_key (JObj kvs) = JObj (map (\<lambda>(k, v). (k, redact_metadata api_key v)) kvs)"
| "redact_metadata api_key v = v"

definition resolve_url_template :: "string \<Rightarrow> string \<Rightarrow> research_error + string" where
  "resolve_url_template url api_key =
     (let value = py_strip url in
      if py_contains ''{api_key}'' value
      then if py_strip api_key = [] then Inl (Research_error ''This evidence source requires an API key'')
           else Inr (replace_all ''{api_key}'' (py_strip api_key) value)
      else Inr value)"

section \<open>Delays are bounded\<close>

lemma retry_delay_bounds:
  "retry_delay_from_headers conv http_date headers maximum now = Some d \<Longrightarrow> 0 \<le> d \<and> d \<le> max 0 maximum"
  by (auto simp: retry_delay_from_headers_def Let_def split: if_splits)

lemma failure_delay_default: "failure_delay None attempt = min 300 (2 ^ attempt)"
  by (simp add: failure_delay_def max_def)

lemma durations_read: "duration_seconds ''1m30s'' = Some 90" "duration_seconds ''1h 1.5 s'' = Some (3600 + 3 / 2)" "duration_seconds ''90'' = None"
  by code_simp+

section \<open>Requests keep their distance\<close>

lemma rate_of_update [simp]: "rate_of k (AList.update k' st states) = (if k' = k then st else rate_of k states)"
  by (simp add: rate_of_def update_conv)

lemma rate_fields:
  "ra_next_request_at (st\<lparr>ra_adaptive_interval := x, ra_next_request_at := y\<rparr>) = y" "ra_next_request_at (st\<lparr>ra_adaptive_interval := x\<rparr>) = ra_next_request_at st"
  "ra_adaptive_interval (st\<lparr>ra_adaptive_interval := x, ra_next_request_at := y\<rparr>) = x"
  by simp_all

lemma wait_turn_eq:
  "wait_turn p now states =
     (let st = rate_of (source_key p) states in
      if ra_next_request_at st \<le> now
      then (None, AList.update (source_key p) (st\<lparr>ra_next_request_at := now + max (max 0 (es_min_interval_sec p)) (ra_adaptive_interval st)\<rparr>) states)
      else (Some (ra_next_request_at st - now), AList.update (source_key p) st states))"
  by (simp add: wait_turn_def Let_def max_def)

lemma next_grows:
  "ra_next_request_at (rate_of k states) \<le> ra_next_request_at (rate_of k (snd (wait_turn p now states)))"
  "ra_next_request_at (rate_of k states) \<le> ra_next_request_at (rate_of k (snd (register_provider_failure p attempt asked now states)))"
  "ra_next_request_at (rate_of k states) \<le> ra_next_request_at (rate_of k (register_provider_success p states))"
proof -
  have m: "now \<le> now + max (max 0 a) b" for a b :: pyfloat by (simp add: le_max_iff_disj)
  show "ra_next_request_at (rate_of k states) \<le> ra_next_request_at (rate_of k (snd (wait_turn p now states)))"
    using m [of "es_min_interval_sec p" "ra_adaptive_interval (rate_of k states)"] by (cases "source_key p = k") (auto simp: wait_turn_eq Let_def)
  show "ra_next_request_at (rate_of k states) \<le> ra_next_request_at (rate_of k (snd (register_provider_failure p attempt asked now states)))"
    by (cases "source_key p = k") (simp_all only: register_provider_failure_def Let_def rate_of_update snd_conv rate_fields simp_thms
        if_True if_False max.cobounded1 order_refl)
  show "ra_next_request_at (rate_of k states) \<le> ra_next_request_at (rate_of k (register_provider_success p states))"
    by (cases "source_key p = k") (simp_all only: register_provider_success_def Let_def rate_of_update rate_fields simp_thms
        if_True if_False order_refl)
qed

lemma turn_passes:
  "wait_turn p now states = (None, states') \<Longrightarrow> ra_next_request_at (rate_of (source_key p) states) \<le> now \<and>
    now + max 0 (es_min_interval_sec p) \<le> ra_next_request_at (rate_of (source_key p) states')"
  by (auto simp: wait_turn_eq Let_def split: if_splits)

lemma passed_after_next:
  "(k, t, m) \<in> set (passed_requests es states) \<Longrightarrow> ra_next_request_at (rate_of k states) \<le> t"
proof (induction es states rule: passed_requests.induct)
  case (2 p now es states)
  obtain w states' where w: "wait_turn p now states = (w, states')" by fastforce
  have g: "ra_next_request_at (rate_of k states) \<le> ra_next_request_at (rate_of k states')" using next_grows(1) [of k states p now] by (simp add: w)
  show ?case
  proof (cases w)
    case None
    then show ?thesis using 2(1) [OF w [symmetric] None] 2(3) turn_passes [of p now states states'] g by (auto simp: w)
  next
    case (Some d)
    then show ?thesis using 2(2) [OF w [symmetric] Some] 2(3) g by (auto simp: w)
  qed
next
  case (3 p attempt asked now es states)
  then show ?case using next_grows(2) [of k states p attempt asked now] by simp
next
  case (4 p es states)
  then show ?case using next_grows(3) [of k states p] by simp
qed simp

lemma requests_spaced:
  "sorted_wrt (\<lambda>(k, t, m) (k', t', m'). k = k' \<longrightarrow> t + m \<le> t') (passed_requests es states)"
proof (induction es states rule: passed_requests.induct)
  case (2 p now es states)
  obtain w states' where w: "wait_turn p now states = (w, states')" by fastforce
  show ?case
  proof (cases w)
    case None
    have "now + max 0 (es_min_interval_sec p) \<le> t'" if "(source_key p, t', m') \<in> set (passed_requests es states')" for t' m'
      using passed_after_next [OF that] turn_passes [of p now states states'] w None by simp
    then show ?thesis using 2(1) [OF w [symmetric] None] by (auto simp: w None)
  next
    case (Some d)
    then show ?thesis using 2(2) [OF w [symmetric] Some] by (simp add: w)
  qed
qed simp_all

text \<open>A caller that sleeps as long as it is told gets through, if nobody else asked in between.\<close>

lemma told_delay_suffices:
  "wait_turn p now states = (Some d, states') \<Longrightarrow> 0 < d \<and> fst (wait_turn p (now + d) states') = None"
  by (auto simp: wait_turn_eq Let_def split: if_splits)

lemma adaptive_interval_bounded:
  "ra_adaptive_interval (rate_of (source_key p) (snd (register_provider_failure p attempt asked now states))) \<le> 60"
  unfolding register_provider_failure_def Let_def snd_conv rate_of_update if_P [OF refl] rate_fields by (rule min.cobounded1)

section \<open>Nothing of a secret is left\<close>

definition starless :: "string \<Rightarrow> bool" where
  "starless t \<longleftrightarrow> CHR ''*'' \<notin> set t"

lemma startswith_replaced:
  "starless t \<Longrightarrow> py_startswith t (replace_all old ''***'' s) \<Longrightarrow> py_startswith t s"
proof (induction old "''***''" s arbitrary: t rule: replace_all.induct)
  case (2 old c cs)
  show ?case
  proof (cases t)
    case t: (Cons x xs)
    show ?thesis
    proof (cases "old \<noteq> [] \<and> py_startswith old (c # cs)")
      case True
      then show ?thesis using 2(3,4) by (auto simp: t py_startswith_iff starless_def)
    next
      case False
      then have "x = c" "py_startswith xs (replace_all old ''***'' cs)" using 2(4) by (auto simp: t py_startswith_iff)
      then show ?thesis using 2(2) [OF False, of xs] 2(3) by (auto simp: t py_startswith_iff starless_def)
    qed
  qed (simp add: py_startswith_def)
qed simp

lemma contains_past_stars: "starless t \<Longrightarrow> t \<noteq> [] \<Longrightarrow> py_contains t (''***'' @ s) \<longleftrightarrow> py_contains t s"
  by (cases t) (auto simp: py_startswith_def starless_def)

lemma nothing_new:
  "starless t \<Longrightarrow> t \<noteq> [] \<Longrightarrow> py_contains t (replace_all old ''***'' s) \<Longrightarrow> py_contains t s"
proof (induction old "''***''" s rule: replace_all.induct)
  case (2 old c cs)
  show ?case
  proof (cases "old \<noteq> [] \<and> py_startswith old (c # cs)")
    case True
    have "replace_all old ''***'' (c # cs) = ''***'' @ replace_all old ''***'' (drop (length old - 1) cs)"
      unfolding replace_all.simps(2) by (rule if_P [OF True])
    then have "py_contains t (replace_all old ''***'' (drop (length old - 1) cs))" using 2(5) contains_past_stars [OF 2(3,4)] by simp
    then have "py_contains t (drop (length old - 1) cs)" using 2(1) [OF True] 2(3,4) by simp
    then have "py_contains t cs" by (metis append_assoc append_take_drop_id py_contains_iff)
    then show ?thesis by simp
  next
    case False
    have r: "replace_all old ''***'' (c # cs) = c # replace_all old ''***'' cs"
      unfolding replace_all.simps(2) by (rule if_not_P [OF False])
    from 2(5) have "py_startswith t (replace_all old ''***'' (c # cs)) \<or> py_contains t (replace_all old ''***'' cs)" unfolding r by simp
    then show ?thesis using startswith_replaced [OF 2(3), of old "c # cs"] 2(2) [OF False 2(3,4)] unfolding py_contains.simps by blast
  qed
qed simp

lemma replaced_gone: "starless old \<Longrightarrow> old \<noteq> [] \<Longrightarrow> \<not> py_contains old (replace_all old ''***'' s)"
proof (induction old "''***''" s rule: replace_all.induct)
  case (2 old c cs)
  show ?case
  proof (cases "old \<noteq> [] \<and> py_startswith old (c # cs)")
    case True
    have r: "replace_all old ''***'' (c # cs) = ''***'' @ replace_all old ''***'' (drop (length old - 1) cs)"
      unfolding replace_all.simps(2) by (rule if_P [OF True])
    show ?thesis unfolding r contains_past_stars [OF 2(3,4)] by (rule 2(1) [OF True 2(3,4)])
  next
    case False
    have r: "replace_all old ''***'' (c # cs) = c # replace_all old ''***'' cs"
      unfolding replace_all.simps(2) by (rule if_not_P [OF False])
    have "\<not> py_startswith old (replace_all old ''***'' (c # cs))" using startswith_replaced [OF 2(3)] False 2(4) by blast
    then show ?thesis unfolding r using 2(2) [OF False] 2(3,4) by simp
  qed
qed simp

lemma fold_replaced:
  "list_all starless vs \<Longrightarrow> [] \<notin> set vs \<Longrightarrow> v \<in> set vs \<Longrightarrow> \<not> py_contains v (fold (\<lambda>variant redacted. replace_all variant ''***'' redacted) vs s)"
proof (induction vs rule: rev_induct)
  case (snoc x xs)
  let ?s = "fold (\<lambda>variant redacted. replace_all variant ''***'' redacted) xs s"
  have "starless v" "v \<noteq> []" using snoc.prems by (auto simp: list_all_iff)
  then show ?case using nothing_new [of v x ?s] replaced_gone [of v ?s] snoc by auto
qed simp

lemma quote_char_starless: "CHR ''*'' \<notin> set (quote_char c)"
proof -
  have h: "hex_char n \<noteq> CHR ''*''" if "n < 16" for n
  proof
    assume "hex_char n = CHR ''*''"
    then have "(of_char (hex_char n) :: nat) = of_char (CHR ''*'')" by simp
    then show False using that by (auto simp: hex_char_def of_char_char_of_small split: if_splits)
  qed
  have n: "(of_char c :: nat) div 16 < 16" "(of_char c :: nat) mod 16 < 16" for c :: char
    using mod_less_divisor [of 256 "of_char c :: nat"] by (auto simp: div_less_iff_less_mult)
  show ?thesis
  proof (cases "is_alnum c \<or> c \<in> set ''_.-~''")
    case True
    moreover have "\<not> (is_alnum (CHR ''*'') \<or> CHR ''*'' \<in> set ''_.-~'')" by code_simp
    ultimately show ?thesis by (auto simp: quote_char_def)
  next
    case False
    then show ?thesis using h [OF n(1) [of c]] h [OF n(2) [of c]] by (simp add: quote_char_def Let_def)
  qed
qed

lemma variants_starless: "starless secret \<Longrightarrow> list_all starless (secret_variants secret)"
  using quote_char_starless by (auto simp: secret_variants_def list_all_iff starless_def url_quote_def url_quote_plus_def split: if_splits)

lemma variants_nonempty: "secret \<noteq> [] \<Longrightarrow> [] \<notin> set (secret_variants secret)"
  by (cases secret) (auto simp: secret_variants_def url_quote_def url_quote_plus_def quote_char_def Let_def split: if_splits)

text \<open>A secret of stars survives.\<close>

lemma stars_survive: "redact_secret_text ''key=**'' ''**'' = ''key=***''"
  by code_simp

section \<open>Property\<close>

text \<open>C38. Redaction is complete: whatever text is logged, shown or cached, after \<open>_redact_secret_text\<close> it contains the API key in no form, neither as it is nor
  percent-encoded nor as a form field, although the forms are replaced one after another and may overlap. The key is not blank and has no asterisk, which the replacement is made of.\<close>

theorem redaction_complete:
  assumes "py_strip api_key \<noteq> []" and "CHR ''*'' \<notin> set (py_strip api_key)" and "v \<in> {py_strip api_key, url_quote (py_strip api_key), url_quote_plus (py_strip api_key)}"
  shows "\<not> py_contains v (redact_secret_text text' api_key)"
proof -
  have "v \<in> set (secret_variants (py_strip api_key))" using assms(3) by (auto simp: secret_variants_def)
  moreover have "list_all starless (secret_variants (py_strip api_key))" by (rule variants_starless) (simp add: starless_def assms(2))
  moreover have "[] \<notin> set (secret_variants (py_strip api_key))" using assms(1) by (rule variants_nonempty)
  ultimately show ?thesis using fold_replaced assms(1) by (simp add: redact_secret_text_def Let_def)
qed

lemma redaction_complete_witness:
  "\<not> py_contains ''a%2Fb+c'' (redact_secret_text ''GET /?k=a%2Fb+c&x=a/b c'' '' a/b c '') \<and>
   redact_secret_text ''GET /?k=a%2Fb+c&x=a/b c'' '' a/b c '' = ''GET /?k=***&x=***''"
proof -
  have k: "py_strip '' a/b c '' = ''a/b c''" by code_simp
  have "url_quote_plus ''a/b c'' = ''a%2Fb+c''" by code_simp
  then have v: "''a%2Fb+c'' \<in> {py_strip '' a/b c '', url_quote (py_strip '' a/b c ''), url_quote_plus (py_strip '' a/b c '')}" by (simp add: k)
  have "\<not> py_contains ''a%2Fb+c'' (redact_secret_text ''GET /?k=a%2Fb+c&x=a/b c'' '' a/b c '')"
    by (rule redaction_complete [OF _ _ v]) (simp_all add: k)
  moreover have "redact_secret_text ''GET /?k=a%2Fb+c&x=a/b c'' '' a/b c '' = ''GET /?k=***&x=***''" by code_simp
  ultimately show ?thesis by blast
qed

end
