(* ===== verification/Service_Graph.thy ===== *)
theory Service_Graph
  imports Compatibility Features Evidence List_Audit
begin

text \<open>
  \<open>pihole_manager/service_graph.py\<close>: the graph of a domain, the services it belongs to or depends on, and the other domains of its service. It is
  gathered from the classification of the domain, the compatibility profiles and the research findings. The two queries read the tables of the
  store; a missing table (\<open>sqlite3.OperationalError\<close>) does not occur there. A finding is a mapping or a dataclass.
\<close>

section \<open>Nodes and edges\<close>

record graph_node =
  sn_id :: string
  sn_type :: string
  sn_label :: string
  sn_role :: string
  sn_metadata :: jobj

record graph_edge =
  se_source :: string
  se_target :: string
  se_relation :: string
  se_confidence :: pyfloat
  se_provenance :: string
  se_provider :: string
  se_url :: string
  se_metadata :: jobj

record service_graph =
  sg_root :: string
  sg_nodes :: "graph_node list"
  sg_edges :: "graph_edge list"
  sg_truncated :: bool

definition plain_node :: "string \<Rightarrow> string \<Rightarrow> string \<Rightarrow> string \<Rightarrow> graph_node" where
  "plain_node i t l r = \<lparr>sn_id = i, sn_type = t, sn_label = l, sn_role = r, sn_metadata = []\<rparr>"

definition plain_edge :: "string \<Rightarrow> string \<Rightarrow> string \<Rightarrow> pyfloat \<Rightarrow> string \<Rightarrow> graph_edge" where
  "plain_edge a b rel c prov =
     \<lparr>se_source = a, se_target = b, se_relation = rel, se_confidence = c, se_provenance = prov, se_provider = [], se_url = [], se_metadata = []\<rparr>"

definition node_dict :: "graph_node \<Rightarrow> jobj" where
  "node_dict n = [(''id'', JStr (sn_id n)), (''type'', JStr (sn_type n)), (''label'', JStr (sn_label n)), (''service_role'', JStr (sn_role n)),
     (''metadata'', JObj (sn_metadata n))]"

definition edge_dict :: "graph_edge \<Rightarrow> jobj" where
  "edge_dict e = [(''source'', JStr (se_source e)), (''target'', JStr (se_target e)), (''relation'', JStr (se_relation e)),
     (''confidence'', JFloat (round3 (se_confidence e))), (''provenance'', JStr (se_provenance e)), (''evidence_provider'', JStr (se_provider e)),
     (''evidence_url'', JStr (se_url e)), (''metadata'', JObj (se_metadata e))]"

definition graph_dict :: "service_graph \<Rightarrow> jobj" where
  "graph_dict g = [(''root_domain'', JStr (sg_root g)), (''node_count'', JInt (int (length (sg_nodes g)))), (''edge_count'', JInt (int (length (sg_edges g)))),
     (''peer_domains_truncated'', JBool (sg_truncated g)), (''nodes'', JList (map (\<lambda>n. JObj (node_dict n)) (sg_nodes g))),
     (''edges'', JList (map (\<lambda>e. JObj (edge_dict e)) (sg_edges g)))]"

definition domain_node_id :: "string \<Rightarrow> string" where
  "domain_node_id domain = ''domain:'' @ normalize_domain domain"

definition service_node_id :: "string \<Rightarrow> string" where
  "service_node_id service = ''service:'' @ py_join '' '' (py_words (py_lower (py_strip service)))"

definition confidence_of :: "py_conv \<Rightarrow> json \<Rightarrow> pyfloat" where
  "confidence_of conv v = (case py_float conv (Some v) of Some x \<Rightarrow> max 0 (min 1 x) | None \<Rightarrow> 0)"

definition role_order :: "string \<Rightarrow> int" where
  "role_order r = (if r = ''core'' then 3 else if r = ''shared'' then 2 else if r = ''optional'' then 1 else 0)"

text \<open>The dictionaries \<open>nodes\<close> and \<open>edges\<close> while the graph is gathered.\<close>

type_synonym edge_key = "string \<times> string \<times> string \<times> string"
type_synonym gathered = "(string, graph_node) dict \<times> (edge_key, graph_edge) dict"

definition edge_key :: "graph_edge \<Rightarrow> edge_key" where
  "edge_key e = (se_source e, se_target e, se_relation e, se_provenance e)"

definition put_node :: "graph_node \<Rightarrow> gathered \<Rightarrow> gathered" where
  "put_node n = (\<lambda>(nodes, edges).
     case map_of nodes (sn_id n) of
       None \<Rightarrow> (AList.update (sn_id n) n nodes, edges)
     | Some existing \<Rightarrow> if role_order (sn_role existing) < role_order (sn_role n) then (AList.update (sn_id n) n nodes, edges) else (nodes, edges))"

definition put_edge :: "graph_edge \<Rightarrow> gathered \<Rightarrow> gathered" where
  "put_edge e = (\<lambda>(nodes, edges).
     case map_of edges (edge_key e) of
       None \<Rightarrow> (nodes, AList.update (edge_key e) e edges)
     | Some existing \<Rightarrow> if se_confidence existing < se_confidence e then (nodes, AList.update (edge_key e) e edges) else (nodes, edges))"

section \<open>The classification of the domain and its peers\<close>

text \<open>The two queries: the confidence is that of the newest primary classification, 0 when there is none.\<close>

definition primary_confidence :: "db \<Rightarrow> string \<Rightarrow> pyfloat" where
  "primary_confidence s domain =
     (case sort_key (\<lambda>c. (- cr_created_at c, - cr_id c)) (filter (\<lambda>c. cr_domain c = domain \<and> cr_is_primary c) (t_runs s)) of
        [] \<Rightarrow> 0 | c # _ \<Rightarrow> cr_confidence c)"

definition current_service_record :: "string \<Rightarrow> db \<Rightarrow> (string \<times> string \<times> pyfloat) option" where
  "current_service_record domain s =
     map_option (\<lambda>d. (d_current_service d, d_current_service_role d, primary_confidence s (d_domain d))) (tbl_get d_domain domain (t_domains s))"

definition service_peers :: "string \<Rightarrow> int \<Rightarrow> db \<Rightarrow> (string \<times> string \<times> pyfloat) list \<times> bool" where
  "service_peers service max_peer_domains s =
     (let safe_limit = nat (max 0 (min 250 max_peer_domains)) in
      if safe_limit = 0 then ([], False)
      else let rows = take (safe_limit + 1) (sort_key d_domain (filter (\<lambda>d. py_lower (d_current_service d) = py_lower service) (t_domains s)))
        in (map (\<lambda>d. (d_domain d, d_current_service_role d, primary_confidence s (d_domain d))) (take safe_limit rows), safe_limit < length rows))"

definition put_peer :: "py_conv \<Rightarrow> string \<Rightarrow> string \<times> string \<times> pyfloat \<Rightarrow> gathered \<Rightarrow> gathered" where
  "put_peer conv service_id peer g =
     (case peer of (domain, role, confidence) \<Rightarrow>
        put_edge (plain_edge (domain_node_id domain) service_id ''member_of'' (confidence_of conv (JFloat confidence)) ''classification'')
          (put_node (plain_node (domain_node_id domain) ''domain'' domain (str_or role ''unknown'')) g))"

definition put_classification :: "py_conv \<Rightarrow> string \<Rightarrow> int \<Rightarrow> db \<Rightarrow> gathered \<Rightarrow> gathered \<times> bool" where
  "put_classification conv normalized max_peer_domains s g =
     (case current_service_record normalized s of
        Some (service, role, confidence) \<Rightarrow>
          if service = [] then (g, False)
          else let service_id = service_node_id service;
                   g = put_node (plain_node service_id ''service'' service (str_or role ''unknown'')) g;
                   g = put_edge (plain_edge (domain_node_id normalized) service_id ''member_of'' (confidence_of conv (JFloat confidence)) ''classification'') g;
                   (peers, truncated) = service_peers service max_peer_domains s
               in (fold (put_peer conv service_id) peers g, truncated)
      | None \<Rightarrow> (g, False))"

section \<open>The compatibility profile\<close>

definition put_compatibility :: "string \<Rightarrow> compatibility_profile list \<Rightarrow> gathered \<Rightarrow> gathered" where
  "put_compatibility normalized profiles g =
     (case compatibility_match_for_domain normalized profiles of
        None \<Rightarrow> g
      | Some m \<Rightarrow>
          let profile = cm_profile m; service_id = service_node_id (cp_name profile) in
          put_edge \<lparr>se_source = domain_node_id normalized, se_target = service_id, se_relation = ''requires'', se_confidence = 1,
              se_provenance = ''compatibility_profile'', se_provider = ''Wormhole compatibility profiles'', se_url = cp_source_url profile,
              se_metadata = [(''profile_id'', JStr (cp_profile_id profile)), (''matched_pattern'', JStr (cm_matched_pattern m)), (''match_type'', JStr (cm_match_type m))]\<rparr>
            (put_node \<lparr>sn_id = service_id, sn_type = ''service'', sn_label = cp_name profile, sn_role = service_role_value (cp_service_role profile),
                sn_metadata = [(''compatibility_profile_id'', JStr (cp_profile_id profile))]\<rparr> g))"

section \<open>Relationships in findings\<close>

datatype finding_value = Mapping_finding jobj | Dataclass_finding research_finding

definition finding_mapping :: "finding_value \<Rightarrow> jobj" where
  "finding_mapping f =
     (case f of
        Mapping_finding o' \<Rightarrow> o'
      | Dataclass_finding r \<Rightarrow> [(''provider'', JStr (rf_provider r)), (''kind'', JStr (rf_kind r)), (''source_url'', JStr (rf_source_url r)),
          (''confidence'', JFloat (rf_confidence r)), (''raw_data'', JObj (rf_raw_data r))])"

text \<open>The row of a stored finding, with the fields that are read here.\<close>

definition stored_finding :: "finding_row \<Rightarrow> finding_value" where
  "stored_finding r = Mapping_finding
     [(''domain'', JStr (fr_domain r)), (''provider'', JStr (fr_provider r)), (''kind'', JStr (fr_kind r)), (''source_url'', JStr (fr_source_url r)),
      (''confidence'', JFloat (fr_confidence r)), (''raw_data'', JObj (fr_raw_data r))]"

definition normalize_relation :: "py_conv \<Rightarrow> json \<Rightarrow> string" where
  "normalize_relation conv v =
     (let relation = py_replace (CHR '' '') (CHR ''_'') (py_replace (CHR ''-'') (CHR ''_'') (py_lower (py_strip (str_default conv v []))));
          letters = filter (\<lambda>c. c \<noteq> CHR ''_'') relation
      in if relation = [] \<or> 64 < length relation then []
         else if letters = [] \<or> \<not> list_all is_alnum letters then [] else relation)"

record relationship =
  rl_target_type :: string
  rl_target :: string
  rl_relation :: string

definition relationship_of :: "py_conv \<Rightarrow> json \<Rightarrow> relationship option" where
  "relationship_of conv candidate =
     (case candidate of
        JObj c \<Rightarrow>
          let target_type = py_lower (py_strip (str_default conv (jget ''target_type'' c) []));
              target = py_strip (str_default conv (jget ''target'' c) []);
              relation = normalize_relation conv (jget ''relation'' c)
          in if target_type \<notin> {''domain'', ''service''} \<or> target = [] \<or> relation = [] then None
             else Some \<lparr>rl_target_type = target_type, rl_target = target, rl_relation = relation\<rparr>
      | _ \<Rightarrow> None)"

definition relationships_from_finding :: "py_conv \<Rightarrow> jobj \<Rightarrow> relationship list" where
  "relationships_from_finding conv finding =
     (case jget ''raw_data'' finding of
        JObj raw_data \<Rightarrow>
          let candidates =
            (case jget ''service_relationships'' raw_data of
               JObj c \<Rightarrow> [JObj c]
             | JList cs \<Rightarrow> cs
             | _ \<Rightarrow> (case jget ''service_relationship'' raw_data of JObj c \<Rightarrow> [JObj c] | _ \<Rightarrow> []))
          in List.map_filter (relationship_of conv) candidates
      | _ \<Rightarrow> [])"

definition put_relationship :: "py_conv \<Rightarrow> string \<Rightarrow> jobj \<Rightarrow> relationship \<Rightarrow> gathered \<Rightarrow> gathered" where
  "put_relationship conv root_id finding r g =
     (let is_domain = (rl_target_type r = ''domain'');
          label = (if is_domain then normalize_domain (rl_target r) else py_strip (rl_target r));
          target_id = (if is_domain then domain_node_id label else service_node_id label)
      in if label = [] then g
         else put_edge \<lparr>se_source = root_id, se_target = target_id, se_relation = rl_relation r, se_confidence = confidence_of conv (jget ''confidence'' finding),
             se_provenance = ''evidence'', se_provider = str_default conv (jget ''provider'' finding) [], se_url = str_default conv (jget ''source_url'' finding) [],
             se_metadata = [(''finding_kind'', JStr (str_default conv (jget ''kind'' finding) []))]\<rparr>
           (put_node (plain_node target_id (if is_domain then ''domain'' else ''service'') label ''unknown'') g))"

definition put_finding :: "py_conv \<Rightarrow> string \<Rightarrow> finding_value \<Rightarrow> gathered \<Rightarrow> gathered" where
  "put_finding conv root_id f g =
     (let data = finding_mapping f in fold (put_relationship conv root_id data) (relationships_from_finding conv data) g)"

section \<open>The graph\<close>

definition max_research_findings :: int where
  "max_research_findings = 500"

definition node_order :: "string \<Rightarrow> graph_node \<Rightarrow> int \<times> int \<times> string" where
  "node_order root_id n = (if sn_id n = root_id then 0 else 1, if sn_type n = ''service'' then 0 else 1, py_lower (sn_label n))"

definition edge_order :: "graph_edge \<Rightarrow> string \<times> string \<times> string \<times> string" where
  "edge_order e = (py_lower (se_source e), se_relation e, py_lower (se_target e), se_provenance e)"

definition root_node :: "string \<Rightarrow> graph_node" where
  "root_node normalized =
     \<lparr>sn_id = domain_node_id normalized, sn_type = ''domain'', sn_label = normalized, sn_role = ''unknown'', sn_metadata = [(''root'', JBool True)]\<rparr>"

text \<open>\<open>findings\<close> is \<^const>\<open>None\<close> when the stored findings of the domain are to be read.\<close>

definition service_dependency_graph ::
  "py_conv \<Rightarrow> compatibility_profile list \<Rightarrow> string \<Rightarrow> finding_value list option \<Rightarrow> int \<Rightarrow> int \<Rightarrow> db \<Rightarrow> exn + service_graph" where
  "service_dependency_graph conv profiles domain findings max_peer_domains now s =
     (let normalized = normalize_domain domain in
      if normalized = [] then Inl (ValueError ''domain must not be empty'')
      else let root_id = domain_node_id normalized;
               (g, truncated) = put_classification conv normalized max_peer_domains s (put_node (root_node normalized) ([], []));
               g = put_compatibility normalized profiles g;
               selected = (case findings of Some fs \<Rightarrow> fs | None \<Rightarrow> map stored_finding (research_findings_get normalized False max_research_findings now s));
               (nodes, edges) = fold (put_finding conv root_id) selected g
           in Inr \<lparr>sg_root = normalized, sg_nodes = sort_key (node_order root_id) (map snd nodes), sg_edges = sort_key edge_order (map snd edges),
                    sg_truncated = truncated\<rparr>)"

text \<open>\<open>prompt_context\<close>: what a prompt says of the graph.\<close>

definition dependency_dict :: "graph_node list \<Rightarrow> graph_edge \<Rightarrow> jobj" where
  "dependency_dict nodes e =
     (let target = map_of (rev (map (\<lambda>n. (sn_id n, n)) nodes)) (se_target e) in
      [(''target_type'', JStr (case target of Some n \<Rightarrow> sn_type n | None \<Rightarrow> [])), (''target'', JStr (case target of Some n \<Rightarrow> sn_label n | None \<Rightarrow> se_target e)),
       (''relation'', JStr (se_relation e)), (''confidence'', JFloat (round3 (se_confidence e))), (''provenance'', JStr (se_provenance e)),
       (''provider'', JStr (se_provider e)), (''source_url'', JStr (se_url e))])"

definition prompt_context :: "service_graph \<Rightarrow> int \<Rightarrow> jobj" where
  "prompt_context g max_related_domains =
     (let root_id = domain_node_id (sg_root g);
          related = filter (\<lambda>n. sn_type n = ''domain'' \<and> sn_id n \<noteq> root_id) (sg_nodes g);
          shown = map sn_label (take (nat (max 0 max_related_domains)) related)
      in [(''services'', JList (map (\<lambda>n. JObj [(''name'', JStr (sn_label n)), (''role'', JStr (sn_role n))]) (filter (\<lambda>n. sn_type n = ''service'') (sg_nodes g)))),
          (''dependencies'', JList (map (\<lambda>e. JObj (dependency_dict (sg_nodes g) e))
             (filter (\<lambda>e. \<not> (se_source e \<noteq> root_id \<or> se_relation e = ''member_of'')) (sg_edges g)))),
          (''related_domains'', JList (map JStr shown)),
          (''related_domains_truncated'', JBool (sg_truncated g \<or> length shown < length related))])"

section \<open>The graph is closed\<close>

text \<open>What holds of the two dictionaries at all times: a node stands under its identifier and an edge under its key, both ends of an edge are nodes, and its
  confidence lies between 0 and 1.\<close>

definition node_ids :: "gathered \<Rightarrow> string set" where
  "node_ids g = fst ` set (fst g)"

definition closed_graph :: "gathered \<Rightarrow> bool" where
  "closed_graph g \<longleftrightarrow> distinct (map fst (fst g)) \<and> distinct (map fst (snd g)) \<and> (\<forall>(k, n)\<in>set (fst g). sn_id n = k) \<and>
     (\<forall>(k, e)\<in>set (snd g). edge_key e = k \<and> se_source e \<in> node_ids g \<and> se_target e \<in> node_ids g \<and> 0 \<le> se_confidence e \<and> se_confidence e \<le> 1)"

text \<open>The edges, by where they may lead.\<close>

definition all_edges :: "(graph_edge \<Rightarrow> bool) \<Rightarrow> gathered \<Rightarrow> bool" where
  "all_edges P g \<longleftrightarrow> (\<forall>(k, e)\<in>set (snd g). P e)"

lemma set_update_subset: "set (AList.update k v xs) \<subseteq> insert (k, v) (set xs)"
  by (induction xs) auto

lemma fst_put_edge [simp]: "fst (put_edge e g) = fst g"
  by (auto simp: put_edge_def split: prod.splits option.splits)

lemma snd_put_node [simp]: "snd (put_node n g) = snd g"
  by (auto simp: put_node_def split: prod.splits option.splits)

lemma put_node_cases: "fst (put_node n g) = fst g \<and> sn_id n \<in> node_ids g \<or> fst (put_node n g) = AList.update (sn_id n) n (fst g)"
  by (cases g) (auto simp: put_node_def node_ids_def image_iff split: option.splits dest!: map_of_SomeD intro: rev_bexI)

lemma put_edge_cases: "snd (put_edge e g) = snd g \<or> snd (put_edge e g) = AList.update (edge_key e) e (snd g)"
  by (cases g) (auto simp: put_edge_def split: option.splits)

lemma node_ids_put_edge [simp]: "node_ids (put_edge e g) = node_ids g"
  by (simp add: node_ids_def)

lemma node_ids_put_node [simp]: "node_ids (put_node n g) = insert (sn_id n) (node_ids g)"
  using put_node_cases [of n g]
proof
  assume "fst (put_node n g) = AList.update (sn_id n) n (fst g)"
  then show ?thesis unfolding node_ids_def by (simp add: dom_update)
qed (auto simp: node_ids_def)

lemma closed_put_node [invs]:
  assumes "closed_graph g"
  shows "closed_graph (put_node n g)"
  using put_node_cases [of n g]
proof
  assume "fst (put_node n g) = fst g \<and> sn_id n \<in> node_ids g"
  then show ?thesis using assms by (auto simp: closed_graph_def insert_absorb)
next
  assume u: "fst (put_node n g) = AList.update (sn_id n) n (fst g)"
  have "(k, x) \<in> set (fst (put_node n g)) \<Longrightarrow> sn_id x = k" for k x
    using set_update_subset [of "sn_id n" n "fst g"] assms unfolding u closed_graph_def by blast
  moreover have "distinct (map fst (fst (put_node n g)))" using assms by (simp add: u closed_graph_def distinct_update)
  ultimately show ?thesis using assms by (auto simp: closed_graph_def)
qed

lemma closed_put_edge [invs]:
  assumes "closed_graph g" and "se_source e \<in> node_ids g" and "se_target e \<in> node_ids g" and "0 \<le> se_confidence e" and "se_confidence e \<le> 1"
  shows "closed_graph (put_edge e g)"
  using put_edge_cases [of e g]
proof
  assume "snd (put_edge e g) = snd g"
  then have "put_edge e g = g" by (simp add: prod_eq_iff)
  then show ?thesis using assms by simp
next
  assume u: "snd (put_edge e g) = AList.update (edge_key e) e (snd g)"
  have "(k, x) \<in> set (snd (put_edge e g)) \<Longrightarrow> (k, x) = (edge_key e, e) \<or> (k, x) \<in> set (snd g)" for k x
    using set_update_subset [of "edge_key e" e "snd g"] unfolding u by blast
  moreover have "distinct (map fst (snd (put_edge e g)))" using assms by (simp add: u closed_graph_def distinct_update)
  ultimately show ?thesis using assms by (fastforce simp: closed_graph_def)
qed

lemma all_edges_put_node [simp]: "all_edges P (put_node n g) = all_edges P g"
  by (simp add: all_edges_def)

lemma all_edges_put_edge: "all_edges P g \<Longrightarrow> P e \<Longrightarrow> all_edges P (put_edge e g)"
  using put_edge_cases [of e g] set_update_subset [of "edge_key e" e "snd g"] by (fastforce simp: all_edges_def)

lemma confidence_bounds: "0 \<le> confidence_of conv v \<and> confidence_of conv v \<le> 1"
  by (auto simp: confidence_of_def split: option.splits)

text \<open>One step of gathering keeps the graph closed, loses no node, and adds edges that start at the root, or memberships in the root's service.\<close>

definition grows :: "(graph_edge \<Rightarrow> bool) \<Rightarrow> gathered \<Rightarrow> gathered \<Rightarrow> bool" where
  "grows P g g' \<longleftrightarrow> closed_graph g' \<and> node_ids g \<subseteq> node_ids g' \<and> (all_edges P g \<longrightarrow> all_edges P g')"

lemma grows_refl: "closed_graph g \<Longrightarrow> grows P g g"
  by (simp add: grows_def)

lemma grows_trans: "grows P g g1 \<Longrightarrow> grows P g1 g2 \<Longrightarrow> grows P g g2"
  by (auto simp: grows_def)

lemma grows_fold:
  assumes "closed_graph g" and "r \<in> node_ids g" and "\<And>x g. x \<in> set xs \<Longrightarrow> closed_graph g \<Longrightarrow> r \<in> node_ids g \<Longrightarrow> grows P g (f x g)"
  shows "grows P g (fold f xs g)"
  using assms
proof (induction xs arbitrary: g)
  case (Cons x xs)
  have x: "grows P g (f x g)" using Cons.prems by simp
  then have "closed_graph (f x g)" "r \<in> node_ids (f x g)" using Cons.prems(2) by (auto simp: grows_def)
  then have "grows P (f x g) (fold f xs (f x g))" using Cons.IH Cons.prems(3) by (metis list.set_intros(2))
  then show ?case using x grows_trans by fastforce
qed (simp add: grows_refl)

lemma put_link:
  assumes "closed_graph g" and "sn_id n \<in> {se_source e, se_target e}" and "{se_source e, se_target e} - {sn_id n} \<subseteq> node_ids g" and "P e"
    and "0 \<le> se_confidence e" and "se_confidence e \<le> 1"
  shows "grows P g (put_edge e (put_node n g))"
proof -
  have "closed_graph (put_edge e (put_node n g))" using assms by (intro closed_put_edge closed_put_node) auto
  then show ?thesis using assms(4) by (auto simp: grows_def all_edges_put_edge)
qed

lemma put_relationship_grows:
  assumes "closed_graph g" and "root_id \<in> node_ids g" and "\<And>e. se_source e = root_id \<Longrightarrow> P e"
  shows "grows P g (put_relationship conv root_id data r g)"
  using assms confidence_bounds by (auto simp: put_relationship_def Let_def grows_refl plain_node_def intro!: put_link)

lemma put_finding_grows:
  assumes "closed_graph g" and "root_id \<in> node_ids g" and "\<And>e. se_source e = root_id \<Longrightarrow> P e"
  shows "grows P g (put_finding conv root_id f g)"
  unfolding put_finding_def Let_def by (rule grows_fold [OF assms(1,2)]) (rule put_relationship_grows, use assms(3) in auto)

lemma put_compatibility_grows:
  assumes "closed_graph g" and "domain_node_id d \<in> node_ids g" and "\<And>e. se_source e = domain_node_id d \<Longrightarrow> P e"
  shows "grows P g (put_compatibility d profiles g)"
  using assms by (auto simp: put_compatibility_def Let_def grows_refl split: option.splits intro!: put_link)

definition root_or_member :: "string \<Rightarrow> graph_edge \<Rightarrow> bool" where
  "root_or_member root_id e \<longleftrightarrow> se_source e = root_id \<or> se_relation e = ''member_of''"

lemma put_classification_grows:
  assumes "closed_graph g" and "domain_node_id d \<in> node_ids g"
  shows "grows (root_or_member (domain_node_id d)) g (fst (put_classification conv d m s g))"
proof (cases "current_service_record d s")
  case (Some r)
  obtain service role confidence where r: "r = (service, role, confidence)" by (cases r) auto
  show ?thesis
  proof (cases "service = []")
    case False
    let ?i = "service_node_id service"
    let ?g = "put_edge (plain_edge (domain_node_id d) ?i ''member_of'' (confidence_of conv (JFloat confidence)) ''classification'')
       (put_node (plain_node ?i ''service'' service (str_or role ''unknown'')) g)"
    have g: "grows (root_or_member (domain_node_id d)) g ?g"
      by (rule put_link [OF assms(1)]) (use assms(2) confidence_bounds in \<open>auto simp: plain_node_def plain_edge_def root_or_member_def\<close>)
    have "grows (root_or_member (domain_node_id d)) ?g (fold (put_peer conv ?i) peers ?g)" for peers
    proof (rule grows_fold [where r = ?i])
      show "closed_graph ?g" using g by (simp add: grows_def)
      show "?i \<in> node_ids ?g" by (simp add: plain_node_def)
      fix p h assume "closed_graph h" "?i \<in> node_ids h"
      then show "grows (root_or_member (domain_node_id d)) h (put_peer conv ?i p h)"
        by (cases p) (auto simp: put_peer_def plain_node_def plain_edge_def root_or_member_def confidence_bounds intro!: put_link)
    qed
    then show ?thesis using g grows_trans False by (auto simp: put_classification_def Some r Let_def split: prod.splits)
  qed (simp add: put_classification_def Some r grows_refl [OF assms(1)])
qed (simp add: put_classification_def grows_refl [OF assms(1)])

lemma gathered_closed:
  assumes "g = put_compatibility d profiles (fst (put_classification conv d m s (put_node (root_node d) ([], []))))"
  shows "closed_graph (fold (put_finding conv (domain_node_id d)) fs g) \<and> domain_node_id d \<in> node_ids (fold (put_finding conv (domain_node_id d)) fs g) \<and>
    all_edges (root_or_member (domain_node_id d)) (fold (put_finding conv (domain_node_id d)) fs g)"
proof -
  let ?P = "root_or_member (domain_node_id d)" and ?g0 = "put_node (root_node d) ([], [])"
  have P: "se_source e = domain_node_id d \<Longrightarrow> ?P e" for e by (simp add: root_or_member_def)
  have c: "closed_graph ([], [])" by (simp add: closed_graph_def)
  have c0: "closed_graph ?g0" "domain_node_id d \<in> node_ids ?g0" "all_edges ?P ?g0"
    using closed_put_node [OF c] by (simp_all add: root_node_def all_edges_def)
  have g1: "grows ?P ?g0 (fst (put_classification conv d m s ?g0))" by (rule put_classification_grows [OF c0(1,2)])
  then have g2: "grows ?P (fst (put_classification conv d m s ?g0)) g"
    unfolding assms using c0(2) P by (intro put_compatibility_grows) (auto simp: grows_def)
  have g02: "grows ?P ?g0 g" by (rule grows_trans [OF g1 g2])
  then have gi: "closed_graph g" "domain_node_id d \<in> node_ids g" using c0(2) by (auto simp: grows_def)
  have "grows ?P g (fold (put_finding conv (domain_node_id d)) fs g)"
    by (rule grows_fold [OF gi]) (rule put_finding_grows, use P in auto)
  from grows_trans [OF g02 this] show ?thesis using c0 by (auto simp: grows_def)
qed

lemma hd_sort_key_least:
  assumes "x \<in> set xs" and "\<And>y. y \<in> set xs \<Longrightarrow> y \<noteq> x \<Longrightarrow> k x < k y"
  shows "xs \<noteq> [] \<and> hd (sort_key k xs) = x"
proof -
  have "sort_key k xs \<noteq> []" using assms(1) by (metis empty_iff set_empty set_sort)
  then obtain y ys where s: "sort_key k xs = y # ys" by (cases "sort_key k xs") auto
  have "x \<in> set (y # ys)" "y \<in> set xs" using assms(1) s set_sort [of k xs] by (metis, metis list.set_intros(1))
  moreover have "sorted (map k (y # ys))" using sorted_sort_key [of k xs] by (simp only: s)
  ultimately have "k y \<le> k x" by auto
  then have "y = x" using assms(2) \<open>y \<in> set xs\<close> by (metis not_le)
  then show ?thesis using s assms(1) by auto
qed

section \<open>Property\<close>

text \<open>C36. The graph of a domain is well formed, whatever the store, the profiles and the findings say: every node and every edge stands there once (a
  node by its identifier, an edge by its ends, relation and provenance), the ends of every edge are nodes of the graph, confidences lie
  between 0 and 1, the root comes first, every edge starts at the root or says that a domain is a member of a service, and the edges are ordered. Only an empty domain has no graph.\<close>

theorem service_graph_closed:
  "case service_dependency_graph conv profiles domain findings m now s of
     Inl e \<Rightarrow> normalize_domain domain = [] \<and> e = ValueError ''domain must not be empty''
   | Inr g \<Rightarrow> sg_root g = normalize_domain domain \<and> sg_nodes g \<noteq> [] \<and> sn_id (hd (sg_nodes g)) = domain_node_id (sg_root g) \<and>
       distinct (map sn_id (sg_nodes g)) \<and> distinct (map edge_key (sg_edges g)) \<and> sorted (map edge_order (sg_edges g)) \<and>
       list_all (\<lambda>e. se_source e \<in> sn_id ` set (sg_nodes g) \<and> se_target e \<in> sn_id ` set (sg_nodes g) \<and> 0 \<le> se_confidence e \<and> se_confidence e \<le> 1 \<and>
         root_or_member (domain_node_id (sg_root g)) e) (sg_edges g)"
proof (cases "normalize_domain domain = []")
  case False
  let ?d = "normalize_domain domain" and ?id = "domain_node_id (normalize_domain domain)"
  let ?g1 = "put_compatibility ?d profiles (fst (put_classification conv ?d m s (put_node (root_node ?d) ([], []))))"
  let ?fs = "case findings of Some fs \<Rightarrow> fs | None \<Rightarrow> map stored_finding (research_findings_get ?d False max_research_findings now s)"
  define N E where "N = fst (fold (put_finding conv ?id) ?fs ?g1)" and "E = snd (fold (put_finding conv ?id) ?fs ?g1)"
  then have NE: "fold (put_finding conv ?id) ?fs ?g1 = (N, E)" by simp
  have c: "closed_graph (N, E)" "?id \<in> fst ` set N" "all_edges (root_or_member ?id) (N, E)"
    using gathered_closed [OF refl, of conv ?d ?fs profiles m s] unfolding NE node_ids_def by auto
  have ids: "map sn_id (map snd N) = map fst N" and keys: "map edge_key (map snd E) = map fst E"
    using c(1) by (auto simp: closed_graph_def)
  have dn: "distinct (map sn_id (map snd N))" and de: "distinct (map edge_key (map snd E))"
    using c(1) unfolding ids keys by (simp_all add: closed_graph_def)
  have set_ids: "sn_id ` snd ` set N = fst ` set N" using arg_cong [OF ids, of set] by (simp add: image_image)
  have "?id \<in> sn_id ` set (map snd N)" using c(2) set_ids by simp
  then obtain root where root: "root \<in> set (map snd N)" "sn_id root = ?id" by (metis imageE)
  have "node_order ?id root < node_order ?id n" if n: "n \<in> set (map snd N)" "n \<noteq> root" for n
  proof -
    have "sn_id n \<noteq> ?id" using dn root n by (metis distinct_map inj_onD)
    then show ?thesis using root(2) by (simp add: node_order_def)
  qed
  from hd_sort_key_least [of root "map snd N" "node_order ?id"] root(1) this have h: "map snd N \<noteq> []" "sn_id (hd (sort_key (node_order ?id) (map snd N))) = ?id" using root(2) by auto
  have e: "list_all (\<lambda>e. se_source e \<in> fst ` set N \<and> se_target e \<in> fst ` set N \<and> 0 \<le> se_confidence e \<and> se_confidence e \<le> 1 \<and> root_or_member ?id e) (map snd E)"
    using c(1,3) by (auto simp: list_all_iff closed_graph_def all_edges_def node_ids_def)
  obtain t where "service_dependency_graph conv profiles domain findings m now s = Inr \<lparr>sg_root = ?d, sg_nodes = sort_key (node_order ?id) (map snd N),
      sg_edges = sort_key edge_order (map snd E), sg_truncated = t\<rparr>"
    using False NE by (cases "put_classification conv ?d m s (put_node (root_node ?d) ([], []))") (simp add: service_dependency_graph_def Let_def)
  moreover have "sort_key (node_order ?id) (map snd N) \<noteq> []" using h(1) by (metis set_empty set_sort)
  ultimately show ?thesis using h(2) dn de e
    by (simp add: distinct_map_sort_key list_all_iff set_ids del: list.map_comp map_map)
qed (simp add: service_dependency_graph_def Let_def)

section \<open>The root's own membership\<close>

definition ex_graph_db :: db where
  "ex_graph_db = empty_db\<lparr>t_domains := [\<lparr>d_domain = ''a.com'', d_first_seen = 1, d_last_seen = 1, d_query_count = 1, d_last_classified_at = Some 1,
     d_next_recheck_at = None, d_last_researched_at = None, d_current_policy = ''allow'', d_current_service = ''Shop'', d_current_service_role = ''core''\<rparr>]\<rparr>"

text \<open>The query for the peers returns the domain itself, and its role is stronger than the role \<open>unknown\<close> of the root node, so the node is replaced
  and loses the mark \<open>root\<close>.\<close>

lemma root_mark_lost:
  "map_sum id (\<lambda>g. map sn_metadata (sg_nodes g)) (service_dependency_graph ex_conv [] ''a.com'' (Some []) 25 5 ex_graph_db) = Inr [[], []]"
  by code_simp

end
