(* ===== verification/Research.thy ===== *)
theory Research
  imports Research_Common Service_Graph
begin

text \<open>
  \<open>research.py\<close>: gathering evidence for a batch of domains from the cache and the configured sources, with retries, the dossier that goes into a prompt, and
  the test of one source. A
  source is the outcome of each of its calls. The thread pools are the list of the requests in the order in which they
  complete; a cancellation is noticed at the start or after some of them.
\<close>

section \<open>One source\<close>

datatype call_outcome = Found "research_finding list" | Http_error_answer int "(string \<times> string) list" | Connection_lost | Call_failed research_error

datatype source_failure = Http_failed int | No_connection | Raised research_error | Retries_exhausted | Cancelled

text \<open>What the loop reports to the pacing: attempt and headers of a failure, or success.\<close>

datatype attempt_report = Report_failure nat "(string \<times> string) list option" | Report_success

definition retry_statuses :: "int list" where
  "retry_statuses = [408, 429, 500, 502, 503, 504]"

text \<open>\<open>cancelled n\<close>: the answer to the \<open>n\<close>-th look at the token, before the call of attempt \<open>k\<close> for \<open>2 k\<close> and after its success for \<open>2 k + 1\<close>.\<close>

fun run_attempts ::
  "(nat \<Rightarrow> bool) \<Rightarrow> (nat \<Rightarrow> call_outcome) \<Rightarrow> nat \<Rightarrow> nat \<Rightarrow> (source_failure + research_finding list) \<times> attempt_report list" where
  "run_attempts cancelled call attempt 0 = (Inl Retries_exhausted, [])"
| "run_attempts cancelled call attempt (Suc left) =
     (if cancelled (2 * attempt) then (Inl Cancelled, [])
      else case call attempt of
        Found findings \<Rightarrow> if cancelled (2 * attempt + 1) then (Inl Cancelled, []) else (Inr findings, [Report_success])
      | Http_error_answer status headers \<Rightarrow>
          if status \<notin> set retry_statuses then (Inl (Http_failed status), [])
          else if left = 0 then (Inl (Http_failed status), [Report_failure attempt (Some headers)])
          else apsnd (Cons (Report_failure attempt (Some headers))) (run_attempts cancelled call (Suc attempt) left)
      | Connection_lost \<Rightarrow>
          if left = 0 then (Inl No_connection, [Report_failure attempt None])
          else apsnd (Cons (Report_failure attempt None)) (run_attempts cancelled call (Suc attempt) left)
      | Call_failed e \<Rightarrow> (Inl (Raised e), []))"

definition run_provider_with_retries ::
  "(nat \<Rightarrow> bool) \<Rightarrow> int \<Rightarrow> (nat \<Rightarrow> call_outcome) \<Rightarrow> (source_failure + research_finding list) \<times> attempt_report list" where
  "run_provider_with_retries cancelled max_retries call = run_attempts cancelled call 0 (nat (max 1 (max_retries + 1)))"

text \<open>The pacing sees the reports at the times \<open>clock\<close>.\<close>

definition rate_event_of :: "py_conv \<Rightarrow> (string \<Rightarrow> pyfloat option) \<Rightarrow> (nat \<Rightarrow> pyfloat) \<Rightarrow> evidence_source \<Rightarrow> attempt_report \<Rightarrow> rate_event" where
  "rate_event_of conv http_date clock p r =
     (case r of
        Report_failure attempt headers \<Rightarrow>
          Failed p attempt (case headers of Some hs \<Rightarrow> retry_delay_from_headers conv http_date hs 300 (clock attempt) | None \<Rightarrow> None) (clock attempt)
      | Report_success \<Rightarrow> Succeeded p)"

definition supported_kinds :: "string list" where
  "supported_kinds =
     [''adguard_services'', ''dns_records'', ''disconnect_tracking'', ''rdap'', ''ripestat'', ''netcraft'', ''virustotal'', ''threatfox'', ''phishtank'', ''urlscan'',
      ''cloudflare_radar'', ''repository_lists'', ''urlhaus'', ''crtsh'', ''google_safe_browsing'']"

definition run_provider :: "(string \<Rightarrow> string \<Rightarrow> evidence_source \<Rightarrow> call_outcome) \<Rightarrow> string \<Rightarrow> evidence_source \<Rightarrow> call_outcome" where
  "run_provider handlers domain p =
     (if es_kind p \<in> set supported_kinds then handlers (es_kind p) domain p
      else Call_failed (Research_error (''Unsupported evidence source kind: '' @ es_kind p)))"

section \<open>Many domains\<close>

definition finding_from_row :: "finding_row \<Rightarrow> research_finding" where
  "finding_from_row r =
     \<lparr>rf_domain = fr_domain r, rf_provider = fr_provider r, rf_kind = fr_kind r, rf_title = fr_title r, rf_summary = fr_summary r, rf_source_url = fr_source_url r,
      rf_confidence = fr_confidence r, rf_signal_type = str_or (fr_signal_type r) ''context'', rf_verdict = str_or (fr_verdict r) ''unknown'',
      rf_decision_relevant = fr_decision_relevant r, rf_retrieved_at = fr_retrieved_at r, rf_expires_at = fr_expires_at r, rf_raw_data = fr_raw_data r\<rparr>"

text \<open>\<open>save_research_findings\<close> and \<open>research_findings_get\<close> of \<open>database.py\<close>, which put the expiry rules before the tables.\<close>

definition provider_of_source :: "evidence_source \<Rightarrow> research_provider" where
  "provider_of_source p = \<lparr>rp_name = es_name p, rp_kind = es_kind p, rp_refresh_interval_hours = es_refresh_interval_hours p\<rparr>"

definition save_findings :: "py_conv \<Rightarrow> evidence_source list \<Rightarrow> research_finding list \<Rightarrow> int \<Rightarrow> int \<Rightarrow> db \<Rightarrow> exn + db \<times> int" where
  "save_findings conv sources findings days now s =
     save_research_findings (apply_freshness_policies conv now (map provider_of_source sources) days s findings) days now s"

definition findings_get :: "py_conv \<Rightarrow> evidence_source list \<Rightarrow> string \<Rightarrow> bool \<Rightarrow> int \<Rightarrow> int \<Rightarrow> db \<Rightarrow> finding_row list" where
  "findings_get conv sources domain fresh_only limit now s =
     (let safe_limit = max 1 limit in
      if \<not> fresh_only then research_findings_get domain False safe_limit now s
      else take (nat safe_limit) (filter (row_is_fresh conv now (build_freshness_context (map provider_of_source sources) domain 30 s) now)
        (research_findings_get domain False (max 500 safe_limit) now s)))"

datatype cancel_point = Never | At_start | After_requests nat

record research_env =
  re_conv :: py_conv
  re_profiles :: "compatibility_profile list"
  re_sources :: "evidence_source list"
  re_max_age_days :: int
  re_now :: int
  re_answer :: "string \<Rightarrow> evidence_source \<Rightarrow> source_failure + research_finding list"
  re_cancel :: cancel_point

definition compatibility_provider_name :: string where
  "compatibility_provider_name = ''Wormhole compatibility profiles''"

definition local_finding :: "research_env \<Rightarrow> string \<Rightarrow> research_finding list" where
  "local_finding env d = (case compatibility_finding d (re_profiles env) (re_now env) of Some f \<Rightarrow> [f] | None \<Rightarrow> [])"

definition cached_findings :: "research_env \<Rightarrow> db \<Rightarrow> string \<Rightarrow> research_finding list" where
  "cached_findings env s d =
     filter (\<lambda>f. rf_provider f \<noteq> compatibility_provider_name) (map finding_from_row (findings_get (re_conv env) (re_sources env) d True 500 (re_now env) s)) @ local_finding env d"

definition locked_in :: "db \<Rightarrow> string \<Rightarrow> bool" where
  "locked_in s d \<longleftrightarrow> get_domain_lock d s \<noteq> None"

definition base_findings :: "research_env \<Rightarrow> bool \<Rightarrow> db \<Rightarrow> string \<Rightarrow> research_finding list" where
  "base_findings env force s d = (if locked_in s d \<or> \<not> force then cached_findings env s d else local_finding env d)"

definition pending_requests :: "research_env \<Rightarrow> bool \<Rightarrow> db \<Rightarrow> string list \<Rightarrow> (string \<times> evidence_source) list" where
  "pending_requests env force s ds =
     concat (map (\<lambda>d. if locked_in s d then []
       else map (Pair d) (filter (\<lambda>p. es_enabled p \<and> es_name p \<notin> (if force then {} else rf_provider ` set (cached_findings env s d))) (re_sources env))) ds)"

definition selected_findings :: "research_env \<Rightarrow> string \<times> evidence_source \<Rightarrow> research_finding list" where
  "selected_findings env r =
     (case re_answer env (fst r) (snd r) of
        Inr findings \<Rightarrow> map (\<lambda>f. annotate_source_kind f (es_kind (snd r))) (py_prefix (es_max_results (snd r)) findings)
      | Inl _ \<Rightarrow> [])"

type_synonym evidence_output = "(string, research_finding list) dict"

text \<open>One completed request: its findings go to its domain and to what will be saved; a failed source is skipped.\<close>

definition complete_request ::
  "research_env \<Rightarrow> string \<times> evidence_source \<Rightarrow> evidence_output \<times> research_finding list \<Rightarrow> evidence_output \<times> research_finding list" where
  "complete_request env r st =
     (case st of (output, collected) \<Rightarrow>
        let selected = selected_findings env r in
        (map (\<lambda>(d, fs). if d = fst r then (d, fs @ selected) else (d, fs)) output, collected @ selected))"

datatype research_failure = Research_cancelled | Research_raised exn

text \<open>\<open>research_many\<close>: \<open>arrange\<close> orders the pending requests as they complete. The result stands beside the store left behind.\<close>

definition research_many ::
  "research_env \<Rightarrow> ((string \<times> evidence_source) list \<Rightarrow> (string \<times> evidence_source) list) \<Rightarrow> bool \<Rightarrow> string list \<Rightarrow> db \<Rightarrow>
    (research_failure + evidence_output) \<times> db" where
  "research_many env arrange force domains s =
     (let ds = fromkeys (filter (\<lambda>d. d \<noteq> []) (map normalize_domain domains));
          locked = filter (locked_in s) ds;
          locals = concat (map (local_finding env) ds);
          output = map (\<lambda>d. (d, base_findings env force s d)) ds;
          requests = arrange (pending_requests env force s ds) in
      if re_cancel env = At_start then (Inl Research_cancelled, s)
      else if ds = [] then (Inr [], s)
      else if force \<and> locked \<noteq> []
      then (Inl (Research_raised (RuntimeError (''Protected domain(s) cannot be refreshed. Unlock it before refreshing evidence: '' @ py_join '', '' locked))), s)
      else case (if locals = [] then Inr (s, 0) else save_findings (re_conv env) (re_sources env) locals 365 (re_now env) s) of
        Inl e \<Rightarrow> (Inl (Research_raised e), s)
      | Inr (s1, _) \<Rightarrow>
          if requests = [] then (Inr output, s1)
          else if (case re_cancel env of After_requests n \<Rightarrow> n < length requests | _ \<Rightarrow> False) then (Inl Research_cancelled, s1)
          else (case fold (complete_request env) requests (output, []) of
            (output, collected) \<Rightarrow>
              if collected = [] then (Inr output, s1)
              else (case save_findings (re_conv env) (re_sources env) collected (re_max_age_days env) (re_now env) s1 of
                Inl e \<Rightarrow> (Inl (Research_raised e), s1)
              | Inr (s2, _) \<Rightarrow> (Inr output, s2))))"

definition research_domain ::
  "research_env \<Rightarrow> ((string \<times> evidence_source) list \<Rightarrow> (string \<times> evidence_source) list) \<Rightarrow> bool \<Rightarrow> string \<Rightarrow> db \<Rightarrow>
    (research_failure + research_finding list) \<times> db" where
  "research_domain env arrange force domain s =
     (let normalized = normalize_domain domain in
      if normalized = [] then (Inl (Research_raised (ValueError ''domain must not be empty'')), s)
      else map_prod (map_sum id (\<lambda>out. case map_of out normalized of Some fs \<Rightarrow> fs | None \<Rightarrow> [])) id (research_many env arrange force [normalized] s))"

section \<open>The dossier\<close>

definition include_in_prompt :: "research_finding \<Rightarrow> bool" where
  "include_in_prompt f = json_truthy (jget_or ''include_in_prompt'' (JBool True) (rf_raw_data f))"

definition prompt_order :: "py_conv \<Rightarrow> int \<Rightarrow> research_finding \<Rightarrow> int \<times> pyfloat \<times> pyfloat \<times> int" where
  "prompt_order conv now f =
     (if rf_decision_relevant f then 0 else 1, - qz_evidence_score (score_finding conv now f), - rf_confidence f, - rf_retrieved_at f)"

definition max_prompt_findings :: nat where
  "max_prompt_findings = 12"

definition compact_finding :: "py_conv \<Rightarrow> int \<Rightarrow> research_finding \<Rightarrow> jobj" where
  "compact_finding conv now f =
     (let quality = score_finding conv now f in
      [(''provider'', JStr (rf_provider f)), (''kind'', JStr (rf_kind f)), (''signal_type'', JStr (rf_signal_type f)), (''verdict'', JStr (rf_verdict f)),
       (''decision_relevant'', JBool (rf_decision_relevant f)), (''title'', JStr (rf_title f)), (''summary'', JStr (take 900 (rf_summary f))),
       (''source_url'', JStr (rf_source_url f)), (''confidence'', JFloat (round3 (rf_confidence f))), (''source_quality'', JFloat (round3 (qz_source_score quality))),
       (''evidence_quality'', JFloat (round3 (qz_evidence_score quality))), (''quality_tier'', JStr (qz_tier quality)),
       (''retrieved_at'', JInt (rf_retrieved_at f))])"

record dossier =
  do_domain :: string
  do_finding_count :: nat
  do_decision_relevant_count :: nat
  do_omitted_count :: nat
  do_quality :: quality_totals
  do_contradictions :: "contradiction list"
  do_service_graph :: jobj
  do_findings :: "jobj list"

definition research_context ::
  "py_conv \<Rightarrow> evidence_source list \<Rightarrow> compatibility_profile list \<Rightarrow> string \<Rightarrow> research_finding list option \<Rightarrow> int \<Rightarrow> db \<Rightarrow> exn + dossier" where
  "research_context conv sources profiles domain findings now s =
     (let normalized = normalize_domain domain;
          selected = (case findings of Some fs \<Rightarrow> fs | None \<Rightarrow> map finding_from_row (findings_get conv sources normalized True 500 now s));
          visible = sort_key (prompt_order conv now) (filter include_in_prompt selected);
          contradictions = detect_contradictions conv now visible;
          shown = take max_prompt_findings visible in
      map_sum id (\<lambda>g.
        \<lparr>do_domain = normalized, do_finding_count = length visible, do_decision_relevant_count = length (filter rf_decision_relevant visible),
         do_omitted_count = length visible - length shown, do_quality = quality_summary conv now visible (Some contradictions),
         do_contradictions = contradictions, do_service_graph = prompt_context g 8, do_findings = map (compact_finding conv now) shown\<rparr>)
       (service_dependency_graph conv profiles normalized (Some (map Dataclass_finding visible)) 25 now s))"

section \<open>Testing a source\<close>

record source_test =
  st_provider :: string
  st_kind :: string
  st_domain :: string
  st_status :: string
  st_finding_count :: nat
  st_elapsed_ms :: int
  st_summary :: string

definition test_succeeded :: "source_test \<Rightarrow> bool" where
  "test_succeeded t \<longleftrightarrow> st_status t = ''pass''"

definition test_domains :: "(string \<times> string) list" where
  "test_domains =
     [(''adguard_services'', ''wechat.com''), (''dns_records'', ''cloudflare.com''), (''disconnect_tracking'', ''google-analytics.com''), (''rdap'', ''example.com''),
      (''ripestat'', ''cloudflare.com''), (''netcraft'', ''google.com''), (''virustotal'', ''example.com''), (''threatfox'', ''example.com''),
      (''phishtank'', ''example.com''), (''urlscan'', ''google.com''), (''cloudflare_radar'', ''google.com''), (''repository_lists'', ''example.com''),
      (''urlhaus'', ''example.com''), (''crtsh'', ''example.com''), (''google_safe_browsing'', ''testsafebrowsing.appspot.com'')]"

text \<open>An exception is its text and the name of its class.\<close>

definition test_error_summary :: "string \<Rightarrow> string \<times> string \<Rightarrow> string" where
  "test_error_summary api_key e =
     (let shown = py_replace (CHR 0x0A) (CHR '' '') (py_strip (redact_secret_text (fst e) api_key)); lowered = py_lower shown in
      if py_contains ''failed to resolve'' lowered \<or> py_contains ''nameresolutionerror'' lowered then ''DNS resolution failed for the source host.''
      else if py_contains ''timed out'' lowered \<or> py_contains ''timeout'' lowered then ''The source did not respond before the timeout.''
      else if py_contains ''401'' shown \<or> py_contains ''403'' shown then ''Authentication was rejected by the source.''
      else if py_contains ''429'' shown then ''The source rate limit was reached.''
      else str_or (take 500 shown) (snd e))"

definition test_summary :: "research_finding list \<Rightarrow> string" where
  "test_summary findings =
     (case filter include_in_prompt findings @ findings of
        [] \<Rightarrow> ''Source responded and the response was parsed successfully.''
      | first # _ \<Rightarrow>
          if rf_verdict first = ''no_match'' \<or> \<not> include_in_prompt first then ''Source responded successfully; no evidence matched the test domain.''
          else rf_title first @ '' ('' @ rf_verdict first @ '')'')"

definition test_research_provider ::
  "(string \<Rightarrow> (string \<times> string) + research_finding list) \<Rightarrow> int \<Rightarrow> evidence_source \<Rightarrow> string option \<Rightarrow> bool \<Rightarrow> bool \<Rightarrow> source_test" where
  "test_research_provider run elapsed_ms p domain skip_api_key_sources skip_missing_api_keys =
     (let given = str_or (str_or (case domain of Some d \<Rightarrow> d | None \<Rightarrow> []) (es_test_domain p))
            (case map_of test_domains (es_kind p) of Some d \<Rightarrow> d | None \<Rightarrow> ''example.com'');
          selected = normalize_domain given;
          requires_key = ((case find_source_definition (es_kind p) of Some d \<Rightarrow> sf_requires_api_key d | None \<Rightarrow> False) \<or> es_kind p = ''google_safe_browsing'');
          result = (\<lambda>status count elapsed summary. \<lparr>st_provider = es_name p, st_kind = es_kind p, st_domain = selected, st_status = status,
            st_finding_count = count, st_elapsed_ms = elapsed, st_summary = summary\<rparr>)
      in if skip_api_key_sources \<and> requires_key then result ''skip'' 0 0 ''Skipped because this source requires an API key.''
         else if requires_key \<and> py_strip (es_api_key p) = []
         then (if skip_missing_api_keys then result ''skip'' 0 0 ''Skipped because no API key is configured.''
               else result ''fail'' 0 0 ''API key is required but not configured.'')
         else case run selected of
           Inl e \<Rightarrow> result ''fail'' 0 elapsed_ms (test_error_summary (es_api_key p) e)
         | Inr found \<Rightarrow>
             let findings = py_prefix (es_max_results p) found in
             result ''pass'' (length (filter include_in_prompt findings)) elapsed_ms (test_summary findings))"

section \<open>Lemmas\<close>

text \<open>The tables of the sources agree: every supported kind has a definition, reviewed terms and a test domain.\<close>

lemma supported_kinds_known:
  "list_all (\<lambda>k. find_source_definition k \<noteq> None \<and> source_license_policy k \<noteq> None \<and> map_of test_domains k \<noteq> None) supported_kinds"
  by code_simp

text \<open>The loop of attempts: it asks at least once, reports at most once per attempt, and what it returns is an answer it got.\<close>

lemma attempts_bounded: "length (snd (run_attempts cancelled call attempt left)) \<le> left"
  by (induction left arbitrary: attempt) (auto split: call_outcome.splits)

lemma attempts_answered:
  "run_attempts cancelled call attempt left = (Inr findings, reports) \<Longrightarrow> \<exists>k. attempt \<le> k \<and> k < attempt + left \<and> call k = Found findings"
proof (induction left arbitrary: attempt reports)
  case (Suc left)
  have later: "\<exists>k. attempt \<le> k \<and> k < attempt + Suc left \<and> call k = Found findings"
    if "run_attempts cancelled call (Suc attempt) left = (Inr findings, rs)" for rs
    using Suc.IH [OF that] by (auto intro: Suc_leD)
  show ?case
  proof (cases "call attempt")
    case (Found fs)
    then have "fs = findings" using Suc.prems by (auto split: if_splits)
    then show ?thesis using Found by auto
  next
    case (Http_error_answer status headers)
    then show ?thesis using Suc.prems later by (cases "run_attempts cancelled call (Suc attempt) left") (auto split: if_splits)
  next
    case Connection_lost
    then show ?thesis using Suc.prems later by (cases "run_attempts cancelled call (Suc attempt) left") (auto split: if_splits)
  qed (use Suc.prems in \<open>auto split: if_splits\<close>)
qed simp

lemma retries_never_exhausted: "fst (run_provider_with_retries cancelled max_retries call) \<noteq> Inl Retries_exhausted"
proof -
  have "fst (run_attempts cancelled call attempt (Suc left)) \<noteq> Inl Retries_exhausted" for attempt left
    by (induction left arbitrary: attempt) (auto split: call_outcome.splits simp del: run_attempts.simps(2) simp: run_attempts.simps(2) [of _ _ _ 0] run_attempts.simps(2) [of _ _ _ "Suc _"])
  moreover obtain n where "nat (max 1 (max_retries + 1)) = Suc n" by (cases "nat (max 1 (max_retries + 1))") auto
  ultimately show ?thesis by (simp add: run_provider_with_retries_def del: run_attempts.simps)
qed

lemma fold_complete_request:
  "fold (complete_request env) rs (given, c) =
    (map (\<lambda>(d, fs). (d, fs @ concat (map (selected_findings env) (filter (\<lambda>r. fst r = d) rs)))) given, c @ concat (map (selected_findings env) rs))"
proof (induction rs arbitrary: given c)
  case Nil
  then show ?case by simp
next
  case (Cons r rs)
  have "fold (complete_request env) (r # rs) (given, c) =
      fold (complete_request env) rs (map (\<lambda>(d, fs). if d = fst r then (d, fs @ selected_findings env r) else (d, fs)) given, c @ selected_findings env r)"
    by (simp add: complete_request_def Let_def)
  also have "\<dots> = (map (\<lambda>(d, fs). (d, fs @ concat (map (selected_findings env) (filter (\<lambda>x. fst x = d) (r # rs))))) given,
      c @ concat (map (selected_findings env) (r # rs)))"
    unfolding Cons.IH by (auto simp: comp_def)
  finally show ?case .
qed

lemma set_pending_requests:
  "(d, p) \<in> set (pending_requests env force s ds) \<longleftrightarrow>
    d \<in> set ds \<and> \<not> locked_in s d \<and> p \<in> set (re_sources env) \<and> es_enabled p \<and> (force \<or> es_name p \<notin> rf_provider ` set (cached_findings env s d))"
  by (auto simp: pending_requests_def split: if_splits)

text \<open>Sources that need not be asked do not matter.\<close>

lemma selected_findings_cong: "re_answer env (fst r) (snd r) = re_answer env' (fst r) (snd r) \<Longrightarrow> selected_findings env r = selected_findings env' r"
  by (simp add: selected_findings_def)

lemma fresh_cache_needs_no_request:
  "(\<And>p. p \<in> set (re_sources env) \<Longrightarrow> es_enabled p \<Longrightarrow> es_name p \<in> rf_provider ` set (cached_findings env s d)) \<Longrightarrow>
    (d, p) \<notin> set (pending_requests env False s ds)"
  by (auto simp: set_pending_requests)

section \<open>Property\<close>


section \<open>Example\<close>

definition ex_source :: evidence_source where
  "ex_source = \<lparr>es_name = ''Registry'', es_kind = ''rdap'', es_enabled = True, es_base_url = [], es_api_key = [], es_min_interval_sec = 1,
     es_refresh_interval_hours = 24, es_max_results = 1, es_test_domain = []\<rparr>"

definition ex_research_env :: research_env where
  "ex_research_env = \<lparr>re_conv = ex_conv, re_profiles = [], re_sources = [ex_source, ex_source\<lparr>es_name := ''Broken''\<rparr>], re_max_age_days = 30, re_now = 1000,
     re_answer = (\<lambda>d p. if es_name p = ''Broken'' then Inl No_connection else Inr [negative_finding d p ''first'' 1000, negative_finding d p ''second'' 1000]),
     re_cancel = Never\<rparr>"

definition ex_locked_db :: db where
  "ex_locked_db = (case set_domain_lock ''b.com'' ''deny'' [] 5 empty_db of Inr s \<Rightarrow> s | Inl _ \<Rightarrow> empty_db)"


end
