(* ===== verification/Updater.thy ===== *)
theory Updater
  imports Config
begin

text \<open>
  \<open>pihole_manager/updater.py\<close>, the decisions: which release and which of its files is an update for this machine, whether an
  unpacked archive is one that may be installed, where the members of an archive go, and the quoting of values in the installer scripts. The file system, the
  downloads, the answers of GitHub and the running platform are arguments; numbers of a version tag have at most 4300 digits.
\<close>

section \<open>Versions\<close>

text \<open>The groups of \<open>_VERSION_RE\<close>: digits, up to two more after dots, and what follows a hyphen or a plus sign.\<close>

definition digits_value :: "string \<Rightarrow> int" where
  "digits_value s = fold (\<lambda>c n. n * 10 + digit_value c) s 0"

definition dotted_number :: "string \<Rightarrow> string \<times> string" where
  "dotted_number s =
     (case s of
        c # cs \<Rightarrow> if c = CHR ''.'' \<and> takeWhile py_isdigit cs \<noteq> [] then (takeWhile py_isdigit cs, dropWhile py_isdigit cs) else ([], s)
      | [] \<Rightarrow> ([], []))"

definition version_groups :: "string \<Rightarrow> (string \<times> string \<times> string \<times> string) option" where
  "version_groups s =
     (let s = (case s of c # cs \<Rightarrow> if c = CHR ''v'' then cs else s | [] \<Rightarrow> []);
          major = takeWhile py_isdigit s;
          (minor, rest) = dotted_number (dropWhile py_isdigit s);
          (patch, rest) = dotted_number rest
      in if major = [] then None
         else case rest of
           [] \<Rightarrow> Some (major, minor, patch, [])
         | c # suffix \<Rightarrow> if c \<in> {CHR ''-'', CHR ''+''} \<and> CHR 0x0A \<notin> set suffix then Some (major, minor, patch, suffix) else None)"

type_synonym version_key = "int \<times> int \<times> int \<times> int \<times> string"

definition version_key :: "string \<Rightarrow> version_key" where
  "version_key value =
     (let normalized = py_strip value in
      case version_groups normalized of
        None \<Rightarrow> (0, 0, 0, -1, py_lower normalized)
      | Some (major, minor, patch, suffix) \<Rightarrow>
          (digits_value major, digits_value minor, digits_value patch, if suffix = [] then 1 else 0, suffix))"

definition compare_versions :: "string \<Rightarrow> string \<Rightarrow> int" where
  "compare_versions left right =
     (if version_key right < version_key left then 1 else 0) - (if version_key left < version_key right then 1 else 0)"

section \<open>Releases\<close>

record release_asset =
  ra_name :: string
  ra_download_url :: string
  ra_size :: int
  ra_digest :: string

record update_info =
  ui_current_version :: string
  ui_latest_version :: string
  ui_release_name :: string
  ui_release_url :: string
  ui_release_notes :: string
  ui_published_at :: string
  ui_asset :: "release_asset option"
  ui_channel :: string
  ui_build_id :: string
  ui_current_build_id :: string
  ui_build_based :: bool

record install_manifest =
  im_application :: string
  im_version :: string
  im_channel :: string
  im_platform :: string
  im_architecture :: string
  im_entrypoint :: string
  im_build_id :: string
  im_schema_version :: int

text \<open>What may be raised besides \<open>exn\<close>: \<open>HTTPError\<close> with its status, a failed \<open>int\<close>, \<open>AttributeError\<close>. An answer of GitHub is a
  JSON value or an error.\<close>

datatype update_error = Update_exn exn | Http_failure int | Int_failure | Attribute_failure

datatype http_answer = Body json | Http_error int | Transport_error exn

definition same_build_id :: "string \<Rightarrow> string \<Rightarrow> bool" where
  "same_build_id left right =
     (let l = py_lower (py_strip left); r = py_lower (py_strip right) in
      l \<noteq> [] \<and> r \<noteq> [] \<and> (py_startswith r l \<or> py_startswith l r))"

definition available :: "update_info \<Rightarrow> bool" where
  "available u =
     (if ui_build_based u then ui_build_id u \<noteq> [] \<and> \<not> same_build_id (ui_build_id u) (ui_current_build_id u)
      else 0 < compare_versions (ui_latest_version u) (ui_current_version u))"

definition should_check :: "bool \<Rightarrow> int \<Rightarrow> int \<Rightarrow> int \<Rightarrow> bool" where
  "should_check check_automatically interval_hours last_check_at now \<longleftrightarrow>
     check_automatically \<and> max 1 interval_hours * 3600 \<le> now - max 0 last_check_at"

text \<open>\<open>str(payload.get(k) or "")\<close>, and the first of two fields that is not empty.\<close>

definition get_text :: "py_conv \<Rightarrow> string \<Rightarrow> jobj \<Rightarrow> string" where
  "get_text conv k p = str_default conv (jget k p) []"

definition first_text :: "py_conv \<Rightarrow> string \<Rightarrow> string \<Rightarrow> jobj \<Rightarrow> string" where
  "first_text conv k k' p = (if json_truthy (jget k p) then py_str conv (jget k p) else get_text conv k' p)"

definition is_development_release :: "py_conv \<Rightarrow> jobj \<Rightarrow> bool" where
  "is_development_release conv p \<longleftrightarrow>
     json_truthy (jget ''prerelease'' p) \<and>
     (py_lower (get_text conv ''target_commitish'' p) = ''dev'' \<or> py_startswith ''dev-'' (py_lower (get_text conv ''tag_name'' p)) \<or>
      py_contains ''development build'' (py_lower (get_text conv ''name'' p)))"

definition release_build_id :: "py_conv \<Rightarrow> jobj \<Rightarrow> string" where
  "release_build_id conv p =
     (let tag = py_strip (get_text conv ''tag_name'' p); target = py_strip (get_text conv ''target_commitish'' p) in
      if target \<noteq> [] \<and> py_lower target \<noteq> ''dev'' then target
      else if py_startswith ''dev-'' (py_lower tag) then last (py_split (CHR ''-'') tag)
      else str_or target tag)"

fun max_by :: "('a \<Rightarrow> 'b::linorder) \<Rightarrow> 'a \<Rightarrow> 'a list \<Rightarrow> 'a" where
  "max_by f x [] = x"
| "max_by f x (y # ys) = max_by f (if f x < f y then y else x) ys"

definition choose_release :: "py_conv \<Rightarrow> json list \<Rightarrow> update_error + jobj" where
  "choose_release conv releases =
     (let candidates = filter (\<lambda>p. \<not> json_truthy (jget ''draft'' p)) (jobjs releases) in
      case candidates of
        [] \<Rightarrow> Inl (Update_exn (ValueError ''No published GitHub release or prerelease was found''))
      | c # _ \<Rightarrow>
          if is_development_release conv c then Inr c
          else case filter (\<lambda>p. \<not> is_development_release conv p) candidates of
            [] \<Rightarrow> Inl (Update_exn (ValueError ''max() arg is an empty sequence''))
          | x # xs \<Rightarrow> Inr (max_by (\<lambda>p. version_key (first_text conv ''tag_name'' ''name'' p)) x xs))"

definition http_error :: "int \<Rightarrow> update_error" where
  "http_error status =
     (if status = 404
      then Update_exn (RuntimeError ''GitHub releases are unavailable. The repository is currently private, missing, or has not been published yet.'')
      else Http_failure status)"

text \<open>\<open>latest\<close> and \<open>releases\<close> are the answers of the two addresses.\<close>

definition fetch_release_payload :: "py_conv \<Rightarrow> http_answer \<Rightarrow> http_answer \<Rightarrow> string \<Rightarrow> update_error + jobj" where
  "fetch_release_payload conv latest releases channel =
     (case (if channel = ''stable'' then latest else releases) of
        Http_error status \<Rightarrow> Inl (http_error status)
      | Transport_error e \<Rightarrow> Inl (Update_exn e)
      | Body v \<Rightarrow>
          if channel = ''stable''
          then (case v of JObj p \<Rightarrow> Inr p | _ \<Rightarrow> Inl (Update_exn (ValueError ''GitHub returned an invalid release response'')))
          else (case v of JList vs \<Rightarrow> choose_release conv vs | _ \<Rightarrow> Inl (Update_exn (ValueError ''GitHub returned an invalid releases response''))))"

section \<open>Files of a release\<close>

definition x64_aliases :: "string list" where
  "x64_aliases = [''x64'', ''amd64'', ''x86_64'']"

definition arm64_aliases :: "string list" where
  "arm64_aliases = [''arm64'', ''aarch64'']"

definition architecture_id :: "string \<Rightarrow> update_error + string" where
  "architecture_id machine =
     (let m = py_lower machine in
      if m \<in> {''amd64'', ''x86_64'', ''x64''} then Inr ''x64'' else if m \<in> {''arm64'', ''aarch64''} then Inr ''arm64''
      else Inl (Update_exn (RuntimeError (''Unsupported CPU architecture: '' @ m))))"

definition asset_priority :: "string \<Rightarrow> string \<Rightarrow> string \<Rightarrow> int \<times> string" where
  "asset_priority name current_platform current_arch =
     (let lower = py_lower name in
      if \<not> py_contains ''pi-hole-manager'' lower \<or> py_contains ''source'' lower then (9, lower)
      else let platform_match = py_contains current_platform lower;
               arch_match = list_ex (\<lambda>a. py_contains a lower) (if current_arch = ''x64'' then x64_aliases else arm64_aliases)
           in if platform_match \<and> arch_match then (0, lower)
              else if platform_match \<and> \<not> list_ex (\<lambda>a. py_contains a lower) (x64_aliases @ arm64_aliases) then (1, lower)
              else (9, lower))"

definition asset_of :: "py_conv \<Rightarrow> jobj \<Rightarrow> update_error + release_asset" where
  "asset_of conv item =
     (let size = jget ''size'' item in
      case (if json_truthy size then py_int_of size else Some 0) of
        None \<Rightarrow> Inl Int_failure
      | Some n \<Rightarrow> Inr \<lparr>ra_name = py_strip (get_text conv ''name'' item), ra_download_url = py_strip (get_text conv ''browser_download_url'' item),
          ra_size = max 0 n, ra_digest = py_strip (get_text conv ''digest'' item)\<rparr>)"

definition asset_candidates :: "py_conv \<Rightarrow> string \<Rightarrow> string \<Rightarrow> json list \<Rightarrow> ((int \<times> string) \<times> jobj) list" where
  "asset_candidates conv platform arch raw =
     filter (\<lambda>(priority, item). fst priority < 9)
       (map (\<lambda>item. (asset_priority (py_strip (get_text conv ''name'' item)) platform arch, item))
         (filter (\<lambda>item. py_endswith ''.zip'' (py_lower (py_strip (get_text conv ''name'' item)))) (jobjs raw)))"

text \<open>The platform is read for a list only; an unknown processor raises then.\<close>

definition select_asset :: "py_conv \<Rightarrow> string \<Rightarrow> string \<Rightarrow> json \<Rightarrow> update_error + release_asset option" where
  "select_asset conv platform machine raw_assets =
     (case raw_assets of
        JList raw \<Rightarrow>
          (case architecture_id machine of
             Inl e \<Rightarrow> Inl e
           | Inr arch \<Rightarrow>
               (case sort_key fst (asset_candidates conv platform arch raw) of
                  [] \<Rightarrow> Inr None
                | (_, item) # _ \<Rightarrow> map_sum id Some (asset_of conv item)))
      | _ \<Rightarrow> Inr None)"

section \<open>The check\<close>

definition normalize_channel :: "string \<Rightarrow> update_error + string" where
  "normalize_channel channel =
     (let value = py_lower (py_strip channel) in
      if value \<in> {''stable'', ''prerelease''} then Inr value else Inl (Update_exn (ValueError (''Unsupported update channel: '' @ channel))))"

definition display_version :: "string \<Rightarrow> string \<Rightarrow> string \<Rightarrow> string" where
  "display_version own tag channel =
     (let stripped = lstrip_by (\<lambda>c. c \<in> {CHR ''v'', CHR ''V''}) tag in
      if channel = ''prerelease'' \<and> py_startswith ''dev-'' (py_lower stripped) then own else stripped)"

text \<open>The manifest file: \<^const>\<open>None\<close> when it cannot be read as JSON.\<close>

definition read_install_manifest :: "py_conv \<Rightarrow> json option \<Rightarrow> update_error + install_manifest option" where
  "read_install_manifest conv stored =
     (case stored of
        None \<Rightarrow> Inr None
      | Some (JObj raw) \<Rightarrow>
          (case (if json_truthy (jget ''schema_version'' raw) then py_int_of (jget ''schema_version'' raw) else Some 1) of
             None \<Rightarrow> Inr None
           | Some n \<Rightarrow> Inr (Some \<lparr>im_application = get_text conv ''application'' raw, im_version = get_text conv ''version'' raw,
               im_channel = str_default conv (jget ''channel'' raw) ''stable'', im_platform = get_text conv ''platform'' raw,
               im_architecture = get_text conv ''architecture'' raw, im_entrypoint = get_text conv ''entrypoint'' raw,
               im_build_id = get_text conv ''build_id'' raw, im_schema_version = n\<rparr>))
      | Some _ \<Rightarrow> Inl Attribute_failure)"

definition update_bind :: "update_error + 'a \<Rightarrow> ('a \<Rightarrow> update_error + 'b) \<Rightarrow> update_error + 'b" where
  "update_bind m f = (case m of Inl e \<Rightarrow> Inl e | Inr x \<Rightarrow> f x)"

definition check_for_update ::
  "py_conv \<Rightarrow> string \<Rightarrow> string \<Rightarrow> string \<Rightarrow> json option \<Rightarrow> http_answer \<Rightarrow> http_answer \<Rightarrow> string \<Rightarrow> string \<Rightarrow> update_error + update_info" where
  "check_for_update conv own platform machine stored latest releases channel current_version =
     update_bind (normalize_channel channel) (\<lambda>normalized_channel.
     update_bind (fetch_release_payload conv latest releases normalized_channel) (\<lambda>payload.
       let latest_version = py_strip (first_text conv ''tag_name'' ''name'' payload) in
       if latest_version = [] then Inl (Update_exn (ValueError ''The GitHub release contains no version tag''))
       else update_bind (read_install_manifest conv stored) (\<lambda>current_manifest.
            update_bind (select_asset conv platform machine (jget ''assets'' payload)) (\<lambda>asset.
              Inr \<lparr>ui_current_version = current_version, ui_latest_version = display_version own latest_version normalized_channel,
                ui_release_name = str_default conv (jget ''name'' payload) latest_version, ui_release_url = get_text conv ''html_url'' payload,
                ui_release_notes = get_text conv ''body'' payload, ui_published_at = get_text conv ''published_at'' payload, ui_asset = asset,
                ui_channel = normalized_channel, ui_build_id = release_build_id conv payload,
                ui_current_build_id = (case current_manifest of Some m \<Rightarrow> im_build_id m | None \<Rightarrow> []), ui_build_based = is_development_release conv payload\<rparr>))))"

section \<open>What may be installed\<close>

text \<open>\<open>_verify_digest\<close>, and the end of \<open>download_update\<close>: the file is kept when there is no digest or the digest is right.\<close>

definition verify_digest :: "string \<Rightarrow> string \<Rightarrow> bool" where
  "verify_digest expected actual_sha256 =
     (let algorithm = takeWhile (\<lambda>c. c \<noteq> CHR '':'') expected; rest = dropWhile (\<lambda>c. c \<noteq> CHR '':'') expected in
      expected \<noteq> [] \<and> rest \<noteq> [] \<and> py_lower algorithm = ''sha256'' \<and> py_lower (py_strip (tl rest)) = py_lower (py_strip actual_sha256))"

definition accept_download :: "(string \<Rightarrow> string) \<Rightarrow> update_info \<Rightarrow> string \<Rightarrow> update_error + bool" where
  "accept_download sha256 u content =
     (case ui_asset u of
        None \<Rightarrow> Inl (Update_exn (ValueError ''The release has no suitable downloadable Onedir ZIP asset''))
      | Some a \<Rightarrow>
          let verified = verify_digest (ra_digest a) (sha256 content) in
          if ra_digest a \<noteq> [] \<and> \<not> verified then Inl (Update_exn (ValueError ''Downloaded update failed SHA-256 verification''))
          else Inr verified)"

definition can_install_update :: "py_conv \<Rightarrow> json option \<Rightarrow> (string \<Rightarrow> bool) \<Rightarrow> bool \<Rightarrow> update_error + bool" where
  "can_install_update conv stored is_file parent_writable =
     map_sum id (\<lambda>m. case m of None \<Rightarrow> False | Some m \<Rightarrow> im_application m = ''pi-hole-manager'' \<and> is_file (im_entrypoint m) \<and> parent_writable)
       (read_install_manifest conv stored)"

definition validate_manifest :: "string \<Rightarrow> string \<Rightarrow> install_manifest \<Rightarrow> update_info \<Rightarrow> update_error + unit" where
  "validate_manifest platform machine m u =
     (if im_application m \<noteq> ''pi-hole-manager'' then Inl (Update_exn (ValueError ''The update archive is not a Pi-hole Manager build''))
      else if im_schema_version m \<noteq> 1 then Inl (Update_exn (ValueError ''Unsupported update manifest version''))
      else if im_platform m \<noteq> platform then Inl (Update_exn (ValueError (''This update targets '' @ im_platform m @ '', not '' @ platform)))
      else update_bind (architecture_id machine) (\<lambda>arch.
        if im_architecture m \<noteq> arch then Inl (Update_exn (ValueError (''This update targets '' @ im_architecture m @ '', not '' @ arch)))
        else if ui_build_based u
        then (if ui_build_id u \<noteq> [] \<and> im_build_id m \<noteq> [] \<and> \<not> same_build_id (ui_build_id u) (im_build_id m)
              then Inl (Update_exn (ValueError ''The development build ID does not match the release'')) else Inr ())
        else if compare_versions (im_version m) (ui_latest_version u) \<noteq> 0
        then Inl (Update_exn (ValueError ''The update version does not match the selected release''))
        else Inr ()))"

section \<open>Unpacking\<close>

text \<open>A member of an archive: its name and the mode of its file, whose type is in the bits from 12 on. A path is the list of its components;
  \<open>resolve\<close> of a path without symbolic links removes \<open>..\<close> components.\<close>

record zip_member =
  zm_filename :: string
  zm_mode :: int

definition is_link :: "int \<Rightarrow> bool" where
  "is_link mode \<longleftrightarrow> (mode div 4096) mod 16 = 10"

definition path_parts :: "string \<Rightarrow> string list" where
  "path_parts name = filter (\<lambda>p. p \<noteq> [] \<and> p \<noteq> ''.'') (py_split (CHR ''/'') name)"

definition resolve :: "string list \<Rightarrow> string list" where
  "resolve parts = fold (\<lambda>p acc. if p = ''..'' then butlast acc else acc @ [p]) parts []"

definition inside :: "string list \<Rightarrow> string list \<Rightarrow> bool" where
  "inside dest path \<longleftrightarrow> length dest \<le> length path \<and> take (length dest) path = dest"

definition check_member :: "string list \<Rightarrow> zip_member \<Rightarrow> update_error + unit" where
  "check_member dest info =
     (let name = py_replace (CHR 0x5C) (CHR ''/'') (zm_filename info); parts = path_parts name in
      if name = [] \<or> py_startswith ''/'' name \<or> ''..'' \<in> set parts then Inl (Update_exn (ValueError (''Unsafe archive member: '' @ zm_filename info)))
      else if is_link (zm_mode info) then Inl (Update_exn (ValueError (''Symbolic links are not allowed in updates: '' @ zm_filename info)))
      else if \<not> inside (resolve dest) (resolve (dest @ parts)) then Inl (Update_exn (ValueError (''Unsafe archive member: '' @ zm_filename info)))
      else Inr ())"

text \<open>\<open>_safe_extract_zip\<close>: every member is checked before the first is written; the result is the list of the targets that were checked.\<close>

definition safe_extract_zip :: "string list \<Rightarrow> zip_member list \<Rightarrow> update_error + string list list" where
  "safe_extract_zip dest members =
     fold_res (\<lambda>info out. map_sum id (\<lambda>_. out @ [resolve (dest @ path_parts (py_replace (CHR 0x5C) (CHR ''/'') (zm_filename info)))]) (check_member dest info)) members []"

text \<open>\<open>_find_staged_root\<close>: the directories directly below the container that hold a manifest.\<close>

definition find_staged_root :: "bool \<Rightarrow> string list \<Rightarrow> update_error + string list" where
  "find_staged_root direct manifest_dirs =
     (if direct then Inr []
      else case manifest_dirs of [d] \<Rightarrow> Inr [d] | _ \<Rightarrow> Inl (Update_exn (ValueError ''The update archive must contain exactly one Onedir application'')))"

definition preserved_base :: "string list" where
  "preserved_base = [''options.json'', ''pihole_manager.sqlite3'', ''pihole_manager.sqlite3-wal'', ''pihole_manager.sqlite3-shm'', ''evidence_cache'', ''updates'']"

definition preserved_names :: "string list \<Rightarrow> string list" where
  "preserved_names log_files = fold (\<lambda>n names. if n \<in> set names then names else names @ [n]) (sort log_files) preserved_base"

section \<open>Quoting\<close>

definition quote_with :: "string \<Rightarrow> string \<Rightarrow> string" where
  "quote_with escaped word = [CHR 0x27] @ concat (map (\<lambda>c. if c = CHR 0x27 then escaped else [c]) word) @ [CHR 0x27]"

definition powershell_quote :: "string \<Rightarrow> string" where
  "powershell_quote word = quote_with [CHR 0x27, CHR 0x27] word"

definition shell_quote :: "string \<Rightarrow> string" where
  "shell_quote word = quote_with [CHR 0x27, CHR 0x22, CHR 0x27, CHR 0x22, CHR 0x27] word"

section \<open>Reading quoted values\<close>

text \<open>How the two shells read one word, for the characters that quoting uses: the POSIX shell joins parts in single quotes, where every character stands
  for itself, with parts in double quotes, where dollar, backquote and backslash are special; PowerShell reads two single quotes within single quotes as
  one. \<^const>\<open>None\<close> is a character with a meaning of its own. A word ends at a blank or a newline outside quotes.\<close>

datatype quoting = Outside | Single | Double

fun sh_word :: "quoting \<Rightarrow> string \<Rightarrow> (string \<times> string) option" where
  "sh_word Outside [] = Some ([], [])"
| "sh_word Outside (c # cs) =
     (if c = CHR 0x27 then sh_word Single cs else if c = CHR 0x22 then sh_word Double cs
      else if c \<in> {CHR '' '', CHR 0x0A} then Some ([], c # cs) else None)"
| "sh_word Single [] = None"
| "sh_word Single (c # cs) = (if c = CHR 0x27 then sh_word Outside cs else map_option (apfst (Cons c)) (sh_word Single cs))"
| "sh_word Double [] = None"
| "sh_word Double (c # cs) =
     (if c = CHR 0x22 then sh_word Outside cs else if c \<in> {CHR ''$'', CHR 0x60, CHR 0x5C} then None
      else map_option (apfst (Cons c)) (sh_word Double cs))"

fun ps_string :: "string \<Rightarrow> (string \<times> string) option" where
  "ps_string [] = None"
| "ps_string (c # cs) =
     (if c = CHR 0x27
      then (case cs of d # ds \<Rightarrow> if d = CHR 0x27 then map_option (apfst (Cons c)) (ps_string ds) else Some ([], cs) | [] \<Rightarrow> Some ([], []))
      else map_option (apfst (Cons c)) (ps_string cs))"

definition ps_word :: "string \<Rightarrow> (string \<times> string) option" where
  "ps_word s = (case s of c # cs \<Rightarrow> if c = CHR 0x27 then ps_string cs else None | [] \<Rightarrow> None)"

lemma sh_word_body:
  "sh_word Single (concat (map (\<lambda>c. if c = CHR 0x27 then [CHR 0x27, CHR 0x22, CHR 0x27, CHR 0x22, CHR 0x27] else [c]) word) @ rest) =
    map_option (apfst ((@) word)) (sh_word Single rest)"
proof (induction word)
  case Nil
  then show ?case by (cases "sh_word Single rest") auto
next
  case (Cons c word)
  then show ?case by (cases "sh_word Single rest") auto
qed

lemma ps_string_body:
  "ps_string (concat (map (\<lambda>c. if c = CHR 0x27 then [CHR 0x27, CHR 0x27] else [c]) word) @ rest) = map_option (apfst ((@) word)) (ps_string rest)"
proof (induction word)
  case Nil
  then show ?case by (cases "ps_string rest") auto
next
  case (Cons c word)
  then show ?case by (cases "ps_string rest") auto
qed

section \<open>Lemmas\<close>

text \<open>An accepted archive: every target lies below the destination, and no member is a link.\<close>

lemma check_member_Inr:
  "check_member dest info = Inr () \<Longrightarrow>
    inside (resolve dest) (resolve (dest @ path_parts (py_replace (CHR 0x5C) (CHR ''/'') (zm_filename info)))) \<and> \<not> is_link (zm_mode info)"
  by (auto simp: check_member_def Let_def split: if_splits)

lemma extraction_step:
  assumes "map_sum id (\<lambda>_. f info out) (check_member dest info) = Inr out'"
  shows "out' = f info out" and "check_member dest info = Inr ()"
  using assms by (cases "check_member dest info"; simp)+

lemma no_links_extracted:
  "fold_res (\<lambda>info out. map_sum id (\<lambda>_. f info out) (check_member dest info)) ms out = Inr ts \<Longrightarrow> list_all (\<lambda>m. \<not> is_link (zm_mode m)) ms"
proof (induction ms arbitrary: out)
  case (Cons m ms)
  then show ?case using check_member_Inr [of dest m] by (cases "check_member dest m") auto
qed simp

lemma targets_inside:
  assumes "fold_res (\<lambda>info out. map_sum id (\<lambda>_. out @ [resolve (dest @ path_parts (py_replace (CHR 0x5C) (CHR ''/'') (zm_filename info)))]) (check_member dest info)) ms out = Inr ts"
    and "list_all (inside (resolve dest)) out"
  shows "list_all (inside (resolve dest)) ts"
  using assms
proof (induction ms arbitrary: out)
  case (Cons m ms)
  then show ?case using check_member_Inr [of dest m] by (cases "check_member dest m") auto
qed simp

lemma extracted_inside:
  assumes "safe_extract_zip dest members = Inr targets"
  shows "list_all (inside (resolve dest)) targets \<and> list_all (\<lambda>m. \<not> is_link (zm_mode m)) members"
  using assms no_links_extracted targets_inside [of dest members "[]" targets] unfolding safe_extract_zip_def by fastforce

text \<open>The chosen file names this platform and no other processor.\<close>

lemma map_sum_Some: "map_sum id Some m = Inr (Some x) \<longleftrightarrow> m = Inr x"
  by (cases m) auto

lemma selected_asset_fits:
  assumes "select_asset conv platform machine raw = Inr (Some a)"
  shows "py_contains platform (py_lower (ra_name a)) \<and> py_endswith ''.zip'' (py_lower (ra_name a)) \<and> \<not> py_contains ''source'' (py_lower (ra_name a)) \<and>
    (\<exists>arch. architecture_id machine = Inr arch \<and>
      (list_ex (\<lambda>x. py_contains x (py_lower (ra_name a))) (if arch = ''x64'' then x64_aliases else arm64_aliases) \<or>
       \<not> list_ex (\<lambda>x. py_contains x (py_lower (ra_name a))) (x64_aliases @ arm64_aliases)))"
proof -
  obtain vs arch p item rest where v: "raw = JList vs" "architecture_id machine = Inr arch"
    and s: "sort_key fst (asset_candidates conv platform arch vs) = (p, item) # rest" and a: "asset_of conv item = Inr a"
    using assms by (auto simp: select_asset_def map_sum_Some split: json.splits sum.splits list.splits prod.splits)
  have "(p, item) \<in> set (asset_candidates conv platform arch vs)" using s by (metis list.set_intros(1) set_sort)
  then have c: "fst (asset_priority (py_strip (get_text conv ''name'' item)) platform arch) < 9" "py_endswith ''.zip'' (py_lower (py_strip (get_text conv ''name'' item)))"
    by (auto simp: asset_candidates_def)
  have n: "ra_name a = py_strip (get_text conv ''name'' item)" using a by (auto simp: asset_of_def Let_def split: option.splits)
  show ?thesis using c v(2) unfolding n by (auto simp: asset_priority_def Let_def split: if_splits)
qed

text \<open>Suffixes are compared as text, so a tenth release candidate is older than the ninth.\<close>

lemma tenth_candidate_is_older: "compare_versions ''v1.0.0-rc.10'' ''v1.0.0-rc.9'' = -1" "compare_versions ''1.0.0'' ''1.0.0-rc.9'' = 1"
  by code_simp+

section \<open>Property\<close>

text \<open>Values in the installer scripts are data: whatever a path, a token, a version or a file name contains (quotes, dollar signs, blanks, newlines),
  the POSIX shell reads the quoted value back as one word, PowerShell as one string, and each goes on exactly behind it.\<close>

theorem quoted_values_read_back:
  "sh_word Outside (shell_quote word @ CHR 0x0A # rest) = Some (word, CHR 0x0A # rest) \<and>
   ps_word (powershell_quote word @ CHR 0x0A # rest) = Some (word, CHR 0x0A # rest)"
  using sh_word_body [of word "CHR 0x27 # CHR 0x0A # rest"] ps_string_body [of word "CHR 0x27 # CHR 0x0A # rest"]
  by (simp add: shell_quote_def powershell_quote_def quote_with_def ps_word_def)

end
