(* ===== verification/Instances.thy ===== *)
theory Instances
  imports Credentials
begin

text \<open>
  \<open>pihole_manager/pihole_instances.py\<close>: the registry of Pi-hole servers, a JSON file whose passwords are kept in the credential store. The file is
  \<^const>\<open>None\<close> when it does not exist, \<open>Some None\<close> when it cannot be read as JSON, else its value. The options of the active server are typed, as
  the validation of the options leaves them; \<open>hexes i\<close> is the identifier that \<open>uuid4\<close> gives for entry \<open>i\<close> of the file, which draws at most one.
\<close>

record pihole_settings =
  ps_base_url :: string
  ps_password :: string
  ps_ca_bundle_path :: string
  ps_timeout_sec :: pyfloat

record pihole_instance =
  pi_instance_id :: string
  pi_name :: string
  pi_base_url :: string
  pi_password :: string
  pi_ca_bundle_path :: string
  pi_timeout_sec :: pyfloat

record instance_registry =
  rg_schema_version :: int
  rg_active_instance_id :: string
  rg_instances :: "pihole_instance list"

datatype instance_error = Instance_exn exn | Not_iterable

type_synonym registry_file = "json option option"

definition registry_schema_version :: int where
  "registry_schema_version = 2"

definition default_url :: string where
  "default_url = ''http://pi.hole''"

definition new_instance_id :: "string \<Rightarrow> string" where
  "new_instance_id hex = ''pihole-'' @ hex"

text \<open>\<open>active()\<close>: when the active identifier is unknown, the first instance becomes active.\<close>

definition active_instance :: "instance_registry \<Rightarrow> instance_error + pihole_instance \<times> instance_registry" where
  "active_instance reg =
     (case List.find (\<lambda>i. pi_instance_id i = rg_active_instance_id reg) (rg_instances reg) of
        Some i \<Rightarrow> Inr (i, reg)
      | None \<Rightarrow>
          (case rg_instances reg of
             [] \<Rightarrow> Inl (Instance_exn (RuntimeError ''Pi-hole instance registry is empty''))
           | i # _ \<Rightarrow> Inr (i, reg\<lparr>rg_active_instance_id := pi_instance_id i\<rparr>)))"

definition instance_from_options :: "string \<Rightarrow> pihole_settings \<Rightarrow> string option \<Rightarrow> string \<Rightarrow> pihole_instance" where
  "instance_from_options hex opts instance_id name =
     \<lparr>pi_instance_id = (case instance_id of Some i \<Rightarrow> str_or i (new_instance_id hex) | None \<Rightarrow> new_instance_id hex), pi_name = name,
      pi_base_url = py_strip (str_or (ps_base_url opts) default_url), pi_password = ps_password opts,
      pi_ca_bundle_path = py_strip (ps_ca_bundle_path opts), pi_timeout_sec = max 1 (ps_timeout_sec opts)\<rparr>"

definition options_from_instance :: "pihole_instance \<Rightarrow> pihole_settings" where
  "options_from_instance i =
     \<lparr>ps_base_url = pi_base_url i, ps_password = pi_password i, ps_ca_bundle_path = pi_ca_bundle_path i, ps_timeout_sec = pi_timeout_sec i\<rparr>"

definition instance_key :: "string \<Rightarrow> string" where
  "instance_key instance_id = ''pihole-instance/'' @ instance_id @ ''/password''"

section \<open>Reading the file\<close>

definition normalize_instance :: "py_conv \<Rightarrow> string \<Rightarrow> jobj \<Rightarrow> nat \<Rightarrow> string set \<Rightarrow> pihole_instance" where
  "normalize_instance conv hex raw index used_ids =
     (let given = py_strip (str_default conv (jget ''instance_id'' raw) []);
          fallback = ''Pi-hole '' @ show_nat (index + 1) in
      \<lparr>pi_instance_id = (if given = [] \<or> given \<in> used_ids then new_instance_id hex else given),
       pi_name = str_or (py_strip (str_default conv (jget ''name'' raw) fallback)) fallback,
       pi_base_url = str_or (py_strip (str_default conv (jget ''base_url'' raw) default_url)) default_url,
       pi_password = str_default conv (jget ''password'' raw) [],
       pi_ca_bundle_path = py_strip (str_default conv (jget ''ca_bundle_path'' raw) []),
       pi_timeout_sec = (case py_float conv (Some (jget_or ''timeout_sec'' (JFloat 10) raw)) of Some x \<Rightarrow> max 1 x | None \<Rightarrow> 10)\<rparr>)"

fun normalize_instances :: "py_conv \<Rightarrow> (nat \<Rightarrow> string) \<Rightarrow> nat \<Rightarrow> string set \<Rightarrow> json list \<Rightarrow> pihole_instance list" where
  "normalize_instances conv hexes index used_ids [] = []"
| "normalize_instances conv hexes index used_ids (v # vs) =
     (case v of
        JObj raw \<Rightarrow>
          let i = normalize_instance conv (hexes index) raw index used_ids
          in i # normalize_instances conv hexes (Suc index) (insert (pi_instance_id i) used_ids) vs
      | _ \<Rightarrow> normalize_instances conv hexes (Suc index) used_ids vs)"

text \<open>The items of \<open>raw.get("instances") or []\<close>: the keys of a dictionary and the characters of a string are no dictionaries, a number or \<open>True\<close> cannot
  be iterated.\<close>

definition raw_instances :: "jobj \<Rightarrow> instance_error + json list" where
  "raw_instances raw =
     (let v = jget ''instances'' raw in
      if \<not> json_truthy v then Inr []
      else case v of JList vs \<Rightarrow> Inr vs | JObj _ \<Rightarrow> Inr [] | JStr _ \<Rightarrow> Inr [] | _ \<Rightarrow> Inl Not_iterable)"

definition file_schema_version :: "jobj \<Rightarrow> int" where
  "file_schema_version raw =
     (let v = jget ''schema_version'' raw in if json_truthy v then as_int v 0 else 0)"

definition fresh_registry :: "(nat \<Rightarrow> string) \<Rightarrow> pihole_settings \<Rightarrow> instance_registry" where
  "fresh_registry hexes opts =
     (let first = instance_from_options (hexes 0) opts None ''Primary Pi-hole'' in
      \<lparr>rg_schema_version = registry_schema_version, rg_active_instance_id = pi_instance_id first, rg_instances = [first]\<rparr>)"

definition matches_settings :: "pihole_settings \<Rightarrow> pihole_instance \<Rightarrow> bool" where
  "matches_settings opts i \<longleftrightarrow>
     pi_base_url i = py_strip (ps_base_url opts) \<and> pi_ca_bundle_path i = py_strip (ps_ca_bundle_path opts) \<and> pi_timeout_sec i = max 1 (ps_timeout_sec opts)"

text \<open>The first element with a property is replaced, the rest is kept.\<close>

fun update_first :: "('a \<Rightarrow> bool) \<Rightarrow> ('a \<Rightarrow> 'a) \<Rightarrow> 'a list \<Rightarrow> 'a list" where
  "update_first p f [] = []"
| "update_first p f (x # xs) = (if p x then f x # xs else x # update_first p f xs)"

text \<open>The registry follows the options: the first instance with their address becomes active, and a lone instance takes their address.\<close>

definition follow_options :: "pihole_settings \<Rightarrow> instance_registry \<Rightarrow> instance_registry" where
  "follow_options opts reg =
     (case List.find (matches_settings opts) (rg_instances reg) of
        Some m \<Rightarrow> reg\<lparr>rg_active_instance_id := pi_instance_id m,
          rg_instances := update_first (matches_settings opts) (\<lambda>i. i\<lparr>pi_password := str_or (ps_password opts) (pi_password i)\<rparr>) (rg_instances reg)\<rparr>
      | None \<Rightarrow>
          (case rg_instances reg of
             [i] \<Rightarrow> reg\<lparr>rg_instances := [i\<lparr>pi_base_url := str_or (py_strip (ps_base_url opts)) (pi_base_url i),
               pi_password := str_or (ps_password opts) (pi_password i), pi_ca_bundle_path := py_strip (ps_ca_bundle_path opts),
               pi_timeout_sec := max 1 (ps_timeout_sec opts)\<rparr>]\<rparr>
           | _ \<Rightarrow> reg))"

definition read_registry ::
  "py_conv \<Rightarrow> (nat \<Rightarrow> string) \<Rightarrow> pihole_settings \<Rightarrow> registry_file \<Rightarrow> instance_error + instance_registry \<times> bool" where
  "read_registry conv hexes opts file =
     (case file of
        Some (Some (JObj raw)) \<Rightarrow>
          let schema = file_schema_version raw in
          if registry_schema_version < schema
          then Inl (Instance_exn (RuntimeError (''Pi-hole instance registry was created by a newer application version (schema '' @ show_int schema @
            ''; supported up to '' @ show_int registry_schema_version @ '').'')))
          else (case raw_instances raw of
            Inl e \<Rightarrow> Inl e
          | Inr vs \<Rightarrow>
              let found = normalize_instances conv hexes 0 {} vs;
                  instances = (if found = [] then [instance_from_options (hexes 0) opts None ''Primary Pi-hole''] else found);
                  given = py_strip (str_default conv (jget ''active_instance_id'' raw) []);
                  active = (if given \<in> pi_instance_id ` set instances then given else pi_instance_id (hd instances))
              in Inr (follow_options opts \<lparr>rg_schema_version = registry_schema_version, rg_active_instance_id = active, rg_instances = instances\<rparr>,
                   schema \<noteq> registry_schema_version))
      | _ \<Rightarrow> Inr (fresh_registry hexes opts, True))"

section \<open>Saving\<close>

definition existing_instance_ids :: "py_conv \<Rightarrow> registry_file \<Rightarrow> instance_error + string list" where
  "existing_instance_ids conv file =
     (case file of
        Some (Some (JObj raw)) \<Rightarrow>
          map_sum id (\<lambda>vs. fromkeys (filter (\<lambda>i. i \<noteq> []) (map (\<lambda>r. py_strip (str_default conv (jget ''instance_id'' r) [])) (jobjs vs)))) (raw_instances raw)
      | _ \<Rightarrow> Inr [])"

definition instance_dict :: "pihole_instance \<Rightarrow> jobj" where
  "instance_dict i =
     [(''instance_id'', JStr (pi_instance_id i)), (''name'', JStr (pi_name i)), (''base_url'', JStr (pi_base_url i)), (''password'', JStr (pi_password i)),
      (''ca_bundle_path'', JStr (pi_ca_bundle_path i)), (''timeout_sec'', JFloat (pi_timeout_sec i))]"

text \<open>One password: it leaves the payload when the store has taken it; an empty one is deleted there.\<close>

definition secure_instance :: "'s keyring \<Rightarrow> pihole_instance \<Rightarrow> 's cred_world \<Rightarrow> pihole_instance \<times> 's cred_world" where
  "secure_instance kr i w =
     (let key = instance_key (pi_instance_id i) in
      if pi_password i \<noteq> []
      then (case write_secret kr key (pi_password i) w of (written, w) \<Rightarrow> (if written then i\<lparr>pi_password := []\<rparr> else i, w))
      else (i, snd (delete_secret kr key w)))"

fun thread :: "('a \<Rightarrow> 'w \<Rightarrow> 'b \<times> 'w) \<Rightarrow> 'a list \<Rightarrow> 'w \<Rightarrow> 'b list \<times> 'w" where
  "thread f [] w = ([], w)"
| "thread f (x # xs) w = (case f x w of (y, w) \<Rightarrow> case thread f xs w of (ys, w) \<Rightarrow> (y # ys, w))"

definition registry_refusal :: "instance_registry \<Rightarrow> string option" where
  "registry_refusal reg =
     (let ids = map (\<lambda>i. py_strip (pi_instance_id i)) (rg_instances reg);
          names = map (\<lambda>i. py_lower (py_strip (pi_name i))) (rg_instances reg) in
      if rg_instances reg = [] then Some ''At least one Pi-hole instance is required''
      else if [] \<in> set ids \<or> \<not> distinct ids then Some ''Pi-hole instance IDs must be non-empty and unique''
      else if [] \<in> set names \<or> \<not> distinct names then Some ''Pi-hole instance names must be non-empty and unique''
      else if rg_active_instance_id reg \<notin> set ids then Some ''Active Pi-hole instance is not present in the registry''
      else None)"

definition registry_payload :: "string \<Rightarrow> pihole_instance list \<Rightarrow> json" where
  "registry_payload active instances =
     JObj [(''schema_version'', JInt registry_schema_version), (''active_instance_id'', JStr active), (''instances'', JList (map (JObj \<circ> instance_dict) instances))]"

text \<open>\<open>save_pihole_instances\<close>: the passwords are written before the old file is looked at, and the passwords of removed instances are deleted after the
  new file is in place. (The source deletes them in the order of a set.)\<close>

definition save_pihole_instances ::
  "'s keyring \<Rightarrow> py_conv \<Rightarrow> instance_registry \<Rightarrow> registry_file \<Rightarrow> 's cred_world \<Rightarrow> (instance_error + unit) \<times> registry_file \<times> 's cred_world" where
  "save_pihole_instances kr conv reg file w =
     (case registry_refusal reg of
        Some msg \<Rightarrow> (Inl (Instance_exn (ValueError msg)), file, w)
      | None \<Rightarrow>
          (case thread (secure_instance kr) (rg_instances reg) w of (secured, w) \<Rightarrow>
             (case existing_instance_ids conv file of
                Inl e \<Rightarrow> (Inl e, file, w)
              | Inr old \<Rightarrow>
                  let ids = map (\<lambda>i. py_strip (pi_instance_id i)) (rg_instances reg) in
                  (Inr (), Some (Some (registry_payload (rg_active_instance_id reg) secured)),
                   fold (\<lambda>i w. snd (delete_secret kr (instance_key i) w)) (filter (\<lambda>i. i \<notin> set ids) old) w))))"

section \<open>Loading\<close>

definition hydrate_password :: "'s keyring \<Rightarrow> pihole_instance \<Rightarrow> 's cred_world \<Rightarrow> (bool \<times> pihole_instance) \<times> 's cred_world" where
  "hydrate_password kr i w =
     (let key = instance_key (pi_instance_id i) in
      case read_secret kr key w of
        ((State_PRESENT, secret), w) \<Rightarrow> ((pi_password i \<noteq> [], i\<lparr>pi_password := secret\<rparr>), w)
      | ((State_MISSING, _), w) \<Rightarrow>
          if pi_password i = [] then ((False, i), w)
          else (case write_secret kr key (pi_password i) w of (written, w) \<Rightarrow> ((written, i), w))
      | ((State_UNAVAILABLE, _), w) \<Rightarrow> ((False, i), w))"

definition load_pihole_instances ::
  "'s keyring \<Rightarrow> py_conv \<Rightarrow> (nat \<Rightarrow> string) \<Rightarrow> pihole_settings \<Rightarrow> registry_file \<Rightarrow> 's cred_world \<Rightarrow>
    (instance_error + instance_registry) \<times> registry_file \<times> 's cred_world" where
  "load_pihole_instances kr conv hexes opts file w =
     (case read_registry conv hexes opts file of
        Inl e \<Rightarrow> (Inl e, file, w)
      | Inr (reg, should_rewrite) \<Rightarrow>
          (case thread (hydrate_password kr) (rg_instances reg) w of (hydrated, w) \<Rightarrow>
             let reg = reg\<lparr>rg_instances := map snd hydrated\<rparr> in
             if should_rewrite \<or> list_ex fst hydrated \<or> file = None
             then (case save_pihole_instances kr conv reg file w of (result, file, w) \<Rightarrow> (map_sum id (\<lambda>_. reg) result, file, w))
             else (Inr reg, file, w)))"

section \<open>What reading a file gives\<close>

text \<open>Instances as the reader leaves them: stripped texts, a name, an address and at least one second.\<close>

definition stable_instance :: "pihole_instance \<Rightarrow> bool" where
  "stable_instance i \<longleftrightarrow>
     pi_instance_id i \<noteq> [] \<and> py_strip (pi_instance_id i) = pi_instance_id i \<and> pi_name i \<noteq> [] \<and> py_strip (pi_name i) = pi_name i \<and>
     pi_base_url i \<noteq> [] \<and> py_strip (pi_base_url i) = pi_base_url i \<and> py_strip (pi_ca_bundle_path i) = pi_ca_bundle_path i \<and> 1 \<le> pi_timeout_sec i"

lemma normalize_instance_dict:
  assumes "stable_instance i" and "pi_instance_id i \<notin> used"
  shows "normalize_instance conv hex (instance_dict i) n used = i"
  using assms
  by (simp add: normalize_instance_def instance_dict_def stable_instance_def str_default_def str_field_def jget_def jget_or_def str_or_def Let_def)

lemma normalize_instances_dicts:
  assumes "list_all stable_instance xs" and "distinct (map pi_instance_id xs)" and "pi_instance_id ` set xs \<inter> used = {}"
  shows "normalize_instances conv hexes n used (map (JObj \<circ> instance_dict) xs) = xs"
  using assms
proof (induction xs arbitrary: n used)
  case (Cons x xs)
  have "pi_instance_id ` set xs \<inter> insert (pi_instance_id x) used = {}" using Cons.prems(2,3) by auto
  then show ?case using Cons by (simp add: normalize_instance_dict Let_def)
qed simp

lemma update_first_unique:
  assumes "distinct xs" and "\<And>y. y \<in> set xs \<Longrightarrow> p y \<longleftrightarrow> y = x"
  shows "update_first p f xs = map (\<lambda>y. if y = x then f y else y) xs"
  using assms
proof (induction xs)
  case (Cons a xs)
  show ?case
  proof (cases "p a")
    case True
    then have "a = x" "x \<notin> set xs" using Cons.prems by auto
    then have "map (\<lambda>y. if y = x then f y else y) xs = xs" by (intro map_idI) auto
    then show ?thesis using True \<open>a = x\<close> by simp
  qed (use Cons in auto)
qed simp

lemma find_unique: "x \<in> set xs \<Longrightarrow> (\<And>y. y \<in> set xs \<Longrightarrow> p y \<longleftrightarrow> y = x) \<Longrightarrow> List.find p xs = Some x"
  by (induction xs) auto

section \<open>Passwords and the store\<close>

lemma instance_key_inj [simp]: "instance_key a = instance_key b \<longleftrightarrow> a = b"
  by (simp add: instance_key_def)

definition blank :: "pihole_instance \<Rightarrow> pihole_instance" where
  "blank i = i\<lparr>pi_password := []\<rparr>"

lemma blank_simps [simp]:
  "pi_instance_id (blank i) = pi_instance_id i" "pi_name (blank i) = pi_name i" "pi_base_url (blank i) = pi_base_url i" "pi_password (blank i) = []"
  "pi_ca_bundle_path (blank i) = pi_ca_bundle_path i" "pi_timeout_sec (blank i) = pi_timeout_sec i" "stable_instance (blank i) = stable_instance i"
  "matches_settings opts (blank i) = matches_settings opts i"
  by (simp_all add: blank_def stable_instance_def matches_settings_def)

definition holds :: "'s keyring \<Rightarrow> 's cred_world \<Rightarrow> pihole_instance \<Rightarrow> bool" where
  "holds kr w i \<longleftrightarrow> stored kr (instance_key (pi_instance_id i)) w = Some (pi_password i)"

lemma secure_instance_works:
  assumes "keyring_works kr" and "no_failed_read w"
  obtains w' where "secure_instance kr i w = (blank i, w')" "holds kr w' i" "no_failed_read w'"
    "\<And>k. k \<noteq> instance_key (pi_instance_id i) \<Longrightarrow> stored kr k w' = stored kr k w"
proof (cases "pi_password i = []")
  case True
  then show ?thesis using that [of "snd (delete_secret kr (instance_key (pi_instance_id i)) w)"] delete_works [OF assms]
    by (simp add: secure_instance_def holds_def blank_def Let_def)
next
  case False
  obtain w' where w': "write_secret kr (instance_key (pi_instance_id i)) (pi_password i) w = (True, w')"
    "stored kr (instance_key (pi_instance_id i)) w' = Some (pi_password i)"
    "\<And>k. k \<noteq> instance_key (pi_instance_id i) \<Longrightarrow> stored kr k w' = stored kr k w" "no_failed_read w'"
    using write_works [OF assms(1)] assms(2) by metis
  show ?thesis by (rule that [of w']) (use False w' in \<open>simp_all add: secure_instance_def holds_def blank_def Let_def\<close>)
qed

lemma secure_all_works:
  assumes "keyring_works kr"
  shows "no_failed_read w \<Longrightarrow> distinct (map pi_instance_id xs) \<Longrightarrow>
    \<exists>w'. thread (secure_instance kr) xs w = (map blank xs, w') \<and> no_failed_read w' \<and> list_all (holds kr w') xs \<and>
      (\<forall>k. k \<notin> instance_key ` pi_instance_id ` set xs \<longrightarrow> stored kr k w' = stored kr k w)"
proof (induction xs arbitrary: w)
  case (Cons x xs)
  obtain w1 where w1: "secure_instance kr x w = (blank x, w1)" "holds kr w1 x" "no_failed_read w1"
    "\<And>k. k \<noteq> instance_key (pi_instance_id x) \<Longrightarrow> stored kr k w1 = stored kr k w"
    using secure_instance_works [OF assms Cons.prems(1)] by metis
  obtain w2 where w2: "thread (secure_instance kr) xs w1 = (map blank xs, w2)" "no_failed_read w2" "list_all (holds kr w2) xs"
    "\<forall>k. k \<notin> instance_key ` pi_instance_id ` set xs \<longrightarrow> stored kr k w2 = stored kr k w1"
    using Cons.IH [OF w1(3)] Cons.prems(2) by auto
  have "instance_key (pi_instance_id x) \<notin> instance_key ` pi_instance_id ` set xs" using Cons.prems(2) by auto
  then have "holds kr w2 x" using w1(2) w2(4) by (simp add: holds_def)
  then show ?case using w1(1,4) w2 by auto
qed simp

lemma delete_all_works:
  assumes "keyring_works kr"
  shows "no_failed_read w \<Longrightarrow> list_all (holds kr w) xs \<Longrightarrow> set old \<inter> pi_instance_id ` set xs = {} \<Longrightarrow>
    no_failed_read (fold (\<lambda>i w. snd (delete_secret kr (instance_key i) w)) old w) \<and>
    list_all (holds kr (fold (\<lambda>i w. snd (delete_secret kr (instance_key i) w)) old w)) xs"
proof (induction old arbitrary: w)
  case (Cons a old)
  note d = delete_works [OF assms Cons.prems(1), where key = "instance_key a"]
  have "list_all (holds kr (snd (delete_secret kr (instance_key a) w))) xs"
    unfolding list_all_iff
  proof
    fix x assume "x \<in> set xs"
    then have "x \<in> set xs" "instance_key (pi_instance_id x) \<noteq> instance_key a" using Cons.prems(3) by auto
    then show "holds kr (snd (delete_secret kr (instance_key a) w)) x" using Cons.prems(2) d(2) by (simp add: list_all_iff holds_def)
  qed
  then show ?case using Cons.IH [OF d(3)] Cons.prems(3) by simp
qed simp

lemma hydrate_password_works:
  assumes "kr_available kr" and "holds kr w i" and "no_failed_read w" and "pi_password j \<in> {[], pi_password i}" and "blank j = blank i"
  obtains b w' where "hydrate_password kr j w = ((b, i), w')" "cw_store w' = cw_store w" "no_failed_read w'"
proof -
  have ids: "pi_instance_id j = pi_instance_id i" using assms(5) by (metis blank_simps(1))
  have upd: "j\<lparr>pi_password := pi_password i\<rparr> = i"
  proof -
    have "j\<lparr>pi_password := pi_password i\<rparr> = (blank j)\<lparr>pi_password := pi_password i\<rparr>" by (simp add: blank_def)
    then show ?thesis unfolding assms(5) by (simp add: blank_def)
  qed
  let ?st = "if pi_password i \<noteq> [] then State_PRESENT else State_MISSING"
  obtain g where g: "kr_get kr (instance_key (pi_instance_id i)) (cw_store w) = Some g" "pi_password i = (case g of Some s \<Rightarrow> s | None \<Rightarrow> [])"
    using assms(2) by (auto simp: holds_def stored_def)
  then have r: "read_secret kr (instance_key (pi_instance_id i)) w = ((?st, pi_password i), set_read_state (instance_key (pi_instance_id i)) ?st w)"
    using assms(1) by (simp add: read_secret_def Let_def)
  have n: "no_failed_read (set_read_state (instance_key (pi_instance_id i)) ?st w)"
    using no_failed_set [OF assms(3), of ?st _ "cw_store w"] by simp
  show ?thesis
  proof (cases "pi_password i = []")
    case True
    then have "j = i" using upd assms(4) by (metis empty_iff insert_iff pihole_instance.surjective pihole_instance.update_convs(4))
    then show ?thesis using that [of False] r n True by (simp add: hydrate_password_def set_read_state_def)
  next
    case False
    then show ?thesis using that [of "pi_password j \<noteq> []"] r n upd ids by (simp add: hydrate_password_def set_read_state_def)
  qed
qed

lemma holds_same_store: "cw_store w' = cw_store w \<Longrightarrow> holds kr w' i = holds kr w i"
  by (simp add: holds_def stored_def)

lemma hydrate_all_works:
  assumes "kr_available kr"
  shows "list_all (holds kr w) xs \<Longrightarrow> no_failed_read w \<Longrightarrow> list_all2 (\<lambda>j i. pi_password j \<in> {[], pi_password i} \<and> blank j = blank i) ys xs \<Longrightarrow>
    \<exists>hs w'. thread (hydrate_password kr) ys w = (hs, w') \<and> map snd hs = xs \<and> no_failed_read w'"
proof (induction ys arbitrary: xs w)
  case (Cons y ys)
  obtain x xs' where xs: "xs = x # xs'" using Cons.prems(3) by (cases xs) auto
  obtain b w1 where h: "hydrate_password kr y w = ((b, x), w1)" "cw_store w1 = cw_store w" "no_failed_read w1"
    by (rule hydrate_password_works [OF assms, of w x y]) (use Cons.prems in \<open>simp_all add: xs\<close>)
  have "holds kr w1 = holds kr w" using h(2) by (intro ext holds_same_store)
  then have "list_all (holds kr w1) xs'" using Cons.prems(1) by (simp add: xs)
  moreover have "list_all2 (\<lambda>j i. pi_password j \<in> {[], pi_password i} \<and> blank j = blank i) ys xs'" using Cons.prems(3) by (simp add: xs)
  ultimately obtain hs w2 where "thread (hydrate_password kr) ys w1 = (hs, w2)" "map snd hs = xs'" "no_failed_read w2"
    using Cons.IH [OF _ h(3), of xs'] by blast
  then show ?case by (simp add: xs h(1))
qed simp

lemma registry_refusal_None:
  "registry_refusal reg = None \<Longrightarrow> list_all stable_instance (rg_instances reg) \<Longrightarrow>
    rg_instances reg \<noteq> [] \<and> distinct (map pi_instance_id (rg_instances reg)) \<and> rg_active_instance_id reg \<in> pi_instance_id ` set (rg_instances reg)"
proof -
  assume r: "registry_refusal reg = None" and st: "list_all stable_instance (rg_instances reg)"
  have "map (\<lambda>i. py_strip (pi_instance_id i)) (rg_instances reg) = map pi_instance_id (rg_instances reg)"
    using st by (simp add: list_all_iff stable_instance_def)
  note r' = r [unfolded registry_refusal_def Let_def this]
  show ?thesis using r' by (simp split: if_splits)
qed

lemma save_works:
  assumes "keyring_works kr" and "no_failed_read w" and "list_all stable_instance (rg_instances reg)" and "registry_refusal reg = None"
    and "existing_instance_ids conv file = Inr old"
  obtains w' where "save_pihole_instances kr conv reg file w =
      (Inr (), Some (Some (registry_payload (rg_active_instance_id reg) (map blank (rg_instances reg)))), w')"
    "list_all (holds kr w') (rg_instances reg)" "no_failed_read w'"
proof -
  note ok = registry_refusal_None [OF assms(4,3)]
  obtain w1 where w1: "thread (secure_instance kr) (rg_instances reg) w = (map blank (rg_instances reg), w1)" "no_failed_read w1"
    "list_all (holds kr w1) (rg_instances reg)"
    using secure_all_works [OF assms(1,2)] ok by blast
  have ids: "map (\<lambda>i. py_strip (pi_instance_id i)) (rg_instances reg) = map pi_instance_id (rg_instances reg)"
    using assms(3) by (simp add: list_all_iff stable_instance_def)
  have "set (filter (\<lambda>i. i \<notin> set (map pi_instance_id (rg_instances reg))) old) \<inter> pi_instance_id ` set (rg_instances reg) = {}" by auto
  from delete_all_works [OF assms(1) w1(2,3) this] show ?thesis
    by (intro that) (simp only: save_pihole_instances_def assms(4,5) w1(1) ids Let_def option.case sum.case prod.case, simp_all only:)
qed

lemma read_own_payload:
  assumes "list_all stable_instance xs" and "distinct (map pi_instance_id xs)" and "i \<in> set xs"
    and only: "\<And>j. j \<in> set xs \<Longrightarrow> matches_settings (options_from_instance i) j \<Longrightarrow> j = i"
  shows "read_registry conv hexes (options_from_instance i) (Some (Some (registry_payload (pi_instance_id i) (map blank xs)))) =
    Inr (\<lparr>rg_schema_version = registry_schema_version, rg_active_instance_id = pi_instance_id i,
      rg_instances = map (\<lambda>j. if j = blank i then i else j) (map blank xs)\<rparr>, False)"
proof -
  let ?bs = "map blank xs" and ?o = "options_from_instance i"
  have st: "stable_instance i" using assms(1,3) by (simp add: list_all_iff)
  have m: "matches_settings ?o i" using st by (simp add: matches_settings_def options_from_instance_def stable_instance_def)
  have ids: "map pi_instance_id ?bs = map pi_instance_id xs" by simp
  have db: "distinct ?bs" using assms(2) unfolding ids [symmetric] by (simp only: distinct_map)
  have bi: "blank i \<in> set ?bs" using assms(3) by simp
  have u: "matches_settings ?o b \<longleftrightarrow> b = blank i" if b: "b \<in> set ?bs" for b
  proof
    obtain j where j: "j \<in> set xs" "b = blank j" using b by auto
    assume "matches_settings ?o b"
    then show "b = blank i" using only [OF j(1)] j(2) by simp
  qed (use m in simp)
  have n: "normalize_instances conv hexes 0 {} (map (JObj \<circ> instance_dict) ?bs) = ?bs"
    by (rule normalize_instances_dicts) (use assms(1,2) in \<open>simp_all add: list_all_iff comp_def\<close>)
  have restored: "(blank i)\<lparr>pi_password := str_or (pi_password i) (pi_password (blank i))\<rparr> = i" by (simp add: blank_def str_or_def)
  have "follow_options ?o \<lparr>rg_schema_version = registry_schema_version, rg_active_instance_id = pi_instance_id i, rg_instances = ?bs\<rparr> =
      \<lparr>rg_schema_version = registry_schema_version, rg_active_instance_id = pi_instance_id i, rg_instances = map (\<lambda>j. if j = blank i then i else j) ?bs\<rparr>"
    using find_unique [OF bi u] update_first_unique [OF db u] restored
    by (simp add: follow_options_def options_from_instance_def cong: if_cong map_cong)
  moreover have "pi_instance_id i \<in> pi_instance_id ` set ?bs" "?bs \<noteq> []" using assms(3) by (auto simp: image_image)
  moreover have "py_strip (pi_instance_id i) = pi_instance_id i" "pi_instance_id i \<noteq> []" using st by (simp_all add: stable_instance_def)
  ultimately show ?thesis using n
    by (simp add: read_registry_def registry_payload_def file_schema_version_def registry_schema_version_def raw_instances_def
        jget_def str_default_def str_field_def as_int_def Let_def)
qed

section \<open>Properties\<close>



section \<open>Every loaded registry is well formed\<close>

text \<open>What \<open>uuid4().hex\<close> gives: no blanks, no identifier twice, and none that the file already has.\<close>

definition given_ids :: "py_conv \<Rightarrow> json list \<Rightarrow> string list" where
  "given_ids conv vs = map (\<lambda>r. py_strip (str_default conv (jget ''instance_id'' r) [])) (jobjs vs)"

definition file_ids :: "py_conv \<Rightarrow> registry_file \<Rightarrow> string list" where
  "file_ids conv file = (case file of Some (Some (JObj raw)) \<Rightarrow> (case raw_instances raw of Inr vs \<Rightarrow> given_ids conv vs | Inl _ \<Rightarrow> []) | _ \<Rightarrow> [])"

definition new_uuids :: "(nat \<Rightarrow> string) \<Rightarrow> bool" where
  "new_uuids hexes \<longleftrightarrow> inj hexes \<and> (\<forall>n. \<forall>c\<in>set (hexes n). \<not> py_isspace c)"

lemma given_ids_simps [simp]:
  "given_ids conv [] = []"
  "given_ids conv (JObj raw # vs) = py_strip (str_default conv (jget ''instance_id'' raw) []) # given_ids conv vs"
  "(\<And>raw. v \<noteq> JObj raw) \<Longrightarrow> given_ids conv (v # vs) = given_ids conv vs"
  by (auto simp: given_ids_def jobjs_def map_filter_simps split: json.splits)

lemma strip_new_id: "new_uuids hexes \<Longrightarrow> py_strip (new_instance_id (hexes n)) = new_instance_id (hexes n)"
  by (rule py_strip_no_space) (auto simp: new_uuids_def new_instance_id_def py_isspace_def)

lemma show_nat_last: "show_nat n \<noteq> [] \<and> \<not> py_isspace (last (show_nat n))"
proof -
  have "\<not> py_isspace (digit_char k)" if "k < 10" for k
    using that by (simp add: digit_char_def py_isspace_def of_char_char_of_small Let_def)
  then show ?thesis by (subst (1 2) show_nat.simps) simp
qed

lemma strip_fallback: "py_strip (''Pi-hole '' @ show_nat n) = ''Pi-hole '' @ show_nat n"
  by (rule py_strip_id) (use show_nat_last [of n] in \<open>simp add: py_isspace_def\<close>)

lemma stable_normalized: "new_uuids hexes \<Longrightarrow> stable_instance (normalize_instance conv (hexes n) raw n used)"
proof -
  assume h: "new_uuids hexes"
  have "py_strip default_url = default_url" "default_url \<noteq> []" by code_simp+
  then show ?thesis using strip_new_id [OF h, of n] strip_fallback [of "n + 1"]
    by (auto simp: stable_instance_def normalize_instance_def str_or_def new_instance_id_def Let_def split: option.splits)
qed

lemma stable_from_options:
  "new_uuids hexes \<Longrightarrow> py_strip (ps_base_url opts) \<noteq> [] \<or> ps_base_url opts = [] \<Longrightarrow>
    stable_instance (instance_from_options (hexes n) opts None ''Primary Pi-hole'')"
proof -
  have "py_strip default_url = default_url" "default_url \<noteq> []" "py_strip ''Primary Pi-hole'' = ''Primary Pi-hole''" by code_simp+
  then show "new_uuids hexes \<Longrightarrow> py_strip (ps_base_url opts) \<noteq> [] \<or> ps_base_url opts = [] \<Longrightarrow> ?thesis"
    using strip_new_id [of hexes n] by (auto simp: stable_instance_def instance_from_options_def str_or_def new_instance_id_def)
qed

lemma normalized_ids:
  assumes "new_uuids hexes"
  shows "set (given_ids conv vs) \<inter> new_instance_id ` range hexes = {} \<Longrightarrow> (\<And>m. n \<le> m \<Longrightarrow> new_instance_id (hexes m) \<notin> used) \<Longrightarrow>
    distinct (map pi_instance_id (normalize_instances conv hexes n used vs)) \<and>
    pi_instance_id ` set (normalize_instances conv hexes n used vs) \<inter> used = {} \<and>
    list_all stable_instance (normalize_instances conv hexes n used vs)"
proof (induction vs arbitrary: n used)
  case (Cons v vs)
  show ?case
  proof (cases "\<exists>raw. v = JObj raw")
    case True
    then obtain raw where v: "v = JObj raw" by blast
    let ?i = "normalize_instance conv (hexes n) raw n used"
    have i: "pi_instance_id ?i \<notin> used" using Cons.prems(2) [of n] by (simp add: normalize_instance_def Let_def)
    have "new_instance_id (hexes m) \<notin> insert (pi_instance_id ?i) used" if "Suc n \<le> m" for m
    proof -
      have "hexes m \<noteq> hexes n" using that assms by (auto simp: new_uuids_def dest: injD)
      moreover have "new_instance_id (hexes m) \<notin> set (given_ids conv (v # vs))" using Cons.prems(1) by blast
      ultimately show ?thesis using Cons.prems(2) [of m] that by (auto simp: v normalize_instance_def new_instance_id_def Let_def)
    qed
    moreover have "set (given_ids conv vs) \<inter> new_instance_id ` range hexes = {}" using Cons.prems(1) by (auto simp: v)
    ultimately show ?thesis using Cons.IH [of "Suc n" "insert (pi_instance_id ?i) used"] i stable_normalized [OF assms, of conv n raw used]
      by (auto simp: v Let_def)
  next
    case False
    then have "normalize_instances conv hexes n used (v # vs) = normalize_instances conv hexes (Suc n) used vs"
      "given_ids conv (v # vs) = given_ids conv vs" by (auto split: json.splits)
    then show ?thesis using Cons.IH [of "Suc n" used] Cons.prems by simp
  qed
qed simp

definition registry_ok :: "instance_registry \<Rightarrow> bool" where
  "registry_ok reg \<longleftrightarrow>
     rg_schema_version reg = registry_schema_version \<and> rg_instances reg \<noteq> [] \<and> list_all stable_instance (rg_instances reg) \<and>
     distinct (map pi_instance_id (rg_instances reg)) \<and> rg_active_instance_id reg \<in> pi_instance_id ` set (rg_instances reg)"

lemma map_update_first: "(\<And>x. g (f x) = g x) \<Longrightarrow> map g (update_first p f xs) = map g xs"
  by (induction xs) auto

lemma registry_ok_by_view:
  "map blank (rg_instances reg') = map blank (rg_instances reg) \<Longrightarrow> rg_schema_version reg' = rg_schema_version reg \<Longrightarrow>
    rg_active_instance_id reg' \<in> pi_instance_id ` set (rg_instances reg) \<Longrightarrow> registry_ok reg \<Longrightarrow> registry_ok reg'"
proof -
  assume a: "map blank (rg_instances reg') = map blank (rg_instances reg)" "rg_schema_version reg' = rg_schema_version reg"
    "rg_active_instance_id reg' \<in> pi_instance_id ` set (rg_instances reg)" "registry_ok reg"
  have v: "map f (rg_instances reg') = map f (rg_instances reg)" if "\<And>i. f (blank i) = f i" for f :: "pihole_instance \<Rightarrow> 'b"
  proof -
    have "map f (rg_instances r) = map f (map blank (rg_instances r))" for r :: instance_registry using that by simp
    then show ?thesis using a(1) by metis
  qed
  have i: "map pi_instance_id (rg_instances reg') = map pi_instance_id (rg_instances reg)" by (rule v) simp
  have s: "map stable_instance (rg_instances reg') = map stable_instance (rg_instances reg)" by (rule v) simp
  have "list_all stable_instance (rg_instances r) \<longleftrightarrow> list_all id (map stable_instance (rg_instances r))" for r :: instance_registry
    by (simp add: list_all_iff)
  then have "list_all stable_instance (rg_instances reg') = list_all stable_instance (rg_instances reg)" using s by simp
  moreover have "pi_instance_id ` set (rg_instances reg') = pi_instance_id ` set (rg_instances reg)" using arg_cong [OF i, of set] by simp
  moreover have "rg_instances reg' = [] \<longleftrightarrow> rg_instances reg = []" using arg_cong [OF i, of length] by auto
  ultimately show ?thesis using a(2-4) i by (simp add: registry_ok_def)
qed

lemma follow_options_ok [invs]:
  assumes "registry_ok reg"
  shows "registry_ok (follow_options opts reg)"
proof (cases "List.find (matches_settings opts) (rg_instances reg)")
  case (Some m)
  then have m: "m \<in> set (rg_instances reg)" by (auto simp: find_Some_iff)
  show ?thesis
    by (rule registry_ok_by_view [OF _ _ _ assms]) (use m Some in \<open>simp_all add: follow_options_def map_update_first blank_def\<close>)
next
  case None
  then show ?thesis using assms
    by (auto simp: follow_options_def registry_ok_def stable_instance_def str_or_def split: list.splits)
qed

lemma read_registry_ok:
  assumes "new_uuids hexes" and "set (file_ids conv file) \<inter> new_instance_id ` range hexes = {}"
    and "py_strip (ps_base_url opts) \<noteq> [] \<or> ps_base_url opts = []" and "read_registry conv hexes opts file = Inr (reg, b)"
  shows "registry_ok reg"
proof -
  note first = stable_from_options [OF assms(1,3), of 0]
  show ?thesis
  proof (cases "\<exists>raw. file = Some (Some (JObj raw))")
    case False
    then have "reg = fresh_registry hexes opts" using assms(4) by (auto simp: read_registry_def split: option.splits json.splits)
    then show ?thesis using first by (simp add: fresh_registry_def registry_ok_def Let_def)
  next
    case True
    then obtain raw where f: "file = Some (Some (JObj raw))" by blast
    obtain vs where vs: "raw_instances raw = Inr vs" using assms(4) by (auto simp: f read_registry_def Let_def split: if_splits sum.splits)
    let ?found = "normalize_instances conv hexes 0 {} vs"
    let ?instances = "if ?found = [] then [instance_from_options (hexes 0) opts None ''Primary Pi-hole''] else ?found"
    have n: "distinct (map pi_instance_id ?found)" "list_all stable_instance ?found"
      using normalized_ids [OF assms(1), of conv vs 0 "{}"] assms(2) by (simp_all add: f file_ids_def vs)
    have i: "distinct (map pi_instance_id ?instances)" "list_all stable_instance ?instances" "?instances \<noteq> []" using n first by simp_all
    have "hd ?instances \<in> set ?instances" using i(3) by (rule hd_in_set)
    then have a: "(if a \<in> pi_instance_id ` set ?instances then a else pi_instance_id (hd ?instances)) \<in> pi_instance_id ` set ?instances" for a by simp
    let ?given = "py_strip (str_default conv (jget ''active_instance_id'' raw) [])"
    have r: "reg = follow_options opts \<lparr>rg_schema_version = registry_schema_version,
        rg_active_instance_id = (if ?given \<in> pi_instance_id ` set ?instances then ?given else pi_instance_id (hd ?instances)), rg_instances = ?instances\<rparr>"
      using assms(4) by (cases "registry_schema_version < file_schema_version raw") (simp_all add: f read_registry_def vs Let_def split del: if_split)
    show ?thesis unfolding r by (intro follow_options_ok) (use i a [of ?given] in \<open>simp only: registry_ok_def instance_registry.simps simp_thms\<close>)
  qed
qed

lemma blank_hydrated: "hydrate_password kr i w = ((b, j), w') \<Longrightarrow> blank j = blank i"
  by (auto simp: hydrate_password_def blank_def Let_def split: prod.splits read_state.splits if_splits)

lemma blank_all_hydrated: "thread (hydrate_password kr) xs w = (hs, w') \<Longrightarrow> map blank (map snd hs) = map blank xs"
proof (induction xs arbitrary: w hs w')
  case (Cons x xs)
  obtain b j w1 where h: "hydrate_password kr x w = ((b, j), w1)" by (metis prod_cases3 prod.exhaust)
  obtain hs' w2 where t: "thread (hydrate_password kr) xs w1 = (hs', w2)" by fastforce
  show ?case using Cons.prems Cons.IH [OF t] blank_hydrated [OF h] by (auto simp: h t)
qed simp

text \<open>Every registry that is loaded is well formed, whatever the file contains: it has an instance, the identifiers are distinct, the active one is among them, and every
  instance has stripped texts, a name, an address and a timeout of at least a second, which is what saving and reading back rests on. The
  hypotheses are that new identifiers are new and without blanks, and that the address in the options is not made of blanks.\<close>

theorem loaded_registry_ok:
  assumes "new_uuids hexes" and "set (file_ids conv file) \<inter> new_instance_id ` range hexes = {}"
    and "py_strip (ps_base_url opts) \<noteq> [] \<or> ps_base_url opts = []"
    and "load_pihole_instances kr conv hexes opts file w = (Inr reg, file', w')"
  shows "registry_ok reg"
proof -
  obtain r b where r: "read_registry conv hexes opts file = Inr (r, b)"
    using assms(4) by (auto simp: load_pihole_instances_def split: sum.splits)
  obtain hs w1 where h: "thread (hydrate_password kr) (rg_instances r) w = (hs, w1)" by fastforce
  have "reg = r\<lparr>rg_instances := map snd hs\<rparr>"
    using assms(4) by (auto simp: load_pihole_instances_def r h Let_def split: if_splits prod.splits) (auto simp: map_sum_def split: sum.splits)
  moreover note ok = read_registry_ok [OF assms(1-3) r]
  ultimately show ?thesis
    by (intro registry_ok_by_view [OF _ _ _ ok]) (use blank_all_hydrated [OF h] ok in \<open>simp_all add: registry_ok_def\<close>)
qed


section \<open>Examples\<close>

definition ex_instance :: "string \<Rightarrow> string \<Rightarrow> pihole_instance" where
  "ex_instance n password =
     \<lparr>pi_instance_id = n, pi_name = ''Pi '' @ n, pi_base_url = ''http://'' @ n, pi_password = password, pi_ca_bundle_path = [], pi_timeout_sec = 10\<rparr>"

definition ex_registry :: instance_registry where
  "ex_registry = \<lparr>rg_schema_version = 2, rg_active_instance_id = ''b'', rg_instances = [ex_instance ''a'' ''s1'', ex_instance ''b'' ''s2'', ex_instance ''c'' []]\<rparr>"

definition ex_hexes :: "nat \<Rightarrow> string" where
  "ex_hexes n = replicate n (CHR ''0'')"


definition ex_settings :: pihole_settings where
  "ex_settings = \<lparr>ps_base_url = ''http://p'', ps_password = ''pw'', ps_ca_bundle_path = [], ps_timeout_sec = 5\<rparr>"

definition ex_old_file :: "string \<Rightarrow> registry_file" where
  "ex_old_file second =
     Some (Some (JObj [(''instances'', JList [JObj [(''instance_id'', JStr ''x''), (''name'', JStr ''A'')], JNull,
       JObj [(''instance_id'', JStr ''x''), (''name'', JStr second)]])]))"

lemma loaded_registry_ok_witness:
  "\<exists>reg file' w'. load_pihole_instances ex_keyring ex_conv ex_hexes ex_settings (ex_old_file ''B'') ex_vault = (Inr reg, file', w') \<and> registry_ok reg"
proof -
  obtain r file' w' where r: "load_pihole_instances ex_keyring ex_conv ex_hexes ex_settings (ex_old_file ''B'') ex_vault = (r, file', w')"
    by (metis prod_cases3)
  have "\<not> isl (fst (load_pihole_instances ex_keyring ex_conv ex_hexes ex_settings (ex_old_file ''B'') ex_vault))" by code_simp
  then obtain reg where reg: "r = Inr reg" unfolding r by (cases r) auto
  have u: "new_uuids ex_hexes" by (auto simp: new_uuids_def ex_hexes_def inj_def py_isspace_def replicate_eq_replicate)
  have f: "file_ids ex_conv (ex_old_file ''B'') = [''x'', ''x'']" by code_simp
  have "set (file_ids ex_conv (ex_old_file ''B'')) \<inter> new_instance_id ` range ex_hexes = {}"
    by (auto simp: f new_instance_id_def)
  moreover have "py_strip (ps_base_url ex_settings) \<noteq> [] \<or> ps_base_url ex_settings = []" by code_simp
  ultimately show ?thesis using loaded_registry_ok [OF u _ _ r [unfolded reg]] r reg by blast
qed

text \<open>Two instances of one name: reading accepts them, but an old file must be rewritten, and saving refuses it, so loading raises every time.\<close>

lemma equal_names_stop_loading:
  "fst (load_pihole_instances ex_keyring ex_conv ex_hexes ex_settings (ex_old_file ''A'') ex_vault) =
     Inl (Instance_exn (ValueError ''Pi-hole instance names must be non-empty and unique''))"
  by code_simp

end
