(* ===== verification/Spec2Isabelle.thy ===== *)
theory Spec2Isabelle
  imports Queue_Refinement Worker_Proofs Review_Decisions Evidence Credentials Trigger_Api Rule_Conflicts List_Audit Research Updater Instances
begin

text \<open>
  Wormhole Observatory reads the query log of a Pi-hole, classifies the domains it sees with language models and research
  sources, and maintains the Pi-hole's rules under the control of its user. This development models the program below
  \<open>src/pihole_manager/\<close> (and the two request builders of \<open>src/pihole6api/domain_management.py\<close>) as functions on explicit
  state, and proves what makes each part correct. The properties \<open>C1\<close> to \<open>C40\<close> stand in the theories of the parts they
  speak about, each right after a text that states it, with a witness at concrete input.

  \<^bold>\<open>How the parts interact.\<close> The collector (\<open>Worker\<close>, \<open>scanner_pass\<close>) records queries and puts domains into a durable queue
  (\<open>Staging\<close>); the list audit (\<open>List_Audit\<close>), the review server (\<open>Trigger_Api\<close>) and due rechecks put domains there too. A
  classifier worker (\<open>Worker\<close>, \<open>classifier_cycle\<close>) claims a batch, the dispatcher (\<open>Dispatcher\<close>) sends it to the providers of a
  pool, under the limits of \<open>Provider_Limits\<close> and the reservations of \<open>Quota\<close>; \<open>Llm\<close> validates the answers. The handler
  (\<open>Policy_Engine\<close>) applies compatibility profiles (\<open>Compatibility\<close>) and the behaviour-change guard (\<open>Behavior_Change\<close>), saves the
  classification (\<open>Review_Store\<close>), and may write a rule to the Pi-hole through the guarded and audited operations of
  \<open>Pihole\<close>. The user decides reviews with \<open>Review_Decisions\<close>. \<open>Config\<close> and its successors load, repair and store the options that
  all of them read. \<open>Research\<close> gathers evidence for the domains of a batch from the cache and the sources, \<open>Evidence\<close> weighs it,
  \<open>Service_Graph\<close> relates domains and services. \<open>Rule_Conflicts\<close> reports contradictions among the rules, \<open>Instances\<close> keeps the registry of
  Pi-hole servers, \<open>Updater\<close> decides about new releases.

  \<^bold>\<open>Theories and sources.\<close>
  \<^item> \<open>Prelude\<close>: Python values and string methods, dictionaries in insertion order, loops that may raise, SQL tables as lists of
    rows; the locale \<open>keyed_table\<close>, the contract of a table with a primary key, interpreted on every table.
  \<^item> \<open>Models\<close> (\<open>models.py\<close>): enumerations and dataclasses; the locale \<open>str_enum\<close> is the round trip of an enumeration with its values.
  \<^item> \<open>Database\<close>, \<open>Staging\<close>, \<open>Features\<close> (\<open>database_core.py\<close>, \<open>database_features.py\<close>): the record \<open>db\<close> of all tables, \<open>db_ok\<close> with its key
    constraints, normalisation (locale \<open>normalizer\<close>), the queue, observations, findings, locks, review tasks. \<open>Queue_Machine\<close> makes all
    writers of the queue one step relation: reachable stores are well formed and a claimed domain is not handed out twice.
    \<open>Queue_Refinement\<close> shows that the tables implement an abstract job board (locale \<open>simulation\<close>).
  \<^item> \<open>Review_Store\<close> (\<open>database_review.py\<close>, \<open>manual_tag_overrides.py\<close>), \<open>Analysis_Store\<close> (\<open>database_analysis.py\<close>): classification history, reviews,
    runs, provider health, benchmarks.
  \<^item> \<open>Behavior_Change\<close>, \<open>Compatibility\<close>, \<open>Policy_Engine\<close> (\<open>behavior_change.py\<close>, \<open>compatibility_profiles.py\<close>, \<open>workers.py\<close>): from a classification to a decision; the
    handler changes the Pi-hole only if every safety condition holds.
  \<^item> \<open>Pihole\<close> (\<open>pihole_service.py\<close>, \<open>pihole_rules.py\<close>, \<open>pihole_audit.py\<close>): guarded writes, the audit trail, and that a rollback restores
    what an audited change found.
  \<^item> \<open>Provider_Limits\<close>, \<open>Quota\<close> (\<open>provider_registry.py\<close>, \<open>quota.py\<close>): limit profiles and the ledger; granted usage stays within the
    caps, and a refused request is told a time at which it fits.
  \<^item> \<open>Llm\<close>, \<open>Dispatcher\<close>, \<open>Dispatch_Proofs\<close> (\<open>llm.py\<close>, \<open>analysis_dispatcher.py\<close>): answers are exactly about the requested domains; every pool mode
    accounts for every domain; the locale \<open>batch_classifier\<close> is the contract between the two.
  \<^item> \<open>Worker\<close>, \<open>Worker_Proofs\<close> (\<open>workers.py\<close>): one pass of each worker; every claimed row is settled and leaves the queue with a result only.
  \<^item> \<open>Review_Decisions\<close> (\<open>application/\<close>, \<open>review_decisions.py\<close>, \<open>review_preferences.py\<close>): the application services.
  \<^item> \<open>Evidence\<close> (\<open>evidence_quality.py\<close>, \<open>evidence_freshness.py\<close>): contradictions are exact, expiry is the least ceiling.
  \<^item> \<open>Config\<close>, \<open>Config_Validate\<close>, \<open>Config_Proofs\<close>, \<open>Config_Migrate\<close>, \<open>Credentials\<close> (\<open>config.py\<close>, \<open>credentials.py\<close>): defaults, validation, migration, secrets; every
    file loads into well-formed options, and secrets survive a save and a load.
  \<^item> \<open>Network_Access\<close>, \<open>Trigger_Api\<close> (\<open>network_access.py\<close>, \<open>external_trigger.py\<close>): addresses as words of 32 and 128 bits, the request handlers; strangers
    change nothing, and one request calls at most one operation within bounds.
  \<^item> \<open>Rule_Conflicts\<close> (\<open>rule_conflicts.py\<close>): the report equals an inductive reference of what a conflict is.
  \<^item> \<open>List_Audit\<close> (\<open>list_rule_parser.py\<close>, \<open>list_audit.py\<close>, \<open>list_audit_config.py\<close>): the cycle queues exactly the unclassified host names of the lists.
  \<^item> \<open>Service_Graph\<close> (\<open>service_graph.py\<close>): the dependency graph is closed and has one node and edge per key.
  \<^item> \<open>Catalogs\<close>, \<open>Licensing\<close> (\<open>research_catalogs.py\<close>, \<open>repository_lists.py\<close>, \<open>evidence_licensing.py\<close>): catalogues that are downloaded whole; a lookup
    reports exactly the entries for the domain and its parents.
  \<^item> \<open>Research_Common\<close> (\<open>research_common.py\<close>, \<open>http_retry.py\<close>): delays, pacing (requests to a source keep their distance) and redaction, which leaves no
    form of an API key. \<open>Research\<close> (\<open>research.py\<close> and the facade of \<open>database.py\<close> before the findings): the evidence gathered for a batch is exact, and locked domains are
    never sent out.
  \<^item> \<open>Instances\<close> (\<open>pihole_instances.py\<close>): every registry that is loaded is well formed, and it survives a save and a load.
  \<^item> \<open>Updater\<close> (\<open>updater.py\<close>): versions, choice of a release and its file, what may be unpacked and installed, quoting in the installer scripts.

  \<^bold>\<open>Conventions.\<close> Strings are ASCII; \<open>lower\<close> and \<open>casefold\<close> agree. Python integers are \<^typ>\<open>int\<close>, floats exact rationals. The clock is an argument of
  the operation that reads it. A raised exception is the left summand of a result; an operation that is one SQL transaction returns no store when it
  raises, an operation over several stores returns the state it leaves behind next to its result. What the code calls outside the
  repository is an argument: the Pi-hole server, the keyring, HTTP requests and their answers, \<open>json.loads\<close> and \<open>json.dumps\<close>, SHA-256 and HMAC, \<open>uuid4\<close>, regular expressions,
  \<open>urlparse\<close>, \<open>fnmatch\<close>. Hypotheses about them (\<open>server_laws\<close>, the laws of the keyring, the length of a digest) state documented behaviour, and
  each property that has one has a witness with a concrete function.

  \<^bold>\<open>Termination.\<close> Nothing needs fuel: every loop of the models is structural recursion, a \<^const>\<open>fold\<close> or a \<^theory_text>\<open>function\<close> with a measure. The
  request loop of a provider, which splits and repeats refused batches, ends after fewer than twice as many requests as domains.

  \<^bold>\<open>Not modelled.\<close> The Qt interface (\<open>gui/\<close>), HTTP clients (\<open>provider_api.py\<close>, \<open>http_retry.py\<close>, \<open>src/pihole6api\<close> but for the two request builders), the adapters
  of the live lookups (\<open>research_lookups.py\<close>, \<open>research_reputation.py\<close>, \<open>research_urlhaus.py\<close>), whose findings are answers of the sources here, the cache of
  downloads, notifications, discovery, the installer scripts of the updater, prompt texts, citations, logging, file paths and schema migrations of the database: they are
  input and output around the state modelled here.
  Threads appear as sequences of whole transactions; starting, waiting and stopping them is left out.
\<close>

end
